(* ===== verification/Prelude.thy ===== *)
theory Prelude
  imports Complex_Main "HOL-Library.List_Lexorder" "HOL-Library.Char_ord"
    "HOL-Library.Product_Lexorder"
begin

text \<open>
  Shared vocabulary of the development: Python strings, dictionaries, exceptions as values,
  and the list and arithmetic lemmas that several components use.

  \<^item> A Python \<open>str\<close> is a HOL \<open>string\<close>; only the operations the program uses are defined.
  \<^item> A Python \<open>dict\<close> is an association list in insertion order with distinct keys:
    \<open>dict_set\<close> overwrites in place or appends, \<open>dict_pop\<close> removes a key.
  \<^item> A raised exception is the left summand of \<open>exn + 'a\<close>.
  \<^item> A Python \<open>Decimal\<close> is a rational number (exact arithmetic; the 28 digit context of the
    decimal module is not modelled), an \<open>int\<close> is a HOL \<open>int\<close>, and a \<open>datetime\<close> is an \<open>int\<close>:
    microseconds since the Unix epoch, UTC.
\<close>

named_theorems run_simps \<open>selectors of the runtime node functions\<close>
named_theorems guard_simps \<open>defining equations of the decision procedures\<close>
named_theorems sql_simps \<open>reading the rows of a table after a statement\<close>

type_synonym str = string
type_synonym decimal = rat
type_synonym datetime = int

section \<open>Exceptions\<close>

datatype exn =
    ValueError str
  | KeyError str
  | RuntimeError str
  | AttributeError str
  | TypeError str
  | RedisError
  | IntegrityError str
  | TenantContextMissingError str
  | RunNotFoundError str
  | ControlPlaneConflictError str
  | BudgetExceededError str
  | ProviderRoutingError str
  | HTTPException nat str
  | GraphRecursionError
  | OtherError str

type_synonym 'a result = "exn + 'a"

fun bind_result :: "'a result \<Rightarrow> ('a \<Rightarrow> 'b result) \<Rightarrow> 'b result" where
  "bind_result (Inl e) f = Inl e"
| "bind_result (Inr x) f = f x"

lemma bind_result_Inr_iff [simp]:
  "bind_result m f = Inr y \<longleftrightarrow> (\<exists>x. m = Inr x \<and> f x = Inr y)"
  by (cases m) auto

lemma bind_result_Inl_iff:
  "bind_result m f = Inl e \<longleftrightarrow> m = Inl e \<or> (\<exists>x. m = Inr x \<and> f x = Inl e)"
  by (cases m) auto

lemma bind_result_assoc:
  "bind_result (bind_result m f) g = bind_result m (\<lambda>x. bind_result (f x) g)"
  by (cases m) auto

section \<open>Strings\<close>

fun str_of_nat :: "nat \<Rightarrow> str" where
  "str_of_nat n =
     (if n < 10 then [char_of (48 + n)] else str_of_nat (n div 10) @ [char_of (48 + n mod 10)])"

declare str_of_nat.simps [simp del]

definition str_of_int :: "int \<Rightarrow> str" where
  "str_of_int i = (if i < 0 then ''-'' @ str_of_nat (nat (- i)) else str_of_nat (nat i))"

text \<open>Reading a numeral back, which makes \<open>str_of_nat\<close> injective.\<close>

definition nat_of_str :: "str \<Rightarrow> nat" where
  "nat_of_str s = foldl (\<lambda>n c. 10 * n + (of_char c - 48)) 0 s"

lemma nat_of_str_of_nat: "nat_of_str (str_of_nat n) = n"
proof (induction n rule: str_of_nat.induct)
  case (1 n)
  show ?case
  proof (cases "n < 10")
    case True
    then show ?thesis
      by (subst str_of_nat.simps) (simp add: nat_of_str_def)
  next
    case False
    with 1 have "nat_of_str (str_of_nat (n div 10)) = n div 10" by simp
    with False show ?thesis
      by (subst str_of_nat.simps) (simp add: nat_of_str_def)
  qed
qed

lemma str_of_nat_inj [simp]: "str_of_nat m = str_of_nat n \<longleftrightarrow> m = n"
  by (metis nat_of_str_of_nat)

fun str_join :: "str \<Rightarrow> str list \<Rightarrow> str" where
  "str_join sep [] = []"
| "str_join sep [s] = s"
| "str_join sep (s # t # ts) = s @ sep @ str_join sep (t # ts)"

text \<open>\<open>enumerate(xs, start=i)\<close>.\<close>

fun enumerate_from :: "nat \<Rightarrow> 'a list \<Rightarrow> (nat \<times> 'a) list" where
  "enumerate_from i [] = []"
| "enumerate_from i (x # xs) = (i, x) # enumerate_from (Suc i) xs"

lemma map_snd_enumerate_from [simp]: "map snd (enumerate_from i xs) = xs"
  by (induction xs arbitrary: i) auto

lemma enumerate_from_eq_Nil [simp]: "enumerate_from i xs = [] \<longleftrightarrow> xs = []"
  by (cases xs) auto

lemma length_enumerate_from [simp]: "length (enumerate_from i xs) = length xs"
  by (induction xs arbitrary: i) auto

lemma enumerate_from_ge: "p \<in> set (enumerate_from i xs) \<Longrightarrow> i \<le> fst p"
  by (induction xs arbitrary: i) (auto dest: Suc_leD)

lemma distinct_fst_enumerate_from [simp]: "distinct (map fst (enumerate_from i xs))"
proof (induction xs arbitrary: i)
  case Nil
  then show ?case by simp
next
  case (Cons x xs)
  have "i \<notin> set (map fst (enumerate_from (Suc i) xs))"
    using enumerate_from_ge[of _ "Suc i" xs] by force
  with Cons show ?case by simp
qed

section \<open>The first matching row\<close>

lemma find_SomeD: "find P xs = Some x \<Longrightarrow> x \<in> set xs \<and> P x"
  by (induction xs) (auto split: if_splits)

lemma find_None_list_ex: "find P xs = None \<longleftrightarrow> \<not> list_ex P xs"
  by (auto simp: find_None_iff list_ex_iff)

lemma find_append: "find P (xs @ ys) = (case find P xs of None \<Rightarrow> find P ys | Some x \<Rightarrow> Some x)"
  by (induction xs) auto

lemma find_filter_keep: "find Q xs = Some b \<Longrightarrow> P b \<Longrightarrow> find Q (filter P xs) = Some b"
  by (induction xs) (auto split: if_splits)

lemma find_filter_same: "(\<And>x. Q x \<Longrightarrow> P x) \<Longrightarrow> find Q (filter P xs) = find Q xs"
  by (induction xs) auto

text \<open>A keyed update of all rows, \<open>UPDATE ... WHERE key = j\<close>, seen through the lookup by key.\<close>

lemma find_update:
  assumes "\<And>x. key (f x) = key x"
  shows "find (\<lambda>x. key x = i) (map (\<lambda>x. if key x = j then f x else x) xs) =
    (if i = j then map_option f (find (\<lambda>x. key x = i) xs) else find (\<lambda>x. key x = i) xs)"
  using assms by (induction xs) auto

lemma map_key_update [simp]:
  "(\<And>x. key (f x) = key x) \<Longrightarrow> map (key \<circ> (\<lambda>x. if P x then f x else x)) xs = map key xs"
  by (induction xs) auto

lemma find_keyed_None: "find (\<lambda>x. key x = i) xs = None \<longleftrightarrow> i \<notin> key ` set xs"
  by (auto simp: find_None_iff)

lemma find_keyed_SomeD: "find (\<lambda>x. key x = i) xs = Some r \<Longrightarrow> r \<in> set xs \<and> key r = i"
  by (drule find_SomeD) simp

lemma find_keyed_distinct:
  "distinct (map key xs) \<Longrightarrow> r \<in> set xs \<Longrightarrow> find (\<lambda>x. key x = key r) xs = Some r"
proof (induction xs)
  case Nil
  then show ?case by simp
next
  case (Cons x xs)
  then show ?case by (cases "r = x") (auto simp: image_iff)
qed

lemma list_ex_keyed: "list_ex (\<lambda>x. key x = i) xs \<longleftrightarrow> i \<in> key ` set xs"
  by (auto simp: list_ex_iff)

section \<open>Dictionaries\<close>

fun dict_get :: "('k \<times> 'v) list \<Rightarrow> 'k \<Rightarrow> 'v option" where
  "dict_get [] k = None"
| "dict_get ((k', v) # d) k = (if k' = k then Some v else dict_get d k)"

fun dict_set :: "'k \<Rightarrow> 'v \<Rightarrow> ('k \<times> 'v) list \<Rightarrow> ('k \<times> 'v) list" where
  "dict_set k v [] = [(k, v)]"
| "dict_set k v ((k', w) # d) = (if k' = k then (k', v) # d else (k', w) # dict_set k v d)"

definition dict_pop :: "'k \<Rightarrow> ('k \<times> 'v) list \<Rightarrow> ('k \<times> 'v) list" where
  "dict_pop k d = filter (\<lambda>p. fst p \<noteq> k) d"

definition dict_getd :: "('k \<times> 'v) list \<Rightarrow> 'k \<Rightarrow> 'v \<Rightarrow> 'v" where
  "dict_getd d k x = (case dict_get d k of None \<Rightarrow> x | Some v \<Rightarrow> v)"

definition dict_has :: "('k \<times> 'v) list \<Rightarrow> 'k \<Rightarrow> bool" where
  "dict_has d k \<longleftrightarrow> dict_get d k \<noteq> None"

text \<open>A dictionary built by inserting pairs in order, as a comprehension does.\<close>

definition dict_of :: "('k \<times> 'v) list \<Rightarrow> ('k \<times> 'v) list" where
  "dict_of ps = fold (\<lambda>(k, v) d. dict_set k v d) ps []"

lemma dict_get_set [simp]:
  "dict_get (dict_set k v d) j = (if j = k then Some v else dict_get d j)"
  by (induction d) auto

lemma dict_get_pop [simp]:
  "dict_get (dict_pop k d) j = (if j = k then None else dict_get d j)"
  by (induction d) (auto simp: dict_pop_def)

lemma dict_has_set [simp]: "dict_has (dict_set k v d) j \<longleftrightarrow> j = k \<or> dict_has d j"
  by (simp add: dict_has_def)

lemma dict_has_pop [simp]: "dict_has (dict_pop k d) j \<longleftrightarrow> j \<noteq> k \<and> dict_has d j"
  by (simp add: dict_has_def)

lemma map_fst_dict_set:
  "map fst (dict_set k v d) = (if k \<in> fst ` set d then map fst d else map fst d @ [k])"
  by (induction d) (auto split: if_splits)

lemma keys_dict_set [simp]: "fst ` set (dict_set k v d) = insert k (fst ` set d)"
  using arg_cong[OF map_fst_dict_set[of k v d], of set] by (auto split: if_splits)

lemma keys_dict_pop [simp]: "fst ` set (dict_pop k d) = fst ` set d - {k}"
  by (auto simp: dict_pop_def)

lemma dict_get_None_iff: "dict_get d k = None \<longleftrightarrow> k \<notin> fst ` set d"
proof (induction d)
  case Nil
  then show ?case by simp
next
  case (Cons p d)
  then show ?case by (cases p) auto
qed

lemma dict_get_SomeD: "dict_get d k = Some v \<Longrightarrow> (k, v) \<in> set d"
proof (induction d)
  case Nil
  then show ?case by simp
next
  case (Cons p d)
  then show ?case by (cases p) (auto split: if_splits)
qed

lemma distinct_dict_set [simp]:
  "distinct (map fst d) \<Longrightarrow> distinct (map fst (dict_set k v d))"
  by (auto simp: map_fst_dict_set)

lemma dict_get_set_fun: "dict_get (dict_set k v d) = (dict_get d)(k \<mapsto> v)"
  by auto

lemma dict_get_of: "dict_get (dict_of ps) = map_of (rev ps)"
proof -
  have "dict_get (fold (\<lambda>(k, v) d. dict_set k v d) ps d) = dict_get d ++ map_of (rev ps)" for d :: "('a \<times> 'b) list"
    by (induction ps arbitrary: d) (auto simp: dict_get_set_fun)
  moreover have "dict_get ([] :: ('a \<times> 'b) list) = Map.empty" by (rule ext) simp
  ultimately show ?thesis by (simp add: dict_of_def)
qed

lemma dict_get_of_SomeD: "dict_get (dict_of ps) k = Some v \<Longrightarrow> (k, v) \<in> set ps"
  by (auto simp: dict_get_of dest: map_of_SomeD)

lemma dict_get_of_None: "dict_get (dict_of ps) k = None \<longleftrightarrow> k \<notin> fst ` set ps"
  by (simp add: dict_get_of map_of_eq_None_iff)

lemma dict_get_of_distinct:
  "distinct (map fst ps) \<Longrightarrow> dict_get (dict_of ps) k = Some v \<longleftrightarrow> (k, v) \<in> set ps"
  by (simp add: dict_get_of map_of_is_SomeI rev_map[symmetric] map_of_eq_Some_iff)

section \<open>Stateful operations\<close>

text \<open>
  An operation that changes a state and may raise: the state it leaves behind is part of the
  result also when it raises, because what it committed before the exception stays.
\<close>

type_synonym ('s, 'a) operation = "'s \<Rightarrow> 'a result \<times> 's"

definition op_bind :: "('s, 'a) operation \<Rightarrow> ('a \<Rightarrow> ('s, 'b) operation) \<Rightarrow> ('s, 'b) operation" where
  "op_bind m f s = (case m s of (Inl e, s') \<Rightarrow> (Inl e, s') | (Inr x, s') \<Rightarrow> f x s')"

lemma op_bind_Inr:
  "op_bind m f s = (Inr y, s') \<longleftrightarrow> (\<exists>x s1. m s = (Inr x, s1) \<and> f x s1 = (Inr y, s'))"
  by (auto simp: op_bind_def split: prod.splits sum.splits)

lemma op_bind_simps [simp]:
  "m s = (Inl e, s') \<Longrightarrow> op_bind m f s = (Inl e, s')"
  "m s = (Inr x, s') \<Longrightarrow> op_bind m f s = f x s'"
  by (simp_all add: op_bind_def)

text \<open>An invariant of the state that an operation keeps, whether it returns or raises.\<close>

definition op_keeps :: "('s \<Rightarrow> bool) \<Rightarrow> ('s, 'a) operation \<Rightarrow> bool" where
  "op_keeps P m \<longleftrightarrow> (\<forall>s. P s \<longrightarrow> P (snd (m s)))"

lemma op_keepsD: "op_keeps P m \<Longrightarrow> P s \<Longrightarrow> P (snd (m s))"
  by (simp add: op_keeps_def)

lemma op_keeps_bind [intro]:
  "op_keeps P m \<Longrightarrow> (\<And>x. op_keeps P (f x)) \<Longrightarrow> op_keeps P (op_bind m f)"
  by (auto simp: op_keeps_def op_bind_def split: prod.splits sum.splits)

lemma op_keeps_same [simp, intro]: "op_keeps P (\<lambda>s. (r s, s))"
  by (simp add: op_keeps_def)

section \<open>Rounding and the calendar\<close>

text \<open>\<open>ROUND_HALF_UP\<close> of the decimal module: to the nearest integer, ties away from zero.\<close>

definition round_half_up :: "decimal \<Rightarrow> int" where
  "round_half_up x = (if 0 \<le> x then \<lfloor>x + 1 / 2\<rfloor> else - \<lfloor>1 / 2 - x\<rfloor>)"

lemma round_half_up_of_int [simp]: "round_half_up (of_int n) = n"
proof -
  have half: "\<lfloor>of_int m + 1 / 2 :: rat\<rfloor> = m" for m :: int
    by (simp add: floor_eq_iff)
  show ?thesis
    using half[of n] half[of "- n"] by (simp add: round_half_up_def)
qed

lemma round_half_up_mono: "x \<le> y \<Longrightarrow> round_half_up x \<le> round_half_up y"
proof -
  assume le: "x \<le> y"
  have nonneg: "0 \<le> \<lfloor>z + 1 / 2 :: rat\<rfloor>" if "0 \<le> z" for z using that by simp
  show ?thesis
  proof (cases "0 \<le> x")
    case True
    with le show ?thesis by (simp add: round_half_up_def floor_mono)
  next
    case x: False
    show ?thesis
    proof (cases "0 \<le> y")
      case True
      have "0 \<le> \<lfloor>1 / 2 - x\<rfloor>" using x by simp
      with nonneg[OF True] x True show ?thesis by (simp add: round_half_up_def del: zero_le_floor le_floor_iff)
    next
      case False
      with x le show ?thesis by (simp add: round_half_up_def floor_mono)
    qed
  qed
qed

lemma round_half_up_nonneg: "0 \<le> x \<Longrightarrow> 0 \<le> round_half_up x"
  using round_half_up_mono[of 0 x] round_half_up_of_int[of 0] by simp

lemma round_half_up_zero: "0 \<le> x \<Longrightarrow> round_half_up x = 0 \<longleftrightarrow> x < 1 / 2"
  by (auto simp: round_half_up_def floor_eq_iff)

text \<open>
  The proleptic Gregorian date of a day number since the epoch, and the pieces of \<open>strftime\<close>
  and \<open>replace\<close> that the program uses.
\<close>

definition day_us :: int where "day_us = 86400000000"

definition year_of_era :: "int \<Rightarrow> int" where
  "year_of_era doe = (doe - doe div 1460 + doe div 36524 - doe div 146096) div 365"

definition day_of_year :: "int \<Rightarrow> int" where
  "day_of_year doe =
     doe - (365 * year_of_era doe + year_of_era doe div 4 - year_of_era doe div 100)"

definition day_of_month :: "int \<Rightarrow> int" where
  "day_of_month doy = doy - (153 * ((5 * doy + 2) div 153) + 2) div 5 + 1"

definition month_of_doy :: "int \<Rightarrow> int" where
  "month_of_doy doy = (let mp = (5 * doy + 2) div 153 in if mp < 10 then mp + 3 else mp - 9)"

definition civil_from_days :: "int \<Rightarrow> int \<times> int \<times> int" where
  "civil_from_days days =
     (let era = (days + 719468) div 146097; doe = (days + 719468) mod 146097;
          doy = day_of_year doe; m = month_of_doy doy
      in (year_of_era doe + era * 400 + (if m \<le> 2 then 1 else 0), m, day_of_month doy))"

definition pad2 :: "int \<Rightarrow> str" where
  "pad2 i = (if i < 10 then ''0'' else []) @ str_of_int i"

definition pad4 :: "int \<Rightarrow> str" where
  "pad4 i = (if i < 10 then ''000'' else if i < 100 then ''00'' else if i < 1000 then ''0'' else []) @ str_of_int i"

definition strftime_ymd :: "datetime \<Rightarrow> str" where
  "strftime_ymd now = (case civil_from_days (now div day_us) of
     (y, m, d) \<Rightarrow> str_of_int y @ pad2 m @ pad2 d)"

definition strftime_ym :: "datetime \<Rightarrow> str" where
  "strftime_ym now = (case civil_from_days (now div day_us) of
     (y, m, d) \<Rightarrow> str_of_int y @ pad2 m)"

text \<open>\<open>date().isoformat()\<close>.\<close>

definition date_isoformat :: "datetime \<Rightarrow> str" where
  "date_isoformat t =
     (case civil_from_days (t div day_us) of (y, m, d) \<Rightarrow> pad4 y @ ''-'' @ pad2 m @ ''-'' @ pad2 d)"

definition day_start_of :: "datetime \<Rightarrow> datetime" where
  "day_start_of now = now - now mod day_us"

definition month_start_of :: "datetime \<Rightarrow> datetime" where
  "month_start_of now =
     (case civil_from_days (now div day_us) of
        (y, m, d) \<Rightarrow> day_start_of now - (d - 1) * day_us)"

lemma day_of_month_pos: "1 \<le> day_of_month doy"
proof -
  have "153 * ((5 * doy + 2) div 153) \<le> 5 * doy + 2"
    using mult_div_mod_eq[of 153 "5 * doy + 2"] pos_mod_sign[of 153 "5 * doy + 2"] by linarith
  then have "(153 * ((5 * doy + 2) div 153) + 2) div 5 \<le> (5 * doy + 4) div 5"
    by (intro zdiv_mono1) simp_all
  moreover have "(5 * doy + 4) div 5 = doy" by simp
  ultimately show ?thesis by (simp only: day_of_month_def)
qed

lemma civil_day_pos: "1 \<le> snd (snd (civil_from_days n))"
  by (simp only: civil_from_days_def Let_def snd_conv day_of_month_pos)

lemma civil_epoch: "civil_from_days 0 = (1970, 1, 1)" "civil_from_days 20573 = (2026, 4, 30)"
  by code_simp+

lemma day_start_le: "day_start_of now \<le> now"
  by (simp add: day_start_of_def day_us_def)

lemma month_start_le: "month_start_of now \<le> day_start_of now"
  using civil_day_pos[of "now div day_us"]
  by (cases "civil_from_days (now div day_us)") (simp add: month_start_of_def day_us_def)

end
