(* ===== verification/RuntimeModels.thy ===== *)
theory RuntimeModels
  imports Prelude
begin

text \<open>
  The data model of the ticket runtime, \<open>backend/runtime/models.py\<close>: enumerations as datatypes
  (\<open>..._value\<close> is the string of the \<open>StrEnum\<close> member), pydantic classes as records. Fields are
  prefixed by an abbreviation of their class because HOL field names are global. Identifiers
  drawn by \<open>uuid4\<close> are arguments.
\<close>

section \<open>Enumerations\<close>

datatype ArtifactKind =
    CONSTITUTION | FEATURE_SPEC | CLARIFICATION_NOTES | IMPLEMENTATION_PLAN | TASK_LIST

fun ArtifactKind_value :: "ArtifactKind \<Rightarrow> str" where
  "ArtifactKind_value CONSTITUTION = ''constitution''"
| "ArtifactKind_value FEATURE_SPEC = ''feature_spec''"
| "ArtifactKind_value CLARIFICATION_NOTES = ''clarification_notes''"
| "ArtifactKind_value IMPLEMENTATION_PLAN = ''implementation_plan''"
| "ArtifactKind_value TASK_LIST = ''task_list''"

datatype ContextSource =
    JIRA | REPOSITORY | RUN_STATE | INTERNAL_KNOWLEDGE | FIRST_PARTY | EXTERNAL_RESEARCH

fun ContextSource_value :: "ContextSource \<Rightarrow> str" where
  "ContextSource_value JIRA = ''jira''"
| "ContextSource_value REPOSITORY = ''repository''"
| "ContextSource_value RUN_STATE = ''run_state''"
| "ContextSource_value INTERNAL_KNOWLEDGE = ''internal_knowledge''"
| "ContextSource_value FIRST_PARTY = ''first_party''"
| "ContextSource_value EXTERNAL_RESEARCH = ''external_research''"

datatype RunNode =
    INTAKE | LOAD_CONSTITUTION | CREATE_FEATURE_SPEC | CLARIFY | CREATE_PLAN
  | CREATE_TASK_LIST | READINESS_GATE | CODER | TESTER | REVIEWER | PRE_PR_SYNC
  | PR_CREATOR | ESCALATE

datatype RunStatus = PLANNING | ACTIVE | PAUSED | COMPLETED

datatype EscalationReason =
    UNRESOLVED_AMBIGUITY | TEST_RETRY_BUDGET_EXHAUSTED | REVIEW_BUDGET_EXHAUSTED
  | MISSING_OR_FAILING_REQUIRED_TESTS | DIFF_TOO_LARGE | MERGE_CONFLICT_DETECTED
  | INVALID_ROUTE_ATTEMPT | MISSING_ESCALATION_SINK | BUDGET_EXHAUSTED
  | ALL_PROVIDERS_UNAVAILABLE | PROVIDER_FAILOVER_EXHAUSTED
  | ORPHANED_BUDGET_RESERVATION_DETECTED | BILLING_RECONCILIATION_DRIFT
  | BRANCH_PROTECTION_MISSING

fun EscalationReason_value :: "EscalationReason \<Rightarrow> str" where
  "EscalationReason_value UNRESOLVED_AMBIGUITY = ''unresolved_ambiguity''"
| "EscalationReason_value TEST_RETRY_BUDGET_EXHAUSTED = ''test_retry_budget_exhausted''"
| "EscalationReason_value REVIEW_BUDGET_EXHAUSTED = ''review_budget_exhausted''"
| "EscalationReason_value MISSING_OR_FAILING_REQUIRED_TESTS =
     ''missing_or_failing_required_tests''"
| "EscalationReason_value DIFF_TOO_LARGE = ''diff_too_large''"
| "EscalationReason_value MERGE_CONFLICT_DETECTED = ''merge_conflict_detected''"
| "EscalationReason_value INVALID_ROUTE_ATTEMPT = ''invalid_route_attempt''"
| "EscalationReason_value MISSING_ESCALATION_SINK = ''missing_escalation_sink''"
| "EscalationReason_value BUDGET_EXHAUSTED = ''budget_exhausted''"
| "EscalationReason_value ALL_PROVIDERS_UNAVAILABLE = ''all_providers_unavailable''"
| "EscalationReason_value PROVIDER_FAILOVER_EXHAUSTED = ''provider_failover_exhausted''"
| "EscalationReason_value ORPHANED_BUDGET_RESERVATION_DETECTED =
     ''orphaned_budget_reservation_detected''"
| "EscalationReason_value BILLING_RECONCILIATION_DRIFT = ''billing_reconciliation_drift''"
| "EscalationReason_value BRANCH_PROTECTION_MISSING = ''branch_protection_missing''"

lemma EscalationReason_value_inj: "EscalationReason_value a = EscalationReason_value b \<Longrightarrow> a = b"
  by (cases a; cases b; simp)

section \<open>Artifacts and the task list\<close>

record TenantContext =
  tc_tenant_id :: str
  tc_team_id :: str

record RuntimeArtifact =
  ra_artifact_id :: str
  ra_kind :: ArtifactKind
  ra_summary :: str
  ra_version :: int

datatype TaskCategory = Implementation | UnitTest | E2eTest | Quality

record TaskItem =
  ti_task_id :: str
  ti_title :: str
  ti_category :: TaskCategory
  ti_paired_with :: "str option"

datatype TestKind = Unit | E2e

record TestTarget =
  tt_name :: str
  tt_kind :: TestKind

record QualityTarget =
  qt_name :: str

record TaskListArtifact = RuntimeArtifact +
  tl_tasks :: "TaskItem list"
  tl_required_test_targets :: "TestTarget list"
  tl_required_quality_checks :: "QualityTarget list"
  tl_public_surface_change :: bool

definition new_artifact :: "str \<Rightarrow> ArtifactKind \<Rightarrow> str \<Rightarrow> RuntimeArtifact" where
  "new_artifact uid k s = \<lparr>ra_artifact_id = uid, ra_kind = k, ra_summary = s, ra_version = 1\<rparr>"

text \<open>
  \<open>validate_for_repo_write\<close> iterates over a Python set of task ids, whose order is not fixed:
  \<open>set_order\<close> is the order in which the interpreter visits it, given the list of insertions.
  The second component of a pair is the list of errors.
\<close>

definition implementation_task_ids :: "TaskItem list \<Rightarrow> str list" where
  "implementation_task_ids ts = map ti_task_id (filter (\<lambda>t. ti_category t = Implementation) ts)"

definition paired_unit_tests :: "TaskItem list \<Rightarrow> str set" where
  "paired_unit_tests ts =
     {p. \<exists>t \<in> set ts. ti_category t = UnitTest \<and> ti_paired_with t = Some p \<and> p \<noteq> []}"

lemma paired_unit_tests_code [code]:
  "paired_unit_tests ts =
     set (List.map_filter (\<lambda>t. if ti_category t = UnitTest \<and> ti_paired_with t \<noteq> Some []
                               then ti_paired_with t else None) ts)"
  by (auto simp: paired_unit_tests_def List.map_filter_def image_iff split: if_splits) force

definition validate_for_repo_write ::
  "(str list \<Rightarrow> str list) \<Rightarrow> TaskListArtifact \<Rightarrow> bool \<times> str list" where
  "validate_for_repo_write set_order art =
     (let ids = implementation_task_ids (tl_tasks art);
          paired = paired_unit_tests (tl_tasks art);
          errors1 = map (\<lambda>i. ''Implementation task `'' @ i @
                             ''` is missing a paired unit test task.'')
                        (filter (\<lambda>i. i \<notin> paired) (set_order ids));
          errors2 = (if tl_public_surface_change art \<and>
                        \<not> list_ex (\<lambda>t. tt_kind t = E2e) (tl_required_test_targets art)
                     then [''Public-surface changes require an end-to-end test target.''] else []);
          errors3 = (if tl_required_quality_checks art = []
                     then [''At least one quality check must be declared before repo-write readiness.'']
                     else []);
          errors4 = (if ids = [] then [''At least one implementation task is required.''] else []);
          errors = errors1 @ errors2 @ errors3 @ errors4
      in (errors = [], errors))"

definition visits_all :: "(str list \<Rightarrow> str list) \<Rightarrow> bool" where
  "visits_all set_order \<longleftrightarrow> (\<forall>xs. set (set_order xs) = set xs)"

lemma validate_for_repo_write_ready:
  assumes "visits_all set_order"
  shows "fst (validate_for_repo_write set_order art) \<longleftrightarrow>
    implementation_task_ids (tl_tasks art) \<noteq> [] \<and>
    set (implementation_task_ids (tl_tasks art)) \<subseteq> paired_unit_tests (tl_tasks art) \<and>
    tl_required_quality_checks art \<noteq> [] \<and>
    (tl_public_surface_change art \<longrightarrow> (\<exists>t \<in> set (tl_required_test_targets art). tt_kind t = E2e))"
  using assms
  by (auto simp: validate_for_repo_write_def Let_def visits_all_def filter_empty_conv list_ex_iff)

section \<open>Requests\<close>

record PlanningRequest =
  pr_tenant_id :: str
  pr_team_id :: str
  pr_repo_id :: str
  pr_ticket_key :: str
  pr_summary :: str
  pr_implementation_tasks :: "str list"
  pr_ambiguous :: bool
  pr_clarification_resolution_attempt :: "int option"
  pr_public_surface_change :: bool
  pr_design_checks :: "str list"
  pr_config_snapshot_id :: str
  pr_graph_profile_id :: str
  pr_catalog_version :: str
  pr_max_clarification_iterations :: int
  pr_max_test_retries :: int
  pr_max_review_retries :: int
  pr_force_missing_task_list :: bool
  pr_force_not_ready :: bool

text \<open>The class defaults; only \<open>summary\<close> is required.\<close>

definition default_planning_request :: "str \<Rightarrow> PlanningRequest" where
  "default_planning_request summary =
     \<lparr>pr_tenant_id = ''tenant-alpha'', pr_team_id = ''team-core'', pr_repo_id = ''repo-dev-squad'',
      pr_ticket_key = ''ENG-1'', pr_summary = summary,
      pr_implementation_tasks = [''Implement the requested change and supporting tests.''],
      pr_ambiguous = False, pr_clarification_resolution_attempt = Some 1,
      pr_public_surface_change = False,
      pr_design_checks = [''lint'', ''type_check'', ''solid_review''],
      pr_config_snapshot_id = ''config-v1'', pr_graph_profile_id = ''ticket_to_pr_v1'',
      pr_catalog_version = ''catalog-v1'', pr_max_clarification_iterations = 2,
      pr_max_test_retries = 2, pr_max_review_retries = 1,
      pr_force_missing_task_list = False, pr_force_not_ready = False\<rparr>"

text \<open>
  The input of the \<open>before\<close> validator is any Python object; only a dictionary is normalised.
  A value of the dictionary is \<open>None\<close> for Python's \<open>None\<close>.
\<close>

datatype ('v, 'o) PyData = PyDict "(str \<times> 'v option) list" | PyOther 'o

fun normalize_ticket_id :: "('v, 'o) PyData \<Rightarrow> ('v, 'o) PyData result" where
  "normalize_ticket_id (PyOther x) = Inr (PyOther x)"
| "normalize_ticket_id (PyDict data) =
     (let ticket_key = dict_getd data ''ticket_key'' None;
          ticket_id = dict_getd data ''ticket_id'' None;
          normalized = dict_pop ''ticket_id'' data
      in if ticket_key \<noteq> None \<and> ticket_id \<noteq> None \<and> ticket_key \<noteq> ticket_id
         then Inl (ValueError ''`ticket_key` and `ticket_id` must match when both are provided.'')
         else if ticket_key = None \<and> ticket_id \<noteq> None
         then Inr (PyDict (dict_set ''ticket_key'' ticket_id normalized))
         else Inr (PyDict normalized))"

record ExecutionRequest =
  er_test_failures_before_pass :: int
  er_quality_failures_before_pass :: int
  er_missing_required_tests :: bool
  er_skip_required_tests :: bool
  er_diff_too_large :: bool
  er_merge_conflict :: bool
  er_repo_full_name :: str
  er_target_branch :: str
  er_github_token :: str
  er_github_base_url :: str

definition default_execution_request :: ExecutionRequest where
  "default_execution_request =
     \<lparr>er_test_failures_before_pass = 0, er_quality_failures_before_pass = 0,
      er_missing_required_tests = False, er_skip_required_tests = False,
      er_diff_too_large = False, er_merge_conflict = False, er_repo_full_name = [],
      er_target_branch = ''main'', er_github_token = [],
      er_github_base_url = ''https://api.github.com''\<rparr>"

record ResolvedContextEntry =
  rce_source :: ContextSource
  rce_content :: str
  rce_provenance :: str

record ResolvedContextBundle =
  rcb_entries :: "ResolvedContextEntry list"
  rcb_external_research_reason :: "str option"

record KnowledgeExcerptSummary =
  ke_chunk_id :: str
  ke_document_id :: str
  ke_source_type :: str
  ke_distance :: rat
  ke_excerpt :: str

record ContextRequest =
  cr_available_context :: "(ContextSource \<times> str list) list"
  cr_external_research_reason :: "str option"

section \<open>The state of a run\<close>

record TicketRunState =
  rs_tenant_id :: str
  rs_team_id :: str
  rs_repo_id :: str
  rs_ticket_key :: str
  rs_run_id :: str
  rs_thread_id :: str
  rs_config_snapshot_id :: str
  rs_graph_profile_id :: str
  rs_catalog_version :: str
  rs_constitution :: "RuntimeArtifact option"
  rs_feature_spec :: "RuntimeArtifact option"
  rs_clarification_notes :: "RuntimeArtifact option"
  rs_implementation_plan :: "RuntimeArtifact option"
  rs_task_list :: "TaskListArtifact option"
  rs_artifact_hashes :: "(str \<times> str) list"
  rs_knowledge_excerpts :: "KnowledgeExcerptSummary list"
  rs_status :: RunStatus
  rs_current_node :: RunNode
  rs_node_history :: "RunNode list"
  rs_paused_at_node :: "RunNode option"
  rs_escalation_reason :: "EscalationReason option"
  rs_escalation_sink :: "str option"
  rs_clarification_attempts :: int
  rs_max_clarification_iterations :: int
  rs_clarification_complete :: bool
  rs_spec_ready_for_implementation :: bool
  rs_required_test_targets :: "TestTarget list"
  rs_required_quality_checks :: "QualityTarget list"
  rs_readiness_errors :: "str list"
  rs_test_retry_count :: int
  rs_max_test_retries :: int
  rs_tests_passed :: bool
  rs_review_retry_count :: int
  rs_max_review_retries :: int
  rs_quality_checks_passed :: bool
  rs_review_approved :: bool
  rs_pre_pr_sync_passed :: bool
  rs_branch_protection_passed :: bool
  rs_pr_created :: bool
  rs_last_retry_reason :: "str option"
  rs_state_schema_version :: str

definition thread_id_of :: "str \<Rightarrow> str \<Rightarrow> str \<Rightarrow> str" where
  "thread_id_of tenant_id ticket_key run_id = tenant_id @ '':'' @ ticket_key @ '':'' @ run_id"

definition new_run :: "str \<Rightarrow> PlanningRequest \<Rightarrow> TicketRunState" where
  "new_run run_id pr =
     \<lparr>rs_tenant_id = pr_tenant_id pr, rs_team_id = pr_team_id pr, rs_repo_id = pr_repo_id pr,
      rs_ticket_key = pr_ticket_key pr, rs_run_id = run_id,
      rs_thread_id = thread_id_of (pr_tenant_id pr) (pr_ticket_key pr) run_id,
      rs_config_snapshot_id = pr_config_snapshot_id pr,
      rs_graph_profile_id = pr_graph_profile_id pr, rs_catalog_version = pr_catalog_version pr,
      rs_constitution = None, rs_feature_spec = None, rs_clarification_notes = None,
      rs_implementation_plan = None, rs_task_list = None, rs_artifact_hashes = [],
      rs_knowledge_excerpts = [], rs_status = PLANNING, rs_current_node = INTAKE,
      rs_node_history = [INTAKE], rs_paused_at_node = None, rs_escalation_reason = None,
      rs_escalation_sink = None, rs_clarification_attempts = 0,
      rs_max_clarification_iterations = pr_max_clarification_iterations pr,
      rs_clarification_complete = False, rs_spec_ready_for_implementation = False,
      rs_required_test_targets = [], rs_required_quality_checks = [], rs_readiness_errors = [],
      rs_test_retry_count = 0, rs_max_test_retries = pr_max_test_retries pr,
      rs_tests_passed = False, rs_review_retry_count = 0,
      rs_max_review_retries = pr_max_review_retries pr, rs_quality_checks_passed = False,
      rs_review_approved = False, rs_pre_pr_sync_passed = False,
      rs_branch_protection_passed = False, rs_pr_created = False, rs_last_retry_reason = None,
      rs_state_schema_version = ''1''\<rparr>"

definition clear_pause :: "TicketRunState \<Rightarrow> TicketRunState" where
  "clear_pause run =
     (let run = run\<lparr>rs_paused_at_node := None, rs_escalation_reason := None,
                    rs_escalation_sink := None\<rparr>
      in if rs_status run = PAUSED then run\<lparr>rs_status := ACTIVE\<rparr> else run)"

definition transition_to :: "RunNode \<Rightarrow> TicketRunState \<Rightarrow> TicketRunState" where
  "transition_to node run =
     run\<lparr>rs_current_node := node, rs_node_history := rs_node_history run @ [node]\<rparr>"

lemma clear_pause_idem: "clear_pause (clear_pause run) = clear_pause run"
  by (simp add: clear_pause_def Let_def)

text \<open>\<open>normalize_ticket_id\<close> is idempotent and leaves no \<open>ticket_id\<close> key behind.\<close>

lemma normalize_ticket_id_no_alias:
  "normalize_ticket_id (PyDict d) = Inr r \<Longrightarrow> \<exists>d'. r = PyDict d' \<and> \<not> dict_has d' ''ticket_id''"
  by (auto simp: Let_def split: if_splits)

lemma normalize_ticket_id_alias_value:
  "normalize_ticket_id (PyDict d) = Inr (PyDict d') \<Longrightarrow>
   dict_getd d' ''ticket_key'' None =
     (if dict_getd d ''ticket_key'' None = None then dict_getd d ''ticket_id'' None
      else dict_getd d ''ticket_key'' None)"
  by (auto simp: Let_def dict_getd_def split: if_splits)

end
