(* ===== verification/Planner.thy ===== *)
theory Planner
  imports RuntimeModels
begin

text \<open>
  The planner: \<open>backend/runtime/planner.py\<close> (constitution loader, rule based artifact service)
  and the local-first context resolver of \<open>backend/runtime/context.py\<close>. The digest
  \<open>sha256(...).hexdigest()\<close> is the parameter \<open>sha256\<close>; identifiers drawn by \<open>uuid4\<close> are the
  argument \<open>uid\<close>.
\<close>

section \<open>Constitution\<close>

definition default_constitution_text :: str where
  "default_constitution_text =
     ''LangGraph Dev Squad runs a planner-owned SDD workflow and blocks repo writes '' @
     ''until readiness, tests, review, and pre-PR guards have passed.''"

definition constitution_text :: "str option \<Rightarrow> str" where
  "constitution_text t =
     (case t of None \<Rightarrow> default_constitution_text
      | Some s \<Rightarrow> if s = [] then default_constitution_text else s)"

definition load_for_run :: "str \<Rightarrow> str \<Rightarrow> str \<Rightarrow> str \<Rightarrow> str \<Rightarrow> RuntimeArtifact" where
  "load_for_run uid ctext tenant_id repo_id config_snapshot_id =
     new_artifact uid CONSTITUTION
       (ctext @ '' tenant='' @ tenant_id @ '' repo='' @ repo_id @ '' snapshot='' @ config_snapshot_id)"

section \<open>Artifacts of the rule based planner\<close>

definition create_feature_spec ::
  "str \<Rightarrow> PlanningRequest \<Rightarrow> ResolvedContextBundle \<Rightarrow> RuntimeArtifact" where
  "create_feature_spec uid pr context =
     (let sources = str_join '', '' (map (ContextSource_value \<circ> rce_source) (rcb_entries context))
      in new_artifact uid FEATURE_SPEC
           (''Ticket '' @ pr_ticket_key pr @ '': '' @ pr_summary pr @ ''. Context order used: '' @
            (if sources = [] then ''none'' else sources) @ ''.''))"

definition create_clarification_notes :: "str \<Rightarrow> PlanningRequest \<Rightarrow> RuntimeArtifact" where
  "create_clarification_notes uid pr =
     new_artifact uid CLARIFICATION_NOTES
       (if pr_ambiguous pr
        then ''Ambiguity detected. Clarification stays autonomous-first until the configured '' @
             ''iteration limit is exhausted.''
        else ''No unresolved ambiguity detected for this ticket.'')"

definition create_implementation_plan :: "str \<Rightarrow> PlanningRequest \<Rightarrow> RuntimeArtifact" where
  "create_implementation_plan uid pr =
     new_artifact uid IMPLEMENTATION_PLAN
       (''Implementation plan for '' @ pr_ticket_key pr @ '': '' @
        str_join ''; '' (pr_implementation_tasks pr))"

definition impl_id :: "nat \<Rightarrow> str" where "impl_id i = ''impl-'' @ str_of_nat i"
definition unit_id :: "nat \<Rightarrow> str" where "unit_id i = ''unit-'' @ str_of_nat i"
definition quality_id :: "nat \<Rightarrow> str" where "quality_id i = ''quality-'' @ str_of_nat i"

text \<open>The pair of tasks the loop appends for one implementation title.\<close>

definition task_pair :: "nat \<times> str \<Rightarrow> TaskItem list" where
  "task_pair p = (case p of (i, title) \<Rightarrow>
     [\<lparr>ti_task_id = impl_id i, ti_title = title, ti_category = Implementation,
       ti_paired_with = None\<rparr>,
      \<lparr>ti_task_id = unit_id i, ti_title = ''Unit coverage for: '' @ title,
       ti_category = UnitTest, ti_paired_with = Some (impl_id i)\<rparr>])"

definition e2e_task :: TaskItem where
  "e2e_task = \<lparr>ti_task_id = ''e2e-1'', ti_title = ''End-to-end validation for public surface behavior'',
               ti_category = E2eTest, ti_paired_with = None\<rparr>"

definition quality_task :: "nat \<times> QualityTarget \<Rightarrow> TaskItem" where
  "quality_task p = (case p of (i, q) \<Rightarrow>
     \<lparr>ti_task_id = quality_id i, ti_title = ''Quality gate: '' @ qt_name q,
      ti_category = Quality, ti_paired_with = None\<rparr>)"

definition planned_task_list :: "str \<Rightarrow> PlanningRequest \<Rightarrow> TaskListArtifact" where
  "planned_task_list uid pr =
     (let numbered = enumerate_from 1 (pr_implementation_tasks pr);
          quality_targets = map (\<lambda>n. \<lparr>qt_name = n\<rparr>) (pr_design_checks pr);
          tasks = concat (map task_pair numbered) @
                  (if pr_public_surface_change pr then [e2e_task] else []) @
                  map quality_task (enumerate_from 1 quality_targets);
          test_targets = map (\<lambda>(i, t). \<lparr>tt_name = unit_id i, tt_kind = Unit\<rparr>) numbered @
                  (if pr_public_surface_change pr then [\<lparr>tt_name = ''e2e-1'', tt_kind = E2e\<rparr>] else [])
      in \<lparr>ra_artifact_id = uid, ra_kind = TASK_LIST,
          ra_summary = ''Task list for '' @ pr_ticket_key pr, ra_version = 1,
          tl_tasks = tasks, tl_required_test_targets = test_targets,
          tl_required_quality_checks = quality_targets,
          tl_public_surface_change = pr_public_surface_change pr\<rparr>)"

definition create_task_list ::
  "(str list \<Rightarrow> str list) \<Rightarrow> str \<Rightarrow> PlanningRequest \<Rightarrow> TaskListArtifact option \<times> bool \<times> str list" where
  "create_task_list set_order uid pr =
     (if pr_force_missing_task_list pr
      then (None, False, [''Task list generation was intentionally disabled for this request.''])
      else
        let task_list = planned_task_list uid pr;
            (ready, errors) = validate_for_repo_write set_order task_list
        in if pr_force_not_ready pr
           then (Some task_list, False,
                 errors @ [''Readiness was intentionally forced off for this request.''])
           else (Some task_list, ready, errors))"

definition build_context_request :: "TicketRunState \<Rightarrow> PlanningRequest \<Rightarrow> ContextRequest" where
  "build_context_request run pr =
     \<lparr>cr_available_context =
        [(JIRA, [pr_ticket_key pr @ '': '' @ pr_summary pr]),
         (REPOSITORY, [''Repository scope: '' @ pr_repo_id pr]),
         (RUN_STATE, [''Run identity: '' @ rs_run_id run]),
         (FIRST_PARTY, [''Constitution and product contracts from OpenSpec and AGENTS.md''])],
      cr_external_research_reason = None\<rparr>"

definition record_artifact_hash ::
  "(str \<Rightarrow> str) \<Rightarrow> ('a RuntimeArtifact_scheme) \<Rightarrow> TicketRunState \<Rightarrow> TicketRunState" where
  "record_artifact_hash sha256 artifact run =
     run\<lparr>rs_artifact_hashes :=
           dict_set (ArtifactKind_value (ra_kind artifact)) (sha256 (ra_summary artifact))
                    (rs_artifact_hashes run)\<rparr>"

section \<open>Context resolution\<close>

definition context_order :: "ContextSource list" where
  "context_order = [JIRA, REPOSITORY, RUN_STATE, INTERNAL_KNOWLEDGE, FIRST_PARTY, EXTERNAL_RESEARCH]"

definition entries_of :: "ContextRequest \<Rightarrow> ContextSource \<Rightarrow> ResolvedContextEntry list" where
  "entries_of request source =
     map (\<lambda>(i, content). \<lparr>rce_source = source, rce_content = content,
            rce_provenance = ContextSource_value source @ '':'' @ str_of_nat i\<rparr>)
       (enumerate_from 1 (dict_getd (cr_available_context request) source []))"

definition resolve :: "ContextRequest \<Rightarrow> ResolvedContextBundle result" where
  "resolve request =
     (let entries = concat (map (entries_of request) context_order)
      in if list_ex (\<lambda>e. rce_source e = EXTERNAL_RESEARCH) entries \<and>
            (cr_external_research_reason request = None \<or>
             cr_external_research_reason request = Some [])
         then Inl (ValueError
           ''External research requires an insufficiency reason from earlier context stages.'')
         else Inr \<lparr>rcb_entries = entries,
                   rcb_external_research_reason = cr_external_research_reason request\<rparr>)"

section \<open>Lemmas\<close>

lemma implementation_ids_planned:
  "implementation_task_ids (tl_tasks (planned_task_list uid pr)) =
     map (impl_id \<circ> fst) (enumerate_from 1 (pr_implementation_tasks pr))"
proof -
  have pairs: "implementation_task_ids (concat (map task_pair ps)) = map (impl_id \<circ> fst) ps" for ps
    by (induction ps) (auto simp: implementation_task_ids_def task_pair_def split: prod.splits)
  have quals: "implementation_task_ids (map quality_task qs) = []" for qs
    by (auto simp: implementation_task_ids_def quality_task_def filter_empty_conv
        split: prod.splits)
  have app: "implementation_task_ids (xs @ ys) =
      implementation_task_ids xs @ implementation_task_ids ys" for xs ys
    by (simp add: implementation_task_ids_def)
  have e2e: "implementation_task_ids [e2e_task] = []" "implementation_task_ids [] = []"
    by (simp_all add: implementation_task_ids_def e2e_task_def)
  show ?thesis
    by (simp add: planned_task_list_def Let_def app pairs quals e2e)
qed

lemma planned_paired:
  "set (implementation_task_ids (tl_tasks (planned_task_list uid pr)))
     \<subseteq> paired_unit_tests (tl_tasks (planned_task_list uid pr))"
proof
  fix x assume "x \<in> set (implementation_task_ids (tl_tasks (planned_task_list uid pr)))"
  then obtain i t where it: "(i, t) \<in> set (enumerate_from 1 (pr_implementation_tasks pr))"
    and x: "x = impl_id i"
    unfolding implementation_ids_planned by auto
  let ?u = "\<lparr>ti_task_id = unit_id i, ti_title = ''Unit coverage for: '' @ t,
       ti_category = UnitTest, ti_paired_with = Some (impl_id i)\<rparr>"
  have "?u \<in> set (task_pair (i, t))" by (simp add: task_pair_def)
  with it have "?u \<in> set (tl_tasks (planned_task_list uid pr))"
    by (auto simp: planned_task_list_def Let_def)
  then show "x \<in> paired_unit_tests (tl_tasks (planned_task_list uid pr))"
    by (auto simp: paired_unit_tests_def x impl_id_def intro!: bexI[of _ ?u])
qed

text \<open>Generated ids are pairwise distinct: numerals are, and the prefixes separate the kinds.\<close>

lemma ids_inj [simp]:
  "impl_id i = impl_id j \<longleftrightarrow> i = j" "unit_id i = unit_id j \<longleftrightarrow> i = j"
  "quality_id i = quality_id j \<longleftrightarrow> i = j"
  by (simp_all add: impl_id_def unit_id_def quality_id_def)

lemma ids_apart [simp]:
  "impl_id i \<noteq> unit_id j" "impl_id i \<noteq> quality_id j" "unit_id i \<noteq> quality_id j"
  "impl_id i \<noteq> ''e2e-1''" "unit_id i \<noteq> ''e2e-1''" "quality_id i \<noteq> ''e2e-1''"
  "unit_id i \<noteq> impl_id j" "quality_id i \<noteq> impl_id j" "quality_id i \<noteq> unit_id j"
  "''e2e-1'' \<noteq> quality_id i"
  by (simp_all add: impl_id_def unit_id_def quality_id_def)

lemma distinct_pair_ids: "distinct ns \<Longrightarrow> distinct (concat (map (\<lambda>n. [impl_id n, unit_id n]) ns))"
proof (induction ns)
  case Nil
  then show ?case by simp
next
  case (Cons n ns)
  have "impl_id n \<notin> set (concat (map (\<lambda>n. [impl_id n, unit_id n]) ns))"
    "unit_id n \<notin> set (concat (map (\<lambda>n. [impl_id n, unit_id n]) ns))"
    using Cons.prems by auto
  with Cons show ?case by simp
qed

lemma distinct_quality_ids: "distinct ns \<Longrightarrow> distinct (map quality_id ns)"
  by (induction ns) auto

lemma task_ids_pairs:
  "map ti_task_id (concat (map task_pair ps)) =
     concat (map (\<lambda>n. [impl_id n, unit_id n]) (map fst ps))"
  by (induction ps) (auto simp: task_pair_def)

lemma task_ids_quality:
  "map ti_task_id (map quality_task ps) = map quality_id (map fst ps)"
  by (auto simp: quality_task_def)

lemma planned_task_ids_distinct:
  "distinct (map ti_task_id (tl_tasks (planned_task_list uid pr)))"
proof -
  have "map ti_task_id (tl_tasks (planned_task_list uid pr)) =
      concat (map (\<lambda>n. [impl_id n, unit_id n]) (map fst (enumerate_from 1 (pr_implementation_tasks pr)))) @
      (if pr_public_surface_change pr then [''e2e-1''] else []) @
      map quality_id (map fst (enumerate_from 1 (map (\<lambda>n. \<lparr>qt_name = n\<rparr>) (pr_design_checks pr))))"
    unfolding planned_task_list_def Let_def
    by (simp add: task_ids_pairs task_ids_quality e2e_task_def del: map_map map_concat)
  moreover have "distinct (concat (map (\<lambda>n. [impl_id n, unit_id n])
      (map fst (enumerate_from 1 (pr_implementation_tasks pr)))))"
    by (rule distinct_pair_ids) (rule distinct_fst_enumerate_from)
  moreover have "distinct (map quality_id (map fst (enumerate_from 1 qs)))" for qs :: "QualityTarget list"
    by (rule distinct_quality_ids) (rule distinct_fst_enumerate_from)
  ultimately show ?thesis
    by (auto simp del: map_map dest: sym)
qed

lemma planned_fields [simp]:
  "(tl_required_quality_checks (planned_task_list uid pr) = []) \<longleftrightarrow> pr_design_checks pr = []"
  "tl_public_surface_change (planned_task_list uid pr) = pr_public_surface_change pr"
  "ra_kind (planned_task_list uid pr) = TASK_LIST"
  by (simp_all add: planned_task_list_def Let_def)

lemma planned_targets_nonempty:
  "pr_implementation_tasks pr \<noteq> [] \<Longrightarrow> tl_required_test_targets (planned_task_list uid pr) \<noteq> []"
  by (simp add: planned_task_list_def Let_def)

text \<open>When the planner's own task list passes its readiness check.\<close>

lemma planned_ready:
  assumes "visits_all set_order"
  shows "fst (validate_for_repo_write set_order (planned_task_list uid pr)) \<longleftrightarrow>
    pr_implementation_tasks pr \<noteq> [] \<and> pr_design_checks pr \<noteq> []"
proof -
  have "pr_public_surface_change pr \<longrightarrow>
      (\<exists>t \<in> set (tl_required_test_targets (planned_task_list uid pr)). tt_kind t = E2e)"
    by (auto simp: planned_task_list_def Let_def)
  moreover have "implementation_task_ids (tl_tasks (planned_task_list uid pr)) \<noteq> [] \<longleftrightarrow>
      pr_implementation_tasks pr \<noteq> []"
    by (simp add: implementation_ids_planned)
  ultimately show ?thesis
    using planned_paired[of uid pr] by (auto simp: validate_for_repo_write_ready[OF assms])
qed

lemma create_task_list_ready:
  assumes "visits_all set_order"
  shows "create_task_list set_order uid pr = (tl', ready, errs) \<Longrightarrow>
    (tl' = None \<longleftrightarrow> pr_force_missing_task_list pr) \<and>
    (\<forall>a. tl' = Some a \<longrightarrow> a = planned_task_list uid pr) \<and>
    (ready \<longleftrightarrow> \<not> pr_force_missing_task_list pr \<and> \<not> pr_force_not_ready pr \<and>
       pr_implementation_tasks pr \<noteq> [] \<and> pr_design_checks pr \<noteq> [])"
  using planned_ready[OF assms, of uid pr]
  by (auto simp: create_task_list_def Let_def split: if_splits prod.splits)

lemma resolve_build_context: "\<exists>b. resolve (build_context_request run pr) = Inr b"
  by (simp add: resolve_def build_context_request_def Let_def context_order_def entries_of_def
      dict_getd_def)

text \<open>Entries appear in the order of the sources, and inside a source in the given order.\<close>

lemma resolve_entries:
  "resolve req = Inr b \<Longrightarrow> rcb_entries b = concat (map (entries_of req) context_order)"
  by (auto simp: resolve_def Let_def split: if_splits)

end
