(* ===== verification/Strings.thy ===== *)
theory Strings
  imports Prelude
begin

text \<open>
  Python string methods (letters are ASCII, white space is that of Latin-1), and JSON documents with the tests Python makes on them.
\<close>

section \<open>String methods\<close>

definition lower_char :: "char \<Rightarrow> char" where
  "lower_char c =
     (let n = of_char c :: nat in if 65 \<le> n \<and> n \<le> 90 then char_of (n + 32) else c)"

definition upper_char :: "char \<Rightarrow> char" where
  "upper_char c =
     (let n = of_char c :: nat in if 97 \<le> n \<and> n \<le> 122 then char_of (n - 32) else c)"

definition str_lower :: "str \<Rightarrow> str" where
  "str_lower s = map lower_char s"

definition str_upper :: "str \<Rightarrow> str" where
  "str_upper s = map upper_char s"

definition whitespace :: "char \<Rightarrow> bool" where
  "whitespace c \<longleftrightarrow> (let n = of_char c :: nat in n = 32 \<or> n = 133 \<or> n = 160 \<or> (9 \<le> n \<and> n \<le> 13) \<or> (28 \<le> n \<and> n \<le> 31))"

definition str_strip :: "str \<Rightarrow> str" where
  "str_strip s = rev (dropWhile whitespace (rev (dropWhile whitespace s)))"

text \<open>\<open>s.split(c)\<close>: one part more than separators.\<close>

fun str_split :: "char \<Rightarrow> str \<Rightarrow> str list" where
  "str_split c [] = [[]]"
| "str_split c (x # s) =
     (case str_split c s of
        [] \<Rightarrow> [[]]
      | part # parts \<Rightarrow> if x = c then [] # part # parts else (x # part) # parts)"

definition str_replace_char :: "char \<Rightarrow> char \<Rightarrow> str \<Rightarrow> str" where
  "str_replace_char a b s = map (\<lambda>c. if c = a then b else c) s"

definition startswith :: "str \<Rightarrow> str \<Rightarrow> bool" where
  "startswith s prefix \<longleftrightarrow> take (length prefix) s = prefix"

definition removeprefix :: "str \<Rightarrow> str \<Rightarrow> str" where
  "removeprefix s prefix = (if startswith s prefix then drop (length prefix) s else s)"

text \<open>The suffixes of a text, where a search may match; \<open>token in s\<close>.\<close>

fun suffixes_of :: "str \<Rightarrow> str list" where
  "suffixes_of [] = [[]]"
| "suffixes_of (c # s) = (c # s) # suffixes_of s"

definition str_contains :: "str \<Rightarrow> str \<Rightarrow> bool" where
  "str_contains token s \<longleftrightarrow> list_ex (\<lambda>t. startswith t token) (suffixes_of s)"

lemma startswith_append [simp]: "startswith (prefix @ s) prefix"
  by (simp add: startswith_def)

lemma startswith_iff: "startswith s prefix \<longleftrightarrow> (\<exists>rest. s = prefix @ rest)"
  unfolding startswith_def by (metis append_eq_conv_conj append_take_drop_id)

lemma removeprefix_append [simp]: "removeprefix (prefix @ s) prefix = s"
  by (simp add: removeprefix_def)

lemma set_suffixes_of: "t \<in> set (suffixes_of s) \<longleftrightarrow> (\<exists>pre. s = pre @ t)"
proof (induction s)
  case Nil
  then show ?case by auto
next
  case (Cons c s)
  then show ?case by (auto simp: Cons_eq_append_conv)
qed

lemma str_contains_iff: "str_contains token s \<longleftrightarrow> (\<exists>pre post. s = pre @ token @ post)"
  unfolding str_contains_def list_ex_iff Bex_def set_suffixes_of startswith_iff by blast

lemma str_split_not_Nil [simp]: "str_split c s \<noteq> []"
  by (induction s) (auto split: list.splits)

section \<open>JSON documents\<close>

datatype json =
    JNull
  | JBool bool
  | JNum rat
  | JStr str
  | JList "json list"
  | JObj "(str \<times> json) list"

text \<open>Python truthiness of the parsed document, \<open>isinstance(_, dict)\<close> and \<open>isinstance(_, list)\<close>.\<close>

fun json_truthy :: "json \<Rightarrow> bool" where
  "json_truthy JNull = False"
| "json_truthy (JBool b) = b"
| "json_truthy (JNum r) = (r \<noteq> 0)"
| "json_truthy (JStr s) = (s \<noteq> [])"
| "json_truthy (JList l) = (l \<noteq> [])"
| "json_truthy (JObj d) = (d \<noteq> [])"

text \<open>\<open>x.get(key, default)\<close> on a document: only a dictionary has the method.\<close>

fun json_get :: "json \<Rightarrow> str \<Rightarrow> json \<Rightarrow> json result" where
  "json_get (JObj d) key x = Inr (dict_getd d key x)"
| "json_get _ key x = Inl (AttributeError ''get'')"

end
