(* ===== verification/BranchProtection.thy ===== *)
theory BranchProtection
  imports Strings
begin

text \<open>
  Branch protection, \<open>backend/integrations/github/branch_protection.py\<close>. The GitHub client is
  not part of the repository: its \<open>get_branch_protection\<close> is the parameter \<open>bp_api\<close> of the
  verifier, which returns a parsed JSON document or raises. Logging is not modelled.
\<close>

section \<open>Configuration and verdict\<close>

record BranchProtectionConfig =
  bc_required_status_checks :: "str list"
  bc_require_review :: bool
  bc_require_signed_commits :: bool
  bc_require_linear_history :: bool

record BranchProtectionResult =
  br_passed :: bool
  br_missing :: "str list"
  br_shadow_mode :: bool
  br_repo_full_name :: str
  br_branch :: str
  br_evidence :: str

record BranchProtectionVerifier =
  bp_api :: "str \<Rightarrow> str \<Rightarrow> str \<Rightarrow> str \<Rightarrow> json result"
  bp_shadow_mode :: bool

text \<open>The value of the environment variable \<open>GITHUB_BRANCH_PROTECTION_ENFORCE\<close> is an argument.\<close>

definition is_enforce_mode :: "str option \<Rightarrow> bool" where
  "is_enforce_mode env =
     (str_lower (case env of None \<Rightarrow> [] | Some s \<Rightarrow> s) \<in> {''1'', ''true'', ''yes''})"

definition enabled_flag :: "json \<Rightarrow> bool" where
  "enabled_flag j = (case j of JObj d \<Rightarrow> json_truthy (dict_getd d ''enabled'' JNull) | _ \<Rightarrow> False)"

definition configured_checks :: "json \<Rightarrow> json list" where
  "configured_checks checks =
     (case checks of
        JObj d \<Rightarrow> (case dict_getd d ''contexts'' (JList []) of JList l \<Rightarrow> l | _ \<Rightarrow> [])
      | _ \<Rightarrow> [])"

definition find_missing_protections :: "json \<Rightarrow> BranchProtectionConfig \<Rightarrow> (str list) result" where
  "find_missing_protections raw config =
     bind_result
       (if bc_require_review config
        then bind_result (json_get raw ''required_pull_request_reviews'' JNull) (\<lambda>reviews.
               Inr (if json_truthy reviews then [] else [''required_pull_request_reviews'']))
        else Inr []) (\<lambda>m1.
     bind_result
       (if bc_require_signed_commits config
        then bind_result (json_get raw ''required_signatures'' (JObj [])) (\<lambda>signed.
               Inr (if enabled_flag signed then [] else [''required_signatures'']))
        else Inr []) (\<lambda>m2.
     bind_result
       (if bc_require_linear_history config
        then bind_result (json_get raw ''required_linear_history'' (JObj [])) (\<lambda>linear.
               Inr (if enabled_flag linear then [] else [''required_linear_history'']))
        else Inr []) (\<lambda>m3.
     bind_result
       (if bc_required_status_checks config \<noteq> []
        then bind_result (json_get raw ''required_status_checks'' (JObj [])) (\<lambda>checks.
               Inr (map (\<lambda>c. ''required_status_check:'' @ c)
                     (filter (\<lambda>c. JStr c \<notin> set (configured_checks checks))
                        (bc_required_status_checks config))))
        else Inr []) (\<lambda>m4. Inr (m1 @ m2 @ m3 @ m4)))))"

definition build_evidence :: "str list \<Rightarrow> bool \<Rightarrow> str" where
  "build_evidence missing shadow_mode =
     (if missing = [] then ''all_required_protections_present''
      else ''missing_protections='' @ str_join '','' missing @ ''; mode='' @
           (if shadow_mode then ''shadow_logged'' else ''blocked''))"

definition verify ::
  "BranchProtectionVerifier \<Rightarrow> str \<Rightarrow> str \<Rightarrow> str \<Rightarrow> str \<Rightarrow> BranchProtectionConfig \<Rightarrow>
   BranchProtectionResult" where
  "verify v repo_full_name branch token base_url required_config =
     (let missing =
            (case bind_result (bp_api v repo_full_name branch token base_url)
                    (\<lambda>raw. find_missing_protections raw required_config) of
               Inl _ \<Rightarrow> [''protection_fetch_failed'']
             | Inr m \<Rightarrow> m)
      in \<lparr>br_passed = (missing = []), br_missing = missing, br_shadow_mode = bp_shadow_mode v,
          br_repo_full_name = repo_full_name, br_branch = branch,
          br_evidence = build_evidence missing (bp_shadow_mode v)\<rparr>)"

definition null_api :: "str \<Rightarrow> str \<Rightarrow> str \<Rightarrow> str \<Rightarrow> json result" where
  "null_api repo_full_name branch token base_url = Inr (JObj [])"

section \<open>What a document must contain\<close>

text \<open>
  The requirement stated on its own, without the order of the checks: a document satisfies the
  configuration when every protection the configuration asks for is present in it.
\<close>

definition protects :: "BranchProtectionConfig \<Rightarrow> (str \<times> json) list \<Rightarrow> bool" where
  "protects config d \<longleftrightarrow>
     (bc_require_review config \<longrightarrow>
        json_truthy (dict_getd d ''required_pull_request_reviews'' JNull)) \<and>
     (bc_require_signed_commits config \<longrightarrow>
        enabled_flag (dict_getd d ''required_signatures'' (JObj []))) \<and>
     (bc_require_linear_history config \<longrightarrow>
        enabled_flag (dict_getd d ''required_linear_history'' (JObj []))) \<and>
     (\<forall>c \<in> set (bc_required_status_checks config).
        JStr c \<in> set (configured_checks (dict_getd d ''required_status_checks'' (JObj []))))"

lemma find_missing_Nil_iff:
  "find_missing_protections (JObj d) config = Inr [] \<longleftrightarrow> protects config d"
  by (auto simp: find_missing_protections_def protects_def filter_empty_conv)

lemma find_missing_total: "\<exists>m. find_missing_protections (JObj d) config = Inr m"
  by (simp add: find_missing_protections_def)

lemma verify_passed_iff_missing: "br_passed (verify v r b t u c) \<longleftrightarrow> br_missing (verify v r b t u c) = []"
  by (simp add: verify_def Let_def)

lemma verify_shadow [simp]: "br_shadow_mode (verify v r b t u c) = bp_shadow_mode v"
  by (simp add: verify_def Let_def)

lemma verify_api_error:
  "bp_api v r b t u = Inl e \<Longrightarrow> \<not> br_passed (verify v r b t u c)"
  by (simp add: verify_def Let_def)

lemma verify_passed_dict:
  "bp_api v r b t u = Inr (JObj d) \<Longrightarrow> br_passed (verify v r b t u c) \<longleftrightarrow> protects c d"
  using find_missing_Nil_iff[of d c] find_missing_total[of d c]
  by (auto simp: verify_def Let_def)

end
