(* ===== verification/Workflow.thy ===== *)
theory Workflow
  imports Planner BranchProtection
begin

text \<open>
  The ticket-to-PR workflow, \<open>backend/runtime/workflow.py\<close>. A node function of the graph takes
  the workflow state and returns the updated run; a router picks the next node. The graph
  engine (LangGraph) is not part of the repository: \<open>invoke\<close> is its documented contract for
  this graph, \<open>START\<close> edge first, then the node function, then its edge or router, until \<open>END\<close>,
  with the engine's recursion limit as an argument.

  What the environment supplies is in the record \<open>RuntimeWorkflow\<close>: the digest function, the
  order in which the interpreter iterates over a set, and \<open>wf_uuid n\<close>, the identifier drawn by
  \<open>uuid4\<close> in the \<open>n\<close>-th node execution of the run.
\<close>

section \<open>State\<close>

record RuntimeWorkflow =
  wf_constitution_text :: str
  wf_branch_protection_verifier :: BranchProtectionVerifier
  wf_branch_protection_config :: BranchProtectionConfig
  wf_sha256 :: "str \<Rightarrow> str"
  wf_set_order :: "str list \<Rightarrow> str list"
  wf_uuid :: "nat \<Rightarrow> str"

record WorkflowState =
  ws_planning_request :: PlanningRequest
  ws_execution_request :: ExecutionRequest
  ws_escalation_sinks :: "(str \<times> str) list"
  ws_run :: TicketRunState

text \<open>The defaults of the constructor, given the environment variable of the kill switch.\<close>

definition default_workflow ::
  "str option \<Rightarrow> (str \<Rightarrow> str) \<Rightarrow> (str list \<Rightarrow> str list) \<Rightarrow> (nat \<Rightarrow> str) \<Rightarrow> RuntimeWorkflow" where
  "default_workflow enforce_env sha256 set_order uuid =
     \<lparr>wf_constitution_text = constitution_text None,
      wf_branch_protection_verifier =
        \<lparr>bp_api = null_api, bp_shadow_mode = \<not> is_enforce_mode enforce_env\<rparr>,
      wf_branch_protection_config =
        \<lparr>bc_required_status_checks = [], bc_require_review = True,
         bc_require_signed_commits = False, bc_require_linear_history = False\<rparr>,
      wf_sha256 = sha256, wf_set_order = set_order, wf_uuid = uuid\<rparr>"

definition default_escalation_sinks :: "(str \<times> str) list" where
  "default_escalation_sinks =
     [(''unresolved_ambiguity'', ''ops://clarification''),
      (''test_retry_budget_exhausted'', ''ops://testing''),
      (''review_budget_exhausted'', ''ops://review''),
      (''missing_or_failing_required_tests'', ''ops://quality''),
      (''diff_too_large'', ''ops://diff-guard''),
      (''merge_conflict_detected'', ''ops://merge-conflict''),
      (''invalid_route_attempt'', ''ops://workflow-guard''),
      (''missing_escalation_sink'', ''ops://workflow-guard''),
      (''budget_exhausted'', ''ops://budgeting''),
      (''all_providers_unavailable'', ''ops://llm-routing''),
      (''provider_failover_exhausted'', ''ops://llm-routing''),
      (''orphaned_budget_reservation_detected'', ''ops://budgeting''),
      (''billing_reconciliation_drift'', ''ops://metering''),
      (''branch_protection_missing'', ''ops://security-review'')]"

section \<open>Node functions\<close>

definition fresh_id :: "RuntimeWorkflow \<Rightarrow> TicketRunState \<Rightarrow> str" where
  "fresh_id env run = wf_uuid env (length (rs_node_history run))"

definition load_constitution :: "RuntimeWorkflow \<Rightarrow> WorkflowState \<Rightarrow> TicketRunState" where
  "load_constitution env state =
     (let run = transition_to LOAD_CONSTITUTION (ws_run state);
          art = load_for_run (fresh_id env run) (wf_constitution_text env) (rs_tenant_id run)
                  (rs_repo_id run) (rs_config_snapshot_id run)
      in record_artifact_hash (wf_sha256 env) art (run\<lparr>rs_constitution := Some art\<rparr>))"

definition create_feature_spec_node :: "RuntimeWorkflow \<Rightarrow> WorkflowState \<Rightarrow> TicketRunState result" where
  "create_feature_spec_node env state =
     (let run = transition_to CREATE_FEATURE_SPEC (ws_run state);
          pr = ws_planning_request state
      in bind_result (resolve (build_context_request run pr)) (\<lambda>bundle.
           let art = create_feature_spec (fresh_id env run) pr bundle
           in Inr (record_artifact_hash (wf_sha256 env) art (run\<lparr>rs_feature_spec := Some art\<rparr>))))"

definition clarify :: "RuntimeWorkflow \<Rightarrow> WorkflowState \<Rightarrow> TicketRunState" where
  "clarify env state =
     (let run = transition_to CLARIFY (ws_run state);
          pr = ws_planning_request state;
          run = (if rs_clarification_notes run = None
                 then let art = create_clarification_notes (fresh_id env run) pr
                      in record_artifact_hash (wf_sha256 env) art
                           (run\<lparr>rs_clarification_notes := Some art\<rparr>)
                 else run)
      in if \<not> pr_ambiguous pr then run\<lparr>rs_clarification_complete := True\<rparr>
         else
           let run = run\<lparr>rs_clarification_attempts := rs_clarification_attempts run + 1\<rparr>;
               resolution_attempt = pr_clarification_resolution_attempt pr
           in if resolution_attempt \<noteq> None \<and>
                 rs_clarification_attempts run \<ge> the resolution_attempt
              then run\<lparr>rs_clarification_complete := True\<rparr>
              else if rs_clarification_attempts run \<ge> rs_max_clarification_iterations run
              then run\<lparr>rs_escalation_reason := Some UNRESOLVED_AMBIGUITY,
                       rs_paused_at_node := Some CLARIFY\<rparr>
              else run\<lparr>rs_last_retry_reason := Some ''clarification_retry''\<rparr>)"

definition create_plan :: "RuntimeWorkflow \<Rightarrow> WorkflowState \<Rightarrow> TicketRunState" where
  "create_plan env state =
     (let run = transition_to CREATE_PLAN (ws_run state);
          art = create_implementation_plan (fresh_id env run) (ws_planning_request state)
      in record_artifact_hash (wf_sha256 env) art (run\<lparr>rs_implementation_plan := Some art\<rparr>))"

definition create_task_list_node :: "RuntimeWorkflow \<Rightarrow> WorkflowState \<Rightarrow> TicketRunState" where
  "create_task_list_node env state =
     (let run = transition_to CREATE_TASK_LIST (ws_run state);
          (task_list, ready, errors) =
            create_task_list (wf_set_order env) (fresh_id env run) (ws_planning_request state);
          run = run\<lparr>rs_task_list := task_list, rs_spec_ready_for_implementation := ready,
                    rs_readiness_errors := errors\<rparr>
      in case task_list of
           None \<Rightarrow> run
         | Some art \<Rightarrow>
             record_artifact_hash (wf_sha256 env) art
               (run\<lparr>rs_required_test_targets := tl_required_test_targets art,
                    rs_required_quality_checks := tl_required_quality_checks art\<rparr>))"

definition readiness_gate :: "WorkflowState \<Rightarrow> TicketRunState" where
  "readiness_gate state =
     (let run = transition_to READINESS_GATE (ws_run state)
      in if rs_task_list run = None \<or> \<not> rs_spec_ready_for_implementation run
         then run\<lparr>rs_escalation_reason := Some INVALID_ROUTE_ATTEMPT,
                  rs_paused_at_node := Some READINESS_GATE\<rparr>
         else run\<lparr>rs_status := ACTIVE\<rparr>)"

definition coder :: "WorkflowState \<Rightarrow> TicketRunState" where
  "coder state = (transition_to CODER (ws_run state))\<lparr>rs_status := ACTIVE\<rparr>"

definition tester :: "WorkflowState \<Rightarrow> TicketRunState" where
  "tester state =
     (let run = transition_to TESTER (ws_run state);
          er = ws_execution_request state;
          missing_or_skipped = (er_missing_required_tests er \<or> er_skip_required_tests er);
          should_fail_tests = (rs_test_retry_count run < er_test_failures_before_pass er);
          missing_declared_targets = (rs_required_test_targets run = [])
      in if missing_or_skipped \<or> should_fail_tests \<or> missing_declared_targets
         then if rs_test_retry_count run \<ge> rs_max_test_retries run
              then run\<lparr>rs_escalation_reason := Some MISSING_OR_FAILING_REQUIRED_TESTS,
                       rs_paused_at_node := Some TESTER\<rparr>
              else run\<lparr>rs_test_retry_count := rs_test_retry_count run + 1,
                       rs_last_retry_reason :=
                         Some (EscalationReason_value MISSING_OR_FAILING_REQUIRED_TESTS),
                       rs_tests_passed := False\<rparr>
         else run\<lparr>rs_tests_passed := True\<rparr>)"

definition reviewer :: "WorkflowState \<Rightarrow> TicketRunState" where
  "reviewer state =
     (let run = transition_to REVIEWER (ws_run state);
          er = ws_execution_request state
      in if \<not> rs_tests_passed run
         then run\<lparr>rs_escalation_reason := Some INVALID_ROUTE_ATTEMPT,
                  rs_paused_at_node := Some REVIEWER\<rparr>
         else if rs_review_retry_count run < er_quality_failures_before_pass er
         then if rs_review_retry_count run \<ge> rs_max_review_retries run
              then run\<lparr>rs_escalation_reason := Some REVIEW_BUDGET_EXHAUSTED,
                       rs_paused_at_node := Some REVIEWER\<rparr>
              else run\<lparr>rs_review_retry_count := rs_review_retry_count run + 1,
                       rs_last_retry_reason := Some (EscalationReason_value REVIEW_BUDGET_EXHAUSTED),
                       rs_review_approved := False,
                       rs_quality_checks_passed := False\<rparr>
         else run\<lparr>rs_quality_checks_passed := True, rs_review_approved := True\<rparr>)"

definition protection_result :: "RuntimeWorkflow \<Rightarrow> ExecutionRequest \<Rightarrow> BranchProtectionResult" where
  "protection_result env er =
     verify (wf_branch_protection_verifier env) (er_repo_full_name er) (er_target_branch er)
       (er_github_token er) (er_github_base_url er) (wf_branch_protection_config env)"

definition pre_pr_sync :: "RuntimeWorkflow \<Rightarrow> WorkflowState \<Rightarrow> TicketRunState" where
  "pre_pr_sync env state =
     (let run = transition_to PRE_PR_SYNC (ws_run state);
          er = ws_execution_request state
      in if er_diff_too_large er
         then run\<lparr>rs_escalation_reason := Some DIFF_TOO_LARGE,
                  rs_paused_at_node := Some PRE_PR_SYNC\<rparr>
         else if er_merge_conflict er
         then run\<lparr>rs_escalation_reason := Some MERGE_CONFLICT_DETECTED,
                  rs_paused_at_node := Some PRE_PR_SYNC\<rparr>
         else
           let result = protection_result env er
           in if \<not> br_passed result \<and> \<not> br_shadow_mode result
              then run\<lparr>rs_escalation_reason := Some BRANCH_PROTECTION_MISSING,
                       rs_paused_at_node := Some PRE_PR_SYNC\<rparr>
              else run\<lparr>rs_branch_protection_passed := br_passed result \<or> br_shadow_mode result,
                       rs_pre_pr_sync_passed := True\<rparr>)"

definition pr_creator :: "WorkflowState \<Rightarrow> TicketRunState" where
  "pr_creator state =
     (let run = transition_to PR_CREATOR (ws_run state)
      in if \<not> (rs_tests_passed run \<and> rs_review_approved run \<and> rs_pre_pr_sync_passed run \<and>
                rs_branch_protection_passed run)
         then run\<lparr>rs_escalation_reason := Some INVALID_ROUTE_ATTEMPT,
                  rs_paused_at_node := Some PR_CREATOR\<rparr>
         else run\<lparr>rs_pr_created := True, rs_status := COMPLETED\<rparr>)"

definition escalate :: "WorkflowState \<Rightarrow> TicketRunState" where
  "escalate state =
     (let run = (transition_to ESCALATE (ws_run state))\<lparr>rs_status := PAUSED\<rparr>;
          run = (if rs_escalation_reason run = None
                 then run\<lparr>rs_escalation_reason := Some MISSING_ESCALATION_SINK,
                          rs_paused_at_node :=
                            (if rs_paused_at_node run = None then Some ESCALATE
                             else rs_paused_at_node run)\<rparr>
                 else run)
      in case dict_get (ws_escalation_sinks state)
                (EscalationReason_value (the (rs_escalation_reason run))) of
           None \<Rightarrow> run\<lparr>rs_escalation_reason := Some MISSING_ESCALATION_SINK,
                       rs_escalation_sink := None\<rparr>
         | Some sink \<Rightarrow> run\<lparr>rs_escalation_sink := Some sink\<rparr>)"

section \<open>Routers\<close>

text \<open>The twelve nodes registered with \<open>add_node\<close>, and the targets of an edge.\<close>

datatype GraphNode =
    N_load_constitution | N_create_feature_spec | N_clarify | N_create_plan
  | N_create_task_list | N_readiness_gate | N_coder | N_tester | N_reviewer
  | N_pre_pr_sync | N_pr_creator | N_escalate

datatype Target = To GraphNode | END

definition route_after_clarification :: "WorkflowState \<Rightarrow> GraphNode" where
  "route_after_clarification state =
     (if rs_escalation_reason (ws_run state) \<noteq> None then N_escalate
      else if rs_clarification_complete (ws_run state) then N_create_plan
      else N_clarify)"

definition route_after_readiness_gate :: "WorkflowState \<Rightarrow> GraphNode" where
  "route_after_readiness_gate state =
     (if rs_escalation_reason (ws_run state) \<noteq> None then N_escalate else N_coder)"

definition route_after_tester :: "WorkflowState \<Rightarrow> GraphNode" where
  "route_after_tester state =
     (if rs_escalation_reason (ws_run state) \<noteq> None then N_escalate
      else if rs_tests_passed (ws_run state) then N_reviewer
      else N_coder)"

definition route_after_reviewer :: "WorkflowState \<Rightarrow> GraphNode" where
  "route_after_reviewer state =
     (if rs_escalation_reason (ws_run state) \<noteq> None then N_escalate
      else if rs_review_approved (ws_run state) then N_pre_pr_sync
      else N_coder)"

definition route_after_pre_pr_sync :: "WorkflowState \<Rightarrow> GraphNode" where
  "route_after_pre_pr_sync state =
     (if rs_escalation_reason (ws_run state) \<noteq> None then N_escalate else N_pr_creator)"

definition route_after_pr_creator :: "WorkflowState \<Rightarrow> Target" where
  "route_after_pr_creator state =
     (if rs_pr_created (ws_run state) then END else To N_escalate)"

section \<open>The compiled graph\<close>

fun run_node :: "RuntimeWorkflow \<Rightarrow> GraphNode \<Rightarrow> WorkflowState \<Rightarrow> TicketRunState result" where
  "run_node env N_load_constitution st = Inr (load_constitution env st)"
| "run_node env N_create_feature_spec st = create_feature_spec_node env st"
| "run_node env N_clarify st = Inr (clarify env st)"
| "run_node env N_create_plan st = Inr (create_plan env st)"
| "run_node env N_create_task_list st = Inr (create_task_list_node env st)"
| "run_node env N_readiness_gate st = Inr (readiness_gate st)"
| "run_node env N_coder st = Inr (coder st)"
| "run_node env N_tester st = Inr (tester st)"
| "run_node env N_reviewer st = Inr (reviewer st)"
| "run_node env N_pre_pr_sync st = Inr (pre_pr_sync env st)"
| "run_node env N_pr_creator st = Inr (pr_creator st)"
| "run_node env N_escalate st = Inr (escalate st)"

fun next_node :: "GraphNode \<Rightarrow> WorkflowState \<Rightarrow> Target" where
  "next_node N_load_constitution st = To N_create_feature_spec"
| "next_node N_create_feature_spec st = To N_clarify"
| "next_node N_clarify st = To (route_after_clarification st)"
| "next_node N_create_plan st = To N_create_task_list"
| "next_node N_create_task_list st = To N_readiness_gate"
| "next_node N_readiness_gate st = To (route_after_readiness_gate st)"
| "next_node N_coder st = To N_tester"
| "next_node N_tester st = To (route_after_tester st)"
| "next_node N_reviewer st = To (route_after_reviewer st)"
| "next_node N_pre_pr_sync st = To (route_after_pre_pr_sync st)"
| "next_node N_pr_creator st = route_after_pr_creator st"
| "next_node N_escalate st = END"

fun invoke :: "nat \<Rightarrow> RuntimeWorkflow \<Rightarrow> GraphNode \<Rightarrow> WorkflowState \<Rightarrow> WorkflowState result" where
  "invoke 0 env nd st = Inl GraphRecursionError"
| "invoke (Suc limit) env nd st =
     (case run_node env nd st of
        Inl e \<Rightarrow> Inl e
      | Inr run \<Rightarrow>
          let st' = st\<lparr>ws_run := run\<rparr>
          in case next_node nd st' of END \<Rightarrow> Inr st' | To nd' \<Rightarrow> invoke limit env nd' st')"

definition initial_state ::
  "str \<Rightarrow> PlanningRequest \<Rightarrow> ExecutionRequest \<Rightarrow> (str \<times> str) list \<Rightarrow> WorkflowState" where
  "initial_state run_id pr er sinks =
     \<lparr>ws_planning_request = pr, ws_execution_request = er, ws_escalation_sinks = sinks,
      ws_run = new_run run_id pr\<rparr>"

text \<open>One step of the graph as a relation between a node to run and its target.\<close>

inductive graph_step ::
  "RuntimeWorkflow \<Rightarrow> GraphNode \<times> WorkflowState \<Rightarrow> Target \<times> WorkflowState \<Rightarrow> bool"
  for env where
  step: "run_node env nd st = Inr run \<Longrightarrow> st' = st\<lparr>ws_run := run\<rparr> \<Longrightarrow> tgt = next_node nd st' \<Longrightarrow>
         graph_step env (nd, st) (tgt, st')"

inductive_cases graph_stepE: "graph_step env (nd, st) (tgt, st')"
inductive_simps graph_step_iff: "graph_step env (nd, st) (tgt, st')"

inductive reachable :: "RuntimeWorkflow \<Rightarrow> WorkflowState \<Rightarrow> Target \<times> WorkflowState \<Rightarrow> bool"
  for env st0 where
  start: "reachable env st0 (To N_load_constitution, st0)"
| step: "reachable env st0 (To nd, st) \<Longrightarrow> graph_step env (nd, st) (tgt, st') \<Longrightarrow>
         reachable env st0 (tgt, st')"

end
