(* ===== verification/WorkflowCorrect.thy ===== *)
theory WorkflowCorrect
  imports Workflow
begin

text \<open>
  Correctness of the workflow graph: which requests reach a pull request (\<open>expected_outcome\<close>,
  an independent reading of the guards), a location invariant that every step of the graph
  preserves, a measure that every step decreases, and the resulting total correctness of
  \<open>invoke\<close>: with the stated number of steps it returns, with exactly the expected outcome.
\<close>

section \<open>The specification\<close>

datatype outcome = Opened_PR | Paused_For EscalationReason RunNode

definition clarification_resolves :: "PlanningRequest \<Rightarrow> bool" where
  "clarification_resolves pr \<longleftrightarrow>
     \<not> pr_ambiguous pr \<or>
     (case pr_clarification_resolution_attempt pr of
        None \<Rightarrow> False
      | Some r \<Rightarrow> r \<le> max 1 (pr_max_clarification_iterations pr))"

lemma clarification_resolves_alt:
  "clarification_resolves pr \<longleftrightarrow>
     \<not> pr_ambiguous pr \<or>
     (\<exists>r. pr_clarification_resolution_attempt pr = Some r \<and>
          r \<le> max 1 (pr_max_clarification_iterations pr))"
  by (auto simp: clarification_resolves_def split: option.splits)

definition ready_for_implementation :: "PlanningRequest \<Rightarrow> bool" where
  "ready_for_implementation pr \<longleftrightarrow>
     \<not> pr_force_missing_task_list pr \<and> \<not> pr_force_not_ready pr \<and>
     pr_implementation_tasks pr \<noteq> [] \<and> pr_design_checks pr \<noteq> []"

definition tests_within_budget :: "PlanningRequest \<Rightarrow> ExecutionRequest \<Rightarrow> bool" where
  "tests_within_budget pr er \<longleftrightarrow>
     \<not> er_missing_required_tests er \<and> \<not> er_skip_required_tests er \<and>
     er_test_failures_before_pass er \<le> max 0 (pr_max_test_retries pr)"

definition review_within_budget :: "PlanningRequest \<Rightarrow> ExecutionRequest \<Rightarrow> bool" where
  "review_within_budget pr er \<longleftrightarrow>
     er_quality_failures_before_pass er \<le> max 0 (pr_max_review_retries pr)"

definition protection_accepted :: "RuntimeWorkflow \<Rightarrow> ExecutionRequest \<Rightarrow> bool" where
  "protection_accepted env er \<longleftrightarrow>
     br_passed (protection_result env er) \<or> bp_shadow_mode (wf_branch_protection_verifier env)"

definition expected_outcome ::
  "RuntimeWorkflow \<Rightarrow> PlanningRequest \<Rightarrow> ExecutionRequest \<Rightarrow> outcome" where
  "expected_outcome env pr er =
     (if \<not> clarification_resolves pr then Paused_For UNRESOLVED_AMBIGUITY CLARIFY
      else if \<not> ready_for_implementation pr then Paused_For INVALID_ROUTE_ATTEMPT READINESS_GATE
      else if \<not> tests_within_budget pr er
        then Paused_For MISSING_OR_FAILING_REQUIRED_TESTS TESTER
      else if \<not> review_within_budget pr er then Paused_For REVIEW_BUDGET_EXHAUSTED REVIEWER
      else if er_diff_too_large er then Paused_For DIFF_TOO_LARGE PRE_PR_SYNC
      else if er_merge_conflict er then Paused_For MERGE_CONFLICT_DETECTED PRE_PR_SYNC
      else if \<not> protection_accepted env er then Paused_For BRANCH_PROTECTION_MISSING PRE_PR_SYNC
      else Opened_PR)"

text \<open>How a finished run shows its outcome; an escalation looks its sink up.\<close>

definition shows_outcome :: "outcome \<Rightarrow> (str \<times> str) list \<Rightarrow> TicketRunState \<Rightarrow> bool" where
  "shows_outcome oc sinks run =
     (case oc of
        Opened_PR \<Rightarrow> rs_pr_created run \<and> rs_status run = COMPLETED \<and>
                     rs_escalation_reason run = None \<and> rs_current_node run = PR_CREATOR
      | Paused_For reason node \<Rightarrow>
          \<not> rs_pr_created run \<and> rs_status run = PAUSED \<and> rs_paused_at_node run = Some node \<and>
          rs_current_node run = ESCALATE \<and>
          rs_escalation_sink run = dict_get sinks (EscalationReason_value reason) \<and>
          rs_escalation_reason run =
            (if dict_has sinks (EscalationReason_value reason) then Some reason
             else Some MISSING_ESCALATION_SINK))"

section \<open>Effect of the node functions\<close>

lemma transition_to_simps [run_simps]:
  "rs_current_node (transition_to n run) = n"
  "rs_node_history (transition_to n run) = rs_node_history run @ [n]"
  "rs_tenant_id (transition_to n run) = rs_tenant_id run"
  "rs_status (transition_to n run) = rs_status run"
  "rs_task_list (transition_to n run) = rs_task_list run"
  "rs_clarification_notes (transition_to n run) = rs_clarification_notes run"
  "rs_paused_at_node (transition_to n run) = rs_paused_at_node run"
  "rs_escalation_reason (transition_to n run) = rs_escalation_reason run"
  "rs_escalation_sink (transition_to n run) = rs_escalation_sink run"
  "rs_clarification_attempts (transition_to n run) = rs_clarification_attempts run"
  "rs_max_clarification_iterations (transition_to n run) = rs_max_clarification_iterations run"
  "rs_clarification_complete (transition_to n run) = rs_clarification_complete run"
  "rs_spec_ready_for_implementation (transition_to n run) = rs_spec_ready_for_implementation run"
  "rs_required_test_targets (transition_to n run) = rs_required_test_targets run"
  "rs_test_retry_count (transition_to n run) = rs_test_retry_count run"
  "rs_max_test_retries (transition_to n run) = rs_max_test_retries run"
  "rs_tests_passed (transition_to n run) = rs_tests_passed run"
  "rs_review_retry_count (transition_to n run) = rs_review_retry_count run"
  "rs_max_review_retries (transition_to n run) = rs_max_review_retries run"
  "rs_review_approved (transition_to n run) = rs_review_approved run"
  "rs_pre_pr_sync_passed (transition_to n run) = rs_pre_pr_sync_passed run"
  "rs_branch_protection_passed (transition_to n run) = rs_branch_protection_passed run"
  "rs_pr_created (transition_to n run) = rs_pr_created run"
  by (simp_all add: transition_to_def)

lemmas node_defs =
  load_constitution_def create_feature_spec_node_def clarify_def create_plan_def
  create_task_list_node_def readiness_gate_def coder_def tester_def reviewer_def
  pre_pr_sync_def pr_creator_def escalate_def record_artifact_hash_def Let_def

lemmas route_defs =
  route_after_clarification_def route_after_readiness_gate_def route_after_tester_def
  route_after_reviewer_def route_after_pre_pr_sync_def route_after_pr_creator_def

section \<open>Location invariant\<close>

text \<open>The budgets of the run are those of the request, and no pull request exists yet.\<close>

definition on_track :: "PlanningRequest \<Rightarrow> TicketRunState \<Rightarrow> bool" where
  "on_track pr r \<longleftrightarrow>
     rs_max_clarification_iterations r = pr_max_clarification_iterations pr \<and>
     rs_max_test_retries r = pr_max_test_retries pr \<and>
     rs_max_review_retries r = pr_max_review_retries pr \<and>
     \<not> rs_pr_created r"

definition running :: "TicketRunState \<Rightarrow> bool" where
  "running r \<longleftrightarrow> rs_escalation_reason r = None \<and> rs_paused_at_node r = None"

definition retries_ok :: "TicketRunState \<Rightarrow> bool" where
  "retries_ok r \<longleftrightarrow>
     0 \<le> rs_test_retry_count r \<and> rs_test_retry_count r \<le> max 0 (rs_max_test_retries r) \<and>
     0 \<le> rs_review_retry_count r \<and> rs_review_retry_count r \<le> max 0 (rs_max_review_retries r)"

definition planned :: "PlanningRequest \<Rightarrow> TicketRunState \<Rightarrow> bool" where
  "planned pr r \<longleftrightarrow>
     clarification_resolves pr \<and> ready_for_implementation pr \<and> rs_task_list r \<noteq> None \<and>
     rs_required_test_targets r \<noteq> [] \<and> retries_ok r"

definition clarifying :: "PlanningRequest \<Rightarrow> TicketRunState \<Rightarrow> bool" where
  "clarifying pr r \<longleftrightarrow>
     (let a = rs_clarification_attempts r in
      0 \<le> a \<and> \<not> rs_clarification_complete r \<and>
      (a \<noteq> 0 \<longrightarrow> a < pr_max_clarification_iterations pr \<and>
         (\<forall>k. pr_clarification_resolution_attempt pr = Some k \<longrightarrow> a < k)))"

definition counters_zero :: "TicketRunState \<Rightarrow> bool" where
  "counters_zero r \<longleftrightarrow> rs_test_retry_count r = 0 \<and> rs_review_retry_count r = 0"

fun node_inv ::
  "RuntimeWorkflow \<Rightarrow> PlanningRequest \<Rightarrow> ExecutionRequest \<Rightarrow> GraphNode \<Rightarrow> TicketRunState \<Rightarrow> bool"
where
  "node_inv env pr er N_load_constitution r =
     (running r \<and> counters_zero r \<and> clarifying pr r \<and> rs_clarification_attempts r = 0)"
| "node_inv env pr er N_create_feature_spec r =
     (running r \<and> counters_zero r \<and> clarifying pr r \<and> rs_clarification_attempts r = 0)"
| "node_inv env pr er N_clarify r = (running r \<and> counters_zero r \<and> clarifying pr r)"
| "node_inv env pr er N_create_plan r = (running r \<and> counters_zero r \<and> clarification_resolves pr)"
| "node_inv env pr er N_create_task_list r =
     (running r \<and> counters_zero r \<and> clarification_resolves pr)"
| "node_inv env pr er N_readiness_gate r =
     (running r \<and> counters_zero r \<and> clarification_resolves pr \<and>
      (rs_task_list r \<noteq> None \<and> rs_spec_ready_for_implementation r \<longleftrightarrow> ready_for_implementation pr) \<and>
      (ready_for_implementation pr \<longrightarrow> rs_required_test_targets r \<noteq> []))"
| "node_inv env pr er N_coder r = (running r \<and> planned pr r)"
| "node_inv env pr er N_tester r = (running r \<and> planned pr r)"
| "node_inv env pr er N_reviewer r =
     (running r \<and> planned pr r \<and> tests_within_budget pr er \<and> rs_tests_passed r)"
| "node_inv env pr er N_pre_pr_sync r =
     (running r \<and> planned pr r \<and> tests_within_budget pr er \<and> review_within_budget pr er \<and>
      rs_tests_passed r \<and> rs_review_approved r)"
| "node_inv env pr er N_pr_creator r =
     (running r \<and> planned pr r \<and> rs_tests_passed r \<and> rs_review_approved r \<and>
      rs_pre_pr_sync_passed r \<and> rs_branch_protection_passed r \<and>
      expected_outcome env pr er = Opened_PR)"
| "node_inv env pr er N_escalate r =
     (\<exists>reason node. rs_escalation_reason r = Some reason \<and> rs_paused_at_node r = Some node \<and>
        expected_outcome env pr er = Paused_For reason node)"

definition target_inv ::
  "RuntimeWorkflow \<Rightarrow> Target \<Rightarrow> WorkflowState \<Rightarrow> bool" where
  "target_inv env tgt st =
     (let pr = ws_planning_request st; er = ws_execution_request st in
      case tgt of
        To nd \<Rightarrow> on_track pr (ws_run st) \<and> node_inv env pr er nd (ws_run st)
      | END \<Rightarrow> shows_outcome (expected_outcome env pr er) (ws_escalation_sinks st) (ws_run st))"

section \<open>Every node preserves the invariant\<close>

text \<open>
  One lemma per node: from the invariant at the node, the run it returns satisfies the
  invariant of the node the router picks. The clarification loop goes through its effect on
  the fields the invariant reads.
\<close>

definition clarify_resolves_now :: "PlanningRequest \<Rightarrow> TicketRunState \<Rightarrow> bool" where
  "clarify_resolves_now pr run \<longleftrightarrow>
     \<not> pr_ambiguous pr \<or>
     (\<exists>k. pr_clarification_resolution_attempt pr = Some k \<and> k \<le> rs_clarification_attempts run + 1)"

lemma clarify_effect:
  fixes env st
  defines "pr \<equiv> ws_planning_request st" and "r \<equiv> ws_run st" and "r' \<equiv> clarify env st"
  shows "rs_clarification_attempts r' = rs_clarification_attempts r + (if pr_ambiguous pr then 1 else 0)"
    "rs_clarification_complete r' = (rs_clarification_complete r \<or> clarify_resolves_now pr r)"
    "rs_escalation_reason r' =
       (if \<not> clarify_resolves_now pr r \<and>
           rs_max_clarification_iterations r \<le> rs_clarification_attempts r + 1
        then Some UNRESOLVED_AMBIGUITY else rs_escalation_reason r)"
    "rs_paused_at_node r' =
       (if \<not> clarify_resolves_now pr r \<and>
           rs_max_clarification_iterations r \<le> rs_clarification_attempts r + 1
        then Some CLARIFY else rs_paused_at_node r)"
    "rs_max_clarification_iterations r' = rs_max_clarification_iterations r"
    "rs_max_test_retries r' = rs_max_test_retries r"
    "rs_max_review_retries r' = rs_max_review_retries r"
    "rs_test_retry_count r' = rs_test_retry_count r"
    "rs_review_retry_count r' = rs_review_retry_count r"
    "rs_pr_created r' = rs_pr_created r"
  unfolding assms clarify_resolves_now_def
  by (((cases "rs_clarification_notes (ws_run st)";
      cases "pr_clarification_resolution_attempt (ws_planning_request st)");
      simp add: node_defs run_simps); fail)+

lemma inv_clarify:
  fixes env st
  defines "pr \<equiv> ws_planning_request st" and "r \<equiv> clarify env st"
  assumes track: "on_track pr (ws_run st)" and inv: "node_inv env pr er N_clarify (ws_run st)"
  shows "on_track pr r \<and> node_inv env pr er (route_after_clarification (st\<lparr>ws_run := r\<rparr>)) r"
proof -
  let ?a = "rs_clarification_attempts (ws_run st)"
  have tr: "on_track pr r"
    using track by (simp add: on_track_def clarify_effect r_def pr_def)
  show ?thesis
  proof (cases "clarify_resolves_now pr (ws_run st)")
    case True
    with inv have "clarification_resolves pr"
      by (fastforce simp: clarify_resolves_now_def clarification_resolves_alt clarifying_def Let_def
          max_def)
    with True inv tr show ?thesis
      by (simp add: route_defs clarify_effect r_def pr_def running_def counters_zero_def)
  next
    case False
    note no = this
    show ?thesis
    proof (cases "pr_max_clarification_iterations pr \<le> ?a + 1")
      case True
      with no inv have "\<not> clarification_resolves pr"
        by (cases "?a = 0"; auto simp: clarify_resolves_now_def clarification_resolves_alt
            clarifying_def Let_def)
      with no True inv tr track show ?thesis
        by (simp add: route_defs clarify_effect r_def pr_def expected_outcome_def on_track_def)
    next
      case False
      with no inv tr track show ?thesis
        by (auto simp add: route_defs clarify_effect r_def pr_def on_track_def running_def
            counters_zero_def clarifying_def Let_def clarify_resolves_now_def)
    qed
  qed
qed
lemma inv_load: "on_track pr (ws_run st) \<Longrightarrow> node_inv env pr er N_load_constitution (ws_run st) \<Longrightarrow>
  let r = load_constitution env st in on_track pr r \<and> node_inv env pr er N_create_feature_spec r"
  by (simp add: node_defs run_simps on_track_def running_def counters_zero_def clarifying_def)

lemma inv_spec: "on_track pr (ws_run st) \<Longrightarrow> node_inv env pr er N_create_feature_spec (ws_run st) \<Longrightarrow>
  \<exists>r. create_feature_spec_node env st = Inr r \<and> on_track pr r \<and> node_inv env pr er N_clarify r"
  using resolve_build_context[of "transition_to CREATE_FEATURE_SPEC (ws_run st)" "ws_planning_request st"]
  by (auto simp: node_defs run_simps on_track_def running_def counters_zero_def clarifying_def)

lemma inv_plan: "on_track pr (ws_run st) \<Longrightarrow> node_inv env pr er N_create_plan (ws_run st) \<Longrightarrow>
  r = create_plan env st \<Longrightarrow> on_track pr r \<and> node_inv env pr er N_create_task_list r"
  by (simp add: node_defs run_simps on_track_def running_def counters_zero_def)

lemma inv_tasks: 
 assumes "visits_all (wf_set_order env)"
 shows "on_track pr (ws_run st) \<Longrightarrow> ws_planning_request st = pr \<Longrightarrow> node_inv env pr er N_create_task_list (ws_run st) \<Longrightarrow>
  r = create_task_list_node env st \<Longrightarrow> on_track pr r \<and> node_inv env pr er N_readiness_gate r"
  using create_task_list_ready[OF assms, of "fresh_id env (transition_to CREATE_TASK_LIST (ws_run st))" pr]
    planned_targets_nonempty[of pr "fresh_id env (transition_to CREATE_TASK_LIST (ws_run st))"]
  by (auto simp: node_defs run_simps on_track_def running_def counters_zero_def 
     ready_for_implementation_def split: option.splits prod.splits)

lemma inv_gate: "on_track pr (ws_run st) \<Longrightarrow> node_inv env pr er N_readiness_gate (ws_run st) \<Longrightarrow>
  r = readiness_gate st \<Longrightarrow> on_track pr r \<and>
   node_inv env pr er (route_after_readiness_gate (st\<lparr>ws_run := r\<rparr>)) r"
  by (auto simp: node_defs run_simps on_track_def running_def counters_zero_def planned_def retries_ok_def
   expected_outcome_def route_defs)

lemma inv_coder: "on_track pr (ws_run st) \<Longrightarrow> node_inv env pr er N_coder (ws_run st) \<Longrightarrow>
  r = coder st \<Longrightarrow> on_track pr r \<and> node_inv env pr er N_tester r"
  by (simp add: node_defs run_simps on_track_def running_def planned_def retries_ok_def)

lemma inv_tester: "on_track pr (ws_run st) \<Longrightarrow> ws_execution_request st = er \<Longrightarrow> node_inv env pr er N_tester (ws_run st) \<Longrightarrow>
  r = tester st \<Longrightarrow> on_track pr r \<and> node_inv env pr er (route_after_tester (st\<lparr>ws_run := r\<rparr>)) r"
  by (auto simp: node_defs run_simps on_track_def running_def planned_def retries_ok_def
    tests_within_budget_def expected_outcome_def route_defs max_def)

lemma inv_reviewer: "on_track pr (ws_run st) \<Longrightarrow> ws_execution_request st = er \<Longrightarrow> node_inv env pr er N_reviewer (ws_run st) \<Longrightarrow>
  r = reviewer st \<Longrightarrow> on_track pr r \<and> node_inv env pr er (route_after_reviewer (st\<lparr>ws_run := r\<rparr>)) r"
  by (auto simp: node_defs run_simps on_track_def running_def planned_def retries_ok_def
    review_within_budget_def expected_outcome_def route_defs max_def)

lemma inv_sync: "on_track pr (ws_run st) \<Longrightarrow> ws_execution_request st = er \<Longrightarrow> node_inv env pr er N_pre_pr_sync (ws_run st) \<Longrightarrow>
  r = pre_pr_sync env st \<Longrightarrow> on_track pr r \<and> node_inv env pr er (route_after_pre_pr_sync (st\<lparr>ws_run := r\<rparr>)) r"
  by (auto simp: node_defs run_simps on_track_def running_def planned_def retries_ok_def
    protection_accepted_def protection_result_def expected_outcome_def route_defs)

lemma inv_pr: "on_track pr (ws_run st) \<Longrightarrow> node_inv env pr er N_pr_creator (ws_run st) \<Longrightarrow>
  r = pr_creator st \<Longrightarrow> rs_pr_created r \<and> shows_outcome (expected_outcome env pr er) sinks r"
  by (auto simp: node_defs run_simps on_track_def running_def planned_def retries_ok_def
    shows_outcome_def)

lemma inv_escalate: "on_track pr (ws_run st) \<Longrightarrow> node_inv env pr er N_escalate (ws_run st) \<Longrightarrow>
  r = escalate st \<Longrightarrow> shows_outcome (expected_outcome env pr er) (ws_escalation_sinks st) r"
  by (auto simp: node_defs run_simps on_track_def running_def planned_def retries_ok_def
    shows_outcome_def dict_has_def split: option.splits)
section \<open>The declared graph\<close>

text \<open>
  The edges that \<open>_build_graph\<close> declares, as successors of a run node, and the paths over them
  that start at the intake. \<open>node_of\<close> is the \<open>RunNode\<close> a graph node records in the history.
\<close>

fun node_of :: "GraphNode \<Rightarrow> RunNode" where
  "node_of N_load_constitution = LOAD_CONSTITUTION"
| "node_of N_create_feature_spec = CREATE_FEATURE_SPEC"
| "node_of N_clarify = CLARIFY"
| "node_of N_create_plan = CREATE_PLAN"
| "node_of N_create_task_list = CREATE_TASK_LIST"
| "node_of N_readiness_gate = READINESS_GATE"
| "node_of N_coder = CODER"
| "node_of N_tester = TESTER"
| "node_of N_reviewer = REVIEWER"
| "node_of N_pre_pr_sync = PRE_PR_SYNC"
| "node_of N_pr_creator = PR_CREATOR"
| "node_of N_escalate = ESCALATE"

fun declared_edges :: "RunNode \<Rightarrow> RunNode list" where
  "declared_edges INTAKE = [LOAD_CONSTITUTION]"
| "declared_edges LOAD_CONSTITUTION = [CREATE_FEATURE_SPEC]"
| "declared_edges CREATE_FEATURE_SPEC = [CLARIFY]"
| "declared_edges CLARIFY = [CLARIFY, CREATE_PLAN, ESCALATE]"
| "declared_edges CREATE_PLAN = [CREATE_TASK_LIST]"
| "declared_edges CREATE_TASK_LIST = [READINESS_GATE]"
| "declared_edges READINESS_GATE = [CODER, ESCALATE]"
| "declared_edges CODER = [TESTER]"
| "declared_edges TESTER = [CODER, REVIEWER, ESCALATE]"
| "declared_edges REVIEWER = [CODER, PRE_PR_SYNC, ESCALATE]"
| "declared_edges PRE_PR_SYNC = [PR_CREATOR, ESCALATE]"
| "declared_edges PR_CREATOR = [ESCALATE]"
| "declared_edges ESCALATE = []"

definition declared_edge :: "RunNode \<Rightarrow> RunNode \<Rightarrow> bool" where
  "declared_edge a b \<longleftrightarrow> b \<in> set (declared_edges a)"

definition declared_path :: "RunNode list \<Rightarrow> bool" where
  "declared_path h \<longleftrightarrow> h \<noteq> [] \<and> hd h = INTAKE \<and> successively declared_edge h"

lemma run_node_history:
  "run_node env nd st = Inr run \<Longrightarrow>
   rs_node_history run = rs_node_history (ws_run st) @ [node_of nd] \<and> rs_current_node run = node_of nd"
  by (cases nd) (auto simp: node_defs run_simps split: if_splits option.splits prod.splits)

lemma next_node_declared:
  "next_node nd st = To nd' \<Longrightarrow> declared_edge (node_of nd) (node_of nd')"
  by (cases nd) (auto simp: declared_edge_def route_defs split: if_splits)

lemma reachable_path:
  "reachable env (initial_state run_id pr er sinks) (tgt, st) \<Longrightarrow>
   declared_path (rs_node_history (ws_run st)) \<and>
   (\<forall>nd. tgt = To nd \<longrightarrow> declared_edge (last (rs_node_history (ws_run st))) (node_of nd))"
proof (induction tgt st rule: reachable.induct[split_format(complete)])
  case start
  then show ?case
    by (simp add: initial_state_def new_run_def declared_path_def declared_edge_def)
next
  case (step nd st tgt st')
  from step.hyps obtain run where run: "run_node env nd st = Inr run" and st': "st' = st\<lparr>ws_run := run\<rparr>"
    and tgt: "tgt = next_node nd st'"
    by (auto elim: graph_stepE)
  from run_node_history[OF run] step.IH tgt next_node_declared[of nd st']
  show ?case
    by (auto simp: st' declared_path_def successively_append_iff)
qed

lemma declared_path_before_gate:
  "declared_path h \<Longrightarrow> READINESS_GATE \<notin> set h \<Longrightarrow>
   set h \<subseteq> {INTAKE, LOAD_CONSTITUTION, CREATE_FEATURE_SPEC, CLARIFY, CREATE_PLAN, CREATE_TASK_LIST, ESCALATE}"
proof (induction h rule: rev_induct)
  case Nil
  then show ?case by simp
next
  case (snoc x h)
  show ?case
  proof (cases "h = []")
    case True
    with snoc.prems show ?thesis by (simp add: declared_path_def)
  next
    case False
    with snoc.prems have "declared_path h" "declared_edge (last h) x"
      by (auto simp: declared_path_def successively_append_iff)
    moreover have "last h \<in> set h" using False by simp
    ultimately show ?thesis
      using snoc by (cases "last h") (auto simp: declared_edge_def)
  qed
qed

lemma declared_path_pred:
  "declared_path h \<Longrightarrow> x \<in> set h \<Longrightarrow> x \<noteq> INTAKE \<Longrightarrow> \<exists>y \<in> set h. declared_edge y x"
proof (induction h rule: rev_induct)
  case Nil
  then show ?case by simp
next
  case (snoc z h)
  then show ?case
    by (cases "h = []") (auto simp: declared_path_def successively_append_iff)
qed

lemma declared_edge_into:
  "declared_edge y PR_CREATOR \<longleftrightarrow> y = PRE_PR_SYNC"
  "declared_edge y PRE_PR_SYNC \<longleftrightarrow> y = REVIEWER"
  "declared_edge y REVIEWER \<longleftrightarrow> y = TESTER"
  "declared_edge y TESTER \<longleftrightarrow> y = CODER"
  by (cases y; simp add: declared_edge_def)+

lemma declared_path_to_pr:
  assumes "declared_path h" "PR_CREATOR \<in> set h"
  shows "{READINESS_GATE, CODER, TESTER, REVIEWER, PRE_PR_SYNC} \<subseteq> set h"
proof -
  have "PRE_PR_SYNC \<in> set h" "REVIEWER \<in> set h" "TESTER \<in> set h" "CODER \<in> set h"
    using declared_path_pred[OF assms(1)] assms(2) declared_edge_into by (metis RunNode.distinct)+
  moreover have "READINESS_GATE \<in> set h"
    using declared_path_before_gate[OF assms(1)] assms(2) by auto
  ultimately show ?thesis by simp
qed

section \<open>Preservation and progress\<close>

lemma target_inv_initial:
  "target_inv env (To N_load_constitution) (initial_state run_id pr er sinks)"
  by (simp add: target_inv_def initial_state_def new_run_def on_track_def running_def
      counters_zero_def clarifying_def)

lemma run_node_total:
  "target_inv env (To nd) st \<Longrightarrow> \<exists>run. run_node env nd st = Inr run"
  using inv_spec[of "ws_planning_request st" st env "ws_execution_request st"]
  by (cases nd) (auto simp: target_inv_def Let_def)

lemma target_inv_step:
  assumes order: "visits_all (wf_set_order env)"
    and inv: "target_inv env (To nd) st" and step: "graph_step env (nd, st) (tgt, st')"
  shows "target_inv env tgt st'"
proof -
  let ?pr = "ws_planning_request st" and ?er = "ws_execution_request st"
  from inv have track: "on_track ?pr (ws_run st)" and node: "node_inv env ?pr ?er nd (ws_run st)"
    by (simp_all add: target_inv_def Let_def)
  from step obtain run where run: "run_node env nd st = Inr run" and st': "st' = st\<lparr>ws_run := run\<rparr>"
    and tgt: "tgt = next_node nd st'"
    by (auto elim: graph_stepE)
  show ?thesis
    using run tgt track node
      inv_load[of ?pr st env ?er] inv_spec[of ?pr st env ?er] inv_clarify[of st env ?er]
      inv_plan[of ?pr st env ?er run] inv_tasks[OF order, of ?pr st ?er run]
      inv_gate[of ?pr st env ?er run] inv_coder[of ?pr st env ?er run] inv_tester[of ?pr st ?er env run]
      inv_reviewer[of ?pr st ?er env run] inv_sync[of ?pr st ?er env run] inv_pr[of ?pr st env ?er run]
      inv_escalate[of ?pr st env ?er run]
    unfolding st'
    by (cases nd) (auto simp: target_inv_def Let_def route_after_pr_creator_def simp del: node_inv.simps)
qed

section \<open>Termination and total correctness\<close>

text \<open>Every step decreases this measure; at the start it is the number of steps that suffice.\<close>

definition retries_left :: "PlanningRequest \<Rightarrow> TicketRunState \<Rightarrow> nat" where
  "retries_left pr r =
     2 * nat (max 0 (pr_max_test_retries pr) - rs_test_retry_count r) +
     3 * nat (max 0 (pr_max_review_retries pr) - rs_review_retry_count r)"

definition clarifications_left :: "PlanningRequest \<Rightarrow> TicketRunState \<Rightarrow> nat" where
  "clarifications_left pr r =
     nat (max 1 (pr_max_clarification_iterations pr) - rs_clarification_attempts r)"

fun steps_left :: "PlanningRequest \<Rightarrow> GraphNode \<Rightarrow> TicketRunState \<Rightarrow> nat" where
  "steps_left pr N_load_constitution r = 11 + clarifications_left pr r + retries_left pr r"
| "steps_left pr N_create_feature_spec r = 10 + clarifications_left pr r + retries_left pr r"
| "steps_left pr N_clarify r = 9 + clarifications_left pr r + retries_left pr r"
| "steps_left pr N_create_plan r = 9 + retries_left pr r"
| "steps_left pr N_create_task_list r = 8 + retries_left pr r"
| "steps_left pr N_readiness_gate r = 7 + retries_left pr r"
| "steps_left pr N_coder r = 6 + retries_left pr r"
| "steps_left pr N_tester r = 5 + retries_left pr r"
| "steps_left pr N_reviewer r = 4 + retries_left pr r"
| "steps_left pr N_pre_pr_sync r = 3"
| "steps_left pr N_pr_creator r = 2"
| "steps_left pr N_escalate r = 1"

definition steps_needed :: "PlanningRequest \<Rightarrow> nat" where
  "steps_needed pr =
     11 + nat (max 1 (pr_max_clarification_iterations pr)) +
     2 * nat (max 0 (pr_max_test_retries pr)) + 3 * nat (max 0 (pr_max_review_retries pr))"

lemma steps_left_pos: "0 < steps_left pr nd r"
  by (cases nd) auto

lemma clarify_decreases:
  assumes "target_inv env (To N_clarify) st" and "r = clarify env st"
  shows "steps_left (ws_planning_request st) (route_after_clarification (st\<lparr>ws_run := r\<rparr>)) r
       < steps_left (ws_planning_request st) N_clarify (ws_run st)"
proof -
  from assms(1) have "clarifying (ws_planning_request st) (ws_run st)"
    "on_track (ws_planning_request st) (ws_run st)" by (simp_all add: target_inv_def Let_def)
  then have "0 \<le> rs_clarification_attempts (ws_run st)"
    "rs_clarification_attempts (ws_run st) < max 1 (pr_max_clarification_iterations (ws_planning_request st))"
    "rs_max_clarification_iterations (ws_run st) = pr_max_clarification_iterations (ws_planning_request st)"
    by (auto simp: clarifying_def Let_def on_track_def)
  then show ?thesis
    unfolding assms(2)
    by (auto simp: route_defs clarify_effect clarifications_left_def retries_left_def
        clarify_resolves_now_def)
qed

lemma steps_left_decreases:
  assumes inv: "target_inv env (To nd) st" and run: "run_node env nd st = Inr run"
    and nxt: "next_node nd (st\<lparr>ws_run := run\<rparr>) = To nd'"
  shows "steps_left (ws_planning_request st) nd' run < steps_left (ws_planning_request st) nd (ws_run st)"
proof (cases "nd = N_clarify")
  case True
  with inv run nxt show ?thesis
    using clarify_decreases[of env st run] by auto
next
  case False
  with inv run nxt show ?thesis
    by (cases nd)
      (auto simp: target_inv_def Let_def on_track_def planned_def retries_ok_def route_defs node_defs
        run_simps retries_left_def clarifications_left_def split: if_splits prod.splits option.splits)
qed

lemma invoke_total:
  assumes order: "visits_all (wf_set_order env)"
  shows "target_inv env (To nd) st \<Longrightarrow> steps_left (ws_planning_request st) nd (ws_run st) \<le> limit \<Longrightarrow>
    \<exists>st'. invoke limit env nd st = Inr st' \<and> target_inv env END st' \<and>
      ws_planning_request st' = ws_planning_request st \<and>
      ws_execution_request st' = ws_execution_request st \<and>
      ws_escalation_sinks st' = ws_escalation_sinks st"
proof (induction limit arbitrary: nd st)
  case 0
  with steps_left_pos[of "ws_planning_request st" nd "ws_run st"] show ?case by simp
next
  case (Suc limit)
  from run_node_total[OF Suc.prems(1)] obtain run where run: "run_node env nd st = Inr run" by blast
  let ?st' = "st\<lparr>ws_run := run\<rparr>"
  have inv': "target_inv env (next_node nd ?st') ?st'"
    using target_inv_step[OF order Suc.prems(1)] run by (auto simp: graph_step_iff)
  show ?case
  proof (cases "next_node nd ?st'")
    case END
    with run inv' show ?thesis by (simp add: Let_def)
  next
    case (To nd')
    from steps_left_decreases[OF Suc.prems(1) run To] Suc.prems(2)
    have "steps_left (ws_planning_request ?st') nd' (ws_run ?st') \<le> limit" by simp
    with Suc.IH[of nd' ?st'] inv' To run show ?thesis by (simp add: Let_def)
  qed
qed

lemma steps_left_initial:
  "steps_left pr N_load_constitution (new_run run_id pr) = steps_needed pr"
  by (simp add: steps_needed_def clarifications_left_def retries_left_def new_run_def)

lemma invoke_outcome:
  assumes "visits_all (wf_set_order env)" and "steps_needed pr \<le> limit"
  shows "\<exists>st'. invoke limit env N_load_constitution (initial_state run_id pr er sinks) = Inr st' \<and>
           shows_outcome (expected_outcome env pr er) sinks (ws_run st')"
proof -
  let ?st = "initial_state run_id pr er sinks"
  have "steps_left (ws_planning_request ?st) N_load_constitution (ws_run ?st) \<le> limit"
    using assms(2) by (simp add: initial_state_def steps_left_initial del: steps_left.simps)
  from invoke_total[OF assms(1) target_inv_initial this] show ?thesis
    by (auto simp: initial_state_def target_inv_def Let_def)
qed

lemma reachable_inv:
  assumes order: "visits_all (wf_set_order env)"
    and "reachable env (initial_state run_id pr er sinks) (tgt, st)"
  shows "target_inv env tgt st \<and> ws_planning_request st = pr \<and> ws_execution_request st = er \<and> ws_escalation_sinks st = sinks"
  using assms(2)
proof (induction tgt st rule: reachable.induct[split_format(complete)])
  case start
  show ?case using target_inv_initial by (simp add: initial_state_def)
next
  case (step nd st tgt st')
  with target_inv_step[OF order, of nd st tgt st'] show ?case by (auto elim: graph_stepE)
qed

end
