(* ===== verification/Db.thy ===== *)
theory Db
  imports Prelude
begin

text \<open>
  The tenant scope of a database session, \<open>backend/persistence/db.py\<close>, and the row level security
  the migrations install on the tenant tables. \<open>None\<close> is a session that never called
  \<open>set_config\<close>; \<open>app.tenant_visible\<close> is the function of migration 0007 (with the wildcard), and
  \<open>bypass\<close> says whether the connected role is exempt from row level security.
\<close>

definition ALL_TENANTS_SCOPE :: str where "ALL_TENANTS_SCOPE = ''*''"
definition ALL_TEAMS_SCOPE :: str where "ALL_TEAMS_SCOPE = ''*''"

type_synonym scope = "(str \<times> str) option"

definition tenant_guc_values :: "str \<Rightarrow> str \<Rightarrow> (str \<times> str) list" where
  "tenant_guc_values tenant_id team_id =
     [(''app.tenant_id'', tenant_id), (''app.team_id'', team_id)]"

definition current_setting :: "(str \<times> str) list \<Rightarrow> str \<Rightarrow> str option" where
  "current_setting gucs key =
     (case dict_get gucs key of None \<Rightarrow> None | Some v \<Rightarrow> if v = [] then None else Some v)"

text \<open>SQL comparison with a possibly NULL value: unknown counts as not visible in a policy.\<close>

definition sql_eq :: "str option \<Rightarrow> str \<Rightarrow> bool" where
  "sql_eq x s \<longleftrightarrow> x = Some s"

definition tenant_visible :: "(str \<times> str) list \<Rightarrow> str \<Rightarrow> str \<Rightarrow> bool" where
  "tenant_visible gucs row_tenant_id row_team_id \<longleftrightarrow>
     (let tenant = current_setting gucs ''app.tenant_id''; team = current_setting gucs ''app.team_id''
      in (sql_eq tenant ''*'' \<or> sql_eq tenant row_tenant_id) \<and>
         (sql_eq team ''*'' \<or> sql_eq team row_team_id))"

definition scope_gucs :: "scope \<Rightarrow> (str \<times> str) list" where
  "scope_gucs sc = (case sc of None \<Rightarrow> [] | Some (t, m) \<Rightarrow> tenant_guc_values t m)"

definition row_visible :: "bool \<Rightarrow> scope \<Rightarrow> str \<Rightarrow> str \<Rightarrow> bool" where
  "row_visible bypass sc row_tenant_id row_team_id \<longleftrightarrow>
     bypass \<or> tenant_visible (scope_gucs sc) row_tenant_id row_team_id"

definition rls_violation :: exn where
  "rls_violation = OtherError ''new row violates row-level security policy''"

lemma row_visible_unset [simp]: "row_visible bypass None t m \<longleftrightarrow> bypass"
  by (simp add: row_visible_def tenant_visible_def scope_gucs_def current_setting_def sql_eq_def)

lemma row_visible_own:
  "t \<noteq> [] \<Longrightarrow> m \<noteq> [] \<Longrightarrow> row_visible bypass (Some (t, m)) t m"
  by (simp add: row_visible_def tenant_visible_def scope_gucs_def current_setting_def sql_eq_def
      tenant_guc_values_def)

lemma row_visible_all [simp]: "row_visible bypass (Some (ALL_TENANTS_SCOPE, ALL_TEAMS_SCOPE)) t m"
  by (simp add: row_visible_def tenant_visible_def scope_gucs_def current_setting_def sql_eq_def
      tenant_guc_values_def ALL_TENANTS_SCOPE_def ALL_TEAMS_SCOPE_def)

lemma row_visible_all_teams:
  "t \<noteq> [] \<Longrightarrow> row_visible bypass (Some (t, ALL_TEAMS_SCOPE)) t m"
  by (simp add: row_visible_def tenant_visible_def scope_gucs_def current_setting_def sql_eq_def
      tenant_guc_values_def ALL_TEAMS_SCOPE_def)

lemma row_visible_tenant:
  "\<not> bypass \<Longrightarrow> row_visible bypass (Some (t, m)) t' m' \<Longrightarrow> t = t' \<or> t = ''*''"
  by (auto simp: row_visible_def tenant_visible_def scope_gucs_def current_setting_def sql_eq_def
      tenant_guc_values_def split: if_splits)

lemma row_visible_team:
  "\<not> bypass \<Longrightarrow> row_visible bypass (Some (t, m)) t' m' \<Longrightarrow> m = m' \<or> m = ''*''"
  by (auto simp: row_visible_def tenant_visible_def scope_gucs_def current_setting_def sql_eq_def
      tenant_guc_values_def split: if_splits)

section \<open>Rows with a key\<close>

text \<open>\<open>INSERT ... ON CONFLICT (key) DO UPDATE\<close> where every row is visible.\<close>

definition upsert_by :: "('r \<Rightarrow> 'k) \<Rightarrow> 'r \<Rightarrow> 'r list \<Rightarrow> 'r list" where
  "upsert_by key row rows =
     (if list_ex (\<lambda>r. key r = key row) rows
      then map (\<lambda>r. if key r = key row then row else r) rows else rows @ [row])"

lemma upsert_by_keys [sql_simps]:
  "map key (upsert_by key row rows) =
     (if key row \<in> key ` set rows then map key rows else map key rows @ [key row])"
proof -
  have "map (\<lambda>r. key (if key r = key row then row else r)) rows = map key rows"
    by (intro map_cong) auto
  moreover have "list_ex (\<lambda>r. key r = key row) rows \<longleftrightarrow> key row \<in> key ` set rows"
    by (auto simp: list_ex_iff image_iff) metis
  ultimately show ?thesis by (simp add: upsert_by_def comp_def)
qed

lemma distinct_upsert_by:
  "distinct (map key rows) \<Longrightarrow> distinct (map key (upsert_by key row rows))"
  by (auto simp: sql_simps)

lemma set_upsert_by [sql_simps]:
  "set (upsert_by key row rows) = insert row {r \<in> set rows. key r \<noteq> key row}"
  by (auto simp: upsert_by_def list_ex_iff split: if_splits)

text \<open>Money columns are \<open>NUMERIC(14, 6)\<close>: rounded to six places, ties away from zero; a value of
  more than eight integer digits is refused.\<close>

definition num6 :: "decimal \<Rightarrow> decimal" where
  "num6 x = of_int (round_half_up (x * 1000000)) / 1000000"

definition fits_14_6 :: "decimal \<Rightarrow> bool" where
  "fits_14_6 x \<longleftrightarrow> \<bar>num6 x\<bar> < 100000000"

definition numeric_overflow :: exn where
  "numeric_overflow = OtherError ''numeric field overflow''"

lemma num6_mono: "x \<le> y \<Longrightarrow> num6 x \<le> num6 y"
  by (simp add: num6_def round_half_up_mono divide_right_mono)

lemma num6_nonneg: "0 \<le> x \<Longrightarrow> 0 \<le> num6 x"
  by (simp add: num6_def round_half_up_nonneg)

lemma num6_idem [simp]: "num6 (num6 x) = num6 x"
  by (simp add: num6_def)

text \<open>\<open>with engine.begin()\<close>: what the block wrote is rolled back when it raises.\<close>

definition transaction :: "('s, 'a) operation \<Rightarrow> ('s, 'a) operation" where
  "transaction m s = (case m s of (Inl e, _) \<Rightarrow> (Inl e, s) | (Inr x, s') \<Rightarrow> (Inr x, s'))"

lemma transaction_Inr [simp]: "transaction m s = (Inr x, s') \<longleftrightarrow> m s = (Inr x, s')"
  by (auto simp: transaction_def split: prod.splits sum.splits)

lemma transaction_Inl: "transaction m s = (Inl e, s') \<Longrightarrow> s' = s \<and> (\<exists>s1. m s = (Inl e, s1))"
  by (auto simp: transaction_def split: prod.splits sum.splits)

lemma op_keeps_transaction [intro]: "op_keeps P m \<Longrightarrow> op_keeps P (transaction m)"
  unfolding op_keeps_def
proof (intro allI impI)
  fix s assume "\<forall>s. P s \<longrightarrow> P (snd (m s))" "P s"
  then have "P (snd (m s))" by blast
  with \<open>P s\<close> show "P (snd (transaction m s))"
    by (cases "m s"; cases "fst (m s)") (simp_all add: transaction_def)
qed

text \<open>Rows of the append-only \<open>audit_events\<close> table; the random \<open>event_id\<close> and the time are left out.\<close>

record AuditEvent =
  au_action :: str
  au_actor :: str
  au_rationale :: str
  au_target_id :: str
  au_evidence_summary :: "str option"

end
