(* ===== verification/RunRepo.thy ===== *)
theory RunRepo
  imports WorkflowCorrect Db
begin

text \<open>
  Run repositories: the \<open>RunRepository\<close> protocol of \<open>backend/persistence/contracts.py\<close> as a
  locale, its PostgreSQL implementation \<open>backend/persistence/runs.py\<close>, the in-memory one of
  \<open>backend/persistence/testing/runtime.py\<close>, and the two entry points of the workflow that use it
  (\<open>execute\<close>, \<open>resume\<close>). A transaction that raises leaves the table unchanged, so an operation
  returns either an exception or the new table with its result. Serialisation of the run is
  pydantic's: the two functions of the codec are parameters. Column length limits, telemetry and
  logging are not modelled.
\<close>

section \<open>Escalation sinks\<close>

definition required_phase_one_escalation_reasons :: "EscalationReason list" where
  "required_phase_one_escalation_reasons =
     [UNRESOLVED_AMBIGUITY, TEST_RETRY_BUDGET_EXHAUSTED, REVIEW_BUDGET_EXHAUSTED,
      MISSING_OR_FAILING_REQUIRED_TESTS, DIFF_TOO_LARGE, MERGE_CONFLICT_DETECTED,
      INVALID_ROUTE_ATTEMPT, MISSING_ESCALATION_SINK]"

definition validate_escalation_sinks ::
  "(str \<times> str) list \<Rightarrow> EscalationReason list option \<Rightarrow> unit result" where
  "validate_escalation_sinks sinks required_reasons =
     (let reasons = (case required_reasons of None \<Rightarrow> required_phase_one_escalation_reasons
                     | Some rs \<Rightarrow> if rs = [] then required_phase_one_escalation_reasons else rs);
          missing = filter (\<lambda>v. \<not> dict_has sinks v) (map EscalationReason_value reasons)
      in if missing \<noteq> []
         then Inl (ValueError
           (''Every phase-1 escalation reason must map to a registered sink. Missing: '' @
            str_join '', '' (sort missing)))
         else Inr ())"

lemma validate_escalation_sinks_ok:
  "validate_escalation_sinks sinks None = Inr () \<longleftrightarrow>
   (\<forall>r \<in> set required_phase_one_escalation_reasons. dict_has sinks (EscalationReason_value r))"
  by (auto simp: validate_escalation_sinks_def Let_def filter_empty_conv)

section \<open>The interface\<close>

definition context_of :: "TicketRunState \<Rightarrow> TenantContext" where
  "context_of run = \<lparr>tc_tenant_id = rs_tenant_id run, tc_team_id = rs_team_id run\<rparr>"

locale run_repository =
  fixes save :: "TicketRunState \<Rightarrow> 'db \<Rightarrow> ('db \<times> TicketRunState) result"
    and load :: "str \<Rightarrow> TenantContext option \<Rightarrow> 'db \<Rightarrow> TicketRunState option result"
    and resume :: "str \<Rightarrow> TenantContext option \<Rightarrow> 'db \<Rightarrow> ('db \<times> TicketRunState) result"
    and inv :: "'db \<Rightarrow> bool"
  assumes save_inv: "inv db \<Longrightarrow> save run db = Inr (db', run') \<Longrightarrow> inv db'"
    and save_returns: "save run db = Inr (db', run') \<Longrightarrow> run' = run"
    and load_save: "inv db \<Longrightarrow> save run db = Inr (db', run') \<Longrightarrow>
       load (rs_thread_id run) (Some (context_of run)) db' = Inr (Some run)"
    and load_scoped: "inv db \<Longrightarrow> load th (Some ctx) db = Inr (Some run) \<Longrightarrow>
       context_of run = ctx \<and> rs_thread_id run = th"
    and resume_loaded: "inv db \<Longrightarrow> resume th (Some ctx) db = Inr (db', run) \<Longrightarrow>
       \<exists>old. load th (Some ctx) db = Inr (Some old) \<and> run = clear_pause old \<and> inv db' \<and>
             load th (Some ctx) db' = Inr (Some run)"
    and resume_unknown: "load th (Some ctx) db = Inr None \<Longrightarrow> \<exists>e. resume th (Some ctx) db = Inl e"
begin

lemma load_other_context:
  assumes "inv db" "save run db = Inr (db', run')" "ctx \<noteq> context_of run"
  shows "load (rs_thread_id run) (Some ctx) db' \<noteq> Inr (Some run)"
  using load_scoped[OF save_inv[OF assms(1,2)]] assms(3) by blast

lemma resume_after_save:
  assumes "inv db" "save run db = Inr (db', run')"
    "resume (rs_thread_id run) (Some (context_of run)) db' = Inr (db'', run'')"
  shows "run'' = clear_pause run \<and>
    load (rs_thread_id run) (Some (context_of run)) db'' = Inr (Some (clear_pause run))"
proof -
  from resume_loaded[OF save_inv[OF assms(1,2)] assms(3)] load_save[OF assms(1,2)]
  show ?thesis by auto
qed

end

section \<open>PostgreSQL\<close>

record 'p RunRow =
  rr_run_id :: str
  rr_thread_id :: str
  rr_tenant_id :: str
  rr_team_id :: str
  rr_repo_id :: str
  rr_ticket_key :: str
  rr_status :: RunStatus
  rr_current_node :: RunNode
  rr_paused_at_node :: "RunNode option"
  rr_escalation_reason :: "EscalationReason option"
  rr_escalation_sink :: "str option"
  rr_config_snapshot_id :: str
  rr_graph_profile_id :: str
  rr_catalog_version :: str
  rr_state_schema_version :: str
  rr_artifact_hashes :: "(str \<times> str) list"
  rr_run_payload :: 'p

record 'p Codec =
  model_dump :: "TicketRunState \<Rightarrow> 'p"
  model_validate :: "'p \<Rightarrow> TicketRunState result"

definition codec_ok :: "'p Codec \<Rightarrow> bool" where
  "codec_ok c \<longleftrightarrow> (\<forall>r. model_validate c (model_dump c r) = Inr r)"

definition runs_row_from_state :: "'p Codec \<Rightarrow> TicketRunState \<Rightarrow> 'p RunRow" where
  "runs_row_from_state c run =
     \<lparr>rr_run_id = rs_run_id run, rr_thread_id = rs_thread_id run, rr_tenant_id = rs_tenant_id run,
      rr_team_id = rs_team_id run, rr_repo_id = rs_repo_id run, rr_ticket_key = rs_ticket_key run,
      rr_status = rs_status run, rr_current_node = rs_current_node run,
      rr_paused_at_node = rs_paused_at_node run, rr_escalation_reason = rs_escalation_reason run,
      rr_escalation_sink = rs_escalation_sink run,
      rr_config_snapshot_id = rs_config_snapshot_id run,
      rr_graph_profile_id = rs_graph_profile_id run, rr_catalog_version = rs_catalog_version run,
      rr_state_schema_version = rs_state_schema_version run,
      rr_artifact_hashes = rs_artifact_hashes run, rr_run_payload = model_dump c run\<rparr>"

text \<open>
  \<open>INSERT ... ON CONFLICT (run_id) DO UPDATE\<close> under the policy of the table: the new row must
  pass the check, a conflicting row must be visible, and \<open>thread_id\<close> stays unique. The
  timestamps \<open>created_at\<close> and \<open>updated_at\<close> are never read and are left out.
\<close>

definition upsert :: "bool \<Rightarrow> scope \<Rightarrow> 'p RunRow \<Rightarrow> 'p RunRow list \<Rightarrow> ('p RunRow list) result" where
  "upsert bypass sc row rows =
     (if \<not> row_visible bypass sc (rr_tenant_id row) (rr_team_id row) then Inl rls_violation
      else if list_ex (\<lambda>r. rr_thread_id r = rr_thread_id row \<and> rr_run_id r \<noteq> rr_run_id row) rows
        then Inl (IntegrityError ''runs_thread_id_key'')
      else (case find (\<lambda>r. rr_run_id r = rr_run_id row) rows of
              None \<Rightarrow> Inr (rows @ [row])
            | Some old \<Rightarrow>
                if row_visible bypass sc (rr_tenant_id old) (rr_team_id old)
                then Inr (map (\<lambda>r. if rr_run_id r = rr_run_id row then row else r) rows)
                else Inl rls_violation))"

definition select_run ::
  "bool \<Rightarrow> str \<Rightarrow> TenantContext \<Rightarrow> 'p RunRow list \<Rightarrow> 'p RunRow option" where
  "select_run bypass thread_id ctx rows =
     find (\<lambda>r. row_visible bypass (Some (tc_tenant_id ctx, tc_team_id ctx))
                 (rr_tenant_id r) (rr_team_id r) \<and>
               rr_thread_id r = thread_id \<and> rr_tenant_id r = tc_tenant_id ctx \<and>
               rr_team_id r = tc_team_id ctx) rows"

definition pg_save ::
  "'p Codec \<Rightarrow> bool \<Rightarrow> TicketRunState \<Rightarrow> 'p RunRow list \<Rightarrow> ('p RunRow list \<times> TicketRunState) result"
where
  "pg_save c bypass run rows =
     bind_result (upsert bypass (Some (rs_tenant_id run, rs_team_id run)) (runs_row_from_state c run) rows)
       (\<lambda>rows'. Inr (rows', run))"

definition pg_load ::
  "'p Codec \<Rightarrow> bool \<Rightarrow> str \<Rightarrow> TenantContext option \<Rightarrow> 'p RunRow list \<Rightarrow> (TicketRunState option) result"
where
  "pg_load c bypass thread_id tenant_context rows =
     (case tenant_context of
        None \<Rightarrow> Inl (TenantContextMissingError ''load requires an explicit tenant_context'')
      | Some ctx \<Rightarrow>
          (case select_run bypass thread_id ctx rows of
             None \<Rightarrow> Inr None
           | Some row \<Rightarrow> bind_result (model_validate c (rr_run_payload row)) (\<lambda>r. Inr (Some r))))"

definition pg_pause ::
  "'p Codec \<Rightarrow> bool \<Rightarrow> TicketRunState \<Rightarrow> RunNode \<Rightarrow> EscalationReason \<Rightarrow> (str \<times> str) list \<Rightarrow>
   'p RunRow list \<Rightarrow> ('p RunRow list \<times> TicketRunState) result" where
  "pg_pause c bypass run node reason sinks rows =
     bind_result (validate_escalation_sinks sinks None) (\<lambda>_.
       case dict_get sinks (EscalationReason_value reason) of
         None \<Rightarrow> Inl (KeyError (EscalationReason_value reason))
       | Some sink \<Rightarrow>
           let paused = run\<lparr>rs_status := PAUSED, rs_paused_at_node := Some node,
                            rs_escalation_reason := Some reason, rs_escalation_sink := Some sink\<rparr>
           in pg_save c bypass paused rows)"

definition pg_resume ::
  "'p Codec \<Rightarrow> bool \<Rightarrow> str \<Rightarrow> TenantContext option \<Rightarrow> 'p RunRow list \<Rightarrow>
   ('p RunRow list \<times> TicketRunState) result" where
  "pg_resume c bypass thread_id tenant_context rows =
     (case tenant_context of
        None \<Rightarrow> Inl (TenantContextMissingError ''resume requires an explicit tenant_context'')
      | Some ctx \<Rightarrow>
          (case select_run bypass thread_id ctx rows of
             None \<Rightarrow> Inl (RunNotFoundError
               (''No run found for thread `'' @ thread_id @ ''` under tenant `'' @
                tc_tenant_id ctx @ ''`/`'' @ tc_team_id ctx @ ''`.''))
           | Some row \<Rightarrow>
               bind_result (model_validate c (rr_run_payload row)) (\<lambda>r.
                 let resumed = clear_pause r
                 in bind_result
                      (upsert bypass (Some (tc_tenant_id ctx, tc_team_id ctx))
                         (runs_row_from_state c resumed) rows)
                      (\<lambda>rows'. Inr (rows', resumed)))))"

text \<open>Well-formed tables: keys are unique and every payload is the state of its row.\<close>

definition runs_inv :: "'p Codec \<Rightarrow> 'p RunRow list \<Rightarrow> bool" where
  "runs_inv c rows \<longleftrightarrow>
     distinct (map rr_run_id rows) \<and> distinct (map rr_thread_id rows) \<and>
     (\<forall>row \<in> set rows. \<exists>run. row = runs_row_from_state c run)"

subsection \<open>Correctness of the PostgreSQL repository\<close>

lemma row_of_simps [simp]:
  "rr_run_id (runs_row_from_state c r) = rs_run_id r"
  "rr_thread_id (runs_row_from_state c r) = rs_thread_id r"
  "rr_tenant_id (runs_row_from_state c r) = rs_tenant_id r"
  "rr_team_id (runs_row_from_state c r) = rs_team_id r"
  "rr_run_payload (runs_row_from_state c r) = model_dump c r"
  by (simp_all add: runs_row_from_state_def)

lemma map_update_id:
  "g x \<notin> g ` set rows \<Longrightarrow> map (\<lambda>r. if g r = g x then x else r) rows = rows"
  by (intro map_idI) (auto simp: image_iff)

lemma distinct_map_update:
  assumes "distinct (map f rows)" "\<forall>r \<in> set rows. f r = f x \<longrightarrow> g r = g x" "distinct (map g rows)"
  shows "distinct (map f (map (\<lambda>r. if g r = g x then x else r) rows))"
  using assms
proof (induction rows)
  case Nil
  then show ?case by simp
next
  case (Cons r rows)
  show ?case
  proof (cases "g r = g x")
    case True
    with Cons.prems have n: "g x \<notin> g ` set rows" by auto
    then have "f x \<notin> f ` set rows" using Cons.prems(2) by (auto simp: image_iff)
    with Cons.prems True map_update_id[of g x rows, OF n] show ?thesis by simp
  next
    case False
    then have "f r \<noteq> f x" using Cons.prems(2) by auto
    moreover have "f r \<notin> f ` set rows" using Cons.prems by auto
    ultimately have "f r \<notin> set (map f (map (\<lambda>r. if g r = g x then x else r) rows))"
      by (auto simp: image_iff)
    moreover have "distinct (map f (map (\<lambda>r. if g r = g x then x else r) rows))"
      using Cons.prems by (intro Cons.IH) auto
    ultimately show ?thesis using False by (simp del: map_map)
  qed
qed

lemma upsert_Inr:
  assumes inv: "runs_inv c rows" and up: "upsert bypass sc (runs_row_from_state c run) rows = Inr rows'"
  shows "runs_inv c rows'" "runs_row_from_state c run \<in> set rows'"
    "row_visible bypass sc (rs_tenant_id run) (rs_team_id run)"
    "\<And>r. r \<in> set rows' \<Longrightarrow> rr_run_id r \<noteq> rs_run_id run \<Longrightarrow> r \<in> set rows"
    "\<And>r. r \<in> set rows \<Longrightarrow> rr_run_id r \<noteq> rs_run_id run \<Longrightarrow> r \<in> set rows'"
proof -
  let ?row = "runs_row_from_state c run"
  from up have vis: "row_visible bypass sc (rs_tenant_id run) (rs_team_id run)"
    and uniq: "\<forall>r \<in> set rows. rr_thread_id r = rs_thread_id run \<longrightarrow> rr_run_id r = rs_run_id run"
    by (auto simp: upsert_def list_ex_iff split: if_splits)
  have cases: "(rs_run_id run \<notin> rr_run_id ` set rows \<and> rows' = rows @ [?row]) \<or>
     (rs_run_id run \<in> rr_run_id ` set rows \<and>
      rows' = map (\<lambda>r. if rr_run_id r = rr_run_id ?row then ?row else r) rows)"
    using up by (auto simp: upsert_def find_None_iff find_Some_iff split: if_splits option.splits)
      (metis imageI nth_mem)
  note i = inv[unfolded runs_inv_def]
  show "runs_inv c rows'"
    using cases
  proof
    assume "rs_run_id run \<notin> rr_run_id ` set rows \<and> rows' = rows @ [?row]"
    moreover from this uniq have "rs_thread_id run \<notin> rr_thread_id ` set rows" by (auto simp: image_iff)
    ultimately show ?thesis using i by (auto simp: runs_inv_def)
  next
    assume a: "rs_run_id run \<in> rr_run_id ` set rows \<and>
      rows' = map (\<lambda>r. if rr_run_id r = rr_run_id ?row then ?row else r) rows"
    from i uniq have "distinct (map rr_run_id rows')" "distinct (map rr_thread_id rows')"
      unfolding a[THEN conjunct2] by (intro distinct_map_update; simp)+
    with i a show ?thesis by (auto simp: runs_inv_def)
  qed
  show "?row \<in> set rows'" using cases by force
  show "row_visible bypass sc (rs_tenant_id run) (rs_team_id run)" by (rule vis)
  show "\<And>r. r \<in> set rows' \<Longrightarrow> rr_run_id r \<noteq> rs_run_id run \<Longrightarrow> r \<in> set rows"
    using cases by (auto split: if_splits)
  show "\<And>r. r \<in> set rows \<Longrightarrow> rr_run_id r \<noteq> rs_run_id run \<Longrightarrow> r \<in> set rows'"
    using cases by (force simp: image_iff)
qed

lemma distinct_map_eqD: "distinct (map f xs) \<Longrightarrow> x \<in> set xs \<Longrightarrow> y \<in> set xs \<Longrightarrow> f x = f y \<Longrightarrow> x = y"
  by (meson distinct_map inj_onD)

lemma select_run_Some:
  assumes "runs_inv c rows"
  shows "select_run bypass th ctx rows = Some row \<longleftrightarrow>
    row \<in> set rows \<and> rr_thread_id row = th \<and> rr_tenant_id row = tc_tenant_id ctx \<and>
    rr_team_id row = tc_team_id ctx \<and>
    row_visible bypass (Some (tc_tenant_id ctx, tc_team_id ctx)) (tc_tenant_id ctx) (tc_team_id ctx)"
    (is "_ = ?R")
proof
  assume "select_run bypass th ctx rows = Some row"
  then show ?R by (auto simp: select_run_def find_Some_iff)
next
  assume r: ?R
  then have "select_run bypass th ctx rows \<noteq> None"
    by (auto simp: select_run_def find_None_iff)
  then obtain row' where row': "select_run bypass th ctx rows = Some row'" by blast
  then have "row' \<in> set rows" "rr_thread_id row' = th" by (auto simp: select_run_def find_Some_iff)
  with r assms have "row' = row" by (auto simp: runs_inv_def dest: distinct_map_eqD)
  with row' show "select_run bypass th ctx rows = Some row" by simp
qed

lemma pg_load_Some:
  assumes "codec_ok c" "runs_inv c rows"
  shows "pg_load c bypass th (Some ctx) rows = Inr (Some run) \<longleftrightarrow>
    runs_row_from_state c run \<in> set rows \<and> rs_thread_id run = th \<and> context_of run = ctx \<and>
    row_visible bypass (Some (tc_tenant_id ctx, tc_team_id ctx)) (tc_tenant_id ctx) (tc_team_id ctx)"
proof
  assume l: "pg_load c bypass th (Some ctx) rows = Inr (Some run)"
  then obtain row where sel: "select_run bypass th ctx rows = Some row"
    and dec: "model_validate c (rr_run_payload row) = Inr run"
    by (auto simp: pg_load_def split: option.splits)
  note s = sel[unfolded select_run_Some[OF assms(2)]]
  with assms(2) obtain r where "row = runs_row_from_state c r" by (auto simp: runs_inv_def)
  with dec assms(1) s show "runs_row_from_state c run \<in> set rows \<and> rs_thread_id run = th \<and> context_of run = ctx \<and>
    row_visible bypass (Some (tc_tenant_id ctx, tc_team_id ctx)) (tc_tenant_id ctx) (tc_team_id ctx)"
    by (auto simp: codec_ok_def context_of_def)
next
  assume r: "runs_row_from_state c run \<in> set rows \<and> rs_thread_id run = th \<and> context_of run = ctx \<and>
    row_visible bypass (Some (tc_tenant_id ctx, tc_team_id ctx)) (tc_tenant_id ctx) (tc_team_id ctx)"
  then have "select_run bypass th ctx rows = Some (runs_row_from_state c run)"
    unfolding select_run_Some[OF assms(2)] by (auto simp: context_of_def)
  with assms(1) show "pg_load c bypass th (Some ctx) rows = Inr (Some run)"
    by (simp add: pg_load_def codec_ok_def)
qed

lemma clear_pause_ids [simp]:
  "rs_run_id (clear_pause r) = rs_run_id r" "rs_thread_id (clear_pause r) = rs_thread_id r"
  "rs_tenant_id (clear_pause r) = rs_tenant_id r" "rs_team_id (clear_pause r) = rs_team_id r"
  by (simp_all add: clear_pause_def Let_def)

lemma pg_resume_Inr:
  assumes "codec_ok c" "runs_inv c rows" "pg_resume c bypass th (Some ctx) rows = Inr (rows', run)"
  shows "\<exists>old. pg_load c bypass th (Some ctx) rows = Inr (Some old) \<and> run = clear_pause old \<and>
    runs_inv c rows' \<and> pg_load c bypass th (Some ctx) rows' = Inr (Some run)"
proof -
  from assms(3) obtain row old where sel: "select_run bypass th ctx rows = Some row"
    and dec: "model_validate c (rr_run_payload row) = Inr old" and run: "run = clear_pause old"
    and up: "upsert bypass (Some (tc_tenant_id ctx, tc_team_id ctx)) (runs_row_from_state c run) rows
       = Inr rows'"
    by (auto simp: pg_resume_def Let_def split: option.splits)
  have load: "pg_load c bypass th (Some ctx) rows = Inr (Some old)"
    using sel dec by (simp add: pg_load_def)
  note l = load[unfolded pg_load_Some[OF assms(1,2)]]
  note u = upsert_Inr[OF assms(2) up]
  have "context_of run = context_of old" by (simp add: run context_of_def)
  with l u have "pg_load c bypass th (Some ctx) rows' = Inr (Some run)"
    unfolding pg_load_Some[OF assms(1) u(1)] by (simp add: run)
  with load run u(1) show ?thesis by blast
qed

interpretation pg: run_repository "pg_save c bypass" "pg_load c bypass" "pg_resume c bypass"
    "\<lambda>rows. codec_ok c \<and> runs_inv c rows"
    for c :: "'p Codec" and bypass :: bool
proof unfold_locales
  fix db db' :: "'p RunRow list" and run run' :: TicketRunState
  assume "codec_ok c \<and> runs_inv c db" "pg_save c bypass run db = Inr (db', run')"
  then show "codec_ok c \<and> runs_inv c db'"
    by (auto simp: pg_save_def dest: upsert_Inr(1))
next
  fix db db' :: "'p RunRow list" and run run' :: TicketRunState
  assume "pg_save c bypass run db = Inr (db', run')"
  then show "run' = run" by (auto simp: pg_save_def)
next
  fix db db' :: "'p RunRow list" and run run' :: TicketRunState
  assume "codec_ok c \<and> runs_inv c db" "pg_save c bypass run db = Inr (db', run')"
  then have c: "codec_ok c" and i: "runs_inv c db"
    and u: "upsert bypass (Some (rs_tenant_id run, rs_team_id run)) (runs_row_from_state c run) db = Inr db'"
    by (auto simp: pg_save_def)
  from upsert_Inr[OF i u]
  show "pg_load c bypass (rs_thread_id run) (Some (context_of run)) db' = Inr (Some run)"
    by (subst pg_load_Some[OF c]) (auto simp: context_of_def)
next
  fix db :: "'p RunRow list" and run th ctx
  assume "codec_ok c \<and> runs_inv c db" "pg_load c bypass th (Some ctx) db = Inr (Some run)"
  then show "context_of run = ctx \<and> rs_thread_id run = th" by (auto simp: pg_load_Some)
next
  fix db db' :: "'p RunRow list" and run th ctx
  assume "codec_ok c \<and> runs_inv c db" "pg_resume c bypass th (Some ctx) db = Inr (db', run)"
  then show "\<exists>old. pg_load c bypass th (Some ctx) db = Inr (Some old) \<and> run = clear_pause old \<and>
      (codec_ok c \<and> runs_inv c db') \<and> pg_load c bypass th (Some ctx) db' = Inr (Some run)"
    using pg_resume_Inr by blast
next
  fix db :: "'p RunRow list" and th ctx
  assume "pg_load c bypass th (Some ctx) db = Inr None"
  then show "\<exists>e. pg_resume c bypass th (Some ctx) db = Inl e"
    by (auto simp: pg_load_def pg_resume_def bind_result_Inl_iff split: option.splits)
qed

section \<open>In memory\<close>

text \<open>
  The adapter selected for local runs keeps the runs in a dictionary by thread; a deep copy on
  the way in and out is the identity on values.
\<close>

definition mem_save ::
  "TicketRunState \<Rightarrow> (str \<times> TicketRunState) list \<Rightarrow>
   ((str \<times> TicketRunState) list \<times> TicketRunState) result" where
  "mem_save run runs = Inr (dict_set (rs_thread_id run) run runs, run)"

definition mem_load ::
  "str \<Rightarrow> TenantContext option \<Rightarrow> (str \<times> TicketRunState) list \<Rightarrow> TicketRunState option result" where
  "mem_load thread_id tenant_context runs =
     (case dict_get runs thread_id of
        None \<Rightarrow> Inr None
      | Some snapshot \<Rightarrow>
          (case tenant_context of
             None \<Rightarrow> Inr (Some snapshot)
           | Some ctx \<Rightarrow>
               if rs_tenant_id snapshot \<noteq> tc_tenant_id ctx \<or> rs_team_id snapshot \<noteq> tc_team_id ctx
               then Inr None else Inr (Some snapshot)))"

definition mem_pause ::
  "TicketRunState \<Rightarrow> RunNode \<Rightarrow> EscalationReason \<Rightarrow> (str \<times> str) list \<Rightarrow>
   (str \<times> TicketRunState) list \<Rightarrow> ((str \<times> TicketRunState) list \<times> TicketRunState) result" where
  "mem_pause run node reason sinks runs =
     bind_result (validate_escalation_sinks sinks None) (\<lambda>_.
       case dict_get sinks (EscalationReason_value reason) of
         None \<Rightarrow> Inl (KeyError (EscalationReason_value reason))
       | Some sink \<Rightarrow>
           mem_save (run\<lparr>rs_status := PAUSED, rs_paused_at_node := Some node,
                         rs_escalation_reason := Some reason, rs_escalation_sink := Some sink\<rparr>) runs)"

definition mem_resume ::
  "str \<Rightarrow> TenantContext option \<Rightarrow> (str \<times> TicketRunState) list \<Rightarrow>
   ((str \<times> TicketRunState) list \<times> TicketRunState) result" where
  "mem_resume thread_id tenant_context runs =
     bind_result (mem_load thread_id tenant_context runs) (\<lambda>found.
       case found of
         None \<Rightarrow> Inl (KeyError (''No run found for thread `'' @ thread_id @ ''`.''))
       | Some run \<Rightarrow> mem_save (clear_pause run) runs)"

interpretation mem: run_repository mem_save mem_load mem_resume
    "\<lambda>runs. \<forall>th run. dict_get runs th = Some run \<longrightarrow> rs_thread_id run = th"
proof unfold_locales
  fix runs runs' :: "(str \<times> TicketRunState) list" and th ctx run
  assume inv: "\<forall>th run. dict_get runs th = Some run \<longrightarrow> rs_thread_id run = th"
    and res: "mem_resume th (Some ctx) runs = Inr (runs', run)"
  then obtain old where l: "mem_load th (Some ctx) runs = Inr (Some old)"
    and run: "run = clear_pause old" and runs': "runs' = dict_set (rs_thread_id run) run runs"
    by (auto simp: mem_resume_def mem_save_def split: option.splits)
  from l inv have th: "rs_thread_id old = th" and c: "rs_tenant_id old = tc_tenant_id ctx"
      "rs_team_id old = tc_team_id ctx"
    by (auto simp: mem_load_def split: option.splits if_splits)
  from th c have "mem_load th (Some ctx) runs' = Inr (Some run)"
    by (simp add: runs' run mem_load_def)
  with l run inv th runs' show "\<exists>old. mem_load th (Some ctx) runs = Inr (Some old) \<and> run = clear_pause old \<and>
      (\<forall>th run. dict_get runs' th = Some run \<longrightarrow> rs_thread_id run = th) \<and>
      mem_load th (Some ctx) runs' = Inr (Some run)"
    by (intro exI[of _ old]) simp
qed (auto simp: mem_save_def mem_load_def mem_resume_def context_of_def split: option.splits if_splits)

end
