(* ===== verification/RunService.thy ===== *)
theory RunService
  imports RunRepo
begin

text \<open>
  The two entry points of \<open>RuntimeWorkflow\<close>, \<open>execute\<close> and \<open>resume\<close>, over an arbitrary run
  repository, and the theorems that join the graph of \<open>Workflow\<close> with the PostgreSQL tables of
  \<open>RunRepo\<close>. The identifiers \<open>uuid4\<close> draws for the run and the recursion limit of the engine are
  arguments.
\<close>

definition effective_sinks :: "(str \<times> str) list option \<Rightarrow> (str \<times> str) list" where
  "effective_sinks escalation_sinks =
     (case escalation_sinks of
        None \<Rightarrow> default_escalation_sinks
      | Some s \<Rightarrow> if s = [] then default_escalation_sinks else s)"

definition effective_execution :: "ExecutionRequest option \<Rightarrow> ExecutionRequest" where
  "effective_execution er = (case er of None \<Rightarrow> default_execution_request | Some e \<Rightarrow> e)"

definition execute ::
  "(TicketRunState \<Rightarrow> 'db \<Rightarrow> ('db \<times> TicketRunState) result) \<Rightarrow> nat \<Rightarrow> RuntimeWorkflow \<Rightarrow> str \<Rightarrow>
   PlanningRequest \<Rightarrow> ExecutionRequest option \<Rightarrow> (str \<times> str) list option \<Rightarrow> 'db \<Rightarrow>
   ('db \<times> TicketRunState) result" where
  "execute save limit env run_id planning_request execution_request escalation_sinks db =
     (let execution = effective_execution execution_request;
          sinks = effective_sinks escalation_sinks
      in bind_result (validate_escalation_sinks sinks None) (\<lambda>_.
         bind_result (invoke limit env N_load_constitution
                        (initial_state run_id planning_request execution sinks)) (\<lambda>st.
         save (ws_run st) db)))"

definition resume_run ::
  "(str \<Rightarrow> TenantContext option \<Rightarrow> 'db \<Rightarrow> ('db \<times> TicketRunState) result) \<Rightarrow>
   str \<Rightarrow> TenantContext option \<Rightarrow> 'db \<Rightarrow> ('db \<times> TicketRunState) result" where
  "resume_run resume thread_id tenant_context db = resume thread_id tenant_context db"

section \<open>Identity of a run\<close>

definition same_identity :: "TicketRunState \<Rightarrow> TicketRunState \<Rightarrow> bool" where
  "same_identity a b \<longleftrightarrow>
     rs_run_id a = rs_run_id b \<and> rs_thread_id a = rs_thread_id b \<and>
     rs_tenant_id a = rs_tenant_id b \<and> rs_team_id a = rs_team_id b \<and>
     rs_ticket_key a = rs_ticket_key b \<and> rs_repo_id a = rs_repo_id b"

lemma same_identity_refl [simp]: "same_identity a a"
  by (simp add: same_identity_def)

lemma same_identity_trans: "same_identity a b \<Longrightarrow> same_identity b c \<Longrightarrow> same_identity a c"
  by (simp add: same_identity_def)

lemma run_node_identity:
  "run_node env nd st = Inr run \<Longrightarrow> same_identity run (ws_run st)"
  by (cases nd) (auto simp: same_identity_def node_defs transition_to_def
      split: if_splits option.splits prod.splits)

lemma invoke_identity:
  "invoke limit env nd st = Inr st' \<Longrightarrow> same_identity (ws_run st') (ws_run st)"
proof (induction limit arbitrary: nd st)
  case 0
  then show ?case by simp
next
  case (Suc limit)
  then obtain run where run: "run_node env nd st = Inr run"
    by (auto split: sum.splits)
  with Suc.prems Suc.IH[of _ "st\<lparr>ws_run := run\<rparr>"] run_node_identity[OF run] show ?case
    by (auto simp: Let_def split: Target.splits dest: same_identity_trans)
qed

lemma invoke_reachable:
  "invoke limit env nd st = Inr st' \<Longrightarrow> reachable env st0 (To nd, st) \<Longrightarrow> reachable env st0 (END, st')"
proof (induction limit arbitrary: nd st)
  case 0
  then show ?case by simp
next
  case (Suc limit)
  then obtain run where run: "run_node env nd st = Inr run"
    by (auto split: sum.splits)
  let ?st = "st\<lparr>ws_run := run\<rparr>"
  have r: "reachable env st0 (next_node nd ?st, ?st)"
    using reachable.step[OF Suc.prems(2)] run by (simp add: graph_step_iff)
  with Suc run show ?case by (auto simp: Let_def split: Target.splits)
qed

lemma new_run_identity [simp]:
  "rs_run_id (new_run run_id pr) = run_id"
  "rs_thread_id (new_run run_id pr) = thread_id_of (pr_tenant_id pr) (pr_ticket_key pr) run_id"
  "rs_tenant_id (new_run run_id pr) = pr_tenant_id pr"
  "rs_team_id (new_run run_id pr) = pr_team_id pr"
  by (simp_all add: new_run_def)

lemma pg_save_fresh:
  assumes "rs_tenant_id run \<noteq> []" "rs_team_id run \<noteq> []"
    and "\<forall>row \<in> set rows. rr_run_id row \<noteq> rs_run_id run \<and> rr_thread_id row \<noteq> rs_thread_id run"
  shows "pg_save c bypass run rows = Inr (rows @ [runs_row_from_state c run], run)"
proof -
  have "find (\<lambda>r. rr_run_id r = rs_run_id run) rows = None"
    using assms(3) by (auto simp: find_None_iff)
  with assms show ?thesis
    by (auto simp: pg_save_def upsert_def row_visible_own list_ex_iff)
qed

section \<open>Theorems\<close>

text \<open>C1 (execute is totally correct on PostgreSQL). With the recursion limit of the engine at
  least \<open>steps_needed\<close>, registered sinks, a non-empty tenant scope and fresh identifiers, \<open>execute\<close>
  returns; the run it returns shows exactly the outcome that the request's guards determine
  (a pull request, or a pause at the first failing guard with its reason and sink), and the
  repository then loads that very run under the tenant of the request.\<close>

theorem execute_correct:
  assumes "codec_ok c" "runs_inv c rows" "visits_all (wf_set_order env)" "steps_needed pr \<le> limit"
    and "validate_escalation_sinks (effective_sinks sinks) None = Inr ()"
    and "pr_tenant_id pr \<noteq> []" "pr_team_id pr \<noteq> []"
    and "\<forall>row \<in> set rows. rr_run_id row \<noteq> run_id \<and>
           rr_thread_id row \<noteq> thread_id_of (pr_tenant_id pr) (pr_ticket_key pr) run_id"
  shows "\<exists>rows' run.
    execute (pg_save c bypass) limit env run_id pr er sinks rows = Inr (rows', run) \<and>
    shows_outcome (expected_outcome env pr (effective_execution er)) (effective_sinks sinks) run \<and>
    rs_run_id run = run_id \<and> runs_inv c rows' \<and>
    pg_load c bypass (rs_thread_id run)
      (Some \<lparr>tc_tenant_id = pr_tenant_id pr, tc_team_id = pr_team_id pr\<rparr>) rows' = Inr (Some run)"
proof -
  let ?st = "initial_state run_id pr (effective_execution er) (effective_sinks sinks)"
  from invoke_outcome[OF assms(3,4)] obtain st' where
    inv: "invoke limit env N_load_constitution ?st = Inr st'" and
    oc: "shows_outcome (expected_outcome env pr (effective_execution er)) (effective_sinks sinks) (ws_run st')"
    by blast
  from invoke_identity[OF inv] have id: "same_identity (ws_run st') (new_run run_id pr)"
    by (simp add: initial_state_def)
  then have save: "pg_save c bypass (ws_run st') rows =
      Inr (rows @ [runs_row_from_state c (ws_run st')], ws_run st')"
    using assms(6-8) by (intro pg_save_fresh) (auto simp: same_identity_def)
  moreover have "context_of (ws_run st') = \<lparr>tc_tenant_id = pr_tenant_id pr, tc_team_id = pr_team_id pr\<rparr>"
    using id by (simp add: same_identity_def context_of_def)
  ultimately show ?thesis
    using pg.load_save[OF conjI[OF assms(1,2)] save] pg.save_inv[OF conjI[OF assms(1,2)] save] oc inv id assms(5)
    by (auto simp: execute_def Let_def same_identity_def)
qed

definition witness_env :: RuntimeWorkflow where
  "witness_env = default_workflow None (\<lambda>s. s) (\<lambda>xs. xs) str_of_nat"

definition witness_codec :: "TicketRunState Codec" where
  "witness_codec = \<lparr>model_dump = (\<lambda>r. r), model_validate = Inr\<rparr>"

lemma witness_codec_ok [simp]: "codec_ok witness_codec"
  by (simp add: codec_ok_def witness_codec_def)

lemma witness_env_order [simp]: "visits_all (wf_set_order witness_env)"
  by (simp add: visits_all_def witness_env_def default_workflow_def)

lemma default_sinks_valid [simp]: "validate_escalation_sinks default_escalation_sinks None = Inr ()"
  by code_simp

lemma effective_sinks_None [simp]: "effective_sinks None = default_escalation_sinks"
  by (simp add: effective_sinks_def)

lemma effective_execution_None [simp]: "effective_execution None = default_execution_request"
  by (simp add: effective_execution_def)

lemma default_request [simp]:
  "steps_needed (default_planning_request summary) = 20"
  "pr_tenant_id (default_planning_request summary) \<noteq> []"
  "pr_team_id (default_planning_request summary) \<noteq> []"
  by (simp_all add: steps_needed_def default_planning_request_def)

lemma runs_inv_Nil [simp]: "runs_inv c []"
  by (simp add: runs_inv_def)

lemma execute_correct_witness:
  "\<exists>rows' run.
    execute (pg_save witness_codec False) 25 witness_env ''run-1'' (default_planning_request ''s'') None None []
      = Inr (rows', run) \<and>
    shows_outcome (expected_outcome witness_env (default_planning_request ''s'') default_execution_request)
      default_escalation_sinks run"
  using execute_correct[of witness_codec "[]" witness_env "default_planning_request ''s''" 25 None "''run-1''" False None]
  by auto

text \<open>C2 (no pull request without the gates). In every state the workflow can reach, from any
  request, a created pull request means that the history runs through the readiness gate, the
  coder, the tester, the reviewer and the pre-PR sync, that tests, review, sync and branch
  protection have all passed, that no escalation is recorded, and that the run is over.\<close>

theorem pr_only_through_gates:
  assumes "reachable env (initial_state run_id pr er sinks) (tgt, st)" "rs_pr_created (ws_run st)"
  shows "{READINESS_GATE, CODER, TESTER, REVIEWER, PRE_PR_SYNC} \<subseteq> set (rs_node_history (ws_run st)) \<and>
    rs_tests_passed (ws_run st) \<and> rs_review_approved (ws_run st) \<and>
    rs_pre_pr_sync_passed (ws_run st) \<and> rs_branch_protection_passed (ws_run st) \<and>
    rs_status (ws_run st) = COMPLETED \<and> tgt = END"
proof -
  have "rs_pr_created (ws_run st) \<Longrightarrow> PR_CREATOR \<in> set (rs_node_history (ws_run st)) \<and>
    rs_tests_passed (ws_run st) \<and> rs_review_approved (ws_run st) \<and>
    rs_pre_pr_sync_passed (ws_run st) \<and> rs_branch_protection_passed (ws_run st) \<and>
    rs_status (ws_run st) = COMPLETED \<and> tgt = END"
    using assms(1)
  proof (induction tgt st rule: reachable.induct[split_format(complete)])
    case start
    then show ?case by (simp add: initial_state_def new_run_def)
  next
    case (step nd st tgt st')
    then have "\<not> rs_pr_created (ws_run st)" by auto
    with step.hyps(2) step.prems show ?case
      by (cases nd) (auto simp: graph_step_iff node_defs run_simps route_defs
          split: if_splits option.splits prod.splits)
  qed
  with assms(2) declared_path_to_pr reachable_path[OF assms(1)] show ?thesis by blast
qed

lemma reachable_length:
  assumes "visits_all (wf_set_order env)"
    and "reachable env (initial_state run_id pr er sinks) (tgt, st)"
  shows "length (rs_node_history (ws_run st)) +
     (case tgt of END \<Rightarrow> 0 | To nd \<Rightarrow> steps_left pr nd (ws_run st)) \<le> Suc (steps_needed pr)"
  using assms(2)
proof (induction tgt st rule: reachable.induct[split_format(complete)])
  case start
  then show ?case
    using steps_left_initial[of pr run_id]
    by (simp add: initial_state_def del: steps_left.simps) (simp add: new_run_def)
next
  case (step nd st tgt st')
  note inv = reachable_inv[OF assms(1) step.hyps(1)]
  from step.hyps(2) obtain run where run: "run_node env nd st = Inr run" and st': "st' = st\<lparr>ws_run := run\<rparr>"
    and tgt: "tgt = next_node nd st'"
    by (auto elim: graph_stepE)
  from run_node_history[OF run] have len: "length (rs_node_history run) = Suc (length (rs_node_history (ws_run st)))"
    by simp
  show ?case
  proof (cases tgt)
    case END
    with step.IH len steps_left_pos[of pr nd "ws_run st"] show ?thesis by (simp add: st')
  next
    case (To nd')
    with steps_left_decreases[of env nd st run nd'] inv run tgt st'
    have "steps_left pr nd' run < steps_left pr nd (ws_run st)" by auto
    with To step.IH len show ?thesis by (simp add: st')
  qed
qed

lemma reachable_retries:
  "reachable env (initial_state run_id pr er sinks) (tgt, st) \<Longrightarrow>
   rs_max_test_retries (ws_run st) = pr_max_test_retries pr \<and>
   rs_max_review_retries (ws_run st) = pr_max_review_retries pr \<and> retries_ok (ws_run st)"
proof (induction tgt st rule: reachable.induct[split_format(complete)])
  case start
  then show ?case by (simp add: initial_state_def new_run_def retries_ok_def)
next
  case (step nd st tgt st')
  from step.hyps(2) step.IH show ?case
    by (cases nd) (auto simp: graph_step_iff node_defs run_simps retries_ok_def
        split: if_splits option.splits prod.splits)
qed

text \<open>C5 (bounded retries and bounded runs). In every state the workflow can reach, the test and
  review retry counters stay within the budgets of the request, and the node history is at most
  \<open>steps_needed\<close> transitions long: the coder-tester-reviewer loop cannot spin.\<close>

theorem retries_bounded:
  assumes "visits_all (wf_set_order env)"
    and "reachable env (initial_state run_id pr er sinks) (tgt, st)"
  shows "0 \<le> rs_test_retry_count (ws_run st) \<and>
    rs_test_retry_count (ws_run st) \<le> max 0 (pr_max_test_retries pr) \<and>
    0 \<le> rs_review_retry_count (ws_run st) \<and>
    rs_review_retry_count (ws_run st) \<le> max 0 (pr_max_review_retries pr) \<and>
    length (rs_node_history (ws_run st)) \<le> Suc (steps_needed pr)"
  using reachable_length[OF assms] reachable_retries[OF assms(2)] by (auto simp: retries_ok_def)

lemma retries_bounded_witness:
  "rs_test_retry_count (ws_run (initial_state ''r'' (default_planning_request ''s'') default_execution_request [])) \<le>
     max 0 (pr_max_test_retries (default_planning_request ''s''))"
  using retries_bounded[OF witness_env_order reachable.start[of witness_env
      "initial_state ''r'' (default_planning_request ''s'') default_execution_request []"]] by simp

section \<open>Termination\<close>

lemma reachable_steps_left:
  assumes "visits_all (wf_set_order env)"
    and "reachable env (initial_state run_id pr er sinks) (tgt, st)"
  shows "(case tgt of END \<Rightarrow> 0 | To nd \<Rightarrow> steps_left pr nd (ws_run st)) \<le> steps_needed pr"
  using assms(2)
proof (induction tgt st rule: reachable.induct[split_format(complete)])
  case start
  show ?case using steps_left_initial[of pr run_id] by (simp add: initial_state_def del: steps_left.simps)
next
  case (step nd st tgt st')
  from reachable_inv[OF assms(1) step.hyps(1)] have inv: "target_inv env (To nd) st"
    and pr: "ws_planning_request st = pr" by auto
  from step.hyps(2) obtain run where run: "run_node env nd st = Inr run"
    and st': "st' = st\<lparr>ws_run := run\<rparr>" and tgt: "tgt = next_node nd st'" by (auto elim: graph_stepE)
  show ?case
  proof (cases tgt)
    case END
    then show ?thesis by simp
  next
    case (To nd')
    from steps_left_decreases[OF inv run] To st' tgt pr step.IH show ?thesis by (simp del: steps_left.simps)
  qed
qed

text \<open>C6 (every run ends). From every state the workflow can reach, on whatever path, the engine ends
  within \<open>steps_needed\<close> steps of the request, with the outcome that was determined at the start.\<close>

theorem workflow_terminates:
  assumes "visits_all (wf_set_order env)"
    and "reachable env (initial_state run_id pr er sinks) (To nd, st)"
  shows "\<exists>st'. invoke (steps_needed pr) env nd st = Inr st' \<and>
    shows_outcome (expected_outcome env pr er) sinks (ws_run st')"
proof -
  from reachable_inv[OF assms] have inv: "target_inv env (To nd) st" and same: "ws_planning_request st = pr"
    "ws_execution_request st = er" "ws_escalation_sinks st = sinks" by auto
  from reachable_steps_left[OF assms] same
  have "steps_left (ws_planning_request st) nd (ws_run st) \<le> steps_needed pr" by (simp del: steps_left.simps)
  from invoke_total[OF assms(1) inv this] same show ?thesis
    by (auto simp: target_inv_def Let_def)
qed

theorem workflow_terminates_witness:
  "\<exists>st'. invoke 20 witness_env N_load_constitution
     (initial_state ''r'' (default_planning_request ''s'') default_execution_request []) = Inr st'"
proof -
  have "steps_needed (default_planning_request ''s'') = 20" by (rule default_request)
  with workflow_terminates[OF witness_env_order reachable.start[of witness_env
      "initial_state ''r'' (default_planning_request ''s'') default_execution_request []"]]
  show ?thesis by auto
qed

section \<open>Escalation sinks\<close>

lemma expected_reasons:
  "expected_outcome env pr er = Paused_For reason node \<Longrightarrow>
   reason = BRANCH_PROTECTION_MISSING \<or> reason \<in> set required_phase_one_escalation_reasons"
  by (auto simp: expected_outcome_def required_phase_one_escalation_reasons_def split: if_splits)

text \<open>An escalation reaches its sink. When the sinks passed validation, every outcome other
  than a missing branch protection is recorded with its own reason and the sink registered for
  it; the branch protection outcome is too, provided its sink is registered.\<close>

theorem escalation_reaches_sink:
  assumes "validate_escalation_sinks sinks None = Inr ()"
    and "expected_outcome env pr er = Paused_For reason node"
    and "reason = BRANCH_PROTECTION_MISSING \<Longrightarrow> dict_has sinks ''branch_protection_missing''"
    and "shows_outcome (expected_outcome env pr er) sinks run"
  shows "rs_escalation_reason run = Some reason \<and> rs_paused_at_node run = Some node \<and>
    (\<exists>sink. rs_escalation_sink run = Some sink \<and> (EscalationReason_value reason, sink) \<in> set sinks)"
proof -
  have has: "dict_has sinks (EscalationReason_value reason)"
    using expected_reasons[OF assms(2)] assms(1,3) by (auto simp: validate_escalation_sinks_ok)
  with assms(2,4) show ?thesis
    by (auto simp: shows_outcome_def dict_has_def dest: dict_get_SomeD)
qed

definition enforcing_env :: RuntimeWorkflow where
  "enforcing_env = default_workflow (Some ''true'') (\<lambda>s. s) (\<lambda>xs. xs) str_of_nat"

definition phase_one_sinks :: "(str \<times> str) list" where
  "phase_one_sinks =
     map (\<lambda>r. (EscalationReason_value r, ''ops://x'')) required_phase_one_escalation_reasons"

text \<open>Sinks that pass validation can still lose an escalation. The reasons that validation
  requires do not include the missing branch protection: with the eight required sinks, an
  enforcing workflow whose protection query fails pauses without any sink, under the reason of
  the missing sink, although a sink for that reason is registered.\<close>

theorem validated_sinks_incomplete:
  "validate_escalation_sinks phase_one_sinks None = Inr () \<and>
   dict_has phase_one_sinks ''missing_escalation_sink'' \<and>
   (case invoke 25 enforcing_env N_load_constitution
           (initial_state ''r'' (default_planning_request ''s'') default_execution_request phase_one_sinks) of
      Inl _ \<Rightarrow> False
    | Inr st \<Rightarrow> rs_status (ws_run st) = PAUSED \<and> rs_paused_at_node (ws_run st) = Some PRE_PR_SYNC \<and>
        rs_escalation_sink (ws_run st) = None \<and>
        rs_escalation_reason (ws_run st) = Some MISSING_ESCALATION_SINK)"
  by code_simp

section \<open>Isolation and resumption\<close>

lemma runs_unique:
  assumes "runs_inv c rows" "r \<in> set rows" "r' \<in> set rows"
  shows "rr_run_id r = rr_run_id r' \<Longrightarrow> r = r'" "rr_thread_id r = rr_thread_id r' \<Longrightarrow> r = r'"
  using assms distinct_map_eqD by (auto simp: runs_inv_def)

lemma select_run_cong:
  assumes "runs_inv c rows" "runs_inv c rows'"
    and "\<And>r. rr_tenant_id r = tc_tenant_id ctx \<Longrightarrow> rr_team_id r = tc_team_id ctx \<Longrightarrow>
           r \<in> set rows' \<longleftrightarrow> r \<in> set rows"
  shows "select_run bypass th ctx rows' = select_run bypass th ctx rows"
proof -
  have "select_run bypass th ctx rows' = Some row \<longleftrightarrow> select_run bypass th ctx rows = Some row" for row
    using assms(3) by (auto simp: select_run_Some[OF assms(1)] select_run_Some[OF assms(2)])
  then show ?thesis by (metis not_None_eq)
qed

lemma upsert_other_context:
  assumes inv: "runs_inv c rows" and nb: "\<not> bypass"
    and up: "upsert bypass (Some (rs_tenant_id run, rs_team_id run)) (runs_row_from_state c run) rows = Inr rows'"
    and nw: "rs_tenant_id run \<noteq> ''*''" "rs_team_id run \<noteq> ''*''"
    and other: "(rr_tenant_id r, rr_team_id r) \<noteq> (rs_tenant_id run, rs_team_id run)"
  shows "r \<in> set rows' \<longleftrightarrow> r \<in> set rows"
proof (cases "rr_run_id r = rs_run_id run")
  case False
  with upsert_Inr[OF inv up] show ?thesis by blast
next
  case True
  from upsert_Inr(1,2)[OF inv up] have "r \<notin> set rows'"
    using other True
    by (metis (no_types, lifting) distinct_map_eqD row_of_simps(1,3,4) runs_inv_def)
  moreover have "r \<notin> set rows"
  proof
    assume r: "r \<in> set rows"
    then have f: "find (\<lambda>r. rr_run_id r = rs_run_id run) rows \<noteq> None"
      using True by (auto simp: find_None_iff)
    then obtain old where old: "find (\<lambda>r. rr_run_id r = rs_run_id run) rows = Some old" by blast
    then have "old \<in> set rows" "rr_run_id old = rs_run_id run" by (auto simp: find_Some_iff)
    then have "old = r" using r True inv by (auto simp: runs_inv_def dest: distinct_map_eqD)
    with up old have "row_visible bypass (Some (rs_tenant_id run, rs_team_id run)) (rr_tenant_id r) (rr_team_id r)"
      by (auto simp: upsert_def split: if_splits)
    with row_visible_tenant[OF nb] row_visible_team[OF nb] nw other show False by fastforce
  qed
  ultimately show ?thesis by simp
qed

text \<open>C3 (tenant isolation of runs). With row level security in force, saving a run of one tenant
  and team changes nothing that any other tenant context can load, whatever identifiers the
  saved run claims; and no load ever returns a run of another context.\<close>

theorem save_isolated:
  assumes "codec_ok c" "runs_inv c rows" "pg_save c False run rows = Inr (rows', run')"
    and "rs_tenant_id run \<noteq> ''*''" "rs_team_id run \<noteq> ''*''" "ctx \<noteq> context_of run"
  shows "pg_load c False th (Some ctx) rows' = pg_load c False th (Some ctx) rows \<and>
    (\<forall>r. pg_load c False th (Some ctx) rows' = Inr (Some r) \<longrightarrow> context_of r = ctx)"
proof -
  from assms(3) have up: "upsert False (Some (rs_tenant_id run, rs_team_id run))
      (runs_row_from_state c run) rows = Inr rows'" by (auto simp: pg_save_def)
  have "select_run False th ctx rows' = select_run False th ctx rows"
    using upsert_Inr(1)[OF assms(2) up] assms(2,6)
    by (intro select_run_cong[of c] upsert_other_context[OF assms(2) _ up assms(4,5)])
      (auto simp: context_of_def)
  moreover have "runs_inv c rows'" using upsert_Inr(1)[OF assms(2) up] .
  ultimately show ?thesis
    using pg.load_scoped[of c rows' False th ctx] assms(1) by (auto simp: pg_load_def)
qed

lemma save_isolated_witness:
  "pg_load witness_codec False ''th'' (Some \<lparr>tc_tenant_id = ''b'', tc_team_id = ''t''\<rparr>)
     [runs_row_from_state witness_codec (new_run ''r'' (default_planning_request ''s''))] = Inr None"
proof -
  let ?run = "new_run ''r'' (default_planning_request ''s'')"
  have "pg_save witness_codec False ?run [] = Inr ([] @ [runs_row_from_state witness_codec ?run], ?run)"
    by (intro pg_save_fresh) simp_all
  then show ?thesis
    using save_isolated[of witness_codec "[]" ?run _ ?run "\<lparr>tc_tenant_id = ''b'', tc_team_id = ''t''\<rparr>" "''th''"]
    by (simp add: context_of_def default_planning_request_def pg_load_def select_run_def)
qed

text \<open>C4 (resumption). A run that its own context can load can be resumed: the operation returns
  it with the pause cleared and stores that very run; another context gets \<open>RunNotFoundError\<close>.\<close>

theorem resume_correct:
  assumes "codec_ok c" "runs_inv c rows" "pg_load c bypass th (Some ctx) rows = Inr (Some old)"
  shows "\<exists>rows'. pg_resume c bypass th (Some ctx) rows = Inr (rows', clear_pause old) \<and>
      runs_inv c rows' \<and> pg_load c bypass th (Some ctx) rows' = Inr (Some (clear_pause old)) \<and>
      rs_status (clear_pause old) \<noteq> PAUSED \<and>
      (\<forall>ctx'. ctx' \<noteq> ctx \<longrightarrow> (\<exists>m. pg_resume c bypass th (Some ctx') rows = Inl (RunNotFoundError m)))"
proof -
  note l = assms(3)[unfolded pg_load_Some[OF assms(1,2)]]
  from assms(3) obtain row where sel: "select_run bypass th ctx rows = Some row"
    by (auto simp: pg_load_def split: option.splits)
  from sel l select_run_Some[OF assms(2)] assms(2) have row: "row = runs_row_from_state c old"
    by (auto simp: runs_inv_def context_of_def dest: distinct_map_eqD)
  have vis: "row_visible bypass (Some (rs_tenant_id old, rs_team_id old)) (rs_tenant_id old) (rs_team_id old)"
    using l by (auto simp: context_of_def)
  have f: "find (\<lambda>r. rr_run_id r = rs_run_id old) rows = Some row"
    (is "?f = _")
  proof -
    have "?f \<noteq> None" using l by (auto simp: find_None_iff)
    then obtain r where r: "?f = Some r" by blast
    then have "r \<in> set rows" "rr_run_id r = rs_run_id old" by (auto simp: find_Some_iff)
    with l row assms(2) have "r = row" by (auto simp: runs_inv_def dest: distinct_map_eqD)
    with r show ?thesis by simp
  qed
  have thr: "\<forall>r \<in> set rows. rr_thread_id r = rs_thread_id old \<longrightarrow> rr_run_id r = rs_run_id old"
    using l runs_unique(2)[OF assms(2)] by fastforce
  have "\<exists>rows'. upsert bypass (Some (tc_tenant_id ctx, tc_team_id ctx))
      (runs_row_from_state c (clear_pause old)) rows = Inr rows'"
    using vis f thr row l by (auto simp: upsert_def list_ex_iff context_of_def)
  then obtain rows' where res: "pg_resume c bypass th (Some ctx) rows = Inr (rows', clear_pause old)"
    using sel row assms(1) by (auto simp: pg_resume_def codec_ok_def Let_def)
  have other: "\<exists>m. pg_resume c bypass th (Some ctx') rows = Inl (RunNotFoundError m)" if "ctx' \<noteq> ctx" for ctx'
  proof -
    have "select_run bypass th ctx' rows = None"
    proof (rule ccontr)
      assume "select_run bypass th ctx' rows \<noteq> None"
      then obtain r where "select_run bypass th ctx' rows = Some r" by blast
      with select_run_Some[OF assms(2)] l runs_unique(2)[OF assms(2), of r "runs_row_from_state c old"] that
      show False by (auto simp: context_of_def)
    qed
    then show ?thesis by (simp add: pg_resume_def)
  qed
  from pg_resume_Inr[OF assms(1,2) res] res other show ?thesis
    by (auto simp: clear_pause_def Let_def)
qed

lemma resume_correct_witness:
  "\<exists>rows' run. pg_resume witness_codec False ''tenant-alpha:ENG-1:r''
     (Some \<lparr>tc_tenant_id = ''tenant-alpha'', tc_team_id = ''team-core''\<rparr>)
     [runs_row_from_state witness_codec (new_run ''r'' (default_planning_request ''s''))] = Inr (rows', run)"
proof -
  let ?run = "new_run ''r'' (default_planning_request ''s'')"
  let ?rows = "[runs_row_from_state witness_codec ?run]"
  let ?ctx = "\<lparr>tc_tenant_id = ''tenant-alpha'', tc_team_id = ''team-core''\<rparr>"
  have inv: "runs_inv witness_codec ?rows" by (auto simp: runs_inv_def)
  have "pg_load witness_codec False ''tenant-alpha:ENG-1:r'' (Some ?ctx) ?rows = Inr (Some ?run)"
    by (subst pg_load_Some[OF witness_codec_ok inv])
      (simp add: context_of_def default_planning_request_def thread_id_of_def row_visible_own)
  from resume_correct[OF witness_codec_ok inv this] show ?thesis by blast
qed

lemma default_outcome:
  "expected_outcome witness_env (default_planning_request ''s'') default_execution_request = Opened_PR"
  by code_simp

lemma pr_only_through_gates_witness:
  "\<exists>tgt st. reachable witness_env (initial_state ''r'' (default_planning_request ''s'')
       default_execution_request default_escalation_sinks) (tgt, st) \<and>
     rs_pr_created (ws_run st) \<and> TESTER \<in> set (rs_node_history (ws_run st))"
proof -
  let ?st = "initial_state ''r'' (default_planning_request ''s'') default_execution_request default_escalation_sinks"
  obtain st' where inv: "invoke 20 witness_env N_load_constitution ?st = Inr st'"
    and "shows_outcome Opened_PR default_escalation_sinks (ws_run st')"
    using invoke_outcome[of witness_env "default_planning_request ''s''" 20 "''r''"
        default_execution_request default_escalation_sinks] default_outcome by auto
  then have created: "rs_pr_created (ws_run st')" by (simp add: shows_outcome_def)
  have r: "reachable witness_env ?st (END, st')"
    by (rule invoke_reachable[OF inv reachable.start])
  from pr_only_through_gates[OF r created] r created show ?thesis by blast
qed

lemma escalation_reaches_sink_witness:
  "\<exists>run :: TicketRunState. rs_escalation_reason run = Some DIFF_TOO_LARGE \<and>
     (\<exists>sink. rs_escalation_sink run = Some sink \<and>
        (EscalationReason_value DIFF_TOO_LARGE, sink) \<in> set default_escalation_sinks)"
proof -
  let ?er = "default_execution_request\<lparr>er_diff_too_large := True\<rparr>"
  have oc: "expected_outcome witness_env (default_planning_request ''s'') ?er =
      Paused_For DIFF_TOO_LARGE PRE_PR_SYNC"
    by code_simp
  obtain st' :: WorkflowState where
    "shows_outcome (expected_outcome witness_env (default_planning_request ''s'') ?er)
       default_escalation_sinks (ws_run st')"
    using invoke_outcome[of witness_env "default_planning_request ''s''" 20 "''r''" ?er
        default_escalation_sinks] by auto
  from escalation_reaches_sink[OF default_sinks_valid oc _ this] show ?thesis by auto
qed

end
