(* ===== verification/Catalog.thy ===== *)
theory Catalog
  imports Db
begin

text \<open>
  Model catalog: \<open>backend/governance/catalog.py\<close>, \<open>InMemoryModelCatalog\<close> of
  \<open>backend/persistence/testing/governance.py\<close> and \<open>PostgresModelCatalog\<close> of
  \<open>backend/persistence/governance.py\<close>. The bundle file a catalog is seeded from is an argument.
  The protocol \<open>ModelCatalog\<close> is a locale that both implementations interpret.
\<close>

datatype DeploymentProfile = Connected | Air_gapped

fun DeploymentProfile_value :: "DeploymentProfile \<Rightarrow> str" where
  "DeploymentProfile_value Connected = ''connected''"
| "DeploymentProfile_value Air_gapped = ''air_gapped''"

datatype RuntimeRole = Role_planner | Role_coder | Role_tester | Role_reviewer | Role_pr_creator

fun RuntimeRole_value :: "RuntimeRole \<Rightarrow> str" where
  "RuntimeRole_value Role_planner = ''planner''"
| "RuntimeRole_value Role_coder = ''coder''"
| "RuntimeRole_value Role_tester = ''tester''"
| "RuntimeRole_value Role_reviewer = ''reviewer''"
| "RuntimeRole_value Role_pr_creator = ''pr_creator''"

record TokenCap =
  tk_input_tokens :: int
  tk_output_tokens :: int

record ModelCatalogEntry =
  me_model_id :: str
  me_provider_id :: str
  me_deployment_profile :: DeploymentProfile
  me_max_input_tokens :: int
  me_max_output_tokens :: int
  me_default_price_card_id :: str
  me_supports_tools :: bool
  me_supports_json_mode :: bool
  me_supports_streaming :: bool
  me_allowed_fallback_targets :: "str list"

record RoleTokenPolicy =
  tp_role :: RuntimeRole
  tp_max_input_tokens :: int
  tp_max_output_tokens :: int

type_synonym catalog_state =
  "((str \<times> DeploymentProfile) \<times> ModelCatalogEntry) list \<times> (RuntimeRole \<times> RoleTokenPolicy) list"

section \<open>Look-up over a loaded catalog\<close>

definition unknown_model :: "str \<Rightarrow> DeploymentProfile \<Rightarrow> exn" where
  "unknown_model model_id profile =
     ValueError (''Unknown model `'' @ model_id @ ''` for deployment profile `'' @
                 DeploymentProfile_value profile @ ''`.'')"

definition resolve_model :: "catalog_state \<Rightarrow> str \<Rightarrow> DeploymentProfile \<Rightarrow> ModelCatalogEntry result" where
  "resolve_model cat model_id profile =
     (case dict_get (fst cat) (model_id, profile) of
        None \<Rightarrow> Inl (unknown_model model_id profile) | Some entry \<Rightarrow> Inr entry)"

definition validate_fallback ::
  "catalog_state \<Rightarrow> str \<Rightarrow> str \<Rightarrow> DeploymentProfile \<Rightarrow> unit result" where
  "validate_fallback cat primary_model_id fallback_model_id profile =
     bind_result (resolve_model cat primary_model_id profile) (\<lambda>primary.
     bind_result (resolve_model cat fallback_model_id profile) (\<lambda>_.
       if fallback_model_id \<notin> set (me_allowed_fallback_targets primary)
       then Inl (ValueError (''Model `'' @ fallback_model_id @
              ''` is not an allowed fallback for `'' @ primary_model_id @ ''`.''))
       else Inr ()))"

definition effective_token_cap ::
  "catalog_state \<Rightarrow> RuntimeRole \<Rightarrow> str \<Rightarrow> DeploymentProfile \<Rightarrow> TokenCap option \<Rightarrow> TokenCap result"
where
  "effective_token_cap cat role model_id profile tenant_override =
     bind_result (resolve_model cat model_id profile) (\<lambda>entry.
       case dict_get (snd cat) role of
         None \<Rightarrow> Inl (KeyError (RuntimeRole_value role))
       | Some role_policy \<Rightarrow>
           let input_limit = min (me_max_input_tokens entry) (tp_max_input_tokens role_policy);
               output_limit = min (me_max_output_tokens entry) (tp_max_output_tokens role_policy)
           in (case tenant_override of
                 None \<Rightarrow> Inr \<lparr>tk_input_tokens = input_limit, tk_output_tokens = output_limit\<rparr>
               | Some ov \<Rightarrow>
                   Inr \<lparr>tk_input_tokens = min input_limit (tk_input_tokens ov),
                        tk_output_tokens = min output_limit (tk_output_tokens ov)\<rparr>))"

lemma effective_token_cap_bounds:
  assumes "effective_token_cap cat ro m p ov = Inr k"
  shows "\<exists>e. resolve_model cat m p = Inr e \<and>
    tk_input_tokens k \<le> me_max_input_tokens e \<and> tk_output_tokens k \<le> me_max_output_tokens e \<and>
    (\<forall>o'. ov = Some o' \<longrightarrow> tk_input_tokens k \<le> tk_input_tokens o' \<and>
                             tk_output_tokens k \<le> tk_output_tokens o')"
proof -
  from assms obtain e where e: "resolve_model cat m p = Inr e"
    by (auto simp: effective_token_cap_def)
  from assms e obtain rp where "dict_get (snd cat) ro = Some rp"
    by (auto simp: effective_token_cap_def split: option.splits)
  with assms e show ?thesis
    by (cases ov) (auto simp: effective_token_cap_def Let_def)
qed

section \<open>In memory\<close>

definition in_memory_catalog :: "ModelCatalogEntry list \<Rightarrow> RoleTokenPolicy list \<Rightarrow> catalog_state" where
  "in_memory_catalog entries role_token_policies =
     (dict_of (map (\<lambda>e. ((me_model_id e, me_deployment_profile e), e)) entries),
      dict_of (map (\<lambda>p. (tp_role p, p)) role_token_policies))"

section \<open>PostgreSQL\<close>

record CatalogBundle =
  cb_entries :: "ModelCatalogEntry list"
  cb_role_token_policies :: "RoleTokenPolicy list"

record CatalogDb =
  cd_model_catalog_entries :: "ModelCatalogEntry list"
  cd_role_token_policies :: "RoleTokenPolicy list"
  cd_audit_events :: "AuditEvent list"

definition entry_key :: "ModelCatalogEntry \<Rightarrow> str \<times> DeploymentProfile" where
  "entry_key e = (me_model_id e, me_deployment_profile e)"

definition reconcile_bundle :: "CatalogBundle \<Rightarrow> CatalogDb \<Rightarrow> CatalogDb" where
  "reconcile_bundle bundle db =
     (let changed =
            (set (map entry_key (cd_model_catalog_entries db)) \<noteq> set (map entry_key (cb_entries bundle)) \<or>
             set (map tp_role (cd_role_token_policies db)) \<noteq> set (map tp_role (cb_role_token_policies bundle)))
      in \<lparr>cd_model_catalog_entries =
            fold (upsert_by entry_key) (cb_entries bundle) (cd_model_catalog_entries db),
          cd_role_token_policies =
            fold (upsert_by tp_role) (cb_role_token_policies bundle) (cd_role_token_policies db),
          cd_audit_events = cd_audit_events db @
            (if changed
             then [\<lparr>au_action = ''catalog_reconcile'', au_actor = ''system:persistence-factory'',
                    au_rationale = ''seed bundled model catalog into PostgreSQL'',
                    au_target_id = ''model_catalog_entries'',
                    au_evidence_summary = Some (''models='' @ str_of_nat (length (cb_entries bundle)) @
                      ''; roles='' @ str_of_nat (length (cb_role_token_policies bundle)))\<rparr>]
             else [])\<rparr>)"

definition load_catalog_state :: "CatalogBundle \<Rightarrow> CatalogDb \<Rightarrow> catalog_state \<times> CatalogDb" where
  "load_catalog_state bundle db =
     (let db' = (if cd_model_catalog_entries db = [] \<or> cd_role_token_policies db = []
                 then reconcile_bundle bundle db else db)
      in (in_memory_catalog (cd_model_catalog_entries db') (cd_role_token_policies db'), db'))"

definition pg_resolve_model ::
  "CatalogBundle \<Rightarrow> str \<Rightarrow> DeploymentProfile \<Rightarrow> (CatalogDb, ModelCatalogEntry) operation" where
  "pg_resolve_model bundle model_id profile db =
     (let (cat, db') = load_catalog_state bundle db in (resolve_model cat model_id profile, db'))"

definition pg_validate_fallback ::
  "CatalogBundle \<Rightarrow> str \<Rightarrow> str \<Rightarrow> DeploymentProfile \<Rightarrow> (CatalogDb, unit) operation" where
  "pg_validate_fallback bundle primary_model_id fallback_model_id profile =
     op_bind (pg_resolve_model bundle primary_model_id profile) (\<lambda>primary.
     op_bind (pg_resolve_model bundle fallback_model_id profile) (\<lambda>_ db.
       if fallback_model_id \<notin> set (me_allowed_fallback_targets primary)
       then (Inl (ValueError (''Model `'' @ fallback_model_id @
              ''` is not an allowed fallback for `'' @ primary_model_id @ ''`.'')), db)
       else (Inr (), db)))"

definition pg_effective_token_cap ::
  "CatalogBundle \<Rightarrow> RuntimeRole \<Rightarrow> str \<Rightarrow> DeploymentProfile \<Rightarrow> TokenCap option \<Rightarrow>
   (CatalogDb, TokenCap) operation" where
  "pg_effective_token_cap bundle role model_id profile tenant_override =
     op_bind (pg_resolve_model bundle model_id profile) (\<lambda>entry db.
       let ((_, policies), db') = load_catalog_state bundle db
       in (effective_token_cap ([((model_id, profile), entry)], policies) role model_id profile
             tenant_override, db'))"

section \<open>The interface\<close>

text \<open>What the router and the agent validator rely on, for an arbitrary catalog store.\<close>

locale model_catalog =
  fixes resolve :: "str \<Rightarrow> DeploymentProfile \<Rightarrow> ('c, ModelCatalogEntry) operation"
    and check_fallback :: "str \<Rightarrow> str \<Rightarrow> DeploymentProfile \<Rightarrow> ('c, unit) operation"
    and cap :: "RuntimeRole \<Rightarrow> str \<Rightarrow> DeploymentProfile \<Rightarrow> TokenCap option \<Rightarrow> ('c, TokenCap) operation"
    and view :: "'c \<Rightarrow> catalog_state"
    and inv :: "'c \<Rightarrow> bool"
  assumes resolve_view: "inv c \<Longrightarrow> resolve m p c = (r, c') \<Longrightarrow>
       r = resolve_model (view c) m p \<and> view c' = view c \<and> inv c'"
    and check_view: "inv c \<Longrightarrow> check_fallback m f p c = (u, c') \<Longrightarrow>
       u = validate_fallback (view c) m f p \<and> view c' = view c \<and> inv c'"
    and cap_view: "inv c \<Longrightarrow> cap ro m p ov c = (k, c') \<Longrightarrow>
       k = effective_token_cap (view c) ro m p ov \<and> view c' = view c \<and> inv c'"
    and view_keys: "inv c \<Longrightarrow> dict_get (fst (view c)) (m, p) = Some e \<Longrightarrow>
       me_model_id e = m \<and> me_deployment_profile e = p"
begin

lemma resolve_profile:
  assumes "inv c" "resolve m p c = (Inr e, c')"
  shows "me_model_id e = m \<and> me_deployment_profile e = p"
  using resolve_view[OF assms] view_keys[OF assms(1)]
  by (auto simp: resolve_model_def split: option.splits)

lemma check_targets:
  assumes "inv c" "check_fallback m f p c = (Inr (), c')"
  shows "\<exists>e. resolve_model (view c) m p = Inr e \<and> f \<in> set (me_allowed_fallback_targets e) \<and>
    (\<exists>e'. resolve_model (view c) f p = Inr e')"
proof -
  from check_view[OF assms] have "validate_fallback (view c) m f p = Inr ()" by simp
  then show ?thesis by (auto simp: validate_fallback_def split: if_splits)
qed

lemma cap_within:
  assumes "inv c" "cap ro m p ov c = (Inr k, c')"
  shows "\<exists>e. resolve_model (view c) m p = Inr e \<and>
    tk_input_tokens k \<le> me_max_input_tokens e \<and> tk_output_tokens k \<le> me_max_output_tokens e \<and>
    (\<forall>o'. ov = Some o' \<longrightarrow> tk_input_tokens k \<le> tk_input_tokens o' \<and>
                             tk_output_tokens k \<le> tk_output_tokens o')"
proof -
  from cap_view[OF assms] have "effective_token_cap (view c) ro m p ov = Inr k" by simp
  then show ?thesis by (rule effective_token_cap_bounds)
qed

end

lemma in_memory_catalog_keys:
  "dict_get (fst (in_memory_catalog es ps)) (m, p) = Some e \<Longrightarrow>
   e \<in> set es \<and> me_model_id e = m \<and> me_deployment_profile e = p"
  by (auto simp: in_memory_catalog_def dest!: dict_get_of_SomeD)

interpretation mem_catalog: model_catalog
    "\<lambda>m p c. (resolve_model c m p, c)" "\<lambda>m f p c. (validate_fallback c m f p, c)"
    "\<lambda>r m p ov c. (effective_token_cap c r m p ov, c)" "\<lambda>c. c"
    "\<lambda>c. \<exists>es ps. c = in_memory_catalog es ps"
  by unfold_locales (auto dest: in_memory_catalog_keys)

text \<open>The catalog a database shows, after seeding it when a table is empty.\<close>

definition pg_catalog_view :: "CatalogBundle \<Rightarrow> CatalogDb \<Rightarrow> catalog_state" where
  "pg_catalog_view bundle db = fst (load_catalog_state bundle db)"

lemma fold_upsert_Nil: "fold (upsert_by key) es rows = [] \<longleftrightarrow> es = [] \<and> rows = []"
proof (induction es arbitrary: rows)
  case Nil
  then show ?case by simp
next
  case (Cons e es)
  have "upsert_by key e rows \<noteq> []" by (cases rows) (auto simp: upsert_by_def)
  with Cons show ?case by simp
qed


definition seeded :: "CatalogBundle \<Rightarrow> bool" where
  "seeded bundle \<longleftrightarrow> cb_entries bundle \<noteq> [] \<and> cb_role_token_policies bundle \<noteq> []"

lemma load_catalog_stable:
  assumes "seeded bundle" "load_catalog_state bundle db = (cat, db')"
  shows "cat = pg_catalog_view bundle db" "pg_catalog_view bundle db' = cat"
  using assms by (auto simp: load_catalog_state_def pg_catalog_view_def reconcile_bundle_def Let_def
      fold_upsert_Nil seeded_def split: if_splits)

lemma pg_resolve_view:
  assumes "seeded bundle" "pg_resolve_model bundle m p db = (r, db')"
  shows "r = resolve_model (pg_catalog_view bundle db) m p"
    "pg_catalog_view bundle db' = pg_catalog_view bundle db"
proof -
  obtain cat db1 where l: "load_catalog_state bundle db = (cat, db1)" by fastforce
  with load_catalog_stable[OF assms(1) l] assms(2)
  show "r = resolve_model (pg_catalog_view bundle db) m p"
    "pg_catalog_view bundle db' = pg_catalog_view bundle db"
    by (simp_all add: pg_resolve_model_def)
qed

interpretation pg_catalog: model_catalog
    "pg_resolve_model b" "pg_validate_fallback b" "pg_effective_token_cap b"
    "pg_catalog_view b" "\<lambda>_. seeded b"
    for b :: CatalogBundle
proof unfold_locales
  fix c c' :: CatalogDb and m p r
  assume "seeded b" "pg_resolve_model b m p c = (r, c')"
  then show "r = resolve_model (pg_catalog_view b c) m p \<and>
      pg_catalog_view b c' = pg_catalog_view b c \<and> seeded b"
    by (simp add: pg_resolve_view)
next
  fix c c' :: CatalogDb and m f p u
  assume s: "seeded b" and v: "pg_validate_fallback b m f p c = (u, c')"
  obtain r1 c1 where 1: "pg_resolve_model b m p c = (r1, c1)" by fastforce
  obtain r2 c2 where 2: "pg_resolve_model b f p c1 = (r2, c2)" by fastforce
  from s 1 have r1: "r1 = resolve_model (pg_catalog_view b c) m p"
      "pg_catalog_view b c1 = pg_catalog_view b c"
    by (simp_all add: pg_resolve_view)
  from pg_resolve_view[OF s 2] r1(2) have r2: "r2 = resolve_model (pg_catalog_view b c) f p"
      "pg_catalog_view b c2 = pg_catalog_view b c"
    by simp_all
  from v 1 2 r1 r2 s show "u = validate_fallback (pg_catalog_view b c) m f p \<and>
      pg_catalog_view b c' = pg_catalog_view b c \<and> seeded b"
    by (cases "resolve_model (pg_catalog_view b c) m p"; cases "resolve_model (pg_catalog_view b c) f p")
      (auto simp: pg_validate_fallback_def validate_fallback_def op_bind_def split: if_splits)
next
  fix c c' :: CatalogDb and ro m p ov k
  assume s: "seeded b" and v: "pg_effective_token_cap b ro m p ov c = (k, c')"
  obtain r1 c1 where 1: "pg_resolve_model b m p c = (r1, c1)" by fastforce
  from s 1 have r1: "r1 = resolve_model (pg_catalog_view b c) m p"
      "pg_catalog_view b c1 = pg_catalog_view b c"
    by (simp_all add: pg_resolve_view)
  obtain es ps c2 where 2: "load_catalog_state b c1 = ((es, ps), c2)"
    by (metis surj_pair)
  from load_catalog_stable[OF s 2] r1(2) have view: "pg_catalog_view b c = (es, ps)"
      "pg_catalog_view b c2 = (es, ps)" by simp_all
  from v 1 2 r1 view s show "k = effective_token_cap (pg_catalog_view b c) ro m p ov \<and>
      pg_catalog_view b c' = pg_catalog_view b c \<and> seeded b"
    by (cases "dict_get es (m, p)") (auto simp: pg_effective_token_cap_def op_bind_def effective_token_cap_def
        resolve_model_def)
next
  fix c :: CatalogDb and m p e
  assume "dict_get (fst (pg_catalog_view b c)) (m, p) = Some e"
  then show "me_model_id e = m \<and> me_deployment_profile e = p"
    by (auto simp: pg_catalog_view_def load_catalog_state_def Let_def dest: in_memory_catalog_keys)
qed

end
