(* ===== verification/ProviderHealth.thy ===== *)
theory ProviderHealth
  imports Db
begin

text \<open>
  The circuit breaker of the model providers. \<open>InMemoryProviderHealthStore\<close> of
  \<open>backend/persistence/testing/governance.py\<close> keeps snapshots in a dictionary;
  \<open>RedisSharedProviderHealthStore\<close> of \<open>backend/persistence/governance.py\<close> keeps one Redis hash
  per provider, changed only by four Lua scripts, and an append-only event table. A shared
  abstract breaker (\<open>breaker_*\<close>) specifies both; the protocol \<open>ProviderHealthStore\<close> is a locale
  that states the simulation. Timestamps are not modelled; the one day expiry of a Redis hash is
  the operation \<open>redis_expire\<close>.
\<close>

datatype ProviderHealthState = CLOSED | OPEN | HALF_OPEN

fun ProviderHealthState_value :: "ProviderHealthState \<Rightarrow> str" where
  "ProviderHealthState_value CLOSED = ''closed''"
| "ProviderHealthState_value OPEN = ''open''"
| "ProviderHealthState_value HALF_OPEN = ''half_open''"

record ProviderHealthSnapshot =
  ph_provider_id :: str
  ph_state :: ProviderHealthState
  ph_consecutive_failures :: int
  ph_remaining_probe_attempts :: int

section \<open>The abstract breaker\<close>

type_synonym breaker = "ProviderHealthState \<times> int \<times> int"

definition breaker_new :: breaker where "breaker_new = (CLOSED, 0, 0)"

fun breaker_failure :: "int \<Rightarrow> breaker \<Rightarrow> breaker" where
  "breaker_failure threshold (s, f, p) =
     (if f + 1 \<ge> threshold then (OPEN, f + 1, 0) else (s, f + 1, p))"

definition breaker_success :: "breaker \<Rightarrow> breaker" where
  "breaker_success b = (CLOSED, 0, 0)"

fun breaker_half_open :: "int \<Rightarrow> breaker \<Rightarrow> breaker" where
  "breaker_half_open limit (s, f, p) = (HALF_OPEN, f, limit)"

fun breaker_allow :: "breaker \<Rightarrow> bool \<times> breaker" where
  "breaker_allow (s, f, p) =
     (if s = OPEN then (False, (s, f, p))
      else if s = HALF_OPEN then (if p \<le> 0 then (False, (s, f, p)) else (True, (s, f, p - 1)))
      else (True, (s, f, p)))"

definition breaker_inv :: "breaker \<Rightarrow> bool" where
  "breaker_inv b = (case b of (s, f, p) \<Rightarrow> 0 \<le> f)"

section \<open>The interface\<close>

text \<open>Histories of calls, for an arbitrary store: the verdicts of the \<open>allow_request\<close> calls.\<close>

datatype health_op = Failure str | Success str | Half_open str | Request str

fun run_health ::
  "(str \<Rightarrow> 'h \<Rightarrow> 'h) \<Rightarrow> (str \<Rightarrow> 'h \<Rightarrow> 'h) \<Rightarrow> (str \<Rightarrow> 'h \<Rightarrow> 'h) \<Rightarrow> (str \<Rightarrow> 'h \<Rightarrow> bool \<times> 'h) \<Rightarrow>
   health_op list \<Rightarrow> 'h \<Rightarrow> bool list \<times> 'h" where
  "run_health fail succeed half_open allow [] h = ([], h)"
| "run_health fail succeed half_open allow (Failure p # ops) h =
     run_health fail succeed half_open allow ops (fail p h)"
| "run_health fail succeed half_open allow (Success p # ops) h =
     run_health fail succeed half_open allow ops (succeed p h)"
| "run_health fail succeed half_open allow (Half_open p # ops) h =
     run_health fail succeed half_open allow ops (half_open p h)"
| "run_health fail succeed half_open allow (Request p # ops) h =
     (let (ok, h1) = allow p h; (oks, h2) = run_health fail succeed half_open allow ops h1
      in (ok # oks, h2))"

fun requests :: "(str \<Rightarrow> 'h \<Rightarrow> bool \<times> 'h) \<Rightarrow> nat \<Rightarrow> str \<Rightarrow> 'h \<Rightarrow> bool list \<times> 'h" where
  "requests allow 0 p h = ([], h)"
| "requests allow (Suc n) p h =
     (let (ok, h1) = allow p h; (oks, h2) = requests allow n p h1 in (ok # oks, h2))"

text \<open>The same over the abstract breakers of all providers.\<close>

definition breakers_upd :: "(breaker \<Rightarrow> breaker) \<Rightarrow> str \<Rightarrow> (str \<Rightarrow> breaker) \<Rightarrow> str \<Rightarrow> breaker" where
  "breakers_upd f p bs = bs(p := f (bs p))"

definition breakers_allow :: "str \<Rightarrow> (str \<Rightarrow> breaker) \<Rightarrow> bool \<times> (str \<Rightarrow> breaker)" where
  "breakers_allow p bs = (fst (breaker_allow (bs p)), breakers_upd (\<lambda>b. snd (breaker_allow b)) p bs)"

definition breaker_run :: "int \<Rightarrow> int \<Rightarrow> health_op list \<Rightarrow> (str \<Rightarrow> breaker) \<Rightarrow> bool list \<times> (str \<Rightarrow> breaker)"
where
  "breaker_run threshold limit =
     run_health (breakers_upd (breaker_failure threshold)) (breakers_upd breaker_success)
       (breakers_upd (breaker_half_open limit)) breakers_allow"

locale provider_health =
  fixes view :: "'h \<Rightarrow> str \<Rightarrow> breaker"
    and fail :: "str \<Rightarrow> 'h \<Rightarrow> 'h" and succeed :: "str \<Rightarrow> 'h \<Rightarrow> 'h" and half_open :: "str \<Rightarrow> 'h \<Rightarrow> 'h"
    and allow :: "str \<Rightarrow> 'h \<Rightarrow> bool \<times> 'h"
    and threshold :: int and limit :: int and up :: "'h \<Rightarrow> bool"
  assumes fail_sim: "up h \<Longrightarrow> view (fail p h) = (view h)(p := breaker_failure threshold (view h p))"
    and succeed_sim: "up h \<Longrightarrow> view (succeed p h) = (view h)(p := breaker_success (view h p))"
    and half_open_sim: "up h \<Longrightarrow> view (half_open p h) = (view h)(p := breaker_half_open limit (view h p))"
    and allow_sim: "up h \<Longrightarrow> allow p h = (ok, h') \<Longrightarrow>
       breaker_allow (view h p) = (ok, view h' p) \<and> (\<forall>q. q \<noteq> p \<longrightarrow> view h' q = view h q)"
    and up_fail: "up h \<Longrightarrow> up (fail p h)" and up_succeed: "up h \<Longrightarrow> up (succeed p h)"
    and up_half_open: "up h \<Longrightarrow> up (half_open p h)"
    and up_allow: "up h \<Longrightarrow> allow p h = (ok, h') \<Longrightarrow> up h'"
begin

lemma run_refines:
  "up h \<Longrightarrow> run_health fail succeed half_open allow ops h = (oks, h') \<Longrightarrow>
   breaker_run threshold limit ops (view h) = (oks, view h') \<and> up h'"
proof (induction ops arbitrary: h oks h')
  case Nil
  then show ?case by (simp add: breaker_run_def)
next
  case (Cons op ops)
  show ?case
  proof (cases op)
    case (Request p)
    obtain ok h1 where a: "allow p h = (ok, h1)" by fastforce
    obtain oks1 h2 where r: "run_health fail succeed half_open allow ops h1 = (oks1, h2)" by fastforce
    note sim = allow_sim[OF Cons.prems(1) a]
    have "breakers_allow p (view h) = (ok, view h1)"
      using sim by (auto simp: breakers_allow_def breakers_upd_def)
    with Cons.IH[OF up_allow[OF Cons.prems(1) a] r] Request a r Cons.prems(2) show ?thesis
      by (simp add: breaker_run_def)
  next
    case (Failure p)
    with Cons.IH[of "fail p h" oks h'] Cons.prems show ?thesis
      by (simp add: breaker_run_def breakers_upd_def fun_upd_def fail_sim up_fail)
  next
    case (Success p)
    with Cons.IH[of "succeed p h" oks h'] Cons.prems show ?thesis
      by (simp add: breaker_run_def breakers_upd_def fun_upd_def succeed_sim up_succeed)
  next
    case (Half_open p)
    with Cons.IH[of "half_open p h" oks h'] Cons.prems show ?thesis
      by (simp add: breaker_run_def breakers_upd_def fun_upd_def half_open_sim up_half_open)
  qed
qed

lemma up_failures: "up h \<Longrightarrow> up ((fail p ^^ n) h)"
  by (induction n) (auto simp: up_fail)

lemma failures_count:
  "up h \<Longrightarrow> fst (snd (view ((fail p ^^ n) h) p)) = fst (snd (view h p)) + int n"
proof (induction n)
  case 0
  then show ?case by simp
next
  case (Suc n)
  then show ?case
    by (cases "view ((fail p ^^ n) h) p") (simp add: fail_sim[OF up_failures])
qed

lemma failures_open:
  assumes "up h" "threshold \<le> fst (snd (view h p)) + int (Suc n)"
  shows "\<exists>f. view ((fail p ^^ Suc n) h) p = (OPEN, f, 0)"
proof -
  obtain s f pr where v: "view ((fail p ^^ n) h) p = (s, f, pr)" by (cases "view ((fail p ^^ n) h) p")
  with failures_count[OF assms(1), of n p] have "f = fst (snd (view h p)) + int n" by simp
  with assms(2) v show ?thesis by (simp add: fail_sim[OF up_failures[OF assms(1)]])
qed

lemma allow_blocked:
  assumes "up h" "view h p = (OPEN, f, pr)" "allow p h = (ok, h')"
  shows "\<not> ok \<and> view h' p = view h p"
  using allow_sim[OF assms(1,3)] assms(2) by auto

lemma requests_half_open:
  assumes "up h" "view h p = (HALF_OPEN, f, pr)" "0 \<le> pr" "requests allow n p h = (oks, h')"
  shows "length (filter id oks) = min n (nat pr)"
  using assms
proof (induction n arbitrary: h pr oks h')
  case 0
  then show ?case by simp
next
  case (Suc n)
  obtain ok h1 where a: "allow p h = (ok, h1)" by fastforce
  obtain oks1 h2 where r: "requests allow n p h1 = (oks1, h2)" by fastforce
  have oks: "oks = ok # oks1" using Suc.prems(4) a r by simp
  note sim = allow_sim[OF Suc.prems(1) a]
  note up1 = up_allow[OF Suc.prems(1) a]
  show ?case
  proof (cases "pr = 0")
    case True
    with sim Suc.prems(2) have "\<not> ok" "view h1 p = (HALF_OPEN, f, 0)" by auto
    with Suc.IH[OF up1 _ _ r] oks True show ?thesis by simp
  next
    case False
    with sim Suc.prems(2,3) have "ok" "view h1 p = (HALF_OPEN, f, pr - 1)" by auto
    with Suc.IH[OF up1 _ _ r] oks False Suc.prems(3) show ?thesis by auto
  qed
qed

lemma probes_after_recovery:
  assumes "up h" "0 \<le> limit" "requests allow n p (half_open p h) = (oks, h')"
  shows "length (filter id oks) = min n (nat limit)"
proof -
  obtain s f pr where "view h p = (s, f, pr)" by (cases "view h p")
  then have "view (half_open p h) p = (HALF_OPEN, f, limit)"
    using half_open_sim[OF assms(1)] by simp
  from requests_half_open[OF up_half_open[OF assms(1)] this assms(2,3)] show ?thesis .
qed

lemma failed_probe_reopens:
  assumes "up h" "view h p = (s, f, pr)" "threshold \<le> f + 1"
  shows "view (fail p (half_open p h)) p = (OPEN, f + 1, 0)"
  using fail_sim[OF up_half_open[OF assms(1)]] half_open_sim[OF assms(1)] assms(2,3) by simp

lemma success_closes:
  assumes "up h" "allow p (succeed p h) = (ok, h')"
  shows "ok"
  using allow_sim[OF up_succeed[OF assms(1)] assms(2)] succeed_sim[OF assms(1)]
  by (simp add: breaker_success_def)

end

section \<open>In memory\<close>

record InMemoryProviderHealthStore =
  hm_failure_threshold :: int
  hm_recovery_probe_limit :: int
  hm_snapshots :: "(str \<times> ProviderHealthSnapshot) list"

definition ensure_snapshot ::
  "str \<Rightarrow> InMemoryProviderHealthStore \<Rightarrow> ProviderHealthSnapshot \<times> InMemoryProviderHealthStore" where
  "ensure_snapshot provider_id h =
     (case dict_get (hm_snapshots h) provider_id of
        Some s \<Rightarrow> (s, h)
      | None \<Rightarrow>
          let s = \<lparr>ph_provider_id = provider_id, ph_state = CLOSED, ph_consecutive_failures = 0,
                   ph_remaining_probe_attempts = 0\<rparr>
          in (s, h\<lparr>hm_snapshots := dict_set provider_id s (hm_snapshots h)\<rparr>))"

definition put_snapshot ::
  "str \<Rightarrow> ProviderHealthSnapshot \<Rightarrow> InMemoryProviderHealthStore \<Rightarrow> InMemoryProviderHealthStore" where
  "put_snapshot provider_id s h = h\<lparr>hm_snapshots := dict_set provider_id s (hm_snapshots h)\<rparr>"

definition hm_record_failure ::
  "str \<Rightarrow> InMemoryProviderHealthStore \<Rightarrow> InMemoryProviderHealthStore" where
  "hm_record_failure provider_id h =
     (let (s, h) = ensure_snapshot provider_id h;
          s = s\<lparr>ph_consecutive_failures := ph_consecutive_failures s + 1\<rparr>;
          s = (if ph_consecutive_failures s \<ge> hm_failure_threshold h
               then s\<lparr>ph_state := OPEN, ph_remaining_probe_attempts := 0\<rparr> else s)
      in put_snapshot provider_id s h)"

definition hm_record_success ::
  "str \<Rightarrow> InMemoryProviderHealthStore \<Rightarrow> InMemoryProviderHealthStore" where
  "hm_record_success provider_id h =
     (let (s, h) = ensure_snapshot provider_id h
      in put_snapshot provider_id
           (s\<lparr>ph_state := CLOSED, ph_consecutive_failures := 0, ph_remaining_probe_attempts := 0\<rparr>) h)"

definition hm_move_to_half_open ::
  "str \<Rightarrow> InMemoryProviderHealthStore \<Rightarrow> InMemoryProviderHealthStore" where
  "hm_move_to_half_open provider_id h =
     (let (s, h) = ensure_snapshot provider_id h
      in put_snapshot provider_id
           (s\<lparr>ph_state := HALF_OPEN, ph_remaining_probe_attempts := hm_recovery_probe_limit h\<rparr>) h)"

definition hm_allow_request ::
  "str \<Rightarrow> InMemoryProviderHealthStore \<Rightarrow> bool \<times> InMemoryProviderHealthStore" where
  "hm_allow_request provider_id h =
     (let (s, h) = ensure_snapshot provider_id h
      in if ph_state s = OPEN then (False, h)
         else if ph_state s = HALF_OPEN then
           (if ph_remaining_probe_attempts s \<le> 0 then (False, h)
            else (True, put_snapshot provider_id
                    (s\<lparr>ph_remaining_probe_attempts := ph_remaining_probe_attempts s - 1\<rparr>) h))
         else (True, h))"

definition snapshot_breaker :: "ProviderHealthSnapshot \<Rightarrow> breaker" where
  "snapshot_breaker s = (ph_state s, ph_consecutive_failures s, ph_remaining_probe_attempts s)"

definition hm_view :: "InMemoryProviderHealthStore \<Rightarrow> str \<Rightarrow> breaker" where
  "hm_view h p = (case dict_get (hm_snapshots h) p of None \<Rightarrow> breaker_new | Some s \<Rightarrow> snapshot_breaker s)"

lemma hm_view_put: "hm_view (put_snapshot p s h) = (hm_view h)(p := snapshot_breaker s)"
  by (auto simp: hm_view_def put_snapshot_def)

lemma ensure_snapshot_view:
  assumes "ensure_snapshot p h = (s, h')"
  shows "hm_view h' = hm_view h" "snapshot_breaker s = hm_view h p"
    "hm_failure_threshold h' = hm_failure_threshold h"
    "hm_recovery_probe_limit h' = hm_recovery_probe_limit h"
  using assms by (auto simp: ensure_snapshot_def hm_view_def breaker_new_def snapshot_breaker_def
      Let_def split: option.splits)

lemma ensure_snapshotD:
  "ensure_snapshot p h = (s, h') \<Longrightarrow>
   hm_view h' = hm_view h \<and> hm_view h p = snapshot_breaker s \<and>
   hm_failure_threshold h' = hm_failure_threshold h \<and>
   hm_recovery_probe_limit h' = hm_recovery_probe_limit h"
  using ensure_snapshot_view by metis

lemma put_snapshot_settings [simp]:
  "hm_failure_threshold (put_snapshot p s h) = hm_failure_threshold h"
  "hm_recovery_probe_limit (put_snapshot p s h) = hm_recovery_probe_limit h"
  by (simp_all add: put_snapshot_def)

interpretation mem_health: provider_health hm_view hm_record_failure hm_record_success
    hm_move_to_half_open hm_allow_request t l
    "\<lambda>h. hm_failure_threshold h = t \<and> hm_recovery_probe_limit h = l"
    for t l :: int
proof unfold_locales
qed (auto simp: hm_record_failure_def hm_record_success_def hm_move_to_half_open_def
    hm_allow_request_def hm_view_put Let_def breaker_success_def snapshot_breaker_def
    split: prod.splits if_splits dest!: ensure_snapshotD)

section \<open>Redis\<close>

record HealthHash =
  hh_state :: ProviderHealthState
  hh_consecutive_failures :: int
  hh_remaining_probe_attempts :: int

record ProviderHealthSettings =
  ps_deployment_air_gapped :: bool
  ps_failure_threshold :: int
  ps_recovery_probe_limit :: int

record ProviderHealthEvent =
  pe_provider_id :: str
  pe_event_kind :: str
  pe_state :: ProviderHealthState
  pe_consecutive_failures :: int
  pe_remaining_probe_attempts :: int
  pe_evidence_summary :: str

text \<open>
  The shared store: the Redis hashes by key, whether Redis answers (with the text of the error
  when it does not), the event table and the last value of the circuit gauge per provider. A
  field a script did not write reads as its default, so an absent hash is \<open>closed\<close> with zeros.
\<close>

record RedisSharedProviderHealthStore =
  rh_settings :: ProviderHealthSettings
  rh_hashes :: "(str \<times> HealthHash) list"
  rh_redis_error :: "str option"
  rh_events :: "ProviderHealthEvent list"
  rh_circuit_gauge :: "(str \<times> decimal) list"

definition fail_closed_without_redis :: "ProviderHealthSettings \<Rightarrow> bool" where
  "fail_closed_without_redis s \<longleftrightarrow> ps_deployment_air_gapped s"

definition provider_key :: "str \<Rightarrow> str" where
  "provider_key provider_id = ''provider_health:'' @ provider_id"

definition read_hash :: "RedisSharedProviderHealthStore \<Rightarrow> str \<Rightarrow> breaker" where
  "read_hash h provider_id =
     (case dict_get (rh_hashes h) (provider_key provider_id) of
        None \<Rightarrow> (CLOSED, 0, 0)
      | Some x \<Rightarrow> (hh_state x, hh_consecutive_failures x, hh_remaining_probe_attempts x))"

definition write_hash ::
  "str \<Rightarrow> breaker \<Rightarrow> RedisSharedProviderHealthStore \<Rightarrow> RedisSharedProviderHealthStore" where
  "write_hash provider_id b h =
     (case b of (s, f, p) \<Rightarrow>
        h\<lparr>rh_hashes := dict_set (provider_key provider_id)
            \<lparr>hh_state = s, hh_consecutive_failures = f, hh_remaining_probe_attempts = p\<rparr>
            (rh_hashes h)\<rparr>)"

text \<open>The four scripts, each run atomically by Redis on the hash of one provider.\<close>

definition PROVIDER_FAILURE_SCRIPT :: "int \<Rightarrow> breaker \<Rightarrow> breaker" where
  "PROVIDER_FAILURE_SCRIPT threshold b =
     (case b of (state, failures, probes) \<Rightarrow>
        let failures = failures + 1
        in if failures \<ge> threshold then (OPEN, failures, 0) else (state, failures, probes))"

definition PROVIDER_SUCCESS_SCRIPT :: "breaker \<Rightarrow> breaker" where
  "PROVIDER_SUCCESS_SCRIPT b = (CLOSED, 0, 0)"

definition PROVIDER_HALF_OPEN_SCRIPT :: "int \<Rightarrow> breaker \<Rightarrow> breaker" where
  "PROVIDER_HALF_OPEN_SCRIPT probes b = (case b of (_, failures, _) \<Rightarrow> (HALF_OPEN, failures, probes))"

definition PROVIDER_ALLOW_REQUEST_SCRIPT :: "breaker \<Rightarrow> int \<times> breaker" where
  "PROVIDER_ALLOW_REQUEST_SCRIPT b =
     (case b of (state, failures, probes) \<Rightarrow>
        if state = OPEN then (0, (state, failures, probes))
        else if state = HALF_OPEN then
          (if probes \<le> 0 then (0, (state, failures, probes))
           else (1, (state, failures, probes - 1)))
        else (1, (state, failures, probes)))"

definition persist_event ::
  "str \<Rightarrow> str \<Rightarrow> breaker \<Rightarrow> str option \<Rightarrow> RedisSharedProviderHealthStore \<Rightarrow>
   RedisSharedProviderHealthStore" where
  "persist_event provider_id event_kind b error h =
     (case b of (state, failures, probes) \<Rightarrow>
        h\<lparr>rh_events := rh_events h @
            [\<lparr>pe_provider_id = provider_id, pe_event_kind = event_kind, pe_state = state,
              pe_consecutive_failures = failures, pe_remaining_probe_attempts = probes,
              pe_evidence_summary =
                (case error of
                   None \<Rightarrow> ''state='' @ ProviderHealthState_value state @ ''; failures='' @
                           str_of_int failures @ ''; probes='' @ str_of_int probes
                 | Some e \<Rightarrow> ''fallback='' @ ProviderHealthState_value state @ ''; error='' @ e)\<rparr>]\<rparr>)"

definition fallback_state :: "RedisSharedProviderHealthStore \<Rightarrow> ProviderHealthState" where
  "fallback_state h = (if fail_closed_without_redis (rh_settings h) then OPEN else CLOSED)"

definition apply_provider_script ::
  "str \<Rightarrow> (breaker \<Rightarrow> breaker) \<Rightarrow> str \<Rightarrow> RedisSharedProviderHealthStore \<Rightarrow>
   breaker \<times> RedisSharedProviderHealthStore" where
  "apply_provider_script provider_id script event_kind h =
     (case rh_redis_error h of
        None \<Rightarrow> let b = script (read_hash h provider_id) in (b, write_hash provider_id b h)
      | Some e \<Rightarrow>
          let b = (fallback_state h, ps_failure_threshold (rh_settings h), 0)
          in (b, persist_event provider_id event_kind b (Some e) h))"

definition rh_record_failure ::
  "str \<Rightarrow> RedisSharedProviderHealthStore \<Rightarrow> RedisSharedProviderHealthStore" where
  "rh_record_failure provider_id h =
     (let (b, h) = apply_provider_script provider_id
            (PROVIDER_FAILURE_SCRIPT (ps_failure_threshold (rh_settings h))) ''failure'' h
      in persist_event provider_id ''failure'' b None h)"

definition rh_record_success ::
  "str \<Rightarrow> RedisSharedProviderHealthStore \<Rightarrow> RedisSharedProviderHealthStore" where
  "rh_record_success provider_id h =
     (let (b, h) = apply_provider_script provider_id PROVIDER_SUCCESS_SCRIPT ''success'' h
      in persist_event provider_id ''success'' b None h)"

definition rh_move_to_half_open ::
  "str \<Rightarrow> RedisSharedProviderHealthStore \<Rightarrow> RedisSharedProviderHealthStore" where
  "rh_move_to_half_open provider_id h =
     (let (b, h) = apply_provider_script provider_id
            (PROVIDER_HALF_OPEN_SCRIPT (ps_recovery_probe_limit (rh_settings h))) ''half_open'' h
      in persist_event provider_id ''half_open'' b None h)"

definition set_circuit_gauge ::
  "str \<Rightarrow> bool \<Rightarrow> RedisSharedProviderHealthStore \<Rightarrow> RedisSharedProviderHealthStore" where
  "set_circuit_gauge provider_id is_closed h =
     h\<lparr>rh_circuit_gauge := dict_set provider_id (if is_closed then 1 else 0) (rh_circuit_gauge h)\<rparr>"

definition rh_allow_request ::
  "str \<Rightarrow> RedisSharedProviderHealthStore \<Rightarrow> bool \<times> RedisSharedProviderHealthStore" where
  "rh_allow_request provider_id h =
     (let (allowed, b, h) =
        (case rh_redis_error h of
           None \<Rightarrow>
             let (code, b) = PROVIDER_ALLOW_REQUEST_SCRIPT (read_hash h provider_id)
             in (code \<noteq> 0, b, if b = read_hash h provider_id then h else write_hash provider_id b h)
         | Some _ \<Rightarrow>
             let allowed = \<not> fail_closed_without_redis (rh_settings h)
             in (allowed,
                 (if \<not> allowed then OPEN else CLOSED, ps_failure_threshold (rh_settings h), 0), h))
      in (allowed, persist_event provider_id ''allow_request'' b None
                     (set_circuit_gauge provider_id allowed h)))"

definition rh_snapshot ::
  "str \<Rightarrow> RedisSharedProviderHealthStore \<Rightarrow>
   ProviderHealthSnapshot \<times> RedisSharedProviderHealthStore" where
  "rh_snapshot provider_id h =
     (let (state, failures, probes) =
        (case rh_redis_error h of
           None \<Rightarrow> read_hash h provider_id
         | Some _ \<Rightarrow> (fallback_state h, ps_failure_threshold (rh_settings h), 0))
      in (\<lparr>ph_provider_id = provider_id, ph_state = state, ph_consecutive_failures = failures,
           ph_remaining_probe_attempts = probes\<rparr>,
          set_circuit_gauge provider_id (state = CLOSED) h))"

definition redis_expire ::
  "str \<Rightarrow> RedisSharedProviderHealthStore \<Rightarrow> RedisSharedProviderHealthStore" where
  "redis_expire provider_id h = h\<lparr>rh_hashes := dict_pop (provider_key provider_id) (rh_hashes h)\<rparr>"

lemma provider_key_inj [simp]: "provider_key p = provider_key q \<longleftrightarrow> p = q"
  by (simp add: provider_key_def)

lemma read_hash_write [simp]: "read_hash (write_hash p b h) = (read_hash h)(p := b)"
  by (rule ext) (auto simp: read_hash_def write_hash_def split: prod.splits)

lemma read_hash_frame [simp]:
  "read_hash (persist_event p k b e h) = read_hash h"
  "read_hash (set_circuit_gauge p c h) = read_hash h"
  by (auto simp: read_hash_def persist_event_def set_circuit_gauge_def fun_eq_iff split: prod.splits)

lemma settings_frame [simp]:
  "rh_settings (persist_event p k b e h) = rh_settings h"
  "rh_settings (set_circuit_gauge p c h) = rh_settings h"
  "rh_settings (write_hash p b h) = rh_settings h"
  "rh_redis_error (persist_event p k b e h) = rh_redis_error h"
  "rh_redis_error (set_circuit_gauge p c h) = rh_redis_error h"
  "rh_redis_error (write_hash p b h) = rh_redis_error h"
  by (simp_all add: persist_event_def set_circuit_gauge_def write_hash_def split: prod.splits)

lemma script_spec [simp]:
  "PROVIDER_FAILURE_SCRIPT t = breaker_failure t" "PROVIDER_SUCCESS_SCRIPT = breaker_success"
  "PROVIDER_HALF_OPEN_SCRIPT l = breaker_half_open l"
  by (auto simp: PROVIDER_FAILURE_SCRIPT_def PROVIDER_SUCCESS_SCRIPT_def PROVIDER_HALF_OPEN_SCRIPT_def
      breaker_success_def fun_eq_iff)

lemma allow_script_spec:
  "PROVIDER_ALLOW_REQUEST_SCRIPT b = (of_bool (fst (breaker_allow b)), snd (breaker_allow b))"
  by (cases b) (auto simp: PROVIDER_ALLOW_REQUEST_SCRIPT_def)

interpretation redis_health: provider_health read_hash rh_record_failure rh_record_success
    rh_move_to_half_open rh_allow_request t l
    "\<lambda>h. rh_redis_error h = None \<and> ps_failure_threshold (rh_settings h) = t \<and>
         ps_recovery_probe_limit (rh_settings h) = l"
    for t l :: int
proof unfold_locales
  fix h p ok h'
  assume up: "rh_redis_error h = None \<and> ps_failure_threshold (rh_settings h) = t \<and>
         ps_recovery_probe_limit (rh_settings h) = l" and a: "rh_allow_request p h = (ok, h')"
  obtain b where b: "breaker_allow (read_hash h p) = (ok, b)"
    using up a by (cases "breaker_allow (read_hash h p)")
      (auto simp: rh_allow_request_def allow_script_spec Let_def)
  with up a show "breaker_allow (read_hash h p) = (ok, read_hash h' p) \<and>
      (\<forall>q. q \<noteq> p \<longrightarrow> read_hash h' q = read_hash h q)"
    by (auto simp: rh_allow_request_def allow_script_spec Let_def)
  from up a show "rh_redis_error h' = None \<and> ps_failure_threshold (rh_settings h') = t \<and>
         ps_recovery_probe_limit (rh_settings h') = l"
    by (auto simp: rh_allow_request_def Let_def split: prod.splits if_splits)
qed (auto simp: rh_record_failure_def rh_record_success_def rh_move_to_half_open_def
    apply_provider_script_def Let_def)

section \<open>Theorems\<close>

text \<open>C9 (the breaker opens). With Redis available, after as many consecutive failures as the
  threshold the breaker of the provider is open and every request to it is refused until a
  success or a recovery probe is allowed; requests do not change it.\<close>

theorem circuit_opens_after_failures:
  assumes "rh_redis_error h = None" "ps_failure_threshold (rh_settings h) = int (Suc n)"
    and "0 \<le> fst (snd (read_hash h p))"
    and "rh_allow_request p ((rh_record_failure p ^^ Suc n) h) = (ok, h')"
  shows "\<not> ok \<and> fst (read_hash h' p) = OPEN"
proof -
  let ?l = "ps_recovery_probe_limit (rh_settings h)"
  have up: "rh_redis_error h = None \<and> ps_failure_threshold (rh_settings h) = int (Suc n) \<and>
      ps_recovery_probe_limit (rh_settings h) = ?l" using assms(1,2) by simp
  have "int (Suc n) \<le> fst (snd (read_hash h p)) + int (Suc n)" using assms(3) by simp
  from redis_health.failures_open[OF up this] obtain f where
    o: "read_hash ((rh_record_failure p ^^ Suc n) h) p = (OPEN, f, 0)" by blast
  from redis_health.allow_blocked[OF redis_health.up_failures[OF up] o assms(4)] o
  show ?thesis by simp
qed

definition witness_health :: RedisSharedProviderHealthStore where
  "witness_health =
     \<lparr>rh_settings = \<lparr>ps_deployment_air_gapped = False, ps_failure_threshold = 2,
                     ps_recovery_probe_limit = 1\<rparr>,
      rh_hashes = [], rh_redis_error = None, rh_events = [], rh_circuit_gauge = []\<rparr>"

lemma circuit_opens_after_failures_witness:
  "\<not> fst (rh_allow_request ''p'' ((rh_record_failure ''p'' ^^ Suc 1) witness_health))"
  using circuit_opens_after_failures[of witness_health 1 "''p''", OF _ _ _ prod.collapse[symmetric]]
  by (simp add: witness_health_def read_hash_def del: funpow.simps)

text \<open>Recovery probes are bounded. With Redis available, moving a breaker to half open allows
  exactly \<open>recovery_probe_limit\<close> of the following requests, and a failed probe of a provider
  that had reached the threshold opens it again at once.\<close>

theorem half_open_probe_budget:
  assumes "rh_redis_error h = None" "0 \<le> ps_recovery_probe_limit (rh_settings h)"
    and "requests rh_allow_request n p (rh_move_to_half_open p h) = (oks, h')"
  shows "length (filter id oks) = min n (nat (ps_recovery_probe_limit (rh_settings h))) \<and>
    (ps_failure_threshold (rh_settings h) \<le> fst (snd (read_hash h p)) \<longrightarrow>
      fst (read_hash (rh_record_failure p (rh_move_to_half_open p h)) p) = OPEN)"
proof -
  obtain s f pr where v: "read_hash h p = (s, f, pr)" by (cases "read_hash h p")
  have up: "rh_redis_error h = None \<and>
      ps_failure_threshold (rh_settings h) = ps_failure_threshold (rh_settings h) \<and>
      ps_recovery_probe_limit (rh_settings h) = ps_recovery_probe_limit (rh_settings h)"
    using assms(1) by simp
  from redis_health.probes_after_recovery[OF up assms(2,3)] redis_health.failed_probe_reopens[OF up v]
  show ?thesis using v by auto
qed

lemma half_open_probe_budget_witness:
  "length (filter id (fst (requests rh_allow_request 3 ''p'' (rh_move_to_half_open ''p'' witness_health)))) = 1"
  using half_open_probe_budget[of witness_health 3 "''p''", OF _ _ prod.collapse[symmetric]]
  by (simp add: witness_health_def)

text \<open>Fail closed. When Redis does not answer, an air-gapped deployment refuses every request
  and a connected one allows every request; no breaker changes, and the event is recorded.\<close>

theorem redis_outage_policy:
  assumes "rh_redis_error h = Some e"
  shows "fst (rh_allow_request p h) = (\<not> ps_deployment_air_gapped (rh_settings h)) \<and>
    read_hash (snd (rh_allow_request p h)) = read_hash h \<and>
    read_hash (rh_record_failure p h) = read_hash h \<and>
    length (rh_events (snd (rh_allow_request p h))) = Suc (length (rh_events h)) \<and>
    length (rh_events (rh_record_failure p h)) = Suc (Suc (length (rh_events h)))"
  using assms
  by (simp add: rh_allow_request_def rh_record_failure_def apply_provider_script_def Let_def
      fail_closed_without_redis_def persist_event_def set_circuit_gauge_def fun_eq_iff read_hash_def)

lemma redis_outage_policy_witness:
  "fst (rh_allow_request ''p'' (witness_health\<lparr>rh_redis_error := Some ''down''\<rparr>))"
  using redis_outage_policy[of "witness_health\<lparr>rh_redis_error := Some ''down''\<rparr>" "''down''" "''p''"]
  by (simp add: witness_health_def)



end
