(* ===== verification/Routing.thy ===== *)
theory Routing
  imports Catalog ProviderHealth
begin

text \<open>
  Provider routing, \<open>backend/governance/routing.py\<close>: \<open>RuleBasedProviderRouter.select_model\<close> over
  an arbitrary catalog and health store, and its correctness for every pair of stores that meet
  the two interfaces. The interpretation joins the PostgreSQL catalog with the Redis breaker.
\<close>

record RoleModelAssignment =
  as_role :: RuntimeRole
  as_primary_model_id :: str
  as_fallback_model_id :: "str option"

record ProviderSelection =
  sel_provider_id :: str
  sel_model_id :: str
  sel_fallback_used :: bool

definition role_assignments :: "RoleModelAssignment list \<Rightarrow> (RuntimeRole \<times> RoleModelAssignment) list" where
  "role_assignments as = dict_of (map (\<lambda>a. (as_role a, a)) as)"

definition resolve_fallback ::
  "(str \<Rightarrow> DeploymentProfile \<Rightarrow> ('c, ModelCatalogEntry) operation) \<Rightarrow>
   (str \<Rightarrow> str \<Rightarrow> DeploymentProfile \<Rightarrow> ('c, unit) operation) \<Rightarrow>
   RoleModelAssignment \<Rightarrow> DeploymentProfile \<Rightarrow> ('c, ModelCatalogEntry option) operation" where
  "resolve_fallback resolve check assignment profile =
     (case as_fallback_model_id assignment of
        None \<Rightarrow> (\<lambda>c. (Inr None, c))
      | Some fid \<Rightarrow>
          op_bind (check (as_primary_model_id assignment) fid profile) (\<lambda>_.
          op_bind (resolve fid profile) (\<lambda>e c. (Inr (Some e), c))))"

definition pick_provider ::
  "(str \<Rightarrow> 'h \<Rightarrow> bool \<times> 'h) \<Rightarrow> ModelCatalogEntry \<Rightarrow> ModelCatalogEntry option \<Rightarrow>
   ('h, ProviderSelection) operation" where
  "pick_provider allow primary fallback h =
     (let (ok, h1) = allow (me_provider_id primary) h
      in if ok
         then (Inr \<lparr>sel_provider_id = me_provider_id primary, sel_model_id = me_model_id primary,
                    sel_fallback_used = False\<rparr>, h1)
         else case fallback of
                None \<Rightarrow> (Inl (ProviderRoutingError ''provider_failover_exhausted''), h1)
              | Some fb \<Rightarrow>
                  let (ok2, h2) = allow (me_provider_id fb) h1
                  in if ok2
                     then (Inr \<lparr>sel_provider_id = me_provider_id fb, sel_model_id = me_model_id fb,
                                sel_fallback_used = True\<rparr>, h2)
                     else (Inl (ProviderRoutingError ''all_providers_unavailable''), h2))"

definition select_model ::
  "(str \<Rightarrow> DeploymentProfile \<Rightarrow> ('c, ModelCatalogEntry) operation) \<Rightarrow>
   (str \<Rightarrow> str \<Rightarrow> DeploymentProfile \<Rightarrow> ('c, unit) operation) \<Rightarrow>
   (str \<Rightarrow> 'h \<Rightarrow> bool \<times> 'h) \<Rightarrow> RoleModelAssignment list \<Rightarrow>
   RuntimeRole \<Rightarrow> DeploymentProfile \<Rightarrow> ('c \<times> 'h, ProviderSelection) operation" where
  "select_model resolve check allow assignments role profile s =
     (case s of (c, h) \<Rightarrow>
        case dict_get (role_assignments assignments) role of
          None \<Rightarrow> (Inl (KeyError (RuntimeRole_value role)), s)
        | Some assignment \<Rightarrow>
            (case op_bind (resolve (as_primary_model_id assignment) profile) (\<lambda>primary.
                    op_bind (resolve_fallback resolve check assignment profile) (\<lambda>fallback c.
                      (Inr (primary, fallback), c))) c of
               (Inl e, c') \<Rightarrow> (Inl e, (c', h))
             | (Inr (primary, fallback), c') \<Rightarrow>
                 let (r, h') = pick_provider allow primary fallback h in (r, (c', h'))))"

section \<open>The client of the two interfaces\<close>

text \<open>The candidates of a role: what the catalog says the assignment may use, in order.\<close>

definition routing_candidates ::
  "catalog_state \<Rightarrow> RoleModelAssignment \<Rightarrow> DeploymentProfile \<Rightarrow>
   (ModelCatalogEntry \<times> ModelCatalogEntry option) result" where
  "routing_candidates cat a profile =
     bind_result (resolve_model cat (as_primary_model_id a) profile) (\<lambda>primary.
       case as_fallback_model_id a of
         None \<Rightarrow> Inr (primary, None)
       | Some fid \<Rightarrow>
           bind_result (validate_fallback cat (as_primary_model_id a) fid profile) (\<lambda>_.
           bind_result (resolve_model cat fid profile) (\<lambda>e. Inr (primary, Some e))))"

text \<open>What \<open>select_model\<close> should answer for those candidates and the breakers of the providers.\<close>

definition expected_selection ::
  "(str \<Rightarrow> breaker) \<Rightarrow> ModelCatalogEntry \<Rightarrow> ModelCatalogEntry option \<Rightarrow> ProviderSelection result" where
  "expected_selection bs primary fallback =
     (if fst (breakers_allow (me_provider_id primary) bs)
      then Inr \<lparr>sel_provider_id = me_provider_id primary, sel_model_id = me_model_id primary,
                sel_fallback_used = False\<rparr>
      else case fallback of
             None \<Rightarrow> Inl (ProviderRoutingError ''provider_failover_exhausted'')
           | Some fb \<Rightarrow>
               if fst (breakers_allow (me_provider_id fb) bs)
               then Inr \<lparr>sel_provider_id = me_provider_id fb, sel_model_id = me_model_id fb,
                         sel_fallback_used = True\<rparr>
               else Inl (ProviderRoutingError ''all_providers_unavailable''))"

lemma breaker_refused_same: "breaker_allow b = (False, b') \<Longrightarrow> b' = b"
  by (cases b) (auto split: if_splits)

locale provider_routing =
  model_catalog resolve check_fallback cap cview cinv +
  provider_health view fail succeed half_open allow threshold limit up
  for resolve :: "str \<Rightarrow> DeploymentProfile \<Rightarrow> ('c, ModelCatalogEntry) operation"
    and check_fallback :: "str \<Rightarrow> str \<Rightarrow> DeploymentProfile \<Rightarrow> ('c, unit) operation"
    and cap :: "RuntimeRole \<Rightarrow> str \<Rightarrow> DeploymentProfile \<Rightarrow> TokenCap option \<Rightarrow> ('c, TokenCap) operation"
    and cview :: "'c \<Rightarrow> catalog_state" and cinv :: "'c \<Rightarrow> bool"
    and view :: "'h \<Rightarrow> str \<Rightarrow> breaker"
    and fail :: "str \<Rightarrow> 'h \<Rightarrow> 'h" and succeed :: "str \<Rightarrow> 'h \<Rightarrow> 'h" and half_open :: "str \<Rightarrow> 'h \<Rightarrow> 'h"
    and allow :: "str \<Rightarrow> 'h \<Rightarrow> bool \<times> 'h" and threshold :: int and limit :: int
    and up :: "'h \<Rightarrow> bool"
begin

lemma pick_expected:
  assumes "up h"
  shows "fst (pick_provider allow primary fallback h) = expected_selection (view h) primary fallback"
proof -
  obtain ok h1 where a: "allow (me_provider_id primary) h = (ok, h1)" by fastforce
  note sim = allow_sim[OF assms a]
  show ?thesis
  proof (cases ok)
    case True
    with a sim show ?thesis by (simp add: pick_provider_def expected_selection_def breakers_allow_def)
  next
    case False
    with sim have "view h1 (me_provider_id primary) = view h (me_provider_id primary)"
      using breaker_refused_same by simp
    with sim have same: "view h1 = view h" by (intro ext) metis
    show ?thesis
    proof (cases fallback)
      case None
      with a sim False show ?thesis
        by (simp add: pick_provider_def expected_selection_def breakers_allow_def)
    next
      case (Some fb)
      obtain ok2 h2 where b: "allow (me_provider_id fb) h1 = (ok2, h2)" by fastforce
      from allow_sim[OF up_allow[OF assms a] b] same
      have "breaker_allow (view h (me_provider_id fb)) = (ok2, view h2 (me_provider_id fb))" by simp
      with a b sim False Some show ?thesis
        by (simp add: pick_provider_def expected_selection_def breakers_allow_def)
    qed
  qed
qed

lemma candidates_correct:
  assumes "cinv c"
  shows "fst (op_bind (resolve (as_primary_model_id a) profile) (\<lambda>primary.
      op_bind (resolve_fallback resolve check_fallback a profile) (\<lambda>fallback c.
        (Inr (primary, fallback), c))) c) = routing_candidates (cview c) a profile"
proof -
  obtain r c1 where 1: "resolve (as_primary_model_id a) profile c = (r, c1)" by fastforce
  note r = resolve_view[OF assms 1]
  show ?thesis
  proof (cases r)
    case (Inl e)
    then have "resolve_model (cview c) (as_primary_model_id a) profile = Inl e" using r by simp
    with 1 Inl show ?thesis by (simp add: op_bind_def routing_candidates_def)
  next
    case R: (Inr primary)
    then have p: "resolve_model (cview c) (as_primary_model_id a) profile = Inr primary" using r by simp
    show ?thesis
    proof (cases "as_fallback_model_id a")
      case None
      with 1 p R show ?thesis by (simp add: op_bind_def routing_candidates_def resolve_fallback_def)
    next
      case (Some fid)
      obtain u c2 where 2: "check_fallback (as_primary_model_id a) fid profile c1 = (u, c2)" by fastforce
      from check_view[OF _ 2] r have u: "u = validate_fallback (cview c) (as_primary_model_id a) fid profile"
        "cview c2 = cview c" "cinv c2" by auto
      obtain v c3 where 3: "resolve fid profile c2 = (v, c3)" by fastforce
      from resolve_view[OF u(3) 3] u(2) have v: "v = resolve_model (cview c) fid profile" by simp
      from 1 2 3 p R u v Some show ?thesis
        by (cases "validate_fallback (cview c) (as_primary_model_id a) fid profile";
            cases "resolve_model (cview c) fid profile")
          (simp_all add: op_bind_def routing_candidates_def resolve_fallback_def)
    qed
  qed
qed

lemma select_model_expected:
  assumes "cinv c" "up h" "dict_get (role_assignments as) role = Some a"
  shows "fst (select_model resolve check_fallback allow as role profile (c, h)) =
    bind_result (routing_candidates (cview c) a profile) (\<lambda>(primary, fallback).
      expected_selection (view h) primary fallback)"
proof -
  let ?cand = "op_bind (resolve (as_primary_model_id a) profile) (\<lambda>primary.
      op_bind (resolve_fallback resolve check_fallback a profile) (\<lambda>fallback c.
        (Inr (primary, fallback), c))) c"
  obtain c' where c': "?cand = (routing_candidates (cview c) a profile, c')"
    using candidates_correct[OF assms(1), of a profile] by (metis prod.collapse)
  show ?thesis
  proof (cases "routing_candidates (cview c) a profile")
    case (Inl e)
    with c' assms(3) show ?thesis by (simp add: select_model_def)
  next
    case (Inr pf)
    obtain primary fallback where pf: "pf = (primary, fallback)" by (cases pf)
    obtain r h' where pk: "pick_provider allow primary fallback h = (r, h')" by fastforce
    from pick_expected[OF assms(2), of primary fallback] pk
    have "r = expected_selection (view h) primary fallback" by simp
    with c' assms(3) Inr pf pk show ?thesis by (simp add: select_model_def)
  qed
qed

end

interpretation pg_redis_routing: provider_routing
    "pg_resolve_model b" "pg_validate_fallback b" "pg_effective_token_cap b" "pg_catalog_view b"
    "\<lambda>_. seeded b" read_hash rh_record_failure rh_record_success rh_move_to_half_open rh_allow_request
    t l
    "\<lambda>h. rh_redis_error h = None \<and> ps_failure_threshold (rh_settings h) = t \<and>
         ps_recovery_probe_limit (rh_settings h) = l"
    for b :: CatalogBundle and t l :: int
  by unfold_locales

section \<open>Theorems\<close>

lemma routing_candidates_Inr:
  assumes "routing_candidates cat a profile = Inr (primary, fallback)"
  shows "resolve_model cat (as_primary_model_id a) profile = Inr primary \<and>
    (case fallback of None \<Rightarrow> as_fallback_model_id a = None
     | Some fb \<Rightarrow> \<exists>fid. as_fallback_model_id a = Some fid \<and> resolve_model cat fid profile = Inr fb \<and>
                 fid \<in> set (me_allowed_fallback_targets primary))"
  using assms by (cases "as_fallback_model_id a")
    (auto simp: routing_candidates_def validate_fallback_def split: if_splits)

text \<open>Routing answers what catalog and breakers determine. On the PostgreSQL catalog and the
  Redis breakers, \<open>select_model\<close> answers exactly the expected selection: the primary model when
  its provider's breaker admits a request, else the validated fallback when that one does, else
  the routing error that says whether a fallback existed.\<close>

theorem select_model_correct:
  assumes "seeded b" "rh_redis_error h = None" "dict_get (role_assignments as) role = Some a"
  shows "fst (select_model (pg_resolve_model b) (pg_validate_fallback b) rh_allow_request as role profile (c, h)) =
    bind_result (routing_candidates (pg_catalog_view b c) a profile) (\<lambda>(primary, fallback).
      expected_selection (read_hash h) primary fallback)"
  by (rule pg_redis_routing.select_model_expected[where t = "ps_failure_threshold (rh_settings h)"
        and l = "ps_recovery_probe_limit (rh_settings h)"]) (simp_all add: assms)

definition witness_entry :: "str \<Rightarrow> str \<Rightarrow> str list \<Rightarrow> ModelCatalogEntry" where
  "witness_entry m p fs =
     \<lparr>me_model_id = m, me_provider_id = p, me_deployment_profile = Connected,
      me_max_input_tokens = 1000, me_max_output_tokens = 500, me_default_price_card_id = ''card'',
      me_supports_tools = True, me_supports_json_mode = True, me_supports_streaming = True,
      me_allowed_fallback_targets = fs\<rparr>"

definition witness_bundle :: CatalogBundle where
  "witness_bundle =
     \<lparr>cb_entries = [witness_entry ''m1'' ''p1'' [''m2''], witness_entry ''m2'' ''p2'' []],
      cb_role_token_policies =
        [\<lparr>tp_role = Role_coder, tp_max_input_tokens = 800, tp_max_output_tokens = 900\<rparr>]\<rparr>"

definition witness_assignments :: "RoleModelAssignment list" where
  "witness_assignments =
     [\<lparr>as_role = Role_coder, as_primary_model_id = ''m1'', as_fallback_model_id = Some ''m2''\<rparr>]"

definition empty_catalog_db :: CatalogDb where
  "empty_catalog_db =
     \<lparr>cd_model_catalog_entries = [], cd_role_token_policies = [], cd_audit_events = []\<rparr>"

lemma witness_bundle_seeded [simp]: "seeded witness_bundle"
  by (simp add: seeded_def witness_bundle_def)

lemma witness_assignment: "dict_get (role_assignments witness_assignments) Role_coder =
    Some \<lparr>as_role = Role_coder, as_primary_model_id = ''m1'', as_fallback_model_id = Some ''m2''\<rparr>"
  by (simp add: role_assignments_def witness_assignments_def dict_of_def)

lemma witness_health_up [simp]: "rh_redis_error witness_health = None"
  by (simp add: witness_health_def)

lemma select_model_correct_witness:
  "fst (select_model (pg_resolve_model witness_bundle) (pg_validate_fallback witness_bundle)
      rh_allow_request witness_assignments Role_coder Connected (empty_catalog_db, witness_health)) =
   Inr \<lparr>sel_provider_id = ''p1'', sel_model_id = ''m1'', sel_fallback_used = False\<rparr>"
  unfolding select_model_correct[OF witness_bundle_seeded witness_health_up witness_assignment]
  by code_simp



end
