(* ===== verification/Agents.thy ===== *)
theory Agents
  imports Routing
begin

text \<open>
  Agent configuration, \<open>backend/control_plane/agents.py\<close>: the tool allowlist of the runtime
  roles, the validator over an arbitrary model catalog, the dry run, and the default
  configurations. \<open>sorted\<close> of a set of strings is \<open>sort\<close> of its distinct elements.
\<close>

fun RUNTIME_ROLE_TOOL_ALLOWLIST :: "RuntimeRole \<Rightarrow> str list" where
  "RUNTIME_ROLE_TOOL_ALLOWLIST Role_planner =
     [''jira_read'', ''repo_read'', ''checkpoint_read'', ''memory_read'', ''first_party_lookup'',
      ''bounded_research'']"
| "RUNTIME_ROLE_TOOL_ALLOWLIST Role_coder = [''repo_write'', ''local_test'', ''build_tool'']"
| "RUNTIME_ROLE_TOOL_ALLOWLIST Role_tester =
     [''test_run'', ''static_analysis'', ''artifact_read'', ''sandbox_control'']"
| "RUNTIME_ROLE_TOOL_ALLOWLIST Role_reviewer =
     [''repo_read'', ''diff_analysis'', ''policy_check'', ''first_party_lookup'']"
| "RUNTIME_ROLE_TOOL_ALLOWLIST Role_pr_creator =
     [''git_metadata'', ''pr_create'', ''jira_write'', ''final_policy_check'']"

record AgentConfigVersion =
  ac_agent_role :: RuntimeRole
  ac_model_id :: str
  ac_fallback_model_id :: "str option"
  ac_system_prompt_ref :: str
  ac_allowed_tools :: "str list"
  ac_retry_limits :: "(str \<times> int) list"
  ac_token_policy_ref :: str

record AgentDryRunResult =
  dr_allowed :: bool
  dr_blocked_tools :: "str list"
  dr_errors :: "str list"

definition sorted_difference :: "str list \<Rightarrow> str list \<Rightarrow> str list" where
  "sorted_difference xs ys = sort (remdups (filter (\<lambda>x. x \<notin> set ys) xs))"

lemma set_sorted_difference [simp]: "set (sorted_difference xs ys) = set xs - set ys"
  by (auto simp: sorted_difference_def)

lemma sorted_difference_Nil: "sorted_difference xs ys = [] \<longleftrightarrow> set xs \<subseteq> set ys"
  using set_sorted_difference[of xs ys] by (metis Diff_eq_empty_iff set_empty)

text \<open>\<open>try\<close> a catalog call, keeping the message of a \<open>ValueError\<close>; another exception escapes.\<close>

definition value_errors :: "'a result \<Rightarrow> str list result" where
  "value_errors r =
     (case r of Inr _ \<Rightarrow> Inr [] | Inl (ValueError m) \<Rightarrow> Inr [m] | Inl e \<Rightarrow> Inl e)"

definition tool_errors :: "AgentConfigVersion \<Rightarrow> str list" where
  "tool_errors config =
     (let invalid_tools = sorted_difference (ac_allowed_tools config)
            (RUNTIME_ROLE_TOOL_ALLOWLIST (ac_agent_role config))
      in (if invalid_tools \<noteq> []
          then [''Role `'' @ RuntimeRole_value (ac_agent_role config) @ ''` cannot grant tools: '' @
                str_join '', '' invalid_tools @ ''.'']
          else []) @
         (if ac_system_prompt_ref config = [] then [''System prompt reference is required.''] else []) @
         (if ac_retry_limits config = [] then [''Retry limits are required.''] else []) @
         (if list_ex (\<lambda>(k, limit). limit < 0) (ac_retry_limits config)
          then [''Retry limits must be non-negative.''] else []) @
         (if ac_token_policy_ref config = [] then [''Token policy reference is required.''] else []))"

definition validate_agent ::
  "(str \<Rightarrow> DeploymentProfile \<Rightarrow> ('c, ModelCatalogEntry) operation) \<Rightarrow>
   (str \<Rightarrow> str \<Rightarrow> DeploymentProfile \<Rightarrow> ('c, unit) operation) \<Rightarrow>
   DeploymentProfile \<Rightarrow> AgentConfigVersion \<Rightarrow> ('c, bool \<times> str list) operation" where
  "validate_agent resolve check profile config c =
     (let (r, c1) = resolve (ac_model_id config) profile c;
          (f, c2) = (case ac_fallback_model_id config of
                       None \<Rightarrow> (Inr (), c1)
                     | Some fid \<Rightarrow> (case value_errors r of
                                      Inl e \<Rightarrow> (Inr (), c1)
                                    | Inr _ \<Rightarrow> check (ac_model_id config) fid profile c1))
      in (bind_result (value_errors r) (\<lambda>es1.
          bind_result (value_errors f) (\<lambda>es2.
            let errors = es1 @ es2 @ tool_errors config in Inr (errors = [], errors))), c2))"

definition dry_run_agent ::
  "(str \<Rightarrow> DeploymentProfile \<Rightarrow> ('c, ModelCatalogEntry) operation) \<Rightarrow>
   (str \<Rightarrow> str \<Rightarrow> DeploymentProfile \<Rightarrow> ('c, unit) operation) \<Rightarrow>
   DeploymentProfile \<Rightarrow> AgentConfigVersion \<Rightarrow> str list \<Rightarrow> ('c, AgentDryRunResult) operation" where
  "dry_run_agent resolve check profile config requested_tools =
     op_bind (validate_agent resolve check profile config) (\<lambda>(valid, errors) c.
       if \<not> valid
       then (Inr \<lparr>dr_allowed = False, dr_blocked_tools = [], dr_errors = errors\<rparr>, c)
       else let blocked_tools = sorted_difference requested_tools (ac_allowed_tools config)
            in (Inr \<lparr>dr_allowed = (blocked_tools = []), dr_blocked_tools = blocked_tools,
                     dr_errors = []\<rparr>, c))"

definition default_model_mapping :: "(RuntimeRole \<times> str) list" where
  "default_model_mapping =
     [(Role_planner, ''gpt-4.1''), (Role_coder, ''gpt-4.1''), (Role_tester, ''llama3.1''),
      (Role_reviewer, ''gpt-4.1''), (Role_pr_creator, ''gpt-4.1'')]"

fun default_retry_limits :: "RuntimeRole \<Rightarrow> (str \<times> int) list" where
  "default_retry_limits Role_planner = [(''clarification'', 2)]"
| "default_retry_limits Role_coder = [(''implementation'', 2)]"
| "default_retry_limits Role_tester = [(''tests'', 2)]"
| "default_retry_limits Role_reviewer = [(''review'', 1)]"
| "default_retry_limits Role_pr_creator = [(''pre_pr'', 1)]"

definition default_agent_configs :: "(RuntimeRole \<times> str) list option \<Rightarrow> AgentConfigVersion list" where
  "default_agent_configs model_mapping =
     (let defaults = (case model_mapping of
            None \<Rightarrow> default_model_mapping
          | Some m \<Rightarrow> if m = [] then default_model_mapping else m)
      in map (\<lambda>(role, model_id).
           \<lparr>ac_agent_role = role, ac_model_id = model_id, ac_fallback_model_id = None,
            ac_system_prompt_ref = ''prompts/'' @ RuntimeRole_value role @ ''.txt'',
            ac_allowed_tools = sort (RUNTIME_ROLE_TOOL_ALLOWLIST role),
            ac_retry_limits = default_retry_limits role,
            ac_token_policy_ref = ''token-policy/'' @ RuntimeRole_value role\<rparr>) defaults)"

section \<open>The contract of the validator\<close>

definition config_ok :: "catalog_state \<Rightarrow> DeploymentProfile \<Rightarrow> AgentConfigVersion \<Rightarrow> bool" where
  "config_ok cat profile config \<longleftrightarrow>
     (\<exists>e. resolve_model cat (ac_model_id config) profile = Inr e) \<and>
     (\<forall>fid. ac_fallback_model_id config = Some fid \<longrightarrow>
        validate_fallback cat (ac_model_id config) fid profile = Inr ()) \<and>
     set (ac_allowed_tools config) \<subseteq> set (RUNTIME_ROLE_TOOL_ALLOWLIST (ac_agent_role config)) \<and>
     ac_system_prompt_ref config \<noteq> [] \<and> ac_retry_limits config \<noteq> [] \<and>
     (\<forall>(k, limit) \<in> set (ac_retry_limits config). 0 \<le> limit) \<and> ac_token_policy_ref config \<noteq> []"

lemma resolve_model_value_error:
  "resolve_model cat m p = Inl e \<Longrightarrow> \<exists>msg. e = ValueError msg"
  by (auto simp: resolve_model_def unknown_model_def split: option.splits)

lemma validate_fallback_value_error:
  "validate_fallback cat m f p = Inl e \<Longrightarrow> \<exists>msg. e = ValueError msg"
  by (auto simp: validate_fallback_def bind_result_Inl_iff split: if_splits
      dest: resolve_model_value_error)

lemma value_errors_resolve:
  "\<exists>es. value_errors (resolve_model cat m p) = Inr es \<and> (es = [] \<longleftrightarrow> (\<exists>e. resolve_model cat m p = Inr e))"
  by (cases "resolve_model cat m p") (auto simp: value_errors_def dest: resolve_model_value_error)

lemma value_errors_fallback:
  "\<exists>es. value_errors (validate_fallback cat m f p) = Inr es \<and> (es = [] \<longleftrightarrow> validate_fallback cat m f p = Inr ())"
  by (cases "validate_fallback cat m f p") (auto simp: value_errors_def dest: validate_fallback_value_error)

lemma negative_limit:
  "list_ex (\<lambda>(k, limit). limit < 0) ls \<longleftrightarrow> \<not> (\<forall>(k, limit) \<in> set ls. (0 :: int) \<le> limit)"
  by (induction ls) auto

lemma tool_errors_Nil:
  "tool_errors config = [] \<longleftrightarrow>
     set (ac_allowed_tools config) \<subseteq> set (RUNTIME_ROLE_TOOL_ALLOWLIST (ac_agent_role config)) \<and>
     ac_system_prompt_ref config \<noteq> [] \<and> ac_retry_limits config \<noteq> [] \<and>
     (\<forall>(k, limit) \<in> set (ac_retry_limits config). 0 \<le> limit) \<and> ac_token_policy_ref config \<noteq> []"
  by (auto simp: tool_errors_def Let_def sorted_difference_Nil negative_limit)

context model_catalog
begin

lemma validate_agent_correct:
  assumes "inv c"
  shows "\<exists>errors c'. validate_agent resolve check_fallback profile config c = (Inr (errors = [], errors), c') \<and>
    (errors = [] \<longleftrightarrow> config_ok (view c) profile config) \<and> inv c' \<and> view c' = view c"
proof -
  obtain r c1 where 1: "resolve (ac_model_id config) profile c = (r, c1)" by fastforce
  from resolve_view[OF assms 1] have r: "r = resolve_model (view c) (ac_model_id config) profile"
    and c1: "view c1 = view c" "inv c1" by auto
  obtain es1 where es1: "value_errors r = Inr es1"
    "es1 = [] \<longleftrightarrow> (\<exists>e. resolve_model (view c) (ac_model_id config) profile = Inr e)"
    using value_errors_resolve r by metis
  show ?thesis
  proof (cases "ac_fallback_model_id config")
    case None
    with 1 es1 c1 show ?thesis
      by (auto simp: validate_agent_def Let_def config_ok_def tool_errors_Nil value_errors_def[of "Inr ()"])
  next
    case (Some fid)
    obtain f c2 where 2: "check_fallback (ac_model_id config) fid profile c1 = (f, c2)" by fastforce
    from check_view[OF c1(2) 2] c1 have f: "f = validate_fallback (view c) (ac_model_id config) fid profile"
      and c2: "view c2 = view c" "inv c2" by auto
    obtain es2 where es2: "value_errors f = Inr es2"
      "es2 = [] \<longleftrightarrow> validate_fallback (view c) (ac_model_id config) fid profile = Inr ()"
      using value_errors_fallback f by metis
    from 1 2 es1 es2 c2 Some show ?thesis
      by (auto simp: validate_agent_def Let_def config_ok_def tool_errors_Nil)
  qed
qed

lemma dry_run_correct:
  assumes "inv c"
  shows "\<exists>res c'. dry_run_agent resolve check_fallback profile config requested c = (Inr res, c') \<and>
    (dr_allowed res \<longleftrightarrow> config_ok (view c) profile config \<and> set requested \<subseteq> set (ac_allowed_tools config)) \<and>
    (config_ok (view c) profile config \<longrightarrow>
       set (dr_blocked_tools res) = set requested - set (ac_allowed_tools config))"
proof -
  obtain errors c' where "validate_agent resolve check_fallback profile config c = (Inr (errors = [], errors), c')"
    "errors = [] \<longleftrightarrow> config_ok (view c) profile config"
    using validate_agent_correct[OF assms] by blast
  then show ?thesis
    by (cases "errors = []") (auto simp: dry_run_agent_def Let_def sorted_difference_Nil)
qed

end

section \<open>Theorems\<close>

text \<open>C12 (agent validation is exact). On the PostgreSQL catalog the validator never raises, and it
  accepts a configuration exactly when its model resolves, its fallback is allowed, its tools are
  within the allowlist of its role, its references are present and its retry limits are given
  and non-negative.\<close>

theorem agent_validation_exact:
  assumes "seeded b"
  shows "\<exists>errors db'. validate_agent (pg_resolve_model b) (pg_validate_fallback b) profile config db
      = (Inr (errors = [], errors), db') \<and>
    (errors = [] \<longleftrightarrow> config_ok (pg_catalog_view b db) profile config)"
  using pg_catalog.validate_agent_correct[OF assms, of profile config db] by blast

lemma agent_validation_exact_witness:
  "\<exists>errors db'. validate_agent (pg_resolve_model witness_bundle) (pg_validate_fallback witness_bundle)
     Connected (hd (default_agent_configs None)) empty_catalog_db = (Inr (errors = [], errors), db')"
  using agent_validation_exact[OF witness_bundle_seeded] by blast

text \<open>Tools stay within the role. A dry run that allows the requested tools does so only for a
  valid configuration, and every requested tool is then on the allowlist of the agent's role.\<close>

theorem dry_run_within_role:
  assumes "seeded b"
    and "dry_run_agent (pg_resolve_model b) (pg_validate_fallback b) profile config requested db = (Inr res, db')"
    and "dr_allowed res"
  shows "set requested \<subseteq> set (RUNTIME_ROLE_TOOL_ALLOWLIST (ac_agent_role config)) \<and>
    dr_blocked_tools res = [] \<and> config_ok (pg_catalog_view b db) profile config"
proof -
  let ?ok = "config_ok (pg_catalog_view b db) profile config"
  obtain res1 db1 where r: "dry_run_agent (pg_resolve_model b) (pg_validate_fallback b) profile config requested db
      = (Inr res1, db1)"
    and allowed: "dr_allowed res1 \<longleftrightarrow> ?ok \<and> set requested \<subseteq> set (ac_allowed_tools config)"
    and blocks: "?ok \<longrightarrow> set (dr_blocked_tools res1) = set requested - set (ac_allowed_tools config)"
    using pg_catalog.dry_run_correct[OF assms(1)] by blast
  from r assms(2) have "res1 = res" by simp
  with allowed blocks assms(3) have ok: ?ok "set requested \<subseteq> set (ac_allowed_tools config)"
    and blocked: "set (dr_blocked_tools res) = set requested - set (ac_allowed_tools config)" by blast+
  from ok(2) have "dr_blocked_tools res = []"
    by (simp only: set_empty[symmetric] blocked Diff_eq_empty_iff)
  moreover from ok(1) have "set (ac_allowed_tools config) \<subseteq> set (RUNTIME_ROLE_TOOL_ALLOWLIST (ac_agent_role config))"
    by (simp only: config_ok_def)
  ultimately show ?thesis using ok by (metis order_trans)
qed

definition witness_agent :: AgentConfigVersion where
  "witness_agent =
     \<lparr>ac_agent_role = Role_coder, ac_model_id = ''m1'', ac_fallback_model_id = Some ''m2'',
      ac_system_prompt_ref = ''p'', ac_allowed_tools = [''build_tool''], ac_retry_limits = [(''x'', 2)],
      ac_token_policy_ref = ''t''\<rparr>"

lemma witness_agent_ok:
  "config_ok (pg_catalog_view witness_bundle empty_catalog_db) Connected witness_agent"
proof -
  have "fold (upsert_by entry_key) (cb_entries witness_bundle) [] = cb_entries witness_bundle"
    by (simp add: witness_bundle_def upsert_by_def entry_key_def witness_entry_def)
  then have "fst (pg_catalog_view witness_bundle empty_catalog_db) =
      fst (in_memory_catalog (cb_entries witness_bundle) (cb_role_token_policies witness_bundle))"
    by (simp add: pg_catalog_view_def load_catalog_state_def empty_catalog_db_def reconcile_bundle_def
        Let_def in_memory_catalog_def)
  then have view: "dict_get (fst (pg_catalog_view witness_bundle empty_catalog_db)) (''m1'', Connected) =
      Some (witness_entry ''m1'' ''p1'' [''m2''])"
    "dict_get (fst (pg_catalog_view witness_bundle empty_catalog_db)) (''m2'', Connected) =
      Some (witness_entry ''m2'' ''p2'' [])"
    by (simp_all add: witness_bundle_def in_memory_catalog_def witness_entry_def dict_of_def)
  have "resolve_model (pg_catalog_view witness_bundle empty_catalog_db) ''m1'' Connected
      = Inr (witness_entry ''m1'' ''p1'' [''m2''])"
    "validate_fallback (pg_catalog_view witness_bundle empty_catalog_db) ''m1'' ''m2'' Connected = Inr ()"
    by (simp_all add: resolve_model_def validate_fallback_def view witness_entry_def)
  then show ?thesis by (simp add: config_ok_def witness_agent_def)
qed

lemma dry_run_within_role_witness:
  "set [''build_tool''] \<subseteq> set (RUNTIME_ROLE_TOOL_ALLOWLIST Role_coder)"
proof -
  from pg_catalog.dry_run_correct[OF witness_bundle_seeded, of Connected witness_agent "[''build_tool'']" empty_catalog_db]
  obtain res db' where "dry_run_agent (pg_resolve_model witness_bundle) (pg_validate_fallback witness_bundle)
      Connected witness_agent [''build_tool''] empty_catalog_db = (Inr res, db')" "dr_allowed res"
    using witness_agent_ok by (auto simp: witness_agent_def)
  from dry_run_within_role[OF witness_bundle_seeded this] show ?thesis by (simp add: witness_agent_def)
qed

end
