(* ===== verification/GraphConfig.thy ===== *)
theory GraphConfig
  imports Prelude
begin

text \<open>
  Validation of a graph configuration, \<open>backend/control_plane/graph.py\<close>: the configuration
  models, the validator with its compile, protected-profile and escalation phases, and the
  enumeration of the simple paths to \<open>pr_creator\<close>. The handler registry is a parameter.
\<close>

definition START_NODE :: str where "START_NODE = ''START''"
definition END_NODE :: str where "END_NODE = ''END''"

definition REQUIRED_SYSTEM_NODES :: "str list" where
  "REQUIRED_SYSTEM_NODES =
     [''load_constitution'', ''create_feature_spec'', ''clarify'', ''create_plan'', ''create_task_list'',
      ''readiness_gate'', ''coder'', ''tester'', ''reviewer'', ''pre_pr_sync'', ''pr_creator'', ''escalate'']"

definition REQUIRED_PR_PATH_NODES :: "str list" where
  "REQUIRED_PR_PATH_NODES =
     [''readiness_gate'', ''coder'', ''tester'', ''reviewer'', ''pre_pr_sync'', ''pr_creator'']"

datatype handler_kind = System | Tenant_configurable

datatype transition = Tr_success | Tr_retry | Tr_escalate | Tr_terminal | Tr_break_glass

record RouteHandlerRef =
  hr_handler_name :: str
  hr_handler_version :: str
  hr_handler_kind :: handler_kind

record GraphNodeConfig =
  gn_node_id :: str
  gn_handler_name :: str
  gn_handler_kind :: handler_kind
  gn_writes_repo :: bool
  gn_is_human_approval :: bool
  gn_terminal :: bool

record GraphEdgeConfig =
  ge_source :: str
  ge_target :: str
  ge_transition :: transition
  ge_escalation_reason :: "str option"

text \<open>The identifiers of the version record carry no behaviour; \<open>invariant_profile\<close> has one value,
  \<open>ticket_to_pr_v1\<close>, the protected profile, so the protected checks always run.\<close>

record GraphConfigVersion =
  gc_config_version_id :: str
  gc_profile_id :: str
  gc_graph_nodes :: "GraphNodeConfig list"
  gc_graph_edges :: "GraphEdgeConfig list"
  gc_route_handlers :: "RouteHandlerRef list"
  gc_created_by :: str
  gc_created_at :: datetime

record GraphValidationResult =
  gv_compiles :: bool
  gv_invariant_errors :: "str list"
  gv_missing_escalation_sinks :: "str list"
  gv_protected_path_violations :: "str list"

section \<open>Compile phase\<close>

definition node_handler_errors ::
  "(str \<Rightarrow> handler_kind option) \<Rightarrow> RouteHandlerRef list \<Rightarrow> GraphNodeConfig \<Rightarrow> str list" where
  "node_handler_errors registry refs node =
     (if \<not> list_ex (\<lambda>ref. hr_handler_name ref = gn_handler_name node) refs
      then [''Node `'' @ gn_node_id node @ ''` references unknown handler `'' @ gn_handler_name node @ ''`.'']
      else case registry (gn_handler_name node) of
             None \<Rightarrow> [''Handler `'' @ gn_handler_name node @ ''` is not present in the registry.'']
           | Some kind \<Rightarrow>
               if kind \<noteq> gn_handler_kind node
               then [''Handler `'' @ gn_handler_name node @ ''` kind mismatch for node `'' @ gn_node_id node @ ''`.'']
               else [])"

fun index_nodes ::
  "(str \<Rightarrow> handler_kind option) \<Rightarrow> RouteHandlerRef list \<Rightarrow> GraphNodeConfig list \<Rightarrow>
   (str \<times> GraphNodeConfig) list \<Rightarrow> str list \<times> (str \<times> GraphNodeConfig) list" where
  "index_nodes registry refs [] index = ([], index)"
| "index_nodes registry refs (node # nodes) index =
     (if dict_has index (gn_node_id node)
      then (let (errs, index') = index_nodes registry refs nodes index
            in ((''Duplicate node id `'' @ gn_node_id node @ ''`.'') # errs, index'))
      else (let (errs, index') = index_nodes registry refs nodes (dict_set (gn_node_id node) node index)
            in (node_handler_errors registry refs node @ errs, index')))"

definition edge_errors :: "(str \<times> GraphNodeConfig) list \<Rightarrow> GraphEdgeConfig \<Rightarrow> str list" where
  "edge_errors index e =
     (if ge_source e \<noteq> START_NODE \<and> \<not> dict_has index (ge_source e)
      then [''Edge source `'' @ ge_source e @ ''` is not defined in the graph.''] else []) @
     (if ge_target e \<noteq> END_NODE \<and> \<not> dict_has index (ge_target e)
      then [''Edge target `'' @ ge_target e @ ''` is not defined in the graph.''] else [])"

definition adjacency :: "GraphEdgeConfig list \<Rightarrow> str \<Rightarrow> str list" where
  "adjacency edges n = map ge_target (filter (\<lambda>e. ge_source e = n) edges)"

section \<open>Paths to a target\<close>

text \<open>The nested function \<open>walk\<close>: depth first, over simple paths, stopping at the target.\<close>

function walk :: "GraphEdgeConfig list \<Rightarrow> str \<Rightarrow> str \<Rightarrow> str list \<Rightarrow> str list list" where
  "walk edges target current path =
     (if current = target then [path]
      else concat (map (\<lambda>n. walk edges target n (path @ [n]))
             (filter (\<lambda>n. n \<noteq> END_NODE \<and> n \<notin> set path) (adjacency edges current))))"
  by auto

termination
proof (relation "measure (\<lambda>(edges, target, current, path). card (ge_target ` set edges - set path))")
  show "wf (measure (\<lambda>(edges :: GraphEdgeConfig list, target :: str, current :: str, path).
      card (ge_target ` set edges - set path)))" by simp
next
  fix edges :: "GraphEdgeConfig list" and target current :: str and path n
  assume "n \<in> set (filter (\<lambda>n. n \<noteq> END_NODE \<and> n \<notin> set path) (adjacency edges current))"
  then have "n \<in> ge_target ` set edges - set path" by (auto simp: adjacency_def)
  then have "ge_target ` set edges - set (path @ [n]) \<subset> ge_target ` set edges - set path" by auto
  then show "((edges, target, n, path @ [n]), edges, target, current, path)
      \<in> measure (\<lambda>(edges, target, current, path). card (ge_target ` set edges - set path))"
    by (simp add: psubset_card_mono)
qed

declare walk.simps [simp del]

definition paths_to_target :: "GraphEdgeConfig list \<Rightarrow> str \<Rightarrow> str list list" where
  "paths_to_target edges target = walk edges target START_NODE []"

section \<open>Protected profile\<close>

definition system_node_errors :: "(str \<times> GraphNodeConfig) list \<Rightarrow> str \<Rightarrow> str list" where
  "system_node_errors index node_id =
     (case dict_get index node_id of
        None \<Rightarrow> [''Protected profile is missing required node `'' @ node_id @ ''`.'']
      | Some node \<Rightarrow>
          if gn_handler_kind node \<noteq> System \<or> gn_handler_name node \<noteq> node_id
          then [''Protected node `'' @ node_id @ ''` must remain bound to its system handler.'']
          else [])"

definition path_missing_errors :: "str list \<Rightarrow> str list" where
  "path_missing_errors path =
     map (\<lambda>r. ''PR-reaching path is missing required node `'' @ r @ ''`.'')
       (filter (\<lambda>r. r \<notin> set path) REQUIRED_PR_PATH_NODES)"

definition path_approval_errors :: "(str \<times> GraphNodeConfig) list \<Rightarrow> str list \<Rightarrow> str list" where
  "path_approval_errors index path =
     concat (map (\<lambda>n. if gn_is_human_approval (the (dict_get index n))
       then [''Manual approval cannot appear on the normal PR-reaching path.''] else []) path)"

text \<open>\<open>path.index\<close> of an element that is present.\<close>

definition list_index :: "str list \<Rightarrow> str \<Rightarrow> nat" where
  "list_index xs x = length (takeWhile (\<lambda>y. y \<noteq> x) xs)"

definition path_violations :: "(str \<times> GraphNodeConfig) list \<Rightarrow> str list \<Rightarrow> str list" where
  "path_violations index path =
     concat (map (\<lambda>n. if gn_writes_repo (the (dict_get index n)) \<and>
         (''readiness_gate'' \<notin> set path \<or> list_index path n < list_index path ''readiness_gate'')
       then [''Repo-writing node `'' @ n @ ''` is reachable before `readiness_gate`.''] else []) path)"

lemma concat_if_Nil:
  "concat (map (\<lambda>n. if P n then [f n] else []) xs) = [] \<longleftrightarrow> (\<forall>n \<in> set xs. \<not> P n)"
  by (induction xs) auto

lemma path_approval_Nil:
  "path_approval_errors index path = [] \<longleftrightarrow>
     (\<forall>n \<in> set path. \<not> gn_is_human_approval (the (dict_get index n)))"
  unfolding path_approval_errors_def by (rule concat_if_Nil)

lemma path_violations_Nil:
  "path_violations index path = [] \<longleftrightarrow>
     (\<forall>n \<in> set path. \<not> (gn_writes_repo (the (dict_get index n)) \<and>
        (''readiness_gate'' \<notin> set path \<or> list_index path n < list_index path ''readiness_gate'')))"
  unfolding path_violations_def by (rule concat_if_Nil)

section \<open>Escalation edges\<close>

definition edge_reason_errors :: "GraphEdgeConfig \<Rightarrow> str list" where
  "edge_reason_errors e =
     (if (ge_transition e = Tr_escalate \<or> ge_transition e = Tr_terminal) \<and> ge_escalation_reason e = None
      then [''Edge `'' @ ge_source e @ ''->'' @ ge_target e @ ''` must declare an escalation reason.'']
      else [])"

definition edge_missing_sinks :: "str list \<Rightarrow> GraphEdgeConfig \<Rightarrow> str list" where
  "edge_missing_sinks sinks e =
     (if ge_transition e = Tr_escalate \<or> ge_transition e = Tr_terminal
      then (case ge_escalation_reason e of
              None \<Rightarrow> [] | Some r \<Rightarrow> if r \<notin> set sinks then [r] else [])
      else [])"

section \<open>The validator\<close>

definition sorted_set :: "str list \<Rightarrow> str list" where
  "sorted_set xs = sort (remdups xs)"

definition validate_graph ::
  "(str \<Rightarrow> handler_kind option) \<Rightarrow> str list \<Rightarrow> GraphConfigVersion \<Rightarrow> GraphValidationResult" where
  "validate_graph registry registered_escalation_sinks config =
     (let (node_errs, index) =
            index_nodes registry (gc_route_handlers config) (gc_graph_nodes config) [];
          edges = gc_graph_edges config;
          compile_errors = node_errs @ concat (map (edge_errors index) edges)
      in if compile_errors \<noteq> []
         then \<lparr>gv_compiles = False, gv_invariant_errors = compile_errors,
               gv_missing_escalation_sinks = [], gv_protected_path_violations = []\<rparr>
         else
           let pr_paths = paths_to_target edges ''pr_creator'';
               invariant_errors =
                 concat (map (system_node_errors index) REQUIRED_SYSTEM_NODES) @
                 (if pr_paths = [] then [''No success path reaches `pr_creator`.''] else []) @
                 concat (map (\<lambda>p. path_missing_errors p @ path_approval_errors index p) pr_paths) @
                 concat (map edge_reason_errors edges)
           in \<lparr>gv_compiles = True, gv_invariant_errors = sorted_set invariant_errors,
               gv_missing_escalation_sinks =
                 sorted_set (concat (map (edge_missing_sinks registered_escalation_sinks) edges)),
               gv_protected_path_violations =
                 sorted_set (concat (map (path_violations index) pr_paths))\<rparr>)"

definition accepted :: "GraphValidationResult \<Rightarrow> bool" where
  "accepted r \<longleftrightarrow> gv_compiles r \<and> gv_invariant_errors r = [] \<and>
     gv_missing_escalation_sinks r = [] \<and> gv_protected_path_violations r = []"

lemma sorted_set_Nil [simp]: "sorted_set xs = [] \<longleftrightarrow> xs = []"
proof -
  have "set (sorted_set xs) = set xs" by (simp add: sorted_set_def)
  then show ?thesis by (metis set_empty)
qed

lemma accepted_graphE:
  assumes "accepted (validate_graph registry sinks config)"
  obtains index where
    "index_nodes registry (gc_route_handlers config) (gc_graph_nodes config) [] = ([], index)"
    "\<forall>e \<in> set (gc_graph_edges config). edge_errors index e = [] \<and> edge_reason_errors e = [] \<and>
       edge_missing_sinks sinks e = []"
    "\<forall>n \<in> set REQUIRED_SYSTEM_NODES. system_node_errors index n = []"
    "paths_to_target (gc_graph_edges config) ''pr_creator'' \<noteq> []"
    "\<forall>p \<in> set (paths_to_target (gc_graph_edges config) ''pr_creator'').
       path_missing_errors p = [] \<and> path_approval_errors index p = [] \<and> path_violations index p = []"
proof -
  obtain errs index where i: "index_nodes registry (gc_route_handlers config) (gc_graph_nodes config) [] = (errs, index)"
    by fastforce
  let ?ce = "errs @ concat (map (edge_errors index) (gc_graph_edges config))"
  have ce: "?ce = []"
  proof (rule ccontr)
    assume "?ce \<noteq> []"
    then show False using assms i by (simp only: validate_graph_def accepted_def Let_def prod.case if_True) simp
  qed
  note v = assms[unfolded validate_graph_def i Let_def prod.case ce accepted_def]
  show thesis
  proof (rule that[of index])
    show "index_nodes registry (gc_route_handlers config) (gc_graph_nodes config) [] = ([], index)"
      using i ce by simp
    show "paths_to_target (gc_graph_edges config) ''pr_creator'' \<noteq> []"
      using v by (auto split: if_splits)
  qed (use v ce in \<open>simp_all\<close>)
qed

section \<open>What the enumeration computes\<close>

definition edge :: "GraphEdgeConfig list \<Rightarrow> str \<Rightarrow> str \<Rightarrow> bool" where
  "edge edges a b \<longleftrightarrow> b \<in> set (adjacency edges a)"

text \<open>A route: consecutive edges from a node, never through \<open>END\<close>.\<close>

definition route :: "GraphEdgeConfig list \<Rightarrow> str \<Rightarrow> str list \<Rightarrow> bool" where
  "route edges a q \<longleftrightarrow> successively (edge edges) (a # q) \<and> END_NODE \<notin> set q"

lemma route_Nil [simp]: "route edges a []"
  by (simp add: route_def)

lemma route_Cons [simp]:
  "route edges a (b # q) \<longleftrightarrow> edge edges a b \<and> b \<noteq> END_NODE \<and> route edges b q"
  by (auto simp: route_def)

lemma walk_sound:
  "p \<in> set (walk edges t c path) \<Longrightarrow> \<exists>q. p = path @ q \<and> route edges c q \<and> last (c # q) = t"
proof (induction edges t c path arbitrary: p rule: walk.induct)
  case (1 edges t c path)
  show ?case
  proof (cases "c = t")
    case True
    with "1.prems" have "p = path" by (simp add: walk.simps)
    with True show ?thesis by (intro exI[of _ "[]"]) simp
  next
    case False
    with "1.prems" obtain n where n: "n \<in> set (adjacency edges c)" "n \<noteq> END_NODE" "n \<notin> set path"
      and p: "p \<in> set (walk edges t n (path @ [n]))"
      by (auto simp: walk.simps[of _ _ c])
    from "1.IH"[OF False _ p] n obtain q where "p = path @ [n] @ q" "route edges n q" "last (n # q) = t"
      by auto
    with n show ?thesis by (intro exI[of _ "n # q"]) (auto simp: edge_def)
  qed
qed

lemma walk_complete:
  "route edges c q \<Longrightarrow> last (c # q) = t \<Longrightarrow> t \<notin> set (butlast (c # q)) \<Longrightarrow> distinct q \<Longrightarrow>
   set q \<inter> set path = {} \<Longrightarrow> path @ q \<in> set (walk edges t c path)"
proof (induction q arbitrary: c path)
  case Nil
  then show ?case by (simp add: walk.simps)
next
  case (Cons n q)
  have "path @ [n] @ q \<in> set (walk edges t n (path @ [n]))"
    using Cons.prems Cons.IH[of n "path @ [n]"] by (auto split: if_splits)
  moreover have "c \<noteq> t" using Cons.prems by auto
  ultimately show ?case
    using Cons.prems by (subst walk.simps) (auto simp: edge_def)
qed

text \<open>Every route to the target contains a simple one that the enumeration finds.\<close>

lemma simple_route:
  "route edges c q \<Longrightarrow> last (c # q) = t \<Longrightarrow>
   \<exists>q'. route edges c q' \<and> last (c # q') = t \<and> distinct (c # q') \<and> set q' \<subseteq> set q"
proof (induction q arbitrary: c)
  case Nil
  then show ?case by (intro exI[of _ "[]"]) simp
next
  case (Cons n q)
  then have e: "edge edges c n" "n \<noteq> END_NODE" by auto
  from Cons.IH[of n] Cons.prems obtain q2 where q2: "route edges n q2" "last (n # q2) = t"
    "distinct (n # q2)" "set q2 \<subseteq> set q" by auto
  show ?case
  proof (cases "c \<in> set (n # q2)")
    case False
    with q2 e show ?thesis by (intro exI[of _ "n # q2"]) auto
  next
    case True
    then obtain xs ys where split: "n # q2 = xs @ c # ys" by (meson split_list)
    have "successively (edge edges) (c # n # q2)" "END_NODE \<notin> set (n # q2)"
      using q2(1) e by (auto simp: route_def)
    then have "route edges c ys"
      unfolding split route_def by (auto simp: successively_append_iff successively_Cons)
    moreover have "last (c # ys) = t" "distinct (c # ys)" "set ys \<subseteq> set (n # q2)"
      using q2(2,3) unfolding split by auto
    ultimately show ?thesis using q2(4) by (intro exI[of _ ys]) auto
  qed
qed

lemma last_not_in_butlast: "distinct xs \<Longrightarrow> last xs \<notin> set (butlast xs) \<or> xs = []"
  by (induction xs rule: rev_induct) auto

lemma route_has_path:
  assumes "route edges START_NODE q" "last (START_NODE # q) = t"
  shows "\<exists>p \<in> set (paths_to_target edges t). set p \<subseteq> set q"
proof -
  from simple_route[OF assms] obtain q' where q': "route edges START_NODE q'"
    "last (START_NODE # q') = t" "distinct (START_NODE # q')" "set q' \<subseteq> set q" by blast
  have "t \<notin> set (butlast (START_NODE # q'))" using last_not_in_butlast[OF q'(3)] q'(2) by auto
  with walk_complete[OF q'(1,2), of "[]"] q'(3,4) show ?thesis
    by (auto simp: paths_to_target_def)
qed

section \<open>Theorems\<close>

text \<open>C7 (no bypass of the gates). When the validator accepts a configuration, every route of the
  graph from the start to \<open>pr_creator\<close>, with any number of retries and loops, passes through
  the readiness gate, the coder, the tester, the reviewer and the pre-PR sync; and at least one
  such route exists.\<close>

theorem accepted_routes_pass_gates:
  assumes "accepted (validate_graph registry sinks config)"
  shows "(\<forall>q. route (gc_graph_edges config) START_NODE q \<and> last (START_NODE # q) = ''pr_creator'' \<longrightarrow>
      set REQUIRED_PR_PATH_NODES \<subseteq> set q) \<and>
    (\<exists>q. route (gc_graph_edges config) START_NODE q \<and> last (START_NODE # q) = ''pr_creator'')"
proof -
  let ?edges = "gc_graph_edges config"
  from accepted_graphE[OF assms] have
    missing: "\<And>p. p \<in> set (paths_to_target ?edges ''pr_creator'') \<Longrightarrow> path_missing_errors p = []"
    and some: "paths_to_target ?edges ''pr_creator'' \<noteq> []" by metis+
  from some obtain p where p: "p \<in> set (paths_to_target ?edges ''pr_creator'')" by (metis last_in_set)
  from walk_sound[OF p[unfolded paths_to_target_def]]
  have "\<exists>q. route ?edges START_NODE q \<and> last (START_NODE # q) = ''pr_creator''" by blast
  moreover have "set REQUIRED_PR_PATH_NODES \<subseteq> set q"
    if "route ?edges START_NODE q" "last (START_NODE # q) = ''pr_creator''" for q
  proof -
    from route_has_path[OF that] obtain p where p: "p \<in> set (paths_to_target ?edges ''pr_creator'')" "set p \<subseteq> set q"
      by blast
    from missing[OF p(1)] have "\<forall>r \<in> set REQUIRED_PR_PATH_NODES. r \<in> set p"
      by (simp add: path_missing_errors_def filter_empty_conv)
    with p(2) show ?thesis by blast
  qed
  ultimately show ?thesis by blast
qed

definition system_node :: "str \<Rightarrow> GraphNodeConfig" where
  "system_node n = \<lparr>gn_node_id = n, gn_handler_name = n, gn_handler_kind = System,
     gn_writes_repo = (n = ''coder''), gn_is_human_approval = False, gn_terminal = False\<rparr>"

definition success_edge :: "str \<Rightarrow> str \<Rightarrow> GraphEdgeConfig" where
  "success_edge a b = \<lparr>ge_source = a, ge_target = b, ge_transition = Tr_success,
     ge_escalation_reason = None\<rparr>"

definition standard_edges :: "GraphEdgeConfig list" where
  "standard_edges =
     map (\<lambda>(a, b). success_edge a b)
       (zip (''START'' # butlast (butlast REQUIRED_SYSTEM_NODES)) (butlast REQUIRED_SYSTEM_NODES)) @
     [success_edge ''tester'' ''coder'', success_edge ''reviewer'' ''coder'']"

definition config_of :: "GraphNodeConfig list \<Rightarrow> GraphEdgeConfig list \<Rightarrow> GraphConfigVersion" where
  "config_of nodes edges =
     \<lparr>gc_config_version_id = ''v'', gc_profile_id = ''p'', gc_graph_nodes = nodes,
      gc_graph_edges = edges,
      gc_route_handlers = map (\<lambda>n. \<lparr>hr_handler_name = gn_handler_name n, hr_handler_version = ''1'',
                                   hr_handler_kind = gn_handler_kind n\<rparr>) nodes,
      gc_created_by = ''a'', gc_created_at = 0\<rparr>"

definition standard_config :: GraphConfigVersion where
  "standard_config = config_of (map system_node REQUIRED_SYSTEM_NODES) standard_edges"

definition witness_registry :: "str \<Rightarrow> handler_kind option" where
  "witness_registry n = (if n = ''scratch'' then Some Tenant_configurable else Some System)"

lemma standard_config_accepted: "accepted (validate_graph witness_registry [] standard_config)"
  by code_simp

lemma accepted_routes_pass_gates_witness:
  "\<exists>q. route standard_edges START_NODE q \<and> last (START_NODE # q) = ''pr_creator''"
  using accepted_routes_pass_gates[OF standard_config_accepted]
  by (simp add: standard_config_def config_of_def)

text \<open>Repository writes come after the gate on simple routes. When the validator accepts a
  configuration, on every route from the start to \<open>pr_creator\<close> that visits no node twice, a node
  that writes the repository is visited at or after the readiness gate, and no node is a human
  approval.\<close>

theorem accepted_simple_routes_guarded:
  assumes "accepted (validate_graph registry sinks config)"
    and "route (gc_graph_edges config) START_NODE q" "last (START_NODE # q) = ''pr_creator''"
    and "distinct (START_NODE # q)" "n \<in> set q"
    and "index_nodes registry (gc_route_handlers config) (gc_graph_nodes config) [] = (errs, index)"
  shows "\<not> gn_is_human_approval (the (dict_get index n)) \<and>
    (gn_writes_repo (the (dict_get index n)) \<longrightarrow>
      ''readiness_gate'' \<in> set q \<and> list_index q ''readiness_gate'' \<le> list_index q n)"
proof -
  have "''pr_creator'' \<notin> set (butlast (START_NODE # q))"
    using last_not_in_butlast[OF assms(4)] assms(3) by auto
  with walk_complete[OF assms(2,3), of "[]"] assms(4)
  have p: "q \<in> set (paths_to_target (gc_graph_edges config) ''pr_creator'')"
    by (simp add: paths_to_target_def)
  from accepted_graphE[OF assms(1)] p assms(6) have "path_approval_errors index q = []" "path_violations index q = []"
    by (metis Pair_inject)+
  with assms(5) show ?thesis
    unfolding path_approval_Nil path_violations_Nil by (simp add: not_less)
qed

definition standard_route :: "str list" where
  "standard_route = butlast REQUIRED_SYSTEM_NODES"

lemma accepted_simple_routes_guarded_witness:
  "list_index standard_route ''readiness_gate'' \<le> list_index standard_route ''coder''"
proof -
  obtain errs index where i: "index_nodes witness_registry (gc_route_handlers standard_config)
      (gc_graph_nodes standard_config) [] = (errs, index)" by fastforce
  have "gn_writes_repo (the (dict_get (snd (index_nodes witness_registry (gc_route_handlers standard_config)
      (gc_graph_nodes standard_config) [])) ''coder''))" by code_simp
  then have w: "gn_writes_repo (the (dict_get index ''coder''))" by (simp add: i)
  have "route (gc_graph_edges standard_config) START_NODE standard_route"
    "last (START_NODE # standard_route) = ''pr_creator''" "distinct (START_NODE # standard_route)"
    "''coder'' \<in> set standard_route" by code_simp+
  from accepted_simple_routes_guarded[OF standard_config_accepted this i] w show ?thesis by simp
qed

definition gap_config :: GraphConfigVersion where
  "gap_config = config_of
     (map system_node REQUIRED_SYSTEM_NODES @
      [(system_node ''scratch'')\<lparr>gn_handler_kind := Tenant_configurable, gn_writes_repo := True\<rparr>])
     (standard_edges @ [success_edge ''clarify'' ''scratch'', success_edge ''scratch'' ''clarify''])"

definition gap_route :: "str list" where
  "gap_route = [''load_constitution'', ''create_feature_spec'', ''clarify'', ''scratch'', ''clarify'',
     ''create_plan'', ''create_task_list'', ''readiness_gate'', ''coder'', ''tester'', ''reviewer'',
     ''pre_pr_sync'', ''pr_creator'']"

text \<open>Repository writes on a loop are not seen. The enumeration follows simple paths only: a
  configuration in which the clarification loops through a tenant node that writes the
  repository is accepted without a violation, although a run can reach \<open>pr_creator\<close> having
  visited that node before the readiness gate.\<close>

theorem loop_hides_repo_write:
  "accepted (validate_graph witness_registry [] gap_config) \<and>
   route (gc_graph_edges gap_config) START_NODE gap_route \<and> last gap_route = ''pr_creator'' \<and>
   ''scratch'' \<in> set gap_route \<and>
   list_index gap_route ''scratch'' < list_index gap_route ''readiness_gate'' \<and>
   gn_writes_repo (last (gc_graph_nodes gap_config)) \<and>
   gn_node_id (last (gc_graph_nodes gap_config)) = ''scratch''"
  by code_simp

end
