(* ===== verification/Budget.thy ===== *)
theory Budget
  imports Catalog
begin

text \<open>
  Budget ledger: the models of \<open>backend/governance/budget.py\<close> and \<open>PostgresBudgetLedger\<close> of
  \<open>backend/persistence/governance.py\<close>. Reservations are admitted by one Lua script on three Redis
  counters (cents left per ticket, team and day, team and month); PostgreSQL holds the caps,
  reservations, charges and denials, from which counters are reconciled. An operation keeps
  what it committed before it raised, so its result pairs the outcome with the state left
  behind. The clock does not advance during one operation; Redis either answers all calls of
  an operation or none; \<open>updated_at\<close> columns and telemetry are not modelled.
\<close>

section \<open>Models\<close>

record BudgetContext =
  bx_tenant_id :: str
  bx_team_id :: str
  bx_run_id :: str
  bx_ticket_key :: str
  bx_role :: RuntimeRole

record BudgetCaps =
  cap_ticket_cap_usd :: decimal
  cap_daily_team_cap_usd :: decimal
  cap_monthly_team_cap_usd :: decimal

record BudgetReservation =
  bv_reservation_id :: str
  bv_reserved_amount_usd :: decimal
  bv_ticket_cap_remaining_usd :: decimal
  bv_daily_team_cap_remaining_usd :: decimal
  bv_monthly_team_cap_remaining_usd :: decimal

record BudgetBalance =
  bb_ticket_remaining_usd :: decimal
  bb_daily_team_remaining_usd :: decimal
  bb_monthly_team_remaining_usd :: decimal

section \<open>Tables and counters\<close>

datatype ReservationStatus = Active | Settled | Released

record CapRow =
  cp_context :: BudgetContext
  cp_caps :: BudgetCaps

record ReservationRow =
  rv_reservation_id :: str
  rv_context :: BudgetContext
  rv_reserved_amount_usd :: decimal
  rv_caps :: BudgetCaps
  rv_remaining :: "decimal \<times> decimal \<times> decimal"
  rv_status :: ReservationStatus
  rv_release_reason :: "str option"
  rv_released_amount_usd :: "decimal option"
  rv_created_at :: datetime

record ChargeRow =
  ch_reservation_id :: str
  ch_tenant_id :: str
  ch_team_id :: str
  ch_run_id :: str
  ch_estimated_cost_usd :: decimal
  ch_actual_cost_usd :: decimal
  ch_refunded_amount_usd :: decimal
  ch_created_at :: datetime

record DenialRow =
  dn_context :: BudgetContext
  dn_requested_amount_usd :: decimal
  dn_caps :: BudgetCaps
  dn_denial_reason :: str
  dn_evidence_summary :: str

record BudgetState =
  bs_caps :: "CapRow list"
  bs_reservations :: "ReservationRow list"
  bs_charges :: "ChargeRow list"
  bs_denials :: "DenialRow list"
  bs_redis :: "(str \<times> int) list"
  bs_redis_up :: bool

text \<open>What one operation draws from outside: the clock, a fresh identifier, and whether the role
  of the connection is exempt from row level security.\<close>

record BudgetEnv =
  be_now :: datetime
  be_uuid :: str
  be_bypass :: bool

section \<open>Conversions and keys\<close>

definition usd_to_cents :: "decimal \<Rightarrow> int" where
  "usd_to_cents amount = round_half_up (amount * 100)"

definition cents_to_usd :: "int \<Rightarrow> decimal" where
  "cents_to_usd cents = of_int cents / 100"

definition usd_str :: "int \<Rightarrow> str" where
  "usd_str cents = (if cents < 0 then ''-'' else []) @ str_of_int (\<bar>cents\<bar> div 100) @ ''.'' @ pad2 (\<bar>cents\<bar> mod 100)"

definition ticket_counter :: "str \<Rightarrow> str" where
  "ticket_counter run_id = ''budget:ticket:'' @ run_id"

definition daily_counter :: "str \<Rightarrow> str \<Rightarrow> datetime \<Rightarrow> str" where
  "daily_counter tenant_id team_id now =
     ''budget:team:daily:'' @ tenant_id @ '':'' @ team_id @ '':'' @ strftime_ymd now"

definition monthly_counter :: "str \<Rightarrow> str \<Rightarrow> datetime \<Rightarrow> str" where
  "monthly_counter tenant_id team_id now =
     ''budget:team:monthly:'' @ tenant_id @ '':'' @ team_id @ '':'' @ strftime_ym now"

definition counter_keys :: "BudgetContext \<Rightarrow> datetime \<Rightarrow> str \<times> str \<times> str" where
  "counter_keys ctx now =
     (ticket_counter (bx_run_id ctx), daily_counter (bx_tenant_id ctx) (bx_team_id ctx) now,
      monthly_counter (bx_tenant_id ctx) (bx_team_id ctx) now)"

definition scope_of :: "BudgetContext \<Rightarrow> scope" where
  "scope_of ctx = Some (bx_tenant_id ctx, bx_team_id ctx)"

definition visible_ctx :: "BudgetEnv \<Rightarrow> scope \<Rightarrow> BudgetContext \<Rightarrow> bool" where
  "visible_ctx env sc ctx = row_visible (be_bypass env) sc (bx_tenant_id ctx) (bx_team_id ctx)"

section \<open>Reading PostgreSQL\<close>

definition caps_fit :: "BudgetCaps \<Rightarrow> bool" where
  "caps_fit c \<longleftrightarrow> fits_14_6 (cap_ticket_cap_usd c) \<and> fits_14_6 (cap_daily_team_cap_usd c) \<and>
     fits_14_6 (cap_monthly_team_cap_usd c)"

definition num6_caps :: "BudgetCaps \<Rightarrow> BudgetCaps" where
  "num6_caps c =
     \<lparr>cap_ticket_cap_usd = num6 (cap_ticket_cap_usd c),
      cap_daily_team_cap_usd = num6 (cap_daily_team_cap_usd c),
      cap_monthly_team_cap_usd = num6 (cap_monthly_team_cap_usd c)\<rparr>"

definition load_caps :: "BudgetEnv \<Rightarrow> BudgetContext \<Rightarrow> BudgetState \<Rightarrow> BudgetCaps result" where
  "load_caps env ctx st =
     (case find (\<lambda>r. visible_ctx env (scope_of ctx) (cp_context r) \<and>
                     bx_run_id (cp_context r) = bx_run_id ctx) (bs_caps st) of
        None \<Rightarrow> Inl (ValueError (''Budget caps were not configured for run `'' @ bx_run_id ctx @ ''`.''))
      | Some row \<Rightarrow> Inr (cp_caps row))"

definition sum_where :: "('r \<Rightarrow> bool) \<Rightarrow> ('r \<Rightarrow> decimal) \<Rightarrow> 'r list \<Rightarrow> decimal" where
  "sum_where P f rows = sum_list (map f (filter P rows))"

definition team_match :: "BudgetContext \<Rightarrow> str \<Rightarrow> str \<Rightarrow> bool" where
  "team_match ctx tenant_id team_id \<longleftrightarrow> tenant_id = bx_tenant_id ctx \<and> team_id = bx_team_id ctx"

definition active_since :: "BudgetEnv \<Rightarrow> BudgetContext \<Rightarrow> datetime \<Rightarrow> BudgetState \<Rightarrow> decimal" where
  "active_since env ctx since st =
     sum_where (\<lambda>r. visible_ctx env (scope_of ctx) (rv_context r) \<and>
         team_match ctx (bx_tenant_id (rv_context r)) (bx_team_id (rv_context r)) \<and>
         rv_status r = Active \<and> rv_created_at r \<ge> since)
       rv_reserved_amount_usd (bs_reservations st)"

definition charged_since :: "BudgetEnv \<Rightarrow> BudgetContext \<Rightarrow> datetime \<Rightarrow> BudgetState \<Rightarrow> decimal" where
  "charged_since env ctx since st =
     sum_where (\<lambda>c. row_visible (be_bypass env) (scope_of ctx) (ch_tenant_id c) (ch_team_id c) \<and>
         team_match ctx (ch_tenant_id c) (ch_team_id c) \<and> ch_created_at c \<ge> since)
       ch_actual_cost_usd (bs_charges st)"

definition ticket_active :: "BudgetEnv \<Rightarrow> BudgetContext \<Rightarrow> BudgetState \<Rightarrow> decimal" where
  "ticket_active env ctx st =
     sum_where (\<lambda>r. visible_ctx env (scope_of ctx) (rv_context r) \<and>
         bx_run_id (rv_context r) = bx_run_id ctx \<and> rv_status r = Active)
       rv_reserved_amount_usd (bs_reservations st)"

definition ticket_charged :: "BudgetEnv \<Rightarrow> BudgetContext \<Rightarrow> BudgetState \<Rightarrow> decimal" where
  "ticket_charged env ctx st =
     sum_where (\<lambda>c. row_visible (be_bypass env) (scope_of ctx) (ch_tenant_id c) (ch_team_id c) \<and>
         ch_run_id c = bx_run_id ctx)
       ch_actual_cost_usd (bs_charges st)"

definition remaining_from_postgres ::
  "BudgetEnv \<Rightarrow> BudgetContext \<Rightarrow> BudgetCaps \<Rightarrow> BudgetState \<Rightarrow> BudgetBalance" where
  "remaining_from_postgres env ctx caps st =
     (let day_start = day_start_of (be_now env); month_start = month_start_of (be_now env)
      in \<lparr>bb_ticket_remaining_usd =
            max 0 (cap_ticket_cap_usd caps - ticket_active env ctx st - ticket_charged env ctx st),
          bb_daily_team_remaining_usd =
            max 0 (cap_daily_team_cap_usd caps - active_since env ctx day_start st
                   - charged_since env ctx day_start st),
          bb_monthly_team_remaining_usd =
            max 0 (cap_monthly_team_cap_usd caps - active_since env ctx month_start st
                   - charged_since env ctx month_start st)\<rparr>)"

section \<open>Counters\<close>

definition reconcile :: "BudgetEnv \<Rightarrow> BudgetContext \<Rightarrow> (BudgetState, BudgetBalance) operation" where
  "reconcile env ctx st =
     (case load_caps env ctx st of
        Inl e \<Rightarrow> (Inl e, st)
      | Inr caps \<Rightarrow>
          let remaining = remaining_from_postgres env ctx caps st;
              (ticket_key, daily_key, monthly_key) = counter_keys ctx (be_now env)
          in if \<not> bs_redis_up st then (Inl RedisError, st)
             else (Inr remaining, st\<lparr>bs_redis :=
               dict_set monthly_key (usd_to_cents (bb_monthly_team_remaining_usd remaining))
                 (dict_set daily_key (usd_to_cents (bb_daily_team_remaining_usd remaining))
                   (dict_set ticket_key (usd_to_cents (bb_ticket_remaining_usd remaining))
                     (bs_redis st)))\<rparr>))"

definition ensure_counters :: "BudgetEnv \<Rightarrow> BudgetContext \<Rightarrow> (BudgetState, unit) operation" where
  "ensure_counters env ctx st =
     (let (k1, k2, k3) = counter_keys ctx (be_now env)
      in if \<not> bs_redis_up st then (Inl RedisError, st)
         else if list_ex (\<lambda>k. dict_get (bs_redis st) k = None) [k1, k2, k3]
         then op_bind (reconcile env ctx) (\<lambda>_ st. (Inr (), st)) st
         else (Inr (), st))"

definition RESERVATION_SCRIPT ::
  "str \<times> str \<times> str \<Rightarrow> int \<Rightarrow> (str \<times> int) list \<Rightarrow> (int \<times> int \<times> int \<times> int) \<times> (str \<times> int) list" where
  "RESERVATION_SCRIPT keys amount redis =
     (case keys of (k1, k2, k3) \<Rightarrow>
        case (dict_get redis k1, dict_get redis k2, dict_get redis k3) of
          (Some ticket, Some daily, Some monthly) \<Rightarrow>
            if ticket < amount \<or> daily < amount \<or> monthly < amount
            then ((0, ticket, daily, monthly), redis)
            else ((1, ticket - amount, daily - amount, monthly - amount),
                  dict_set k3 (monthly - amount) (dict_set k2 (daily - amount)
                    (dict_set k1 (ticket - amount) redis)))
        | _ \<Rightarrow> ((-1, -1, -1, -1), redis))"

definition eval_reservation ::
  "BudgetEnv \<Rightarrow> BudgetContext \<Rightarrow> int \<Rightarrow> (BudgetState, int \<times> int \<times> int \<times> int) operation" where
  "eval_reservation env ctx cents st =
     (if \<not> bs_redis_up st then (Inl RedisError, st)
      else let (res, redis) = RESERVATION_SCRIPT (counter_keys ctx (be_now env)) cents (bs_redis st)
           in (Inr res, st\<lparr>bs_redis := redis\<rparr>))"

definition reserve_cents ::
  "BudgetEnv \<Rightarrow> BudgetContext \<Rightarrow> int \<Rightarrow> (BudgetState, int \<times> int \<times> int \<times> int) operation" where
  "reserve_cents env ctx cents =
     op_bind (eval_reservation env ctx cents) (\<lambda>res.
       if fst res = -1
       then op_bind (reconcile env ctx) (\<lambda>_. eval_reservation env ctx cents)
       else (\<lambda>st. (Inr res, st)))"

definition credit_counters :: "BudgetEnv \<Rightarrow> BudgetContext \<Rightarrow> int \<Rightarrow> BudgetState \<Rightarrow> BudgetState" where
  "credit_counters env ctx cents st =
     (if cents \<le> 0 \<or> \<not> bs_redis_up st then st
      else let (k1, k2, k3) = counter_keys ctx (be_now env);
               incrby = (\<lambda>k d. dict_set k (dict_getd d k 0 + cents) d)
           in st\<lparr>bs_redis := incrby k3 (incrby k2 (incrby k1 (bs_redis st)))\<rparr>)"

section \<open>Operations\<close>

definition insert_caps :: "BudgetEnv \<Rightarrow> CapRow \<Rightarrow> (BudgetState, unit) operation" where
  "insert_caps env row st =
     (let sc = scope_of (cp_context row); run_id = bx_run_id (cp_context row)
      in if \<not> caps_fit (cp_caps row) then (Inl numeric_overflow, st)
         else if \<not> visible_ctx env sc (cp_context row) then (Inl rls_violation, st)
         else if list_ex (\<lambda>r. bx_run_id (cp_context r) = run_id \<and> \<not> visible_ctx env sc (cp_context r)) (bs_caps st)
         then (Inl rls_violation, st)
         else (Inr (), st\<lparr>bs_caps := upsert_by (\<lambda>r. bx_run_id (cp_context r))
                 (row\<lparr>cp_caps := num6_caps (cp_caps row)\<rparr>) (bs_caps st)\<rparr>))"

definition configure_caps ::
  "BudgetEnv \<Rightarrow> BudgetContext \<Rightarrow> BudgetCaps \<Rightarrow> (BudgetState, unit) operation" where
  "configure_caps env ctx caps =
     op_bind (insert_caps env \<lparr>cp_context = ctx, cp_caps = caps\<rparr>) (\<lambda>_.
     op_bind (reconcile env ctx) (\<lambda>_ st. (Inr (), st)))"

definition insert_denial :: "BudgetEnv \<Rightarrow> DenialRow \<Rightarrow> (BudgetState, unit) operation" where
  "insert_denial env row st =
     (if \<not> fits_14_6 (dn_requested_amount_usd row) then (Inl numeric_overflow, st)
      else if \<not> visible_ctx env (scope_of (dn_context row)) (dn_context row) then (Inl rls_violation, st)
      else (Inr (), st\<lparr>bs_denials := bs_denials st @
              [row\<lparr>dn_requested_amount_usd := num6 (dn_requested_amount_usd row)\<rparr>]\<rparr>))"

definition insert_reservation :: "BudgetEnv \<Rightarrow> ReservationRow \<Rightarrow> (BudgetState, unit) operation" where
  "insert_reservation env row st =
     (if \<not> fits_14_6 (rv_reserved_amount_usd row) then (Inl numeric_overflow, st)
      else if \<not> visible_ctx env (scope_of (rv_context row)) (rv_context row) then (Inl rls_violation, st)
      else if list_ex (\<lambda>r. rv_reservation_id r = rv_reservation_id row) (bs_reservations st)
      then (Inl (IntegrityError ''budget_reservations_pkey''), st)
      else (Inr (), st\<lparr>bs_reservations := bs_reservations st @
              [row\<lparr>rv_reserved_amount_usd := num6 (rv_reserved_amount_usd row)\<rparr>]\<rparr>))"

definition denial_evidence :: "int \<Rightarrow> int \<Rightarrow> int \<Rightarrow> str" where
  "denial_evidence ticket daily monthly =
     ''ticket_remaining='' @ usd_str ticket @ '', daily_remaining='' @ usd_str daily @
     '', monthly_remaining='' @ usd_str monthly"

text \<open>The rest of \<open>reserve\<close> after the script: a denial is recorded and raised; an admitted
  reservation is inserted, and its cents are credited back when the insert raises.\<close>

definition admit_reservation ::
  "BudgetEnv \<Rightarrow> BudgetContext \<Rightarrow> decimal \<Rightarrow> BudgetCaps \<Rightarrow> int \<times> int \<times> int \<times> int \<Rightarrow>
   (BudgetState, BudgetReservation) operation" where
  "admit_reservation env ctx worst_case_cost_usd caps res =
     (case res of (success, ticket, daily, monthly) \<Rightarrow>
       if success \<noteq> 1
       then op_bind (insert_denial env
              \<lparr>dn_context = ctx, dn_requested_amount_usd = worst_case_cost_usd, dn_caps = caps,
               dn_denial_reason = ''budget_exhausted'',
               dn_evidence_summary = denial_evidence ticket daily monthly\<rparr>)
            (\<lambda>_ st. (Inl (BudgetExceededError ''budget_exhausted''), st))
       else (\<lambda>st.
         case insert_reservation env
                \<lparr>rv_reservation_id = be_uuid env, rv_context = ctx,
                 rv_reserved_amount_usd = worst_case_cost_usd, rv_caps = caps,
                 rv_remaining = (cents_to_usd ticket, cents_to_usd daily, cents_to_usd monthly),
                 rv_status = Active, rv_release_reason = None, rv_released_amount_usd = None,
                 rv_created_at = be_now env\<rparr> st of
           (Inl e, st') \<Rightarrow> (Inl e, credit_counters env ctx (usd_to_cents worst_case_cost_usd) st')
         | (Inr _, st') \<Rightarrow>
             (Inr \<lparr>bv_reservation_id = be_uuid env, bv_reserved_amount_usd = worst_case_cost_usd,
                   bv_ticket_cap_remaining_usd = cents_to_usd ticket,
                   bv_daily_team_cap_remaining_usd = cents_to_usd daily,
                   bv_monthly_team_cap_remaining_usd = cents_to_usd monthly\<rparr>, st')))"

definition reserve ::
  "BudgetEnv \<Rightarrow> BudgetContext \<Rightarrow> decimal \<Rightarrow> (BudgetState, BudgetReservation) operation" where
  "reserve env ctx worst_case_cost_usd =
     op_bind (\<lambda>st. (load_caps env ctx st, st)) (\<lambda>caps.
     op_bind (ensure_counters env ctx) (\<lambda>_.
     op_bind (reserve_cents env ctx (usd_to_cents worst_case_cost_usd))
       (admit_reservation env ctx worst_case_cost_usd caps)))"

text \<open>The row a settlement or a release may work on. Both open their transaction without setting
  the tenant scope.\<close>

definition active_reservation :: "BudgetEnv \<Rightarrow> str \<Rightarrow> BudgetState \<Rightarrow> ReservationRow result" where
  "active_reservation env reservation_id st =
     (case find (\<lambda>r. visible_ctx env None (rv_context r) \<and> rv_reservation_id r = reservation_id)
             (bs_reservations st) of
        None \<Rightarrow> Inl (KeyError (''Unknown reservation `'' @ reservation_id @ ''`.''))
      | Some row \<Rightarrow>
          if rv_status row \<noteq> Active
          then Inl (ValueError (''Reservation `'' @ reservation_id @ ''` is not active.''))
          else Inr row)"

definition close_reservation ::
  "BudgetEnv \<Rightarrow> str \<Rightarrow> ReservationStatus \<Rightarrow> str \<Rightarrow> decimal \<Rightarrow> BudgetState \<Rightarrow> BudgetState" where
  "close_reservation env reservation_id status reason released st =
     st\<lparr>bs_reservations := map (\<lambda>r.
         if rv_reservation_id r = reservation_id \<and> visible_ctx env None (rv_context r)
         then r\<lparr>rv_status := status, rv_release_reason := Some reason,
                rv_released_amount_usd := Some (num6 released)\<rparr>
         else r) (bs_reservations st)\<rparr>"

definition settle :: "BudgetEnv \<Rightarrow> str \<Rightarrow> decimal \<Rightarrow> (BudgetState, unit) operation" where
  "settle env reservation_id actual_cost_usd st =
     (case active_reservation env reservation_id st of
        Inl e \<Rightarrow> (Inl e, st)
      | Inr row \<Rightarrow>
          let reserved_amount = rv_reserved_amount_usd row; ctx = rv_context row
          in if actual_cost_usd > reserved_amount
             then (Inl (ValueError ''Actual cost exceeded the reserved worst-case estimate.''), st)
             else
               let refunded_amount = reserved_amount - actual_cost_usd;
                   charge = \<lparr>ch_reservation_id = reservation_id, ch_tenant_id = bx_tenant_id ctx,
                     ch_team_id = bx_team_id ctx, ch_run_id = bx_run_id ctx,
                     ch_estimated_cost_usd = reserved_amount, ch_actual_cost_usd = num6 actual_cost_usd,
                     ch_refunded_amount_usd = num6 refunded_amount, ch_created_at = be_now env\<rparr>
               in if \<not> fits_14_6 actual_cost_usd \<or> \<not> fits_14_6 refunded_amount
                  then (Inl numeric_overflow, st)
                  else if list_ex (\<lambda>c. ch_reservation_id c = reservation_id) (bs_charges st)
                  then (Inl (IntegrityError ''budget_charges_reservation_id_key''), st)
                  else
                    let st1 = close_reservation env reservation_id Settled ''settled'' refunded_amount
                                (st\<lparr>bs_charges := bs_charges st @ [charge]\<rparr>)
                    in (Inr (), if refunded_amount > 0
                                then credit_counters env ctx (usd_to_cents refunded_amount) st1
                                else st1))"

definition release_orphaned :: "BudgetEnv \<Rightarrow> str \<Rightarrow> str \<Rightarrow> (BudgetState, unit) operation" where
  "release_orphaned env reservation_id reason st =
     (case active_reservation env reservation_id st of
        Inl e \<Rightarrow> (Inl e, st)
      | Inr row \<Rightarrow>
          let reserved_amount = rv_reserved_amount_usd row
          in (Inr (), credit_counters env (rv_context row) (usd_to_cents reserved_amount)
                        (close_reservation env reservation_id Released reason reserved_amount st)))"

definition balance :: "BudgetEnv \<Rightarrow> BudgetContext \<Rightarrow> (BudgetState, BudgetBalance) operation" where
  "balance env ctx =
     op_bind (\<lambda>st. (load_caps env ctx st, st)) (\<lambda>caps.
     op_bind (ensure_counters env ctx) (\<lambda>_ st.
       (Inr (remaining_from_postgres env ctx caps st), st)))"

section \<open>The factory\<close>

text \<open>\<open>build_budget_ledger\<close>: the legacy mode returns the given ledger, the PostgreSQL mode needs both URLs.\<close>

definition build_budget_ledger ::
  "bool \<Rightarrow> str option \<Rightarrow> bool \<Rightarrow> 'l option \<Rightarrow> 'l \<Rightarrow> 'l result" where
  "build_budget_ledger legacy_mode database_url redis_configured legacy_ledger postgres_ledger =
     (if legacy_mode
      then (case legacy_ledger of
              None \<Rightarrow> Inl (RuntimeError ''Legacy budget-ledger mode requires an in-memory test double.'')
            | Some l \<Rightarrow> Inr l)
      else if database_url = None \<or> database_url = Some []
      then Inl (RuntimeError ''BACKEND_BUDGET_LEDGER_MODE=postgres requires a configured database URL'')
      else if \<not> redis_configured
      then Inl (RuntimeError ''BACKEND_BUDGET_LEDGER_MODE=postgres requires a configured Redis URL'')
      else Inr postgres_ledger)"

end
