(* ===== verification/BudgetCorrect.thy ===== *)
theory BudgetCorrect
  imports Budget
begin

text \<open>
  Correctness of the budget ledger: the ticket cap is never exceeded over any history of
  operations, counters never go negative, a reservation is closed at most once, and the four
  ways in which the code does not keep its promise (settlement under row level security,
  sub-cent reservations, settlement after midnight, the factory).
\<close>

section \<open>Histories\<close>

datatype budget_op =
    Configure BudgetContext BudgetCaps
  | Reserve BudgetContext decimal
  | Settle str decimal
  | Release str str
  | Balance BudgetContext
  | Reconcile BudgetContext
  | Redis_available bool
  | Redis_flush

fun budget_step :: "BudgetEnv \<Rightarrow> budget_op \<Rightarrow> BudgetState \<Rightarrow> BudgetState" where
  "budget_step env (Configure ctx caps) st = snd (configure_caps env ctx caps st)"
| "budget_step env (Reserve ctx amount) st = snd (reserve env ctx amount st)"
| "budget_step env (Settle rid actual) st = snd (settle env rid actual st)"
| "budget_step env (Release rid reason) st = snd (release_orphaned env rid reason st)"
| "budget_step env (Balance ctx) st = snd (balance env ctx st)"
| "budget_step env (Reconcile ctx) st = snd (reconcile env ctx st)"
| "budget_step env (Redis_available b) st = st\<lparr>bs_redis_up := b\<rparr>"
| "budget_step env Redis_flush st = st\<lparr>bs_redis := []\<rparr>"

fun run_budget :: "(BudgetEnv \<times> budget_op) list \<Rightarrow> BudgetState \<Rightarrow> BudgetState" where
  "run_budget [] st = st"
| "run_budget ((env, op) # ops) st = run_budget ops (budget_step env op st)"

section \<open>Operation states\<close>

text \<open>A state after \<open>reconcile\<close>: unchanged, or with the three counters set from PostgreSQL.\<close>

definition set_counters :: "BudgetEnv \<Rightarrow> BudgetContext \<Rightarrow> int \<Rightarrow> int \<Rightarrow> int \<Rightarrow> BudgetState \<Rightarrow> BudgetState" where
  "set_counters env ctx ticket daily monthly st =
     st\<lparr>bs_redis :=
       dict_set (monthly_counter (bx_tenant_id ctx) (bx_team_id ctx) (be_now env)) monthly
        (dict_set (daily_counter (bx_tenant_id ctx) (bx_team_id ctx) (be_now env)) daily
         (dict_set (ticket_counter (bx_run_id ctx)) ticket (bs_redis st)))\<rparr>"

lemma reconcile_cases:
  obtains (raised) "snd (reconcile env ctx st) = st"
  | (set) caps where "load_caps env ctx st = Inr caps"
      "snd (reconcile env ctx st) = set_counters env ctx
         (usd_to_cents (bb_ticket_remaining_usd (remaining_from_postgres env ctx caps st)))
         (usd_to_cents (bb_daily_team_remaining_usd (remaining_from_postgres env ctx caps st)))
         (usd_to_cents (bb_monthly_team_remaining_usd (remaining_from_postgres env ctx caps st))) st"
proof (cases "load_caps env ctx st")
  case (Inl e)
  then have "snd (reconcile env ctx st) = st" by (simp add: reconcile_def)
  then show thesis by (rule raised)
next
  case (Inr caps)
  show thesis
  proof (cases "bs_redis_up st")
    case False
    with Inr have "snd (reconcile env ctx st) = st" by (simp add: reconcile_def counter_keys_def)
    then show thesis by (rule raised)
  next
    case True
    from Inr True show thesis
      by (intro set[of caps]) (simp_all add: reconcile_def counter_keys_def set_counters_def Let_def)
  qed
qed

lemma ensure_counters_keeps:
  assumes "op_keeps P (reconcile env ctx)" shows "op_keeps P (ensure_counters env ctx)"
proof -
  have "op_keeps P (op_bind (reconcile env ctx) (\<lambda>_ st. (Inr (), st)))"
    using assms by (intro op_keeps_bind) auto
  then show ?thesis
    by (simp add: op_keeps_def ensure_counters_def counter_keys_def)
qed

lemma usd_to_cents_nonneg: "0 \<le> x \<Longrightarrow> 0 \<le> usd_to_cents x"
  by (simp add: usd_to_cents_def round_half_up_nonneg)

lemma remaining_nonneg:
  "0 \<le> bb_ticket_remaining_usd (remaining_from_postgres env ctx caps st)"
  "0 \<le> bb_daily_team_remaining_usd (remaining_from_postgres env ctx caps st)"
  "0 \<le> bb_monthly_team_remaining_usd (remaining_from_postgres env ctx caps st)"
  by (simp_all add: remaining_from_postgres_def Let_def)

section \<open>Counters never go negative\<close>

definition counters_nonneg :: "BudgetState \<Rightarrow> bool" where
  "counters_nonneg st \<longleftrightarrow> (\<forall>k v. dict_get (bs_redis st) k = Some v \<longrightarrow> 0 \<le> v)"

lemma counters_nonneg_frame [simp]:
  "counters_nonneg (st\<lparr>bs_caps := a\<rparr>) = counters_nonneg st"
  "counters_nonneg (st\<lparr>bs_reservations := b\<rparr>) = counters_nonneg st"
  "counters_nonneg (st\<lparr>bs_charges := c\<rparr>) = counters_nonneg st"
  "counters_nonneg (st\<lparr>bs_denials := d\<rparr>) = counters_nonneg st"
  "counters_nonneg (st\<lparr>bs_redis_up := e\<rparr>) = counters_nonneg st"
  "counters_nonneg (close_reservation env rid status reason released st) = counters_nonneg st"
  by (simp_all add: counters_nonneg_def close_reservation_def)

lemma counters_nonneg_reconcile: "op_keeps counters_nonneg (reconcile env ctx)"
  unfolding op_keeps_def
proof (intro allI impI)
  fix st assume "counters_nonneg st"
  then show "counters_nonneg (snd (reconcile env ctx st))"
    by (cases rule: reconcile_cases[of env ctx st])
      (auto simp: counters_nonneg_def set_counters_def usd_to_cents_nonneg remaining_nonneg split: if_splits)
qed

lemma counters_nonneg_credit: "counters_nonneg st \<Longrightarrow> counters_nonneg (credit_counters env ctx cents st)"
  by (auto simp: counters_nonneg_def credit_counters_def Let_def dict_getd_def counter_keys_def
      split: if_splits option.splits)

lemma counters_nonneg_eval: "op_keeps counters_nonneg (eval_reservation env ctx cents)"
  by (auto simp: op_keeps_def counters_nonneg_def eval_reservation_def RESERVATION_SCRIPT_def Let_def
      counter_keys_def split: option.splits if_splits)

lemma counters_nonneg_inserts:
  "op_keeps counters_nonneg (insert_caps env row)"
  "op_keeps counters_nonneg (insert_denial env drow)"
  "op_keeps counters_nonneg (insert_reservation env rrow)"
  by (simp_all add: op_keeps_def insert_caps_def insert_denial_def insert_reservation_def Let_def)

lemma counters_nonneg_reserve_cents: "op_keeps counters_nonneg (reserve_cents env ctx cents)"
  unfolding reserve_cents_def
  by (intro op_keeps_bind) (auto intro: counters_nonneg_eval counters_nonneg_reconcile)

lemma counters_nonneg_admit: "op_keeps counters_nonneg (admit_reservation env ctx amount caps res)"
proof -
  have "counters_nonneg st' \<Longrightarrow> insert_reservation env row st' = (r, st'') \<Longrightarrow> counters_nonneg st''" for row st' r st''
    using op_keepsD[OF counters_nonneg_inserts(3), of st' env row] by simp
  then have "op_keeps counters_nonneg (\<lambda>st. case insert_reservation env row st of
      (Inl e, st') \<Rightarrow> (Inl e, credit_counters env ctx cents st') | (Inr _, st') \<Rightarrow> (Inr v, st'))" for row cents v
    by (auto simp: op_keeps_def counters_nonneg_credit split: prod.splits sum.splits)
  then show ?thesis
    unfolding admit_reservation_def
    by (auto split: prod.splits intro!: op_keeps_bind counters_nonneg_inserts)
qed

lemma counters_nonneg_reserve: "op_keeps counters_nonneg (reserve env ctx amount)"
  unfolding reserve_def
  by (intro op_keeps_bind ensure_counters_keeps op_keeps_same counters_nonneg_reconcile
      counters_nonneg_reserve_cents counters_nonneg_admit)

lemma counters_nonneg_settle: "op_keeps counters_nonneg (settle env rid actual)"
  by (auto simp: op_keeps_def settle_def Let_def intro!: counters_nonneg_credit split: sum.splits)

lemma counters_nonneg_release: "op_keeps counters_nonneg (release_orphaned env rid reason)"
  by (auto simp: op_keeps_def release_orphaned_def Let_def intro!: counters_nonneg_credit split: sum.splits)

lemma counters_nonneg_step: "counters_nonneg st \<Longrightarrow> counters_nonneg (budget_step env op st)"
proof (cases op)
  case (Configure ctx caps)
  moreover have "op_keeps counters_nonneg (configure_caps env ctx caps)"
    unfolding configure_caps_def
    by (intro op_keeps_bind op_keeps_same counters_nonneg_inserts counters_nonneg_reconcile)
  ultimately show "counters_nonneg st \<Longrightarrow> ?thesis" by (simp add: op_keeps_def)
next
  case (Balance ctx)
  moreover have "op_keeps counters_nonneg (balance env ctx)"
    unfolding balance_def
    by (intro op_keeps_bind op_keeps_same ensure_counters_keeps counters_nonneg_reconcile)
  ultimately show "counters_nonneg st \<Longrightarrow> ?thesis" by (simp add: op_keeps_def)
next
  case Redis_flush
  then show ?thesis by (simp add: counters_nonneg_def)
qed (simp_all add: op_keepsD[OF counters_nonneg_reserve] op_keepsD[OF counters_nonneg_settle]
    op_keepsD[OF counters_nonneg_release] op_keepsD[OF counters_nonneg_reconcile])

section \<open>The ticket cap holds\<close>

definition whole_cents :: "decimal \<Rightarrow> bool" where
  "whole_cents x \<longleftrightarrow> of_int \<lfloor>x * 100\<rfloor> = x * 100"

lemma whole_cents_iff: "whole_cents x \<longleftrightarrow> (\<exists>n. x = of_int n / 100)"
proof
  assume "whole_cents x"
  then have "of_int \<lfloor>x * 100\<rfloor> = x * 100" unfolding whole_cents_def .
  then have "x = of_int \<lfloor>x * 100\<rfloor> / 100" by (metis nonzero_mult_div_cancel_right zero_neq_numeral)
  then show "\<exists>n. x = of_int n / 100" by blast
qed (auto simp: whole_cents_def)

lemma whole_cents_exact:
  assumes "whole_cents x"
  shows "of_int (usd_to_cents x) / 100 = x" "num6 x = x"
proof -
  from assms obtain n where x: "x = of_int n / 100" by (auto simp: whole_cents_iff)
  show "of_int (usd_to_cents x) / 100 = x" by (simp add: usd_to_cents_def x)
  have "of_int n / 100 * 1000000 = (of_int (n * 10000) :: rat)" by simp
  then show "num6 x = x"
    unfolding num6_def x by (simp only: round_half_up_of_int)
qed

lemma whole_cents_arith:
  "whole_cents 0" "whole_cents x \<Longrightarrow> whole_cents y \<Longrightarrow> whole_cents (x + y)"
  "whole_cents x \<Longrightarrow> whole_cents y \<Longrightarrow> whole_cents (x - y)"
proof -
  show "whole_cents 0" by (simp add: whole_cents_def)
  assume "whole_cents x" "whole_cents y"
  then obtain m n where "x = of_int m / 100" "y = of_int n / 100" by (auto simp: whole_cents_iff)
  then have "x + y = of_int (m + n) / 100" "x - y = of_int (m - n) / 100"
    by (simp_all add: add_divide_distrib diff_divide_distrib)
  then show "whole_cents (x + y)" "whole_cents (x - y)" unfolding whole_cents_iff by blast+
qed

lemma whole_cents_sum: "(\<forall>x \<in> set xs. whole_cents (f x)) \<Longrightarrow> whole_cents (sum_list (map f xs))"
  by (induction xs) (auto intro: whole_cents_arith)

definition reserved_for :: "str \<Rightarrow> ReservationRow \<Rightarrow> decimal" where
  "reserved_for r row =
     (if bx_run_id (rv_context row) = r \<and> rv_status row = Active then rv_reserved_amount_usd row else 0)"

definition charged_for :: "str \<Rightarrow> ChargeRow \<Rightarrow> decimal" where
  "charged_for r c = (if ch_run_id c = r then ch_actual_cost_usd c else 0)"

text \<open>What a run has committed: active reservations plus actual charges.\<close>

definition spent :: "str \<Rightarrow> BudgetState \<Rightarrow> decimal" where
  "spent r st = sum_list (map (reserved_for r) (bs_reservations st)) +
     sum_list (map (charged_for r) (bs_charges st))"

lemma spent_eq:
  assumes "be_bypass env" "bx_run_id ctx = r"
  shows "ticket_active env ctx st + ticket_charged env ctx st = spent r st"
proof -
  have "ticket_active env ctx st = sum_list (map (reserved_for r) (bs_reservations st))"
    using assms by (simp add: ticket_active_def sum_where_def visible_ctx_def row_visible_def
        reserved_for_def[abs_def] sum_list_map_filter')
  moreover have "ticket_charged env ctx st = sum_list (map (charged_for r) (bs_charges st))"
    using assms by (simp add: ticket_charged_def sum_where_def row_visible_def
        charged_for_def[abs_def] sum_list_map_filter')
  ultimately show ?thesis by (simp add: spent_def)
qed

text \<open>The invariant of a run with ticket cap \<open>cap\<close>, while \<open>hold\<close> is admitted by the script and not
  yet a row.\<close>

definition cap_of :: "str \<Rightarrow> BudgetState \<Rightarrow> decimal option" where
  "cap_of r st = map_option (\<lambda>row. cap_ticket_cap_usd (cp_caps row))
     (find (\<lambda>row. bx_run_id (cp_context row) = r) (bs_caps st))"

definition ticket_left :: "str \<Rightarrow> BudgetState \<Rightarrow> int option" where
  "ticket_left r st = dict_get (bs_redis st) (ticket_counter r)"

definition rows_ok :: "BudgetState \<Rightarrow> bool" where
  "rows_ok st \<longleftrightarrow> distinct (map rv_reservation_id (bs_reservations st)) \<and>
     (\<forall>row \<in> set (bs_reservations st).
        whole_cents (rv_reserved_amount_usd row) \<and> 0 \<le> rv_reserved_amount_usd row) \<and>
     (\<forall>c \<in> set (bs_charges st). whole_cents (ch_actual_cost_usd c))"

definition ticket_inv :: "str \<Rightarrow> decimal \<Rightarrow> decimal \<Rightarrow> BudgetState \<Rightarrow> bool" where
  "ticket_inv r cap hold st \<longleftrightarrow>
     cap_of r st = Some cap \<and> rows_ok st \<and> spent r st + hold \<le> cap \<and>
     (\<forall>v. ticket_left r st = Some v \<longrightarrow> of_int v / 100 + spent r st + hold \<le> cap)"

lemma whole_cents_spent: "rows_ok st \<Longrightarrow> whole_cents (spent r st)"
  unfolding spent_def
  by (intro whole_cents_arith whole_cents_sum)
    (auto simp: rows_ok_def reserved_for_def charged_for_def whole_cents_arith)

lemma counter_keys_distinct [simp]:
  "ticket_counter r = ticket_counter q \<longleftrightarrow> r = q"
  "ticket_counter r \<noteq> daily_counter t m n" "ticket_counter r \<noteq> monthly_counter t m n"
  "daily_counter t m n \<noteq> ticket_counter r" "monthly_counter t m n \<noteq> ticket_counter r"
  "daily_counter t m n \<noteq> monthly_counter t' m' n'" "monthly_counter t' m' n' \<noteq> daily_counter t m n"
  by (simp_all add: ticket_counter_def daily_counter_def monthly_counter_def)

lemma ticket_frame [simp]:
  "ticket_left r (st\<lparr>bs_caps := a\<rparr>) = ticket_left r st"
  "ticket_left r (st\<lparr>bs_reservations := b\<rparr>) = ticket_left r st"
  "ticket_left r (st\<lparr>bs_charges := c\<rparr>) = ticket_left r st"
  "ticket_left r (st\<lparr>bs_denials := d\<rparr>) = ticket_left r st"
  "ticket_left r (st\<lparr>bs_redis_up := e\<rparr>) = ticket_left r st"
  "cap_of r (st\<lparr>bs_redis := f\<rparr>) = cap_of r st"
  "cap_of r (st\<lparr>bs_reservations := b\<rparr>) = cap_of r st"
  "cap_of r (st\<lparr>bs_charges := c\<rparr>) = cap_of r st"
  "cap_of r (st\<lparr>bs_denials := d\<rparr>) = cap_of r st"
  "cap_of r (st\<lparr>bs_redis_up := e\<rparr>) = cap_of r st"
  "rows_ok (st\<lparr>bs_redis := f\<rparr>) = rows_ok st"
  "rows_ok (st\<lparr>bs_caps := a\<rparr>) = rows_ok st"
  "rows_ok (st\<lparr>bs_denials := d\<rparr>) = rows_ok st"
  "rows_ok (st\<lparr>bs_redis_up := e\<rparr>) = rows_ok st"
  "spent r (st\<lparr>bs_redis := f\<rparr>) = spent r st"
  "spent r (st\<lparr>bs_caps := a\<rparr>) = spent r st"
  "spent r (st\<lparr>bs_denials := d\<rparr>) = spent r st"
  "spent r (st\<lparr>bs_redis_up := e\<rparr>) = spent r st"
  by (simp_all add: ticket_left_def cap_of_def rows_ok_def spent_def)

lemma ticket_left_set_counters:
  "ticket_left r (set_counters env ctx a b c st) =
     (if bx_run_id ctx = r then Some a else ticket_left r st)"
  by (auto simp: ticket_left_def set_counters_def)

lemma load_caps_bypass:
  "be_bypass env \<Longrightarrow> load_caps env ctx st = Inr caps \<Longrightarrow>
   cap_of (bx_run_id ctx) st = Some (cap_ticket_cap_usd caps)"
  by (auto simp: load_caps_def visible_ctx_def row_visible_def cap_of_def split: option.splits)

lemma ticket_reconcile:
  assumes "be_bypass env" "whole_cents cap" shows "op_keeps (ticket_inv r cap 0) (reconcile env ctx)"
  unfolding op_keeps_def
proof (intro allI impI)
  fix st assume inv: "ticket_inv r cap 0 st"
  show "ticket_inv r cap 0 (snd (reconcile env ctx st))"
  proof (cases rule: reconcile_cases[of env ctx st])
    case raised
    with inv show ?thesis by simp
  next
    case (set caps)
    show ?thesis
    proof (cases "bx_run_id ctx = r")
      case False
      with inv set show ?thesis
        by (simp add: ticket_inv_def ticket_left_set_counters) (simp add: set_counters_def)
    next
      case True
      from load_caps_bypass[OF assms(1) set(1)] inv True have cap: "cap_ticket_cap_usd caps = cap"
        by (simp add: ticket_inv_def)
      from inv have le: "spent r st \<le> cap" by (simp add: ticket_inv_def)
      have "cap - ticket_active env ctx st - ticket_charged env ctx st = cap - spent r st"
        using spent_eq[OF assms(1) True, of st] by (simp add: algebra_simps)
      then have rem: "bb_ticket_remaining_usd (remaining_from_postgres env ctx caps st) = cap - spent r st"
        using le cap by (simp add: remaining_from_postgres_def Let_def)
      have "of_int (usd_to_cents (cap - spent r st)) / 100 = cap - spent r st"
        using inv assms(2) by (intro whole_cents_exact whole_cents_arith whole_cents_spent) (auto simp: ticket_inv_def)
      then have "of_int (usd_to_cents (cap - spent r st)) / 100 + spent r st \<le> cap" by linarith
      with inv set True rem show ?thesis
        by (simp add: ticket_inv_def ticket_left_set_counters) (simp add: set_counters_def)
    qed
  qed
qed

lemma ticket_credit:
  assumes "ticket_inv r cap hold st" "bx_run_id ctx = r \<Longrightarrow> hold = of_int cents / 100"
    "bx_run_id ctx \<noteq> r \<Longrightarrow> hold = 0" "0 \<le> hold"
  shows "ticket_inv r cap 0 (credit_counters env ctx cents st)"
proof (cases "cents \<le> 0 \<or> \<not> bs_redis_up st")
  case True
  with assms show ?thesis by (auto simp: credit_counters_def ticket_inv_def)
next
  case False
  let ?st = "credit_counters env ctx cents st"
  have left: "ticket_left r ?st = (if bx_run_id ctx = r
      then Some (dict_getd (bs_redis st) (ticket_counter r) 0 + cents) else ticket_left r st)"
    using False by (auto simp: credit_counters_def Let_def counter_keys_def ticket_left_def)
  have frame: "cap_of r ?st = cap_of r st" "rows_ok ?st = rows_ok st" "spent r ?st = spent r st"
    by (simp_all add: credit_counters_def Let_def counter_keys_def)
  show ?thesis
  proof (cases "bx_run_id ctx = r")
    case False
    with assms left frame show ?thesis by (auto simp: ticket_inv_def)
  next
    case True
    have "of_int (dict_getd (bs_redis st) (ticket_counter r) 0 + cents) / 100 + spent r st \<le> cap"
    proof (cases "ticket_left r st")
      case None
      with assms(1) assms(2)[OF True] show ?thesis
        by (simp add: ticket_inv_def ticket_left_def dict_getd_def)
    next
      case (Some v)
      with assms(1) have "of_int v / 100 + spent r st + hold \<le> cap" by (simp add: ticket_inv_def)
      with Some assms(2)[OF True] show ?thesis
        by (simp add: ticket_left_def dict_getd_def add_divide_distrib)
    qed
    with assms(1,4) left True frame show ?thesis by (auto simp: ticket_inv_def)
  qed
qed

definition hold_of :: "str \<Rightarrow> BudgetContext \<Rightarrow> int \<Rightarrow> decimal" where
  "hold_of r ctx cents = (if bx_run_id ctx = r then of_int cents / 100 else 0)"

lemma ticket_eval:
  assumes "ticket_inv r cap 0 st" "eval_reservation env ctx cents st = (res, st')"
  shows "ticket_inv r cap (case res of Inr (s, _) \<Rightarrow> if s = 1 then hold_of r ctx cents else 0 | _ \<Rightarrow> 0) st'"
proof (cases "bs_redis_up st \<and> (\<exists>t d m. dict_get (bs_redis st) (ticket_counter (bx_run_id ctx)) = Some t \<and>
    dict_get (bs_redis st) (daily_counter (bx_tenant_id ctx) (bx_team_id ctx) (be_now env)) = Some d \<and>
    dict_get (bs_redis st) (monthly_counter (bx_tenant_id ctx) (bx_team_id ctx) (be_now env)) = Some m \<and>
    cents \<le> t \<and> cents \<le> d \<and> cents \<le> m)")
  case True
  then obtain t d m where t: "dict_get (bs_redis st) (ticket_counter (bx_run_id ctx)) = Some t" "cents \<le> t"
    and res: "res = Inr (1, t - cents, d - cents, m - cents)"
    and st': "st' = set_counters env ctx (t - cents) (d - cents) (m - cents) st"
    using assms(2) by (auto simp: eval_reservation_def RESERVATION_SCRIPT_def counter_keys_def set_counters_def)
  have frame: "cap_of r st' = cap_of r st" "rows_ok st' = rows_ok st" "spent r st' = spent r st"
    by (simp_all add: st' set_counters_def)
  show ?thesis
  proof (cases "bx_run_id ctx = r")
    case True
    with assms(1) t have le: "of_int t / 100 + spent r st \<le> cap" by (simp add: ticket_inv_def ticket_left_def)
    have "of_int cents / 100 \<le> (of_int t / 100 :: rat)" using t(2) by (simp add: divide_right_mono)
    with le assms(1) True res frame show ?thesis
      by (simp add: ticket_inv_def hold_of_def st' ticket_left_set_counters diff_divide_distrib)
  next
    case False
    with assms(1) res frame show ?thesis
      by (simp add: ticket_inv_def hold_of_def st' ticket_left_set_counters)
  qed
next
  case False
  then have "st' = st \<and> (case res of Inr (s, _) \<Rightarrow> s \<noteq> 1 | Inl _ \<Rightarrow> True)"
    using assms(2) by (auto simp: eval_reservation_def RESERVATION_SCRIPT_def counter_keys_def
        split: option.splits if_splits)
  with assms(1) show ?thesis by (auto split: sum.splits prod.splits)
qed

lemma ticket_reserve_cents:
  assumes "be_bypass env" "whole_cents cap" "ticket_inv r cap 0 st" "reserve_cents env ctx cents st = (res, st')"
  shows "ticket_inv r cap (case res of Inr (s, _) \<Rightarrow> if s = 1 then hold_of r ctx cents else 0 | _ \<Rightarrow> 0) st'"
proof -
  obtain res1 st1 where e: "eval_reservation env ctx cents st = (res1, st1)" by fastforce
  note i = ticket_eval[OF assms(3) e]
  show ?thesis
  proof (cases res1)
    case (Inl x)
    with e i assms(4) show ?thesis by (auto simp: reserve_cents_def)
  next
    case (Inr q)
    obtain s t where q: "q = (s, t)" by (cases q)
    show ?thesis
    proof (cases "s = -1")
      case False
      with e i assms(4) Inr q show ?thesis by (auto simp: reserve_cents_def)
    next
      case True
      with i Inr q have i0: "ticket_inv r cap 0 st1" by simp
      obtain rb st2 where rc: "reconcile env ctx st1 = (rb, st2)" by fastforce
      from op_keepsD[OF ticket_reconcile[OF assms(1,2)] i0, of ctx] rc have i2: "ticket_inv r cap 0 st2" by simp
      show ?thesis
      proof (cases rb)
        case (Inl x)
        with e assms(4) \<open>res1 = Inr q\<close> q True rc i2 show ?thesis by (auto simp: reserve_cents_def)
      next
        case r2: (Inr y)
        with e assms(4) Inr q True rc have "eval_reservation env ctx cents st2 = (res, st')"
          by (simp add: reserve_cents_def)
        from ticket_eval[OF i2 this] show ?thesis .
      qed
    qed
  qed
qed

lemma ticket_insert_denial: "op_keeps (ticket_inv r cap hold) (insert_denial env row)"
  by (simp add: op_keeps_def insert_denial_def ticket_inv_def)

lemma ticket_insert_reservation:
  assumes inv: "ticket_inv r cap (hold_of r ctx (usd_to_cents amount)) st" and w: "whole_cents amount" "0 \<le> amount"
    and ins: "insert_reservation env row st = (Inr (), st')" "rv_context row = ctx"
      "rv_reserved_amount_usd row = amount" "rv_status row = Active"
  shows "ticket_inv r cap 0 st'"
proof -
  let ?row = "row\<lparr>rv_reserved_amount_usd := num6 amount\<rparr>"
  have st': "st' = st\<lparr>bs_reservations := bs_reservations st @ [?row]\<rparr>"
    and fresh: "rv_reservation_id row \<notin> set (map rv_reservation_id (bs_reservations st))"
    using ins by (auto simp: insert_reservation_def list_ex_iff split: if_splits)
  have "reserved_for r ?row = hold_of r ctx (usd_to_cents amount)"
    using ins w by (simp add: reserved_for_def hold_of_def whole_cents_exact)
  then have spent: "spent r st' = spent r st + hold_of r ctx (usd_to_cents amount)"
    by (simp add: st' spent_def)
  have "rows_ok st'"
    using inv fresh w ins by (auto simp: st' ticket_inv_def rows_ok_def whole_cents_exact)
  with inv spent show ?thesis by (simp add: ticket_inv_def) (simp add: st' algebra_simps)
qed

lemma ticket_admit:
  assumes "ticket_inv r cap (case res of (s, _) \<Rightarrow> if s = 1 then hold_of r ctx (usd_to_cents amount) else 0) st"
    and "whole_cents amount" "0 \<le> amount"
  shows "ticket_inv r cap 0 (snd (admit_reservation env ctx amount caps res st))"
proof -
  obtain s t d m where res: "res = (s, t, d, m)" by (cases res)
  show ?thesis
  proof (cases "s = 1")
    case False
    have "op_keeps (ticket_inv r cap 0) (admit_reservation env ctx amount caps res)"
      using False unfolding admit_reservation_def res
      by (auto intro!: op_keeps_bind ticket_insert_denial)
    with assms(1) False res show ?thesis by (simp add: op_keeps_def)
  next
    case True
    let ?row = "\<lparr>rv_reservation_id = be_uuid env, rv_context = ctx,
                 rv_reserved_amount_usd = amount, rv_caps = caps,
                 rv_remaining = (cents_to_usd t, cents_to_usd d, cents_to_usd m),
                 rv_status = Active, rv_release_reason = None, rv_released_amount_usd = None,
                 rv_created_at = be_now env\<rparr>"
    obtain q st' where ins: "insert_reservation env ?row st = (q, st')" by fastforce
    from assms(1) True res have inv: "ticket_inv r cap (hold_of r ctx (usd_to_cents amount)) st" by simp
    show ?thesis
    proof (cases q)
      case (Inr u)
      with ins have i: "insert_reservation env ?row st = (Inr (), st')" by simp
      have "ticket_inv r cap 0 st'"
        by (rule ticket_insert_reservation[OF inv assms(2,3) i]) simp_all
      with ins Inr True res show ?thesis by (simp add: admit_reservation_def)
    next
      case (Inl e)
      then have "st' = st" using ins by (auto simp: insert_reservation_def split: if_splits)
      moreover have "0 \<le> usd_to_cents amount" by (rule usd_to_cents_nonneg[OF assms(3)])
      then have "ticket_inv r cap 0 (credit_counters env ctx (usd_to_cents amount) st)"
        using inv by (intro ticket_credit[OF inv]) (auto simp: hold_of_def)
      ultimately show ?thesis using ins Inl True res by (simp add: admit_reservation_def)
    qed
  qed
qed

lemma ticket_reserve:
  assumes "be_bypass env" "whole_cents cap" "whole_cents amount" "0 \<le> amount"
  shows "op_keeps (ticket_inv r cap 0) (reserve env ctx amount)"
proof -
  have "op_keeps (ticket_inv r cap 0) (op_bind (reserve_cents env ctx (usd_to_cents amount))
      (admit_reservation env ctx amount caps))" for caps
    unfolding op_keeps_def
  proof (intro allI impI)
    fix st assume i: "ticket_inv r cap 0 st"
    obtain q st' where c: "reserve_cents env ctx (usd_to_cents amount) st = (q, st')" by fastforce
    note inv = ticket_reserve_cents[OF assms(1,2) i c]
    show "ticket_inv r cap 0 (snd (op_bind (reserve_cents env ctx (usd_to_cents amount))
        (admit_reservation env ctx amount caps) st))"
    proof (cases q)
      case (Inl e)
      with c inv show ?thesis by simp
    next
      case (Inr res)
      with inv have "ticket_inv r cap (case res of (s, _) \<Rightarrow> if s = 1 then hold_of r ctx (usd_to_cents amount) else 0) st'"
        by simp
      from ticket_admit[OF this assms(3,4)] c Inr show ?thesis by simp
    qed
  qed
  then show ?thesis
    unfolding reserve_def
    by (intro op_keeps_bind[OF op_keeps_same]
        op_keeps_bind[OF ensure_counters_keeps[OF ticket_reconcile[OF assms(1,2)]]])
qed

lemma sum_list_update_unique:
  fixes f :: "'r \<Rightarrow> decimal"
  assumes "distinct (map key xs)" "x \<in> set xs"
  shows "sum_list (map f (map (\<lambda>y. if key y = key x then g y else y) xs)) = sum_list (map f xs) - f x + f (g x)"
  using assms
proof (induction xs)
  case Nil
  then show ?case by simp
next
  case (Cons y xs)
  show ?case
  proof (cases "key y = key x")
    case True
    then have "y = x" using Cons.prems by (auto simp: image_iff)
    moreover have "map (\<lambda>y. if key y = key x then g y else y) xs = xs"
      using Cons.prems True by (intro map_idI) (auto simp: image_iff)
    ultimately show ?thesis by simp
  next
    case False
    then have "x \<in> set xs" using Cons.prems by auto
    with Cons False show ?thesis by simp
  qed
qed

lemma active_reservation_Inr:
  assumes "active_reservation env rid st = Inr row"
  shows "row \<in> set (bs_reservations st)" "rv_reservation_id row = rid" "rv_status row = Active"
    "be_bypass env"
  using assms by (auto simp: active_reservation_def visible_ctx_def find_Some_iff split: option.splits if_splits)

lemma close_reservation_spent:
  assumes "active_reservation env rid st = Inr row" "rows_ok st" "status \<noteq> Active"
  shows "spent r (close_reservation env rid status reason released (st\<lparr>bs_charges := cs\<rparr>)) =
      spent r st - reserved_for r row - sum_list (map (charged_for r) (bs_charges st)) + sum_list (map (charged_for r) cs)"
    and "(\<forall>c \<in> set cs. whole_cents (ch_actual_cost_usd c)) \<Longrightarrow>
      rows_ok (close_reservation env rid status reason released (st\<lparr>bs_charges := cs\<rparr>))"
proof -
  note a = active_reservation_Inr[OF assms(1)]
  let ?g = "\<lambda>r. r\<lparr>rv_status := status, rv_release_reason := Some reason, rv_released_amount_usd := Some (num6 released)\<rparr>"
  have rows: "bs_reservations (close_reservation env rid status reason released (st\<lparr>bs_charges := cs\<rparr>)) =
      map (\<lambda>y. if rv_reservation_id y = rv_reservation_id row then ?g y else y) (bs_reservations st)"
    using a by (simp add: close_reservation_def visible_ctx_def row_visible_def)
  have charges: "bs_charges (close_reservation env rid status reason released (st\<lparr>bs_charges := cs\<rparr>)) = cs"
    by (simp add: close_reservation_def)
  have d: "distinct (map rv_reservation_id (bs_reservations st))" using assms(2) by (simp add: rows_ok_def)
  have "reserved_for r (?g row) = 0" using assms(3) by (simp add: reserved_for_def)
  then show "spent r (close_reservation env rid status reason released (st\<lparr>bs_charges := cs\<rparr>)) =
      spent r st - reserved_for r row - sum_list (map (charged_for r) (bs_charges st)) + sum_list (map (charged_for r) cs)"
    unfolding spent_def rows charges sum_list_update_unique[OF d a(1)] by simp
  assume "\<forall>c \<in> set cs. whole_cents (ch_actual_cost_usd c)"
  moreover have "map rv_reservation_id (bs_reservations (close_reservation env rid status reason released
      (st\<lparr>bs_charges := cs\<rparr>))) = map rv_reservation_id (bs_reservations st)"
    unfolding rows by simp
  ultimately show "rows_ok (close_reservation env rid status reason released (st\<lparr>bs_charges := cs\<rparr>))"
    using assms(2) unfolding rows_ok_def charges
    by (intro conjI) (simp_all only:, auto simp: rows)
qed

lemma close_reservation_frame [simp]:
  "cap_of r (close_reservation env rid status reason released st) = cap_of r st"
  "ticket_left r (close_reservation env rid status reason released st) = ticket_left r st"
  by (simp_all add: close_reservation_def)

lemma ticket_settle:
  assumes w: "whole_cents actual"
  shows "op_keeps (ticket_inv r cap 0) (settle env rid actual)"
  unfolding op_keeps_def
proof (intro allI impI)
  fix st assume inv: "ticket_inv r cap 0 st"
  show "ticket_inv r cap 0 (snd (settle env rid actual st))"
  proof (cases "snd (settle env rid actual st) = st")
    case True
    with inv show ?thesis by simp
  next
    case False
    then obtain row where row: "active_reservation env rid st = Inr row"
      by (auto simp: settle_def split: sum.splits)
    let ?res = "rv_reserved_amount_usd row" and ?ctx = "rv_context row"
    let ?c = "\<lparr>ch_reservation_id = rid, ch_tenant_id = bx_tenant_id ?ctx,
         ch_team_id = bx_team_id ?ctx, ch_run_id = bx_run_id ?ctx, ch_estimated_cost_usd = ?res,
         ch_actual_cost_usd = num6 actual, ch_refunded_amount_usd = num6 (?res - actual),
         ch_created_at = be_now env\<rparr>"
    let ?st1 = "close_reservation env rid Settled ''settled'' (?res - actual) (st\<lparr>bs_charges := bs_charges st @ [?c]\<rparr>)"
    from False row have le: "actual \<le> ?res" and new: "snd (settle env rid actual st) =
        (if ?res - actual > 0 then credit_counters env ?ctx (usd_to_cents (?res - actual)) ?st1 else ?st1)"
      by (auto simp: settle_def Let_def split: if_splits)
    have ok: "rows_ok st" using inv by (simp add: ticket_inv_def)
    have wr: "whole_cents ?res" using ok active_reservation_Inr[OF row] by (auto simp: rows_ok_def)
    have spent1: "spent r ?st1 = spent r st - (if bx_run_id ?ctx = r then ?res - actual else 0)"
      using close_reservation_spent(1)[OF row ok, of Settled r "''settled''" "?res - actual" "bs_charges st @ [?c]"]
        active_reservation_Inr[OF row] w by (simp add: reserved_for_def charged_for_def whole_cents_exact)
    have ok1: "rows_ok ?st1"
      using ok w by (intro close_reservation_spent(2)[OF row ok]) (auto simp: rows_ok_def whole_cents_exact)
    have "ticket_inv r cap (if bx_run_id ?ctx = r then ?res - actual else 0) ?st1"
      using inv spent1 ok1 by (simp add: ticket_inv_def)
    then have "ticket_inv r cap 0 (credit_counters env ?ctx (usd_to_cents (?res - actual)) ?st1)"
      by (rule ticket_credit) (use le wr w in \<open>auto simp: whole_cents_exact whole_cents_arith\<close>)
    moreover have "?res - actual = 0 \<Longrightarrow> ticket_inv r cap 0 ?st1"
      using \<open>ticket_inv r cap (if bx_run_id ?ctx = r then ?res - actual else 0) ?st1\<close> by (simp split: if_splits)
    ultimately show ?thesis using new le by (auto simp: not_less)
  qed
qed

lemma ticket_release:
  assumes inv: "ticket_inv r cap 0 st"
  shows "ticket_inv r cap 0 (snd (release_orphaned env rid reason st))"
proof (cases "active_reservation env rid st")
  case (Inl e)
  with inv show ?thesis by (simp add: release_orphaned_def)
next
  case (Inr row)
  let ?res = "rv_reserved_amount_usd row" and ?ctx = "rv_context row"
  let ?st1 = "close_reservation env rid Released reason ?res st"
  have ok: "rows_ok st" using inv by (simp add: ticket_inv_def)
  note a = active_reservation_Inr[OF Inr]
  have same: "st\<lparr>bs_charges := bs_charges st\<rparr> = st" by simp
  have wr: "whole_cents ?res" "0 \<le> ?res" using ok a by (auto simp: rows_ok_def)
  have "spent r ?st1 = spent r st - (if bx_run_id ?ctx = r then ?res else 0)"
    using close_reservation_spent(1)[OF Inr ok, of Released r reason ?res "bs_charges st"] a
    by (simp add: reserved_for_def same)
  moreover have "rows_ok ?st1"
    using close_reservation_spent(2)[OF Inr ok, of Released "bs_charges st" reason ?res] ok
    by (simp add: rows_ok_def same)
  ultimately have "ticket_inv r cap (if bx_run_id ?ctx = r then ?res else 0) ?st1"
    using inv by (simp add: ticket_inv_def)
  then have "ticket_inv r cap 0 (credit_counters env ?ctx (usd_to_cents ?res) ?st1)"
    by (rule ticket_credit) (use wr in \<open>auto simp: whole_cents_exact\<close>)
  with Inr show ?thesis by (simp add: release_orphaned_def Let_def)
qed

lemma find_upsert_other:
  "key row \<noteq> k \<Longrightarrow> find (\<lambda>x. key x = k) (upsert_by key row rows) = find (\<lambda>x. key x = k) rows"
proof -
  assume ne: "key row \<noteq> k"
  then have "find (\<lambda>x. key x = k) (map (\<lambda>x. if key x = key row then row else x) rows) = find (\<lambda>x. key x = k) rows"
    by (induction rows) auto
  moreover have "find (\<lambda>x. key x = k) (rows @ [row]) = find (\<lambda>x. key x = k) rows"
    using ne by (induction rows) auto
  ultimately show ?thesis by (simp add: upsert_by_def)
qed

lemma ticket_insert_caps:
  assumes "bx_run_id (cp_context row) \<noteq> r"
  shows "op_keeps (ticket_inv r cap hold) (insert_caps env row)"
proof -
  have "cap_of r (st\<lparr>bs_caps := upsert_by (\<lambda>r. bx_run_id (cp_context r))
      (row\<lparr>cp_caps := num6_caps (cp_caps row)\<rparr>) (bs_caps st)\<rparr>) = cap_of r st" for st
    using assms find_upsert_other[of "\<lambda>r. bx_run_id (cp_context r)" "row\<lparr>cp_caps := num6_caps (cp_caps row)\<rparr>" r "bs_caps st"]
    by (simp add: cap_of_def)
  then show ?thesis
    by (auto simp: op_keeps_def insert_caps_def Let_def ticket_inv_def)
qed

text \<open>The operations the invariant covers: amounts in whole cents, and the cap of the run itself
  stays as configured.\<close>

fun in_whole_cents :: "str \<Rightarrow> budget_op \<Rightarrow> bool" where
  "in_whole_cents r (Configure ctx caps) \<longleftrightarrow> bx_run_id ctx \<noteq> r"
| "in_whole_cents r (Reserve ctx amount) \<longleftrightarrow> whole_cents amount \<and> 0 \<le> amount"
| "in_whole_cents r (Settle rid actual) \<longleftrightarrow> whole_cents actual"
| "in_whole_cents r _ \<longleftrightarrow> True"

lemma ticket_step:
  assumes "be_bypass env" "whole_cents cap" "in_whole_cents r op" "ticket_inv r cap 0 st"
  shows "ticket_inv r cap 0 (budget_step env op st)"
proof (cases op)
  case (Configure ctx caps)
  have "op_keeps (ticket_inv r cap 0) (configure_caps env ctx caps)"
    unfolding configure_caps_def using Configure assms(3)
    by (intro op_keeps_bind[OF ticket_insert_caps] op_keeps_bind[OF ticket_reconcile[OF assms(1,2)] op_keeps_same])
      simp
  with Configure assms(4) show ?thesis by (simp add: op_keeps_def)
next
  case (Balance ctx)
  have "op_keeps (ticket_inv r cap 0) (balance env ctx)"
    unfolding balance_def
    by (intro op_keeps_bind[OF op_keeps_same]
        op_keeps_bind[OF ensure_counters_keeps[OF ticket_reconcile[OF assms(1,2)]] op_keeps_same])
  with Balance assms(4) show ?thesis by (simp add: op_keeps_def)
next
  case (Reserve ctx amount)
  with assms ticket_reserve[OF assms(1,2)] show ?thesis by (simp add: op_keeps_def)
next
  case (Settle rid actual)
  with assms ticket_settle show ?thesis by (simp add: op_keeps_def)
next
  case (Release rid reason)
  with assms ticket_release show ?thesis by simp
next
  case (Reconcile ctx)
  with assms ticket_reconcile[OF assms(1,2)] show ?thesis by (simp add: op_keeps_def)
next
  case (Redis_available b)
  with assms show ?thesis by (simp add: ticket_inv_def)
next
  case Redis_flush
  have "ticket_left r (st\<lparr>bs_redis := []\<rparr>) = None" by (simp add: ticket_left_def)
  with Redis_flush assms(4) show ?thesis by (simp add: ticket_inv_def)
qed

lemma ticket_run:
  assumes "whole_cents cap"
  shows "ticket_inv r cap 0 st \<Longrightarrow> (\<forall>(env, op) \<in> set ops. be_bypass env \<and> in_whole_cents r op) \<Longrightarrow>
    ticket_inv r cap 0 (run_budget ops st)"
proof (induction ops arbitrary: st)
  case Nil
  then show ?case by simp
next
  case (Cons eop ops)
  then show ?case
    using ticket_step[OF _ assms] by (cases eop) simp
qed

section \<open>Theorems\<close>

lemma closed_rows:
  assumes "x \<in> set (bs_reservations (close_reservation env rid status reason rel st))" "be_bypass env"
    "rv_reservation_id x = rid"
  shows "rv_status x = status"
proof -
  let ?f = "\<lambda>r. if rv_reservation_id r = rid \<and> visible_ctx env None (rv_context r)
       then r\<lparr>rv_status := status, rv_release_reason := Some reason, rv_released_amount_usd := Some (num6 rel)\<rparr>
       else r"
  have "bs_reservations (close_reservation env rid status reason rel st) = map ?f (bs_reservations st)"
    by (simp add: close_reservation_def)
  with assms(1) have "x \<in> ?f ` set (bs_reservations st)" by (simp only: set_map)
  then obtain y where "x = ?f y" by (rule imageE)
  moreover have "visible_ctx env None (rv_context y)" using assms(2) by (simp add: visible_ctx_def)
  ultimately show ?thesis using assms(3) by (cases "rv_reservation_id y = rid") simp_all
qed
lemma find_False: "find (\<lambda>r. False) xs = None"
  by (induction xs) auto

lemma cap_of_upsert:
  "cap_of (bx_run_id (cp_context row)) (st\<lparr>bs_caps := upsert_by (\<lambda>r. bx_run_id (cp_context r)) row rows\<rparr>) =
     Some (cap_ticket_cap_usd (cp_caps row))"
proof -
  let ?k = "bx_run_id (cp_context row)"
  have "find (\<lambda>x. bx_run_id (cp_context x) = ?k) (upsert_by (\<lambda>r. bx_run_id (cp_context r)) row rows) = Some row"
  proof (cases "\<exists>x \<in> set rows. bx_run_id (cp_context x) = ?k")
    case True
    then have "find (\<lambda>x. bx_run_id (cp_context x) = ?k)
        (map (\<lambda>r. if bx_run_id (cp_context r) = ?k then row else r) rows) = Some row"
      by (induction rows) auto
    with True show ?thesis by (simp add: upsert_by_def list_ex_iff)
  next
    case False
    then have "find (\<lambda>x. bx_run_id (cp_context x) = ?k) (rows @ [row]) = Some row"
      by (induction rows) auto
    with False show ?thesis by (simp add: upsert_by_def list_ex_iff)
  qed
  then show ?thesis by (simp add: cap_of_def)
qed

lemma configure_establishes:
  assumes bp: "be_bypass env" and conf: "configure_caps env ctx caps st0 = (Inr (), st)"
    and ok: "rows_ok st0" and zero: "spent (bx_run_id ctx) st0 = 0"
    and w: "whole_cents (cap_ticket_cap_usd caps)" "0 \<le> cap_ticket_cap_usd caps"
  shows "ticket_inv (bx_run_id ctx) (cap_ticket_cap_usd caps) 0 st"
proof -
  let ?row = "\<lparr>cp_context = ctx, cp_caps = caps\<rparr>" and ?cap = "cap_ticket_cap_usd caps"
  from conf obtain st1 where ins: "insert_caps env ?row st0 = (Inr (), st1)"
    and rec: "st = snd (reconcile env ctx st1)"
    by (auto simp: configure_caps_def op_bind_Inr)
  from ins have st1: "st1 = st0\<lparr>bs_caps := upsert_by (\<lambda>r. bx_run_id (cp_context r))
      (?row\<lparr>cp_caps := num6_caps caps\<rparr>) (bs_caps st0)\<rparr>"
    by (auto simp: insert_caps_def Let_def split: if_splits)
  have cap1: "cap_of (bx_run_id ctx) st1 = Some ?cap"
    using cap_of_upsert[where row = "?row\<lparr>cp_caps := num6_caps caps\<rparr>" and st = st0 and rows = "bs_caps st0"] w
    by (simp add: st1 num6_caps_def whole_cents_exact)
  have sp1: "spent (bx_run_id ctx) st1 = 0" "rows_ok st1" using zero ok by (simp_all add: st1)
  \<comment> \<open>the state before the reconciliation may hold a stale counter; forget it\<close>
  let ?st2 = "st1\<lparr>bs_redis := []\<rparr>"
  from conf have up: "\<exists>caps'. load_caps env ctx st1 = Inr caps' \<and> bs_redis_up st1"
    using ins by (auto simp: configure_caps_def op_bind_Inr reconcile_def counter_keys_def Let_def
        split: sum.splits if_splits)
  then obtain caps' where lc: "load_caps env ctx st1 = Inr caps'" and bu: "bs_redis_up st1" by blast
  from load_caps_bypass[OF bp lc] cap1 have c': "cap_ticket_cap_usd caps' = ?cap" by simp
  have "ticket_active env ctx st1 + ticket_charged env ctx st1 = 0"
    using spent_eq[OF bp refl, of ctx st1] sp1 by simp
  then have diff: "?cap - ticket_active env ctx st1 - ticket_charged env ctx st1 = ?cap"
    by (simp add: algebra_simps)
  then have rem: "bb_ticket_remaining_usd (remaining_from_postgres env ctx caps' st1) = ?cap"
    using w c' by (simp add: remaining_from_postgres_def Let_def)
  have "ticket_left (bx_run_id ctx) st = Some (usd_to_cents ?cap)"
    using rec lc bu rem by (simp add: reconcile_def counter_keys_def Let_def ticket_left_def)
  moreover have "cap_of (bx_run_id ctx) st = Some ?cap" "rows_ok st" "spent (bx_run_id ctx) st = 0"
    using rec lc bu cap1 sp1 by (simp_all add: reconcile_def counter_keys_def Let_def)
  ultimately show ?thesis using w whole_cents_exact(1)[OF w(1)] by (simp add: ticket_inv_def)
qed


definition empty_budget :: BudgetState where
  "empty_budget = \<lparr>bs_caps = [], bs_reservations = [], bs_charges = [], bs_denials = [],
     bs_redis = [], bs_redis_up = True\<rparr>"

definition witness_ctx :: "str \<Rightarrow> BudgetContext" where
  "witness_ctx r = \<lparr>bx_tenant_id = ''t'', bx_team_id = ''m'', bx_run_id = r, bx_ticket_key = ''K'',
     bx_role = Role_coder\<rparr>"

definition env_at :: "bool \<Rightarrow> datetime \<Rightarrow> str \<Rightarrow> BudgetEnv" where
  "env_at bypass now uuid = \<lparr>be_now = now, be_uuid = uuid, be_bypass = bypass\<rparr>"

definition caps_usd :: "decimal \<Rightarrow> decimal \<Rightarrow> decimal \<Rightarrow> BudgetCaps" where
  "caps_usd a b c = \<lparr>cap_ticket_cap_usd = a, cap_daily_team_cap_usd = b, cap_monthly_team_cap_usd = c\<rparr>"

definition configured :: BudgetState where
  "configured = snd (configure_caps (env_at True 0 ''u'') (witness_ctx ''r'') (caps_usd 5 10 20) empty_budget)"

lemma configured_ok:
  "configure_caps (env_at True 0 ''u'') (witness_ctx ''r'') (caps_usd 5 10 20) empty_budget = (Inr (), configured)"
proof -
  have "fst (configure_caps (env_at True 0 ''u'') (witness_ctx ''r'') (caps_usd 5 10 20) empty_budget) = Inr ()"
    by code_simp
  then show ?thesis unfolding configured_def by (metis prod.collapse)
qed


text \<open>Counters never go negative. No history of operations, in any environment, takes a Redis
  budget counter below zero, whatever amounts are reserved or settled.\<close>

theorem counters_never_negative:
  assumes "counters_nonneg st"
  shows "counters_nonneg (run_budget ops st)"
  using assms
proof (induction ops arbitrary: st)
  case Nil
  then show ?case by simp
next
  case (Cons eop ops)
  then show ?case using counters_nonneg_step by (cases eop) simp
qed

lemma counters_never_negative_witness:
  "counters_nonneg (run_budget [(env_at True 1 ''a'', Reserve (witness_ctx ''r'') 3)] empty_budget)"
  by (rule counters_never_negative) (simp add: counters_nonneg_def empty_budget_def)

text \<open>A reservation is closed once. A settlement that returns found the reservation active,
  charged at most the reserved amount for its run, and afterwards neither a settlement nor a
  release of the same reservation succeeds.\<close>

theorem settle_once:
  assumes "rows_ok st" "settle env rid actual st = (Inr (), st')" "be_bypass env'"
  shows "(\<exists>row c. row \<in> set (bs_reservations st) \<and> rv_reservation_id row = rid \<and> rv_status row = Active \<and>
      actual \<le> rv_reserved_amount_usd row \<and> bs_charges st' = bs_charges st @ [c] \<and>
      ch_run_id c = bx_run_id (rv_context row) \<and> ch_actual_cost_usd c = num6 actual) \<and>
    (\<exists>m. settle env' rid actual' st' = (Inl (ValueError m), st')) \<and>
    (\<exists>m. release_orphaned env' rid reason st' = (Inl (ValueError m), st'))"
proof -
  from assms(2) obtain row where row: "active_reservation env rid st = Inr row"
    by (auto simp: settle_def split: sum.splits)
  note a = active_reservation_Inr[OF row]
  let ?res = "rv_reserved_amount_usd row" and ?ctx = "rv_context row"
  let ?c = "\<lparr>ch_reservation_id = rid, ch_tenant_id = bx_tenant_id ?ctx,
       ch_team_id = bx_team_id ?ctx, ch_run_id = bx_run_id ?ctx, ch_estimated_cost_usd = ?res,
       ch_actual_cost_usd = num6 actual, ch_refunded_amount_usd = num6 (?res - actual),
       ch_created_at = be_now env\<rparr>"
  let ?st1 = "close_reservation env rid Settled ''settled'' (?res - actual) (st\<lparr>bs_charges := bs_charges st @ [?c]\<rparr>)"
  from assms(2) row have le: "actual \<le> ?res"
    and st': "st' = (if ?res - actual > 0 then credit_counters env ?ctx (usd_to_cents (?res - actual)) ?st1 else ?st1)"
    by (auto simp: settle_def Let_def split: if_splits)
  have rows: "bs_reservations st' = bs_reservations ?st1" and charges: "bs_charges st' = bs_charges st @ [?c]"
    by (simp_all add: st' credit_counters_def counter_keys_def Let_def close_reservation_def)
  have "active_reservation env' rid st' = Inl (ValueError (''Reservation `'' @ rid @ ''` is not active.''))"
  proof -
    let ?P = "\<lambda>r. visible_ctx env' None (rv_context r) \<and> rv_reservation_id r = rid"
    have vis: "visible_ctx env' sc c" "visible_ctx env sc c" for sc c
      using assms(3) a(4) by (simp_all add: visible_ctx_def row_visible_def)
    have "find ?P (bs_reservations st') \<noteq> None"
      using a(1,2) vis by (auto simp: rows close_reservation_def find_None_iff image_iff)
    then obtain r where r: "find ?P (bs_reservations st') = Some r" by blast
    from find_SomeD[OF r] have r_in: "r \<in> set (bs_reservations st')" "rv_reservation_id r = rid" by simp_all
    have "rv_status r = Settled"
      using closed_rows[OF r_in(1)[unfolded rows] a(4)] r_in(2) .
    with r show ?thesis by (simp add: active_reservation_def)
  qed
  then have "settle env' rid actual' st' = (Inl (ValueError (''Reservation `'' @ rid @ ''` is not active.'')), st')"
    "release_orphaned env' rid reason st' = (Inl (ValueError (''Reservation `'' @ rid @ ''` is not active.'')), st')"
    by (simp_all add: settle_def release_orphaned_def)
  moreover have "\<exists>row c. row \<in> set (bs_reservations st) \<and> rv_reservation_id row = rid \<and> rv_status row = Active \<and>
      actual \<le> rv_reserved_amount_usd row \<and> bs_charges st' = bs_charges st @ [c] \<and>
      ch_run_id c = bx_run_id (rv_context row) \<and> ch_actual_cost_usd c = num6 actual"
    by (rule exI[of _ row], rule exI[of _ ?c]) (simp add: a le charges)
  ultimately show ?thesis by blast
qed

definition reserved_state :: BudgetState where
  "reserved_state = snd (reserve (env_at True 1 ''a'') (witness_ctx ''r'') 3 configured)"

lemma settle_once_witness:
  "\<exists>m. settle (env_at True 3 ''c'') ''a'' 1 (snd (settle (env_at True 2 ''b'') ''a'' 2 reserved_state)) =
     (Inl (ValueError m), snd (settle (env_at True 2 ''b'') ''a'' 2 reserved_state))"
proof -
  have "fst (settle (env_at True 2 ''b'') ''a'' 2 reserved_state) = Inr ()" by code_simp
  then have s: "settle (env_at True 2 ''b'') ''a'' 2 reserved_state =
      (Inr (), snd (settle (env_at True 2 ''b'') ''a'' 2 reserved_state))" by (metis prod.collapse)
  have "ticket_inv ''r'' 5 0 configured"
    using configure_establishes[OF _ configured_ok]
    by (simp add: env_at_def witness_ctx_def caps_usd_def rows_ok_def empty_budget_def spent_def whole_cents_def)
  then have "ticket_inv ''r'' 5 0 reserved_state"
    unfolding reserved_state_def
    by (intro op_keepsD[OF ticket_reserve]) (simp_all add: env_at_def whole_cents_def)
  then have "rows_ok reserved_state" by (simp add: ticket_inv_def)
  from settle_once[OF this s, of "env_at True 3 ''c''"] show ?thesis by (simp add: env_at_def)
qed

text \<open>Settlement cannot work under row level security. \<open>settle\<close> and \<open>release_orphaned\<close> do not
  set the tenant scope: for a database role that is subject to row level security they raise
  \<open>KeyError\<close> for every reservation and change nothing, so a reserved amount is never returned.\<close>

theorem settle_blocked_by_rls:
  assumes "\<not> be_bypass env"
  shows "settle env rid actual st = (Inl (KeyError (''Unknown reservation `'' @ rid @ ''`.'')), st) \<and>
    release_orphaned env rid reason st = (Inl (KeyError (''Unknown reservation `'' @ rid @ ''`.'')), st)"
proof -
  have "active_reservation env rid st = Inl (KeyError (''Unknown reservation `'' @ rid @ ''`.''))"
    using assms by (simp add: active_reservation_def visible_ctx_def find_False)
  then show ?thesis by (simp add: settle_def release_orphaned_def)
qed

lemma settle_blocked_by_rls_witness:
  "fst (settle (env_at False 2 ''b'') ''a'' 2 reserved_state) = Inl (KeyError ''Unknown reservation `a`.'')"
  using settle_blocked_by_rls[of "env_at False 2 ''b''" "''a''" 2 reserved_state] by (simp add: env_at_def)

lemma eval_reservation_denied:
  "eval_reservation env ctx cents st = (Inr (s, x), st') \<Longrightarrow> s \<noteq> 1 \<Longrightarrow> st' = st \<and> (s = 0 \<or> s = -1)"
  by (auto simp: eval_reservation_def RESERVATION_SCRIPT_def counter_keys_def Let_def
      split: option.splits if_splits)

lemma frame_reconcile:
  "bs_reservations (snd (reconcile env ctx st)) = bs_reservations st \<and>
   bs_denials (snd (reconcile env ctx st)) = bs_denials st"
  by (cases rule: reconcile_cases[of env ctx st]) (simp_all add: set_counters_def)

lemma frame_ensure:
  "bs_reservations (snd (ensure_counters env ctx st)) = bs_reservations st \<and>
   bs_denials (snd (ensure_counters env ctx st)) = bs_denials st"
  using ensure_counters_keeps[of "\<lambda>s. bs_reservations s = bs_reservations st \<and> bs_denials s = bs_denials st" env ctx]
    frame_reconcile by (auto simp: op_keeps_def)

lemma frame_eval:
  "bs_reservations (snd (eval_reservation env ctx cents st)) = bs_reservations st \<and>
   bs_denials (snd (eval_reservation env ctx cents st)) = bs_denials st"
  by (simp add: eval_reservation_def split: prod.splits)

lemma frame_reserve_cents:
  "bs_reservations (snd (reserve_cents env ctx cents st)) = bs_reservations st \<and>
   bs_denials (snd (reserve_cents env ctx cents st)) = bs_denials st"
proof -
  let ?P = "\<lambda>s. bs_reservations s = bs_reservations st \<and> bs_denials s = bs_denials st"
  have "op_keeps ?P (reserve_cents env ctx cents)"
    unfolding reserve_cents_def
    by (intro op_keeps_bind) (auto simp: op_keeps_def[of _ "eval_reservation _ _ _"] frame_eval
        op_keeps_def[of _ "reconcile _ _"] frame_reconcile)
  then show ?thesis by (simp add: op_keeps_def)
qed

lemma eval_reservation_result:
  "eval_reservation env ctx cents st = (Inr (s, x), st') \<Longrightarrow> s = 1 \<or> s = 0 \<or> s = -1"
  by (auto simp: eval_reservation_def RESERVATION_SCRIPT_def counter_keys_def
      split: option.splits if_splits)

lemma admit_denied:
  assumes "admit_reservation env ctx amount caps res st = (Inl (BudgetExceededError m), st')"
  shows "fst res \<noteq> 1 \<and> bs_reservations st' = bs_reservations st \<and>
    (\<exists>d. bs_denials st' = bs_denials st @ [d] \<and> dn_context d = ctx \<and> dn_requested_amount_usd d = num6 amount)"
proof -
  obtain s t d mo where res: "res = (s, t, d, mo)" by (cases res)
  show ?thesis
  proof (cases "s = 1")
    case True
    with assms show ?thesis
      by (auto simp: res admit_reservation_def insert_reservation_def numeric_overflow_def rls_violation_def
          split: if_splits)
  next
    case False
    with assms show ?thesis
      by (auto simp: res admit_reservation_def op_bind_def insert_denial_def numeric_overflow_def
          rls_violation_def split: if_splits)
  qed
qed

lemma load_caps_not_exceeded: "load_caps env ctx st \<noteq> Inl (BudgetExceededError m)"
  by (simp add: load_caps_def split: option.splits)

lemma ensure_not_exceeded: "fst (ensure_counters env ctx st) \<noteq> Inl (BudgetExceededError m)"
  by (auto simp: ensure_counters_def counter_keys_def op_bind_def reconcile_def Let_def load_caps_not_exceeded
      split: sum.splits prod.splits if_splits)

lemma reserve_cents_not_exceeded: "fst (reserve_cents env ctx cents st) \<noteq> Inl (BudgetExceededError m)"
  by (auto simp: reserve_cents_def op_bind_def eval_reservation_def reconcile_def Let_def counter_keys_def
      split: sum.splits prod.splits if_splits) (metis load_caps_not_exceeded)+

text \<open>A denial is harmless and recorded. When \<open>reserve\<close> raises \<open>BudgetExceededError\<close>, no
  reservation was added, some counter was below the requested cents, and exactly one denial row
  with the requested amount was written.\<close>

theorem denial_recorded:
  assumes "reserve env ctx amount st = (Inl (BudgetExceededError m), st')"
  shows "bs_reservations st' = bs_reservations st \<and>
    (\<exists>d. bs_denials st' = bs_denials st @ [d] \<and> dn_context d = ctx \<and> dn_requested_amount_usd d = num6 amount)"
proof -
  obtain caps where caps: "load_caps env ctx st = Inr caps"
    using assms by (cases "load_caps env ctx st") (auto simp: reserve_def op_bind_def load_caps_not_exceeded)
  obtain q st1 where e: "ensure_counters env ctx st = (q, st1)" by fastforce
  then have q: "q = Inr ()"
    using assms caps ensure_not_exceeded[of env ctx st m] by (cases q) (auto simp: reserve_def op_bind_def)
  obtain res st2 where c: "reserve_cents env ctx (usd_to_cents amount) st1 = (res, st2)" by fastforce
  then obtain x where x: "res = Inr x"
    using assms caps e q reserve_cents_not_exceeded[of env ctx "usd_to_cents amount" st1 m]
    by (cases res) (auto simp: reserve_def op_bind_def)
  from assms caps e q c x have "admit_reservation env ctx amount caps x st2 = (Inl (BudgetExceededError m), st')"
    by (simp add: reserve_def)
  from admit_denied[OF this] frame_reserve_cents[of env ctx "usd_to_cents amount" st1] frame_ensure[of env ctx st] c e
  show ?thesis by auto
qed

lemma denial_recorded_witness:
  "bs_reservations (snd (reserve (env_at True 1 ''a'') (witness_ctx ''r'') 6 configured)) = bs_reservations configured"
proof -
  have "fst (reserve (env_at True 1 ''a'') (witness_ctx ''r'') 6 configured) = Inl (BudgetExceededError ''budget_exhausted'')"
    by code_simp
  then have "reserve (env_at True 1 ''a'') (witness_ctx ''r'') 6 configured =
      (Inl (BudgetExceededError ''budget_exhausted''), snd (reserve (env_at True 1 ''a'') (witness_ctx ''r'') 6 configured))"
    by (metis prod.collapse)
  from denial_recorded[OF this] show ?thesis by blast
qed

text \<open>Sub-cent reservations are never charged against the counters. An amount below half a cent
  converts to zero cents: with all counters present, even at zero, the script admits it and the
  counters stay as they are, so any number of such reservations passes an exhausted budget.\<close>

theorem sub_cent_unmetered:
  assumes "0 \<le> amount" "amount < 1 / 200" "bs_redis_up st" "counters_nonneg st"
    and "dict_has (bs_redis st) (ticket_counter (bx_run_id ctx))"
    and "dict_has (bs_redis st) (daily_counter (bx_tenant_id ctx) (bx_team_id ctx) (be_now env))"
    and "dict_has (bs_redis st) (monthly_counter (bx_tenant_id ctx) (bx_team_id ctx) (be_now env))"
    and "reserve_cents env ctx (usd_to_cents amount) st = (res, st')"
  shows "\<exists>t d m. res = Inr (1, t, d, m) \<and> dict_get (bs_redis st') = dict_get (bs_redis st)"
proof -
  have cents: "usd_to_cents amount = 0"
    using assms(1,2) by (simp add: usd_to_cents_def round_half_up_zero)
  obtain t d m where g: "dict_get (bs_redis st) (ticket_counter (bx_run_id ctx)) = Some t"
    "dict_get (bs_redis st) (daily_counter (bx_tenant_id ctx) (bx_team_id ctx) (be_now env)) = Some d"
    "dict_get (bs_redis st) (monthly_counter (bx_tenant_id ctx) (bx_team_id ctx) (be_now env)) = Some m"
    using assms(5-7) by (auto simp: dict_has_def)
  with assms(4) have "0 \<le> t" "0 \<le> d" "0 \<le> m" by (auto simp: counters_nonneg_def)
  with assms(3,8) g cents have "res = Inr (1, t, d, m)" "st' = set_counters env ctx t d m st"
    by (auto simp: reserve_cents_def op_bind_def eval_reservation_def RESERVATION_SCRIPT_def
        counter_keys_def set_counters_def)
  with g show ?thesis by (auto simp: set_counters_def fun_eq_iff)
qed

lemma sub_cent_unmetered_witness:
  "\<exists>t d m. fst (reserve_cents (env_at True 1 ''a'') (witness_ctx ''r'') (usd_to_cents (1 / 250))
     (set_counters (env_at True 1 ''a'') (witness_ctx ''r'') 0 0 0 empty_budget)) = Inr (1, t, d, m)"
proof -
  let ?st = "set_counters (env_at True 1 ''a'') (witness_ctx ''r'') 0 0 0 empty_budget"
  have "counters_nonneg ?st" by (auto simp: counters_nonneg_def set_counters_def empty_budget_def split: if_splits)
  with sub_cent_unmetered[of "1 / 250" ?st "witness_ctx ''r''" "env_at True 1 ''a''", OF _ _ _ _ _ _ _ prod.collapse[symmetric]]
  show ?thesis by (auto simp: set_counters_def empty_budget_def dict_has_def)
qed

definition day :: "int \<Rightarrow> datetime" where "day n = n * day_us"

text \<open>A history over a midnight, with the state after each of its steps.\<close>

definition midnight_history :: "(BudgetEnv \<times> budget_op) list" where
  "midnight_history =
     [(env_at True (day 0) ''u'', Configure (witness_ctx ''r'') (caps_usd 100 10 100)),
      (env_at True (day 0) ''a'', Reserve (witness_ctx ''r'') 10),
      (env_at True (day 1) ''u'', Balance (witness_ctx ''r'')),
      (env_at True (day 1) ''u'', Settle ''a'' 0)]"

definition midnight_caps :: "CapRow list" where
  "midnight_caps = [\<lparr>cp_context = witness_ctx ''r'', cp_caps = caps_usd 100 10 100\<rparr>]"

definition midnight_row :: ReservationRow where
  "midnight_row = \<lparr>rv_reservation_id = ''a'', rv_context = witness_ctx ''r'', rv_reserved_amount_usd = 10,
     rv_caps = caps_usd 100 10 100, rv_remaining = (90, 0, 90), rv_status = Active,
     rv_release_reason = None, rv_released_amount_usd = None, rv_created_at = 0\<rparr>"

definition midnight_state :: "ReservationRow list \<Rightarrow> ChargeRow list \<Rightarrow> int \<Rightarrow> int \<Rightarrow> int option \<Rightarrow> BudgetState" where
  "midnight_state rs cs ticket daily today =
     \<lparr>bs_caps = midnight_caps, bs_reservations = rs, bs_charges = cs, bs_denials = [],
      bs_redis = [(''budget:ticket:r'', ticket), (''budget:team:daily:t:m:19700101'', daily),
        (''budget:team:monthly:t:m:197001'', ticket)] @
        (case today of None \<Rightarrow> [] | Some v \<Rightarrow> [(''budget:team:daily:t:m:19700102'', v)]),
      bs_redis_up = True\<rparr>"

definition midnight_charge :: ChargeRow where
  "midnight_charge = \<lparr>ch_reservation_id = ''a'', ch_tenant_id = ''t'', ch_team_id = ''m'', ch_run_id = ''r'',
     ch_estimated_cost_usd = 10, ch_actual_cost_usd = 0, ch_refunded_amount_usd = 10, ch_created_at = day 1\<rparr>"

lemma midnight_1:
  "budget_step (env_at True (day 0) ''u'') (Configure (witness_ctx ''r'') (caps_usd 100 10 100)) empty_budget =
   midnight_state [] [] 10000 1000 None"
  by code_simp

lemma midnight_2:
  "budget_step (env_at True (day 0) ''a'') (Reserve (witness_ctx ''r'') 10) (midnight_state [] [] 10000 1000 None) =
   midnight_state [midnight_row] [] 9000 0 None"
  by code_simp

lemma midnight_3:
  "budget_step (env_at True (day 1) ''u'') (Balance (witness_ctx ''r'')) (midnight_state [midnight_row] [] 9000 0 None) =
   midnight_state [midnight_row] [] 9000 0 (Some 1000)"
  by code_simp

lemma midnight_4:
  "budget_step (env_at True (day 1) ''u'') (Settle ''a'' 0) (midnight_state [midnight_row] [] 9000 0 (Some 1000)) =
   midnight_state [midnight_row\<lparr>rv_status := Settled, rv_release_reason := Some ''settled'',
     rv_released_amount_usd := Some 10\<rparr>] [midnight_charge] 10000 0 (Some 2000)"
  by code_simp

lemma midnight_final:
  "run_budget midnight_history empty_budget =
   midnight_state [midnight_row\<lparr>rv_status := Settled, rv_release_reason := Some ''settled'',
     rv_released_amount_usd := Some 10\<rparr>] [midnight_charge] 10000 0 (Some 2000)"
  unfolding midnight_history_def run_budget.simps midnight_1 midnight_2 midnight_3 midnight_4 ..

text \<open>A settlement after midnight raises the daily cap. The refund is credited to the counter
  of the day of the settlement: a reservation made the day before and settled today at no cost
  leaves today's counter above the daily cap, and a single reservation of twice the daily cap is
  admitted.\<close>

theorem midnight_refund_exceeds_daily_cap:
  "dict_get (bs_redis (run_budget midnight_history empty_budget)) (daily_counter ''t'' ''m'' (day 1)) = Some 2000 \<and>
   map (\<lambda>r. cap_daily_team_cap_usd (cp_caps r)) (bs_caps (run_budget midnight_history empty_budget)) = [10] \<and>
   (case fst (reserve (env_at True (day 1) ''b'') (witness_ctx ''r'') 20 (run_budget midnight_history empty_budget)) of
      Inr r \<Rightarrow> bv_reserved_amount_usd r = 20 | Inl _ \<Rightarrow> False)"
  unfolding midnight_final by code_simp

end
