(* ===== verification/BudgetMemory.thy ===== *)
theory BudgetMemory
  imports BudgetCorrect
begin

text \<open>
  \<open>InMemoryBudgetLedger\<close> of \<open>persistence/testing/governance.py\<close>, the ledger of a process without a
  database: aggregated spending per run and team, and the open reservations. Against it stand a journal
  of what happened, from which the aggregates can be recomputed, and the caps.
\<close>

section \<open>The ledger\<close>

record BudgetSettlement =
  bz_reservation_id :: str
  bz_estimated_cost_usd :: decimal
  bz_actual_cost_usd :: decimal
  bz_refunded_amount_usd :: decimal

record OrphanedReservationRelease =
  bo_reservation_id :: str
  bo_released_amount_usd :: decimal
  bo_reason :: str

record ActiveReservation =
  av_reservation_id :: str
  av_context :: BudgetContext
  av_reserved_amount_usd :: decimal

record InMemoryBudgetLedger =
  im_caps_by_run :: "(str \<times> BudgetCaps) list"
  im_team_caps :: "((str \<times> str) \<times> BudgetCaps) list"
  im_ticket_spend :: "(str \<times> decimal) list"
  im_team_daily_spend :: "((str \<times> str) \<times> decimal) list"
  im_team_monthly_spend :: "((str \<times> str) \<times> decimal) list"
  im_active_reservations :: "(str \<times> ActiveReservation) list"
  im_settlements :: "BudgetSettlement list"
  im_orphaned_releases :: "OrphanedReservationRelease list"

definition new_memory_ledger :: InMemoryBudgetLedger where
  "new_memory_ledger = \<lparr>im_caps_by_run = [], im_team_caps = [], im_ticket_spend = [], im_team_daily_spend = [],
     im_team_monthly_spend = [], im_active_reservations = [], im_settlements = [], im_orphaned_releases = []\<rparr>"

definition team_key :: "BudgetContext \<Rightarrow> str \<times> str" where
  "team_key ctx = (bx_tenant_id ctx, bx_team_id ctx)"

definition mem_configure_caps :: "BudgetContext \<Rightarrow> BudgetCaps \<Rightarrow> InMemoryBudgetLedger \<Rightarrow> InMemoryBudgetLedger" where
  "mem_configure_caps ctx caps st =
     st\<lparr>im_caps_by_run := dict_set (bx_run_id ctx) caps (im_caps_by_run st),
        im_team_caps := dict_set (team_key ctx) caps (im_team_caps st)\<rparr>"

definition caps_for_context :: "BudgetContext \<Rightarrow> InMemoryBudgetLedger \<Rightarrow> BudgetCaps result" where
  "caps_for_context ctx st =
     (if \<not> dict_has (im_caps_by_run st) (bx_run_id ctx) \<or> \<not> dict_has (im_team_caps st) (team_key ctx)
      then Inl (ValueError (''Budget caps were not configured for run `'' @ bx_run_id ctx @ ''`.''))
      else Inr (the (dict_get (im_caps_by_run st) (bx_run_id ctx))))"

definition reserved_amount :: "(BudgetContext \<Rightarrow> bool) \<Rightarrow> InMemoryBudgetLedger \<Rightarrow> decimal" where
  "reserved_amount P st =
     sum_list (map (av_reserved_amount_usd \<circ> snd) (filter (\<lambda>p. P (av_context (snd p))) (im_active_reservations st)))"

definition reserved_amount_for_run :: "str \<Rightarrow> InMemoryBudgetLedger \<Rightarrow> decimal" where
  "reserved_amount_for_run run_id = reserved_amount (\<lambda>ctx. bx_run_id ctx = run_id)"

definition reserved_amount_for_team :: "str \<times> str \<Rightarrow> InMemoryBudgetLedger \<Rightarrow> decimal" where
  "reserved_amount_for_team team = reserved_amount (\<lambda>ctx. team_key ctx = team)"

text \<open>\<open>uuid\<close> is the fresh identifier.\<close>

definition mem_reserve :: "str \<Rightarrow> BudgetContext \<Rightarrow> decimal \<Rightarrow> (InMemoryBudgetLedger, BudgetReservation) operation" where
  "mem_reserve uuid ctx amount st =
     (case caps_for_context ctx st of
        Inl e \<Rightarrow> (Inl e, st)
      | Inr caps \<Rightarrow>
          let ticket_used = dict_getd (im_ticket_spend st) (bx_run_id ctx) 0;
              daily_used = dict_getd (im_team_daily_spend st) (team_key ctx) 0;
              monthly_used = dict_getd (im_team_monthly_spend st) (team_key ctx) 0;
              ticket_reserved = reserved_amount_for_run (bx_run_id ctx) st;
              team_reserved = reserved_amount_for_team (team_key ctx) st
          in if ticket_used + ticket_reserved + amount > cap_ticket_cap_usd caps
             then (Inl (BudgetExceededError ''budget_exhausted''), st)
             else if daily_used + team_reserved + amount > cap_daily_team_cap_usd caps
             then (Inl (BudgetExceededError ''budget_exhausted''), st)
             else if monthly_used + team_reserved + amount > cap_monthly_team_cap_usd caps
             then (Inl (BudgetExceededError ''budget_exhausted''), st)
             else (Inr \<lparr>bv_reservation_id = uuid, bv_reserved_amount_usd = amount,
                     bv_ticket_cap_remaining_usd = cap_ticket_cap_usd caps - (ticket_used + ticket_reserved + amount),
                     bv_daily_team_cap_remaining_usd = cap_daily_team_cap_usd caps - (daily_used + team_reserved + amount),
                     bv_monthly_team_cap_remaining_usd =
                       cap_monthly_team_cap_usd caps - (monthly_used + team_reserved + amount)\<rparr>,
                   st\<lparr>im_active_reservations := dict_set uuid
                        \<lparr>av_reservation_id = uuid, av_context = ctx, av_reserved_amount_usd = amount\<rparr>
                        (im_active_reservations st)\<rparr>))"

text \<open>\<open>pop\<close> takes the reservation out before anything is checked.\<close>

definition pop_reservation :: "str \<Rightarrow> (InMemoryBudgetLedger, ActiveReservation) operation" where
  "pop_reservation reservation_id st =
     (case dict_get (im_active_reservations st) reservation_id of
        None \<Rightarrow> (Inl (KeyError reservation_id), st)
      | Some r \<Rightarrow> (Inr r, st\<lparr>im_active_reservations := dict_pop reservation_id (im_active_reservations st)\<rparr>))"

definition add_spend :: "'k \<Rightarrow> decimal \<Rightarrow> ('k \<times> decimal) list \<Rightarrow> ('k \<times> decimal) list" where
  "add_spend k x d = dict_set k (dict_getd d k 0 + x) d"

definition mem_settle :: "str \<Rightarrow> decimal \<Rightarrow> (InMemoryBudgetLedger, unit) operation" where
  "mem_settle reservation_id actual =
     op_bind (pop_reservation reservation_id) (\<lambda>r st.
       if actual > av_reserved_amount_usd r
       then (Inl (ValueError ''Actual cost exceeded the reserved worst-case estimate.''), st)
       else let ctx = av_context r in
         (Inr (), st\<lparr>im_ticket_spend := add_spend (bx_run_id ctx) actual (im_ticket_spend st),
            im_team_daily_spend := add_spend (team_key ctx) actual (im_team_daily_spend st),
            im_team_monthly_spend := add_spend (team_key ctx) actual (im_team_monthly_spend st),
            im_settlements := im_settlements st @ [\<lparr>bz_reservation_id = reservation_id,
              bz_estimated_cost_usd = av_reserved_amount_usd r, bz_actual_cost_usd = actual,
              bz_refunded_amount_usd = av_reserved_amount_usd r - actual\<rparr>]\<rparr>))"

definition mem_release_orphaned :: "str \<Rightarrow> str \<Rightarrow> (InMemoryBudgetLedger, unit) operation" where
  "mem_release_orphaned reservation_id reason =
     op_bind (pop_reservation reservation_id) (\<lambda>r st.
       (Inr (), st\<lparr>im_orphaned_releases := im_orphaned_releases st @ [\<lparr>bo_reservation_id = reservation_id,
          bo_released_amount_usd = av_reserved_amount_usd r, bo_reason = reason\<rparr>]\<rparr>))"

definition mem_balance :: "BudgetContext \<Rightarrow> InMemoryBudgetLedger \<Rightarrow> BudgetBalance result" where
  "mem_balance ctx st =
     bind_result (caps_for_context ctx st) (\<lambda>caps.
       let ticket_used = dict_getd (im_ticket_spend st) (bx_run_id ctx) 0;
           daily_used = dict_getd (im_team_daily_spend st) (team_key ctx) 0;
           monthly_used = dict_getd (im_team_monthly_spend st) (team_key ctx) 0;
           ticket_reserved = reserved_amount_for_run (bx_run_id ctx) st;
           team_reserved = reserved_amount_for_team (team_key ctx) st
       in Inr \<lparr>bb_ticket_remaining_usd = cap_ticket_cap_usd caps - (ticket_used + ticket_reserved),
            bb_daily_team_remaining_usd = cap_daily_team_cap_usd caps - (daily_used + team_reserved),
            bb_monthly_team_remaining_usd = cap_monthly_team_cap_usd caps - (monthly_used + team_reserved)\<rparr>)"

section \<open>Histories\<close>

datatype ledger_call =
    Configure_caps BudgetContext BudgetCaps
  | Reserve_amount str BudgetContext decimal
  | Settle_at str decimal
  | Release_at str str

fun ledger_step :: "ledger_call \<Rightarrow> InMemoryBudgetLedger \<Rightarrow> InMemoryBudgetLedger" where
  "ledger_step (Configure_caps ctx caps) st = mem_configure_caps ctx caps st"
| "ledger_step (Reserve_amount uuid ctx amount) st = snd (mem_reserve uuid ctx amount st)"
| "ledger_step (Settle_at i actual) st = snd (mem_settle i actual st)"
| "ledger_step (Release_at i reason) st = snd (mem_release_orphaned i reason st)"

section \<open>The journal\<close>

text \<open>The specification keeps what happened and no totals: caps as last configured, open reservations, and
  the charges in order. What is left is computed from it.\<close>

record Journal =
  jo_run_caps :: "str \<Rightarrow> BudgetCaps option"
  jo_teams :: "(str \<times> str) set"
  jo_open :: "(str \<times> BudgetContext \<times> decimal) list"
  jo_charges :: "(BudgetContext \<times> decimal) list"

definition committed :: "(BudgetContext \<Rightarrow> bool) \<Rightarrow> Journal \<Rightarrow> decimal" where
  "committed P j =
     sum_list (map snd (filter (\<lambda>c. P (fst c)) (jo_charges j))) +
     sum_list (map (snd \<circ> snd) (filter (\<lambda>r. P (fst (snd r))) (jo_open j)))"

definition of_run :: "str \<Rightarrow> BudgetContext \<Rightarrow> bool" where
  "of_run r ctx \<longleftrightarrow> bx_run_id ctx = r"

definition of_team :: "str \<times> str \<Rightarrow> BudgetContext \<Rightarrow> bool" where
  "of_team t ctx \<longleftrightarrow> team_key ctx = t"

definition fits :: "BudgetContext \<Rightarrow> decimal \<Rightarrow> Journal \<Rightarrow> bool" where
  "fits ctx amount j \<longleftrightarrow>
     (case jo_run_caps j (bx_run_id ctx) of
        None \<Rightarrow> False
      | Some caps \<Rightarrow> team_key ctx \<in> jo_teams j \<and>
          committed (of_run (bx_run_id ctx)) j + amount \<le> cap_ticket_cap_usd caps \<and>
          committed (of_team (team_key ctx)) j + amount \<le> cap_daily_team_cap_usd caps \<and>
          committed (of_team (team_key ctx)) j + amount \<le> cap_monthly_team_cap_usd caps)"

fun journal_step :: "ledger_call \<Rightarrow> Journal \<Rightarrow> Journal" where
  "journal_step (Configure_caps ctx caps) j =
     j\<lparr>jo_run_caps := (jo_run_caps j)(bx_run_id ctx \<mapsto> caps), jo_teams := insert (team_key ctx) (jo_teams j)\<rparr>"
| "journal_step (Reserve_amount uuid ctx amount) j =
     (if fits ctx amount j then j\<lparr>jo_open := dict_set uuid (ctx, amount) (jo_open j)\<rparr> else j)"
| "journal_step (Settle_at i actual) j =
     (case dict_get (jo_open j) i of
        None \<Rightarrow> j
      | Some (ctx, amount) \<Rightarrow>
          j\<lparr>jo_open := dict_pop i (jo_open j),
            jo_charges := jo_charges j @ (if actual \<le> amount then [(ctx, actual)] else [])\<rparr>)"
| "journal_step (Release_at i reason) j = j\<lparr>jo_open := dict_pop i (jo_open j)\<rparr>"

definition empty_journal :: Journal where
  "empty_journal = \<lparr>jo_run_caps = (\<lambda>_. None), jo_teams = {}, jo_open = [], jo_charges = []\<rparr>"

text \<open>The totals of a ledger are those of its journal.\<close>

definition charged_to :: "(BudgetContext \<Rightarrow> bool) \<Rightarrow> Journal \<Rightarrow> decimal" where
  "charged_to P j = sum_list (map snd (filter (\<lambda>c. P (fst c)) (jo_charges j)))"

definition implements :: "InMemoryBudgetLedger \<Rightarrow> Journal \<Rightarrow> bool" where
  "implements st j \<longleftrightarrow>
     dict_get (im_caps_by_run st) = jo_run_caps j \<and>
     (\<forall>t. dict_has (im_team_caps st) t \<longleftrightarrow> t \<in> jo_teams j) \<and>
     map (\<lambda>(i, r). (i, av_context r, av_reserved_amount_usd r)) (im_active_reservations st) = jo_open j \<and>
     (\<forall>r. dict_getd (im_ticket_spend st) r 0 = charged_to (of_run r) j) \<and>
     (\<forall>t. dict_getd (im_team_daily_spend st) t 0 = charged_to (of_team t) j) \<and>
     (\<forall>t. dict_getd (im_team_monthly_spend st) t 0 = charged_to (of_team t) j)"

section \<open>The ledger implements its journal\<close>

declare split_paired_All [simp del]

lemma reserved_amount_journal:
  assumes "implements st j"
  shows "reserved_amount P st = sum_list (map (snd \<circ> snd) (filter (\<lambda>r. P (fst (snd r))) (jo_open j)))"
proof -
  have "jo_open j = map (\<lambda>(i, r). (i, av_context r, av_reserved_amount_usd r)) (im_active_reservations st)"
    using assms by (simp add: implements_def)
  moreover have "sum_list (map (av_reserved_amount_usd \<circ> snd) (filter (\<lambda>p. P (av_context (snd p))) rs)) =
      sum_list (map (snd \<circ> snd) (filter (\<lambda>r. P (fst (snd r)))
        (map (\<lambda>(i, r). (i, av_context r, av_reserved_amount_usd r)) rs)))" for rs
    by (induction rs) auto
  ultimately show ?thesis by (simp add: reserved_amount_def)
qed

lemma committed_split: "committed P j = charged_to P j + sum_list (map (snd \<circ> snd) (filter (\<lambda>r. P (fst (snd r))) (jo_open j)))"
  by (simp add: committed_def charged_to_def)

lemma used_run: "implements st j \<Longrightarrow>
    dict_getd (im_ticket_spend st) r 0 + reserved_amount_for_run r st = committed (of_run r) j"
  by (simp add: reserved_amount_for_run_def reserved_amount_journal committed_split of_run_def[abs_def])
    (simp add: implements_def of_run_def[abs_def])

lemma used_team: "implements st j \<Longrightarrow>
    dict_getd (im_team_daily_spend st) t 0 + reserved_amount_for_team t st = committed (of_team t) j \<and>
    dict_getd (im_team_monthly_spend st) t 0 + reserved_amount_for_team t st = committed (of_team t) j"
  by (simp add: reserved_amount_for_team_def reserved_amount_journal committed_split of_team_def[abs_def])
    (simp add: implements_def of_team_def[abs_def])

lemma caps_journal:
  assumes "implements st j"
  shows "caps_for_context ctx st =
    (case jo_run_caps j (bx_run_id ctx) of
       Some caps \<Rightarrow> if team_key ctx \<in> jo_teams j then Inr caps
         else Inl (ValueError (''Budget caps were not configured for run `'' @ bx_run_id ctx @ ''`.''))
     | None \<Rightarrow> Inl (ValueError (''Budget caps were not configured for run `'' @ bx_run_id ctx @ ''`.'')))"
  using assms by (auto simp: caps_for_context_def implements_def dict_has_def split: option.splits)

lemma reserve_fits:
  assumes "implements st j"
  shows "fits ctx amount j \<longleftrightarrow> (\<exists>res. fst (mem_reserve uuid ctx amount st) = Inr res)"
    and "snd (mem_reserve uuid ctx amount st) =
      (if fits ctx amount j then st\<lparr>im_active_reservations := dict_set uuid
         \<lparr>av_reservation_id = uuid, av_context = ctx, av_reserved_amount_usd = amount\<rparr> (im_active_reservations st)\<rparr> else st)"
  using used_run[OF assms, of "bx_run_id ctx"] used_team[OF assms, of "team_key ctx"]
  by (auto simp: mem_reserve_def caps_journal[OF assms] fits_def Let_def split: option.splits)

lemma map_dict_set:
  "map (\<lambda>(i, r). (i, f r)) (dict_set k v d) = dict_set k (f v) (map (\<lambda>(i, r). (i, f r)) d)"
  by (induction d) auto

lemma map_dict_pop: "map (\<lambda>(i, r). (i, f r)) (dict_pop k d) = dict_pop k (map (\<lambda>(i, r). (i, f r)) d)"
  by (induction d) (auto simp: dict_pop_def)

lemma map_dict_get: "dict_get (map (\<lambda>(i, r). (i, f r)) d) k = map_option f (dict_get d k)"
  by (induction d) auto

lemma open_journal:
  "implements st j \<Longrightarrow> jo_open j = map (\<lambda>(i, r). (i, (\<lambda>r. (av_context r, av_reserved_amount_usd r)) r)) (im_active_reservations st)"
  by (simp add: implements_def)

lemma dict_pop_absent: "dict_get d k = None \<Longrightarrow> dict_pop k d = d"
  by (auto simp: dict_pop_def dict_get_None_iff filter_id_conv)

lemma implements_open:
  assumes "implements st j"
  shows "implements (st\<lparr>im_active_reservations := dict_pop i (im_active_reservations st)\<rparr>) (j\<lparr>jo_open := dict_pop i (jo_open j)\<rparr>)"
    and "implements (st\<lparr>im_active_reservations := dict_set i \<lparr>av_reservation_id = i, av_context = ctx, av_reserved_amount_usd = a\<rparr>
      (im_active_reservations st)\<rparr>) (j\<lparr>jo_open := dict_set i (ctx, a) (jo_open j)\<rparr>)"
proof -
  let ?f = "\<lambda>r. (av_context r, av_reserved_amount_usd r)"
  have "dict_pop i (jo_open j) = map (\<lambda>(i, r). (i, ?f r)) (dict_pop i (im_active_reservations st))"
    "dict_set i (ctx, a) (jo_open j) = map (\<lambda>(i, r). (i, ?f r)) (dict_set i \<lparr>av_reservation_id = i, av_context = ctx,
        av_reserved_amount_usd = a\<rparr> (im_active_reservations st))"
    unfolding open_journal[OF assms] map_dict_pop map_dict_set by simp_all
  with assms show "implements (st\<lparr>im_active_reservations := dict_pop i (im_active_reservations st)\<rparr>) (j\<lparr>jo_open := dict_pop i (jo_open j)\<rparr>)"
    "implements (st\<lparr>im_active_reservations := dict_set i \<lparr>av_reservation_id = i, av_context = ctx, av_reserved_amount_usd = a\<rparr>
      (im_active_reservations st)\<rparr>) (j\<lparr>jo_open := dict_set i (ctx, a) (jo_open j)\<rparr>)"
    by (simp_all add: implements_def charged_to_def)
qed

lemma add_spend_get [simp]: "dict_getd (add_spend k x d) k' 0 = dict_getd d k' 0 + (if k = k' then x else 0)"
  by (simp add: add_spend_def dict_getd_def)

lemma charged_to_open [simp]: "charged_to P (j\<lparr>jo_open := os\<rparr>) = charged_to P j"
  by (simp add: charged_to_def)

lemma charged_to_charge:
  "charged_to P (j\<lparr>jo_open := os, jo_charges := jo_charges j @ [(ctx, a)]\<rparr>) = charged_to P j + (if P ctx then a else 0)"
  by (simp add: charged_to_def)

lemma implements_step:
  assumes "implements st j"
  shows "implements (ledger_step call st) (journal_step call j)"
proof (cases call)
  case (Configure_caps ctx caps)
  with assms show ?thesis
    by (auto simp: implements_def mem_configure_caps_def charged_to_def dict_get_set_fun)
next
  case (Reserve_amount uuid ctx amount)
  with assms reserve_fits(2)[OF assms, of uuid ctx amount] implements_open(2)[OF assms, of uuid ctx amount]
  show ?thesis by simp
next
  case (Release_at i reason)
  show ?thesis
  proof (cases "dict_get (im_active_reservations st) i")
    case None
    then have "dict_pop i (jo_open j) = jo_open j"
      by (intro dict_pop_absent) (simp add: open_journal[OF assms] map_dict_get)
    with None Release_at assms show ?thesis by (simp add: mem_release_orphaned_def pop_reservation_def op_bind_def)
  next
    case (Some r)
    with Release_at implements_open(1)[OF assms, of i] show ?thesis
      by (simp add: mem_release_orphaned_def pop_reservation_def op_bind_def implements_def charged_to_def)
  qed
next
  case (Settle_at i actual)
  show ?thesis
  proof (cases "dict_get (im_active_reservations st) i")
    case None
    then have "dict_get (jo_open j) i = None" by (simp add: open_journal[OF assms] map_dict_get)
    with None Settle_at assms show ?thesis by (simp add: mem_settle_def pop_reservation_def op_bind_def)
  next
    case (Some r)
    then have "dict_get (jo_open j) i = Some (av_context r, av_reserved_amount_usd r)"
      by (simp add: open_journal[OF assms] map_dict_get)
    with Some Settle_at implements_open(1)[OF assms, of i] show ?thesis
      by (auto simp: mem_settle_def pop_reservation_def op_bind_def implements_def charged_to_charge of_run_def of_team_def Let_def)
  qed
qed

lemma implements_history: "implements (fold ledger_step calls st) (fold journal_step calls j)" if "implements st j"
  using that by (induction calls arbitrary: st j) (simp_all add: implements_step)

lemma implements_empty: "implements new_memory_ledger empty_journal"
  by (auto simp: implements_def new_memory_ledger_def empty_journal_def charged_to_def dict_getd_def dict_has_def)

text \<open>C34 (the ledger implements its journal). After every history of calls the totals of the ledger are
  those of the journal of the same calls; it then grants a reservation exactly when the amount fits
  under the ticket cap of the run and the caps of the team, and the balance it answers is what the
  journal leaves of them.\<close>

theorem memory_ledger_refines_journal:
  fixes calls :: "ledger_call list"
  defines "st \<equiv> fold ledger_step calls new_memory_ledger" and "j \<equiv> fold journal_step calls empty_journal"
  shows "implements st j \<and>
    (\<forall>uuid ctx amount. (\<exists>res. fst (mem_reserve uuid ctx amount st) = Inr res) = fits ctx amount j) \<and>
    (\<forall>ctx. mem_balance ctx st = bind_result (caps_for_context ctx st) (\<lambda>caps. Inr
       \<lparr>bb_ticket_remaining_usd = cap_ticket_cap_usd caps - committed (of_run (bx_run_id ctx)) j,
        bb_daily_team_remaining_usd = cap_daily_team_cap_usd caps - committed (of_team (team_key ctx)) j,
        bb_monthly_team_remaining_usd = cap_monthly_team_cap_usd caps - committed (of_team (team_key ctx)) j\<rparr>))"
proof -
  have i: "implements st j" unfolding st_def j_def by (rule implements_history[OF implements_empty])
  then show ?thesis
    by (simp add: reserve_fits(1)[OF i, symmetric] mem_balance_def used_run[OF i] used_team[OF i] Let_def)
qed

section \<open>The caps hold\<close>

definition open_sum :: "(BudgetContext \<Rightarrow> bool) \<Rightarrow> (str \<times> BudgetContext \<times> decimal) list \<Rightarrow> decimal" where
  "open_sum P os = sum_list (map (snd \<circ> snd) (filter (\<lambda>r. P (fst (snd r))) os))"

definition open_nonneg :: "(str \<times> BudgetContext \<times> decimal) list \<Rightarrow> bool" where
  "open_nonneg os \<longleftrightarrow> (\<forall>r \<in> set os. 0 \<le> snd (snd r))"

lemma committed_open: "committed P j = charged_to P j + open_sum P (jo_open j)"
  by (simp add: committed_split open_sum_def)

lemma open_sum_Cons [simp]: "open_sum P ((i, ctx, a) # os) = (if P ctx then a else 0) + open_sum P os" "open_sum P [] = 0"
  by (simp_all add: open_sum_def)

lemma open_nonneg_Cons [simp]: "open_nonneg ((i, ctx, a) # os) \<longleftrightarrow> 0 \<le> a \<and> open_nonneg os" "open_nonneg []"
  by (auto simp: open_nonneg_def)

lemma open_sum_set:
  "open_nonneg os \<Longrightarrow> 0 \<le> a \<Longrightarrow> open_nonneg (dict_set i (ctx, a) os) \<and>
     open_sum P (dict_set i (ctx, a) os) \<le> open_sum P os + (if P ctx then a else 0)"
  by (induction os) (auto split: if_splits)

lemma open_sum_pop:
  "open_nonneg os \<Longrightarrow> open_nonneg (dict_pop i os) \<and> open_sum P (dict_pop i os) \<le> open_sum P os \<and>
     (\<forall>ctx a. dict_get os i = Some (ctx, a) \<longrightarrow> open_sum P (dict_pop i os) + (if P ctx then a else 0) \<le> open_sum P os)"
  by (induction os) (auto simp: dict_pop_def)

text \<open>What a history of calls may do: reserve no negative amount, and configure for the runs that \<open>Q\<close>
  selects a cap of at most \<open>c\<close>.\<close>

fun stays_within :: "(BudgetContext \<Rightarrow> bool) \<Rightarrow> (BudgetCaps \<Rightarrow> decimal) \<Rightarrow> decimal \<Rightarrow> ledger_call \<Rightarrow> bool" where
  "stays_within Q cap c (Configure_caps ctx caps) \<longleftrightarrow> (Q ctx \<longrightarrow> cap caps \<le> c)"
| "stays_within Q cap c (Reserve_amount uuid ctx amount) \<longleftrightarrow> 0 \<le> amount"
| "stays_within Q cap c _ \<longleftrightarrow> True"

text \<open>The general step: the commitments that \<open>P\<close> selects are checked against \<open>cap\<close> of the caps of a run
  that \<open>Q\<close> selects.\<close>

lemma committed_step:
  assumes "stays_within Q cap c call" "open_nonneg (jo_open j)" "committed P j \<le> c"
    and caps: "\<forall>ctx caps. Q ctx \<longrightarrow> jo_run_caps j (bx_run_id ctx) = Some caps \<longrightarrow> cap caps \<le> c"
    and check: "\<forall>ctx a caps. P ctx \<longrightarrow> fits ctx a j \<longrightarrow> jo_run_caps j (bx_run_id ctx) = Some caps \<longrightarrow>
      committed P j + a \<le> cap caps"
    and PQ: "\<forall>ctx. P ctx \<longrightarrow> Q ctx" and run: "\<forall>ctx ctx'. bx_run_id ctx = bx_run_id ctx' \<longrightarrow> Q ctx = Q ctx'"
  shows "open_nonneg (jo_open (journal_step call j)) \<and> committed P (journal_step call j) \<le> c \<and>
    (\<forall>ctx caps. Q ctx \<longrightarrow> jo_run_caps (journal_step call j) (bx_run_id ctx) = Some caps \<longrightarrow> cap caps \<le> c)"
proof (cases call)
  case (Configure_caps ctx0 caps0)
  have "cap caps' \<le> c" if "Q ctx" "((jo_run_caps j)(bx_run_id ctx0 \<mapsto> caps0)) (bx_run_id ctx) = Some caps'" for ctx caps'
  proof (cases "bx_run_id ctx = bx_run_id ctx0")
    case True
    then have "Q ctx0" using run that(1) by blast
    with assms(1) Configure_caps that(2) True show ?thesis by simp
  qed (use that caps in simp)
  with Configure_caps assms(2,3) show ?thesis by (simp add: committed_open charged_to_def)
next
  case (Reserve_amount uuid ctx amount)
  have "committed P j + (if P ctx then amount else 0) \<le> c" if "fits ctx amount j"
  proof (cases "P ctx")
    case True
    from that obtain caps' where c': "jo_run_caps j (bx_run_id ctx) = Some caps'" by (auto simp: fits_def split: option.splits)
    with check True that have "committed P j + amount \<le> cap caps'" by blast
    moreover have "cap caps' \<le> c" using caps PQ True c' by blast
    ultimately show ?thesis using True by simp
  qed (use assms(3) in simp)
  with Reserve_amount assms(1,2,3) caps open_sum_set[of "jo_open j" amount uuid ctx P] show ?thesis
    by (auto simp: committed_open)
next
  case (Settle_at i actual)
  with assms(2,3) caps open_sum_pop[of "jo_open j" i P] show ?thesis
    by (auto simp: committed_open charged_to_charge split: option.splits if_splits)
next
  case (Release_at i reason)
  with assms(2,3) caps open_sum_pop[of "jo_open j" i P] show ?thesis by (auto simp: committed_open)
qed

lemma committed_history:
  assumes "\<forall>call \<in> set calls. stays_within Q cap c call" "open_nonneg (jo_open j)" "committed P j \<le> c"
    and "\<forall>ctx caps. Q ctx \<longrightarrow> jo_run_caps j (bx_run_id ctx) = Some caps \<longrightarrow> cap caps \<le> c"
    and check: "\<forall>j ctx a caps. P ctx \<longrightarrow> fits ctx a j \<longrightarrow> jo_run_caps j (bx_run_id ctx) = Some caps \<longrightarrow>
      committed P j + a \<le> cap caps"
    and PQ: "\<forall>ctx. P ctx \<longrightarrow> Q ctx" and run: "\<forall>ctx ctx'. bx_run_id ctx = bx_run_id ctx' \<longrightarrow> Q ctx = Q ctx'"
  shows "committed P (fold journal_step calls j) \<le> c"
  using assms(1-4)
proof (induction calls arbitrary: j)
  case Nil
  then show ?case by simp
next
  case (Cons call calls)
  from committed_step[OF _ Cons.prems(2-4) _ PQ run, of call] Cons.prems(1) check
  have "open_nonneg (jo_open (journal_step call j)) \<and> committed P (journal_step call j) \<le> c \<and>
    (\<forall>ctx caps. Q ctx \<longrightarrow> jo_run_caps (journal_step call j) (bx_run_id ctx) = Some caps \<longrightarrow> cap caps \<le> c)"
    by simp
  with Cons.IH[of "journal_step call j"] Cons.prems(1) show ?case by simp
qed

text \<open>Whatever the history of calls, as long as no negative amount is reserved: what a run has spent and
  reserved is at most the largest ticket cap configured for it, and what a team has spent and reserved
  at most the largest daily cap configured.\<close>

theorem memory_ticket_cap_holds:
  assumes "\<forall>call \<in> set calls. stays_within (of_run r) cap_ticket_cap_usd c call" and "0 \<le> c"
  shows "dict_getd (im_ticket_spend (fold ledger_step calls new_memory_ledger)) r 0 +
    reserved_amount_for_run r (fold ledger_step calls new_memory_ledger) \<le> c"
  unfolding used_run[OF implements_history[OF implements_empty]]
  using assms
  by (intro committed_history[where Q = "of_run r" and cap = cap_ticket_cap_usd])
    (auto simp: empty_journal_def committed_def fits_def of_run_def split: option.splits)

theorem memory_daily_cap_holds:
  assumes "\<forall>call \<in> set calls. stays_within (\<lambda>_. True) cap_daily_team_cap_usd c call" and "0 \<le> c"
  shows "dict_getd (im_team_daily_spend (fold ledger_step calls new_memory_ledger)) t 0 +
    reserved_amount_for_team t (fold ledger_step calls new_memory_ledger) \<le> c"
  unfolding used_team[OF implements_history[OF implements_empty], THEN conjunct1]
  using assms
  by (intro committed_history[where Q = "\<lambda>_. True" and cap = cap_daily_team_cap_usd])
    (auto simp: empty_journal_def committed_def fits_def of_team_def split: option.splits)

section \<open>Where it differs from the PostgreSQL ledger\<close>

text \<open>A settlement above the reservation raises in both ledgers. The PostgreSQL ledger keeps the
  reservation open; this one has already taken it out, and the money spent is charged to nobody.\<close>

theorem overrun_loses_the_reservation:
  assumes "dict_get (im_active_reservations st) i = Some r" and "actual > av_reserved_amount_usd r"
  shows "\<exists>text. mem_settle i actual st =
    (Inl (ValueError text), st\<lparr>im_active_reservations := dict_pop i (im_active_reservations st)\<rparr>)"
  using assms by (simp add: mem_settle_def pop_reservation_def op_bind_def)

theorem overrun_keeps_the_reservation_in_postgres:
  assumes "active_reservation env i st = Inr row" and "actual > rv_reserved_amount_usd row"
  shows "\<exists>text. settle env i actual st = (Inl (ValueError text), st)"
  using assms by (simp add: settle_def Let_def)

text \<open>The daily total of a team is never reset: at all times it is the monthly total.\<close>

theorem daily_total_is_monthly:
  "im_team_daily_spend (fold ledger_step calls new_memory_ledger) =
   im_team_monthly_spend (fold ledger_step calls new_memory_ledger)"
proof -
  have "im_team_daily_spend (ledger_step call st) = im_team_monthly_spend (ledger_step call st)"
    if "im_team_daily_spend st = im_team_monthly_spend st" for call st
    using that
    by (cases call) (auto simp: mem_configure_caps_def mem_reserve_def mem_settle_def mem_release_orphaned_def
      pop_reservation_def op_bind_def Let_def split: sum.splits option.splits)
  then have "im_team_daily_spend (fold ledger_step calls st) = im_team_monthly_spend (fold ledger_step calls st)"
    if "im_team_daily_spend st = im_team_monthly_spend st" for st
    using that by (induction calls arbitrary: st) simp_all
  then show ?thesis by (simp add: new_memory_ledger_def)
qed

end
