(* ===== verification/Workers.thy ===== *)
theory Workers
  imports Db
begin

text \<open>
  Queue, dispatcher and workers: \<open>backend/platform/queue.py\<close>, \<open>backend/platform/sandbox.py\<close> and
  \<open>RedisWorkerController\<close> of \<open>backend/persistence/worker.py\<close>. One controller process holds a
  local cache and local draining set beside the Redis state that all processes share; Redis
  answers all commands of one call or none. The transport and the controller in memory are
  in \<open>WorkersMemory\<close>; the expiry of a drain lease is the operation \<open>lease_expires\<close>.
\<close>

section \<open>Queue\<close>

record QueuedJob =
  qj_job_id :: str
  qj_tenant_id :: str
  qj_team_id :: str
  qj_run_id :: str
  qj_queue_name :: str
  qj_weight :: int
  qj_enqueued_at :: int
  qj_retry_count :: int
  qj_checkpoint_ref :: "str option"

record WorkerDrainLease =
  dl_worker_id :: str
  dl_accepting_new_jobs :: bool
  dl_active_job_id :: "str option"

record DeadLetterRecord =
  dr_record_id :: "nat option"
  dr_job_id :: str
  dr_tenant_id :: str
  dr_team_id :: str
  dr_run_id :: str
  dr_queue_name :: str
  dr_failure_reason :: str
  dr_worker_id :: "str option"
  dr_checkpoint_ref :: "str option"
  dr_created_at :: datetime

definition eligible_jobs :: "int \<Rightarrow> QueuedJob list \<Rightarrow> (str \<times> int) list \<Rightarrow> QueuedJob list" where
  "eligible_jobs per_tenant_concurrency jobs in_flight =
     filter (\<lambda>j. dict_getd in_flight (qj_tenant_id j) 0 < per_tenant_concurrency) jobs"

definition fairness_key :: "(str \<times> int) list \<Rightarrow> QueuedJob \<Rightarrow> decimal \<times> int" where
  "fairness_key in_flight j =
     (of_int (dict_getd in_flight (qj_tenant_id j) 0) / of_int (max (qj_weight j) 1), qj_enqueued_at j)"

text \<open>\<open>min\<close> with a key returns the first minimal element, as \<open>arg_min_list\<close> does.\<close>

definition dispatch_next ::
  "int \<Rightarrow> int \<Rightarrow> QueuedJob list \<Rightarrow> (str \<times> int) list \<Rightarrow> int \<Rightarrow> QueuedJob option" where
  "dispatch_next per_tenant_concurrency starvation_threshold_seconds jobs in_flight now =
     (let eligible = eligible_jobs per_tenant_concurrency jobs in_flight
      in if eligible = [] then None
         else
           let starved = filter (\<lambda>j. now - qj_enqueued_at j \<ge> starvation_threshold_seconds) eligible
           in if starved \<noteq> [] then Some (arg_min_list qj_enqueued_at starved)
              else Some (arg_min_list (fairness_key in_flight) eligible))"

section \<open>Controller\<close>

record WorkerController =
  wc_per_tenant_concurrency :: int
  wc_starvation_threshold_seconds :: int
  wc_bypass :: bool
  wc_local_active_jobs :: "(str \<times> QueuedJob) list"
  wc_local_draining :: "str list"
  wc_active_jobs :: "(str \<times> QueuedJob) list"
  wc_in_flight :: "(str \<times> int) list"
  wc_draining :: "str list"
  wc_leases :: "str list"
  wc_redis_up :: bool
  wc_dead_letters :: "DeadLetterRecord list"

definition draining_workers :: "WorkerController \<Rightarrow> str list" where
  "draining_workers st = (if wc_redis_up st then wc_draining st else wc_local_draining st)"

definition lease_exists :: "str \<Rightarrow> WorkerController \<Rightarrow> bool" where
  "lease_exists worker_id st =
     (if wc_redis_up st then worker_id \<in> set (wc_leases st)
      else worker_id \<in> set (wc_local_draining st))"

definition tenant_in_flight :: "str \<Rightarrow> WorkerController \<Rightarrow> int" where
  "tenant_in_flight tenant_id st =
     (if wc_redis_up st then dict_getd (wc_in_flight st) tenant_id 0
      else int (length (filter (\<lambda>p. qj_tenant_id (snd p) = tenant_id) (wc_local_active_jobs st))))"

definition in_flight_by_tenant :: "QueuedJob list \<Rightarrow> WorkerController \<Rightarrow> (str \<times> int) list" where
  "in_flight_by_tenant jobs st =
     dict_of (map (\<lambda>j. (qj_tenant_id j, tenant_in_flight (qj_tenant_id j) st)) jobs)"

definition select_next_job :: "QueuedJob list \<Rightarrow> int \<Rightarrow> WorkerController \<Rightarrow> QueuedJob option" where
  "select_next_job jobs now st =
     dispatch_next (wc_per_tenant_concurrency st) (wc_starvation_threshold_seconds st) jobs
       (in_flight_by_tenant jobs st) now"

definition incr_in_flight :: "str \<Rightarrow> int \<Rightarrow> (str \<times> int) list \<Rightarrow> (str \<times> int) list" where
  "incr_in_flight tenant_id n d = dict_set tenant_id (dict_getd d tenant_id 0 + n) d"

definition get_active_job :: "str \<Rightarrow> WorkerController \<Rightarrow> QueuedJob option \<times> WorkerController" where
  "get_active_job worker_id st =
     (case dict_get (wc_local_active_jobs st) worker_id of
        Some job \<Rightarrow> (Some job, st)
      | None \<Rightarrow>
          if \<not> wc_redis_up st then (None, st)
          else (case dict_get (wc_active_jobs st) worker_id of
                  None \<Rightarrow> (None, st)
                | Some job \<Rightarrow>
                    (Some job, st\<lparr>wc_local_active_jobs := dict_set worker_id job (wc_local_active_jobs st)\<rparr>)))"

text \<open>\<open>assign\<close> first looks, then writes; other calls of the process may run between the two.\<close>

definition assign_check :: "str \<Rightarrow> QueuedJob \<Rightarrow> WorkerController \<Rightarrow> unit result" where
  "assign_check worker_id job st =
     (if worker_id \<in> set (draining_workers st) \<or> lease_exists worker_id st
      then Inl (ValueError (''Worker `'' @ worker_id @ ''` is draining and cannot accept new jobs.''))
      else if tenant_in_flight (qj_tenant_id job) st \<ge> wc_per_tenant_concurrency st
      then Inl (ValueError (''Tenant `'' @ qj_tenant_id job @ ''` is already at concurrency limit '' @
              str_of_int (wc_per_tenant_concurrency st) @ ''.''))
      else Inr ())"

definition assign_commit :: "str \<Rightarrow> QueuedJob \<Rightarrow> (WorkerController, unit) operation" where
  "assign_commit worker_id job st =
     (if \<not> wc_redis_up st
      then (Inl (RuntimeError ''Redis-backed worker coordination is unavailable.''),
            st\<lparr>wc_local_active_jobs := dict_pop worker_id (wc_local_active_jobs st)\<rparr>)
      else (Inr (), st\<lparr>wc_local_active_jobs := dict_set worker_id job (wc_local_active_jobs st),
                       wc_active_jobs := dict_set worker_id job (wc_active_jobs st),
                       wc_in_flight := incr_in_flight (qj_tenant_id job) 1 (wc_in_flight st)\<rparr>))"

definition assign :: "str \<Rightarrow> QueuedJob \<Rightarrow> (WorkerController, unit) operation" where
  "assign worker_id job st =
     (case assign_check worker_id job st of Inl e \<Rightarrow> (Inl e, st) | Inr _ \<Rightarrow> assign_commit worker_id job st)"

lemmas assign_unfold = assign_def assign_check_def assign_commit_def

definition begin_drain :: "str \<Rightarrow> (WorkerController, WorkerDrainLease) operation" where
  "begin_drain worker_id st =
     (let (active_job, st) = get_active_job worker_id st;
          st = st\<lparr>wc_local_draining := List.insert worker_id (wc_local_draining st)\<rparr>
      in if \<not> wc_redis_up st
         then (Inl (RuntimeError ''Unable to acquire the worker drain lease in Redis.''), st)
         else (Inr \<lparr>dl_worker_id = worker_id, dl_accepting_new_jobs = False,
                    dl_active_job_id = map_option qj_job_id active_job\<rparr>,
               st\<lparr>wc_leases := List.insert worker_id (wc_leases st),
                  wc_draining := List.insert worker_id (wc_draining st)\<rparr>))"

text \<open>The clean-up both ends of a job share: local state always, Redis when it answers.\<close>

definition release_worker :: "str \<Rightarrow> QueuedJob \<Rightarrow> WorkerController \<Rightarrow> WorkerController" where
  "release_worker worker_id job st =
     (let st = st\<lparr>wc_local_active_jobs := dict_pop worker_id (wc_local_active_jobs st),
                   wc_local_draining := removeAll worker_id (wc_local_draining st)\<rparr>
      in if \<not> wc_redis_up st then st
         else st\<lparr>wc_active_jobs := dict_pop worker_id (wc_active_jobs st),
                 wc_in_flight := incr_in_flight (qj_tenant_id job) (-1) (wc_in_flight st),
                 wc_leases := removeAll worker_id (wc_leases st),
                 wc_draining := removeAll worker_id (wc_draining st)\<rparr>)"

definition no_active_job :: "str \<Rightarrow> exn" where
  "no_active_job worker_id = KeyError (''No active job is registered for worker `'' @ worker_id @ ''`.'')"

definition checkpoint_and_release :: "str \<Rightarrow> str \<Rightarrow> (WorkerController, QueuedJob) operation" where
  "checkpoint_and_release worker_id checkpoint_ref st =
     (case get_active_job worker_id st of
        (None, st) \<Rightarrow> (Inl (no_active_job worker_id), st)
      | (Some job, st) \<Rightarrow>
          (Inr (job\<lparr>qj_checkpoint_ref := Some checkpoint_ref\<rparr>), release_worker worker_id job st))"

definition insert_dead_letter_record ::
  "datetime \<Rightarrow> DeadLetterRecord \<Rightarrow> (WorkerController, DeadLetterRecord) operation" where
  "insert_dead_letter_record now record st =
     (if \<not> row_visible (wc_bypass st) (Some (dr_tenant_id record, dr_team_id record))
            (dr_tenant_id record) (dr_team_id record)
      then (Inl rls_violation, st)
      else
        let row = record\<lparr>dr_record_id := Some (Suc (length (wc_dead_letters st))), dr_created_at := now\<rparr>
        in (Inr row, st\<lparr>wc_dead_letters := wc_dead_letters st @ [row]\<rparr>))"

definition capture_terminal_failure ::
  "datetime \<Rightarrow> str \<Rightarrow> str \<Rightarrow> (WorkerController, DeadLetterRecord) operation" where
  "capture_terminal_failure now worker_id failure_reason st =
     (case get_active_job worker_id st of
        (None, st) \<Rightarrow> (Inl (no_active_job worker_id), st)
      | (Some job, st) \<Rightarrow>
          op_bind (insert_dead_letter_record now
             \<lparr>dr_record_id = None, dr_job_id = qj_job_id job, dr_tenant_id = qj_tenant_id job,
              dr_team_id = qj_team_id job, dr_run_id = qj_run_id job,
              dr_queue_name = qj_queue_name job, dr_failure_reason = failure_reason,
              dr_worker_id = Some worker_id, dr_checkpoint_ref = qj_checkpoint_ref job,
              dr_created_at = now\<rparr>)
            (\<lambda>persisted st. (Inr persisted, release_worker worker_id job st)) st)"

definition list_dead_letter_records :: "WorkerController \<Rightarrow> DeadLetterRecord list" where
  "list_dead_letter_records st =
     sort_key dr_created_at (filter (\<lambda>r. row_visible (wc_bypass st)
       (Some (ALL_TENANTS_SCOPE, ALL_TEAMS_SCOPE)) (dr_tenant_id r) (dr_team_id r)) (wc_dead_letters st))"

definition lease_expires :: "str \<Rightarrow> WorkerController \<Rightarrow> WorkerController" where
  "lease_expires worker_id st = st\<lparr>wc_leases := removeAll worker_id (wc_leases st)\<rparr>"

section \<open>Sandbox templates\<close>

datatype worker_pool = Primary | Shadow

fun worker_pool_value :: "worker_pool \<Rightarrow> str" where
  "worker_pool_value Primary = ''primary''"
| "worker_pool_value Shadow = ''shadow''"

record WorkerPoolProfile =
  wp_name :: worker_pool
  wp_queue_name :: str
  wp_read_only :: bool

record SandboxJobTemplate =
  sb_name :: str
  sb_namespace :: str
  sb_runtime_class_name :: str
  sb_run_as_non_root :: bool
  sb_read_only_root_filesystem :: bool
  sb_cpu_limit :: str
  sb_memory_limit :: str
  sb_egress_allowlist :: "str list"
  sb_labels :: "(str \<times> str) list"
  sb_cleanup_after_seconds :: int
  sb_service_account :: str
  sb_worker_pool :: WorkerPoolProfile

definition build_sandbox :: "int \<Rightarrow> str \<Rightarrow> str \<Rightarrow> str \<Rightarrow> worker_pool \<Rightarrow> SandboxJobTemplate" where
  "build_sandbox cleanup_after_seconds tenant_id team_id run_id worker_pool =
     (let profile = \<lparr>wp_name = worker_pool,
            wp_queue_name = (if worker_pool = Primary then ''ticket-runs'' else ''shadow-ticket-runs''),
            wp_read_only = (worker_pool = Shadow)\<rparr>
      in \<lparr>sb_name = worker_pool_value worker_pool @ ''-sandbox-'' @ run_id,
          sb_namespace = ''tenant-'' @ tenant_id, sb_runtime_class_name = ''runsc'',
          sb_run_as_non_root = True, sb_read_only_root_filesystem = wp_read_only profile,
          sb_cpu_limit = ''2'', sb_memory_limit = ''2Gi'',
          sb_egress_allowlist = [''github.internal'', ''jira.internal''],
          sb_labels = [(''tenant_id'', tenant_id), (''team_id'', team_id), (''run_id'', run_id),
            (''cleanup'', ''true''), (''worker_pool'', worker_pool_value worker_pool)],
          sb_cleanup_after_seconds = cleanup_after_seconds,
          sb_service_account = worker_pool_value worker_pool @ ''-sandbox-sa'',
          sb_worker_pool = profile\<rparr>)"

section \<open>Invariant of a controller\<close>

text \<open>Jobs of a tenant that Redis records as active.\<close>

definition active_count :: "str \<Rightarrow> WorkerController \<Rightarrow> int" where
  "active_count tenant_id st =
     int (length (filter (\<lambda>p. qj_tenant_id (snd p) = tenant_id) (wc_active_jobs st)))"

definition worker_inv :: "WorkerController \<Rightarrow> bool" where
  "worker_inv st \<longleftrightarrow>
     distinct (map fst (wc_active_jobs st)) \<and>
     (\<forall>w j. dict_get (wc_local_active_jobs st) w = Some j \<longrightarrow> dict_get (wc_active_jobs st) w = Some j) \<and>
     (\<forall>t. active_count t st \<le> dict_getd (wc_in_flight st) t 0 \<and>
          dict_getd (wc_in_flight st) t 0 \<le> max 0 (wc_per_tenant_concurrency st))"

lemma dict_getd_incr [simp]:
  "dict_getd (incr_in_flight t n d) u 0 = (if u = t then dict_getd d t 0 + n else dict_getd d u 0)"
  by (simp add: incr_in_flight_def dict_getd_def)

lemma count_dict_set:
  "int (length (filter (\<lambda>p. P (snd p)) (dict_set k v d))) =
   int (length (filter (\<lambda>p. P (snd p)) d)) + of_bool (P v) -
   (case dict_get d k of None \<Rightarrow> 0 | Some w \<Rightarrow> of_bool (P w))"
  by (induction d) (auto split: option.splits if_splits)

lemma count_dict_pop:
  "distinct (map fst d) \<Longrightarrow>
   int (length (filter (\<lambda>p. P (snd p)) (dict_pop k d))) =
   int (length (filter (\<lambda>p. P (snd p)) d)) - (case dict_get d k of None \<Rightarrow> 0 | Some w \<Rightarrow> of_bool (P w))"
proof (induction d)
  case Nil
  then show ?case by (simp add: dict_pop_def)
next
  case (Cons p d)
  obtain k' v where p: "p = (k', v)" by (cases p)
  show ?case
  proof (cases "k' = k")
    case True
    with Cons.prems have "dict_pop k d = d"
      unfolding dict_pop_def p by (intro filter_True) (auto simp: image_iff)
    with True p show ?thesis by (simp add: dict_pop_def)
  next
    case False
    with Cons p show ?thesis by (simp add: dict_pop_def split: option.splits)
  qed
qed

lemma distinct_dict_pop: "distinct (map fst d) \<Longrightarrow> distinct (map fst (dict_pop k d))"
  by (simp add: dict_pop_def distinct_map_filter)

lemma worker_inv_get:
  assumes "worker_inv st" "get_active_job w st = (job, st')"
  shows "worker_inv st' \<and> wc_redis_up st' = wc_redis_up st \<and> wc_dead_letters st' = wc_dead_letters st \<and>
    wc_bypass st' = wc_bypass st \<and> (\<forall>j. job = Some j \<longrightarrow> dict_get (wc_active_jobs st') w = Some j)"
  using assms by (auto simp: get_active_job_def worker_inv_def active_count_def split: option.splits if_splits)

lemma worker_inv_release:
  assumes inv: "worker_inv st" and job: "dict_get (wc_active_jobs st) w = Some job"
  shows "worker_inv (release_worker w job st)"
proof (cases "wc_redis_up st")
  case False
  with inv show ?thesis by (auto simp: release_worker_def worker_inv_def active_count_def)
next
  case True
  have d: "distinct (map fst (wc_active_jobs st))" using inv by (simp add: worker_inv_def)
  have c: "active_count t (release_worker w job st) = active_count t st - of_bool (qj_tenant_id job = t)" for t
    using count_dict_pop[OF d, of "\<lambda>j. qj_tenant_id j = t" w] job True
    by (simp add: active_count_def release_worker_def Let_def)
  have le: "active_count t st \<le> dict_getd (wc_in_flight st) t 0"
    "dict_getd (wc_in_flight st) t 0 \<le> max 0 (wc_per_tenant_concurrency st)" for t
    using inv by (simp_all add: worker_inv_def)
  have "active_count t (release_worker w job st) \<le> dict_getd (wc_in_flight (release_worker w job st)) t 0 \<and>
      dict_getd (wc_in_flight (release_worker w job st)) t 0 \<le> max 0 (wc_per_tenant_concurrency st)" for t
    using c[of t] le[of t] True
    by (cases "t = qj_tenant_id job") (simp_all add: release_worker_def Let_def)
  moreover have "distinct (map fst (wc_active_jobs (release_worker w job st)))"
    using True distinct_dict_pop[OF d] by (simp add: release_worker_def Let_def)
  moreover have "\<forall>x j. dict_get (wc_local_active_jobs (release_worker w job st)) x = Some j \<longrightarrow>
      dict_get (wc_active_jobs (release_worker w job st)) x = Some j"
    using inv True by (simp add: worker_inv_def release_worker_def Let_def)
  moreover have "wc_per_tenant_concurrency (release_worker w job st) = wc_per_tenant_concurrency st"
    by (simp add: release_worker_def Let_def)
  ultimately show ?thesis by (simp add: worker_inv_def)
qed

lemma worker_inv_assign:
  assumes inv: "worker_inv st" and a: "assign w job st = (r, st')"
  shows "worker_inv st'"
proof (cases r)
  case (Inl e)
  with a inv show ?thesis
    by (auto simp: assign_unfold worker_inv_def active_count_def split: if_splits)
next
  case (Inr u)
  with a have up: "wc_redis_up st" and lt: "dict_getd (wc_in_flight st) (qj_tenant_id job) 0 < wc_per_tenant_concurrency st"
    and st': "st' = st\<lparr>wc_local_active_jobs := dict_set w job (wc_local_active_jobs st),
        wc_active_jobs := dict_set w job (wc_active_jobs st),
        wc_in_flight := incr_in_flight (qj_tenant_id job) 1 (wc_in_flight st)\<rparr>"
    by (auto simp: assign_unfold tenant_in_flight_def split: if_splits)
  have c: "active_count t st' \<le> active_count t st + of_bool (qj_tenant_id job = t)" for t
    using count_dict_set[of "\<lambda>j. qj_tenant_id j = t" w job "wc_active_jobs st"]
    by (simp add: active_count_def st' split: option.splits)
  have le: "active_count t st \<le> dict_getd (wc_in_flight st) t 0"
    "dict_getd (wc_in_flight st) t 0 \<le> max 0 (wc_per_tenant_concurrency st)" for t
    using inv by (simp_all add: worker_inv_def)
  have "active_count t st' \<le> dict_getd (wc_in_flight st') t 0 \<and>
      dict_getd (wc_in_flight st') t 0 \<le> max 0 (wc_per_tenant_concurrency st')" for t
    using c[of t] le[of t] lt by (cases "t = qj_tenant_id job") (auto simp: st')
  moreover have "distinct (map fst (wc_active_jobs st'))" using inv by (simp add: st' worker_inv_def)
  moreover have "\<forall>x j. dict_get (wc_local_active_jobs st') x = Some j \<longrightarrow> dict_get (wc_active_jobs st') x = Some j"
    using inv by (simp add: st' worker_inv_def)
  ultimately show ?thesis by (simp add: worker_inv_def)
qed

lemma arg_min_list_le: "k \<in> set xs \<Longrightarrow> f (arg_min_list f xs) \<le> (f k :: 'b :: linorder)"
  using f_arg_min_list_f[of xs f] by (cases xs) auto

section \<open>Histories\<close>

datatype worker_op =
    Assign str QueuedJob | Drain str | Checkpoint str str | Fail datetime str str
  | Lease_expires str | Redis_up bool

fun worker_step :: "worker_op \<Rightarrow> WorkerController \<Rightarrow> WorkerController" where
  "worker_step (Assign w job) st = snd (assign w job st)"
| "worker_step (Drain w) st = snd (begin_drain w st)"
| "worker_step (Checkpoint w ref) st = snd (checkpoint_and_release w ref st)"
| "worker_step (Fail now w reason) st = snd (capture_terminal_failure now w reason st)"
| "worker_step (Lease_expires w) st = lease_expires w st"
| "worker_step (Redis_up b) st = st\<lparr>wc_redis_up := b\<rparr>"

lemma worker_inv_frame [simp]:
  "worker_inv (st\<lparr>wc_leases := a\<rparr>) = worker_inv st"
  "worker_inv (st\<lparr>wc_draining := b\<rparr>) = worker_inv st"
  "worker_inv (st\<lparr>wc_local_draining := c\<rparr>) = worker_inv st"
  "worker_inv (st\<lparr>wc_redis_up := d\<rparr>) = worker_inv st"
  "worker_inv (st\<lparr>wc_dead_letters := e\<rparr>) = worker_inv st"
  by (simp_all add: worker_inv_def active_count_def)

lemma active_jobs_frame [simp]:
  "wc_active_jobs (st\<lparr>wc_dead_letters := e\<rparr>) = wc_active_jobs st"
  by simp

lemma worker_inv_step:
  assumes "worker_inv st" shows "worker_inv (worker_step op st)"
proof (cases op)
  case (Assign w job)
  with worker_inv_assign[OF assms, of w job] show ?thesis by (cases "assign w job st") simp
next
  case (Drain w)
  obtain job st1 where g: "get_active_job w st = (job, st1)" by fastforce
  with worker_inv_get[OF assms g] Drain show ?thesis by (simp add: begin_drain_def Let_def)
next
  case (Checkpoint w ref)
  obtain job st1 where g: "get_active_job w st = (job, st1)" by fastforce
  with worker_inv_get[OF assms g] Checkpoint worker_inv_release show ?thesis
    by (cases job) (simp_all add: checkpoint_and_release_def)
next
  case (Fail now w reason)
  obtain job st1 where g: "get_active_job w st = (job, st1)" by fastforce
  note i = worker_inv_get[OF assms g]
  show ?thesis
  proof (cases job)
    case None
    with g i Fail show ?thesis by (simp add: capture_terminal_failure_def)
  next
    case (Some j)
    with i have "dict_get (wc_active_jobs st1) w = Some j" by simp
    then have "worker_inv (release_worker w j (st1\<lparr>wc_dead_letters := ds\<rparr>))" for ds
      using i by (intro worker_inv_release) simp_all
    with g i Some Fail show ?thesis
      by (auto simp: capture_terminal_failure_def op_bind_def insert_dead_letter_record_def Let_def)
  qed
next
  case (Lease_expires w)
  with assms show ?thesis by (simp add: lease_expires_def)
next
  case (Redis_up b)
  with assms show ?thesis by simp
qed

lemma concurrency_constant: "wc_per_tenant_concurrency (worker_step op st) = wc_per_tenant_concurrency st"
proof -
  have g: "get_active_job w st = (job, st1) \<Longrightarrow> wc_per_tenant_concurrency st1 = wc_per_tenant_concurrency st" for w job st1
    by (auto simp: get_active_job_def split: option.splits if_splits)
  show ?thesis
    by (cases op) (auto simp: assign_unfold begin_drain_def checkpoint_and_release_def capture_terminal_failure_def
        op_bind_def insert_dead_letter_record_def release_worker_def lease_expires_def Let_def
        split: prod.splits option.splits dest: g)
qed

lemma in_flight_by_tenant_get:
  "j \<in> set jobs \<Longrightarrow>
   dict_get (in_flight_by_tenant jobs st) (qj_tenant_id j) = Some (tenant_in_flight (qj_tenant_id j) st)"
proof -
  assume j: "j \<in> set jobs"
  have "dict_get (fold (\<lambda>(k, v). dict_set k v) (map (\<lambda>j. (f j, g (f j))) xs) d) k =
      (if k \<in> f ` set xs then Some (g k) else dict_get d k)"
    for f :: "QueuedJob \<Rightarrow> str" and g :: "str \<Rightarrow> int" and xs d k
    by (induction xs arbitrary: d) auto
  from this[of "qj_tenant_id" "\<lambda>t. tenant_in_flight t st" jobs "[]" "qj_tenant_id j"] j
  show ?thesis by (simp add: in_flight_by_tenant_def dict_of_def)
qed

lemma dict_pop_dict_set: "dict_get d k = None \<Longrightarrow> dict_pop k (dict_set k v d) = d"
  by (induction d) (auto simp: dict_pop_def split: if_splits)

lemma dict_set_dict_set: "dict_set k v (dict_set k u d) = dict_set k v d"
  by (induction d) auto

lemma get_active_after_release:
  "wc_redis_up st \<Longrightarrow> fst (get_active_job worker_id (release_worker worker_id job st)) = None"
  by (simp add: get_active_job_def release_worker_def Let_def)

section \<open>Theorems\<close>


definition new_controller :: WorkerController where
  "new_controller =
     \<lparr>wc_per_tenant_concurrency = 2, wc_starvation_threshold_seconds = 300, wc_bypass = False,
      wc_local_active_jobs = [], wc_local_draining = [], wc_active_jobs = [], wc_in_flight = [],
      wc_draining = [], wc_leases = [], wc_redis_up = True, wc_dead_letters = []\<rparr>"

definition witness_job :: "str \<Rightarrow> int \<Rightarrow> QueuedJob" where
  "witness_job i enq = \<lparr>qj_job_id = i, qj_tenant_id = ''t'', qj_team_id = ''m'', qj_run_id = ''r'',
     qj_queue_name = ''ticket-runs'', qj_weight = 1, qj_enqueued_at = enq, qj_retry_count = 0,
     qj_checkpoint_ref = None\<rparr>"

lemma new_controller_inv: "worker_inv new_controller"
  by (simp add: worker_inv_def new_controller_def active_count_def dict_getd_def)


text \<open>C14 (dispatch is fair and free of starvation). The dispatcher returns a job exactly when some
  tenant with a queued job is below the limit. The job it returns is queued and its tenant below
  the limit; when an eligible job has waited for the threshold, it is such a job and none has
  waited longer; otherwise no eligible job has a smaller load per weight, and none of the same
  load was enqueued earlier.\<close>

theorem dispatch_fair:
  "(dispatch_next limit threshold jobs in_flight now = None \<longleftrightarrow> eligible_jobs limit jobs in_flight = []) \<and>
   (\<forall>j. dispatch_next limit threshold jobs in_flight now = Some j \<longrightarrow>
      j \<in> set jobs \<and> dict_getd in_flight (qj_tenant_id j) 0 < limit \<and>
      (if \<exists>k \<in> set (eligible_jobs limit jobs in_flight). threshold \<le> now - qj_enqueued_at k
       then threshold \<le> now - qj_enqueued_at j \<and>
            (\<forall>k \<in> set (eligible_jobs limit jobs in_flight). qj_enqueued_at j \<le> qj_enqueued_at k)
       else \<forall>k \<in> set (eligible_jobs limit jobs in_flight). fairness_key in_flight j \<le> fairness_key in_flight k))"
proof -
  let ?el = "eligible_jobs limit jobs in_flight"
  let ?st = "filter (\<lambda>j. now - qj_enqueued_at j \<ge> threshold) ?el"
  show ?thesis
  proof (cases "?el = []")
    case True
    then show ?thesis by (simp add: dispatch_next_def)
  next
    case el: False
    show ?thesis
    proof (cases "?st = []")
      case True
      with el have d: "dispatch_next limit threshold jobs in_flight now = Some (arg_min_list (fairness_key in_flight) ?el)"
        by (simp add: dispatch_next_def Let_def)
      from arg_min_list_in[OF el, of "fairness_key in_flight"] d True el arg_min_list_le[of _ ?el "fairness_key in_flight"] show ?thesis
        by (auto simp: eligible_jobs_def filter_empty_conv)
    next
      case False
      with el have d: "dispatch_next limit threshold jobs in_flight now = Some (arg_min_list qj_enqueued_at ?st)"
        by (simp add: dispatch_next_def Let_def)
      define j where "j = arg_min_list qj_enqueued_at ?st"
      have j: "j \<in> set ?st" unfolding j_def by (rule arg_min_list_in[OF False])
      have le: "qj_enqueued_at j \<le> qj_enqueued_at k" if "k \<in> set ?el" for k
      proof (cases "threshold \<le> now - qj_enqueued_at k")
        case True
        with that show ?thesis unfolding j_def by (intro arg_min_list_le) simp
      next
        case False
        moreover have "threshold \<le> now - qj_enqueued_at j" using j by simp
        ultimately show ?thesis by linarith
      qed
      have d': "dispatch_next limit threshold jobs in_flight now = Some j" using d by (simp only: j_def)
      have jel: "j \<in> set ?el" "threshold \<le> now - qj_enqueued_at j" using j by simp_all
      then have ex: "\<exists>k \<in> set ?el. threshold \<le> now - qj_enqueued_at k" by blast
      have q: "j \<in> set jobs" "dict_getd in_flight (qj_tenant_id j) 0 < limit"
        using jel(1) by (simp_all add: eligible_jobs_def)
      have "?thesis \<longleftrightarrow> (\<forall>k \<in> set ?el. qj_enqueued_at j \<le> qj_enqueued_at k)"
        by (simp only: d' ex el q jel(2) option.simps if_True simp_thms)
      then show ?thesis using le by blast
    qed
  qed
qed

lemma dispatch_next_SomeD:
  assumes "dispatch_next limit threshold jobs in_flight now = Some j"
  shows "j \<in> set jobs" "dict_getd in_flight (qj_tenant_id j) 0 < limit"
proof -
  have "j \<in> set (eligible_jobs limit jobs in_flight)"
    using assms arg_min_list_in[of "filter (\<lambda>j. now - qj_enqueued_at j \<ge> threshold) (eligible_jobs limit jobs in_flight)"]
      arg_min_list_in[of "eligible_jobs limit jobs in_flight"]
    by (auto simp: dispatch_next_def Let_def filter_empty_conv split: if_splits)
  then show "j \<in> set jobs" "dict_getd in_flight (qj_tenant_id j) 0 < limit" by (simp_all add: eligible_jobs_def)
qed

lemma dispatch_fair_witness:
  "witness_job ''2'' 3 \<in> set [witness_job ''1'' 5, witness_job ''2'' 3] \<and>
   fairness_key [] (witness_job ''2'' 3) \<le> fairness_key [] (witness_job ''1'' 5)"
proof -
  have "dispatch_next 2 300 [witness_job ''1'' 5, witness_job ''2'' 3] [] 10 = Some (witness_job ''2'' 3)" by code_simp
  with dispatch_fair[of 2 300 "[witness_job ''1'' 5, witness_job ''2'' 3]" "[]" 10] show ?thesis
    by (simp add: eligible_jobs_def witness_job_def dict_getd_def)
qed

text \<open>What the scheduler selects can be assigned. While Redis answers, the job that
  \<open>select_next_job\<close> returns is accepted by \<open>assign\<close> on every worker that is not draining.\<close>

theorem selected_job_is_assignable:
  assumes sel: "select_next_job jobs now st = Some job" and up: "wc_redis_up st"
    and idle: "worker_id \<notin> set (wc_draining st)" "worker_id \<notin> set (wc_leases st)"
  shows "job \<in> set jobs \<and> fst (assign worker_id job st) = Inr () \<and>
    dict_get (wc_active_jobs (snd (assign worker_id job st))) worker_id = Some job"
proof -
  have f: "dispatch_next (wc_per_tenant_concurrency st) (wc_starvation_threshold_seconds st) jobs
      (in_flight_by_tenant jobs st) now = Some job" using sel by (simp add: select_next_job_def)
  note d = dispatch_next_SomeD[OF f]
  have "dict_getd (in_flight_by_tenant jobs st) (qj_tenant_id job) 0 = tenant_in_flight (qj_tenant_id job) st"
    using in_flight_by_tenant_get[OF d(1)] by (simp add: dict_getd_def)
  with d up idle show ?thesis
    by (simp add: assign_unfold draining_workers_def lease_exists_def not_le[symmetric])
qed

lemma selected_job_is_assignable_witness:
  "fst (assign ''w1'' (witness_job ''2'' 3) new_controller) = Inr ()"
proof -
  have "select_next_job [witness_job ''1'' 5, witness_job ''2'' 3] 10 new_controller = Some (witness_job ''2'' 3)"
    by code_simp
  from selected_job_is_assignable[OF this, of "''w1''"] show ?thesis by (simp add: new_controller_def)
qed

text \<open>A terminal failure is recorded and frees the worker. While Redis answers, capturing the
  failure of an active job persists a dead letter with the identity of the job and the worker, the
  operators' listing shows it, the worker has no job and no drain lease left, and the tenant
  has one job fewer in flight.\<close>

theorem dead_letter_captured:
  assumes inv: "worker_inv st" and up: "wc_redis_up st"
    and job: "dict_get (wc_active_jobs st) worker_id = Some job"
    and names: "qj_tenant_id job \<noteq> []" "qj_team_id job \<noteq> []"
  shows "case capture_terminal_failure now worker_id reason st of
      (Inl _, _) \<Rightarrow> False
    | (Inr record, st') \<Rightarrow>
        record \<in> set (list_dead_letter_records st') \<and>
        dr_job_id record = qj_job_id job \<and> dr_run_id record = qj_run_id job \<and>
        dr_failure_reason record = reason \<and> dr_worker_id record = Some worker_id \<and>
        fst (get_active_job worker_id st') = None \<and>
        worker_id \<notin> set (wc_draining st') \<and> worker_id \<notin> set (wc_leases st') \<and>
        (\<forall>t. tenant_in_flight t st' = tenant_in_flight t st - of_bool (t = qj_tenant_id job))"
proof -
  obtain st1 where g: "get_active_job worker_id st = (Some job, st1)"
    using inv up job by (cases "dict_get (wc_local_active_jobs st) worker_id") (auto simp: get_active_job_def worker_inv_def)
  have u1: "wc_redis_up st1" "wc_in_flight st1 = wc_in_flight st" "wc_bypass st1 = wc_bypass st"
    using g up by (auto simp: get_active_job_def split: option.splits)
  define row where "row = \<lparr>dr_record_id = Some (Suc (length (wc_dead_letters st1))), dr_job_id = qj_job_id job,
      dr_tenant_id = qj_tenant_id job, dr_team_id = qj_team_id job, dr_run_id = qj_run_id job,
      dr_queue_name = qj_queue_name job, dr_failure_reason = reason, dr_worker_id = Some worker_id,
      dr_checkpoint_ref = qj_checkpoint_ref job, dr_created_at = now\<rparr>"
  have c: "capture_terminal_failure now worker_id reason st =
      (Inr row, release_worker worker_id job (st1\<lparr>wc_dead_letters := wc_dead_letters st1 @ [row]\<rparr>))"
    using names by (simp add: capture_terminal_failure_def g op_bind_def insert_dead_letter_record_def Let_def
        row_visible_own row_def)
  show ?thesis
    using u1 by (simp add: c get_active_after_release list_dead_letter_records_def)
      (simp add: row_def release_worker_def tenant_in_flight_def up)
qed

lemma dead_letter_captured_witness:
  "fst (get_active_job ''w1'' (snd (capture_terminal_failure 7 ''w1'' ''boom''
     (snd (assign ''w1'' (witness_job ''1'' 0) new_controller))))) = None"
proof -
  let ?st = "snd (assign ''w1'' (witness_job ''1'' 0) new_controller)"
  have i: "worker_inv ?st" using worker_inv_assign[OF new_controller_inv prod.collapse[symmetric]] .
  have "wc_redis_up ?st" "dict_get (wc_active_jobs ?st) ''w1'' = Some (witness_job ''1'' 0)"
    "qj_tenant_id (witness_job ''1'' 0) \<noteq> []" "qj_team_id (witness_job ''1'' 0) \<noteq> []" by code_simp+
  from dead_letter_captured[OF i this, where now = 7 and reason = "''boom''"] show ?thesis
    by (cases "capture_terminal_failure 7 ''w1'' ''boom'' ?st") (simp split: sum.splits)
qed

text \<open>A busy worker can be given a second job, and the tenant loses the slot. \<open>assign\<close> does not look
  at the job a worker already has: a second assignment is accepted, the first job is overwritten,
  and when the worker is released the counter of the tenant stays one above its active jobs.
  Nothing later lowers it.\<close>

theorem reassignment_leaks_slot:
  assumes up: "wc_redis_up st" and idle: "worker_id \<notin> set (wc_draining st)" "worker_id \<notin> set (wc_leases st)"
    and free: "dict_get (wc_active_jobs st) worker_id = None" "dict_get (wc_local_active_jobs st) worker_id = None"
    and room: "tenant_in_flight (qj_tenant_id first) st + 1 < wc_per_tenant_concurrency st"
    and same: "qj_tenant_id second = qj_tenant_id first"
  shows "let st2 = fold worker_step [Assign worker_id first, Assign worker_id second] st;
             st3 = worker_step (Checkpoint worker_id ref) st2
         in dict_get (wc_active_jobs st2) worker_id = Some second \<and>
            fst (get_active_job worker_id st3) = None \<and>
            active_count t st3 = active_count t st \<and>
            tenant_in_flight (qj_tenant_id first) st3 = tenant_in_flight (qj_tenant_id first) st + 1"
proof -
  have a: "snd (assign worker_id j s) = s\<lparr>wc_local_active_jobs := dict_set worker_id j (wc_local_active_jobs s),
                       wc_active_jobs := dict_set worker_id j (wc_active_jobs s),
                       wc_in_flight := incr_in_flight (qj_tenant_id j) 1 (wc_in_flight s)\<rparr>"
    if "wc_redis_up s" "worker_id \<notin> set (wc_draining s)" "worker_id \<notin> set (wc_leases s)"
      "tenant_in_flight (qj_tenant_id j) s < wc_per_tenant_concurrency s" for s j
    using that by (simp add: assign_unfold draining_workers_def lease_exists_def)
  have t: "tenant_in_flight (qj_tenant_id first) st < wc_per_tenant_concurrency st" using room by simp
  show ?thesis
    using up idle free room same dict_pop_dict_set[OF free(1), of second]
    by (simp add: a[OF up idle t] a Let_def tenant_in_flight_def checkpoint_and_release_def get_active_job_def
        release_worker_def active_count_def dict_set_dict_set)
qed

lemma reassignment_leaks_slot_witness:
  "tenant_in_flight ''t'' (fold worker_step [Assign ''w1'' (witness_job ''1'' 0), Assign ''w1'' (witness_job ''2'' 0),
     Checkpoint ''w1'' ''c''] new_controller) = 1"
  using reassignment_leaks_slot[of new_controller "''w1''" "witness_job ''1'' 0" "witness_job ''2'' 0" "''c''"]
  by (simp add: new_controller_def witness_job_def tenant_in_flight_def dict_getd_def Let_def)

text \<open>Two assignments in flight can pass the limit together. The check and the write of \<open>assign\<close> are
  separate Redis commands: when two calls for a tenant with one free slot both check before either
  writes, both succeed and the tenant has one job more than the limit.\<close>

theorem assign_race_exceeds_limit:
  assumes up: "wc_redis_up st" and ne: "w1 \<noteq> w2"
    and idle: "w1 \<notin> set (wc_draining st)" "w1 \<notin> set (wc_leases st)"
      "w2 \<notin> set (wc_draining st)" "w2 \<notin> set (wc_leases st)"
    and free: "dict_get (wc_active_jobs st) w1 = None" "dict_get (wc_active_jobs st) w2 = None"
    and tenant: "qj_tenant_id j1 = t" "qj_tenant_id j2 = t"
    and slot: "tenant_in_flight t st = wc_per_tenant_concurrency st - 1"
      "active_count t st = wc_per_tenant_concurrency st - 1"
  shows "assign_check w1 j1 st = Inr () \<and> assign_check w2 j2 st = Inr () \<and>
    active_count t (snd (assign_commit w2 j2 (snd (assign_commit w1 j1 st)))) = wc_per_tenant_concurrency st + 1"
proof -
  have "assign_check w1 j1 st = Inr ()" "assign_check w2 j2 st = Inr ()"
    using up idle slot(1) tenant by (simp_all add: assign_check_def draining_workers_def lease_exists_def)
  moreover have "active_count t (snd (assign_commit w2 j2 (snd (assign_commit w1 j1 st)))) = active_count t st + 2"
    using up ne free tenant
    by (simp add: assign_commit_def active_count_def count_dict_set[where P = "\<lambda>j. qj_tenant_id j = t"])
  ultimately show ?thesis using slot(2) by simp
qed

lemma assign_race_exceeds_limit_witness:
  "active_count ''t'' (snd (assign_commit ''w2'' (witness_job ''2'' 0)
     (snd (assign_commit ''w1'' (witness_job ''1'' 0) (new_controller\<lparr>wc_per_tenant_concurrency := 1\<rparr>))))) = 2"
  using assign_race_exceeds_limit[of "new_controller\<lparr>wc_per_tenant_concurrency := 1\<rparr>" "''w1''" "''w2''"
      "witness_job ''1'' 0" "''t''" "witness_job ''2'' 0"]
  by (simp add: new_controller_def witness_job_def tenant_in_flight_def dict_getd_def active_count_def)

end
