(* ===== verification/ControlPlane.thy ===== *)
theory ControlPlane
  imports Db GraphConfig
begin

text \<open>
  The control plane: the shadow evaluator \<open>backend/control_plane/shadow.py\<close>, the records of
  \<open>control_plane/store.py\<close>, \<open>PostgresControlPlaneStore\<close> and \<open>SnapshotDrivenHandlerRegistry\<close> of
  \<open>backend/persistence/control_plane.py\<close>, and the in-memory store and registry of
  \<open>persistence/testing/control_plane.py\<close>. Foreign keys and primary keys of migration 0002 are
  checked where a statement can break them. Random identifiers and the time are arguments; the
  JSON payload of a version is opaque, and its parser an argument of the registry.
\<close>

section \<open>Shadow evaluation\<close>

record ShadowIsolationProfile =
  si_candidate_version_id :: str
  si_queue_isolated :: bool
  si_read_only_credentials :: bool
  si_isolated_worker_identity :: bool
  si_restricted_network_policy :: bool
  si_runtime_shadow_flag :: bool

definition enabled_layers :: "ShadowIsolationProfile \<Rightarrow> nat" where
  "enabled_layers p =
     sum_list (map of_bool [si_queue_isolated p, si_read_only_credentials p, si_isolated_worker_identity p,
       si_restricted_network_policy p, si_runtime_shadow_flag p])"

definition blocks_write_side_effects :: "ShadowIsolationProfile \<Rightarrow> bool" where
  "blocks_write_side_effects p \<longleftrightarrow> enabled_layers p \<ge> 4"

definition build_isolation_profile :: "str \<Rightarrow> ShadowIsolationProfile" where
  "build_isolation_profile candidate_version_id =
     \<lparr>si_candidate_version_id = candidate_version_id, si_queue_isolated = True,
      si_read_only_credentials = True, si_isolated_worker_identity = True,
      si_restricted_network_policy = True, si_runtime_shadow_flag = True\<rparr>"

record ComparisonMetrics =
  cm_baseline_success_rate :: rat
  cm_candidate_success_rate :: rat
  cm_baseline_cost_usd :: decimal
  cm_candidate_cost_usd :: decimal
  cm_safety_regressions :: "str list"

record ActivationThresholds =
  at_minimum_candidate_success_rate :: rat
  at_max_cost_delta_usd :: decimal

record ShadowComparisonReport =
  sr_candidate_version_id :: str
  sr_active_version_id :: str
  sr_success_rate_delta :: rat
  sr_cost_delta_usd :: decimal
  sr_safety_regressions :: "str list"
  sr_blocked :: bool
  sr_blocking_reasons :: "str list"

definition compare_shadow ::
  "str \<Rightarrow> str \<Rightarrow> ComparisonMetrics \<Rightarrow> ActivationThresholds \<Rightarrow> ShadowComparisonReport" where
  "compare_shadow candidate_version_id active_version_id metrics thresholds =
     (let success_rate_delta = cm_candidate_success_rate metrics - cm_baseline_success_rate metrics;
          cost_delta = cm_candidate_cost_usd metrics - cm_baseline_cost_usd metrics;
          blocking_reasons =
            (if cm_candidate_success_rate metrics < at_minimum_candidate_success_rate thresholds
             then [''candidate_success_rate_below_threshold''] else []) @
            (if cost_delta > at_max_cost_delta_usd thresholds
             then [''candidate_cost_exceeds_threshold''] else []) @
            (if cm_safety_regressions metrics \<noteq> []
             then [''candidate_introduced_safety_regressions''] else [])
      in \<lparr>sr_candidate_version_id = candidate_version_id, sr_active_version_id = active_version_id,
          sr_success_rate_delta = success_rate_delta, sr_cost_delta_usd = cost_delta,
          sr_safety_regressions = cm_safety_regressions metrics,
          sr_blocked = (blocking_reasons \<noteq> []), sr_blocking_reasons = blocking_reasons\<rparr>)"

section \<open>Rows\<close>

datatype config_kind = Graph | Agent

fun config_kind_value :: "config_kind \<Rightarrow> str" where
  "config_kind_value Graph = ''graph''"
| "config_kind_value Agent = ''agent''"

record ConfigVersionRecord =
  cv_record_id :: str
  cv_config_kind :: config_kind
  cv_version_number :: int
  cv_created_by :: str
  cv_rationale :: str
  cv_created_at :: datetime
  cv_payload :: str

record ConfigSnapshot =
  cs_snapshot_id :: str
  cs_graph_version_id :: str
  cs_agent_version_ids :: "(str \<times> str) list"
  cs_created_at :: datetime
  cs_created_by :: str
  cs_evidence_summary :: str

record SnapshotRow = ConfigSnapshot +
  sn_shadow_report_id :: "str option"
  sn_supersedes_snapshot_id :: "str option"

record RunSnapshotBinding =
  rb_run_id :: str
  rb_snapshot_id :: str
  rb_status :: str

definition NON_TERMINAL_RUN_STATES :: "str list" where
  "NON_TERMINAL_RUN_STATES = [''active'', ''paused'', ''shadow'', ''dlq'']"

definition activation_blocked :: exn where
  "activation_blocked =
     ValueError ''Activation is blocked until the shadow comparison report is overridden.''"

definition report_evidence :: "ShadowComparisonReport \<Rightarrow> str" where
  "report_evidence report =
     (if sr_blocked report then str_join ''; '' (sr_blocking_reasons report)
      else ''shadow-evidence-passed'')"

text \<open>Python's \<open>override_rationale or rationale\<close>: the empty string counts as absent.\<close>

definition effective_rationale :: "str option \<Rightarrow> str \<Rightarrow> str" where
  "effective_rationale override_rationale rationale =
     (case override_rationale of None \<Rightarrow> rationale | Some r \<Rightarrow> if r = [] then rationale else r)"

section \<open>PostgresControlPlaneStore\<close>

text \<open>\<open>cp_runs\<close> are the ids of the \<open>runs\<close> table, \<open>cp_published\<close> the messages the broadcaster sent.\<close>

record ControlPlane =
  cp_graph_versions :: "ConfigVersionRecord list"
  cp_agent_versions :: "ConfigVersionRecord list"
  cp_shadow_reports :: "(str \<times> ShadowComparisonReport) list"
  cp_snapshots :: "SnapshotRow list"
  cp_active_snapshot_id :: "str option"
  cp_revision :: int
  cp_run_bindings :: "RunSnapshotBinding list"
  cp_audit_events :: "AuditEvent list"
  cp_runs :: "str list"
  cp_broadcaster :: bool
  cp_redis_up :: bool
  cp_published :: "str list"

definition unique_violation :: "str \<Rightarrow> exn" where
  "unique_violation table_name = IntegrityError (''duplicate key in '' @ table_name)"

definition foreign_key_violation :: "str \<Rightarrow> exn" where
  "foreign_key_violation table_name = IntegrityError (''foreign key violation on '' @ table_name)"

definition nullable_snapshot_id :: "str \<Rightarrow> str option" where
  "nullable_snapshot_id snapshot_id = (if snapshot_id \<in> {'''', ''none''} then None else Some snapshot_id)"

definition normalize_expected_snapshot_id :: "str option \<Rightarrow> str \<Rightarrow> str option" where
  "normalize_expected_snapshot_id explicit_snapshot_id observed_snapshot_id =
     (case explicit_snapshot_id of Some s \<Rightarrow> Some s | None \<Rightarrow> nullable_snapshot_id observed_snapshot_id)"

definition next_version_number :: "ConfigVersionRecord list \<Rightarrow> int" where
  "next_version_number rows = foldr (\<lambda>r. max (cv_version_number r)) rows 0 + 1"

definition insert_audit_event :: "AuditEvent \<Rightarrow> ControlPlane \<Rightarrow> ControlPlane" where
  "insert_audit_event event st = st\<lparr>cp_audit_events := cp_audit_events st @ [event]\<rparr>"

definition versions_of :: "config_kind \<Rightarrow> ControlPlane \<Rightarrow> ConfigVersionRecord list" where
  "versions_of kind st = (case kind of Graph \<Rightarrow> cp_graph_versions st | Agent \<Rightarrow> cp_agent_versions st)"

text \<open>\<open>MAX\<close> of an empty table is 0 here, as is the maximum of positive numbers: numbers start at 1.\<close>

definition create_version ::
  "str \<Rightarrow> datetime \<Rightarrow> config_kind \<Rightarrow> str \<Rightarrow> str \<Rightarrow> str \<Rightarrow> (ControlPlane, ConfigVersionRecord) operation" where
  "create_version record_id now config_kind payload actor rationale = transaction (\<lambda>st.
     let rows = versions_of config_kind st;
         row = \<lparr>cv_record_id = record_id, cv_config_kind = config_kind,
                cv_version_number = next_version_number rows, cv_created_by = actor,
                cv_rationale = rationale, cv_created_at = now, cv_payload = payload\<rparr>
     in if list_ex (\<lambda>r. cv_record_id r = record_id) rows
        then (Inl (unique_violation (config_kind_value config_kind @ ''_versions'')), st)
        else (Inr row, insert_audit_event
               \<lparr>au_action = ''create_'' @ config_kind_value config_kind, au_actor = actor,
                au_rationale = rationale, au_target_id = record_id, au_evidence_summary = None\<rparr>
               (case config_kind of
                  Graph \<Rightarrow> st\<lparr>cp_graph_versions := rows @ [row]\<rparr>
                | Agent \<Rightarrow> st\<lparr>cp_agent_versions := rows @ [row]\<rparr>)))"

definition require_version :: "config_kind \<Rightarrow> str \<Rightarrow> ControlPlane \<Rightarrow> unit result" where
  "require_version kind record_id st =
     (if list_ex (\<lambda>r. cv_record_id r = record_id) (versions_of kind st) then Inr ()
      else Inl (KeyError (''Unknown '' @ config_kind_value kind @ '' version `'' @ record_id @ ''`.'')))"

fun require_agent_versions :: "str list \<Rightarrow> ControlPlane \<Rightarrow> unit result" where
  "require_agent_versions [] st = Inr ()"
| "require_agent_versions (v # vs) st =
     bind_result (require_version Agent v st) (\<lambda>_. require_agent_versions vs st)"

text \<open>\<open>Numeric(8, 4)\<close> and \<open>Numeric(12, 4)\<close> of the report row refuse values with too many digits.\<close>

definition fits_numeric :: "nat \<Rightarrow> rat \<Rightarrow> bool" where
  "fits_numeric integer_digits x \<longleftrightarrow> \<bar>of_int (round_half_up (x * 10000)) / 10000\<bar> < (10 :: rat) ^ integer_digits"

definition insert_shadow_report ::
  "str \<Rightarrow> ShadowComparisonReport \<Rightarrow> (ControlPlane, str) operation" where
  "insert_shadow_report report_id report st =
     (if dict_has (cp_shadow_reports st) report_id then (Inl (unique_violation ''shadow_reports''), st)
      else if \<not> fits_numeric 4 (sr_success_rate_delta report) \<or> \<not> fits_numeric 8 (sr_cost_delta_usd report)
      then (Inl numeric_overflow, st)
      else (Inr report_id, st\<lparr>cp_shadow_reports := cp_shadow_reports st @ [(report_id, report)]\<rparr>))"

definition insert_snapshot :: "SnapshotRow \<Rightarrow> (ControlPlane, unit) operation" where
  "insert_snapshot row st =
     (if list_ex (\<lambda>r. cs_snapshot_id r = cs_snapshot_id row) (cp_snapshots st)
      then (Inl (unique_violation ''snapshots''), st)
      else (Inr (), st\<lparr>cp_snapshots := cp_snapshots st @ [row]\<rparr>))"

text \<open>\<open>IS NOT DISTINCT FROM\<close> is equality of nullable values.\<close>

definition cas_active_snapshot :: "str option \<Rightarrow> str \<Rightarrow> (ControlPlane, unit) operation" where
  "cas_active_snapshot expected_active_snapshot_id new_snapshot_id st =
     (if cp_active_snapshot_id st = expected_active_snapshot_id
      then (Inr (), st\<lparr>cp_active_snapshot_id := Some new_snapshot_id, cp_revision := cp_revision st + 1\<rparr>)
      else (Inl (ControlPlaneConflictError ''The active snapshot changed before this operation could commit.''), st))"

definition find_snapshot :: "str \<Rightarrow> ControlPlane \<Rightarrow> SnapshotRow option" where
  "find_snapshot snapshot_id st = find (\<lambda>r. cs_snapshot_id r = snapshot_id) (cp_snapshots st)"

definition unknown_snapshot :: "str \<Rightarrow> exn" where
  "unknown_snapshot snapshot_id = KeyError (''Unknown snapshot `'' @ snapshot_id @ ''`.'')"

definition snapshot_from_row :: "SnapshotRow \<Rightarrow> ConfigSnapshot" where
  "snapshot_from_row row = ConfigSnapshot.truncate row"

definition publish_activation :: "str \<Rightarrow> ControlPlane \<Rightarrow> ControlPlane" where
  "publish_activation snapshot_id st =
     (if cp_broadcaster st \<and> cp_redis_up st then st\<lparr>cp_published := cp_published st @ [snapshot_id]\<rparr> else st)"

text \<open>The end of \<open>activate\<close> and \<open>rollback\<close>, after the transaction: read the snapshot back, then publish it.\<close>

definition load_and_publish :: "str \<Rightarrow> (ControlPlane, ConfigSnapshot) operation" where
  "load_and_publish snapshot_id st =
     (case find_snapshot snapshot_id st of
        None \<Rightarrow> (Inl (unknown_snapshot snapshot_id), st)
      | Some row \<Rightarrow> (Inr (snapshot_from_row row), publish_activation snapshot_id st))"

record Activation =
  av_graph_version_id :: str
  av_agent_version_ids :: "(str \<times> str) list"
  av_actor :: str
  av_rationale :: str
  av_comparison_report :: ShadowComparisonReport
  av_override_rationale :: "str option"
  av_expected_active_snapshot_id :: "str option"

definition commit_activation ::
  "str \<Rightarrow> str \<Rightarrow> datetime \<Rightarrow> Activation \<Rightarrow> (ControlPlane, unit) operation" where
  "commit_activation snapshot_id report_id now a = transaction
     (op_bind (\<lambda>st. (bind_result (require_version Graph (av_graph_version_id a) st)
                       (\<lambda>_. require_agent_versions (map snd (av_agent_version_ids a)) st), st)) (\<lambda>_.
      op_bind (insert_shadow_report report_id (av_comparison_report a)) (\<lambda>report_id.
      op_bind (\<lambda>st. (Inr (cp_active_snapshot_id st), st)) (\<lambda>previous_snapshot_id.
      op_bind (insert_snapshot \<lparr>cs_snapshot_id = snapshot_id, cs_graph_version_id = av_graph_version_id a,
                 cs_agent_version_ids = av_agent_version_ids a, cs_created_at = now, cs_created_by = av_actor a,
                 cs_evidence_summary = report_evidence (av_comparison_report a),
                 sn_shadow_report_id = Some report_id, sn_supersedes_snapshot_id = previous_snapshot_id\<rparr>) (\<lambda>_.
      op_bind (cas_active_snapshot
                 (normalize_expected_snapshot_id (av_expected_active_snapshot_id a)
                    (sr_active_version_id (av_comparison_report a))) snapshot_id) (\<lambda>_ st.
        (Inr (), insert_audit_event
           \<lparr>au_action = ''activate'', au_actor = av_actor a,
            au_rationale = effective_rationale (av_override_rationale a) (av_rationale a),
            au_target_id = snapshot_id,
            au_evidence_summary = Some (report_evidence (av_comparison_report a))\<rparr> st)))))))"

definition activate ::
  "str \<Rightarrow> str \<Rightarrow> datetime \<Rightarrow> Activation \<Rightarrow> (ControlPlane, ConfigSnapshot) operation" where
  "activate snapshot_id report_id now a st =
     (if sr_blocked (av_comparison_report a) \<and> av_override_rationale a = None
      then (Inl activation_blocked, st)
      else op_bind (commit_activation snapshot_id report_id now a) (\<lambda>_. load_and_publish snapshot_id) st)"

definition rollback ::
  "str \<Rightarrow> str \<Rightarrow> str \<Rightarrow> str option \<Rightarrow> (ControlPlane, ConfigSnapshot) operation" where
  "rollback snapshot_id actor rationale expected_active_snapshot_id =
     op_bind (transaction (\<lambda>st.
         if find_snapshot snapshot_id st = None then (Inl (unknown_snapshot snapshot_id), st)
         else op_bind (cas_active_snapshot expected_active_snapshot_id snapshot_id) (\<lambda>_ st.
           (Inr (), insert_audit_event
              \<lparr>au_action = ''rollback'', au_actor = actor, au_rationale = rationale, au_target_id = snapshot_id,
               au_evidence_summary = Some ''rollback-reactivated-snapshot''\<rparr> st)) st))
       (\<lambda>_. load_and_publish snapshot_id)"

definition active_snapshot :: "ControlPlane \<Rightarrow> ConfigSnapshot result" where
  "active_snapshot st =
     (case cp_active_snapshot_id st of
        None \<Rightarrow> Inl (KeyError ''No active snapshot is available.'')
      | Some snapshot_id \<Rightarrow>
          (case find_snapshot snapshot_id st of
             None \<Rightarrow> Inl (OtherError ''No row was found when one was required'')
           | Some row \<Rightarrow> Inr (snapshot_from_row row)))"

definition pin_run_snapshot :: "str \<Rightarrow> str \<Rightarrow> str \<Rightarrow> (ControlPlane, unit) operation" where
  "pin_run_snapshot run_id snapshot_id status st =
     (if run_id \<notin> set (cp_runs st) \<or> find_snapshot snapshot_id st = None
      then (Inl (foreign_key_violation ''run_snapshot_bindings''), st)
      else (Inr (), st\<lparr>cp_run_bindings := upsert_by rb_run_id
              \<lparr>rb_run_id = run_id, rb_snapshot_id = snapshot_id, rb_status = status\<rparr> (cp_run_bindings st)\<rparr>))"

definition unknown_binding :: "str \<Rightarrow> exn" where
  "unknown_binding run_id = KeyError (''Unknown run binding `'' @ run_id @ ''`.'')"

definition find_binding :: "str \<Rightarrow> ControlPlane \<Rightarrow> RunSnapshotBinding option" where
  "find_binding run_id st = find (\<lambda>b. rb_run_id b = run_id) (cp_run_bindings st)"

definition snapshot_for_run :: "str \<Rightarrow> ControlPlane \<Rightarrow> ConfigSnapshot result" where
  "snapshot_for_run run_id st =
     (case find_binding run_id st of
        None \<Rightarrow> Inl (unknown_binding run_id)
      | Some b \<Rightarrow> (case find_snapshot (rb_snapshot_id b) st of
                    None \<Rightarrow> Inl (unknown_binding run_id)
                  | Some row \<Rightarrow> Inr (snapshot_from_row row)))"

definition update_run_status :: "str \<Rightarrow> str \<Rightarrow> (ControlPlane, unit) operation" where
  "update_run_status run_id status st =
     (if find_binding run_id st = None then (Inl (unknown_binding run_id), st)
      else (Inr (), st\<lparr>cp_run_bindings := map (\<lambda>b. if rb_run_id b = run_id then b\<lparr>rb_status := status\<rparr> else b)
                                            (cp_run_bindings st)\<rparr>))"

text \<open>\<open>DELETE FROM snapshots\<close> fails while another row refers to the snapshot.\<close>

definition snapshot_referenced :: "str \<Rightarrow> ControlPlane \<Rightarrow> bool" where
  "snapshot_referenced snapshot_id st \<longleftrightarrow>
     cp_active_snapshot_id st = Some snapshot_id \<or>
     list_ex (\<lambda>b. rb_snapshot_id b = snapshot_id) (cp_run_bindings st) \<or>
     list_ex (\<lambda>r. cs_snapshot_id r \<noteq> snapshot_id \<and> sn_supersedes_snapshot_id r = Some snapshot_id) (cp_snapshots st)"

definition delete_snapshot :: "str \<Rightarrow> (ControlPlane, unit) operation" where
  "delete_snapshot snapshot_id st =
     (let st = st\<lparr>cp_run_bindings := filter (\<lambda>b. \<not> (rb_snapshot_id b = snapshot_id \<and>
                     rb_status b \<notin> set NON_TERMINAL_RUN_STATES)) (cp_run_bindings st)\<rparr>
      in if snapshot_referenced snapshot_id st then (Inl (foreign_key_violation ''snapshots''), st)
         else (Inr (), st\<lparr>cp_snapshots := filter (\<lambda>r. cs_snapshot_id r \<noteq> snapshot_id) (cp_snapshots st)\<rparr>))"

fun delete_retired :: "(str \<Rightarrow> bool) \<Rightarrow> str list \<Rightarrow> (ControlPlane, str list) operation" where
  "delete_retired retained [] st = (Inr [], st)"
| "delete_retired retained (s # ss) st =
     (if retained s then delete_retired retained ss st
      else op_bind (delete_snapshot s) (\<lambda>_.
           op_bind (delete_retired retained ss) (\<lambda>deleted st. (Inr (s # deleted), st))) st)"

definition snapshot_retained :: "ControlPlane \<Rightarrow> str \<Rightarrow> bool" where
  "snapshot_retained st snapshot_id \<longleftrightarrow>
     cp_active_snapshot_id st = Some snapshot_id \<or>
     list_ex (\<lambda>b. rb_snapshot_id b = snapshot_id \<and> rb_status b \<in> set NON_TERMINAL_RUN_STATES) (cp_run_bindings st)"

definition cleanup_retired_snapshots :: "(ControlPlane, str list) operation" where
  "cleanup_retired_snapshots = transaction (\<lambda>st.
     delete_retired (snapshot_retained st) (map cs_snapshot_id (sort_key cs_created_at (cp_snapshots st))) st)"

section \<open>InMemoryControlPlaneStore\<close>

record MemStore =
  ms_graph_versions :: "(str \<times> ConfigVersionRecord) list"
  ms_agent_versions :: "(str \<times> ConfigVersionRecord) list"
  ms_snapshots :: "(str \<times> ConfigSnapshot) list"
  ms_audit_events :: "AuditEvent list"
  ms_shadow_reports :: "ShadowComparisonReport list"
  ms_run_bindings :: "(str \<times> RunSnapshotBinding) list"
  ms_graph_count :: int
  ms_agent_count :: int
  ms_active_snapshot_id :: "str option"

definition mem_create_version ::
  "str \<Rightarrow> datetime \<Rightarrow> config_kind \<Rightarrow> str \<Rightarrow> str \<Rightarrow> str \<Rightarrow> MemStore \<Rightarrow> ConfigVersionRecord \<times> MemStore" where
  "mem_create_version record_id now config_kind payload actor rationale st =
     (let count = (case config_kind of Graph \<Rightarrow> ms_graph_count st | Agent \<Rightarrow> ms_agent_count st) + 1;
          row = \<lparr>cv_record_id = record_id, cv_config_kind = config_kind, cv_version_number = count,
                 cv_created_by = actor, cv_rationale = rationale, cv_created_at = now, cv_payload = payload\<rparr>;
          st = (case config_kind of
                  Graph \<Rightarrow> st\<lparr>ms_graph_count := count,
                              ms_graph_versions := dict_set record_id row (ms_graph_versions st)\<rparr>
                | Agent \<Rightarrow> st\<lparr>ms_agent_count := count,
                              ms_agent_versions := dict_set record_id row (ms_agent_versions st)\<rparr>)
      in (row, st\<lparr>ms_audit_events := ms_audit_events st @
            [\<lparr>au_action = ''create_'' @ config_kind_value config_kind, au_actor = actor,
              au_rationale = rationale, au_target_id = record_id, au_evidence_summary = None\<rparr>]\<rparr>))"

definition mem_require_version :: "config_kind \<Rightarrow> str \<Rightarrow> MemStore \<Rightarrow> unit result" where
  "mem_require_version kind record_id st =
     (if dict_has (case kind of Graph \<Rightarrow> ms_graph_versions st | Agent \<Rightarrow> ms_agent_versions st) record_id
      then Inr ()
      else Inl (KeyError (''Unknown '' @ config_kind_value kind @ '' version `'' @ record_id @ ''`.'')))"

fun mem_require_agent_versions :: "str list \<Rightarrow> MemStore \<Rightarrow> unit result" where
  "mem_require_agent_versions [] st = Inr ()"
| "mem_require_agent_versions (v # vs) st =
     bind_result (mem_require_version Agent v st) (\<lambda>_. mem_require_agent_versions vs st)"

definition mem_expected_snapshot_id :: "Activation \<Rightarrow> str option" where
  "mem_expected_snapshot_id a =
     (case av_expected_active_snapshot_id a of
        Some s \<Rightarrow> Some s
      | None \<Rightarrow> if sr_active_version_id (av_comparison_report a) \<noteq> ''none''
               then Some (sr_active_version_id (av_comparison_report a)) else None)"

definition mem_activate :: "str \<Rightarrow> datetime \<Rightarrow> Activation \<Rightarrow> (MemStore, ConfigSnapshot) operation" where
  "mem_activate snapshot_id now a st =
     (if sr_blocked (av_comparison_report a) \<and> av_override_rationale a = None
      then (Inl activation_blocked, st)
      else if mem_expected_snapshot_id a \<noteq> ms_active_snapshot_id st
      then (Inl (ControlPlaneConflictError ''The active snapshot changed before activation could commit.''), st)
      else (case bind_result (mem_require_version Graph (av_graph_version_id a) st)
                   (\<lambda>_. mem_require_agent_versions (map snd (av_agent_version_ids a)) st) of
              Inl e \<Rightarrow> (Inl e, st)
            | Inr _ \<Rightarrow>
                let snapshot = \<lparr>cs_snapshot_id = snapshot_id, cs_graph_version_id = av_graph_version_id a,
                      cs_agent_version_ids = av_agent_version_ids a, cs_created_at = now,
                      cs_created_by = av_actor a,
                      cs_evidence_summary = report_evidence (av_comparison_report a)\<rparr>
                in (Inr snapshot, st\<lparr>
                      ms_shadow_reports := ms_shadow_reports st @ [av_comparison_report a],
                      ms_snapshots := dict_set snapshot_id snapshot (ms_snapshots st),
                      ms_active_snapshot_id := Some snapshot_id,
                      ms_audit_events := ms_audit_events st @
                        [\<lparr>au_action = ''activate'', au_actor = av_actor a,
                          au_rationale = effective_rationale (av_override_rationale a) (av_rationale a),
                          au_target_id = snapshot_id,
                          au_evidence_summary = Some (report_evidence (av_comparison_report a))\<rparr>]\<rparr>)))"

definition mem_rollback :: "str \<Rightarrow> str \<Rightarrow> str \<Rightarrow> str option \<Rightarrow> (MemStore, ConfigSnapshot) operation" where
  "mem_rollback snapshot_id actor rationale expected_active_snapshot_id st =
     (if expected_active_snapshot_id \<noteq> None \<and> expected_active_snapshot_id \<noteq> ms_active_snapshot_id st
      then (Inl (ControlPlaneConflictError ''The active snapshot changed before rollback could commit.''), st)
      else (case dict_get (ms_snapshots st) snapshot_id of
              None \<Rightarrow> (Inl (KeyError snapshot_id), st)
            | Some snapshot \<Rightarrow>
                (Inr snapshot, st\<lparr>ms_active_snapshot_id := Some snapshot_id,
                   ms_audit_events := ms_audit_events st @
                     [\<lparr>au_action = ''rollback'', au_actor = actor, au_rationale = rationale,
                       au_target_id = snapshot_id,
                       au_evidence_summary = Some ''rollback-reactivated-snapshot''\<rparr>]\<rparr>)))"

definition mem_active_snapshot :: "MemStore \<Rightarrow> ConfigSnapshot result" where
  "mem_active_snapshot st =
     (case ms_active_snapshot_id st of
        None \<Rightarrow> Inl (KeyError ''No active snapshot is available.'')
      | Some s \<Rightarrow> (case dict_get (ms_snapshots st) s of None \<Rightarrow> Inl (KeyError s) | Some c \<Rightarrow> Inr c))"

definition mem_pin_run_snapshot :: "str \<Rightarrow> str \<Rightarrow> str \<Rightarrow> MemStore \<Rightarrow> MemStore" where
  "mem_pin_run_snapshot run_id snapshot_id status st =
     st\<lparr>ms_run_bindings := dict_set run_id
          \<lparr>rb_run_id = run_id, rb_snapshot_id = snapshot_id, rb_status = status\<rparr> (ms_run_bindings st)\<rparr>"

definition mem_snapshot_for_run :: "str \<Rightarrow> MemStore \<Rightarrow> ConfigSnapshot result" where
  "mem_snapshot_for_run run_id st =
     (case dict_get (ms_run_bindings st) run_id of
        None \<Rightarrow> Inl (KeyError run_id)
      | Some b \<Rightarrow> (case dict_get (ms_snapshots st) (rb_snapshot_id b) of
                    None \<Rightarrow> Inl (KeyError (rb_snapshot_id b)) | Some c \<Rightarrow> Inr c))"

definition mem_update_run_status :: "str \<Rightarrow> str \<Rightarrow> (MemStore, unit) operation" where
  "mem_update_run_status run_id status st =
     (case dict_get (ms_run_bindings st) run_id of
        None \<Rightarrow> (Inl (KeyError run_id), st)
      | Some b \<Rightarrow> (Inr (), st\<lparr>ms_run_bindings := dict_set run_id (b\<lparr>rb_status := status\<rparr>) (ms_run_bindings st)\<rparr>))"

definition mem_retained :: "MemStore \<Rightarrow> str \<Rightarrow> bool" where
  "mem_retained st snapshot_id \<longleftrightarrow>
     ms_active_snapshot_id st = Some snapshot_id \<or>
     list_ex (\<lambda>p. rb_snapshot_id (snd p) = snapshot_id \<and>
                   rb_status (snd p) \<in> set NON_TERMINAL_RUN_STATES) (ms_run_bindings st)"

definition mem_cleanup_retired_snapshots :: "MemStore \<Rightarrow> str list \<times> MemStore" where
  "mem_cleanup_retired_snapshots st =
     (filter (\<lambda>s. \<not> mem_retained st s) (map fst (ms_snapshots st)),
      st\<lparr>ms_snapshots := filter (\<lambda>p. mem_retained st (fst p)) (ms_snapshots st)\<rparr>)"

section \<open>Handler registries\<close>

definition handler_map :: "RouteHandlerRef list \<Rightarrow> (str \<times> handler_kind) list" where
  "handler_map refs = dict_of (map (\<lambda>r. (hr_handler_name r, hr_handler_kind r)) refs)"

text \<open>\<open>InMemoryHandlerRegistry.resolve\<close>.\<close>

definition mem_resolve :: "RouteHandlerRef list \<Rightarrow> str \<Rightarrow> handler_kind option" where
  "mem_resolve refs handler_name = dict_get (handler_map refs) handler_name"

record HandlerRegistry =
  sr_cache_ttl_seconds :: rat
  sr_cached_snapshot_id :: "str option"
  sr_cached_handlers :: "(str \<times> handler_kind) list"
  sr_cache_loaded_at :: rat
  sr_broadcaster :: bool
  sr_subscription_started :: bool

definition cache_stale :: "rat \<Rightarrow> HandlerRegistry \<Rightarrow> bool" where
  "cache_stale monotonic reg \<longleftrightarrow>
     sr_cached_snapshot_id reg = None \<or> monotonic - sr_cache_loaded_at reg \<ge> sr_cache_ttl_seconds reg"

definition find_graph_version :: "str \<Rightarrow> ControlPlane \<Rightarrow> ConfigVersionRecord option" where
  "find_graph_version record_id st = find (\<lambda>r. cv_record_id r = record_id) (cp_graph_versions st)"

text \<open>The three-way join of the active snapshot, then the parser of the payload.\<close>

definition load_active_handlers ::
  "(str \<Rightarrow> GraphConfigVersion result) \<Rightarrow> ControlPlane \<Rightarrow> (str \<times> (str \<times> handler_kind) list) result" where
  "load_active_handlers model_validate st =
     (case Option.bind (cp_active_snapshot_id st) (\<lambda>s. find_snapshot s st) of
        None \<Rightarrow> Inl (KeyError ''No active snapshot is available.'')
      | Some row \<Rightarrow>
          (case find_graph_version (cs_graph_version_id row) st of
             None \<Rightarrow> Inl (KeyError ''No active snapshot is available.'')
           | Some version \<Rightarrow> bind_result (model_validate (cv_payload version)) (\<lambda>graph.
               Inr (cs_snapshot_id row, handler_map (gc_route_handlers graph)))))"

definition ensure_subscription :: "HandlerRegistry \<Rightarrow> HandlerRegistry" where
  "ensure_subscription reg =
     (if \<not> sr_broadcaster reg \<or> sr_subscription_started reg then reg
      else reg\<lparr>sr_subscription_started := True\<rparr>)"

definition resolve_handler ::
  "(str \<Rightarrow> GraphConfigVersion result) \<Rightarrow> ControlPlane \<Rightarrow> rat \<Rightarrow> str \<Rightarrow>
   (HandlerRegistry, handler_kind option) operation" where
  "resolve_handler model_validate cp monotonic handler_name reg =
     (let reg = ensure_subscription reg
      in if \<not> cache_stale monotonic reg then (Inr (dict_get (sr_cached_handlers reg) handler_name), reg)
         else (case load_active_handlers model_validate cp of
                 Inl e \<Rightarrow> (Inl e, reg)
               | Inr (snapshot_id, handlers) \<Rightarrow>
                   (Inr (dict_get handlers handler_name),
                    reg\<lparr>sr_cached_snapshot_id := Some snapshot_id, sr_cached_handlers := handlers,
                        sr_cache_loaded_at := monotonic\<rparr>)))"

definition invalidate :: "str option \<Rightarrow> HandlerRegistry \<Rightarrow> HandlerRegistry" where
  "invalidate snapshot_id reg =
     (if snapshot_id \<noteq> None \<and> snapshot_id = sr_cached_snapshot_id reg then reg
      else reg\<lparr>sr_cached_snapshot_id := None, sr_cached_handlers := [], sr_cache_loaded_at := 0\<rparr>)"

section \<open>Selection of the store\<close>

datatype store_mode = Legacy | Postgres

definition control_plane_mode :: "str option \<Rightarrow> store_mode result" where
  "control_plane_mode env =
     (case env of
        None \<Rightarrow> Inr Legacy
      | Some m \<Rightarrow> if m = ''legacy'' then Inr Legacy else if m = ''postgres'' then Inr Postgres
                  else Inl (ValueError (''BACKEND_CONTROL_PLANE_STORE_MODE must be 'legacy' or 'postgres', got '' @
                              [CHR 0x27] @ m @ [CHR 0x27])))"

text \<open>\<open>build_control_plane_store\<close> and \<open>build_handler_registry\<close> differ only in what they build.\<close>

definition no_database_url :: exn where
  "no_database_url =
     RuntimeError ''BACKEND_CONTROL_PLANE_STORE_MODE=postgres requires a configured database URL''"

definition build_store ::
  "store_mode result \<Rightarrow> str option \<Rightarrow> 'a option \<Rightarrow> (str \<Rightarrow> 'a) \<Rightarrow> str \<Rightarrow> 'a result" where
  "build_store settings database_url legacy postgres legacy_error = bind_result settings (\<lambda>mode.
     case mode of
       Legacy \<Rightarrow> (case legacy of None \<Rightarrow> Inl (RuntimeError legacy_error) | Some s \<Rightarrow> Inr s)
     | Postgres \<Rightarrow>
         (case database_url of
            None \<Rightarrow> Inl no_database_url
          | Some url \<Rightarrow> if url = [] then Inl no_database_url else Inr (postgres url)))"

end
