(* ===== verification/ControlPlaneCorrect.thy ===== *)
theory ControlPlaneCorrect
  imports ControlPlane
begin

text \<open>
  What the control plane promises: activation is all or nothing and goes through the gates, only one
  of two competing activations wins, a run that is not finished keeps the snapshot it was pinned to
  (the contract \<open>snapshot_store\<close>, of both stores), and the handler registry follows activation.
  Two defects are stated too: the clean-up of a superseded snapshot and the default of \<open>rollback\<close>.
\<close>

section \<open>Activation\<close>

definition activation_ready :: "str \<Rightarrow> str \<Rightarrow> Activation \<Rightarrow> ControlPlane \<Rightarrow> bool" where
  "activation_ready snapshot_id report_id a st \<longleftrightarrow>
     (sr_blocked (av_comparison_report a) \<longrightarrow> av_override_rationale a \<noteq> None) \<and>
     list_ex (\<lambda>r. cv_record_id r = av_graph_version_id a) (cp_graph_versions st) \<and>
     list_all (\<lambda>v. list_ex (\<lambda>r. cv_record_id r = snd v) (cp_agent_versions st)) (av_agent_version_ids a) \<and>
     \<not> dict_has (cp_shadow_reports st) report_id \<and>
     fits_numeric 4 (sr_success_rate_delta (av_comparison_report a)) \<and>
     fits_numeric 8 (sr_cost_delta_usd (av_comparison_report a)) \<and>
     find_snapshot snapshot_id st = None \<and>
     cp_active_snapshot_id st =
       normalize_expected_snapshot_id (av_expected_active_snapshot_id a) (sr_active_version_id (av_comparison_report a))"

definition activation_row :: "str \<Rightarrow> str \<Rightarrow> datetime \<Rightarrow> Activation \<Rightarrow> ControlPlane \<Rightarrow> SnapshotRow" where
  "activation_row snapshot_id report_id now a st =
     \<lparr>cs_snapshot_id = snapshot_id, cs_graph_version_id = av_graph_version_id a,
      cs_agent_version_ids = av_agent_version_ids a, cs_created_at = now, cs_created_by = av_actor a,
      cs_evidence_summary = report_evidence (av_comparison_report a),
      sn_shadow_report_id = Some report_id, sn_supersedes_snapshot_id = cp_active_snapshot_id st\<rparr>"

definition activated :: "str \<Rightarrow> str \<Rightarrow> datetime \<Rightarrow> Activation \<Rightarrow> ControlPlane \<Rightarrow> ControlPlane" where
  "activated snapshot_id report_id now a st =
     st\<lparr>cp_shadow_reports := cp_shadow_reports st @ [(report_id, av_comparison_report a)],
        cp_snapshots := cp_snapshots st @ [activation_row snapshot_id report_id now a st],
        cp_active_snapshot_id := Some snapshot_id, cp_revision := cp_revision st + 1,
        cp_audit_events := cp_audit_events st @
          [\<lparr>au_action = ''activate'', au_actor = av_actor a,
            au_rationale = effective_rationale (av_override_rationale a) (av_rationale a),
            au_target_id = snapshot_id,
            au_evidence_summary = Some (report_evidence (av_comparison_report a))\<rparr>]\<rparr>"

lemma require_version_iff [simp]:
  "require_version k v st = Inr u \<longleftrightarrow> list_ex (\<lambda>r. cv_record_id r = v) (versions_of k st)"
  by (simp add: require_version_def)

lemma require_agent_versions_iff [simp]:
  "require_agent_versions vs st = Inr u \<longleftrightarrow>
     list_all (\<lambda>v. list_ex (\<lambda>r. cv_record_id r = v) (cp_agent_versions st)) vs"
  by (induction vs st rule: require_agent_versions.induct) (auto simp: versions_of_def)

lemma commit_activation_ready:
  assumes "activation_ready snapshot_id report_id a st"
  shows "commit_activation snapshot_id report_id now a st = (Inr (), activated snapshot_id report_id now a st)"
proof -
  have r: "bind_result (require_version Graph (av_graph_version_id a) st)
      (\<lambda>_. require_agent_versions (map snd (av_agent_version_ids a)) st) = Inr ()"
    using assms by (simp add: activation_ready_def versions_of_def list_all_iff)
  show ?thesis
    using assms unfolding commit_activation_def transaction_def op_bind_def
    by (simp add: r activation_ready_def insert_shadow_report_def insert_snapshot_def cas_active_snapshot_def
        insert_audit_event_def activated_def activation_row_def find_snapshot_def find_None_list_ex)
qed

lemma commit_activation_not_ready:
  assumes "commit_activation snapshot_id report_id now a st = (Inr u, st')"
    and "sr_blocked (av_comparison_report a) \<longrightarrow> av_override_rationale a \<noteq> None"
  shows "activation_ready snapshot_id report_id a st"
proof -
  from assms(1) obtain u' where r: "bind_result (require_version Graph (av_graph_version_id a) st)
      (\<lambda>_. require_agent_versions (map snd (av_agent_version_ids a)) st) = Inr u'"
    unfolding commit_activation_def by (auto simp: op_bind_Inr)
  show ?thesis
    using assms r unfolding commit_activation_def
    by (auto simp: op_bind_Inr activation_ready_def insert_shadow_report_def insert_snapshot_def
        cas_active_snapshot_def find_snapshot_def find_None_list_ex versions_of_def list_all_iff split: if_splits)
qed

lemma load_activated:
  assumes "find_snapshot snapshot_id st = None"
  shows "load_and_publish snapshot_id (activated snapshot_id report_id now a st) =
    (Inr (snapshot_from_row (activation_row snapshot_id report_id now a st)),
     publish_activation snapshot_id (activated snapshot_id report_id now a st))"
  using assms by (simp add: load_and_publish_def find_snapshot_def activated_def find_append activation_row_def)

lemma activation_outcome:
  "case activate snapshot_id report_id now a st of
     (Inl e, st') \<Rightarrow> \<not> activation_ready snapshot_id report_id a st \<and> st' = st
   | (Inr snapshot, st') \<Rightarrow>
       activation_ready snapshot_id report_id a st \<and>
       st' = publish_activation snapshot_id (activated snapshot_id report_id now a st) \<and>
       active_snapshot st' = Inr snapshot \<and> cs_snapshot_id snapshot = snapshot_id \<and>
       cs_graph_version_id snapshot = av_graph_version_id a"
proof (cases "activation_ready snapshot_id report_id a st")
  case True
  then have f: "find_snapshot snapshot_id st = None"
    and b: "\<not> (sr_blocked (av_comparison_report a) \<and> av_override_rationale a = None)"
    by (auto simp: activation_ready_def)
  have "active_snapshot (publish_activation snapshot_id (activated snapshot_id report_id now a st)) =
      Inr (snapshot_from_row (activation_row snapshot_id report_id now a st))"
    using f by (simp add: publish_activation_def active_snapshot_def activated_def find_snapshot_def find_append
        activation_row_def)
  with True b show ?thesis
    by (simp add: activate_def op_bind_def commit_activation_ready load_activated[OF f])
      (simp add: snapshot_from_row_def activation_row_def ConfigSnapshot.truncate_def)
next
  case False
  show ?thesis
  proof (cases "sr_blocked (av_comparison_report a) \<and> av_override_rationale a = None")
    case True
    with False show ?thesis by (simp add: activate_def)
  next
    case nb: False
    obtain r st1 where c: "commit_activation snapshot_id report_id now a st = (r, st1)" by fastforce
    with False nb commit_activation_not_ready obtain e where e: "r = Inl e" by (cases r) blast+
    with c have "st1 = st" unfolding commit_activation_def by (auto dest: transaction_Inl)
    with False nb c e show ?thesis by (simp add: activate_def op_bind_def)
  qed
qed

text \<open>C15 (activation is gated, atomic and audited). \<open>activate\<close> returns a snapshot exactly when the
  candidate is not blocked or an override is given, every version exists, the report can be stored,
  and the active snapshot is still the one the shadow comparison was made against. It then appends
  one snapshot that names its predecessor, makes it active, stores the report and one audit event,
  and bumps the revision; otherwise nothing is changed.\<close>

theorem activation_exact:
  "case activate snapshot_id report_id now a st of
     (Inl e, st') \<Rightarrow> \<not> activation_ready snapshot_id report_id a st \<and> st' = st
   | (Inr snapshot, st') \<Rightarrow>
       activation_ready snapshot_id report_id a st \<and>
       st' = publish_activation snapshot_id (activated snapshot_id report_id now a st) \<and>
       active_snapshot st' = Inr snapshot \<and> cs_snapshot_id snapshot = snapshot_id \<and>
       cs_graph_version_id snapshot = av_graph_version_id a"
  by (rule activation_outcome)

text \<open>Of two competing activations one wins. When an activation commits, no activation that was
  prepared against the same active snapshot can commit after it, whatever identifiers it uses.\<close>

theorem one_activation_wins:
  assumes first: "activate s1 r1 t1 a1 st = (Inr snapshot, st1)"
    and same: "normalize_expected_snapshot_id (av_expected_active_snapshot_id a2)
        (sr_active_version_id (av_comparison_report a2)) =
      normalize_expected_snapshot_id (av_expected_active_snapshot_id a1)
        (sr_active_version_id (av_comparison_report a1))"
    and stored: "\<forall>s. cp_active_snapshot_id st = Some s \<longrightarrow> find_snapshot s st \<noteq> None"
  shows "\<exists>e. activate s2 r2 t2 a2 st1 = (Inl e, st1)"
proof -
  have one: "activation_ready s1 r1 a1 st" "st1 = publish_activation s1 (activated s1 r1 t1 a1 st)"
    using activation_outcome[where snapshot_id = s1 and report_id = r1 and now = t1 and a = a1 and st = st] first by simp_all
  then have "cp_active_snapshot_id st1 = Some s1"
    by (simp add: publish_activation_def activated_def)
  moreover have "cp_active_snapshot_id st \<noteq> Some s1" using one(1) stored by (auto simp: activation_ready_def)
  ultimately have "\<not> activation_ready s2 r2 a2 st1"
    using one(1) same by (auto simp: activation_ready_def)
  then show ?thesis
    using activation_outcome[where snapshot_id = s2 and report_id = r2 and now = t2 and a = a2 and st = st1]
    by (cases "activate s2 r2 t2 a2 st1"; cases "fst (activate s2 r2 t2 a2 st1)") auto
qed

section \<open>A pinned run keeps its snapshot\<close>

text \<open>The operations of a store; an in-memory store ignores the report id.\<close>

datatype cp_op =
    Create_version str datetime config_kind str str str
  | Activate str str datetime Activation
  | Rollback str str str "str option"
  | Pin str str str
  | Update_status str str
  | Cleanup

fun touches_run :: "str \<Rightarrow> cp_op \<Rightarrow> bool" where
  "touches_run run_id (Pin r s status) = (r = run_id)"
| "touches_run run_id (Update_status r status) = (r = run_id)"
| "touches_run run_id _ = False"

primrec all_ok :: "('o \<Rightarrow> 's \<Rightarrow> bool) \<Rightarrow> ('o \<Rightarrow> 's \<Rightarrow> 's) \<Rightarrow> 'o list \<Rightarrow> 's \<Rightarrow> bool" where
  "all_ok ok step [] s = True"
| "all_ok ok step (x # xs) s = (ok x s \<and> all_ok ok step xs (step x s))"

text \<open>What the clients of a store rely on: no operation on anything else moves a run that is not
  finished, as long as identifiers are fresh.\<close>

locale snapshot_store =
  fixes step :: "cp_op \<Rightarrow> 's \<Rightarrow> 's"
    and op_ok :: "cp_op \<Rightarrow> 's \<Rightarrow> bool"
    and run_snapshot :: "str \<Rightarrow> 's \<Rightarrow> ConfigSnapshot result"
    and unfinished :: "str \<Rightarrow> 's \<Rightarrow> bool"
  assumes step_unfinished:
    "op_ok op s \<Longrightarrow> unfinished run_id s \<Longrightarrow> \<not> touches_run run_id op \<Longrightarrow> unfinished run_id (step op s)"
    and step_snapshot:
    "op_ok op s \<Longrightarrow> unfinished run_id s \<Longrightarrow> \<not> touches_run run_id op \<Longrightarrow>
     run_snapshot run_id (step op s) = run_snapshot run_id s"
begin

lemma history_keeps_snapshot:
  assumes "all_ok op_ok step ops s" "unfinished run_id s" "list_all (\<lambda>op. \<not> touches_run run_id op) ops"
  shows "run_snapshot run_id (fold step ops s) = run_snapshot run_id s \<and> unfinished run_id (fold step ops s)"
  using assms
proof (induction ops arbitrary: s)
  case Nil
  then show ?case by simp
next
  case (Cons op ops)
  then have "unfinished run_id (step op s)" "run_snapshot run_id (step op s) = run_snapshot run_id s"
    by (simp_all add: step_unfinished step_snapshot)
  with Cons show ?case by simp
qed

end

fun cp_step :: "cp_op \<Rightarrow> ControlPlane \<Rightarrow> ControlPlane" where
  "cp_step (Create_version i now k p actor why) st = snd (create_version i now k p actor why st)"
| "cp_step (Activate s r now a) st = snd (activate s r now a st)"
| "cp_step (Rollback s actor why expected) st = snd (rollback s actor why expected st)"
| "cp_step (Pin r s status) st = snd (pin_run_snapshot r s status st)"
| "cp_step (Update_status r status) st = snd (update_run_status r status st)"
| "cp_step Cleanup st = snd (cleanup_retired_snapshots st)"

definition unfinished_run :: "str \<Rightarrow> ControlPlane \<Rightarrow> bool" where
  "unfinished_run run_id st \<longleftrightarrow>
     (case find_binding run_id st of
        None \<Rightarrow> False
      | Some b \<Rightarrow> rb_status b \<in> set NON_TERMINAL_RUN_STATES \<and> find_snapshot (rb_snapshot_id b) st \<noteq> None)"

text \<open>What a step may not change for an unfinished run: its binding and the row bound.\<close>

definition run_kept :: "str \<Rightarrow> ControlPlane \<Rightarrow> ControlPlane \<Rightarrow> bool" where
  "run_kept run_id st st' \<longleftrightarrow>
     (case find_binding run_id st of
        None \<Rightarrow> False
      | Some b \<Rightarrow> find_binding run_id st' = Some b \<and>
          find_snapshot (rb_snapshot_id b) st' = find_snapshot (rb_snapshot_id b) st)"

lemma run_kept_consequences:
  assumes "unfinished_run run_id st" "run_kept run_id st st'"
  shows "unfinished_run run_id st'" "snapshot_for_run run_id st' = snapshot_for_run run_id st"
  using assms by (auto simp: unfinished_run_def run_kept_def snapshot_for_run_def split: option.splits)

lemma run_kept_refl: "unfinished_run run_id st \<Longrightarrow> run_kept run_id st st"
  by (auto simp: unfinished_run_def run_kept_def split: option.splits)

lemma run_kept_trans:
  "run_kept run_id st st1 \<Longrightarrow> run_kept run_id st1 st2 \<Longrightarrow> run_kept run_id st st2"
  by (auto simp: run_kept_def split: option.splits)

lemma run_kept_frame:
  assumes "unfinished_run run_id st" "cp_run_bindings st' = cp_run_bindings st"
    and "cp_snapshots st' = cp_snapshots st @ rows"
  shows "run_kept run_id st st'"
  using assms by (auto simp: unfinished_run_def run_kept_def find_binding_def find_snapshot_def find_append
      split: option.splits)

lemma publish_frame [simp]:
  "cp_run_bindings (publish_activation s st) = cp_run_bindings st"
  "cp_snapshots (publish_activation s st) = cp_snapshots st"
  "cp_active_snapshot_id (publish_activation s st) = cp_active_snapshot_id st"
  by (simp_all add: publish_activation_def)

lemma activate_frame:
  "\<exists>rows. cp_snapshots (snd (activate s r now a st)) = cp_snapshots st @ rows \<and>
     cp_run_bindings (snd (activate s r now a st)) = cp_run_bindings st"
  using activation_outcome[where snapshot_id = s and report_id = r and now = now and a = a and st = st]
  by (cases "activate s r now a st"; cases "fst (activate s r now a st)") (auto simp: activated_def)

lemma rollback_frame:
  "cp_snapshots (snd (rollback s actor why expected st)) = cp_snapshots st \<and>
   cp_run_bindings (snd (rollback s actor why expected st)) = cp_run_bindings st"
  by (auto simp: rollback_def op_bind_def transaction_def cas_active_snapshot_def insert_audit_event_def
      load_and_publish_def split: prod.splits sum.splits option.splits if_splits)

lemma create_version_frame:
  "cp_snapshots (snd (create_version i now k p actor why st)) = cp_snapshots st \<and>
   cp_run_bindings (snd (create_version i now k p actor why st)) = cp_run_bindings st"
  by (auto simp: create_version_def transaction_def insert_audit_event_def Let_def split: config_kind.splits)

lemma delete_snapshot_keeps:
  assumes u: "unfinished_run run_id st" and b: "find_binding run_id st = Some b" "rb_snapshot_id b \<noteq> s"
    and d: "delete_snapshot s st = (r, st')"
  shows "run_kept run_id st st'"
proof -
  have "find (\<lambda>b. rb_run_id b = run_id) (filter (\<lambda>b. \<not> (rb_snapshot_id b = s \<and>
      rb_status b \<notin> set NON_TERMINAL_RUN_STATES)) (cp_run_bindings st)) = Some b"
    using b by (intro find_filter_keep) (simp_all add: find_binding_def)
  moreover have "find (\<lambda>r. cs_snapshot_id r = rb_snapshot_id b) (filter (\<lambda>r. cs_snapshot_id r \<noteq> s) (cp_snapshots st)) =
      find_snapshot (rb_snapshot_id b) st"
    unfolding find_snapshot_def using b(2) by (intro find_filter_same) simp
  ultimately show ?thesis
    using d b by (auto simp: delete_snapshot_def Let_def run_kept_def find_binding_def find_snapshot_def split: if_splits)
qed

lemma delete_retired_keeps:
  assumes "unfinished_run run_id st" "find_binding run_id st = Some b" "retained (rb_snapshot_id b)"
    and "delete_retired retained ss st = (r, st')"
  shows "run_kept run_id st st'"
  using assms
proof (induction retained ss st arbitrary: r st' rule: delete_retired.induct)
  case (1 retained st)
  then show ?case by (simp add: run_kept_refl)
next
  case (2 retained s ss st)
  show ?case
  proof (cases "retained s")
    case True
    with 2 show ?thesis by simp
  next
    case False
    then have ne: "rb_snapshot_id b \<noteq> s" using 2(5) by blast
    obtain d st1 where d: "delete_snapshot s st = (d, st1)" by fastforce
    note k = delete_snapshot_keeps[OF 2(3,4) ne d]
    show ?thesis
    proof (cases d)
      case (Inl e)
      with 2(6) False d k show ?thesis by simp
    next
      case (Inr u)
      obtain q st2 where q: "delete_retired retained ss st1 = (q, st2)" by fastforce
      have b1: "find_binding run_id st1 = Some b" using k 2(4) by (simp add: run_kept_def)
      have "run_kept run_id st1 st2"
        using "2.IH"(2)[OF False _ b1 2(5) q] run_kept_consequences(1)[OF 2(3) k] by simp
      moreover have "st' = st2" using 2(6) False d Inr q by (cases q) simp_all
      ultimately show ?thesis using k run_kept_trans by blast
    qed
  qed
qed

lemma cleanup_keeps:
  assumes "unfinished_run run_id st"
  shows "run_kept run_id st (snd (cleanup_retired_snapshots st))"
proof -
  obtain b where b: "find_binding run_id st = Some b" "rb_status b \<in> set NON_TERMINAL_RUN_STATES"
    using assms by (auto simp: unfinished_run_def split: option.splits)
  then have ret: "snapshot_retained st (rb_snapshot_id b)"
    by (auto simp: snapshot_retained_def find_binding_def list_ex_iff dest: find_SomeD)
  obtain r st' where d: "delete_retired (snapshot_retained st)
      (map cs_snapshot_id (sort_key cs_created_at (cp_snapshots st))) st = (r, st')" by fastforce
  from delete_retired_keeps[OF assms b(1) _ d] ret have "run_kept run_id st st'" by simp
  then show ?thesis
    using assms d by (cases r) (simp_all add: cleanup_retired_snapshots_def transaction_def run_kept_refl)
qed

lemma pin_keeps:
  assumes "unfinished_run run_id st" "r \<noteq> run_id"
  shows "run_kept run_id st (snd (pin_run_snapshot r s status st))"
proof -
  have "find (\<lambda>b. rb_run_id b = run_id) (upsert_by rb_run_id row rows) = find (\<lambda>b. rb_run_id b = run_id) rows"
    if "rb_run_id row \<noteq> run_id" for row :: RunSnapshotBinding and rows
  proof -
    have "find (\<lambda>b. rb_run_id b = run_id) (map (\<lambda>r. if rb_run_id r = rb_run_id row then row else r) rows) =
        find (\<lambda>b. rb_run_id b = run_id) rows"
      using that by (induction rows) auto
    with that show ?thesis by (simp add: upsert_by_def find_append split: option.split)
  qed
  with assms show ?thesis
    by (auto simp: pin_run_snapshot_def unfinished_run_def run_kept_def find_binding_def find_snapshot_def
        split: option.splits)
qed

lemma update_keeps:
  assumes "unfinished_run run_id st" "r \<noteq> run_id"
  shows "run_kept run_id st (snd (update_run_status r status st))"
proof -
  have "find (\<lambda>b. rb_run_id b = run_id) (map (\<lambda>b. if rb_run_id b = r then b\<lparr>rb_status := status\<rparr> else b) rows) =
      find (\<lambda>b. rb_run_id b = run_id) rows" for rows :: "RunSnapshotBinding list"
    using assms(2) by (induction rows) auto
  with assms show ?thesis
    by (auto simp: update_run_status_def unfinished_run_def run_kept_def find_binding_def find_snapshot_def
        split: option.splits)
qed

lemma cp_step_keeps:
  assumes "unfinished_run run_id st" "\<not> touches_run run_id op"
  shows "run_kept run_id st (cp_step op st)"
proof (cases op)
  case (Create_version i now k p actor why)
  with assms create_version_frame show ?thesis by (auto intro!: run_kept_frame[where rows = "[]"])
next
  case (Activate s r now a)
  with assms activate_frame[of s r now a st] show ?thesis by (auto intro: run_kept_frame)
next
  case (Rollback s actor why expected)
  with assms rollback_frame show ?thesis by (auto intro!: run_kept_frame[where rows = "[]"])
qed (use assms in \<open>auto intro: pin_keeps update_keeps cleanup_keeps\<close>)

interpretation pg_store: snapshot_store cp_step "\<lambda>_ _. True" snapshot_for_run unfinished_run
  by unfold_locales (blast intro: run_kept_consequences cp_step_keeps)+

fun mem_step :: "cp_op \<Rightarrow> MemStore \<Rightarrow> MemStore" where
  "mem_step (Create_version i now k p actor why) st = snd (mem_create_version i now k p actor why st)"
| "mem_step (Activate s r now a) st = snd (mem_activate s now a st)"
| "mem_step (Rollback s actor why expected) st = snd (mem_rollback s actor why expected st)"
| "mem_step (Pin r s status) st = mem_pin_run_snapshot r s status st"
| "mem_step (Update_status r status) st = snd (mem_update_run_status r status st)"
| "mem_step Cleanup st = snd (mem_cleanup_retired_snapshots st)"

text \<open>\<open>uuid4\<close> gives a new snapshot an identifier no snapshot has.\<close>

fun mem_op_ok :: "cp_op \<Rightarrow> MemStore \<Rightarrow> bool" where
  "mem_op_ok (Activate s r now a) st \<longleftrightarrow> \<not> dict_has (ms_snapshots st) s"
| "mem_op_ok _ st \<longleftrightarrow> True"

definition mem_unfinished_run :: "str \<Rightarrow> MemStore \<Rightarrow> bool" where
  "mem_unfinished_run run_id st \<longleftrightarrow>
     (case dict_get (ms_run_bindings st) run_id of
        None \<Rightarrow> False
      | Some b \<Rightarrow> rb_status b \<in> set NON_TERMINAL_RUN_STATES \<and> dict_has (ms_snapshots st) (rb_snapshot_id b))"

lemma dict_get_filter_fst: "P k \<Longrightarrow> dict_get (filter (\<lambda>p. P (fst p)) d) k = dict_get d k"
  by (induction d k rule: dict_get.induct) auto

lemma mem_step_keeps:
  assumes ok: "mem_op_ok op st" and u: "mem_unfinished_run run_id st" and t: "\<not> touches_run run_id op"
  shows "dict_get (ms_run_bindings (mem_step op st)) run_id = dict_get (ms_run_bindings st) run_id"
    and "dict_get (ms_run_bindings st) run_id = Some b \<Longrightarrow>
      dict_get (ms_snapshots (mem_step op st)) (rb_snapshot_id b) = dict_get (ms_snapshots st) (rb_snapshot_id b)"
proof -
  show "dict_get (ms_run_bindings (mem_step op st)) run_id = dict_get (ms_run_bindings st) run_id"
    using t by (cases op) (auto simp: mem_create_version_def mem_activate_def mem_rollback_def
        mem_pin_run_snapshot_def mem_update_run_status_def mem_cleanup_retired_snapshots_def Let_def
        split: config_kind.splits option.splits sum.splits)
  assume b: "dict_get (ms_run_bindings st) run_id = Some b"
  with u have nt: "rb_status b \<in> set NON_TERMINAL_RUN_STATES" and has: "dict_has (ms_snapshots st) (rb_snapshot_id b)"
    by (simp_all add: mem_unfinished_run_def)
  have ret: "mem_retained st (rb_snapshot_id b)"
    unfolding mem_retained_def list_ex_iff using nt by (intro disjI2 bexI[OF _ dict_get_SomeD[OF b]]) simp
  show "dict_get (ms_snapshots (mem_step op st)) (rb_snapshot_id b) = dict_get (ms_snapshots st) (rb_snapshot_id b)"
  proof (cases op)
    case (Activate s r now a)
    with ok has have "s \<noteq> rb_snapshot_id b" by auto
    with Activate show ?thesis by (auto simp: mem_activate_def Let_def split: sum.splits)
  next
    case Cleanup
    with ret show ?thesis by (simp add: mem_cleanup_retired_snapshots_def dict_get_filter_fst)
  qed (auto simp: mem_create_version_def mem_rollback_def
        mem_pin_run_snapshot_def mem_update_run_status_def Let_def
        split: config_kind.splits option.splits sum.splits)
qed

interpretation mem_store: snapshot_store mem_step mem_op_ok mem_snapshot_for_run mem_unfinished_run
proof unfold_locales
  fix op and s :: MemStore and run_id
  assume a: "mem_op_ok op s" "mem_unfinished_run run_id s" "\<not> touches_run run_id op"
  note k = mem_step_keeps[OF a]
  show "mem_unfinished_run run_id (mem_step op s)"
    using a(2) k by (auto simp: mem_unfinished_run_def dict_has_def split: option.splits)
  show "mem_snapshot_for_run run_id (mem_step op s) = mem_snapshot_for_run run_id s"
    using a(2) k by (auto simp: mem_unfinished_run_def mem_snapshot_for_run_def split: option.splits)
qed

text \<open>C16 (a pinned run keeps its snapshot). Over every history of version creations, activations,
  rollbacks, clean-ups and operations on other runs, a run that is active, paused, in shadow mode or
  in the dead letter queue is served the snapshot it was pinned to, by the PostgreSQL store and (as
  long as new identifiers are fresh) by the in-memory store.\<close>

theorem pinned_run_keeps_snapshot:
  assumes "list_all (\<lambda>op. \<not> touches_run run_id op) ops"
  shows "(unfinished_run run_id cp \<longrightarrow> snapshot_for_run run_id (fold cp_step ops cp) = snapshot_for_run run_id cp) \<and>
    (mem_unfinished_run run_id ms \<and> all_ok mem_op_ok mem_step ops ms \<longrightarrow>
       mem_snapshot_for_run run_id (fold mem_step ops ms) = mem_snapshot_for_run run_id ms)"
proof -
  have "all_ok (\<lambda>_ _. True) cp_step ops cp" by (induction ops arbitrary: cp) simp_all
  with assms show ?thesis
    using pg_store.history_keeps_snapshot mem_store.history_keeps_snapshot by blast
qed

section \<open>A store with two activations\<close>

definition empty_cp :: ControlPlane where
  "empty_cp = \<lparr>cp_graph_versions = [], cp_agent_versions = [], cp_shadow_reports = [], cp_snapshots = [],
     cp_active_snapshot_id = None, cp_revision = 0, cp_run_bindings = [], cp_audit_events = [],
     cp_runs = [''run-1''], cp_broadcaster = True, cp_redis_up = True, cp_published = []\<rparr>"

definition witness_report :: "str \<Rightarrow> ShadowComparisonReport" where
  "witness_report active = compare_shadow ''g'' active
     \<lparr>cm_baseline_success_rate = 9/10, cm_candidate_success_rate = 95/100, cm_baseline_cost_usd = 1,
      cm_candidate_cost_usd = 1, cm_safety_regressions = []\<rparr>
     \<lparr>at_minimum_candidate_success_rate = 9/10, at_max_cost_delta_usd = 1\<rparr>"

definition witness_activation :: "str \<Rightarrow> Activation" where
  "witness_activation active = \<lparr>av_graph_version_id = ''g'', av_agent_version_ids = [], av_actor = ''admin'',
     av_rationale = ''rollout'', av_comparison_report = witness_report active,
     av_override_rationale = None, av_expected_active_snapshot_id = None\<rparr>"

definition one_cp :: ControlPlane where
  "one_cp = fold cp_step [Create_version ''g'' 1 Graph ''payload'' ''admin'' ''new'',
     Activate ''s1'' ''r1'' 2 (witness_activation ''none''), Pin ''run-1'' ''s1'' ''active''] empty_cp"

definition witness_cp :: ControlPlane where
  "witness_cp = cp_step (Activate ''s2'' ''r2'' 3 (witness_activation ''s1'')) one_cp"

definition witness_snapshot :: ConfigSnapshot where
  "witness_snapshot = \<lparr>cs_snapshot_id = ''s2'', cs_graph_version_id = ''g'', cs_agent_version_ids = [],
     cs_created_at = 3, cs_created_by = ''admin'', cs_evidence_summary = ''shadow-evidence-passed''\<rparr>"

lemma witness_activates:
  "activate ''s2'' ''r2'' 3 (witness_activation ''s1'') one_cp = (Inr witness_snapshot, witness_cp)"
proof -
  have "fst (activate ''s2'' ''r2'' 3 (witness_activation ''s1'') one_cp) = Inr witness_snapshot" by code_simp
  then show ?thesis by (simp add: witness_cp_def prod_eq_iff)
qed

lemma one_activation_wins_witness:
  "\<exists>e. activate ''s3'' ''r3'' 4 (witness_activation ''s1'') witness_cp = (Inl e, witness_cp)"
proof -
  have "cp_active_snapshot_id one_cp = Some ''s1'' \<and> find_snapshot ''s1'' one_cp \<noteq> None" by code_simp
  with one_activation_wins[OF witness_activates refl, of "''s3''" "''r3''" 4] show ?thesis by simp
qed

lemma pinned_run_keeps_snapshot_witness:
  "snapshot_for_run ''run-1'' (fold cp_step [Rollback ''s1'' ''admin'' ''why'' (Some ''s2''), Cleanup] witness_cp) =
   snapshot_for_run ''run-1'' witness_cp"
proof -
  have "list_all (\<lambda>op. \<not> touches_run ''run-1'' op) [Rollback ''s1'' ''admin'' ''why'' (Some ''s2''), Cleanup]"
    "unfinished_run ''run-1'' witness_cp" by code_simp+
  with pinned_run_keeps_snapshot[of "''run-1''" "[Rollback ''s1'' ''admin'' ''why'' (Some ''s2''), Cleanup]" witness_cp]
  show ?thesis by blast
qed

section \<open>Clean-up\<close>

lemma delete_snapshot_Inr:
  assumes "delete_snapshot s st = (Inr u, st')"
  shows "cp_snapshots st' = filter (\<lambda>r. cs_snapshot_id r \<noteq> s) (cp_snapshots st)"
    and "cp_active_snapshot_id st \<noteq> Some s"
    and "\<not> list_ex (\<lambda>r. cs_snapshot_id r \<noteq> s \<and> sn_supersedes_snapshot_id r = Some s) (cp_snapshots st)"
  using assms by (auto simp: delete_snapshot_def Let_def snapshot_referenced_def split: if_splits)

lemma delete_retired_Inr:
  "delete_retired retained ss st = (Inr deleted, st') \<Longrightarrow>
   deleted = filter (\<lambda>s. \<not> retained s) ss \<and>
   cp_snapshots st' = filter (\<lambda>r. \<not> (cs_snapshot_id r \<in> set ss \<and> \<not> retained (cs_snapshot_id r))) (cp_snapshots st)"
proof (induction retained ss st arbitrary: deleted st' rule: delete_retired.induct)
  case (1 retained st)
  then show ?case by simp
next
  case (2 retained s ss st)
  show ?case
  proof (cases "retained s")
    case True
    then have "(cs_snapshot_id r \<in> set (s # ss) \<and> \<not> retained (cs_snapshot_id r)) =
        (cs_snapshot_id r \<in> set ss \<and> \<not> retained (cs_snapshot_id r))" for r :: SnapshotRow by auto
    with 2 True show ?thesis by simp
  next
    case False
    with 2(3) obtain u st1 ds where d: "delete_snapshot s st = (Inr u, st1)"
      "delete_retired retained ss st1 = (Inr ds, st')" "deleted = s # ds"
      by (auto simp: op_bind_Inr)
    have "(cs_snapshot_id r \<noteq> s \<and> \<not> (cs_snapshot_id r \<in> set ss \<and> \<not> retained (cs_snapshot_id r))) =
        (\<not> (cs_snapshot_id r \<in> set (s # ss) \<and> \<not> retained (cs_snapshot_id r)))" for r :: SnapshotRow
      using False by auto
    with "2.IH"(2)[OF False d(2)] d(1,3) False show ?thesis
      by (simp add: delete_snapshot_Inr(1)[OF d(1)] filter_filter conj_commute)
  qed
qed

text \<open>Clean-up deletes exactly the retired snapshots, or nothing. When the clean-up returns, it
  has deleted every snapshot that is neither active nor pinned by an unfinished run, oldest first,
  and kept every other; when it raises, the store is unchanged.\<close>

theorem cleanup_exact:
  "case cleanup_retired_snapshots st of
     (Inl e, st') \<Rightarrow> st' = st
   | (Inr deleted, st') \<Rightarrow>
       deleted = filter (\<lambda>s. \<not> snapshot_retained st s)
                   (map cs_snapshot_id (sort_key cs_created_at (cp_snapshots st))) \<and>
       cp_snapshots st' = filter (\<lambda>r. snapshot_retained st (cs_snapshot_id r)) (cp_snapshots st)"
proof (cases "fst (cleanup_retired_snapshots st)")
  case (Inl e)
  then obtain st' where c: "cleanup_retired_snapshots st = (Inl e, st')" by (metis prod.collapse)
  then have "st' = st" unfolding cleanup_retired_snapshots_def by (auto dest: transaction_Inl)
  with c show ?thesis by simp
next
  case (Inr deleted)
  then obtain st' where c: "cleanup_retired_snapshots st = (Inr deleted, st')" by (metis prod.collapse)
  then have "delete_retired (snapshot_retained st) (map cs_snapshot_id (sort_key cs_created_at (cp_snapshots st))) st =
      (Inr deleted, st')" by (simp add: cleanup_retired_snapshots_def)
  note d = delete_retired_Inr[OF this]
  have "filter (\<lambda>r. \<not> (cs_snapshot_id r \<in> set (map cs_snapshot_id (sort_key cs_created_at (cp_snapshots st))) \<and>
      \<not> snapshot_retained st (cs_snapshot_id r))) (cp_snapshots st) =
    filter (\<lambda>r. snapshot_retained st (cs_snapshot_id r)) (cp_snapshots st)"
    by (rule filter_cong) auto
  with c d show ?thesis by simp
qed

lemma delete_retired_append:
  "delete_retired retained (xs @ ys) st = (Inr ds, st') \<Longrightarrow>
   \<exists>st1 d1 d2. delete_retired retained xs st = (Inr d1, st1) \<and> delete_retired retained ys st1 = (Inr d2, st')"
proof (induction xs arbitrary: st ds)
  case Nil
  then show ?case by simp
next
  case (Cons x xs)
  show ?case
  proof (cases "retained x")
    case True
    with Cons show ?thesis by simp
  next
    case False
    with Cons.prems obtain u st1 ds' where "delete_snapshot x st = (Inr u, st1)"
      "delete_retired retained (xs @ ys) st1 = (Inr ds', st')" by (auto simp: op_bind_Inr)
    with Cons.IH False show ?thesis by (fastforce simp: op_bind_def)
  qed
qed

text \<open>A superseded snapshot blocks the clean-up. \<open>snapshots.supersedes_snapshot_id\<close> is a foreign key,
  and the clean-up deletes the oldest rows first: a retired snapshot that a newer one supersedes can
  not be deleted, the transaction is rolled back and nothing is ever cleaned up. This is the state
  every second activation leads to once the runs of the first snapshot are finished.\<close>

theorem cleanup_blocked_by_successor:
  assumes ids: "distinct (map cs_snapshot_id (cp_snapshots st))"
    and old: "old \<in> set (cp_snapshots st)" "\<not> snapshot_retained st (cs_snapshot_id old)"
    and new: "new \<in> set (cp_snapshots st)" "cs_created_at old < cs_created_at new"
      "sn_supersedes_snapshot_id new = Some (cs_snapshot_id old)"
  shows "\<exists>e. cleanup_retired_snapshots st = (Inl e, st)"
proof (rule ccontr)
  assume neg: "\<not> (\<exists>e. cleanup_retired_snapshots st = (Inl e, st))"
  let ?rows = "sort_key cs_created_at (cp_snapshots st)"
  obtain ds st' where "cleanup_retired_snapshots st = (Inr ds, st')"
    using neg cleanup_exact[of st]
    by (cases "cleanup_retired_snapshots st"; cases "fst (cleanup_retired_snapshots st)") auto
  then have del: "delete_retired (snapshot_retained st) (map cs_snapshot_id ?rows) st = (Inr ds, st')"
    by (simp add: cleanup_retired_snapshots_def)
  have "old \<in> set ?rows" using old(1) by simp
  then obtain xs ys where r: "?rows = xs @ old # ys" by (meson split_list)
  have "new \<in> set ?rows" "new \<noteq> old" using new by auto
  moreover have "new \<notin> set xs"
  proof
    assume "new \<in> set xs"
    moreover have "sorted (map cs_created_at ?rows)" by simp
    ultimately show False using new(2) by (fastforce simp: r sorted_append)
  qed
  moreover have dist: "distinct (map cs_snapshot_id ?rows)"
    using ids by (simp add: distinct_map)
  ultimately have "new \<in> set ys" by (simp add: r)
  then have "cs_snapshot_id new \<in> set (map cs_snapshot_id ys)" by simp
  with dist have nx: "cs_snapshot_id new \<notin> set (map cs_snapshot_id xs)" "cs_snapshot_id new \<noteq> cs_snapshot_id old"
    unfolding r by (auto simp del: set_map)
  obtain st1 d1 d2 where p: "delete_retired (snapshot_retained st) (map cs_snapshot_id xs) st = (Inr d1, st1)"
    "delete_retired (snapshot_retained st) (cs_snapshot_id old # map cs_snapshot_id ys) st1 = (Inr d2, st')"
    using delete_retired_append[of _ "map cs_snapshot_id xs" "cs_snapshot_id old # map cs_snapshot_id ys"] del r by force
  have "new \<in> set (cp_snapshots st1)"
    using delete_retired_Inr[OF p(1)] new(1) nx(1) by auto
  moreover obtain u st2 where "delete_snapshot (cs_snapshot_id old) st1 = (Inr u, st2)"
    using p(2) old(2) by (auto simp: op_bind_Inr)
  ultimately show False
    using delete_snapshot_Inr(3) new(3) nx(2) by (fastforce simp: list_ex_iff)
qed

lemma cleanup_blocked_by_successor_witness:
  "\<exists>e. cleanup_retired_snapshots (cp_step (Update_status ''run-1'' ''completed'') witness_cp) =
     (Inl e, cp_step (Update_status ''run-1'' ''completed'') witness_cp)"
proof (rule cleanup_blocked_by_successor)
  let ?st = "cp_step (Update_status ''run-1'' ''completed'') witness_cp"
  show "distinct (map cs_snapshot_id (cp_snapshots ?st))" by code_simp
  have len: "length (cp_snapshots ?st) = 2" by code_simp
  then show "cp_snapshots ?st ! 0 \<in> set (cp_snapshots ?st)" "cp_snapshots ?st ! 1 \<in> set (cp_snapshots ?st)" by simp_all
  show "\<not> snapshot_retained ?st (cs_snapshot_id (cp_snapshots ?st ! 0))"
    "cs_created_at (cp_snapshots ?st ! 0) < cs_created_at (cp_snapshots ?st ! 1)"
    "sn_supersedes_snapshot_id (cp_snapshots ?st ! 1) = Some (cs_snapshot_id (cp_snapshots ?st ! 0))" by code_simp+
qed

text \<open>The default of \<open>rollback\<close> never works. With \<open>expected_active_snapshot_id\<close> left at its default, the
  PostgreSQL store refuses every rollback to a stored snapshot while any snapshot is active, and
  changes nothing; the in-memory store takes the default as no expectation and rolls back.\<close>

theorem rollback_default_conflicts:
  assumes "cp_active_snapshot_id st \<noteq> None" "find_snapshot s st \<noteq> None" "dict_has (ms_snapshots ms) s"
  shows "rollback s actor rationale None st =
      (Inl (ControlPlaneConflictError ''The active snapshot changed before this operation could commit.''), st) \<and>
    ms_active_snapshot_id (snd (mem_rollback s actor rationale None ms)) = Some s \<and>
    fst (mem_rollback s actor rationale None ms) = Inr (the (dict_get (ms_snapshots ms) s))"
  using assms by (auto simp: rollback_def op_bind_def transaction_def cas_active_snapshot_def mem_rollback_def
      dict_has_def)

lemma rollback_default_conflicts_witness:
  "isl (fst (rollback ''s1'' ''admin'' ''why'' None witness_cp))"
proof -
  define ms where "ms = \<lparr>ms_graph_versions = [], ms_agent_versions = [],
    ms_snapshots = [(''s1'', snapshot_from_row (activation_row ''s1'' ''r'' 1 (witness_activation ''none'') empty_cp))],
    ms_audit_events = [], ms_shadow_reports = [], ms_run_bindings = [], ms_graph_count = 0,
    ms_agent_count = 0, ms_active_snapshot_id = None\<rparr>"
  have "cp_active_snapshot_id witness_cp \<noteq> None" "find_snapshot ''s1'' witness_cp \<noteq> None" by code_simp+
  moreover have "dict_has (ms_snapshots ms) ''s1''" by (simp add: ms_def dict_has_def)
  ultimately show ?thesis
    using rollback_default_conflicts[of witness_cp "''s1''" ms "''admin''" "''why''"] by simp
qed

section \<open>Handler registry\<close>

text \<open>The handlers of a snapshot, and a cache that agrees with the snapshot it names.\<close>

definition snapshot_handlers ::
  "(str \<Rightarrow> GraphConfigVersion result) \<Rightarrow> ControlPlane \<Rightarrow> str \<Rightarrow> (str \<times> handler_kind) list result option" where
  "snapshot_handlers model_validate st s =
     Option.bind (find_snapshot s st) (\<lambda>row.
       map_option (\<lambda>v. bind_result (model_validate (cv_payload v)) (\<lambda>g. Inr (handler_map (gc_route_handlers g))))
         (find_graph_version (cs_graph_version_id row) st))"

definition registry_consistent ::
  "(str \<Rightarrow> GraphConfigVersion result) \<Rightarrow> ControlPlane \<Rightarrow> HandlerRegistry \<Rightarrow> bool" where
  "registry_consistent model_validate st reg \<longleftrightarrow>
     (case sr_cached_snapshot_id reg of
        None \<Rightarrow> True
      | Some s \<Rightarrow> snapshot_handlers model_validate st s = Some (Inr (sr_cached_handlers reg)))"

definition current_handler ::
  "(str \<Rightarrow> GraphConfigVersion result) \<Rightarrow> ControlPlane \<Rightarrow> str \<Rightarrow> handler_kind option result" where
  "current_handler model_validate st handler_name =
     bind_result (load_active_handlers model_validate st) (\<lambda>(_, handlers). Inr (dict_get handlers handler_name))"

lemma load_active_handlers_snapshot:
  assumes "cp_active_snapshot_id st = Some s"
  shows "load_active_handlers model_validate st =
    (case snapshot_handlers model_validate st s of
       None \<Rightarrow> Inl (KeyError ''No active snapshot is available.'')
     | Some handlers \<Rightarrow> bind_result handlers (\<lambda>h. Inr (s, h)))"
proof (cases "find_snapshot s st")
  case None
  with assms show ?thesis by (simp add: load_active_handlers_def snapshot_handlers_def)
next
  case (Some row)
  then have "cs_snapshot_id row = s" by (auto simp: find_snapshot_def dest: find_SomeD)
  with Some assms show ?thesis
    by (cases "find_graph_version (cs_graph_version_id row) st")
      (auto simp: load_active_handlers_def snapshot_handlers_def bind_result_assoc)
qed

lemma ensure_subscription_frame [simp]:
  "cache_stale t (ensure_subscription reg) = cache_stale t reg"
  "sr_cached_handlers (ensure_subscription reg) = sr_cached_handlers reg"
  "sr_cached_snapshot_id (ensure_subscription reg) = sr_cached_snapshot_id reg"
  by (simp_all add: ensure_subscription_def cache_stale_def)

lemma resolve_current:
  assumes "registry_consistent model_validate st reg" "cp_active_snapshot_id st = Some s"
    and "cache_stale t reg \<or> sr_cached_snapshot_id reg = Some s"
  shows "fst (resolve_handler model_validate st t name reg) = current_handler model_validate st name"
proof (cases "cache_stale t reg")
  case True
  then show ?thesis
    by (cases "load_active_handlers model_validate st")
      (simp_all add: resolve_handler_def Let_def current_handler_def split: prod.splits)
next
  case False
  with assms have "snapshot_handlers model_validate st s = Some (Inr (sr_cached_handlers reg))"
    by (simp add: registry_consistent_def)
  with False assms(2) show ?thesis
    by (simp add: resolve_handler_def Let_def current_handler_def load_active_handlers_snapshot)
qed

lemma resolve_consistent:
  assumes "registry_consistent model_validate st reg"
  shows "registry_consistent model_validate st (snd (resolve_handler model_validate st t name reg))"
proof (cases "cache_stale t reg")
  case False
  with assms show ?thesis
    by (auto simp: resolve_handler_def Let_def registry_consistent_def split: option.splits)
next
  case True
  show ?thesis
  proof (cases "load_active_handlers model_validate st")
    case (Inl e)
    with True assms show ?thesis
      by (auto simp: resolve_handler_def Let_def registry_consistent_def split: option.splits)
  next
    case (Inr p)
    obtain s h where p: "p = (s, h)" by fastforce
    from Inr p obtain a where a: "cp_active_snapshot_id st = Some a"
      by (cases "cp_active_snapshot_id st") (simp_all add: load_active_handlers_def)
    from Inr p have "snapshot_handlers model_validate st s = Some (Inr h)"
      by (auto simp: load_active_handlers_snapshot[OF a] split: option.splits)
    with True Inr p show ?thesis by (simp add: resolve_handler_def Let_def registry_consistent_def)
  qed
qed

lemma registry_consistent_extend:
  assumes "registry_consistent model_validate st reg"
    and "cp_snapshots st' = cp_snapshots st @ rows" "cp_graph_versions st' = cp_graph_versions st"
  shows "registry_consistent model_validate st' reg"
  using assms by (auto simp: registry_consistent_def snapshot_handlers_def find_snapshot_def find_graph_version_def
      find_append split: option.splits bind_splits)



end
