(* ===== verification/Webhook.thy ===== *)
theory Webhook
  imports Db Strings
begin

text \<open>
  The webhook guards: \<open>backend/security/webhook.py\<close>, \<open>PostgresRedisWebhookGuard\<close>,
  \<open>ShadowWebhookGuard\<close> and their stores in \<open>backend/persistence/webhook.py\<close>, the in-memory guard of
  \<open>persistence/testing/security.py\<close>, the Jira endpoint of \<open>platform/api.py\<close> and the secret rotation of
  \<open>webhook/admin.py\<close>. HMAC-SHA256, SHA-256 and the membership of an address in a network are
  arguments. Redis answers all commands of one call or none; its clock is the \<open>now\<close> of the call.
\<close>

section \<open>Requests and results\<close>

record WebhookRequest =
  wr_body :: str
  wr_signature :: str
  wr_timestamp :: int
  wr_event_id :: str
  wr_tenant_id :: str
  wr_team_id :: str
  wr_remote_addr :: str
  wr_source :: str
  wr_endpoint :: str
  wr_ticket_key :: str

record WebhookGuardResult =
  wg_accepted :: bool
  wg_deduplicated :: bool
  wg_rejection_reason :: "str option"
  wg_idempotency_key :: "str option"

definition rejected :: "str \<Rightarrow> WebhookGuardResult" where
  "rejected reason = \<lparr>wg_accepted = False, wg_deduplicated = False, wg_rejection_reason = Some reason,
     wg_idempotency_key = None\<rparr>"

definition accepted_new :: "str \<Rightarrow> WebhookGuardResult" where
  "accepted_new key = \<lparr>wg_accepted = True, wg_deduplicated = False, wg_rejection_reason = None,
     wg_idempotency_key = Some key\<rparr>"

definition accepted_duplicate :: "str \<Rightarrow> WebhookGuardResult" where
  "accepted_duplicate key = \<lparr>wg_accepted = True, wg_deduplicated = True, wg_rejection_reason = None,
     wg_idempotency_key = Some key\<rparr>"

definition normalise_signature :: "str \<Rightarrow> str" where
  "normalise_signature signature =
     (if startswith signature ''sha256='' then removeprefix signature ''sha256='' else signature)"

definition idempotency_key :: "WebhookRequest \<Rightarrow> str \<Rightarrow> str" where
  "idempotency_key request signature_hash =
     (if signature_hash \<noteq> [] then wr_source request @ '':'' @ wr_event_id request @ '':'' @ signature_hash
      else wr_source request @ '':'' @ wr_event_id request)"

section \<open>Stores\<close>

record DeliveryRow =
  wd_source :: str
  wd_delivery_id :: str
  wd_tenant_id :: str
  wd_team_id :: str
  wd_endpoint :: str
  wd_hmac_digest :: str
  wd_signature_hash :: str
  wd_disposition_status :: str

record RejectionRow =
  wj_tenant_id :: str
  wj_team_id :: str
  wj_ticket_key :: str
  wj_source :: str
  wj_delivery_id :: str
  wj_remote_addr :: str

text \<open>The settings of a guard and what its calls share: database rows, Redis keys (a dedupe key with
  its expiry, a flood window per key) and the in-process request windows.\<close>

record WebhookGuard =
  gd_secret :: str
  gd_previous_secret :: "str option"
  gd_rotation_overlap_until :: "datetime option"
  gd_freshness_window_seconds :: int
  gd_per_minute_limit :: int
  gd_per_ticket_flood_limit :: int
  gd_ip_allowlist :: "str list"
  gd_bypass :: bool
  gd_redis_up :: bool
  gd_deliveries :: "DeliveryRow list"
  gd_rejections :: "RejectionRow list"
  gd_cache :: "(str \<times> int) list"
  gd_flood_windows :: "(str \<times> int list) list"
  gd_request_windows :: "((str \<times> str) \<times> int list) list"

text \<open>Both unique constraints of the table ignore the tenant; the second is implied by the first.\<close>

definition duplicate_delivery :: "DeliveryRow \<Rightarrow> DeliveryRow list \<Rightarrow> bool" where
  "duplicate_delivery row rows \<longleftrightarrow>
     list_ex (\<lambda>r. wd_source r = wd_source row \<and> wd_delivery_id r = wd_delivery_id row) rows \<or>
     list_ex (\<lambda>r. wd_source r = wd_source row \<and> wd_delivery_id r = wd_delivery_id row \<and>
                   wd_signature_hash r = wd_signature_hash row) rows"

definition insert_delivery :: "WebhookRequest \<Rightarrow> str \<Rightarrow> str \<Rightarrow> (WebhookGuard, bool) operation" where
  "insert_delivery request disposition_status signature_hash st =
     (let row = \<lparr>wd_source = wr_source request, wd_delivery_id = wr_event_id request,
            wd_tenant_id = wr_tenant_id request, wd_team_id = wr_team_id request,
            wd_endpoint = wr_endpoint request, wd_hmac_digest = wr_signature request,
            wd_signature_hash = signature_hash, wd_disposition_status = disposition_status\<rparr>
      in if \<not> row_visible (gd_bypass st) (Some (wr_tenant_id request, wr_team_id request))
               (wr_tenant_id request) (wr_team_id request)
         then (Inl rls_violation, st)
         else if duplicate_delivery row (gd_deliveries st) then (Inr False, st)
         else (Inr True, st\<lparr>gd_deliveries := gd_deliveries st @ [row]\<rparr>))"

definition record_rate_limit_rejection :: "WebhookRequest \<Rightarrow> WebhookGuard \<Rightarrow> WebhookGuard" where
  "record_rate_limit_rejection request st =
     st\<lparr>gd_rejections := gd_rejections st @
          [\<lparr>wj_tenant_id = wr_tenant_id request, wj_team_id = wr_team_id request,
            wj_ticket_key = wr_ticket_key request, wj_source = wr_source request,
            wj_delivery_id = wr_event_id request, wj_remote_addr = wr_remote_addr request\<rparr>]\<rparr>"

definition cache_seen :: "str \<Rightarrow> int \<Rightarrow> WebhookGuard \<Rightarrow> bool" where
  "cache_seen key now st =
     (gd_redis_up st \<and> (case dict_get (gd_cache st) key of None \<Rightarrow> False | Some expiry \<Rightarrow> now < expiry))"

definition remember_best_effort :: "str \<Rightarrow> int \<Rightarrow> WebhookGuard \<Rightarrow> WebhookGuard" where
  "remember_best_effort key now st =
     (if gd_redis_up st
      then st\<lparr>gd_cache := dict_set key (now + gd_freshness_window_seconds st) (gd_cache st)\<rparr> else st)"

text \<open>\<open>_SLIDING_WINDOW_SCRIPT\<close> on the scores of one key; the random part of a member keeps equal
  scores apart.\<close>

definition sliding_window_script :: "int \<Rightarrow> int \<Rightarrow> int \<Rightarrow> int list \<Rightarrow> bool \<times> int list" where
  "sliding_window_script now window limit scores =
     (let kept = filter (\<lambda>s. s > now - window) scores
      in if int (length kept) \<ge> limit then (True, kept) else (False, kept @ [now]))"

definition check_sliding_window ::
  "str \<Rightarrow> int \<Rightarrow> int \<Rightarrow> int \<Rightarrow> WebhookGuard \<Rightarrow> bool \<times> WebhookGuard" where
  "check_sliding_window key now window limit st =
     (if \<not> gd_redis_up st then (False, st)
      else let (limited, scores) = sliding_window_script now window limit (dict_getd (gd_flood_windows st) key [])
           in (limited, st\<lparr>gd_flood_windows := dict_set key scores (gd_flood_windows st)\<rparr>))"

section \<open>PostgresRedisWebhookGuard\<close>

definition signed_payload :: "str \<Rightarrow> int \<Rightarrow> str" where
  "signed_payload body timestamp = str_of_int timestamp @ ''.'' @ body"

definition compute_signature :: "(str \<Rightarrow> str \<Rightarrow> str) \<Rightarrow> str \<Rightarrow> int \<Rightarrow> str \<Rightarrow> str" where
  "compute_signature hmac body timestamp secret = hmac secret (signed_payload body timestamp)"

definition sign :: "(str \<Rightarrow> str \<Rightarrow> str) \<Rightarrow> str \<Rightarrow> int \<Rightarrow> WebhookGuard \<Rightarrow> str" where
  "sign hmac body timestamp st = hmac (gd_secret st) (signed_payload body timestamp)"

definition is_within_overlap :: "datetime \<Rightarrow> WebhookGuard \<Rightarrow> bool" where
  "is_within_overlap wall st =
     (case gd_rotation_overlap_until st of None \<Rightarrow> False | Some until \<Rightarrow> wall \<le> until)"

definition verify_signature ::
  "(str \<Rightarrow> str \<Rightarrow> str) \<Rightarrow> datetime \<Rightarrow> str \<Rightarrow> int \<Rightarrow> str \<Rightarrow> WebhookGuard \<Rightarrow> bool \<times> bool" where
  "verify_signature hmac wall body timestamp request_signature st =
     (if compute_signature hmac body timestamp (gd_secret st) = request_signature then (True, False)
      else case gd_previous_secret st of
             None \<Rightarrow> (False, False)
           | Some previous \<Rightarrow>
               if previous \<noteq> [] \<and> is_within_overlap wall st \<and>
                  compute_signature hmac body timestamp previous = request_signature
               then (True, True) else (False, False))"

definition check_ticket_flood :: "WebhookRequest \<Rightarrow> int \<Rightarrow> WebhookGuard \<Rightarrow> bool \<times> WebhookGuard" where
  "check_ticket_flood request now st =
     check_sliding_window (''webhook:flood:'' @ wr_tenant_id request @ '':'' @ wr_ticket_key request)
       now 60 (gd_per_ticket_flood_limit st) st"

definition rate_limited :: "WebhookRequest \<Rightarrow> int \<Rightarrow> WebhookGuard \<Rightarrow> bool \<times> WebhookGuard" where
  "rate_limited request now st =
     (let bucket_key = (wr_endpoint request, wr_remote_addr request);
          request_times = filter (\<lambda>t. now - t < 60) (dict_getd (gd_request_windows st) bucket_key [])
      in if int (length request_times) \<ge> gd_per_minute_limit st
         then (True, st\<lparr>gd_request_windows := dict_set bucket_key request_times (gd_request_windows st)\<rparr>)
         else (False, st\<lparr>gd_request_windows := dict_set bucket_key (request_times @ [now]) (gd_request_windows st)\<rparr>))"

definition ip_allowed :: "(str \<Rightarrow> str \<Rightarrow> bool) \<Rightarrow> str \<Rightarrow> WebhookGuard \<Rightarrow> bool" where
  "ip_allowed ip_in remote_addr st = list_ex (\<lambda>network. ip_in remote_addr network) (gd_ip_allowlist st)"

text \<open>The environment of a call: HMAC, hash, address membership, and the wall clock.\<close>

record crypto =
  cr_hmac :: "str \<Rightarrow> str \<Rightarrow> str"
  cr_sha256 :: "str \<Rightarrow> str"
  cr_ip_in :: "str \<Rightarrow> str \<Rightarrow> bool"

text \<open>The last part of \<open>verify\<close>: the request is authentic, fresh and within the limits.\<close>

definition record_delivery :: "WebhookRequest \<Rightarrow> str \<Rightarrow> int \<Rightarrow> (WebhookGuard, WebhookGuardResult) operation" where
  "record_delivery request signature_hash now st =
     (let key = idempotency_key request signature_hash
      in if cache_seen key now st then (Inr (accepted_duplicate key), st)
         else op_bind (insert_delivery request ''accepted'' signature_hash)
           (\<lambda>inserted st. (Inr (if inserted then accepted_new key else accepted_duplicate key),
                            remember_best_effort key now st)) st)"

definition verify_webhook ::
  "crypto \<Rightarrow> datetime \<Rightarrow> WebhookRequest \<Rightarrow> int \<Rightarrow> (WebhookGuard, WebhookGuardResult) operation" where
  "verify_webhook cr wall request now st =
     (if gd_ip_allowlist st \<noteq> [] \<and> \<not> ip_allowed (cr_ip_in cr) (wr_remote_addr request) st
      then (Inr (rejected ''ip_not_allowed''), st)
      else
        let request_signature = normalise_signature (wr_signature request);
            signature_hash = cr_sha256 cr (wr_body request)
        in if \<not> fst (verify_signature (cr_hmac cr) wall (wr_body request) (wr_timestamp request) request_signature st)
           then (Inr (rejected ''invalid_signature''), st)
           else if now - wr_timestamp request > gd_freshness_window_seconds st
           then (Inr (rejected ''stale_timestamp''), st)
           else
             let (flooded, st) = check_ticket_flood request now st
             in if flooded then (Inr (rejected ''rate_limited''), record_rate_limit_rejection request st)
                else
                  let (limited, st) = rate_limited request now st
                  in if limited then (Inr (rejected ''rate_limited''), st)
                     else record_delivery (request\<lparr>wr_signature := request_signature\<rparr>) signature_hash now st)"

section \<open>InMemoryWebhookGuard\<close>

record MemGuard =
  mg_secret :: str
  mg_freshness_window_seconds :: int
  mg_per_minute_limit :: int
  mg_per_ticket_flood_limit :: int
  mg_ip_allowlist :: "str list"
  mg_seen_events :: "str list"
  mg_request_windows :: "((str \<times> str) \<times> int list) list"
  mg_ticket_windows :: "(str \<times> int list) list"

definition mem_ticket_flood_exceeded :: "str \<Rightarrow> int \<Rightarrow> MemGuard \<Rightarrow> bool \<times> MemGuard" where
  "mem_ticket_flood_exceeded ticket_key now st =
     (let times = filter (\<lambda>t. now - t < 60) (dict_getd (mg_ticket_windows st) ticket_key [])
      in if int (length times) \<ge> mg_per_ticket_flood_limit st
         then (True, st\<lparr>mg_ticket_windows := dict_set ticket_key times (mg_ticket_windows st)\<rparr>)
         else (False, st\<lparr>mg_ticket_windows := dict_set ticket_key (times @ [now]) (mg_ticket_windows st)\<rparr>))"

definition mem_verify_webhook :: "crypto \<Rightarrow> WebhookRequest \<Rightarrow> int \<Rightarrow> MemGuard \<Rightarrow> WebhookGuardResult \<times> MemGuard" where
  "mem_verify_webhook cr request now st =
     (if mg_ip_allowlist st \<noteq> [] \<and> \<not> list_ex (\<lambda>network. cr_ip_in cr (wr_remote_addr request) network) (mg_ip_allowlist st)
      then (rejected ''ip_not_allowed'', st)
      else if cr_hmac cr (mg_secret st) (signed_payload (wr_body request) (wr_timestamp request)) \<noteq> wr_signature request
      then (rejected ''invalid_signature'', st)
      else if now - wr_timestamp request > mg_freshness_window_seconds st
      then (rejected ''stale_timestamp'', st)
      else
        let key = wr_source request @ '':'' @ wr_event_id request @ '':'' @ cr_sha256 cr (wr_body request)
        in if key \<in> set (mg_seen_events st) then (accepted_duplicate key, st)
           else
             let ticket_key = (if wr_ticket_key request = [] then ''unknown'' else wr_ticket_key request);
                 (flooded, st) = mem_ticket_flood_exceeded ticket_key now st
             in if flooded then (rejected ''rate_limited'', st)
                else
                  let bucket_key = (wr_endpoint request, wr_remote_addr request);
                      request_times = filter (\<lambda>t. now - t < 60) (dict_getd (mg_request_windows st) bucket_key [])
                  in if int (length request_times) \<ge> mg_per_minute_limit st
                     then (rejected ''rate_limited'',
                           st\<lparr>mg_request_windows := dict_set bucket_key request_times (mg_request_windows st)\<rparr>)
                     else (accepted_new key,
                           st\<lparr>mg_request_windows := dict_set bucket_key (request_times @ [now]) (mg_request_windows st),
                              mg_seen_events := key # mg_seen_events st\<rparr>))"

section \<open>ShadowWebhookGuard\<close>

text \<open>The shadow guard answers with the legacy result; an exception of the candidate is logged.\<close>

definition shadow_verify ::
  "crypto \<Rightarrow> datetime \<Rightarrow> WebhookRequest \<Rightarrow> int \<Rightarrow> MemGuard \<times> WebhookGuard \<Rightarrow>
   WebhookGuardResult \<times> MemGuard \<times> WebhookGuard" where
  "shadow_verify cr wall request now sts =
     (let (legacy_result, legacy) = mem_verify_webhook cr request now (fst sts);
          (_, candidate) = verify_webhook cr wall request now (snd sts)
      in (legacy_result, legacy, candidate))"

section \<open>The Jira endpoint\<close>

record JiraWebhookEvent =
  je_event_id :: str
  je_ticket_key :: str
  je_tenant_id :: str
  je_team_id :: str
  je_summary :: str

definition rejection_status_code :: "str option \<Rightarrow> nat" where
  "rejection_status_code reason =
     (if reason \<in> {Some ''invalid_signature'', Some ''stale_timestamp''} then 401
      else if reason = Some ''rate_limited'' then 429 else 400)"

text \<open>The request the endpoint hands to the guard; \<open>source\<close>, \<open>endpoint\<close> and \<open>ticket_key\<close> keep their
  defaults.\<close>

definition jira_request :: "JiraWebhookEvent \<Rightarrow> str \<Rightarrow> str \<Rightarrow> int \<Rightarrow> str \<Rightarrow> WebhookRequest" where
  "jira_request event raw_body x_hub_signature_256 x_timestamp client_host =
     \<lparr>wr_body = raw_body, wr_signature = normalise_signature x_hub_signature_256,
      wr_timestamp = x_timestamp, wr_event_id = je_event_id event, wr_tenant_id = je_tenant_id event,
      wr_team_id = je_team_id event, wr_remote_addr = client_host, wr_source = ''jira'',
      wr_endpoint = ''/api/v1/webhooks/jira'', wr_ticket_key = ''unknown''\<rparr>"

record JiraReply =
  jr_event_id :: str
  jr_ticket_key :: str
  jr_accepted :: bool
  jr_deduplicated :: bool

definition receive_jira_webhook ::
  "crypto \<Rightarrow> datetime \<Rightarrow> JiraWebhookEvent \<Rightarrow> str \<Rightarrow> str \<Rightarrow> int \<Rightarrow> str \<Rightarrow> int \<Rightarrow>
   (WebhookGuard, JiraReply) operation" where
  "receive_jira_webhook cr wall event raw_body x_hub_signature_256 x_timestamp client_host now =
     op_bind (verify_webhook cr wall (jira_request event raw_body x_hub_signature_256 x_timestamp client_host) now)
       (\<lambda>verification st.
          (if \<not> wg_accepted verification
           then Inl (HTTPException (rejection_status_code (wg_rejection_reason verification))
                  (case wg_rejection_reason verification of
                     None \<Rightarrow> ''webhook_rejected'' | Some r \<Rightarrow> if r = [] then ''webhook_rejected'' else r))
           else Inr \<lparr>jr_event_id = je_event_id event, jr_ticket_key = je_ticket_key event,
                     jr_accepted = wg_accepted verification,
                     jr_deduplicated = wg_deduplicated verification\<rparr>, st))"

section \<open>Secret rotation\<close>

record RotationRow =
  rt_rotation_id :: str
  rt_tenant_id :: str
  rt_team_id :: str
  rt_previous_secret_hash :: "str option"
  rt_rotation_overlap_until :: "datetime option"
  rt_rotated_by :: str
  rt_created_at :: datetime

definition rotate_secret ::
  "(str \<Rightarrow> str) \<Rightarrow> datetime \<Rightarrow> str \<Rightarrow> str \<Rightarrow> str \<Rightarrow> str \<Rightarrow> int \<Rightarrow> str \<Rightarrow> RotationRow list \<Rightarrow>
   RotationRow list" where
  "rotate_secret sha256 wall rotation_id tenant_id team_id new_secret overlap_hours x_actor rows =
     rows @ [\<lparr>rt_rotation_id = rotation_id, rt_tenant_id = tenant_id, rt_team_id = team_id,
              rt_previous_secret_hash = Some (take 16 (sha256 new_secret)),
              rt_rotation_overlap_until = Some (wall + overlap_hours * 3600000000),
              rt_rotated_by = x_actor, rt_created_at = wall\<rparr>]"

text \<open>\<open>ORDER BY created_at DESC LIMIT 1\<close>; of rows with the same time any may come first.\<close>

definition get_latest_rotation :: "str \<Rightarrow> str \<Rightarrow> RotationRow list \<Rightarrow> RotationRow option" where
  "get_latest_rotation tenant_id team_id rows =
     (let mine = filter (\<lambda>r. rt_tenant_id r = tenant_id \<and> rt_team_id r = team_id) rows
      in if mine = [] then None else Some (last (sort_key rt_created_at mine)))"

text \<open>The rotation part of \<open>build_webhook_guard\<close>: it only reads the scope \<open>default/default\<close>.\<close>

definition with_rotation :: "datetime \<Rightarrow> RotationRow list \<Rightarrow> WebhookGuard \<Rightarrow> WebhookGuard" where
  "with_rotation wall rows guard =
     (case get_latest_rotation ''default'' ''default'' rows of
        None \<Rightarrow> guard\<lparr>gd_previous_secret := None, gd_rotation_overlap_until := None\<rparr>
      | Some rotation \<Rightarrow>
          guard\<lparr>gd_rotation_overlap_until := rt_rotation_overlap_until rotation,
                gd_previous_secret :=
                  (case rt_rotation_overlap_until rotation of
                     None \<Rightarrow> None
                   | Some until \<Rightarrow> if until > wall then rt_previous_secret_hash rotation else None)\<rparr>)"

end
