(* ===== verification/WebhookCorrect.thy ===== *)
theory WebhookCorrect
  imports Webhook
begin

text \<open>
  What the webhook guard promises: only authentic, fresh deliveries within the limits are accepted,
  a delivery is processed at most once whatever the cache forgets, and the flood window admits no
  more than its limit in any window. Three defects are stated: the key of the previous secret, the
  flood window shared by all tickets of a tenant, and delivery identifiers shared by all tenants.
\<close>

section \<open>Authenticity\<close>

definition authentic :: "crypto \<Rightarrow> datetime \<Rightarrow> WebhookRequest \<Rightarrow> WebhookGuard \<Rightarrow> bool" where
  "authentic cr wall request st \<longleftrightarrow>
     (let signature = normalise_signature (wr_signature request);
          payload = signed_payload (wr_body request) (wr_timestamp request)
      in cr_hmac cr (gd_secret st) payload = signature \<or>
         (case gd_previous_secret st of
            None \<Rightarrow> False
          | Some previous \<Rightarrow> previous \<noteq> [] \<and> is_within_overlap wall st \<and> cr_hmac cr previous payload = signature))"

definition ip_permitted :: "crypto \<Rightarrow> WebhookRequest \<Rightarrow> WebhookGuard \<Rightarrow> bool" where
  "ip_permitted cr request st \<longleftrightarrow>
     gd_ip_allowlist st = [] \<or> ip_allowed (cr_ip_in cr) (wr_remote_addr request) st"

lemma verify_signature_authentic:
  "fst (verify_signature (cr_hmac cr) wall (wr_body request) (wr_timestamp request)
     (normalise_signature (wr_signature request)) st) = authentic cr wall request st"
  by (auto simp: verify_signature_def authentic_def compute_signature_def Let_def split: option.splits)

lemma check_flood_frame:
  "check_ticket_flood request now st = (b, st') \<Longrightarrow>
   gd_deliveries st' = gd_deliveries st \<and> gd_request_windows st' = gd_request_windows st \<and>
   gd_per_minute_limit st' = gd_per_minute_limit st \<and> gd_bypass st' = gd_bypass st"
  by (auto simp: check_ticket_flood_def check_sliding_window_def split: if_splits prod.splits)

lemma rate_limited_frame:
  "rate_limited request now st = (b, st') \<Longrightarrow> gd_deliveries st' = gd_deliveries st \<and> gd_bypass st' = gd_bypass st"
  by (auto simp: rate_limited_def Let_def split: if_splits)

lemma rate_limited_after_flood:
  assumes "check_ticket_flood request now st = (b, st')"
  shows "fst (rate_limited request now st') = fst (rate_limited request now st)"
  using check_flood_frame[OF assms] by (simp add: rate_limited_def Let_def)

text \<open>The two ways \<open>verify\<close> can go, with the rows each leaves behind.\<close>

lemma verify_cases:
  obtains (rejected) reason st' where
      "verify_webhook cr wall request now st = (Inr (rejected reason), st')" "gd_deliveries st' = gd_deliveries st"
      "\<not> (ip_permitted cr request st \<and> authentic cr wall request st \<and>
          now - wr_timestamp request \<le> gd_freshness_window_seconds st \<and>
          \<not> fst (check_ticket_flood request now st) \<and> \<not> fst (rate_limited request now st))"
  | (recorded) st1 where
      "verify_webhook cr wall request now st = record_delivery
         (request\<lparr>wr_signature := normalise_signature (wr_signature request)\<rparr>) (cr_sha256 cr (wr_body request)) now st1"
      "gd_deliveries st1 = gd_deliveries st" "gd_bypass st1 = gd_bypass st"
      "ip_permitted cr request st" "authentic cr wall request st"
      "now - wr_timestamp request \<le> gd_freshness_window_seconds st"
      "\<not> fst (check_ticket_flood request now st)" "\<not> fst (rate_limited request now st)"
proof -
  obtain b1 st1 where f: "check_ticket_flood request now st = (b1, st1)" by fastforce
  obtain b2 st2 where l: "rate_limited request now st1 = (b2, st2)" by fastforce
  note frames = check_flood_frame[OF f] rate_limited_frame[OF l]
  have b2: "fst (rate_limited request now st) = b2" using rate_limited_after_flood[OF f] l by simp
  show thesis
  proof (cases "ip_permitted cr request st \<and> authentic cr wall request st \<and>
      now - wr_timestamp request \<le> gd_freshness_window_seconds st")
    case False
    then have "\<exists>reason. verify_webhook cr wall request now st = (Inr (Webhook.rejected reason), st)"
      by (auto simp: verify_webhook_def Let_def verify_signature_authentic ip_permitted_def)
    with False show thesis using rejected by blast
  next
    case True
    then have v: "verify_webhook cr wall request now st =
        (if b1 then (Inr (Webhook.rejected ''rate_limited''), record_rate_limit_rejection request st1)
         else if b2 then (Inr (Webhook.rejected ''rate_limited''), st2)
         else record_delivery (request\<lparr>wr_signature := normalise_signature (wr_signature request)\<rparr>)
                (cr_sha256 cr (wr_body request)) now st2)"
      by (auto simp: verify_webhook_def Let_def verify_signature_authentic ip_permitted_def f l)
    show thesis
    proof (cases "b1 \<or> b2")
      case b: True
      show thesis
      proof (cases b1)
        case True
        then show thesis using v frames f
          by (intro rejected[of "''rate_limited''" "record_rate_limit_rejection request st1"])
            (simp_all add: record_rate_limit_rejection_def)
      next
        case False
        then show thesis using v frames b b2 by (intro rejected[of "''rate_limited''" st2]) simp_all
      qed
    next
      case False
      then show thesis using v frames True f b2 by (intro recorded[of st2]) simp_all
    qed
  qed
qed

lemma record_delivery_accepts:
  "record_delivery request h now st = (Inr res, st') \<Longrightarrow> wg_accepted res"
  by (auto simp: record_delivery_def op_bind_def accepted_new_def accepted_duplicate_def Let_def
      split: if_splits prod.splits sum.splits)


section \<open>Each delivery is processed once\<close>

text \<open>A history of calls; the last component says whether Redis answers the call.\<close>

type_synonym webhook_call = "datetime \<times> WebhookRequest \<times> int \<times> bool"

fun verify_history ::
  "crypto \<Rightarrow> webhook_call list \<Rightarrow> WebhookGuard \<Rightarrow> (WebhookRequest \<times> WebhookGuardResult result) list" where
  "verify_history cr [] st = []"
| "verify_history cr ((wall, request, now, up) # calls) st =
     (let (result, st) = verify_webhook cr wall request now (st\<lparr>gd_redis_up := up\<rparr>)
      in (request, result) # verify_history cr calls st)"

text \<open>The caller goes on to process a delivery that is accepted and not a duplicate.\<close>

definition processed :: "WebhookGuardResult result \<Rightarrow> bool" where
  "processed result = (case result of Inl _ \<Rightarrow> False | Inr r \<Rightarrow> wg_accepted r \<and> \<not> wg_deduplicated r)"

definition delivery_recorded :: "str \<Rightarrow> str \<Rightarrow> WebhookGuard \<Rightarrow> bool" where
  "delivery_recorded source event_id st \<longleftrightarrow>
     list_ex (\<lambda>r. wd_source r = source \<and> wd_delivery_id r = event_id) (gd_deliveries st)"

lemma duplicate_delivery_iff:
  "duplicate_delivery row rows \<longleftrightarrow>
     list_ex (\<lambda>r. wd_source r = wd_source row \<and> wd_delivery_id r = wd_delivery_id row) rows"
  by (auto simp: duplicate_delivery_def list_ex_iff)

lemma remember_frame [simp]: "gd_deliveries (remember_best_effort key now st) = gd_deliveries st"
  by (simp add: remember_best_effort_def)

lemma insert_delivery_recorded:
  assumes "insert_delivery request status h st = (r, st')"
  shows "(delivery_recorded s e st \<longrightarrow> delivery_recorded s e st') \<and>
    (r = Inr True \<longrightarrow> \<not> delivery_recorded (wr_source request) (wr_event_id request) st \<and>
       delivery_recorded (wr_source request) (wr_event_id request) st')"
  using assms by (auto simp: insert_delivery_def Let_def duplicate_delivery_iff delivery_recorded_def split: if_splits)

lemma record_delivery_recorded:
  assumes "record_delivery request h now st = (r, st')"
  shows "(delivery_recorded s e st \<longrightarrow> delivery_recorded s e st') \<and>
    (processed r \<longrightarrow> \<not> delivery_recorded (wr_source request) (wr_event_id request) st \<and>
       delivery_recorded (wr_source request) (wr_event_id request) st')"
proof (cases "cache_seen (idempotency_key request h) now st")
  case True
  with assms show ?thesis by (auto simp: record_delivery_def Let_def processed_def accepted_duplicate_def)
next
  case False
  obtain i st1 where i: "insert_delivery request ''accepted'' h st = (i, st1)" by fastforce
  have rm: "delivery_recorded s e (remember_best_effort k now st1) = delivery_recorded s e st1" for s e k
    by (simp add: delivery_recorded_def)
  show ?thesis
    using assms False insert_delivery_recorded[OF i] i
    by (cases i) (auto simp: record_delivery_def Let_def op_bind_def processed_def accepted_duplicate_def
        accepted_new_def rm split: if_splits)
qed

lemma verify_recorded:
  assumes "verify_webhook cr wall request now st = (r, st')"
  shows "(delivery_recorded s e st \<longrightarrow> delivery_recorded s e st') \<and>
    (processed r \<longrightarrow> \<not> delivery_recorded (wr_source request) (wr_event_id request) st \<and>
       delivery_recorded (wr_source request) (wr_event_id request) st')"
proof (rule verify_cases[of cr wall request now st])
  fix reason st1
  assume "verify_webhook cr wall request now st = (Inr (rejected reason), st1)" "gd_deliveries st1 = gd_deliveries st"
  with assms show ?thesis by (auto simp: delivery_recorded_def processed_def rejected_def)
next
  fix st1
  let ?request = "request\<lparr>wr_signature := normalise_signature (wr_signature request)\<rparr>"
  assume v: "verify_webhook cr wall request now st = record_delivery ?request (cr_sha256 cr (wr_body request)) now st1"
    and d: "gd_deliveries st1 = gd_deliveries st"
  have "delivery_recorded s e st1 = delivery_recorded s e st" for s e using d by (simp add: delivery_recorded_def)
  with record_delivery_recorded[of ?request "cr_sha256 cr (wr_body request)" now st1 r st'] v assms
  show ?thesis by simp
qed

definition processed_deliveries ::
  "str \<Rightarrow> str \<Rightarrow> (WebhookRequest \<times> WebhookGuardResult result) list \<Rightarrow> nat" where
  "processed_deliveries source event_id results =
     length (filter (\<lambda>(request, result). processed result \<and> wr_source request = source \<and>
                                          wr_event_id request = event_id) results)"

text \<open>C19 (a delivery is processed at most once). Over every history of calls, with whatever clock values
  and Redis outages, at most one call with a given source and event id is accepted as new, and none
  once the delivery is on record.\<close>

theorem delivery_processed_once:
  "processed_deliveries source event_id (verify_history cr calls st) \<le>
     (if delivery_recorded source event_id st then 0 else 1)"
proof (induction cr calls st rule: verify_history.induct)
  case (1 cr st)
  show ?case by (simp add: processed_deliveries_def)
next
  case (2 cr wall request now up calls st)
  obtain r st' where v: "verify_webhook cr wall request now (st\<lparr>gd_redis_up := up\<rparr>) = (r, st')" by fastforce
  note rec = verify_recorded[OF v, of source event_id]
  have same: "delivery_recorded s e (st\<lparr>gd_redis_up := up\<rparr>) = delivery_recorded s e st" for s e
    by (simp add: delivery_recorded_def)
  have "processed_deliveries source event_id (verify_history cr calls st') \<le>
      (if delivery_recorded source event_id st' then 0 else 1)"
    using "2.IH"[OF refl] v by simp
  with rec show ?case
    by (auto simp: processed_deliveries_def v same split: if_splits)
qed

section \<open>The flood window\<close>

text \<open>The times at which successive runs of the script on one key let a request pass.\<close>

fun admitted_times :: "int \<Rightarrow> int \<Rightarrow> int list \<Rightarrow> int list \<Rightarrow> int list" where
  "admitted_times window limit scores [] = []"
| "admitted_times window limit scores (now # nows) =
     (let (limited, scores) = sliding_window_script now window limit scores
      in (if limited then [] else [now]) @ admitted_times window limit scores nows)"

definition in_window :: "int \<Rightarrow> int \<Rightarrow> int list \<Rightarrow> int" where
  "in_window window t passed = int (length (filter (\<lambda>s. t - window < s \<and> s \<le> t) passed))"

lemma length_filter_le_imp:
  "(\<And>x. x \<in> set xs \<Longrightarrow> P x \<Longrightarrow> Q x) \<Longrightarrow> length (filter P xs) \<le> length (filter Q xs)"
  by (induction xs) auto

lemma in_window_append_one:
  assumes old: "\<forall>s \<in> set past. s \<le> now" and room: "int (length (filter (\<lambda>s. s > now - window) past)) < limit"
    and bound: "in_window window t past \<le> max 0 limit"
  shows "in_window window t (past @ [now]) \<le> max 0 limit"
proof (cases "now \<le> t")
  case False
  with bound show ?thesis by (simp add: in_window_def)
next
  case True
  have "length (filter (\<lambda>s. t - window < s \<and> s \<le> t) past) \<le> length (filter (\<lambda>s. s > now - window) past)"
    using True by (intro length_filter_le_imp) auto
  with room show ?thesis by (simp add: in_window_def)
qed

lemma admitted_times_bound:
  assumes "sorted (last_now # nows)" "\<forall>s \<in> set past. s \<le> last_now"
    and "\<forall>m \<ge> last_now. filter (\<lambda>s. s > m - window) scores = filter (\<lambda>s. s > m - window) past"
    and "\<forall>t. in_window window t past \<le> max 0 limit"
  shows "in_window window t (past @ admitted_times window limit scores nows) \<le> max 0 limit"
  using assms
proof (induction nows arbitrary: last_now scores past)
  case Nil
  then show ?case by simp
next
  case (Cons now nows)
  let ?kept = "filter (\<lambda>s. s > now - window) scores"
  have le: "last_now \<le> now" and srt: "sorted (now # nows)" using Cons.prems(1) by simp_all
  have kept: "?kept = filter (\<lambda>s. s > now - window) past" using Cons.prems(3) le by blast
  have sub: "filter (\<lambda>s. s > m - window) ?kept = filter (\<lambda>s. s > m - window) past" if "now \<le> m" for m
  proof -
    have "(now - window < s \<and> m - window < s) = (m - window < s)" for s using that by auto
    then have "filter (\<lambda>s. s > m - window) ?kept = filter (\<lambda>s. s > m - window) scores"
      by (simp add: conj_commute)
    with that le Cons.prems(3) show ?thesis by auto
  qed
  have old: "\<forall>s \<in> set past. s \<le> now" using Cons.prems(2) le by auto
  show ?case
  proof (cases "limit \<le> int (length ?kept)")
    case True
    have "in_window window t (past @ admitted_times window limit ?kept nows) \<le> max 0 limit"
      using sub by (intro Cons.IH[OF srt old _ Cons.prems(4)]) simp
    with True show ?thesis by (simp add: sliding_window_script_def)
  next
    case False
    have "\<forall>u. in_window window u (past @ [now]) \<le> max 0 limit"
      using in_window_append_one[OF old] False kept Cons.prems(4) by simp
    moreover have "\<forall>m \<ge> now. filter (\<lambda>s. s > m - window) (?kept @ [now]) = filter (\<lambda>s. s > m - window) (past @ [now])"
      using sub by simp
    ultimately have "in_window window t ((past @ [now]) @ admitted_times window limit (?kept @ [now]) nows) \<le> max 0 limit"
      using old by (intro Cons.IH[OF srt]) auto
    with False show ?thesis by (simp add: sliding_window_script_def Let_def)
  qed
qed



section \<open>Defects\<close>

text \<open>A rotation locks out the old secret and admits its own hash. The rotation stores a prefix of
  the hash of the new secret as the previous secret, and the guard uses it as a key: during the
  overlap a delivery signed with the old secret is refused, although the overlap is there to accept
  it, and one signed with the first 16 characters of the hash of the new secret is accepted.\<close>

theorem rotation_breaks_overlap:
  assumes overlap: "0 < hours" "wall \<le> later" "later < wall + hours * 3600000000"
    and distinct_keys: "hmac old (signed_payload body ts) \<noteq> hmac new (signed_payload body ts)"
      "hmac old (signed_payload body ts) \<noteq> hmac (take 16 (sha new)) (signed_payload body ts)"
    and hash: "sha new \<noteq> []"
  shows "let guard = (with_rotation later (rotate_secret sha wall rotation_id ''default'' ''default'' new hours actor []) g)
               \<lparr>gd_secret := new\<rparr>
         in is_within_overlap later guard \<and>
            fst (verify_signature hmac later body ts (hmac old (signed_payload body ts)) guard) = False \<and>
            fst (verify_signature hmac later body ts (hmac (take 16 (sha new)) (signed_payload body ts)) guard) = True"
proof -
  let ?guard = "g\<lparr>gd_rotation_overlap_until := Some (wall + hours * 3600000000),
      gd_previous_secret := Some (take 16 (sha new)), gd_secret := new\<rparr>"
  have "(with_rotation later (rotate_secret sha wall rotation_id ''default'' ''default'' new hours actor []) g)\<lparr>gd_secret := new\<rparr> = ?guard"
    using overlap by (simp add: with_rotation_def rotate_secret_def get_latest_rotation_def Let_def)
  moreover have "is_within_overlap later ?guard" using overlap by (simp add: is_within_overlap_def)
  ultimately show ?thesis
    using distinct_keys hash by (simp add: Let_def verify_signature_def compute_signature_def)
qed

definition witness_crypto :: crypto where
  "witness_crypto = \<lparr>cr_hmac = (\<lambda>k m. k @ m), cr_sha256 = (\<lambda>s. ''0123456789abcdef'' @ s), cr_ip_in = (\<lambda>_ _. True)\<rparr>"

definition witness_guard :: WebhookGuard where
  "witness_guard = \<lparr>gd_secret = ''new'', gd_previous_secret = None, gd_rotation_overlap_until = None,
     gd_freshness_window_seconds = 300, gd_per_minute_limit = 3, gd_per_ticket_flood_limit = 1,
     gd_ip_allowlist = [], gd_bypass = False, gd_redis_up = True, gd_deliveries = [], gd_rejections = [],
     gd_cache = [], gd_flood_windows = [], gd_request_windows = []\<rparr>"

definition witness_event :: "str \<Rightarrow> JiraWebhookEvent" where
  "witness_event ticket = \<lparr>je_event_id = ''e1'', je_ticket_key = ticket, je_tenant_id = ''t'',
     je_team_id = ''m'', je_summary = ''s''\<rparr>"

lemma rotation_breaks_overlap_witness:
  "fst (verify_signature (cr_hmac witness_crypto) 5 ''body'' 9 ''old9.body''
     ((with_rotation 5 (rotate_secret (cr_sha256 witness_crypto) 0 ''r-1'' ''default'' ''default'' ''new'' 24 ''admin'' [])
        witness_guard)\<lparr>gd_secret := ''new''\<rparr>)) = False"
proof -
  let ?h = "cr_hmac witness_crypto" and ?s = "cr_sha256 witness_crypto"
  have p: "signed_payload ''body'' 9 = ''9.body''" by code_simp
  have "?h ''old'' (signed_payload ''body'' 9) \<noteq> ?h ''new'' (signed_payload ''body'' 9)"
    "?h ''old'' (signed_payload ''body'' 9) \<noteq> ?h (take 16 (?s ''new'')) (signed_payload ''body'' 9)"
    "?s ''new'' \<noteq> []" by (simp_all add: witness_crypto_def p)
  from rotation_breaks_overlap[where hmac = ?h and sha = ?s and old = "''old''" and new = "''new''" and
      body = "''body''" and ts = 9 and hours = 24 and wall = 0 and later = 5 and actor = "''admin''" and
      g = witness_guard, OF _ _ _ this] show ?thesis
    by (simp add: Let_def p witness_crypto_def)
qed

lemma verify_flooded:
  assumes "ip_permitted cr request st" "authentic cr wall request st"
    "now - wr_timestamp request \<le> gd_freshness_window_seconds st"
    "check_ticket_flood request now st = (True, st1)"
  shows "verify_webhook cr wall request now st =
    (Inr (rejected ''rate_limited''), record_rate_limit_rejection request st1)"
  using assms by (auto simp: verify_webhook_def Let_def verify_signature_authentic ip_permitted_def)

text \<open>All tickets of a tenant share one flood window. The endpoint does not pass the ticket key on:
  once the window of the tenant's key \<open>unknown\<close> is full, every authentic and fresh event of the
  tenant is refused with status 429, whatever its ticket.\<close>

theorem ticket_flood_is_shared:
  assumes up: "gd_redis_up st"
    and full: "gd_per_ticket_flood_limit st \<le>
      int (length (filter (\<lambda>s. s > now - 60)
        (dict_getd (gd_flood_windows st) (''webhook:flood:'' @ je_tenant_id event @ '':unknown'') [])))"
    and ok: "ip_permitted cr (jira_request event body sig ts host) st"
      "authentic cr wall (jira_request event body sig ts host) st"
      "now - ts \<le> gd_freshness_window_seconds st"
  shows "fst (receive_jira_webhook cr wall event body sig ts host now st) = Inl (HTTPException 429 ''rate_limited'')"
proof -
  let ?request = "jira_request event body sig ts host"
  have f: "fst (check_ticket_flood ?request now st)"
    using up full by (simp add: check_ticket_flood_def check_sliding_window_def sliding_window_script_def Let_def
        jira_request_def)
  obtain st1 where f1: "check_ticket_flood ?request now st = (True, st1)" using f by (metis prod.collapse)
  have "now - wr_timestamp ?request \<le> gd_freshness_window_seconds st" using ok(3) by (simp add: jira_request_def)
  note verify_flooded[OF ok(1,2) this f1]
  then show ?thesis
    by (simp add: receive_jira_webhook_def op_bind_def rejected_def rejection_status_code_def)
qed

text \<open>A delivery identifier taken by one tenant is lost for all others. The unique constraints and
  the cache key leave out the tenant: an accepted delivery of another tenant with the same source
  and event id is answered as a duplicate and is never recorded.\<close>

theorem cross_tenant_delivery_lost:
  assumes "r \<in> set (gd_deliveries st)" "wd_source r = wr_source request" "wd_delivery_id r = wr_event_id request"
    and "wd_tenant_id r \<noteq> wr_tenant_id request" "wr_tenant_id request \<noteq> []" "wr_team_id request \<noteq> []"
  shows "fst (record_delivery request h now st) = Inr (accepted_duplicate (idempotency_key request h)) \<and>
    gd_deliveries (snd (record_delivery request h now st)) = gd_deliveries st"
proof -
  have "list_ex (\<lambda>r. wd_source r = wr_source request \<and> wd_delivery_id r = wr_event_id request) (gd_deliveries st)"
    using assms(1-3) by (auto simp: list_ex_iff)
  then have "insert_delivery request ''accepted'' h st = (Inr False, st)"
    using assms(5,6) by (simp add: insert_delivery_def Let_def duplicate_delivery_iff row_visible_own)
  then show ?thesis by (simp add: record_delivery_def Let_def op_bind_def)
qed


lemma ticket_flood_is_shared_witness:
  "fst (receive_jira_webhook witness_crypto 5 (witness_event ''T-2'') ''body'' ''new9.body'' 9 ''host'' 10
     (snd (receive_jira_webhook witness_crypto 5 (witness_event ''T-1'') ''body'' ''new9.body'' 9 ''host'' 10 witness_guard))) =
   Inl (HTTPException 429 ''rate_limited'')"
proof -
  let ?st = "snd (receive_jira_webhook witness_crypto 5 (witness_event ''T-1'') ''body'' ''new9.body'' 9 ''host'' 10 witness_guard)"
  have "gd_redis_up ?st" "gd_per_ticket_flood_limit ?st \<le>
      int (length (filter (\<lambda>s. s > 10 - 60) (dict_getd (gd_flood_windows ?st)
        (''webhook:flood:'' @ je_tenant_id (witness_event ''T-2'') @ '':unknown'') [])))"
    "ip_permitted witness_crypto (jira_request (witness_event ''T-2'') ''body'' ''new9.body'' 9 ''host'') ?st"
    "authentic witness_crypto 5 (jira_request (witness_event ''T-2'') ''body'' ''new9.body'' 9 ''host'') ?st"
    "10 - 9 \<le> gd_freshness_window_seconds ?st" by code_simp+
  then show ?thesis by (rule ticket_flood_is_shared)
qed

lemma cross_tenant_delivery_lost_witness:
  "gd_deliveries (snd (record_delivery
     ((jira_request (witness_event ''T-2'') ''body'' ''sig'' 9 ''host'')\<lparr>wr_tenant_id := ''other''\<rparr>) ''h'' 10
     (snd (record_delivery (jira_request (witness_event ''T-1'') ''body'' ''sig'' 9 ''host'') ''g'' 10 witness_guard)))) =
   gd_deliveries (snd (record_delivery (jira_request (witness_event ''T-1'') ''body'' ''sig'' 9 ''host'') ''g'' 10 witness_guard))"
proof -
  let ?st = "snd (record_delivery (jira_request (witness_event ''T-1'') ''body'' ''sig'' 9 ''host'') ''g'' 10 witness_guard)"
  let ?row = "\<lparr>wd_source = ''jira'', wd_delivery_id = ''e1'', wd_tenant_id = ''t'',
      wd_team_id = ''m'', wd_endpoint = ''/api/v1/webhooks/jira'', wd_hmac_digest = ''sig'',
      wd_signature_hash = ''g'', wd_disposition_status = ''accepted''\<rparr>"
  have d: "gd_deliveries ?st = [?row]" by code_simp
  have r: "?row \<in> set (gd_deliveries ?st)" unfolding d by simp
  show ?thesis
    by (rule conjunct2[OF cross_tenant_delivery_lost[OF r]]) (simp_all add: jira_request_def witness_event_def)
qed

end
