(* ===== verification/Encryption.thy ===== *)
theory Encryption
  imports Strings
begin

text \<open>
  Envelope encryption, \<open>backend/persistence/encryption.py\<close>, and the rotation job of
  \<open>backend/worker.py\<close>. Fernet (a third-party package) and base64 are arguments; a Fernet token also
  depends on an entropy argument. An envelope's \<open>issued_at\<close> is its parsed value.
\<close>

section \<open>Cipher\<close>

record EnvelopeCipher =
  ec_provider :: str
  ec_configured :: bool
  ec_active_key_id :: str
  ec_active_fernet_key :: str
  ec_master_key_reference :: str
  ec_previous_key_ids :: "str list"
  ec_previous_fernet_keys :: "(str \<times> str) list"
  ec_rotation_sla_days :: int

text \<open>\<open>model_post_init\<close>.\<close>

definition cipher_post_init :: "EnvelopeCipher \<Rightarrow> EnvelopeCipher" where
  "cipher_post_init c =
     (if \<not> ec_configured c \<and> ec_active_key_id c \<noteq> ''unset'' \<and> ec_active_fernet_key c \<noteq> []
      then c\<lparr>ec_configured := True\<rparr> else c)"

definition getenv :: "(str \<times> str) list \<Rightarrow> str \<Rightarrow> str \<Rightarrow> str" where
  "getenv env key x = dict_getd env key x"

definition wrapping_key_variable :: "str \<Rightarrow> str" where
  "wrapping_key_variable key_id =
     ''BACKEND_ENCRYPTION_WRAPPING_KEY_'' @ str_replace_char (CHR ''-'') (CHR ''_'') (str_upper key_id)"

definition default_reference :: "(str \<times> str) list \<Rightarrow> str" where
  "default_reference env =
     (if getenv env ''BACKEND_ENCRYPTION_VAULT_KEY_PATH'' [] \<noteq> []
      then getenv env ''BACKEND_ENCRYPTION_VAULT_KEY_PATH'' []
      else if getenv env ''BACKEND_ENCRYPTION_KMS_KEY_ARN'' [] \<noteq> []
      then getenv env ''BACKEND_ENCRYPTION_KMS_KEY_ARN'' []
      else ''vault://kv/langgraph-dev-squad/runtime#wrapping-key'')"

text \<open>\<open>parse_int\<close> is \<open>int\<close> on the text of the SLA variable.\<close>

definition cipher_from_env :: "(str \<Rightarrow> int result) \<Rightarrow> (str \<times> str) list \<Rightarrow> EnvelopeCipher result" where
  "cipher_from_env parse_int env =
     (let active_key_id = getenv env ''BACKEND_ENCRYPTION_ACTIVE_KEY_ID'' [];
          active_fernet_key = getenv env ''BACKEND_ENCRYPTION_ACTIVE_WRAPPING_KEY'' [];
          previous_key_ids = filter (\<lambda>item. item \<noteq> [])
            (map str_strip (str_split (CHR '','') (getenv env ''BACKEND_ENCRYPTION_PREVIOUS_KEY_IDS'' [])));
          previous_fernet_keys = dict_of (filter (\<lambda>p. snd p \<noteq> [])
            (map (\<lambda>key_id. (key_id, getenv env (wrapping_key_variable key_id) [])) previous_key_ids));
          configured = (active_key_id \<noteq> [] \<and> active_fernet_key \<noteq> [] \<and> active_key_id \<noteq> ''unset'')
      in bind_result (parse_int (getenv env ''BACKEND_ENCRYPTION_ROTATION_SLA_DAYS'' ''30'')) (\<lambda>sla.
         Inr (cipher_post_init
           \<lparr>ec_provider = getenv env ''BACKEND_ENCRYPTION_PROVIDER'' ''vault'', ec_configured = configured,
            ec_active_key_id = (if active_key_id \<noteq> [] then active_key_id else ''unset''),
            ec_active_fernet_key = active_fernet_key,
            ec_master_key_reference = getenv env ''BACKEND_ENCRYPTION_MASTER_KEY_REF'' (default_reference env),
            ec_previous_key_ids = previous_key_ids, ec_previous_fernet_keys = previous_fernet_keys,
            ec_rotation_sla_days = sla\<rparr>)))"

record Envelope =
  ev_ciphertext :: str
  ev_dek_id :: str
  ev_issued_at :: "datetime option"

text \<open>Fernet and base64; the entropy of a token is an argument.\<close>

record primitives =
  pr_fernet_encrypt :: "str \<Rightarrow> nat \<Rightarrow> str \<Rightarrow> str result"
  pr_fernet_decrypt :: "str \<Rightarrow> str \<Rightarrow> str result"
  pr_b64decode :: "str \<Rightarrow> str result"

definition not_configured :: exn where
  "not_configured = RuntimeError
     ''EnvelopeCipher is not configured. Set BACKEND_ENCRYPTION_ACTIVE_KEY_ID and BACKEND_ENCRYPTION_ACTIVE_WRAPPING_KEY environment variables.''"

definition encrypt :: "primitives \<Rightarrow> nat \<Rightarrow> datetime \<Rightarrow> str \<Rightarrow> EnvelopeCipher \<Rightarrow> Envelope result" where
  "encrypt pr entropy issued_at plaintext c =
     (if \<not> ec_configured c then Inl not_configured
      else bind_result (pr_fernet_encrypt pr (ec_active_fernet_key c) entropy plaintext) (\<lambda>token.
        Inr \<lparr>ev_ciphertext = ''v2::'' @ token, ev_dek_id = ec_active_key_id c, ev_issued_at = Some issued_at\<rparr>))"

definition resolve_fernet_key :: "str \<Rightarrow> EnvelopeCipher \<Rightarrow> str result" where
  "resolve_fernet_key key_id c =
     (if key_id = ec_active_key_id c then Inr (ec_active_fernet_key c)
      else case dict_get (ec_previous_fernet_keys c) key_id of
             Some key \<Rightarrow> Inr key
           | None \<Rightarrow> Inl (ValueError (''No wrapping key found for key_id: '' @ key_id)))"

definition decrypt :: "primitives \<Rightarrow> str \<Rightarrow> str \<Rightarrow> EnvelopeCipher \<Rightarrow> str result" where
  "decrypt pr ciphertext dek_id c =
     bind_result (resolve_fernet_key dek_id c) (\<lambda>fernet_key.
       if startswith ciphertext ''v2::''
       then pr_fernet_decrypt pr fernet_key (removeprefix ciphertext ''v2::'')
       else if startswith ciphertext ''enc::''
       then pr_b64decode pr (removeprefix ciphertext ''enc::'')
       else Inl (ValueError (''Unknown ciphertext format: '' @ take 20 ciphertext @ ''...'')))"

definition rotate_ciphertext ::
  "primitives \<Rightarrow> nat \<Rightarrow> datetime \<Rightarrow> str \<Rightarrow> str \<Rightarrow> EnvelopeCipher \<Rightarrow> Envelope result" where
  "rotate_ciphertext pr entropy wall ciphertext dek_id c =
     bind_result (decrypt pr ciphertext dek_id c) (\<lambda>plaintext. encrypt pr entropy wall plaintext c)"

text \<open>\<open>sla_days or self.rotation_sla_days\<close>: 0 means the setting.\<close>

definition effective_sla :: "int option \<Rightarrow> EnvelopeCipher \<Rightarrow> int" where
  "effective_sla sla_days c =
     (case sla_days of None \<Rightarrow> ec_rotation_sla_days c | Some d \<Rightarrow> if d = 0 then ec_rotation_sla_days c else d)"

definition rotation_due :: "Envelope \<Rightarrow> datetime \<Rightarrow> int option \<Rightarrow> EnvelopeCipher \<Rightarrow> bool" where
  "rotation_due envelope now sla_days c =
     (case ev_issued_at envelope of
        None \<Rightarrow> True
      | Some issued_at \<Rightarrow> now \<ge> issued_at + effective_sla sla_days c * day_us)"

record EnvelopeRotationReport =
  er_total_envelopes :: nat
  er_due_before_rotation :: nat
  er_rotated_count :: nat
  er_rotated_envelopes :: "Envelope list"

text \<open>The loop; the entropy of the i-th encryption is \<open>ent i\<close>, and \<open>wall\<close> its clock.\<close>

fun rotate_loop ::
  "primitives \<Rightarrow> (nat \<Rightarrow> nat) \<Rightarrow> nat \<Rightarrow> datetime \<Rightarrow> datetime \<Rightarrow> int option \<Rightarrow> EnvelopeCipher \<Rightarrow>
   Envelope list \<Rightarrow> (nat \<times> Envelope list) result" where
  "rotate_loop pr ent i wall now sla_days c [] = Inr (0, [])"
| "rotate_loop pr ent i wall now sla_days c (e # es) =
     (if rotation_due e now sla_days c
      then bind_result (rotate_ciphertext pr (ent i) wall (ev_ciphertext e) (ev_dek_id e) c) (\<lambda>e'.
           bind_result (rotate_loop pr ent (Suc i) wall now sla_days c es) (\<lambda>(due, es').
             Inr (Suc due, e' # es')))
      else bind_result (rotate_loop pr ent (Suc i) wall now sla_days c es) (\<lambda>(due, es').
             Inr (due, e # es')))"

definition rotate_stale_envelopes ::
  "primitives \<Rightarrow> (nat \<Rightarrow> nat) \<Rightarrow> datetime \<Rightarrow> Envelope list \<Rightarrow> datetime option \<Rightarrow> int option \<Rightarrow>
   EnvelopeCipher \<Rightarrow> EnvelopeRotationReport result" where
  "rotate_stale_envelopes pr ent wall envelopes now sla_days c =
     bind_result (rotate_loop pr ent 0 wall (case now of None \<Rightarrow> wall | Some t \<Rightarrow> t) sla_days c envelopes)
       (\<lambda>(due, rotated). Inr \<lparr>er_total_envelopes = length envelopes, er_due_before_rotation = due,
                              er_rotated_count = due, er_rotated_envelopes = rotated\<rparr>)"

text \<open>The worker job: the rotated envelopes and the gauge it sets.\<close>

definition process_encryption_key_rotation ::
  "primitives \<Rightarrow> (nat \<Rightarrow> nat) \<Rightarrow> datetime \<Rightarrow> Envelope list \<Rightarrow> EnvelopeCipher \<Rightarrow> (Envelope list \<times> rat) result" where
  "process_encryption_key_rotation pr ent wall envelopes c =
     bind_result (rotate_stale_envelopes pr ent wall envelopes None None c) (\<lambda>report.
       Inr (er_rotated_envelopes report,
            of_int (int (er_total_envelopes report) - int (er_due_before_rotation report)) /
              of_nat (max (er_total_envelopes report) 1)))"

section \<open>Scrubbing\<close>

definition secret_tokens :: "str list" where
  "secret_tokens = [''secret'', ''token'', ''password'', ''ciphertext'', ''nonce'', ''dek'']"

definition looks_secret :: "str \<Rightarrow> bool" where
  "looks_secret key \<longleftrightarrow> list_ex (\<lambda>token. str_contains token (str_lower key)) secret_tokens"

definition redacted :: str where "redacted = ''***redacted***''"

definition ciphertext_like :: "str \<Rightarrow> bool" where
  "ciphertext_like s \<longleftrightarrow> startswith s ''v2::'' \<or> startswith s ''enc::'' \<or> startswith s ''ciphertext:''"

fun scrub_payload :: "json \<Rightarrow> json" where
  "scrub_payload (JObj d) =
     JObj (map (\<lambda>p. (fst p, if looks_secret (fst p) then JStr redacted else scrub_payload (snd p))) d)"
| "scrub_payload (JList xs) = JList (map scrub_payload xs)"
| "scrub_payload (JStr s) = JStr (if ciphertext_like s then redacted else s)"
| "scrub_payload x = x"

section \<open>Key rotation\<close>

text \<open>What the cipher relies on: Fernet accepts the key and opens its own tokens.\<close>

definition fernet_opens :: "primitives \<Rightarrow> str \<Rightarrow> bool" where
  "fernet_opens pr key \<longleftrightarrow>
     (\<forall>entropy plaintext. \<exists>token. pr_fernet_encrypt pr key entropy plaintext = Inr token \<and>
                                   pr_fernet_decrypt pr key token = Inr plaintext)"

lemma decrypt_encrypt:
  assumes "fernet_opens pr (ec_active_fernet_key c)" "ec_configured c"
  shows "\<exists>e. encrypt pr entropy t plaintext c = Inr e \<and> decrypt pr (ev_ciphertext e) (ev_dek_id e) c = Inr plaintext \<and>
    ev_dek_id e = ec_active_key_id c \<and> ev_issued_at e = Some t"
proof -
  obtain token where t: "pr_fernet_encrypt pr (ec_active_fernet_key c) entropy plaintext = Inr token"
    "pr_fernet_decrypt pr (ec_active_fernet_key c) token = Inr plaintext"
    using assms(1) unfolding fernet_opens_def by blast
  have s: "startswith (''v2::'' @ token) ''v2::''" "removeprefix (''v2::'' @ token) ''v2::'' = token"
    by (rule startswith_append, rule removeprefix_append)
  show ?thesis
    using assms(2) t s by (simp add: encrypt_def decrypt_def resolve_fernet_key_def)
qed

text \<open>C21 (encryption round trip). A configured cipher encrypts every text to an envelope under the active
  key, dated with the given time, that decrypts to the text: by the same cipher, and after a key
  rotation by every cipher that lists the old key among the previous ones.\<close>

theorem encrypt_decrypt_roundtrip:
  assumes "fernet_opens pr (ec_active_fernet_key c)" "ec_configured c"
    and "ec_active_key_id c' \<noteq> ec_active_key_id c"
    and "dict_get (ec_previous_fernet_keys c') (ec_active_key_id c) = Some (ec_active_fernet_key c)"
  shows "case encrypt pr entropy t plaintext c of
      Inl _ \<Rightarrow> False
    | Inr e \<Rightarrow> decrypt pr (ev_ciphertext e) (ev_dek_id e) c = Inr plaintext \<and>
               decrypt pr (ev_ciphertext e) (ev_dek_id e) c' = Inr plaintext \<and>
               ev_issued_at e = Some t"
proof -
  obtain e where e: "encrypt pr entropy t plaintext c = Inr e" "ev_dek_id e = ec_active_key_id c"
    "decrypt pr (ev_ciphertext e) (ev_dek_id e) c = Inr plaintext" "ev_issued_at e = Some t"
    using decrypt_encrypt[OF assms(1,2)] by blast
  have "resolve_fernet_key (ev_dek_id e) c' = resolve_fernet_key (ev_dek_id e) c"
    using assms(3,4) e(2) by (simp add: resolve_fernet_key_def)
  then have "decrypt pr (ev_ciphertext e) (ev_dek_id e) c' = decrypt pr (ev_ciphertext e) (ev_dek_id e) c"
    by (simp add: decrypt_def)
  with e show ?thesis by simp
qed

definition readable :: "primitives \<Rightarrow> EnvelopeCipher \<Rightarrow> Envelope \<Rightarrow> str result" where
  "readable pr c e = decrypt pr (ev_ciphertext e) (ev_dek_id e) c"

lemma rotate_loop_correct:
  assumes "fernet_opens pr (ec_active_fernet_key c)" "ec_configured c"
    and "list_all (\<lambda>e. \<not> isl (readable pr c e)) es"
  shows "\<exists>es'. rotate_loop pr ent i wall now sla c es =
      Inr (length (filter (\<lambda>e. rotation_due e now sla c) es), es') \<and>
    map (readable pr c) es' = map (readable pr c) es \<and>
    list_all2 (\<lambda>e e'. if rotation_due e now sla c
                      then ev_dek_id e' = ec_active_key_id c \<and> ev_issued_at e' = Some wall else e' = e) es es'"
  using assms(3)
proof (induction es arbitrary: i)
  case Nil
  then show ?case by simp
next
  case (Cons e es)
  from Cons obtain es' where es': "rotate_loop pr ent (Suc i) wall now sla c es =
      Inr (length (filter (\<lambda>e. rotation_due e now sla c) es), es')"
    "map (readable pr c) es' = map (readable pr c) es"
    "list_all2 (\<lambda>e e'. if rotation_due e now sla c
        then ev_dek_id e' = ec_active_key_id c \<and> ev_issued_at e' = Some wall else e' = e) es es'"
    by fastforce
  show ?case
  proof (cases "rotation_due e now sla c")
    case False
    with es' show ?thesis by simp
  next
    case True
    obtain p where p: "readable pr c e = Inr p" using Cons.prems by (cases "readable pr c e") auto
    obtain e' where e': "encrypt pr (ent i) wall p c = Inr e'" "readable pr c e' = Inr p"
      "ev_dek_id e' = ec_active_key_id c" "ev_issued_at e' = Some wall"
      using decrypt_encrypt[OF assms(1,2)] unfolding readable_def by blast
    have "rotate_ciphertext pr (ent i) wall (ev_ciphertext e) (ev_dek_id e) c = Inr e'"
      using p e'(1) by (simp add: rotate_ciphertext_def readable_def)
    with True es' e' p show ?thesis by simp
  qed
qed

text \<open>C22 (rotation keeps every secret and renews the stale envelopes). When every envelope is readable, the
  rotation returns as many envelopes in the same order, each decrypting to the same text; those that
  were due carry the active key and the current time, the others are unchanged, the report counts
  them, and with a positive SLA none of the returned envelopes is due at that time.\<close>

theorem rotation_keeps_secrets:
  assumes "fernet_opens pr (ec_active_fernet_key c)" "ec_configured c"
    and "list_all (\<lambda>e. \<not> isl (readable pr c e)) envelopes"
    and "0 < effective_sla sla c"
  shows "case rotate_stale_envelopes pr ent wall envelopes None sla c of
      Inl _ \<Rightarrow> False
    | Inr report \<Rightarrow>
        map (readable pr c) (er_rotated_envelopes report) = map (readable pr c) envelopes \<and>
        er_total_envelopes report = length envelopes \<and>
        er_rotated_count report = length (filter (\<lambda>e. rotation_due e wall sla c) envelopes) \<and>
        list_all2 (\<lambda>e e'. if rotation_due e wall sla c then ev_dek_id e' = ec_active_key_id c else e' = e)
          envelopes (er_rotated_envelopes report) \<and>
        list_all (\<lambda>e. \<not> rotation_due e wall sla c) (er_rotated_envelopes report)"
proof -
  obtain es' where l: "rotate_loop pr ent 0 wall wall sla c envelopes =
      Inr (length (filter (\<lambda>e. rotation_due e wall sla c) envelopes), es')"
    "map (readable pr c) es' = map (readable pr c) envelopes"
    "list_all2 (\<lambda>e e'. if rotation_due e wall sla c
        then ev_dek_id e' = ec_active_key_id c \<and> ev_issued_at e' = Some wall else e' = e) envelopes es'"
    using rotate_loop_correct[OF assms(1-3), of ent 0 wall wall sla] by blast
  have fresh: "\<not> rotation_due e wall sla c" if "ev_issued_at e = Some wall" for e
    using that assms(4) by (simp add: rotation_due_def day_us_def)
  have "list_all2 (\<lambda>e e'. \<not> rotation_due e' wall sla c) envelopes es'"
    by (rule list_all2_mono[OF l(3)]) (auto split: if_splits simp: fresh)
  then have "list_all (\<lambda>e. \<not> rotation_due e wall sla c) es'"
    by (simp add: list_all2_conv_all_nth list_all_length)
  moreover have "list_all2 (\<lambda>e e'. if rotation_due e wall sla c then ev_dek_id e' = ec_active_key_id c else e' = e)
      envelopes es'"
    by (rule list_all2_mono[OF l(3)]) (auto split: if_splits)
  ultimately show ?thesis using l(1,2) by (simp add: rotate_stale_envelopes_def)
qed

definition witness_primitives :: primitives where
  "witness_primitives = \<lparr>pr_fernet_encrypt = (\<lambda>_ _ p. Inr p), pr_fernet_decrypt = (\<lambda>_ c. Inr c), pr_b64decode = Inr\<rparr>"

definition witness_cipher :: "str \<Rightarrow> (str \<times> str) list \<Rightarrow> EnvelopeCipher" where
  "witness_cipher key_id previous = \<lparr>ec_provider = ''vault'', ec_configured = True, ec_active_key_id = key_id,
     ec_active_fernet_key = ''k-'' @ key_id, ec_master_key_reference = ''ref'', ec_previous_key_ids = map fst previous,
     ec_previous_fernet_keys = previous, ec_rotation_sla_days = 30\<rparr>"

lemma witness_opens: "fernet_opens witness_primitives key"
  by (simp add: fernet_opens_def witness_primitives_def)

lemma encrypt_decrypt_roundtrip_witness:
  "decrypt witness_primitives ''v2::hello'' ''a'' (witness_cipher ''b'' [(''a'', ''k-a'')]) = Inr ''hello''"
  using encrypt_decrypt_roundtrip[OF witness_opens[of "ec_active_fernet_key (witness_cipher ''a'' [])"],
      where c' = "witness_cipher ''b'' [(''a'', ''k-a'')]" and entropy = 0 and t = 5 and plaintext = "''hello''"]
  by (simp add: witness_cipher_def encrypt_def witness_primitives_def)

definition witness_envelopes :: "Envelope list" where
  "witness_envelopes = [\<lparr>ev_ciphertext = ''v2::x'', ev_dek_id = ''a'', ev_issued_at = Some 0\<rparr>,
     \<lparr>ev_ciphertext = ''enc::y'', ev_dek_id = ''b'', ev_issued_at = None\<rparr>]"

lemma rotation_keeps_secrets_witness:
  "er_rotated_count (\<lparr>er_total_envelopes = 2, er_due_before_rotation = 2, er_rotated_count = 2,
     er_rotated_envelopes = [\<lparr>ev_ciphertext = ''v2::x'', ev_dek_id = ''b'', ev_issued_at = Some 9000000000000\<rparr>,
       \<lparr>ev_ciphertext = ''v2::y'', ev_dek_id = ''b'', ev_issued_at = Some 9000000000000\<rparr>]\<rparr>) =
   length (filter (\<lambda>e. rotation_due e 9000000000000 None (witness_cipher ''b'' [(''a'', ''k-a'')])) witness_envelopes)"
proof -
  let ?c = "witness_cipher ''b'' [(''a'', ''k-a'')]"
  have "ec_configured ?c" "list_all (\<lambda>e. \<not> isl (readable witness_primitives ?c e)) witness_envelopes"
    "0 < effective_sla None ?c" by code_simp+
  note t = rotation_keeps_secrets[OF witness_opens this, where ent = "\<lambda>i. i" and wall = 9000000000000]
  have "rotate_stale_envelopes witness_primitives (\<lambda>i. i) 9000000000000 witness_envelopes None None ?c =
    Inr \<lparr>er_total_envelopes = 2, er_due_before_rotation = 2, er_rotated_count = 2,
     er_rotated_envelopes = [\<lparr>ev_ciphertext = ''v2::x'', ev_dek_id = ''b'', ev_issued_at = Some 9000000000000\<rparr>,
       \<lparr>ev_ciphertext = ''v2::y'', ev_dek_id = ''b'', ev_issued_at = Some 9000000000000\<rparr>]\<rparr>" by code_simp
  with t show ?thesis by simp
qed

section \<open>Scrubbed documents\<close>

text \<open>No value under a secret key is left, and no text that looks like a ciphertext.\<close>

fun scrubbed :: "json \<Rightarrow> bool" where
  "scrubbed (JObj d) =
     list_all (\<lambda>p. if looks_secret (fst p) then snd p = JStr redacted else scrubbed (snd p)) d"
| "scrubbed (JList xs) = list_all scrubbed xs"
| "scrubbed (JStr s) = (\<not> ciphertext_like s)"
| "scrubbed x = True"

lemma redacted_not_ciphertext [simp]: "\<not> ciphertext_like redacted"
  by code_simp

lemma scrub_scrubbed: "scrubbed (scrub_payload x)"
proof (induction x rule: scrub_payload.induct)
  case (1 d)
  then show ?case by (auto simp: list_all_iff)
next
  case (2 xs)
  then show ?case by (auto simp: list_all_iff)
qed simp_all

lemma scrub_fixed: "scrubbed x \<Longrightarrow> scrub_payload x = x"
proof (induction x rule: scrub_payload.induct)
  case (1 d)
  have "map (\<lambda>p. (fst p, if looks_secret (fst p) then JStr redacted else scrub_payload (snd p))) d = map (\<lambda>p. p) d"
  proof (rule map_cong[OF refl])
    fix p assume p: "p \<in> set d"
    with 1(2) have "if looks_secret (fst p) then snd p = JStr redacted else scrubbed (snd p)"
      by (simp add: list_all_iff)
    with 1(1)[OF p] show "(fst p, if looks_secret (fst p) then JStr redacted else scrub_payload (snd p)) = p"
      by (cases p) (auto split: if_splits)
  qed
  then show ?case by simp
next
  case (2 xs)
  then show ?case by (auto simp: list_all_iff intro: map_idI)
qed simp_all

text \<open>Scrubbing hides every secret and nothing else. The scrubbed document has no value left under a
  key that looks secret, at any depth, and no text that looks like a ciphertext; and exactly the
  documents without any are left as they are, so scrubbing twice changes nothing more.\<close>

theorem scrub_hides_secrets:
  "scrubbed (scrub_payload x) \<and> (scrub_payload x = x \<longleftrightarrow> scrubbed x) \<and>
   scrub_payload (scrub_payload x) = scrub_payload x"
  using scrub_scrubbed[of x] scrub_fixed[of x] scrub_fixed[OF scrub_scrubbed[of x]] by metis

end
