(* ===== verification/Metering.thy ===== *)
theory Metering
  imports Catalog Strings
begin

text \<open>
  Metering ledger and billing: the models of \<open>backend/governance/metering.py\<close>,
  \<open>PostgresMeteringLedger\<close> of \<open>backend/persistence/governance.py\<close>, \<open>InMemoryMeteringLedger\<close> of
  \<open>backend/persistence/testing/governance.py\<close>, the rollup job of \<open>backend/worker.py\<close> and the
  handlers of \<open>backend/billing/api.py\<close>. Usage facts are grouped into hourly rollups, reconciled
  against what a provider reports, and exported. PostgreSQL sessions are in UTC; facts with equal
  \<open>completed_at\<close> come back in insertion order; \<open>updated_at\<close> columns, log lines and gauges are left
  out. Metadata values of rate cards are strings.
\<close>

section \<open>Models\<close>

datatype UsageStatus = Succeeded | Provider_failure | Budget_rejected | Settlement_recovered

fun UsageStatus_value :: "UsageStatus \<Rightarrow> str" where
  "UsageStatus_value Succeeded = ''succeeded''"
| "UsageStatus_value Provider_failure = ''provider_failure''"
| "UsageStatus_value Budget_rejected = ''budget_rejected''"
| "UsageStatus_value Settlement_recovered = ''settlement_recovered''"

record UsageRecord =
  ur_usage_id :: str
  ur_tenant_id :: str
  ur_team_id :: str
  ur_run_id :: str
  ur_ticket_key :: str
  ur_role :: RuntimeRole
  ur_provider_id :: str
  ur_model_id :: str
  ur_deployment_profile :: DeploymentProfile
  ur_fallback_used :: bool
  ur_input_tokens :: int
  ur_output_tokens :: int
  ur_cached_tokens :: int
  ur_latency_ms :: int
  ur_request_count :: int
  ur_reservation_id :: "str option"
  ur_estimated_cost_usd :: decimal
  ur_actual_cost_usd :: decimal
  ur_rate_card_id :: str
  ur_provider_request_id :: "str option"
  ur_trace_id :: str
  ur_span_id :: str
  ur_started_at :: datetime
  ur_completed_at :: datetime
  ur_status :: UsageStatus

record HourlyUsageRollup =
  hu_rollup_id :: str
  hu_bucket_start :: datetime
  hu_tenant_id :: str
  hu_team_id :: str
  hu_role :: RuntimeRole
  hu_provider_id :: str
  hu_model_id :: str
  hu_rate_card_id :: str
  hu_request_count :: int
  hu_total_input_tokens :: int
  hu_total_output_tokens :: int
  hu_total_actual_cost_usd :: decimal
  hu_usage_ids :: "str list"

record ReconciliationResult =
  rn_period_start :: datetime
  rn_period_end :: datetime
  rn_metered_total_usd :: decimal
  rn_provider_reported_total_usd :: decimal
  rn_drift_amount_usd :: decimal
  rn_usage_ids :: "str list"
  rn_rollup_ids :: "str list"

record RateCard =
  rc_rate_card_id :: str
  rc_provider :: str
  rc_model :: str
  rc_unit :: str
  rc_rate_usd :: decimal
  rc_effective_from :: datetime
  rc_effective_to :: "datetime option"
  rc_version :: int
  rc_status :: str
  rc_created_by :: str
  rc_activated_by :: "str option"
  rc_activated_at :: "datetime option"
  rc_metadata :: "(str \<times> str) list"

record RateCardCreate =
  rcc_provider :: str
  rcc_model :: str
  rcc_unit :: str
  rcc_rate_usd :: decimal
  rcc_effective_from :: datetime
  rcc_effective_to :: "datetime option"
  rcc_created_by :: str
  rcc_metadata :: "(str \<times> str) list"

record RateCardUpdate =
  rcu_rate_usd :: "decimal option"
  rcu_effective_to :: "datetime option"
  rcu_metadata :: "(str \<times> str) list option"

record ReconciliationReport =
  rp_report_id :: str
  rp_tenant_id :: str
  rp_period_start :: datetime
  rp_period_end :: datetime
  rp_provider :: str
  rp_metered_total_usd :: decimal
  rp_provider_reported_total_usd :: decimal
  rp_drift_amount_usd :: decimal
  rp_drift_percentage :: decimal
  rp_missing_provider_request_ids :: nat
  rp_matched_usage_count :: nat
  rp_unmatched_usage_count :: nat
  rp_mode :: str
  rp_usage_ids :: "str list"
  rp_rollup_ids :: "str list"
  rp_created_at :: "datetime option"

text \<open>The rows of the four tables, and what is drawn from outside: the clock, a fresh identifier,
  and whether the role of the connection is exempt from row level security.\<close>

record MeteringDb =
  md_facts :: "UsageRecord list"
  md_rollups :: "HourlyUsageRollup list"
  md_rate_cards :: "RateCard list"
  md_reports :: "ReconciliationReport list"

record MeteringEnv =
  mv_now :: datetime
  mv_uuid :: str
  mv_bypass :: bool

definition empty_metering :: MeteringDb where
  "empty_metering = \<lparr>md_facts = [], md_rollups = [], md_rate_cards = [], md_reports = []\<rparr>"

section \<open>Columns\<close>

definition fits_int4 :: "int \<Rightarrow> bool" where
  "fits_int4 i \<longleftrightarrow> - 2147483648 \<le> i \<and> i < 2147483648"

definition data_error :: exn where
  "data_error = OtherError ''value out of range for its column''"

text \<open>\<open>NUMERIC(8, 4)\<close>: rounded to four places; a value of more than four integer digits is refused.\<close>

definition num4 :: "decimal \<Rightarrow> decimal" where
  "num4 x = of_int (round_half_up (x * 10000)) / 10000"

definition fits_8_4 :: "decimal \<Rightarrow> bool" where
  "fits_8_4 x \<longleftrightarrow> \<bar>num4 x\<bar> < 10000"

section \<open>Recording a fact\<close>

text \<open>Migration 0005 declares the text columns of \<open>metering_facts\<close> as TEXT; migration 0012 adds
  \<open>provider_request_id\<close> with 255 characters. The primary key is the pair of \<open>usage_id\<close> and
  \<open>completed_at\<close>.\<close>

definition fact_fits :: "UsageRecord \<Rightarrow> bool" where
  "fact_fits r \<longleftrightarrow>
     fits_int4 (ur_input_tokens r) \<and> fits_int4 (ur_output_tokens r) \<and> fits_int4 (ur_cached_tokens r) \<and>
     fits_int4 (ur_latency_ms r) \<and> fits_int4 (ur_request_count r) \<and>
     fits_14_6 (ur_estimated_cost_usd r) \<and> fits_14_6 (ur_actual_cost_usd r) \<and>
     (case ur_provider_request_id r of None \<Rightarrow> True | Some i \<Rightarrow> length i \<le> 255)"

definition stored_fact :: "UsageRecord \<Rightarrow> UsageRecord" where
  "stored_fact r = r\<lparr>ur_estimated_cost_usd := num6 (ur_estimated_cost_usd r),
                     ur_actual_cost_usd := num6 (ur_actual_cost_usd r)\<rparr>"

definition record_usage :: "MeteringEnv \<Rightarrow> UsageRecord \<Rightarrow> (MeteringDb, unit) operation" where
  "record_usage env r st =
     (if \<not> fact_fits r then (Inl data_error, st)
      else if \<not> row_visible (mv_bypass env) (Some (ur_tenant_id r, ur_team_id r)) (ur_tenant_id r) (ur_team_id r)
      then (Inl rls_violation, st)
      else if list_ex (\<lambda>f. ur_usage_id f = ur_usage_id r \<and> ur_completed_at f = ur_completed_at r) (md_facts st)
      then (Inl (IntegrityError ''metering_facts_pkey''), st)
      else (Inr (), st\<lparr>md_facts := md_facts st @ [stored_fact r]\<rparr>))"

definition facts_for_period ::
  "MeteringEnv \<Rightarrow> str \<Rightarrow> datetime \<Rightarrow> datetime \<Rightarrow> MeteringDb \<Rightarrow> UsageRecord list" where
  "facts_for_period env tenant_id period_start period_end st =
     sort_key ur_completed_at
       (filter (\<lambda>f. row_visible (mv_bypass env) (Some (tenant_id, ALL_TEAMS_SCOPE)) (ur_tenant_id f) (ur_team_id f) \<and>
                    ur_tenant_id f = tenant_id \<and>
                    period_start \<le> ur_completed_at f \<and> ur_completed_at f \<le> period_end)
          (md_facts st))"

section \<open>Hourly rollups\<close>

definition hour_us :: int where "hour_us = 3600000000"

definition bucket_start_of :: "datetime \<Rightarrow> datetime" where
  "bucket_start_of t = t - t mod hour_us"

text \<open>\<open>isoformat()\<close> of a time with no microseconds.\<close>

definition isoformat :: "datetime \<Rightarrow> str" where
  "isoformat t =
     (case civil_from_days (t div day_us) of (y, m, d) \<Rightarrow>
        let s = (t mod day_us) div 1000000
        in pad4 y @ ''-'' @ pad2 m @ ''-'' @ pad2 d @ ''T'' @ pad2 (s div 3600) @ '':'' @
           pad2 (s div 60 mod 60) @ '':'' @ pad2 (s mod 60) @ ''+00:00'')"

type_synonym rollup_key = "datetime \<times> str \<times> str \<times> RuntimeRole \<times> str \<times> str \<times> str"

definition rollup_key_of :: "UsageRecord \<Rightarrow> rollup_key" where
  "rollup_key_of f =
     (bucket_start_of (ur_completed_at f), ur_tenant_id f, ur_team_id f, ur_role f, ur_provider_id f,
      ur_model_id f, ur_rate_card_id f)"

fun new_rollup :: "rollup_key \<Rightarrow> HourlyUsageRollup" where
  "new_rollup (bucket, tenant, team, role, provider, model, rate_card) =
     \<lparr>hu_rollup_id = isoformat bucket @ '':'' @ team @ '':'' @ RuntimeRole_value role @ '':'' @
                     provider @ '':'' @ model @ '':'' @ rate_card,
      hu_bucket_start = bucket, hu_tenant_id = tenant, hu_team_id = team, hu_role = role,
      hu_provider_id = provider, hu_model_id = model, hu_rate_card_id = rate_card,
      hu_request_count = 0, hu_total_input_tokens = 0, hu_total_output_tokens = 0,
      hu_total_actual_cost_usd = 0, hu_usage_ids = []\<rparr>"

definition add_to_rollup :: "UsageRecord \<Rightarrow> HourlyUsageRollup \<Rightarrow> HourlyUsageRollup" where
  "add_to_rollup f r =
     r\<lparr>hu_request_count := hu_request_count r + ur_request_count f,
       hu_total_input_tokens := hu_total_input_tokens r + ur_input_tokens f,
       hu_total_output_tokens := hu_total_output_tokens r + ur_output_tokens f,
       hu_total_actual_cost_usd := hu_total_actual_cost_usd r + ur_actual_cost_usd f,
       hu_usage_ids := hu_usage_ids r @ [ur_usage_id f]\<rparr>"

definition group_fact ::
  "UsageRecord \<Rightarrow> (rollup_key \<times> HourlyUsageRollup) list \<Rightarrow> (rollup_key \<times> HourlyUsageRollup) list" where
  "group_fact f groups =
     (let key = rollup_key_of f
      in dict_set key (add_to_rollup f (dict_getd groups key (new_rollup key))) groups)"

definition rollup_groups :: "UsageRecord list \<Rightarrow> (rollup_key \<times> HourlyUsageRollup) list" where
  "rollup_groups facts = fold group_fact facts []"

text \<open>The upsert of one rollup: PostgreSQL checks the new row, then the row it conflicts with.
  Only the counts are overwritten.\<close>

definition rollup_fits :: "HourlyUsageRollup \<Rightarrow> bool" where
  "rollup_fits r \<longleftrightarrow>
     length (hu_rollup_id r) \<le> 255 \<and> length (hu_tenant_id r) \<le> 128 \<and> length (hu_team_id r) \<le> 128 \<and>
     length (hu_provider_id r) \<le> 128 \<and> length (hu_model_id r) \<le> 255 \<and> length (hu_rate_card_id r) \<le> 255 \<and>
     fits_int4 (hu_request_count r) \<and> fits_int4 (hu_total_input_tokens r) \<and>
     fits_int4 (hu_total_output_tokens r) \<and> fits_14_6 (hu_total_actual_cost_usd r)"

definition stored_rollup :: "HourlyUsageRollup \<Rightarrow> HourlyUsageRollup" where
  "stored_rollup r = r\<lparr>hu_total_actual_cost_usd := num6 (hu_total_actual_cost_usd r)\<rparr>"

definition overwrite_counts :: "HourlyUsageRollup \<Rightarrow> HourlyUsageRollup \<Rightarrow> HourlyUsageRollup" where
  "overwrite_counts new old =
     old\<lparr>hu_request_count := hu_request_count new,
         hu_total_input_tokens := hu_total_input_tokens new,
         hu_total_output_tokens := hu_total_output_tokens new,
         hu_total_actual_cost_usd := num6 (hu_total_actual_cost_usd new),
         hu_usage_ids := hu_usage_ids new\<rparr>"

definition upsert_rollup ::
  "MeteringEnv \<Rightarrow> scope \<Rightarrow> HourlyUsageRollup \<Rightarrow> HourlyUsageRollup list \<Rightarrow> HourlyUsageRollup list result" where
  "upsert_rollup env sc r rows =
     (if \<not> rollup_fits r then Inl data_error
      else if \<not> row_visible (mv_bypass env) sc (hu_tenant_id r) (hu_team_id r) then Inl rls_violation
      else case find (\<lambda>old. hu_rollup_id old = hu_rollup_id r) rows of
          None \<Rightarrow> Inr (rows @ [stored_rollup r])
        | Some old \<Rightarrow>
            if row_visible (mv_bypass env) sc (hu_tenant_id old) (hu_team_id old)
            then Inr (map (\<lambda>old. if hu_rollup_id old = hu_rollup_id r then overwrite_counts r old else old) rows)
            else Inl rls_violation)"

fun upsert_rollups ::
  "MeteringEnv \<Rightarrow> scope \<Rightarrow> HourlyUsageRollup list \<Rightarrow> HourlyUsageRollup list \<Rightarrow> HourlyUsageRollup list result" where
  "upsert_rollups env sc [] rows = Inr rows"
| "upsert_rollups env sc (r # rs) rows =
     bind_result (upsert_rollup env sc r rows) (upsert_rollups env sc rs)"

definition build_hourly_rollups ::
  "MeteringEnv \<Rightarrow> str \<Rightarrow> datetime \<Rightarrow> datetime \<Rightarrow> (MeteringDb, HourlyUsageRollup list) operation" where
  "build_hourly_rollups env tenant_id period_start period_end st =
     (let facts = facts_for_period env tenant_id period_start period_end st;
          groups = map snd (rollup_groups facts)
      in case facts of
           [] \<Rightarrow> (Inr [], st)
         | first_fact # _ \<Rightarrow>
             (case upsert_rollups env (Some (tenant_id, ur_team_id first_fact)) groups (md_rollups st) of
                Inl e \<Rightarrow> (Inl e, st)
              | Inr rows \<Rightarrow> (Inr groups, st\<lparr>md_rollups := rows\<rparr>)))"

text \<open>\<open>process_metering_rollups\<close> of the worker; its two times arrive as ISO text, parsed by the
  standard library.\<close>

definition process_metering_rollups ::
  "(str \<Rightarrow> datetime result) \<Rightarrow> MeteringEnv \<Rightarrow> str \<Rightarrow> str \<Rightarrow> str \<Rightarrow> (MeteringDb, nat) operation" where
  "process_metering_rollups fromisoformat env tenant_id period_start_iso period_end_iso st =
     (case fromisoformat period_start_iso of Inl e \<Rightarrow> (Inl e, st) | Inr period_start \<Rightarrow>
      (case fromisoformat period_end_iso of Inl e \<Rightarrow> (Inl e, st) | Inr period_end \<Rightarrow>
       op_bind (build_hourly_rollups env tenant_id period_start period_end)
         (\<lambda>rollups s. (Inr (length rollups), s)) st))"

section \<open>Reconciliation\<close>

definition reconciliation_result ::
  "datetime \<Rightarrow> datetime \<Rightarrow> decimal \<Rightarrow> UsageRecord list \<Rightarrow> HourlyUsageRollup list \<Rightarrow> ReconciliationResult" where
  "reconciliation_result period_start period_end reported facts rollups =
     (let metered = sum_list (map ur_actual_cost_usd facts)
      in \<lparr>rn_period_start = period_start, rn_period_end = period_end, rn_metered_total_usd = metered,
          rn_provider_reported_total_usd = reported, rn_drift_amount_usd = reported - metered,
          rn_usage_ids = map ur_usage_id facts, rn_rollup_ids = map hu_rollup_id rollups\<rparr>)"

definition reconcile_usage ::
  "MeteringEnv \<Rightarrow> str \<Rightarrow> datetime \<Rightarrow> datetime \<Rightarrow> decimal \<Rightarrow> (MeteringDb, ReconciliationResult) operation" where
  "reconcile_usage env tenant_id period_start period_end reported st =
     (let facts = facts_for_period env tenant_id period_start period_end st
      in op_bind (build_hourly_rollups env tenant_id period_start period_end)
           (\<lambda>rollups s. (Inr (reconciliation_result period_start period_end reported facts rollups), s)) st)"

definition reconciliation_report ::
  "str \<Rightarrow> str \<Rightarrow> datetime \<Rightarrow> datetime \<Rightarrow> str \<Rightarrow> decimal \<Rightarrow> str \<Rightarrow> UsageRecord list \<Rightarrow> ReconciliationReport" where
  "reconciliation_report report_id tenant_id period_start period_end provider reported mode facts =
     (let provider_facts = filter (\<lambda>f. ur_provider_id f = provider) facts;
          metered = sum_list (map ur_actual_cost_usd provider_facts);
          drift = reported - metered;
          matched = length (filter (\<lambda>f. ur_provider_request_id f \<noteq> None) provider_facts)
      in \<lparr>rp_report_id = report_id, rp_tenant_id = tenant_id, rp_period_start = period_start,
          rp_period_end = period_end, rp_provider = provider, rp_metered_total_usd = metered,
          rp_provider_reported_total_usd = reported, rp_drift_amount_usd = drift,
          rp_drift_percentage = (if metered > 0 then drift / metered * 100 else 0),
          rp_missing_provider_request_ids =
            length (filter (\<lambda>f. ur_provider_request_id f = None) provider_facts),
          rp_matched_usage_count = matched,
          rp_unmatched_usage_count = length provider_facts - matched,
          rp_mode = mode, rp_usage_ids = map ur_usage_id provider_facts, rp_rollup_ids = [],
          rp_created_at = None\<rparr>)"

definition report_fits :: "ReconciliationReport \<Rightarrow> bool" where
  "report_fits r \<longleftrightarrow>
     length (rp_report_id r) \<le> 64 \<and> length (rp_tenant_id r) \<le> 128 \<and> length (rp_provider r) \<le> 128 \<and>
     length (rp_mode r) \<le> 32 \<and>
     fits_14_6 (rp_metered_total_usd r) \<and> fits_14_6 (rp_provider_reported_total_usd r) \<and>
     fits_14_6 (rp_drift_amount_usd r) \<and> fits_8_4 (rp_drift_percentage r) \<and>
     fits_int4 (int (rp_missing_provider_request_ids r)) \<and> fits_int4 (int (rp_matched_usage_count r)) \<and>
     fits_int4 (int (rp_unmatched_usage_count r))"

definition stored_report :: "datetime \<Rightarrow> ReconciliationReport \<Rightarrow> ReconciliationReport" where
  "stored_report now r =
     r\<lparr>rp_metered_total_usd := num6 (rp_metered_total_usd r),
       rp_provider_reported_total_usd := num6 (rp_provider_reported_total_usd r),
       rp_drift_amount_usd := num6 (rp_drift_amount_usd r),
       rp_drift_percentage := num4 (rp_drift_percentage r),
       rp_created_at := Some now\<rparr>"

text \<open>The counter \<open>devsquad_billing_drift_alerts_total\<close> is raised for a drift above two percent.\<close>

definition drift_alert :: "ReconciliationReport \<Rightarrow> bool" where
  "drift_alert r \<longleftrightarrow> \<bar>rp_drift_percentage r\<bar> > 2"

text \<open>The result also says whether the alert counter was incremented. The report table has no row
  level security.\<close>

definition run_reconciliation ::
  "MeteringEnv \<Rightarrow> str \<Rightarrow> datetime \<Rightarrow> datetime \<Rightarrow> str \<Rightarrow> decimal \<Rightarrow> str \<Rightarrow>
     (MeteringDb, ReconciliationReport \<times> bool) operation" where
  "run_reconciliation env tenant_id period_start period_end provider reported mode st =
     (let facts = facts_for_period env tenant_id period_start period_end st;
          report = reconciliation_report (mv_uuid env) tenant_id period_start period_end provider reported mode facts
      in if \<not> report_fits report then (Inl data_error, st)
         else if list_ex (\<lambda>r. rp_report_id r = mv_uuid env) (md_reports st)
         then (Inl (IntegrityError ''reconciliation_reports_pkey''), st)
         else (Inr (report, drift_alert report),
               st\<lparr>md_reports := md_reports st @ [stored_report (mv_now env) report]\<rparr>))"

definition list_reconciliation_reports ::
  "str option \<Rightarrow> str option \<Rightarrow> int \<Rightarrow> (MeteringDb, ReconciliationReport list) operation" where
  "list_reconciliation_reports tenant_id provider limit st =
     (let wanted = (\<lambda>x v. case x of None \<Rightarrow> True | Some s \<Rightarrow> s = [] \<or> v = s);
          rows = filter (\<lambda>r. wanted tenant_id (rp_tenant_id r) \<and> wanted provider (rp_provider r)) (md_reports st);
          newest = (\<lambda>r. case rp_created_at r of None \<Rightarrow> 0 | Some t \<Rightarrow> - t)
      in if limit < 0 then (Inl (OtherError ''LIMIT must not be negative''), st)
         else (Inr (take (nat limit) (sort_key newest rows)), st))"

section \<open>Rate cards\<close>

definition card_fits :: "RateCard \<Rightarrow> bool" where
  "card_fits c \<longleftrightarrow>
     length (rc_rate_card_id c) \<le> 64 \<and> length (rc_provider c) \<le> 128 \<and> length (rc_model c) \<le> 255 \<and>
     length (rc_unit c) \<le> 32 \<and> fits_14_6 (rc_rate_usd c) \<and> length (rc_created_by c) \<le> 255"

definition get_rate_card :: "str \<Rightarrow> MeteringDb \<Rightarrow> RateCard option" where
  "get_rate_card rate_card_id st = find (\<lambda>c. rc_rate_card_id c = rate_card_id) (md_rate_cards st)"

definition list_rate_cards :: "str option \<Rightarrow> str option \<Rightarrow> MeteringDb \<Rightarrow> RateCard list" where
  "list_rate_cards provider status st =
     (let wanted = (\<lambda>x v. case x of None \<Rightarrow> True | Some s \<Rightarrow> s = [] \<or> v = s)
      in sort_key (\<lambda>c. - rc_effective_from c)
           (filter (\<lambda>c. wanted provider (rc_provider c) \<and> wanted status (rc_status c)) (md_rate_cards st)))"

text \<open>\<open>metadata.pop("rate_card_id", str(uuid4()))\<close>: the caller may choose the identifier.\<close>

definition new_rate_card :: "str \<Rightarrow> RateCardCreate \<Rightarrow> RateCard" where
  "new_rate_card uuid data =
     \<lparr>rc_rate_card_id = dict_getd (rcc_metadata data) ''rate_card_id'' uuid,
      rc_provider = rcc_provider data, rc_model = rcc_model data, rc_unit = rcc_unit data,
      rc_rate_usd = rcc_rate_usd data, rc_effective_from = rcc_effective_from data,
      rc_effective_to = rcc_effective_to data, rc_version = 1, rc_status = ''draft'',
      rc_created_by = rcc_created_by data, rc_activated_by = None, rc_activated_at = None,
      rc_metadata = dict_pop ''rate_card_id'' (rcc_metadata data)\<rparr>"

definition create_rate_card :: "MeteringEnv \<Rightarrow> RateCardCreate \<Rightarrow> (MeteringDb, RateCard) operation" where
  "create_rate_card env data st =
     (let c = new_rate_card (mv_uuid env) data; row = c\<lparr>rc_rate_usd := num6 (rc_rate_usd c)\<rparr>
      in if \<not> card_fits c then (Inl data_error, st)
         else if list_ex (\<lambda>old. rc_rate_card_id old = rc_rate_card_id c) (md_rate_cards st)
         then (Inl (IntegrityError ''price_rate_cards_pkey''), st)
         else let st' = st\<lparr>md_rate_cards := md_rate_cards st @ [row]\<rparr>
              in case get_rate_card (rc_rate_card_id c) st' of
                   None \<Rightarrow> (Inl (RuntimeError (''Failed to retrieve created rate card '' @ rc_rate_card_id c)), st')
                 | Some got \<Rightarrow> (Inr got, st'))"

definition update_where_card :: "str \<Rightarrow> (RateCard \<Rightarrow> RateCard) \<Rightarrow> MeteringDb \<Rightarrow> MeteringDb" where
  "update_where_card rate_card_id f st =
     st\<lparr>md_rate_cards := map (\<lambda>c. if rc_rate_card_id c = rate_card_id then f c else c) (md_rate_cards st)\<rparr>"

definition apply_card_update :: "RateCardUpdate \<Rightarrow> RateCard \<Rightarrow> RateCard" where
  "apply_card_update data c =
     (let c1 = (case rcu_rate_usd data of None \<Rightarrow> c | Some r \<Rightarrow> c\<lparr>rc_rate_usd := r\<rparr>);
          c2 = (case rcu_effective_to data of None \<Rightarrow> c1 | Some t \<Rightarrow> c1\<lparr>rc_effective_to := Some t\<rparr>)
      in case rcu_metadata data of None \<Rightarrow> c2 | Some m \<Rightarrow> c2\<lparr>rc_metadata := m\<rparr>)"

definition update_rate_card ::
  "str \<Rightarrow> RateCardUpdate \<Rightarrow> (MeteringDb, RateCard option) operation" where
  "update_rate_card rate_card_id data st =
     (case get_rate_card rate_card_id st of
        None \<Rightarrow> (Inr None, st)
      | Some _ \<Rightarrow>
          if \<not> (case rcu_rate_usd data of None \<Rightarrow> True | Some r \<Rightarrow> fits_14_6 r) then (Inl data_error, st)
          else let stored = data\<lparr>rcu_rate_usd := map_option num6 (rcu_rate_usd data)\<rparr>;
                   st' = update_where_card rate_card_id (apply_card_update stored) st
               in (Inr (get_rate_card rate_card_id st'), st'))"

definition activate_rate_card ::
  "MeteringEnv \<Rightarrow> str \<Rightarrow> str \<Rightarrow> (MeteringDb, RateCard option) operation" where
  "activate_rate_card env rate_card_id activated_by st =
     (case get_rate_card rate_card_id st of
        None \<Rightarrow> (Inr None, st)
      | Some _ \<Rightarrow>
          if length activated_by > 255 then (Inl data_error, st)
          else let st' = update_where_card rate_card_id
                     (\<lambda>c. c\<lparr>rc_status := ''active'', rc_activated_by := Some activated_by,
                            rc_activated_at := Some (mv_now env)\<rparr>) st
               in (Inr (get_rate_card rate_card_id st'), st'))"

definition delete_rate_card :: "str \<Rightarrow> (MeteringDb, bool) operation" where
  "delete_rate_card rate_card_id st =
     (Inr (list_ex (\<lambda>c. rc_rate_card_id c = rate_card_id) (md_rate_cards st)),
      st\<lparr>md_rate_cards := filter (\<lambda>c. rc_rate_card_id c \<noteq> rate_card_id) (md_rate_cards st)\<rparr>)"

section \<open>Export\<close>

text \<open>The excel dialect of \<open>csv.DictWriter\<close>: a field with a comma, a quote or a line end is quoted
  and its quotes are doubled; lines end with carriage return and line feed.\<close>

definition csv_field :: "str \<Rightarrow> str" where
  "csv_field s =
     (if list_ex (\<lambda>c. c \<in> {CHR '','', CHR 0x22, CHR 0x0A, CHR 0x0D}) s
      then CHR 0x22 # concat (map (\<lambda>c. if c = CHR 0x22 then [c, c] else [c]) s) @ [CHR 0x22] else s)"

definition csv_row :: "str list \<Rightarrow> str" where
  "csv_row cells = str_join '','' (map csv_field cells) @ [CHR 0x0D, CHR 0x0A]"

text \<open>\<open>f"{x:.6f}"\<close> of a value that has at most six decimals, as every value of the column has.\<close>

definition format_6f :: "decimal \<Rightarrow> str" where
  "format_6f x =
     (let micros = \<lfloor>\<bar>x\<bar> * 1000000\<rfloor>; digits = str_of_int (micros mod 1000000)
      in (if x < 0 then ''-'' else []) @ str_of_int (micros div 1000000) @ ''.'' @
         replicate (6 - length digits) (CHR ''0'') @ digits)"

definition rollup_columns :: "str list" where
  "rollup_columns =
     [''rollup_id'', ''bucket_start'', ''tenant_id'', ''team_id'', ''role'', ''provider_id'', ''model_id'',
      ''rate_card_id'', ''request_count'', ''total_input_tokens'', ''total_output_tokens'',
      ''total_actual_cost_usd'']"

definition rollup_cells :: "HourlyUsageRollup \<Rightarrow> str list" where
  "rollup_cells r =
     [hu_rollup_id r, isoformat (hu_bucket_start r), hu_tenant_id r, hu_team_id r,
      RuntimeRole_value (hu_role r), hu_provider_id r, hu_model_id r, hu_rate_card_id r,
      str_of_int (hu_request_count r), str_of_int (hu_total_input_tokens r),
      str_of_int (hu_total_output_tokens r), format_6f (hu_total_actual_cost_usd r)]"

definition rollups_for_period ::
  "MeteringEnv \<Rightarrow> str \<Rightarrow> datetime \<Rightarrow> datetime \<Rightarrow> MeteringDb \<Rightarrow> HourlyUsageRollup list" where
  "rollups_for_period env tenant_id period_start period_end st =
     sort_key hu_bucket_start
       (filter (\<lambda>r. row_visible (mv_bypass env) (Some (tenant_id, ALL_TEAMS_SCOPE)) (hu_tenant_id r) (hu_team_id r) \<and>
                    hu_tenant_id r = tenant_id \<and>
                    period_start \<le> hu_bucket_start r \<and> hu_bucket_start r \<le> period_end)
          (md_rollups st))"

definition export_rollups_csv :: "str \<Rightarrow> HourlyUsageRollup list \<Rightarrow> str" where
  "export_rollups_csv schema_version rollups =
     concat (csv_row ((if schema_version = ''v2'' then [''schema_version''] else []) @ rollup_columns) #
             map (\<lambda>r. csv_row ((if schema_version = ''v2'' then [''v2''] else []) @ rollup_cells r)) rollups)"

record MeteringExportRequest =
  mx_tenant_id :: str
  mx_period_start :: datetime
  mx_period_end :: datetime
  mx_format :: str
  mx_schema_version :: str
  mx_sealed_period_only :: bool

text \<open>The two JSON texts of a fact, \<open>dump\<close> of the plain model and \<open>dump_v2\<close> of the document that
  holds it, are written by pydantic and the json module.\<close>

definition export_usage ::
  "(UsageRecord \<Rightarrow> str) \<Rightarrow> (UsageRecord \<Rightarrow> str) \<Rightarrow> MeteringEnv \<Rightarrow> MeteringExportRequest \<Rightarrow> MeteringDb \<Rightarrow> str result" where
  "export_usage dump dump_v2 env request st =
     (let facts = facts_for_period env (mx_tenant_id request) (mx_period_start request) (mx_period_end request) st
      in if mx_format request = ''csv''
         then Inr (export_rollups_csv (mx_schema_version request)
                (rollups_for_period env (mx_tenant_id request) (mx_period_start request) (mx_period_end request) st))
         else if mx_format request = ''jsonl''
         then Inr (str_join [CHR 0x0A] (map (if mx_schema_version request = ''v2'' then dump_v2 else dump) facts))
         else Inl (ValueError (''Unsupported export format `'' @ mx_format request @ ''`.'')))"

section \<open>The ledger kept in memory\<close>

record MemMetering =
  mm_records :: "UsageRecord list"
  mm_rate_cards :: "(str \<times> RateCard) list"
  mm_reports :: "ReconciliationReport list"

definition mem_record_usage :: "UsageRecord \<Rightarrow> MemMetering \<Rightarrow> MemMetering" where
  "mem_record_usage r m = m\<lparr>mm_records := mm_records m @ [r]\<rparr>"

definition filtered_records :: "str \<Rightarrow> datetime \<Rightarrow> datetime \<Rightarrow> MemMetering \<Rightarrow> UsageRecord list" where
  "filtered_records tenant_id period_start period_end m =
     filter (\<lambda>r. ur_tenant_id r = tenant_id \<and>
                 period_start \<le> ur_completed_at r \<and> ur_completed_at r \<le> period_end) (mm_records m)"

definition mem_build_hourly_rollups ::
  "str \<Rightarrow> datetime \<Rightarrow> datetime \<Rightarrow> MemMetering \<Rightarrow> HourlyUsageRollup list" where
  "mem_build_hourly_rollups tenant_id period_start period_end m =
     map snd (rollup_groups (filtered_records tenant_id period_start period_end m))"

definition mem_reconcile ::
  "str \<Rightarrow> datetime \<Rightarrow> datetime \<Rightarrow> decimal \<Rightarrow> MemMetering \<Rightarrow> ReconciliationResult" where
  "mem_reconcile tenant_id period_start period_end reported m =
     reconciliation_result period_start period_end reported
       (filtered_records tenant_id period_start period_end m)
       (mem_build_hourly_rollups tenant_id period_start period_end m)"

definition mem_run_reconciliation ::
  "str \<Rightarrow> str \<Rightarrow> datetime \<Rightarrow> datetime \<Rightarrow> str \<Rightarrow> decimal \<Rightarrow> str \<Rightarrow> MemMetering \<Rightarrow>
     ReconciliationReport \<times> MemMetering" where
  "mem_run_reconciliation uuid tenant_id period_start period_end provider reported mode m =
     (let report = reconciliation_report uuid tenant_id period_start period_end provider reported mode
                     (filtered_records tenant_id period_start period_end m)
      in (report, m\<lparr>mm_reports := mm_reports m @ [report]\<rparr>))"

definition mem_create_rate_card :: "str \<Rightarrow> RateCardCreate \<Rightarrow> MemMetering \<Rightarrow> RateCard \<times> MemMetering" where
  "mem_create_rate_card uuid data m =
     (let c = new_rate_card uuid data
      in (c, m\<lparr>mm_rate_cards := dict_set (rc_rate_card_id c) c (mm_rate_cards m)\<rparr>))"

definition mem_update_rate_card ::
  "str \<Rightarrow> RateCardUpdate \<Rightarrow> MemMetering \<Rightarrow> RateCard option \<times> MemMetering" where
  "mem_update_rate_card rate_card_id data m =
     (case dict_get (mm_rate_cards m) rate_card_id of
        None \<Rightarrow> (None, m)
      | Some c \<Rightarrow> let c' = apply_card_update data c
                  in (Some c', m\<lparr>mm_rate_cards := dict_set rate_card_id c' (mm_rate_cards m)\<rparr>))"

definition mem_activate_rate_card ::
  "datetime \<Rightarrow> str \<Rightarrow> str \<Rightarrow> MemMetering \<Rightarrow> RateCard option \<times> MemMetering" where
  "mem_activate_rate_card now rate_card_id activated_by m =
     (case dict_get (mm_rate_cards m) rate_card_id of
        None \<Rightarrow> (None, m)
      | Some c \<Rightarrow> let c' = c\<lparr>rc_status := ''active'', rc_activated_by := Some activated_by,
                                rc_activated_at := Some now\<rparr>
                  in (Some c', m\<lparr>mm_rate_cards := dict_set rate_card_id c' (mm_rate_cards m)\<rparr>))"

definition mem_delete_rate_card :: "str \<Rightarrow> MemMetering \<Rightarrow> bool \<times> MemMetering" where
  "mem_delete_rate_card rate_card_id m =
     (dict_has (mm_rate_cards m) rate_card_id,
      m\<lparr>mm_rate_cards := dict_pop rate_card_id (mm_rate_cards m)\<rparr>)"

text \<open>\<open>cells\<close> are the values of \<open>model_dump(mode="json")\<close> as csv writes them, \<open>dump\<close> and \<open>dump_v2\<close> the
  JSON texts. This ledger exports the facts themselves where the one on PostgreSQL exports rollups.\<close>

definition usage_columns :: "str list" where
  "usage_columns =
     [''usage_id'', ''tenant_id'', ''team_id'', ''run_id'', ''ticket_key'', ''role'', ''provider_id'', ''model_id'',
      ''deployment_profile'', ''fallback_used'', ''input_tokens'', ''output_tokens'', ''cached_tokens'',
      ''latency_ms'', ''request_count'', ''reservation_id'', ''estimated_cost_usd'', ''actual_cost_usd'',
      ''rate_card_id'', ''provider_request_id'', ''trace_id'', ''span_id'', ''started_at'', ''completed_at'',
      ''status'']"

definition mem_export_csv :: "(UsageRecord \<Rightarrow> str list) \<Rightarrow> UsageRecord list \<Rightarrow> str \<Rightarrow> str" where
  "mem_export_csv cells records schema_version =
     concat (csv_row ((if schema_version = ''v2'' then [''schema_version''] else []) @ usage_columns) #
             map (\<lambda>r. csv_row ((if schema_version = ''v2'' then [''v2''] else []) @ cells r)) records)"

definition mem_export ::
  "(UsageRecord \<Rightarrow> str list) \<Rightarrow> (UsageRecord \<Rightarrow> str) \<Rightarrow> (UsageRecord \<Rightarrow> str) \<Rightarrow> MeteringExportRequest \<Rightarrow> MemMetering \<Rightarrow>
   str result" where
  "mem_export cells dump dump_v2 request m =
     (let records = filtered_records (mx_tenant_id request) (mx_period_start request) (mx_period_end request) m
      in if mx_format request = ''csv'' then Inr (mem_export_csv cells records (mx_schema_version request))
         else if mx_format request = ''jsonl''
         then Inr (str_join [CHR 0x0A] (map (if mx_schema_version request = ''v2'' then dump_v2 else dump) records))
         else Inl (ValueError (''Unsupported export format `'' @ mx_format request @ ''`.'')))"

definition mem_list_rate_cards :: "str option \<Rightarrow> str option \<Rightarrow> MemMetering \<Rightarrow> RateCard list" where
  "mem_list_rate_cards provider status m =
     (let wanted = (\<lambda>x v. case x of None \<Rightarrow> True | Some s \<Rightarrow> s = [] \<or> v = s)
      in sort_key (\<lambda>c. - rc_effective_from c)
           (filter (\<lambda>c. wanted provider (rc_provider c) \<and> wanted status (rc_status c)) (map snd (mm_rate_cards m))))"

text \<open>A negative limit cuts from the end, as slices do.\<close>

definition mem_list_reconciliation_reports ::
  "datetime \<Rightarrow> str option \<Rightarrow> str option \<Rightarrow> int \<Rightarrow> MemMetering \<Rightarrow> ReconciliationReport list" where
  "mem_list_reconciliation_reports now tenant_id provider limit m =
     (let wanted = (\<lambda>x v. case x of None \<Rightarrow> True | Some s \<Rightarrow> s = [] \<or> v = s);
          rows = filter (\<lambda>r. wanted tenant_id (rp_tenant_id r) \<and> wanted provider (rp_provider r)) (mm_reports m);
          newest = sort_key (\<lambda>r. - (case rp_created_at r of None \<Rightarrow> now | Some t \<Rightarrow> t)) rows
      in take (nat (if limit < 0 then int (length newest) + limit else limit)) newest)"

section \<open>Choosing the ledger, and the billing handlers\<close>

definition build_metering_ledger ::
  "bool \<Rightarrow> str option \<Rightarrow> 'l option \<Rightarrow> (str \<Rightarrow> 'l) \<Rightarrow> 'l result" where
  "build_metering_ledger legacy_mode database_url legacy_ledger postgres_ledger =
     (if legacy_mode
      then (case legacy_ledger of
              None \<Rightarrow> Inl (RuntimeError ''Legacy metering-ledger mode requires an in-memory test double.'')
            | Some l \<Rightarrow> Inr l)
      else (case database_url of
              None \<Rightarrow> Inl (RuntimeError ''BACKEND_METERING_LEDGER_MODE=postgres requires a configured database URL'')
            | Some url \<Rightarrow>
                if url = [] then Inl (RuntimeError ''BACKEND_METERING_LEDGER_MODE=postgres requires a configured database URL'')
                else Inr (postgres_ledger url)))"

text \<open>A handler answers 501 when the ledger is not the PostgreSQL one, and 404 for a card that does
  not exist.\<close>

definition with_postgres ::
  "str \<Rightarrow> bool \<Rightarrow> (MeteringDb, 'a) operation \<Rightarrow> (MeteringDb, 'a) operation" where
  "with_postgres detail is_postgres m st =
     (if is_postgres then m st else (Inl (HTTPException 501 detail), st))"

definition found_or_404 ::
  "(MeteringDb, RateCard option) operation \<Rightarrow> (MeteringDb, RateCard) operation" where
  "found_or_404 m st = op_bind m (\<lambda>c s. (case c of None \<Rightarrow> Inl (HTTPException 404 ''rate_card_not_found'')
                                                 | Some c \<Rightarrow> Inr c, s)) st"

definition billing_list_rate_cards ::
  "bool \<Rightarrow> str option \<Rightarrow> str option \<Rightarrow> (MeteringDb, RateCard list) operation" where
  "billing_list_rate_cards is_postgres provider status =
     with_postgres ''rate_cards_not_available'' is_postgres (\<lambda>st. (Inr (list_rate_cards provider status st), st))"

definition billing_get_rate_card :: "bool \<Rightarrow> str \<Rightarrow> (MeteringDb, RateCard) operation" where
  "billing_get_rate_card is_postgres rate_card_id =
     with_postgres ''rate_cards_not_available'' is_postgres
       (found_or_404 (\<lambda>st. (Inr (get_rate_card rate_card_id st), st)))"

definition billing_create_rate_card ::
  "bool \<Rightarrow> MeteringEnv \<Rightarrow> RateCardCreate \<Rightarrow> (MeteringDb, RateCard) operation" where
  "billing_create_rate_card is_postgres env data =
     with_postgres ''rate_cards_not_available'' is_postgres (create_rate_card env data)"

definition billing_update_rate_card ::
  "bool \<Rightarrow> str \<Rightarrow> RateCardUpdate \<Rightarrow> (MeteringDb, RateCard) operation" where
  "billing_update_rate_card is_postgres rate_card_id data =
     with_postgres ''rate_cards_not_available'' is_postgres (found_or_404 (update_rate_card rate_card_id data))"

definition billing_activate_rate_card ::
  "bool \<Rightarrow> MeteringEnv \<Rightarrow> str \<Rightarrow> str \<Rightarrow> (MeteringDb, RateCard) operation" where
  "billing_activate_rate_card is_postgres env rate_card_id x_actor =
     with_postgres ''rate_cards_not_available'' is_postgres
       (found_or_404 (activate_rate_card env rate_card_id x_actor))"

definition billing_delete_rate_card :: "bool \<Rightarrow> str \<Rightarrow> (MeteringDb, unit) operation" where
  "billing_delete_rate_card is_postgres rate_card_id =
     with_postgres ''rate_cards_not_available'' is_postgres
       (op_bind (delete_rate_card rate_card_id)
          (\<lambda>deleted s. (if deleted then Inr () else Inl (HTTPException 404 ''rate_card_not_found''), s)))"

text \<open>\<open>POST /reconcile\<close>: the framework admits two modes and nothing reads the mode afterwards.\<close>

definition billing_reconcile ::
  "bool \<Rightarrow> MeteringEnv \<Rightarrow> str \<Rightarrow> datetime \<Rightarrow> datetime \<Rightarrow> str \<Rightarrow> decimal \<Rightarrow> str \<Rightarrow>
     (MeteringDb, ReconciliationReport) operation" where
  "billing_reconcile is_postgres env tenant_id period_start period_end provider reported mode st =
     (if mode \<notin> {''dry_run'', ''enforce''} then (Inl (HTTPException 422 ''mode''), st)
      else with_postgres ''reconciliation_not_available'' is_postgres
        (op_bind (run_reconciliation env tenant_id period_start period_end provider reported mode)
           (\<lambda>(report, alerted) s. (Inr report, s))) st)"

definition billing_list_reports ::
  "bool \<Rightarrow> str option \<Rightarrow> str option \<Rightarrow> int \<Rightarrow> (MeteringDb, ReconciliationReport list) operation" where
  "billing_list_reports is_postgres tenant_id provider limit =
     with_postgres ''reconciliation_not_available'' is_postgres
       (list_reconciliation_reports tenant_id provider limit)"

definition billing_export ::
  "(UsageRecord \<Rightarrow> str) \<Rightarrow> (UsageRecord \<Rightarrow> str) \<Rightarrow> bool \<Rightarrow> MeteringEnv \<Rightarrow> str \<Rightarrow> datetime \<Rightarrow> datetime \<Rightarrow> str \<Rightarrow> str \<Rightarrow>
     (MeteringDb, str) operation" where
  "billing_export dump dump_v2 is_postgres env tenant_id period_start period_end format version st =
     (if format \<notin> {''csv'', ''json''} then (Inl (HTTPException 400 ''unsupported_export_format''), st)
      else with_postgres ''export_not_available'' is_postgres
        (\<lambda>st. (export_usage dump dump_v2 env
                 \<lparr>mx_tenant_id = tenant_id, mx_period_start = period_start, mx_period_end = period_end,
                  mx_format = (if format = ''csv'' then ''csv'' else ''jsonl''), mx_schema_version = version,
                  mx_sealed_period_only = True\<rparr> st, st)) st)"

end
