(* ===== verification/MeteringCorrect.thy ===== *)
theory MeteringCorrect
  imports Metering "HOL-Library.Multiset"
begin

text \<open>
  Properties of the metering ledger: the one-pass grouping of facts equals a reference that sums
  per group, rollups and reconciliation account for every fact once, rebuilding a period is
  idempotent, and the drift alert is raised exactly above two percent of a positive metered total.
  The last section shows where the ledger falls short.
\<close>

section \<open>The grouping pass and its reference\<close>

definition first_occurrences :: "'a list \<Rightarrow> 'a list" where
  "first_occurrences xs = rev (remdups (rev xs))"

lemma first_occurrences_simps [simp]:
  "first_occurrences [] = []"
  "first_occurrences (xs @ [x]) =
     (if x \<in> set xs then first_occurrences xs else first_occurrences xs @ [x])"
  "set (first_occurrences xs) = set xs" "distinct (first_occurrences xs)"
  by (simp_all add: first_occurrences_def)

definition summarize :: "rollup_key \<Rightarrow> UsageRecord list \<Rightarrow> HourlyUsageRollup" where
  "summarize key facts =
     (new_rollup key)
       \<lparr>hu_request_count := sum_list (map ur_request_count facts),
        hu_total_input_tokens := sum_list (map ur_input_tokens facts),
        hu_total_output_tokens := sum_list (map ur_output_tokens facts),
        hu_total_actual_cost_usd := sum_list (map ur_actual_cost_usd facts),
        hu_usage_ids := map ur_usage_id facts\<rparr>"

definition facts_of_key :: "UsageRecord list \<Rightarrow> rollup_key \<Rightarrow> UsageRecord list" where
  "facts_of_key facts key = filter (\<lambda>f. rollup_key_of f = key) facts"

definition reference_rollups :: "UsageRecord list \<Rightarrow> (rollup_key \<times> HourlyUsageRollup) list" where
  "reference_rollups facts =
     map (\<lambda>key. (key, summarize key (facts_of_key facts key))) (first_occurrences (map rollup_key_of facts))"

lemma summarize_Nil: "summarize key [] = new_rollup key"
  by (cases key) (simp add: summarize_def)

lemma summarize_snoc: "summarize key (fs @ [f]) = add_to_rollup f (summarize key fs)"
  by (simp add: summarize_def add_to_rollup_def)

lemma dict_getd_map:
  "dict_getd (map (\<lambda>k. (k, g k)) ks) k d = (if k \<in> set ks then g k else d)"
  by (induction ks) (auto simp: dict_getd_def)

lemma dict_set_map:
  "distinct ks \<Longrightarrow> dict_set k v (map (\<lambda>k. (k, g k)) ks) =
     map (\<lambda>j. (j, if j = k then v else g j)) (if k \<in> set ks then ks else ks @ [k])"
  by (induction ks) auto

lemma rollup_groups_eq: "rollup_groups facts = reference_rollups facts"
proof (induction facts rule: rev_induct)
  case Nil
  show ?case by (simp add: rollup_groups_def reference_rollups_def)
next
  case (snoc f facts)
  let ?ks = "first_occurrences (map rollup_key_of facts)" and ?k = "rollup_key_of f"
  let ?g = "\<lambda>key. summarize key (facts_of_key facts key)"
  have new: "?k \<notin> set ?ks \<Longrightarrow> new_rollup ?k = ?g ?k"
    by (auto simp: facts_of_key_def summarize_Nil filter_empty_conv intro!: arg_cong[where f = "summarize _"])
       (metis (mono_tags, lifting) filter_False imageI summarize_Nil)
  have "rollup_groups (facts @ [f]) = group_fact f (reference_rollups facts)"
    using snoc.IH by (simp add: rollup_groups_def)
  also have "\<dots> = dict_set ?k (add_to_rollup f (?g ?k)) (map (\<lambda>k. (k, ?g k)) ?ks)"
    using new by (simp add: group_fact_def Let_def reference_rollups_def dict_getd_map)
  also have "\<dots> = map (\<lambda>j. (j, if j = ?k then add_to_rollup f (?g ?k) else ?g j))
                    (first_occurrences (map rollup_key_of (facts @ [f])))"
    by (subst dict_set_map) simp_all
  also have "\<dots> = reference_rollups (facts @ [f])"
    unfolding reference_rollups_def
    by (intro map_cong) (auto simp: facts_of_key_def summarize_snoc)
  finally show ?case .
qed

section \<open>Every fact is counted once\<close>

lemma sum_list_unique:
  "distinct ks \<Longrightarrow> sum_list (map (\<lambda>k. if k = j then x else (0::'a::comm_monoid_add)) ks) =
     (if j \<in> set ks then x else 0)"
  by (induction ks) auto

lemma sum_list_by_key:
  fixes g :: "'f \<Rightarrow> 'a::comm_monoid_add"
  assumes "distinct ks" "key ` set fs \<subseteq> set ks"
  shows "sum_list (map (\<lambda>k. sum_list (map g (filter (\<lambda>f. key f = k) fs))) ks) = sum_list (map g fs)"
  using assms(2)
proof (induction fs)
  case Nil
  show ?case by (induction ks) auto
next
  case (Cons f fs)
  have "sum_list (map (\<lambda>k. sum_list (map g (filter (\<lambda>f. key f = k) (f # fs)))) ks) =
    sum_list (map (\<lambda>k. (if k = key f then g f else 0) + sum_list (map g (filter (\<lambda>f. key f = k) fs))) ks)"
    by (intro arg_cong[where f = sum_list] map_cong) auto
  also have "\<dots> = sum_list (map (\<lambda>k. if k = key f then g f else 0) ks) +
                  sum_list (map (\<lambda>k. sum_list (map g (filter (\<lambda>f. key f = k) fs))) ks)"
    by (rule sum_list_addf)
  also have "\<dots> = g f + sum_list (map g fs)"
    using Cons assms(1) by (simp add: sum_list_unique)
  finally show ?case by simp
qed

lemma mset_concat_sum: "mset (concat xss) = sum_list (map mset xss)"
  by (induction xss) auto

lemma mset_map_sum: "mset (map h xs) = sum_list (map (\<lambda>x. {#h x#}) xs)"
  by (induction xs) auto

lemma grouped_sum:
  fixes g :: "UsageRecord \<Rightarrow> 'a::comm_monoid_add"
  assumes "\<And>key fs. sel (summarize key fs) = sum_list (map g fs)"
  shows "sum_list (map sel (map snd (rollup_groups facts))) = sum_list (map g facts)"
  unfolding rollup_groups_eq reference_rollups_def
  using sum_list_by_key[of "first_occurrences (map rollup_key_of facts)" rollup_key_of facts g]
  by (simp add: comp_def assms facts_of_key_def)

lemma grouped_ids:
  "mset (concat (map hu_usage_ids (map snd (rollup_groups facts)))) = mset (map ur_usage_id facts)"
  unfolding mset_concat_sum mset_map_sum map_map[symmetric]
  using grouped_sum[of "\<lambda>r. mset (hu_usage_ids r)" "\<lambda>f. {#ur_usage_id f#}" facts]
  by (simp add: summarize_def mset_map_sum comp_def)

definition identity_of :: "HourlyUsageRollup \<Rightarrow> rollup_key" where
  "identity_of r = (hu_bucket_start r, hu_tenant_id r, hu_team_id r, hu_role r, hu_provider_id r,
                    hu_model_id r, hu_rate_card_id r)"

lemma identity_summarize [simp]: "identity_of (summarize key fs) = key"
  by (cases key) (simp add: identity_of_def summarize_def)

lemma grouped_identities:
  "map identity_of (map snd (rollup_groups facts)) = first_occurrences (map rollup_key_of facts)"
  by (simp add: rollup_groups_eq reference_rollups_def comp_def)

text \<open>What rollups owe to the facts they were built from.\<close>

definition accounts_for :: "HourlyUsageRollup list \<Rightarrow> UsageRecord list \<Rightarrow> bool" where
  "accounts_for rollups facts \<longleftrightarrow>
     distinct (map identity_of rollups) \<and>
     mset (concat (map hu_usage_ids rollups)) = mset (map ur_usage_id facts) \<and>
     sum_list (map hu_request_count rollups) = sum_list (map ur_request_count facts) \<and>
     sum_list (map hu_total_input_tokens rollups) = sum_list (map ur_input_tokens facts) \<and>
     sum_list (map hu_total_output_tokens rollups) = sum_list (map ur_output_tokens facts) \<and>
     sum_list (map hu_total_actual_cost_usd rollups) = sum_list (map ur_actual_cost_usd facts)"

lemma groups_account: "accounts_for (map snd (rollup_groups facts)) facts"
  unfolding accounts_for_def
proof (intro conjI)
  show "distinct (map identity_of (map snd (rollup_groups facts)))"
    by (simp only: grouped_identities first_occurrences_simps)
  show "mset (concat (map hu_usage_ids (map snd (rollup_groups facts)))) = mset (map ur_usage_id facts)"
    by (rule grouped_ids)
qed (rule grouped_sum, simp add: summarize_def)+

section \<open>The ledger protocol\<close>

text \<open>What a client of \<open>MeteringLedger\<close> relies on: a build that succeeds returns the groups of the
  facts of its period, and a reconciliation is computed from the same facts.\<close>

locale metering_ledger =
  fixes period :: "str \<Rightarrow> datetime \<Rightarrow> datetime \<Rightarrow> 's \<Rightarrow> UsageRecord list"
    and rollups_of :: "str \<Rightarrow> datetime \<Rightarrow> datetime \<Rightarrow> ('s, HourlyUsageRollup list) operation"
    and reconciled :: "str \<Rightarrow> datetime \<Rightarrow> datetime \<Rightarrow> decimal \<Rightarrow> ('s, ReconciliationResult) operation"
  assumes rollups_law:
    "rollups_of t a b s = (Inr rs, s') \<Longrightarrow> rs = map snd (rollup_groups (period t a b s))"
    and reconciled_law:
    "reconciled t a b v s = (Inr x, s') \<Longrightarrow>
       \<exists>rs. rollups_of t a b s = (Inr rs, s') \<and> x = reconciliation_result a b v (period t a b s) rs"
begin

lemma built_account: "rollups_of t a b s = (Inr rs, s') \<Longrightarrow> accounts_for rs (period t a b s)"
  using rollups_law groups_account by metis

lemma reconciled_total:
  assumes "reconciled t a b v s = (Inr x, s')"
  obtains rs where "rollups_of t a b s = (Inr rs, s')" "rn_rollup_ids x = map hu_rollup_id rs"
    "rn_metered_total_usd x = sum_list (map hu_total_actual_cost_usd rs)"
    "rn_drift_amount_usd x = v - rn_metered_total_usd x"
    "mset (rn_usage_ids x) = mset (concat (map hu_usage_ids rs))"
proof -
  from reconciled_law[OF assms] obtain rs where rs: "rollups_of t a b s = (Inr rs, s')"
    and x: "x = reconciliation_result a b v (period t a b s) rs" by blast
  show ?thesis
    using built_account[OF rs]
    by (intro that[OF rs]) (simp_all add: x reconciliation_result_def Let_def accounts_for_def)
qed

end

lemma upsert_rollups_Inl_state:
  "build_hourly_rollups env t a b st = (Inl e, st') \<Longrightarrow> st' = st"
  by (auto simp: build_hourly_rollups_def Let_def split: list.splits sum.splits)

lemma build_Inr:
  "build_hourly_rollups env t a b st = (Inr rs, st') \<Longrightarrow>
     rs = map snd (rollup_groups (facts_for_period env t a b st))"
  by (auto simp: build_hourly_rollups_def Let_def rollup_groups_def split: list.splits sum.splits)

interpretation pg_metering: metering_ledger "facts_for_period env" "build_hourly_rollups env" "reconcile_usage env"
  for env
  by unfold_locales
     (auto simp: reconcile_usage_def Let_def op_bind_Inr dest: build_Inr)

interpretation mem_metering: metering_ledger filtered_records
  "\<lambda>t a b m. (Inr (mem_build_hourly_rollups t a b m), m)" "\<lambda>t a b v m. (Inr (mem_reconcile t a b v m), m)"
  by unfold_locales (auto simp: mem_build_hourly_rollups_def mem_reconcile_def)

section \<open>Rebuilding a period\<close>

definition upsert_row :: "HourlyUsageRollup \<Rightarrow> HourlyUsageRollup \<Rightarrow> HourlyUsageRollup" where
  "upsert_row r old = (if hu_rollup_id old = hu_rollup_id r then overwrite_counts r old else old)"

lemma overwrite_counts_simps [simp]:
  "hu_rollup_id (overwrite_counts r x) = hu_rollup_id x"
  "hu_tenant_id (overwrite_counts r x) = hu_tenant_id x"
  "hu_team_id (overwrite_counts r x) = hu_team_id x"
  "overwrite_counts r (overwrite_counts q x) = overwrite_counts r x"
  "overwrite_counts r (stored_rollup r) = stored_rollup r"
  "hu_rollup_id (stored_rollup r) = hu_rollup_id r"
  by (simp_all add: overwrite_counts_def stored_rollup_def)

lemma upsert_row_frame [simp]:
  "hu_rollup_id (upsert_row r x) = hu_rollup_id x" "hu_tenant_id (upsert_row r x) = hu_tenant_id x"
  "hu_team_id (upsert_row r x) = hu_team_id x"
  by (simp_all add: upsert_row_def)

lemma fold_upsert_row_frame [simp]:
  "hu_rollup_id (fold upsert_row rs x) = hu_rollup_id x"
  by (induction rs arbitrary: x) auto

text \<open>Where the last rollup with the identifier of a row comes later, an earlier overwrite of the row
  does not matter.\<close>

lemma fold_upsert_row_last:
  "hu_rollup_id x \<in> hu_rollup_id ` set rs \<Longrightarrow>
     fold upsert_row rs (overwrite_counts q x) = fold upsert_row rs x"
proof (induction rs arbitrary: x)
  case Nil
  then show ?case by simp
next
  case (Cons r rs)
  show ?case
  proof (cases "hu_rollup_id x = hu_rollup_id r")
    case True
    then show ?thesis by (simp add: upsert_row_def)
  next
    case False
    with Cons show ?thesis by (auto simp: upsert_row_def)
  qed
qed

lemma upsert_rollup_Inr:
  assumes "upsert_rollup env sc r rows = Inr rows'"
  obtains "rollup_fits r" "row_visible (mv_bypass env) sc (hu_tenant_id r) (hu_team_id r)"
      "find (\<lambda>q. hu_rollup_id q = hu_rollup_id r) rows = None"
      "hu_rollup_id r \<notin> hu_rollup_id ` set rows" "rows' = rows @ [stored_rollup r]"
  | old where "rollup_fits r" "row_visible (mv_bypass env) sc (hu_tenant_id r) (hu_team_id r)"
      "find (\<lambda>q. hu_rollup_id q = hu_rollup_id r) rows = Some old"
      "row_visible (mv_bypass env) sc (hu_tenant_id old) (hu_team_id old)"
      "rows' = map (upsert_row r) rows"
proof (cases "find (\<lambda>q. hu_rollup_id q = hu_rollup_id r) rows")
  case None
  then have "hu_rollup_id r \<notin> hu_rollup_id ` set rows" by (auto simp: find_None_iff image_iff)
  with None assms that(1) show ?thesis by (auto simp: upsert_rollup_def split: if_splits)
next
  case (Some old)
  with assms that(2) show ?thesis by (auto simp: upsert_rollup_def upsert_row_def[abs_def] split: if_splits)
qed

text \<open>The first row with an identifier is stable under further upserts, up to its counts.\<close>

lemma find_map_upsert:
  "find (\<lambda>q. hu_rollup_id q = i) (map (upsert_row r) rows) =
     map_option (upsert_row r) (find (\<lambda>q. hu_rollup_id q = i) rows)"
  by (induction rows) auto

definition conflict_visible :: "MeteringEnv \<Rightarrow> scope \<Rightarrow> str \<Rightarrow> HourlyUsageRollup list \<Rightarrow> bool" where
  "conflict_visible env sc i rows \<longleftrightarrow>
     (\<exists>old. find (\<lambda>q. hu_rollup_id q = i) rows = Some old \<and>
            row_visible (mv_bypass env) sc (hu_tenant_id old) (hu_team_id old))"

lemma upsert_rollup_visible:
  assumes "upsert_rollup env sc r rows = Inr rows'"
  shows "conflict_visible env sc (hu_rollup_id r) rows'"
    and "conflict_visible env sc i rows \<Longrightarrow> conflict_visible env sc i rows'"
  using assms
  by (auto elim!: upsert_rollup_Inr simp: conflict_visible_def find_map_upsert find_append stored_rollup_def
      split: option.splits)

lemma upsert_rollups_visible:
  "upsert_rollups env sc rs rows = Inr rows' \<Longrightarrow>
     (conflict_visible env sc i rows \<longrightarrow> conflict_visible env sc i rows') \<and>
     (\<forall>r \<in> set rs. rollup_fits r \<and> row_visible (mv_bypass env) sc (hu_tenant_id r) (hu_team_id r) \<and>
        conflict_visible env sc (hu_rollup_id r) rows')"
proof (induction rs arbitrary: rows i)
  case Nil
  then show ?case by simp
next
  case (Cons r rs)
  then obtain rows1 where step: "upsert_rollup env sc r rows = Inr rows1"
    and rest: "upsert_rollups env sc rs rows1 = Inr rows'" by auto
  have "rollup_fits r \<and> row_visible (mv_bypass env) sc (hu_tenant_id r) (hu_team_id r)"
    using step by (auto elim: upsert_rollup_Inr)
  moreover note upsert_rollup_visible[OF step] Cons.IH[OF rest]
  ultimately show ?case by auto
qed

lemma upsert_rollups_other:
  "upsert_rollups env sc rs rows = Inr rows' \<Longrightarrow> x \<in> set rows' \<Longrightarrow> hu_rollup_id x \<notin> hu_rollup_id ` set rs \<Longrightarrow>
     x \<in> set rows"
proof (induction rs arbitrary: rows)
  case Nil
  then show ?case by simp
next
  case (Cons r rs)
  then obtain rows1 where step: "upsert_rollup env sc r rows = Inr rows1"
    and rest: "upsert_rollups env sc rs rows1 = Inr rows'" by auto
  have "x \<in> set rows1" using Cons rest by auto
  moreover have "hu_rollup_id x \<noteq> hu_rollup_id r" using Cons.prems(3) by auto
  ultimately show ?case using step by (auto elim!: upsert_rollup_Inr simp: upsert_row_def split: if_splits)
qed

lemma upsert_rollups_fixed:
  "upsert_rollups env sc rs rows = Inr rows' \<Longrightarrow> x \<in> set rows' \<Longrightarrow> fold upsert_row rs x = x"
proof (induction rs arbitrary: rows)
  case Nil
  then show ?case by simp
next
  case (Cons r rs)
  then obtain rows1 where step: "upsert_rollup env sc r rows = Inr rows1"
    and rest: "upsert_rollups env sc rs rows1 = Inr rows'" by auto
  have fixed: "fold upsert_row rs x = x" using Cons rest by auto
  have "fold upsert_row rs (upsert_row r x) = x"
  proof (cases "hu_rollup_id x = hu_rollup_id r")
    case same: True
    show ?thesis
    proof (cases "hu_rollup_id x \<in> hu_rollup_id ` set rs")
      case True
      with fixed same show ?thesis by (simp add: upsert_row_def fold_upsert_row_last)
    next
      case False
      have "x \<in> set rows1" by (rule upsert_rollups_other[OF rest Cons.prems(2) False])
      with step same have "upsert_row r x = x"
        by (auto elim!: upsert_rollup_Inr simp: upsert_row_def)
           (metis overwrite_counts_simps(5) imageI stored_rollup_def)
      with fixed show ?thesis by simp
    qed
  next
    case False
    with fixed show ?thesis by (simp add: upsert_row_def)
  qed
  then show ?case by simp
qed

lemma upsert_rollups_again:
  "(\<forall>r \<in> set rs. rollup_fits r \<and> row_visible (mv_bypass env) sc (hu_tenant_id r) (hu_team_id r) \<and>
      conflict_visible env sc (hu_rollup_id r) rows) \<Longrightarrow>
   upsert_rollups env sc rs rows = Inr (map (fold upsert_row rs) rows)"
proof (induction rs arbitrary: rows)
  case Nil
  then show ?case by (simp add: id_def)
next
  case (Cons r rs)
  have "upsert_rollup env sc r rows = Inr (map (upsert_row r) rows)"
    using Cons.prems by (auto simp: upsert_rollup_def conflict_visible_def upsert_row_def[abs_def])
  moreover have "\<forall>q \<in> set rs. conflict_visible env sc (hu_rollup_id q) (map (upsert_row r) rows)"
    using Cons.prems by (auto simp: conflict_visible_def find_map_upsert)
  ultimately show ?case using Cons by (simp add: comp_def)
qed

lemma upsert_rollups_idem:
  assumes "upsert_rollups env sc rs rows = Inr rows'"
  shows "upsert_rollups env sc rs rows' = Inr rows'"
proof -
  have "upsert_rollups env sc rs rows' = Inr (map (fold upsert_row rs) rows')"
    using upsert_rollups_visible[OF assms] by (intro upsert_rollups_again) blast
  moreover have "map (fold upsert_row rs) rows' = rows'"
    by (rule map_idI) (rule upsert_rollups_fixed[OF assms])
  ultimately show ?thesis by simp
qed

lemma facts_for_period_rollups [simp]:
  "facts_for_period env t a b (st\<lparr>md_rollups := rows\<rparr>) = facts_for_period env t a b st"
  by (simp add: facts_for_period_def)

lemma build_twice:
  "build_hourly_rollups env t a b st = (Inr rs, st') \<Longrightarrow>
   build_hourly_rollups env t a b st' = (Inr rs, st')"
  by (auto simp: build_hourly_rollups_def Let_def dest: upsert_rollups_idem split: list.splits sum.splits)

section \<open>What clients can rely on\<close>

text \<open>A fact of tenant acme, team core, half an hour into the Unix epoch; tests vary its fields.\<close>

definition sample_usage :: UsageRecord where
  "sample_usage =
     \<lparr>ur_usage_id = ''u1'', ur_tenant_id = ''acme'', ur_team_id = ''core'', ur_run_id = ''r1'',
      ur_ticket_key = ''T-1'', ur_role = Role_coder, ur_provider_id = ''anthropic'', ur_model_id = ''m'',
      ur_deployment_profile = Connected, ur_fallback_used = False, ur_input_tokens = 100,
      ur_output_tokens = 20, ur_cached_tokens = 0, ur_latency_ms = 5, ur_request_count = 1,
      ur_reservation_id = None, ur_estimated_cost_usd = 1, ur_actual_cost_usd = 2,
      ur_rate_card_id = ''rc'', ur_provider_request_id = Some ''p1'', ur_trace_id = ''t'',
      ur_span_id = ''s'', ur_started_at = 1700000000, ur_completed_at = 1800000000,
      ur_status = Succeeded\<rparr>"

definition sample_env :: MeteringEnv where
  "sample_env = \<lparr>mv_now = 9000000000, mv_uuid = ''id'', mv_bypass = False\<rparr>"

definition with_facts :: "UsageRecord list \<Rightarrow> MeteringDb" where
  "with_facts fs = empty_metering\<lparr>md_facts := fs\<rparr>"

text \<open>C24 (rollups account for every fact once). The rollups that a successful build returns are the
  ones of the reference, which sums the facts of the period per hour, tenant, team, role, provider,
  model and rate card: every usage id is in exactly one rollup, and requests, tokens and cost add up
  to those of the facts. The ledger kept in memory, given the same facts, returns the same rollups.\<close>

theorem rollups_account_for_facts:
  assumes "build_hourly_rollups env tenant_id period_start period_end st = (Inr rs, st')"
  defines "facts \<equiv> facts_for_period env tenant_id period_start period_end st"
  shows "rs = map snd (reference_rollups facts) \<and> accounts_for rs facts \<and>
    (filtered_records tenant_id period_start period_end m = facts \<longrightarrow>
       mem_build_hourly_rollups tenant_id period_start period_end m = rs)"
  using pg_metering.rollups_law[OF assms(1)] pg_metering.built_account[OF assms(1)]
  by (simp add: facts_def rollup_groups_eq mem_build_hourly_rollups_def)

lemma sample_build:
  "build_hourly_rollups sample_env ''acme'' 0 3600000000 (with_facts [sample_usage]) =
     (Inr (map snd (rollup_groups [sample_usage])),
      (with_facts [sample_usage])\<lparr>md_rollups := map snd (rollup_groups [sample_usage])\<rparr>)"
  by code_simp

theorem rollups_account_for_facts_witness:
  "accounts_for (map snd (rollup_groups [sample_usage]))
     (facts_for_period sample_env ''acme'' 0 3600000000 (with_facts [sample_usage]))"
  using rollups_account_for_facts[OF sample_build] by blast

text \<open>Rebuilding is idempotent. A build that succeeded, run again over the same facts, succeeds
  with the same rollups and leaves every stored rollup as it was; a failed build changes nothing.\<close>

theorem rebuild_idempotent:
  assumes "build_hourly_rollups env tenant_id period_start period_end st = (r, st')"
  shows "(case r of
       Inl e \<Rightarrow> st' = st
     | Inr rs \<Rightarrow> build_hourly_rollups env tenant_id period_start period_end st' = (Inr rs, st') \<and>
                md_facts st' = md_facts st)"
proof (cases r)
  case (Inl e)
  with assms show ?thesis by (auto dest: upsert_rollups_Inl_state)
next
  case (Inr rs)
  moreover from this have "md_facts st' = md_facts st"
    using assms by (auto simp: build_hourly_rollups_def Let_def split: list.splits sum.splits)
  ultimately show ?thesis using assms build_twice by auto
qed

theorem rebuild_idempotent_witness:
  "\<exists>rs st'. build_hourly_rollups sample_env ''acme'' 0 3600000000 (with_facts [sample_usage]) = (Inr rs, st') \<and>
     length rs = 1 \<and> build_hourly_rollups sample_env ''acme'' 0 3600000000 st' = (Inr rs, st')"
proof -
  have "length (map snd (rollup_groups [sample_usage])) = 1" by code_simp
  with rebuild_idempotent[OF sample_build] sample_build show ?thesis by auto
qed

text \<open>Reconciliation rests on the same facts: its metered total is the total of the rollups, and
  its usage ids are the ids the rollups hold.\<close>

theorem reconcile_agrees:
  assumes "reconcile_usage env tenant_id period_start period_end reported st = (Inr x, st')"
  shows "\<exists>rs. build_hourly_rollups env tenant_id period_start period_end st = (Inr rs, st') \<and>
     rn_metered_total_usd x = sum_list (map hu_total_actual_cost_usd rs) \<and>
     rn_drift_amount_usd x = reported - rn_metered_total_usd x \<and>
     mset (rn_usage_ids x) = mset (concat (map hu_usage_ids rs))"
  by (rule pg_metering.reconciled_total[OF assms]) blast

text \<open>The drift alert. A reconciliation that succeeds compares the provider's figure with the
  metered cost of that provider's facts, and counts each fact as matched or missing; the alert is
  raised exactly when the metered total is positive and the difference exceeds two percent of it.
  So a provider that bills for usage of which nothing was metered never raises it, although the
  plan asks for an alert on every drift above two percent.\<close>

theorem reconciliation_alert_exact:
  assumes "run_reconciliation env tenant_id period_start period_end provider reported mode st =
     (Inr (report, alerted), st')"
  defines "facts \<equiv> filter (\<lambda>f. ur_provider_id f = provider)
     (facts_for_period env tenant_id period_start period_end st)"
  defines "metered \<equiv> sum_list (map ur_actual_cost_usd facts)"
  shows "(alerted \<longleftrightarrow> 0 < metered \<and> metered < 50 * \<bar>reported - metered\<bar>) \<and>
    rp_metered_total_usd report = metered \<and> rp_drift_amount_usd report = reported - metered \<and>
    rp_matched_usage_count report + rp_missing_provider_request_ids report = length facts \<and>
    rp_unmatched_usage_count report = rp_missing_provider_request_ids report \<and>
    md_reports st' = md_reports st @ [stored_report (mv_now env) report]"
proof -
  have report: "report = reconciliation_report (mv_uuid env) tenant_id period_start period_end provider
        reported mode (facts_for_period env tenant_id period_start period_end st)"
    and alerted: "alerted = drift_alert report"
    and stored: "md_reports st' = md_reports st @ [stored_report (mv_now env) report]"
    using assms(1) by (auto simp: run_reconciliation_def Let_def split: if_splits)
  have percent: "rp_drift_percentage report = (if 0 < metered then (reported - metered) / metered * 100 else 0)"
    by (simp add: report reconciliation_report_def Let_def metered_def facts_def)
  have "\<bar>d / metered * 100\<bar> = 100 * \<bar>d\<bar> / metered" if "0 < metered" for d
    using that by (simp add: abs_mult abs_divide)
  from this[of "reported - metered"] have "alerted \<longleftrightarrow> 0 < metered \<and> metered < 50 * \<bar>reported - metered\<bar>"
    by (auto simp: alerted drift_alert_def percent less_divide_eq)
  moreover have "length (filter (\<lambda>f. ur_provider_request_id f \<noteq> None) facts) +
      length (filter (\<lambda>f. ur_provider_request_id f = None) facts) = length facts"
    using sum_length_filter_compl[of "\<lambda>f. ur_provider_request_id f \<noteq> None" facts] by simp
  ultimately show ?thesis
    using stored by (simp add: report reconciliation_report_def Let_def metered_def facts_def)
qed

lemma sample_reconciliation:
  "run_reconciliation sample_env ''acme'' 0 3600000000 ''anthropic'' 3 ''dry_run'' (with_facts [sample_usage]) =
     (let r = reconciliation_report ''id'' ''acme'' 0 3600000000 ''anthropic'' 3 ''dry_run'' [sample_usage]
      in (Inr (r, True), (with_facts [sample_usage])\<lparr>md_reports := [stored_report 9000000000 r]\<rparr>))"
  by code_simp

theorem reconciliation_alert_exact_witness:
  "(2::decimal) < 50 * \<bar>3 - 2\<bar>"
  using reconciliation_alert_exact[OF sample_reconciliation[unfolded Let_def]]
  by (simp add: sample_usage_def)

text \<open>A period with two teams. Under row level security the rollups are written in the scope of
  the team of the first fact, so a period with facts of two teams is refused as a whole and no
  rollup of it is stored.\<close>

theorem multi_team_rollup_refused:
  assumes "\<not> mv_bypass env"
    and "facts_for_period env tenant_id period_start period_end st = f # fs"
    and "g \<in> set fs" "ur_team_id g \<noteq> ur_team_id f" "ur_team_id f \<noteq> ''*''"
  shows "\<exists>e. build_hourly_rollups env tenant_id period_start period_end st = (Inl e, st)"
proof (cases "upsert_rollups env (Some (tenant_id, ur_team_id f)) (map snd (rollup_groups (f # fs))) (md_rollups st)")
  case (Inl e)
  with assms(2) show ?thesis by (simp add: build_hourly_rollups_def Let_def)
next
  case (Inr rows)
  define r where "r = summarize (rollup_key_of g) (facts_of_key (f # fs) (rollup_key_of g))"
  have "r \<in> set (map snd (rollup_groups (f # fs)))"
    using assms(3) by (auto simp: r_def rollup_groups_eq reference_rollups_def)
  then have "row_visible (mv_bypass env) (Some (tenant_id, ur_team_id f)) (hu_tenant_id r) (hu_team_id r)"
    using upsert_rollups_visible[OF Inr] by blast
  moreover have "hu_team_id r = ur_team_id g" by (simp add: r_def summarize_def rollup_key_of_def)
  ultimately have "row_visible (mv_bypass env) (Some (tenant_id, ur_team_id f)) (hu_tenant_id r) (ur_team_id g)"
    by simp
  from row_visible_team[OF assms(1) this] assms(4,5) show ?thesis by simp
qed

theorem multi_team_rollup_refused_witness:
  "\<exists>e. build_hourly_rollups sample_env ''acme'' 0 3600000000
         (with_facts [sample_usage, sample_usage\<lparr>ur_usage_id := ''u2'', ur_team_id := ''web''\<rparr>]) =
       (Inl e, with_facts [sample_usage, sample_usage\<lparr>ur_usage_id := ''u2'', ur_team_id := ''web''\<rparr>])"
proof (rule multi_team_rollup_refused)
  show "facts_for_period sample_env ''acme'' 0 3600000000
      (with_facts [sample_usage, sample_usage\<lparr>ur_usage_id := ''u2'', ur_team_id := ''web''\<rparr>]) =
    sample_usage # [sample_usage\<lparr>ur_usage_id := ''u2'', ur_team_id := ''web''\<rparr>]" by code_simp
  show "ur_team_id (sample_usage\<lparr>ur_usage_id := ''u2'', ur_team_id := ''web''\<rparr>) \<noteq> ur_team_id sample_usage"
    by code_simp
qed (code_simp | simp)+

section \<open>Limits of the ledger\<close>

text \<open>The identifier of a rollup leaves out the tenant, so two tenants whose teams, roles, providers,
  models and rate cards have the same names share one primary key: once the rollup of one is
  stored, the build of the other is refused under row level security.\<close>

lemma rollup_id_omits_tenant:
  "hu_rollup_id (new_rollup (b, t, team, role, p, m, c)) = hu_rollup_id (new_rollup (b, t', team, role, p, m, c))"
  by simp

theorem cross_tenant_rollup_refused:
  "let globex = sample_usage\<lparr>ur_usage_id := ''u2'', ur_tenant_id := ''globex''\<rparr>;
       st = snd (build_hourly_rollups sample_env ''acme'' 0 3600000000 (with_facts [sample_usage, globex]))
   in length (md_rollups st) = 1 \<and>
      build_hourly_rollups sample_env ''globex'' 0 3600000000 st = (Inl rls_violation, st)"
  by code_simp

text \<open>Both ends of a period are inclusive, so a fact that completed on the boundary of two periods
  is billed in both; and a rebuild of a period that starts inside an hour replaces the rollup of
  the whole hour by the part inside the period.\<close>

theorem boundary_fact_counted_twice:
  "let f = sample_usage\<lparr>ur_completed_at := 3600000000\<rparr>; st = with_facts [f]
   in facts_for_period sample_env ''acme'' 0 3600000000 st = [f] \<and>
      facts_for_period sample_env ''acme'' 3600000000 7200000000 st = [f]"
  by code_simp

theorem partial_rebuild_truncates_hour:
  "let late = sample_usage\<lparr>ur_usage_id := ''u2'', ur_completed_at := 3000000000\<rparr>;
       built = snd (build_hourly_rollups sample_env ''acme'' 0 3600000000 (with_facts [sample_usage, late]));
       rebuilt = snd (build_hourly_rollups sample_env ''acme'' 2000000000 3600000000 built)
   in map hu_total_actual_cost_usd (md_rollups built) = [4] \<and>
      map hu_total_actual_cost_usd (md_rollups rebuilt) = [2]"
  by code_simp

text \<open>A drift of ten thousand percent or more does not fit its column: the reconciliation raises,
  and neither report nor alert is written.\<close>

theorem huge_drift_raises:
  "run_reconciliation sample_env ''acme'' 0 3600000000 ''anthropic'' 300 ''dry_run'' (with_facts [sample_usage]) =
     (Inl data_error, with_facts [sample_usage])"
  by code_simp

text \<open>Activating a rate card leaves every other card active, so one model can have two active prices
  for the same time.\<close>

theorem activation_keeps_other_cards_active:
  "let data = \<lparr>rcc_provider = ''p'', rcc_model = ''m'', rcc_unit = ''per_1k_tokens'', rcc_rate_usd = 1,
               rcc_effective_from = 0, rcc_effective_to = None, rcc_created_by = ''ops'', rcc_metadata = []\<rparr>;
       run = (\<lambda>id s. snd (activate_rate_card (sample_env\<lparr>mv_uuid := id\<rparr>) id ''ops''
                       (snd (create_rate_card (sample_env\<lparr>mv_uuid := id\<rparr>) data s))))
   in map rc_rate_card_id (list_rate_cards None (Some ''active'') (run ''b'' (run ''a'' empty_metering))) =
      [''a'', ''b'']"
  by code_simp

text \<open>The two ledgers export the same facts as lines of JSON, when every fact is seen and the one on
  PostgreSQL holds them in the order of their completion.\<close>

theorem ledgers_export_the_same_lines:
  assumes "facts_for_period env (mx_tenant_id request) (mx_period_start request) (mx_period_end request) st =
     filtered_records (mx_tenant_id request) (mx_period_start request) (mx_period_end request) m"
    and "mx_format request = ''jsonl''"
  shows "mem_export cells dump dump_v2 request m = export_usage dump dump_v2 env request st"
  using assms by (simp add: mem_export_def export_usage_def Let_def)

lemma different_starts:
  "take n x \<noteq> take n y \<Longrightarrow> n \<le> length x \<Longrightarrow> n \<le> length y \<Longrightarrow> x @ a \<noteq> y @ b"
  by (metis take_append diff_is_0_eq take_0 append_Nil2)

lemma csv_headers_differ:
  "csv_row usage_columns @ a \<noteq> csv_row rollup_columns @ b"
  "csv_row (''schema_version'' # usage_columns) @ a \<noteq> csv_row (''schema_version'' # rollup_columns) @ b"
proof -
  have "take 7 (csv_row usage_columns) \<noteq> take 7 (csv_row rollup_columns)" "7 \<le> length (csv_row usage_columns)"
    "7 \<le> length (csv_row rollup_columns)" by code_simp+
  then show "csv_row usage_columns @ a \<noteq> csv_row rollup_columns @ b" by (rule different_starts)
  have "take 22 (csv_row (''schema_version'' # usage_columns)) \<noteq> take 22 (csv_row (''schema_version'' # rollup_columns))"
    "22 \<le> length (csv_row (''schema_version'' # usage_columns))"
    "22 \<le> length (csv_row (''schema_version'' # rollup_columns))" by code_simp+
  then show "csv_row (''schema_version'' # usage_columns) @ a \<noteq> csv_row (''schema_version'' # rollup_columns) @ b"
    by (rule different_starts)
qed

text \<open>As CSV they agree on no period, not even an empty one: one exports facts, the other rollups.\<close>

theorem csv_exports_differ:
  assumes "mx_format request = ''csv''"
  shows "mem_export cells dump dump_v2 request m \<noteq> export_usage dump dump_v2 env request st"
proof
  assume "mem_export cells dump dump_v2 request m = export_usage dump dump_v2 env request st"
  then obtain facts rollups where same: "mem_export_csv cells facts (mx_schema_version request) =
      export_rollups_csv (mx_schema_version request) rollups"
    using assms by (auto simp: mem_export_def export_usage_def Let_def)
  show False
  proof (cases "mx_schema_version request = ''v2''")
    case True
    with same have "csv_row (''schema_version'' # usage_columns) @ a = csv_row (''schema_version'' # rollup_columns) @ b" if
      "a = concat (map (\<lambda>r. csv_row (''v2'' # cells r)) facts)" "b = concat (map (\<lambda>r. csv_row (''v2'' # rollup_cells r)) rollups)" for a b
      using that by (simp add: mem_export_csv_def export_rollups_csv_def)
    from this[OF refl refl] csv_headers_differ(2) show False by blast
  next
    case False
    with same have "csv_row usage_columns @ a = csv_row rollup_columns @ b" if
      "a = concat (map (\<lambda>r. csv_row (cells r)) facts)" "b = concat (map (\<lambda>r. csv_row (rollup_cells r)) rollups)" for a b
      using that by (simp add: mem_export_csv_def export_rollups_csv_def)
    from this[OF refl refl] csv_headers_differ(1) show False by blast
  qed
qed

text \<open>Their lists of rate cards are the same, given the same cards.\<close>

theorem ledgers_list_rate_cards_alike:
  "map snd (mm_rate_cards m) = md_rate_cards st \<Longrightarrow> mem_list_rate_cards provider status m = list_rate_cards provider status st"
  by (simp add: mem_list_rate_cards_def list_rate_cards_def)

end
