(* ===== verification/Knowledge.thy ===== *)
theory Knowledge
  imports RuntimeModels Strings
begin

text \<open>
  Internal knowledge base: \<open>backend/knowledge/service.py\<close>, \<open>runtime.py\<close>, the handlers of \<open>api.py\<close>
  and the switch and probe of \<open>config.py\<close>. Documents are split into chunks by an ingestion job and
  found again by their words. SHA-256 and \<open>uuid4\<close> are arguments; the embedding the service computes
  and drops, gauges and histograms are left out; text is ASCII; scores are exact fractions. The
  framework refuses a chunk size outside 200..8000 and a limit outside 1..20 before a handler runs.
\<close>

section \<open>Models\<close>

record KnowledgeDocumentCreate =
  kc_tenant_id :: str
  kc_team_id :: str
  kc_repo_id :: "str option"
  kc_title :: str
  kc_source_type :: str
  kc_source_uri :: str
  kc_source_version :: "str option"
  kc_content_sha256 :: str
  kc_metadata :: "(str \<times> json) list"
  kc_created_by :: str

record KnowledgeDocumentUpdate =
  ku_title :: "str option"
  ku_source_version :: "str option"
  ku_active :: "bool option"
  ku_metadata :: "(str \<times> json) list option"

record KnowledgeDocument =
  kd_document_id :: str
  kd_tenant_id :: str
  kd_team_id :: str
  kd_repo_id :: "str option"
  kd_title :: str
  kd_source_type :: str
  kd_source_uri :: str
  kd_source_version :: "str option"
  kd_content_sha256 :: str
  kd_metadata :: "(str \<times> json) list"
  kd_active :: bool
  kd_created_by :: str
  kd_created_at :: datetime
  kd_updated_at :: datetime

record KnowledgeIngestRequest =
  ki_tenant_id :: str
  ki_team_id :: str
  ki_content :: str
  ki_chunk_size :: nat
  ki_embedding_model :: "str option"

record KnowledgeChunk =
  kk_chunk_id :: str
  kk_tenant_id :: str
  kk_team_id :: str
  kk_document_id :: str
  kk_chunk_index :: nat
  kk_source_type :: str
  kk_content :: str
  kk_content_sha256 :: str
  kk_embedding_model :: str
  kk_embedding_dims :: nat
  kk_created_at :: datetime

record KnowledgeIngestionJob =
  kj_job_id :: str
  kj_tenant_id :: str
  kj_team_id :: str
  kj_document_id :: str
  kj_source_uri :: str
  kj_status :: str
  kj_embedding_endpoint :: str
  kj_embedding_model :: str
  kj_total_chunks :: nat
  kj_processed_chunks :: nat
  kj_created_by :: str
  kj_created_at :: datetime
  kj_completed_at :: "datetime option"
  kj_error_message :: "str option"

record KnowledgeRetrievalRequest =
  kq_tenant_id :: str
  kq_team_id :: str
  kq_query :: str
  kq_role :: str
  kq_limit :: nat

record KnowledgeRetrievalHit =
  kh_chunk_id :: str
  kh_document_id :: str
  kh_tenant_id :: str
  kh_team_id :: str
  kh_source_type :: str
  kh_content :: str
  kh_distance :: decimal

record KnowledgeRetrievalResponse =
  kp_tenant_id :: str
  kp_team_id :: str
  kp_role :: str
  kp_hits :: "KnowledgeRetrievalHit list"

record KnowledgeRepository =
  kr_documents :: "(str \<times> KnowledgeDocument) list"
  kr_jobs :: "(str \<times> KnowledgeIngestionJob) list"
  kr_chunks :: "(str \<times> KnowledgeChunk) list"
  kr_pending_ingestions :: "(str \<times> (str \<times> KnowledgeIngestRequest)) list"

record InternalRagSettings =
  ig_enabled :: bool
  ig_database_url :: "str option"
  ig_embedding_endpoint :: str
  ig_embedding_model :: str

text \<open>What one call draws from outside: the clock, the identifier of a new document or job, those of
  the chunks by their index, the hash function, and the settings of the embedding client.\<close>

record KnowledgeEnv =
  kv_now :: datetime
  kv_uuid :: str
  kv_chunk_uuid :: "nat \<Rightarrow> str"
  kv_sha256 :: "str \<Rightarrow> str"
  kv_settings :: InternalRagSettings

definition empty_knowledge :: KnowledgeRepository where
  "empty_knowledge = \<lparr>kr_documents = [], kr_jobs = [], kr_chunks = [], kr_pending_ingestions = []\<rparr>"

section \<open>Words and chunks\<close>

text \<open>\<open>s.split()\<close>: the maximal runs of characters that are not white space.\<close>

fun split_spaces :: "str \<Rightarrow> str list" where
  "split_spaces [] = [[]]"
| "split_spaces (x # s) =
     (case split_spaces s of
        [] \<Rightarrow> [[]]
      | part # parts \<Rightarrow> if whitespace x then [] # part # parts else (x # part) # parts)"

definition words_of :: "str \<Rightarrow> str list" where
  "words_of s = filter (\<lambda>w. w \<noteq> []) (split_spaces s)"

definition strip_chars :: "str \<Rightarrow> str \<Rightarrow> str" where
  "strip_chars cs s = rev (dropWhile (\<lambda>c. c \<in> set cs) (rev (dropWhile (\<lambda>c. c \<in> set cs) s)))"

definition query_terms_of :: "str \<Rightarrow> str list" where
  "query_terms_of query = remdups (map str_lower (words_of query))"

definition lexical_score :: "str list \<Rightarrow> str \<Rightarrow> decimal" where
  "lexical_score query_terms content =
     (let content_terms = map (\<lambda>t. strip_chars ''.,:;!?()[]{}'' (str_lower t)) (words_of content)
      in if query_terms = [] \<or> content_terms = [] then 0
         else min (of_nat (length (filter (\<lambda>t. t \<in> set content_terms) query_terms)) /
                   of_nat (length query_terms)) 1)"

text \<open>\<open>[s[i : i + n] for i in range(0, len(s), n)]\<close>.\<close>

definition chunk_text :: "str \<Rightarrow> nat \<Rightarrow> str list" where
  "chunk_text content chunk_size =
     (let s = str_strip content
      in if s = [] then []
         else map (\<lambda>k. take chunk_size (drop (k * chunk_size) s))
                [0..<(length s + chunk_size - 1) div chunk_size])"

section \<open>The repository\<close>

definition create_document ::
  "KnowledgeEnv \<Rightarrow> KnowledgeDocumentCreate \<Rightarrow> KnowledgeRepository \<Rightarrow> KnowledgeDocument \<times> KnowledgeRepository" where
  "create_document env payload repo =
     (let d = \<lparr>kd_document_id = kv_uuid env, kd_tenant_id = kc_tenant_id payload,
               kd_team_id = kc_team_id payload, kd_repo_id = kc_repo_id payload,
               kd_title = kc_title payload, kd_source_type = kc_source_type payload,
               kd_source_uri = kc_source_uri payload, kd_source_version = kc_source_version payload,
               kd_content_sha256 = kc_content_sha256 payload, kd_metadata = kc_metadata payload,
               kd_active = True, kd_created_by = kc_created_by payload,
               kd_created_at = kv_now env, kd_updated_at = kv_now env\<rparr>
      in (d, repo\<lparr>kr_documents := dict_set (kd_document_id d) d (kr_documents repo)\<rparr>))"

definition list_documents :: "str \<Rightarrow> str \<Rightarrow> KnowledgeRepository \<Rightarrow> KnowledgeDocument list" where
  "list_documents tenant_id team_id repo =
     filter (\<lambda>d. kd_tenant_id d = tenant_id \<and> kd_team_id d = team_id) (map snd (kr_documents repo))"

definition apply_update :: "datetime \<Rightarrow> KnowledgeDocumentUpdate \<Rightarrow> KnowledgeDocument \<Rightarrow> KnowledgeDocument" where
  "apply_update now payload d =
     d\<lparr>kd_title := (case ku_title payload of None \<Rightarrow> kd_title d | Some t \<Rightarrow> t),
       kd_source_version := (case ku_source_version payload of None \<Rightarrow> kd_source_version d | Some v \<Rightarrow> Some v),
       kd_active := (case ku_active payload of None \<Rightarrow> kd_active d | Some a \<Rightarrow> a),
       kd_metadata := (case ku_metadata payload of None \<Rightarrow> kd_metadata d | Some m \<Rightarrow> m),
       kd_updated_at := now\<rparr>"

definition update_document ::
  "KnowledgeEnv \<Rightarrow> str \<Rightarrow> KnowledgeDocumentUpdate \<Rightarrow> KnowledgeRepository \<Rightarrow>
     KnowledgeDocument option \<times> KnowledgeRepository" where
  "update_document env document_id payload repo =
     (case dict_get (kr_documents repo) document_id of
        None \<Rightarrow> (None, repo)
      | Some d \<Rightarrow> let d' = apply_update (kv_now env) payload d
                  in (Some d', repo\<lparr>kr_documents := dict_set document_id d' (kr_documents repo)\<rparr>))"

definition drop_chunks_of :: "str \<Rightarrow> (str \<times> KnowledgeChunk) list \<Rightarrow> (str \<times> KnowledgeChunk) list" where
  "drop_chunks_of document_id cs = filter (\<lambda>p. kk_document_id (snd p) \<noteq> document_id) cs"

definition delete_document :: "str \<Rightarrow> KnowledgeRepository \<Rightarrow> bool \<times> KnowledgeRepository" where
  "delete_document document_id repo =
     (if \<not> dict_has (kr_documents repo) document_id then (False, repo)
      else (True, repo\<lparr>kr_documents := dict_pop document_id (kr_documents repo),
                       kr_chunks := drop_chunks_of document_id (kr_chunks repo)\<rparr>))"

definition save_ingestion ::
  "KnowledgeIngestionJob \<Rightarrow> KnowledgeChunk list \<Rightarrow> KnowledgeRepository \<Rightarrow> KnowledgeRepository" where
  "save_ingestion job chunks repo =
     repo\<lparr>kr_jobs := dict_set (kj_job_id job) job (kr_jobs repo),
          kr_pending_ingestions := dict_pop (kj_job_id job) (kr_pending_ingestions repo),
          kr_chunks := fold (\<lambda>c d. dict_set (kk_chunk_id c) c d) chunks
                         (drop_chunks_of (kj_document_id job) (kr_chunks repo))\<rparr>"

definition search_chunks :: "str \<Rightarrow> str \<Rightarrow> str \<Rightarrow> nat \<Rightarrow> KnowledgeRepository \<Rightarrow> KnowledgeRetrievalHit list" where
  "search_chunks tenant_id team_id query limit repo =
     (let terms = query_terms_of query;
          mine = filter (\<lambda>c. kk_tenant_id c = tenant_id \<and> kk_team_id c = team_id) (map snd (kr_chunks repo));
          found = filter (\<lambda>c. lexical_score terms (kk_content c) > 0) mine;
          hit = (\<lambda>c. \<lparr>kh_chunk_id = kk_chunk_id c, kh_document_id = kk_document_id c,
                      kh_tenant_id = kk_tenant_id c, kh_team_id = kk_team_id c,
                      kh_source_type = kk_source_type c, kh_content = kk_content c,
                      kh_distance = 1 - lexical_score terms (kk_content c)\<rparr>)
      in take limit (sort_key kh_distance (map hit found)))"

definition save_pending_ingestion ::
  "KnowledgeIngestionJob \<Rightarrow> str \<Rightarrow> KnowledgeIngestRequest \<Rightarrow> KnowledgeRepository \<Rightarrow> KnowledgeRepository" where
  "save_pending_ingestion job document_id request repo =
     repo\<lparr>kr_jobs := dict_set (kj_job_id job) job (kr_jobs repo),
          kr_pending_ingestions := dict_set (kj_job_id job) (document_id, request) (kr_pending_ingestions repo)\<rparr>"

definition get_pending_ingestion ::
  "str \<Rightarrow> KnowledgeRepository \<Rightarrow> (KnowledgeDocument \<times> KnowledgeIngestRequest) option" where
  "get_pending_ingestion job_id repo =
     (case dict_get (kr_pending_ingestions repo) job_id of
        None \<Rightarrow> None
      | Some (document_id, request) \<Rightarrow>
          (case dict_get (kr_documents repo) document_id of None \<Rightarrow> None | Some d \<Rightarrow> Some (d, request)))"

section \<open>Ingestion\<close>

definition request_model :: "KnowledgeEnv \<Rightarrow> KnowledgeIngestRequest \<Rightarrow> str" where
  "request_model env request =
     (case ki_embedding_model request of
        None \<Rightarrow> ig_embedding_model (kv_settings env)
      | Some m \<Rightarrow> if m = [] then ig_embedding_model (kv_settings env) else m)"

definition build_chunk :: "KnowledgeEnv \<Rightarrow> KnowledgeDocument \<Rightarrow> str \<Rightarrow> nat \<times> str \<Rightarrow> KnowledgeChunk" where
  "build_chunk env d model p = (case p of (index, content) \<Rightarrow>
     \<lparr>kk_chunk_id = kv_chunk_uuid env index, kk_tenant_id = kd_tenant_id d, kk_team_id = kd_team_id d,
      kk_document_id = kd_document_id d, kk_chunk_index = index, kk_source_type = kd_source_type d,
      kk_content = content, kk_content_sha256 = kv_sha256 env content, kk_embedding_model = model,
      kk_embedding_dims = 1536, kk_created_at = kv_now env\<rparr>)"

definition enqueue ::
  "KnowledgeEnv \<Rightarrow> KnowledgeDocument \<Rightarrow> KnowledgeIngestRequest \<Rightarrow> KnowledgeRepository \<Rightarrow>
     KnowledgeIngestionJob \<times> KnowledgeRepository" where
  "enqueue env d request repo =
     (let job = \<lparr>kj_job_id = kv_uuid env, kj_tenant_id = ki_tenant_id request,
                 kj_team_id = ki_team_id request, kj_document_id = kd_document_id d,
                 kj_source_uri = kd_source_uri d, kj_status = ''queued'',
                 kj_embedding_endpoint = ig_embedding_endpoint (kv_settings env),
                 kj_embedding_model = request_model env request, kj_total_chunks = 0,
                 kj_processed_chunks = 0, kj_created_by = kd_created_by d,
                 kj_created_at = kv_now env, kj_completed_at = None, kj_error_message = None\<rparr>
      in (job, save_pending_ingestion job (kd_document_id d) request repo))"

definition process_job :: "KnowledgeEnv \<Rightarrow> str \<Rightarrow> (KnowledgeRepository, KnowledgeIngestionJob) operation" where
  "process_job env job_id repo =
     (case dict_get (kr_jobs repo) job_id of
        None \<Rightarrow> (Inl (KeyError (''Knowledge ingestion job `'' @ job_id @ ''` was not found.'')), repo)
      | Some existing \<Rightarrow>
          if kj_status existing = ''completed'' then (Inr existing, repo)
          else case get_pending_ingestion job_id repo of
              None \<Rightarrow>
                let failed = existing\<lparr>kj_status := ''failed'', kj_error_message := Some ''pending_ingestion_missing''\<rparr>
                in (Inr failed, repo\<lparr>kr_jobs := dict_set job_id failed (kr_jobs repo)\<rparr>)
            | Some (d, request) \<Rightarrow>
                let chunks = map (build_chunk env d (request_model env request))
                               (enumerate_from 0 (chunk_text (ki_content request) (ki_chunk_size request)));
                    running = existing\<lparr>kj_status := ''running'', kj_total_chunks := length chunks,
                                       kj_processed_chunks := 0\<rparr>;
                    completed = running\<lparr>kj_status := ''completed'', kj_processed_chunks := length chunks,
                                        kj_completed_at := Some (kv_now env)\<rparr>
                in (Inr completed,
                    save_ingestion completed chunks
                      (repo\<lparr>kr_jobs := dict_set job_id running (kr_jobs repo)\<rparr>)))"

record KnowledgeIngestResponse =
  kx_job :: KnowledgeIngestionJob
  kx_chunks :: "KnowledgeChunk list"

definition ingest ::
  "KnowledgeEnv \<Rightarrow> KnowledgeDocument \<Rightarrow> KnowledgeIngestRequest \<Rightarrow>
     (KnowledgeRepository, KnowledgeIngestResponse) operation" where
  "ingest env d request repo =
     (case enqueue env d request repo of (job, repo1) \<Rightarrow>
        op_bind (process_job env (kj_job_id job))
          (\<lambda>processed s. (Inr \<lparr>kx_job = processed,
             kx_chunks = filter (\<lambda>c. kk_document_id c = kd_document_id d) (map snd (kr_chunks s))\<rparr>, s)) repo1)"

section \<open>Retrieval\<close>

definition ROLE_WHITELIST :: "str list" where
  "ROLE_WHITELIST = [''planner'', ''reviewer'']"

definition retrieve :: "KnowledgeRetrievalRequest \<Rightarrow> KnowledgeRepository \<Rightarrow> KnowledgeRetrievalResponse result" where
  "retrieve request repo =
     (if kq_role request \<notin> set ROLE_WHITELIST
      then Inl (OtherError (''knowledge_retrieval_denied:'' @ kq_role request))
      else Inr \<lparr>kp_tenant_id = kq_tenant_id request, kp_team_id = kq_team_id request,
                kp_role = kq_role request,
                kp_hits = search_chunks (kq_tenant_id request) (kq_team_id request) (kq_query request)
                            (kq_limit request) repo\<rparr>)"

definition excerpt_of :: "nat \<Rightarrow> KnowledgeRetrievalHit \<Rightarrow> KnowledgeExcerptSummary" where
  "excerpt_of max_excerpt_chars h =
     \<lparr>ke_chunk_id = kh_chunk_id h, ke_document_id = kh_document_id h, ke_source_type = kh_source_type h,
      ke_distance = kh_distance h, ke_excerpt = take max_excerpt_chars (kh_content h)\<rparr>"

definition persist_retrieval_summaries ::
  "nat \<Rightarrow> KnowledgeRetrievalResponse \<Rightarrow> TicketRunState \<Rightarrow> TicketRunState" where
  "persist_retrieval_summaries max_excerpt_chars response run =
     run\<lparr>rs_knowledge_excerpts := rs_knowledge_excerpts run @ map (excerpt_of max_excerpt_chars) (kp_hits response)\<rparr>"

section \<open>The administration handlers\<close>

text \<open>\<open>X-Role\<close> defaults to \<open>admin\<close> when the header is missing.\<close>

definition role_header :: "str option \<Rightarrow> str" where
  "role_header x_role = (case x_role of None \<Rightarrow> ''admin'' | Some r \<Rightarrow> r)"

definition require_admin ::
  "str option \<Rightarrow> (KnowledgeRepository, 'a) operation \<Rightarrow> (KnowledgeRepository, 'a) operation" where
  "require_admin x_role m repo =
     (if role_header x_role \<notin> {''admin'', ''super_admin'', ''super-admin''}
      then (Inl (HTTPException 403 ''admin_role_required''), repo) else m repo)"

definition handle_list_documents ::
  "str option \<Rightarrow> str \<Rightarrow> str \<Rightarrow> (KnowledgeRepository, KnowledgeDocument list) operation" where
  "handle_list_documents x_role tenant_id team_id =
     require_admin x_role (\<lambda>repo. (Inr (list_documents tenant_id team_id repo), repo))"

definition handle_create_document ::
  "KnowledgeEnv \<Rightarrow> str option \<Rightarrow> KnowledgeDocumentCreate \<Rightarrow> (KnowledgeRepository, KnowledgeDocument) operation" where
  "handle_create_document env x_role body =
     require_admin x_role (\<lambda>repo. case create_document env body repo of (d, repo') \<Rightarrow> (Inr d, repo'))"

definition document_not_found :: exn where
  "document_not_found = HTTPException 404 ''knowledge_document_not_found''"

definition handle_update_document ::
  "KnowledgeEnv \<Rightarrow> str option \<Rightarrow> str \<Rightarrow> KnowledgeDocumentUpdate \<Rightarrow>
     (KnowledgeRepository, KnowledgeDocument) operation" where
  "handle_update_document env x_role document_id body =
     require_admin x_role (\<lambda>repo. case update_document env document_id body repo of
        (None, repo') \<Rightarrow> (Inl document_not_found, repo') | (Some d, repo') \<Rightarrow> (Inr d, repo'))"

definition handle_delete_document :: "str option \<Rightarrow> str \<Rightarrow> (KnowledgeRepository, unit) operation" where
  "handle_delete_document x_role document_id =
     require_admin x_role (\<lambda>repo. case delete_document document_id repo of
        (deleted, repo') \<Rightarrow> (if deleted then Inr () else Inl document_not_found, repo'))"

text \<open>The check both ingestion handlers make before they call the service.\<close>

definition for_own_document ::
  "str option \<Rightarrow> str \<Rightarrow> KnowledgeIngestRequest \<Rightarrow> (KnowledgeDocument \<Rightarrow> (KnowledgeRepository, 'a) operation) \<Rightarrow>
     (KnowledgeRepository, 'a) operation" where
  "for_own_document x_role document_id body m =
     require_admin x_role (\<lambda>repo. case dict_get (kr_documents repo) document_id of
        None \<Rightarrow> (Inl document_not_found, repo)
      | Some d \<Rightarrow>
          if kd_tenant_id d \<noteq> ki_tenant_id body \<or> kd_team_id d \<noteq> ki_team_id body
          then (Inl (HTTPException 403 ''knowledge_document_tenant_mismatch''), repo) else m d repo)"

definition handle_ingest_document ::
  "KnowledgeEnv \<Rightarrow> str option \<Rightarrow> str \<Rightarrow> KnowledgeIngestRequest \<Rightarrow>
     (KnowledgeRepository, KnowledgeIngestResponse) operation" where
  "handle_ingest_document env x_role document_id body =
     for_own_document x_role document_id body (\<lambda>d. ingest env d body)"

definition handle_enqueue_ingestion_job ::
  "KnowledgeEnv \<Rightarrow> str option \<Rightarrow> str \<Rightarrow> KnowledgeIngestRequest \<Rightarrow>
     (KnowledgeRepository, KnowledgeIngestionJob) operation" where
  "handle_enqueue_ingestion_job env x_role document_id body =
     for_own_document x_role document_id body
       (\<lambda>d repo. case enqueue env d body repo of (job, repo') \<Rightarrow> (Inr job, repo'))"

definition job_not_found :: exn where
  "job_not_found = HTTPException 404 ''knowledge_ingestion_job_not_found''"

definition handle_get_ingestion_job ::
  "str option \<Rightarrow> str \<Rightarrow> (KnowledgeRepository, KnowledgeIngestionJob) operation" where
  "handle_get_ingestion_job x_role job_id =
     require_admin x_role (\<lambda>repo. (case dict_get (kr_jobs repo) job_id of
        None \<Rightarrow> Inl job_not_found | Some job \<Rightarrow> Inr job, repo))"

definition handle_dry_run_search ::
  "str option \<Rightarrow> KnowledgeRetrievalRequest \<Rightarrow> (KnowledgeRepository, KnowledgeRetrievalResponse) operation" where
  "handle_dry_run_search x_role body =
     require_admin x_role (\<lambda>repo. (case retrieve body repo of
        Inl (OtherError detail) \<Rightarrow> Inl (HTTPException 403 detail) | r \<Rightarrow> r, repo))"

definition handle_run_ingestion_job ::
  "KnowledgeEnv \<Rightarrow> str option \<Rightarrow> str \<Rightarrow> (KnowledgeRepository, KnowledgeIngestionJob) operation" where
  "handle_run_ingestion_job env x_role job_id =
     require_admin x_role (\<lambda>repo. case process_job env job_id repo of
        (Inl (KeyError _), repo') \<Rightarrow> (Inl job_not_found, repo') | r \<Rightarrow> r)"

section \<open>The switch and the probe\<close>

definition rag_settings_from_env :: "(str \<Rightarrow> str option) \<Rightarrow> InternalRagSettings" where
  "rag_settings_from_env getenv =
     (let raw = str_lower (str_strip (case getenv ''INTERNAL_RAG_ENABLED'' of None \<Rightarrow> ''false'' | Some v \<Rightarrow> v));
          given = (\<lambda>key default. case getenv key of None \<Rightarrow> default | Some v \<Rightarrow> v)
      in \<lparr>ig_enabled = raw \<in> {''1'', ''true'', ''yes'', ''on''},
          ig_database_url = (case getenv ''DATABASE_URL'' of
              Some u \<Rightarrow> if u = [] then getenv ''BACKEND_DATABASE_URL'' else Some u
            | None \<Rightarrow> getenv ''BACKEND_DATABASE_URL''),
          ig_embedding_endpoint = given ''INTERNAL_RAG_EMBEDDING_ENDPOINT''
              ''http://embedding-service.dev-squad.svc.cluster.local/embed'',
          ig_embedding_model = given ''INTERNAL_RAG_EMBEDDING_MODEL'' ''self-hosted-embedding-v1''\<rparr>)"

record InternalRagProbeResult =
  ip_enabled :: bool
  ip_ready :: bool
  ip_reason :: "str option"

text \<open>\<open>installed\<close> is what the query on \<open>pg_extension\<close> returns, or an exception of the driver.\<close>

definition probe_pgvector_extension ::
  "(str \<Rightarrow> bool result) \<Rightarrow> InternalRagSettings \<Rightarrow> InternalRagProbeResult" where
  "probe_pgvector_extension installed settings =
     (let not_ready = (\<lambda>reason. \<lparr>ip_enabled = True, ip_ready = False, ip_reason = Some reason\<rparr>)
      in if \<not> ig_enabled settings then \<lparr>ip_enabled = False, ip_ready = True, ip_reason = None\<rparr>
         else case ig_database_url settings of
             None \<Rightarrow> not_ready ''internal_rag_database_url_missing''
           | Some url \<Rightarrow>
               if url = [] then not_ready ''internal_rag_database_url_missing''
               else case installed url of
                   Inl _ \<Rightarrow> not_ready ''internal_rag_pgvector_probe_failed''
                 | Inr False \<Rightarrow> not_ready ''internal_rag_pgvector_missing''
                 | Inr True \<Rightarrow> \<lparr>ip_enabled = True, ip_ready = True, ip_reason = None\<rparr>)"

text \<open>The job of \<open>backend/worker.py\<close>: the service comes from the context of the worker, or is missing there.\<close>

definition process_knowledge_ingestion ::
  "KnowledgeEnv option \<Rightarrow> str \<Rightarrow> (KnowledgeRepository, KnowledgeIngestionJob) operation" where
  "process_knowledge_ingestion service job_id repo =
     (case service of
        None \<Rightarrow> (Inl (RuntimeError ''knowledge_ingestion_service_missing''), repo)
      | Some env \<Rightarrow> process_job env job_id repo)"

end
