(* ===== verification/KnowledgeCorrect.thy ===== *)
theory KnowledgeCorrect
  imports Knowledge
begin

text \<open>
  Properties of the knowledge base: chunks put together again give the text, the repository keeps
  every chunk with a document of its own tenant over every history of calls, retrieval returns only
  such chunks, and an ingestion replaces exactly the chunks of its document.
\<close>

section \<open>Chunks of a text\<close>

lemma concat_blocks: "concat (map (\<lambda>k. take n (drop (k * n) s)) [0..<m]) = take (m * n) s"
proof (induction m)
  case 0
  then show ?case by simp
next
  case (Suc m)
  then show ?case by (simp add: take_add add.commute[of n])
qed

lemma blocks_cover:
  fixes n l :: nat
  assumes "0 < n"
  shows "l \<le> (l + n - Suc 0) div n * n"
proof -
  have "(l + n - Suc 0) mod n < n" using assms by simp
  moreover have "(l + n - Suc 0) div n * n + (l + n - Suc 0) mod n = l + n - Suc 0" by (rule div_mult_mod_eq)
  ultimately show ?thesis using assms by linarith
qed

lemma concat_chunk_text: "0 < n \<Longrightarrow> concat (chunk_text s n) = str_strip s"
  using blocks_cover[of n "length (str_strip s)"] by (simp add: chunk_text_def Let_def concat_blocks)

text \<open>Splitting loses nothing. For a positive chunk size the chunks of a text, put together, are
  the text without the white space around it; no chunk is empty or longer than the chunk size.\<close>

theorem chunks_roundtrip:
  assumes "0 < n"
  shows "concat (chunk_text s n) = str_strip s \<and> (\<forall>c \<in> set (chunk_text s n). c \<noteq> [] \<and> length c \<le> n)"
proof
  show "concat (chunk_text s n) = str_strip s"
    by (rule concat_chunk_text[OF assms])
next
  let ?s = "str_strip s"
  have "k * n < length ?s" if "k < (length ?s + n - 1) div n" for k
  proof -
    from that have "k + 1 \<le> (length ?s + n - 1) div n" by simp
    then have "(k + 1) * n \<le> (length ?s + n - 1) div n * n" by (rule mult_le_mono1)
    also have "\<dots> \<le> length ?s + n - 1" by (rule div_times_less_eq_dividend)
    finally show ?thesis using assms by simp
  qed
  with assms show "\<forall>c \<in> set (chunk_text s n). c \<noteq> [] \<and> length c \<le> n"
    by (auto simp: chunk_text_def Let_def) (metis One_nat_def linorder_not_less)
qed

theorem chunks_roundtrip_witness: "concat (chunk_text '' abcde '' 2) = ''abcde''"
  using chunks_roundtrip[where n = 2 and s = "'' abcde ''"] by (simp add: str_strip_def whitespace_def)

section \<open>The state of the repository\<close>

definition document_of :: "KnowledgeRepository \<Rightarrow> KnowledgeChunk \<Rightarrow> bool" where
  "document_of repo c \<longleftrightarrow>
     (\<exists>d. dict_get (kr_documents repo) (kk_document_id c) = Some d \<and>
          kd_tenant_id d = kk_tenant_id c \<and> kd_team_id d = kk_team_id c)"

definition job_ok :: "KnowledgeIngestionJob \<Rightarrow> bool" where
  "job_ok job \<longleftrightarrow>
     kj_status job \<in> {''queued'', ''failed'', ''completed''} \<and>
     (kj_status job = ''completed'' \<longleftrightarrow> kj_completed_at job \<noteq> None) \<and>
     (kj_status job = ''completed'' \<longrightarrow> kj_processed_chunks job = kj_total_chunks job)"

definition knowledge_ok :: "KnowledgeRepository \<Rightarrow> bool" where
  "knowledge_ok repo \<longleftrightarrow>
     (\<forall>i d. dict_get (kr_documents repo) i = Some d \<longrightarrow> kd_document_id d = i) \<and>
     (\<forall>c \<in> snd ` set (kr_chunks repo). document_of repo c) \<and>
     (\<forall>i job. dict_get (kr_jobs repo) i = Some job \<longrightarrow> kj_job_id job = i \<and> job_ok job) \<and>
     (\<forall>i doc request. dict_get (kr_pending_ingestions repo) i = Some (doc, request) \<longrightarrow>
        (\<exists>job. dict_get (kr_jobs repo) i = Some job \<and> kj_document_id job = doc \<and> kj_status job \<noteq> ''completed''))"

lemma knowledge_okD:
  assumes "knowledge_ok repo"
  shows "dict_get (kr_documents repo) i = Some d \<Longrightarrow> kd_document_id d = i"
    and "c \<in> snd ` set (kr_chunks repo) \<Longrightarrow> document_of repo c"
    and "dict_get (kr_jobs repo) i = Some job \<Longrightarrow> kj_job_id job = i \<and> job_ok job"
    and "dict_get (kr_pending_ingestions repo) i = Some (doc, request) \<Longrightarrow>
      \<exists>job. dict_get (kr_jobs repo) i = Some job \<and> kj_document_id job = doc \<and> kj_status job \<noteq> ''completed''"
  using assms unfolding knowledge_ok_def by blast+

lemma set_dict_set: "snd ` set (dict_set k v d) \<subseteq> insert v (snd ` set d)"
proof (induction d)
  case Nil
  then show ?case by simp
next
  case (Cons p d)
  then show ?case by (cases p) auto
qed

lemma set_fold_chunks:
  "snd ` set (fold (\<lambda>c d. dict_set (kk_chunk_id c) c d) cs d) \<subseteq> set cs \<union> snd ` set d"
proof (induction cs arbitrary: d)
  case Nil
  then show ?case by simp
next
  case (Cons c cs)
  show ?case using Cons[of "dict_set (kk_chunk_id c) c d"] set_dict_set[of "kk_chunk_id c" c d] by auto
qed

lemma build_chunk_simps [simp]:
  "kk_document_id (build_chunk env d m p) = kd_document_id d"
  "kk_tenant_id (build_chunk env d m p) = kd_tenant_id d"
  "kk_team_id (build_chunk env d m p) = kd_team_id d"
  "kk_chunk_id (build_chunk env d m p) = kv_chunk_uuid env (fst p)"
  "kk_content (build_chunk env d m p) = snd p"
  by (cases p; simp add: build_chunk_def)+

lemma knowledge_ok_empty: "knowledge_ok empty_knowledge"
  by (simp add: knowledge_ok_def empty_knowledge_def)

lemma ok_create:
  assumes ok: "knowledge_ok repo" and fresh: "dict_get (kr_documents repo) (kv_uuid env) = None"
  shows "knowledge_ok (snd (create_document env payload repo))"
  using knowledge_okD[OF ok] fresh
  unfolding knowledge_ok_def create_document_def Let_def document_of_def by auto fastforce+

lemma ok_update:
  assumes ok: "knowledge_ok repo"
  shows "knowledge_ok (snd (update_document env i payload repo))"
proof (cases "dict_get (kr_documents repo) i")
  case None
  with ok show ?thesis by (simp add: update_document_def)
next
  case (Some d)
  have "document_of (repo\<lparr>kr_documents := dict_set i (apply_update (kv_now env) payload d) (kr_documents repo)\<rparr>) c"
    if "document_of repo c" for c
    using that Some by (auto simp: document_of_def apply_update_def)
  moreover have "kd_document_id (apply_update (kv_now env) payload d) = i"
    using knowledge_okD(1)[OF ok Some] by (simp add: apply_update_def)
  ultimately show ?thesis
    using knowledge_okD[OF ok] Some
    unfolding knowledge_ok_def update_document_def Let_def by auto
qed

lemma ok_delete:
  assumes ok: "knowledge_ok repo"
  shows "knowledge_ok (snd (delete_document i repo))"
proof -
  have "document_of (snd (delete_document i repo)) c"
    if "c \<in> snd ` set (kr_chunks (snd (delete_document i repo)))" for c
    using that knowledge_okD(2)[OF ok]
    by (auto simp: delete_document_def drop_chunks_of_def document_of_def split: if_splits)
  then show ?thesis
    using knowledge_okD[OF ok] unfolding knowledge_ok_def
    by (auto simp: delete_document_def split: if_splits)
qed

lemma ok_enqueue:
  assumes ok: "knowledge_ok repo"
  shows "knowledge_ok (snd (enqueue env d request repo))"
proof -
  let ?job = "fst (enqueue env d request repo)"
  have job: "job_ok ?job" "kj_job_id ?job = kv_uuid env" "kj_document_id ?job = kd_document_id d"
      "kj_status ?job \<noteq> ''completed''"
    by (simp_all add: enqueue_def job_ok_def Let_def)
  have "snd (enqueue env d request repo) = save_pending_ingestion ?job (kd_document_id d) request repo"
    by (simp add: enqueue_def Let_def)
  with job knowledge_okD[OF ok] show ?thesis
    unfolding knowledge_ok_def by (auto simp: save_pending_ingestion_def document_of_def)
qed

lemma process_job_cases:
  obtains (missing) "dict_get (kr_jobs repo) job_id = None" "\<exists>e. process_job env job_id repo = (Inl (KeyError e), repo)"
  | (finished) job where "dict_get (kr_jobs repo) job_id = Some job" "kj_status job = ''completed''"
      "process_job env job_id repo = (Inr job, repo)"
  | (failed) job failed where "dict_get (kr_jobs repo) job_id = Some job" "kj_status job \<noteq> ''completed''"
      "get_pending_ingestion job_id repo = None"
      "failed = job\<lparr>kj_status := ''failed'', kj_error_message := Some ''pending_ingestion_missing''\<rparr>"
      "process_job env job_id repo = (Inr failed, repo\<lparr>kr_jobs := dict_set job_id failed (kr_jobs repo)\<rparr>)"
  | (ingested) job d request chunks completed where
      "dict_get (kr_jobs repo) job_id = Some job" "kj_status job \<noteq> ''completed''"
      "get_pending_ingestion job_id repo = Some (d, request)"
      "chunks = map (build_chunk env d (request_model env request))
         (enumerate_from 0 (chunk_text (ki_content request) (ki_chunk_size request)))"
      "completed = job\<lparr>kj_total_chunks := length chunks, kj_status := ''completed'',
         kj_processed_chunks := length chunks, kj_completed_at := Some (kv_now env)\<rparr>"
      "\<exists>jobs. (\<forall>i. i \<noteq> job_id \<longrightarrow> dict_get jobs i = dict_get (kr_jobs repo) i) \<and>
         process_job env job_id repo = (Inr completed, save_ingestion completed chunks (repo\<lparr>kr_jobs := jobs\<rparr>))"
proof (cases "dict_get (kr_jobs repo) job_id")
  case None
  then show ?thesis by (intro missing) (simp_all add: process_job_def)
next
  case job: (Some job)
  show ?thesis
  proof (cases "kj_status job = ''completed''")
    case True
    with job show ?thesis by (intro finished[of job]) (simp_all add: process_job_def)
  next
    case False
    show ?thesis
    proof (cases "get_pending_ingestion job_id repo")
      case None
      with job False show ?thesis by (intro failed[OF _ _ _ refl]) (simp_all add: process_job_def Let_def)
    next
      case (Some p)
      with job False show ?thesis
        by (cases p, intro ingested[OF _ _ _ refl refl] exI[of _ "dict_set job_id (job\<lparr>kj_status := ''running'',
              kj_total_chunks := length (chunk_text (ki_content (snd p)) (ki_chunk_size (snd p))),
              kj_processed_chunks := 0\<rparr>) (kr_jobs repo)"])
           (auto simp: process_job_def Let_def)
    qed
  qed
qed

lemma ok_replace_job:
  assumes ok: "knowledge_ok repo" and job: "dict_get (kr_jobs repo) job_id = Some job"
    and new: "job_ok new" "kj_job_id new = job_id" "kj_document_id new = kj_document_id job"
      "kj_status new \<noteq> ''completed''"
  shows "knowledge_ok (repo\<lparr>kr_jobs := dict_set job_id new (kr_jobs repo)\<rparr>)"
proof -
  have "\<exists>j. dict_get (dict_set job_id new (kr_jobs repo)) i = Some j \<and> kj_document_id j = doc \<and>
      kj_status j \<noteq> ''completed''"
    if "dict_get (kr_pending_ingestions repo) i = Some (doc, request)" for i doc request
    using knowledge_okD(4)[OF ok that] job new by auto
  moreover have "kj_job_id j = i \<and> job_ok j" if "dict_get (dict_set job_id new (kr_jobs repo)) i = Some j" for i j
    using that knowledge_okD(3)[OF ok, of i j] new by (auto split: if_splits)
  ultimately show ?thesis
    using knowledge_okD(1,2)[OF ok] unfolding knowledge_ok_def document_of_def by simp
qed

lemma ok_process:
  assumes ok: "knowledge_ok repo"
  shows "knowledge_ok (snd (process_job env job_id repo))"
proof (cases rule: process_job_cases[of repo job_id env])
  case missing
  with ok show ?thesis by auto
next
  case (finished job)
  with ok show ?thesis by simp
next
  case (failed job bad)
  have "job_ok bad" using knowledge_okD(3)[OF ok failed(1)] failed(2,4) by (simp add: job_ok_def)
  moreover have "kj_job_id bad = job_id" "kj_document_id bad = kj_document_id job" "kj_status bad \<noteq> ''completed''"
    using knowledge_okD(3)[OF ok failed(1)] failed(4) by simp_all
  ultimately show ?thesis
    unfolding failed(5) snd_conv by (intro ok_replace_job[OF ok failed(1)])
next
  case (ingested job d request chunks completed)
  from ingested(6) obtain jobs where jobs: "\<forall>i. i \<noteq> job_id \<longrightarrow> dict_get jobs i = dict_get (kr_jobs repo) i"
    and res: "process_job env job_id repo = (Inr completed, save_ingestion completed chunks (repo\<lparr>kr_jobs := jobs\<rparr>))"
    by blast
  from ingested(3) obtain doc where pend: "dict_get (kr_pending_ingestions repo) job_id = Some (doc, request)"
    and d: "dict_get (kr_documents repo) doc = Some d"
    by (auto simp: get_pending_ingestion_def split: option.splits)
  have doc: "kd_document_id d = doc" by (rule knowledge_okD(1)[OF ok d])
  have jid: "kj_job_id job = job_id" using knowledge_okD(3)[OF ok ingested(1)] by simp
  have completed: "job_ok completed" "kj_job_id completed = job_id"
    using jid ingested(5) by (simp_all add: job_ok_def)
  have new_docs: "document_of repo c" if "c \<in> set chunks" for c
    using that d doc by (auto simp: ingested(4) document_of_def)
  have old_docs: "document_of repo c" if "c \<in> snd ` set (drop_chunks_of i (kr_chunks repo))" for c i
    using that knowledge_okD(2)[OF ok] by (auto simp: drop_chunks_of_def)
  have "document_of repo c" if "c \<in> snd ` set (kr_chunks (snd (process_job env job_id repo)))" for c
  proof -
    from that have "c \<in> snd ` set (fold (\<lambda>c d. dict_set (kk_chunk_id c) c d) chunks
        (drop_chunks_of (kj_document_id completed) (kr_chunks repo)))"
      by (simp add: res save_ingestion_def)
    from subsetD[OF set_fold_chunks this] show ?thesis using new_docs old_docs by blast
  qed
  moreover have "document_of (snd (process_job env job_id repo)) c = document_of repo c" for c
    by (simp add: res save_ingestion_def document_of_def)
  ultimately show ?thesis
    using knowledge_okD(1,3,4)[OF ok] completed jobs
    unfolding knowledge_ok_def by (auto simp: res save_ingestion_def)
qed

lemma ok_ingest:
  assumes ok: "knowledge_ok repo"
  shows "knowledge_ok (snd (ingest env d request repo))"
proof -
  let ?e = "enqueue env d request repo"
  have "knowledge_ok (snd (process_job env (kj_job_id (fst ?e)) (snd ?e)))"
    by (intro ok_process ok_enqueue ok)
  then show ?thesis
    by (cases "process_job env (kj_job_id (fst ?e)) (snd ?e)")
       (auto simp: ingest_def op_bind_def split: sum.splits prod.splits)
qed

section \<open>Histories of calls\<close>

datatype knowledge_call =
    Create "str option" KnowledgeDocumentCreate
  | Update "str option" str KnowledgeDocumentUpdate
  | Delete "str option" str
  | Ingest "str option" str KnowledgeIngestRequest
  | Enqueue "str option" str KnowledgeIngestRequest
  | Run "str option" str

fun handle_call :: "KnowledgeEnv \<Rightarrow> knowledge_call \<Rightarrow> KnowledgeRepository \<Rightarrow> KnowledgeRepository" where
  "handle_call env (Create role body) repo = snd (handle_create_document env role body repo)"
| "handle_call env (Update role i body) repo = snd (handle_update_document env role i body repo)"
| "handle_call env (Delete role i) repo = snd (handle_delete_document role i repo)"
| "handle_call env (Ingest role i body) repo = snd (handle_ingest_document env role i body repo)"
| "handle_call env (Enqueue role i body) repo = snd (handle_enqueue_ingestion_job env role i body repo)"
| "handle_call env (Run role i) repo = snd (handle_run_ingestion_job env role i repo)"

inductive knowledge_reachable :: "KnowledgeRepository \<Rightarrow> bool" where
  start: "knowledge_reachable empty_knowledge"
| call: "knowledge_reachable repo \<Longrightarrow> dict_get (kr_documents repo) (kv_uuid env) = None \<Longrightarrow>
    knowledge_reachable (handle_call env c repo)"

lemma ok_call:
  assumes "knowledge_ok repo" "dict_get (kr_documents repo) (kv_uuid env) = None"
  shows "knowledge_ok (handle_call env c repo)"
proof (cases c)
  case (Create role body)
  with assms ok_create[of repo env body] show ?thesis
    by (cases "create_document env body repo") (simp add: handle_create_document_def require_admin_def)
next
  case (Update role i body)
  with assms ok_update[of repo env i body] show ?thesis
    by (cases "update_document env i body repo")
       (simp add: handle_update_document_def require_admin_def split: option.split)
next
  case (Delete role i)
  with assms ok_delete[of repo i] show ?thesis
    by (cases "delete_document i repo") (simp add: handle_delete_document_def require_admin_def)
next
  case (Ingest role i body)
  with assms ok_ingest[of repo env _ body] show ?thesis
    by (auto simp: handle_ingest_document_def for_own_document_def require_admin_def split: option.splits)
next
  case (Enqueue role i body)
  have "knowledge_ok (snd (case enqueue env d body repo of (job, repo') \<Rightarrow> (Inr job :: KnowledgeIngestionJob result, repo')))" for d
    using ok_enqueue[OF assms(1), of env d body] by (cases "enqueue env d body repo") simp
  with Enqueue assms show ?thesis
    by (auto simp: handle_enqueue_ingestion_job_def for_own_document_def require_admin_def split: option.splits)
next
  case (Run role i)
  with assms ok_process[of repo env i] show ?thesis
    by (cases "process_job env i repo")
       (simp add: handle_run_ingestion_job_def require_admin_def split: sum.split exn.split)
qed

lemma reachable_ok: "knowledge_reachable repo \<Longrightarrow> knowledge_ok repo"
  by (induction rule: knowledge_reachable.induct) (simp_all add: knowledge_ok_empty ok_call)

section \<open>What clients can rely on\<close>

lemma search_chunksD:
  assumes "h \<in> set (search_chunks tenant_id team_id query limit repo)"
  obtains c where "c \<in> snd ` set (kr_chunks repo)" "kk_tenant_id c = tenant_id" "kk_team_id c = team_id"
    "0 < lexical_score (query_terms_of query) (kk_content c)"
    "h = \<lparr>kh_chunk_id = kk_chunk_id c, kh_document_id = kk_document_id c, kh_tenant_id = kk_tenant_id c,
          kh_team_id = kk_team_id c, kh_source_type = kk_source_type c, kh_content = kk_content c,
          kh_distance = 1 - lexical_score (query_terms_of query) (kk_content c)\<rparr>"
proof -
  have "h \<in> set (take limit (sort_key kh_distance xs)) \<Longrightarrow> h \<in> set xs" for xs
    by (drule in_set_takeD) simp
  from this[OF assms[unfolded search_chunks_def Let_def]] show ?thesis by (auto intro: that)
qed

text \<open>C25 (the repository keeps its shape). After any history of calls, whoever makes them and in
  whatever order, as long as new documents get new identifiers: every document and job stands under
  its own identifier, every chunk belongs to a stored document of its own tenant and team, every job
  is queued, failed or completed, a completed job has processed all its chunks, and whatever is
  pending belongs to a job that is not completed.\<close>

theorem knowledge_state_type:
  assumes "knowledge_reachable repo"
  shows "knowledge_ok repo"
  by (rule reachable_ok[OF assms])

definition sample_settings :: InternalRagSettings where
  "sample_settings = rag_settings_from_env (\<lambda>_. None)"

definition sample_knowledge_env :: "str \<Rightarrow> KnowledgeEnv" where
  "sample_knowledge_env uuid =
     \<lparr>kv_now = 7, kv_uuid = uuid, kv_chunk_uuid = (\<lambda>k. ''c'' @ uuid @ str_of_nat k), kv_sha256 = id,
      kv_settings = sample_settings\<rparr>"

definition sample_document :: KnowledgeDocumentCreate where
  "sample_document =
     \<lparr>kc_tenant_id = ''acme'', kc_team_id = ''core'', kc_repo_id = None, kc_title = ''Runbook'',
      kc_source_type = ''runbook'', kc_source_uri = ''uri'', kc_source_version = None,
      kc_content_sha256 = ''h'', kc_metadata = [], kc_created_by = ''ops''\<rparr>"

definition sample_request :: KnowledgeIngestRequest where
  "sample_request =
     \<lparr>ki_tenant_id = ''acme'', ki_team_id = ''core'', ki_content = ''Restart the queue, then wait.'',
      ki_chunk_size = 200, ki_embedding_model = None\<rparr>"

definition created_repo :: KnowledgeRepository where
  "created_repo = handle_call (sample_knowledge_env ''d1'') (Create None sample_document) empty_knowledge"

definition ingested_repo :: KnowledgeRepository where
  "ingested_repo = handle_call (sample_knowledge_env ''j1'') (Ingest None ''d1'' sample_request) created_repo"

lemma ingested_reachable: "knowledge_reachable ingested_repo"
  unfolding ingested_repo_def created_repo_def
  by (intro knowledge_reachable.intros) (simp_all add: empty_knowledge_def sample_knowledge_env_def
      handle_create_document_def require_admin_def role_header_def create_document_def sample_document_def Let_def)

theorem knowledge_state_type_witness: "knowledge_ok ingested_repo \<and> map fst (kr_chunks ingested_repo) = [''cj10'']"
proof
  show "knowledge_ok ingested_repo" by (rule knowledge_state_type[OF ingested_reachable])
  show "map fst (kr_chunks ingested_repo) = [''cj10'']" by code_simp
qed

text \<open>C26 (retrieval stays within the tenant). After any history, a retrieval succeeds only for the
  planner and the reviewer, and returns at most the requested number of hits, the closest first;
  every hit shares a word with the query and comes from a stored document of the requested tenant
  and team.\<close>

theorem retrieval_within_tenant:
  assumes "knowledge_reachable repo" and "retrieve request repo = Inr response"
  shows "kq_role request \<in> {''planner'', ''reviewer''} \<and>
    length (kp_hits response) \<le> kq_limit request \<and> sorted (map kh_distance (kp_hits response)) \<and>
    (\<forall>h \<in> set (kp_hits response).
       kh_tenant_id h = kq_tenant_id request \<and> kh_team_id h = kq_team_id request \<and> kh_distance h < 1 \<and>
       (\<exists>d. dict_get (kr_documents repo) (kh_document_id h) = Some d \<and>
            kd_tenant_id d = kq_tenant_id request \<and> kd_team_id d = kq_team_id request))"
proof -
  have role: "kq_role request \<in> {''planner'', ''reviewer''}"
    and hits: "kp_hits response = search_chunks (kq_tenant_id request) (kq_team_id request)
      (kq_query request) (kq_limit request) repo"
    using assms(2) by (auto simp: retrieve_def ROLE_WHITELIST_def split: if_splits)
  have "length (kp_hits response) \<le> kq_limit request" "sorted (map kh_distance (kp_hits response))"
    by (simp_all add: hits search_chunks_def Let_def take_map[symmetric] sorted_wrt_take)
  moreover have "kh_tenant_id h = kq_tenant_id request \<and> kh_team_id h = kq_team_id request \<and> kh_distance h < 1 \<and>
       (\<exists>d. dict_get (kr_documents repo) (kh_document_id h) = Some d \<and>
            kd_tenant_id d = kq_tenant_id request \<and> kd_team_id d = kq_team_id request)"
    if h: "h \<in> set (kp_hits response)" for h
  proof (rule search_chunksD[OF h[unfolded hits]])
    fix c assume c: "c \<in> snd ` set (kr_chunks repo)" "kk_tenant_id c = kq_tenant_id request"
      "kk_team_id c = kq_team_id request" "0 < lexical_score (query_terms_of (kq_query request)) (kk_content c)"
      "h = \<lparr>kh_chunk_id = kk_chunk_id c, kh_document_id = kk_document_id c, kh_tenant_id = kk_tenant_id c,
            kh_team_id = kk_team_id c, kh_source_type = kk_source_type c, kh_content = kk_content c,
            kh_distance = 1 - lexical_score (query_terms_of (kq_query request)) (kk_content c)\<rparr>"
    have "document_of repo c" by (rule knowledge_okD(2)[OF reachable_ok[OF assms(1)] c(1)])
    with c show ?thesis by (simp add: document_of_def)
  qed
  ultimately show ?thesis using role by blast
qed

definition sample_search :: KnowledgeRetrievalRequest where
  "sample_search = \<lparr>kq_tenant_id = ''acme'', kq_team_id = ''core'', kq_query = ''queue restart'',
     kq_role = ''planner'', kq_limit = 5\<rparr>"

theorem retrieval_within_tenant_witness:
  "\<exists>response. retrieve sample_search ingested_repo = Inr response \<and> length (kp_hits response) = 1 \<and>
     sorted (map kh_distance (kp_hits response))"
proof -
  define response where "response = (case retrieve sample_search ingested_repo of Inr r \<Rightarrow> r)"
  have r: "retrieve sample_search ingested_repo = Inr response"
    by (simp add: response_def retrieve_def sample_search_def ROLE_WHITELIST_def)
  have "length (kp_hits (case retrieve sample_search ingested_repo of Inr r \<Rightarrow> r)) = 1" by code_simp
  with retrieval_within_tenant[OF ingested_reachable r] r show ?thesis
    unfolding response_def[symmetric] by blast
qed

lemma map_fst_enumerate: "map fst (enumerate_from i xs) = [i..<i + length xs]"
proof (induction xs arbitrary: i)
  case Nil
  then show ?case by simp
next
  case (Cons x xs)
  have "[i..<i + Suc (length xs)] = i # [Suc i..<Suc i + length xs]" by (simp add: upt_conv_Cons del: upt_Suc)
  with Cons show ?case by simp
qed

lemma map_build_chunk:
  "map kk_content (map (build_chunk env d m) (enumerate_from i xs)) = xs"
  "map kk_chunk_index (map (build_chunk env d m) (enumerate_from i xs)) = [i..<i + length xs]"
  "map kk_chunk_id (map (build_chunk env d m) (enumerate_from i xs)) =
     map (kv_chunk_uuid env) [i..<i + length xs]"
proof -
  show "map kk_chunk_id (map (build_chunk env d m) (enumerate_from i xs)) =
      map (kv_chunk_uuid env) [i..<i + length xs]"
    by (simp add: comp_def flip: map_fst_enumerate)
  have "kk_chunk_index (build_chunk env d m p) = fst p" for p by (cases p) (simp add: build_chunk_def)
  then show "map kk_chunk_index (map (build_chunk env d m) (enumerate_from i xs)) = [i..<i + length xs]"
    using map_fst_enumerate[of i xs] by (simp add: comp_def)
  show "map kk_content (map (build_chunk env d m) (enumerate_from i xs)) = xs"
    by (simp add: comp_def)
qed

lemma fold_chunks_fresh:
  "distinct (map kk_chunk_id cs) \<Longrightarrow> kk_chunk_id ` set cs \<inter> fst ` set d = {} \<Longrightarrow>
     fold (\<lambda>c d. dict_set (kk_chunk_id c) c d) cs d = d @ map (\<lambda>c. (kk_chunk_id c, c)) cs"
proof (induction cs arbitrary: d)
  case Nil
  then show ?case by simp
next
  case (Cons c cs)
  have "dict_set (kk_chunk_id c) c d = d @ [(kk_chunk_id c, c)]"
    using Cons.prems(2) by (induction d) auto
  moreover have "kk_chunk_id ` set cs \<inter> fst ` set (d @ [(kk_chunk_id c, c)]) = {}"
    using Cons.prems by auto
  ultimately show ?case using Cons by simp
qed

text \<open>The chunks of a request, the job when they are stored, and what running a queued job leaves.\<close>

definition new_chunks :: "KnowledgeEnv \<Rightarrow> KnowledgeDocument \<Rightarrow> KnowledgeIngestRequest \<Rightarrow> KnowledgeChunk list" where
  "new_chunks env d body = map (build_chunk env d (request_model env body))
     (enumerate_from 0 (chunk_text (ki_content body) (ki_chunk_size body)))"

definition finish_job :: "KnowledgeEnv \<Rightarrow> nat \<Rightarrow> KnowledgeIngestionJob \<Rightarrow> KnowledgeIngestionJob" where
  "finish_job env n job = job\<lparr>kj_total_chunks := n, kj_status := ''completed'',
     kj_processed_chunks := n, kj_completed_at := Some (kv_now env)\<rparr>"

lemma queued_job_runs:
  assumes "dict_get (kr_documents repo) i = Some d" "kd_document_id d = i"
    and "enqueue env d body repo = (job, repo1)"
  obtains repo' where
    "process_job env (kj_job_id job) repo1 = (Inr (finish_job env (length (new_chunks env d body)) job), repo')"
    "kr_chunks repo' = fold (\<lambda>c d. dict_set (kk_chunk_id c) c d) (new_chunks env d body)
       (drop_chunks_of i (kr_chunks repo))"
    "dict_get (kr_jobs repo') (kj_job_id job) = Some (finish_job env (length (new_chunks env d body)) job)"
proof -
  have repo1: "repo1 = save_pending_ingestion job i body repo"
    and job: "kj_status job = ''queued''" "kj_document_id job = i"
    using assms(2,3) by (auto simp: enqueue_def Let_def)
  have "dict_get (kr_jobs repo1) (kj_job_id job) = Some job"
    and "get_pending_ingestion (kj_job_id job) repo1 = Some (d, body)"
    and "kr_chunks repo1 = kr_chunks repo"
    by (simp_all add: repo1 save_pending_ingestion_def get_pending_ingestion_def assms(1))
  then show ?thesis
    using job by (intro that)
      (auto simp: process_job_def Let_def new_chunks_def finish_job_def save_ingestion_def)
qed

lemma new_chunks_stored:
  assumes "inj (kv_chunk_uuid env)" "range (kv_chunk_uuid env) \<inter> fst ` set cs = {}"
  shows "fold (\<lambda>c d. dict_set (kk_chunk_id c) c d) (new_chunks env d body) (drop_chunks_of i cs) =
     drop_chunks_of i cs @ map (\<lambda>c. (kk_chunk_id c, c)) (new_chunks env d body)"
proof (rule fold_chunks_fresh)
  have "map kk_chunk_id (new_chunks env d body) = map (kv_chunk_uuid env) [0..<length (new_chunks env d body)]"
    by (simp only: new_chunks_def map_build_chunk) simp
  moreover have "inj_on (kv_chunk_uuid env) A" for A using assms(1) by (rule inj_on_subset) simp
  ultimately show "distinct (map kk_chunk_id (new_chunks env d body))" by (simp add: distinct_map)
  have "kk_chunk_id ` set (new_chunks env d body) \<subseteq> range (kv_chunk_uuid env)" by (auto simp: new_chunks_def)
  moreover have "fst ` set (drop_chunks_of i cs) \<subseteq> fst ` set cs" by (auto simp: drop_chunks_of_def)
  ultimately show "kk_chunk_id ` set (new_chunks env d body) \<inter> fst ` set (drop_chunks_of i cs) = {}"
    using assms(2) by blast
qed

text \<open>An ingestion replaces the chunks of its document. Where the identifiers drawn for chunks
  are new and distinct, ingesting a stored document of the caller's tenant completes its job: the
  answer and the repository hold exactly the chunks of the new text for that document, numbered from
  zero, and put together they are that text; the chunks of every other document stay as they were,
  and running the job again changes nothing.\<close>

theorem ingest_replaces_chunks:
  assumes d: "dict_get (kr_documents repo) i = Some d" "kd_document_id d = i"
    and own: "kd_tenant_id d = ki_tenant_id body" "kd_team_id d = ki_team_id body"
    and size: "0 < ki_chunk_size body"
    and ids: "inj (kv_chunk_uuid env)" "range (kv_chunk_uuid env) \<inter> fst ` set (kr_chunks repo) = {}"
  shows "\<exists>answer repo'. handle_ingest_document env None i body repo = (Inr answer, repo') \<and>
    kj_status (kx_job answer) = ''completed'' \<and> kj_total_chunks (kx_job answer) = length (kx_chunks answer) \<and>
    map kk_chunk_index (kx_chunks answer) = [0..<length (kx_chunks answer)] \<and>
    concat (map kk_content (kx_chunks answer)) = str_strip (ki_content body) \<and>
    map snd (kr_chunks repo') =
      filter (\<lambda>c. kk_document_id c \<noteq> i) (map snd (kr_chunks repo)) @ kx_chunks answer \<and>
    handle_run_ingestion_job env None (kj_job_id (kx_job answer)) repo' = (Inr (kx_job answer), repo')"
proof -
  let ?cs = "new_chunks env d body"
  obtain job repo1 where enq: "enqueue env d body repo = (job, repo1)" by fastforce
  obtain repo' where run: "process_job env (kj_job_id job) repo1 = (Inr (finish_job env (length ?cs) job), repo')"
    and stored: "kr_chunks repo' = drop_chunks_of i (kr_chunks repo) @ map (\<lambda>c. (kk_chunk_id c, c)) ?cs"
    and kept: "dict_get (kr_jobs repo') (kj_job_id job) = Some (finish_job env (length ?cs) job)"
    by (rule queued_job_runs[OF d enq]) (simp add: new_chunks_stored[OF ids])
  have "\<forall>c \<in> set ?cs. kk_document_id c = i" by (simp add: new_chunks_def d(2))
  then have "filter (\<lambda>c. kk_document_id c = i) (map snd (kr_chunks repo')) = ?cs"
    by (simp add: stored drop_chunks_of_def filter_map comp_def filter_id_conv)
  then have "ingest env d body repo = (Inr \<lparr>kx_job = finish_job env (length ?cs) job, kx_chunks = ?cs\<rparr>, repo')"
    using run by (simp add: ingest_def enq d(2))
  then have "handle_ingest_document env None i body repo =
      (Inr \<lparr>kx_job = finish_job env (length ?cs) job, kx_chunks = ?cs\<rparr>, repo')"
    using d(1) own by (simp add: handle_ingest_document_def for_own_document_def require_admin_def role_header_def)
  moreover have "map kk_chunk_index ?cs = [0..<length ?cs]"
    by (simp only: new_chunks_def map_build_chunk) simp
  moreover have "concat (map kk_content ?cs) = str_strip (ki_content body)"
    using size by (simp only: new_chunks_def map_build_chunk concat_chunk_text)
  moreover have "map snd (kr_chunks repo') = filter (\<lambda>c. kk_document_id c \<noteq> i) (map snd (kr_chunks repo)) @ ?cs"
    by (simp add: stored drop_chunks_of_def filter_map comp_def)
  moreover have "handle_run_ingestion_job env None (kj_job_id job) repo' = (Inr (finish_job env (length ?cs) job), repo')"
    using kept by (simp add: handle_run_ingestion_job_def require_admin_def role_header_def process_job_def finish_job_def)
  ultimately show ?thesis
    by (intro exI[of _ "\<lparr>kx_job = finish_job env (length ?cs) job, kx_chunks = ?cs\<rparr>"] exI[of _ repo'])
       (simp add: finish_job_def)
qed

theorem ingest_replaces_chunks_witness:
  "\<exists>answer repo'. handle_ingest_document (sample_knowledge_env ''j2'') None ''d1'' sample_request ingested_repo =
       (Inr answer, repo') \<and> length (kr_chunks ingested_repo) = 1 \<and>
     concat (map kk_content (kx_chunks answer)) = str_strip (ki_content sample_request)"
proof -
  define d where "d = fst (create_document (sample_knowledge_env ''d1'') sample_document empty_knowledge)"
  have "dict_get (kr_documents ingested_repo) ''d1'' =
      Some (fst (create_document (sample_knowledge_env ''d1'') sample_document empty_knowledge))" by code_simp
  then have d: "dict_get (kr_documents ingested_repo) ''d1'' = Some d" "kd_document_id d = ''d1''"
      "kd_tenant_id d = ki_tenant_id sample_request" "kd_team_id d = ki_team_id sample_request"
    by (simp_all add: d_def create_document_def Let_def sample_document_def sample_request_def
        sample_knowledge_env_def)
  have keys: "map fst (kr_chunks ingested_repo) = [''cj10'']" by code_simp
  have "inj (kv_chunk_uuid (sample_knowledge_env ''j2''))"
    by (auto simp: inj_def sample_knowledge_env_def)
  moreover have "range (kv_chunk_uuid (sample_knowledge_env ''j2'')) \<inter> fst ` set (kr_chunks ingested_repo) = {}"
    by (auto simp: sample_knowledge_env_def keys simp flip: set_map)
  moreover have "0 < ki_chunk_size sample_request" by (simp add: sample_request_def)
  moreover have "length (kr_chunks ingested_repo) = 1" using keys by (metis length_map One_nat_def length_Cons list.size(3))
  ultimately show ?thesis using ingest_replaces_chunks[OF d] by blast
qed

section \<open>Limits of the knowledge base\<close>

text \<open>Retrieval does not look at \<open>active\<close>: a document that was switched off is still found.\<close>

theorem inactive_document_found:
  "let off = \<lparr>ku_title = None, ku_source_version = None, ku_active = Some False, ku_metadata = None\<rparr>;
       repo = handle_call (sample_knowledge_env ''u'') (Update None ''d1'' off) ingested_repo
   in map (kd_active \<circ> snd) (kr_documents repo) = [False] \<and>
      map_option length (case retrieve sample_search repo of Inr r \<Rightarrow> Some (kp_hits r) | Inl _ \<Rightarrow> None) = Some 1"
  by code_simp

text \<open>Punctuation is stripped from the words of a chunk and not from those of the query, so a query
  that ends in a question mark misses the very word it ends in.\<close>

theorem query_punctuation_missed:
  "lexical_score (query_terms_of ''queue?'') ''the queue?'' = 0 \<and>
   lexical_score (query_terms_of ''queue'') ''the queue?'' = 1"
  by code_simp

text \<open>A call without the \<open>X-Role\<close> header is served as an administrator's.\<close>

theorem missing_role_is_admin:
  "handle_delete_document None i repo = handle_delete_document (Some ''admin'') i repo"
  by (simp add: handle_delete_document_def require_admin_def role_header_def)

text \<open>A document deleted while its job is queued makes the job fail, with the job kept for ever.\<close>

theorem deleted_document_fails_job:
  "let repo = handle_call (sample_knowledge_env ''j1'') (Enqueue None ''d1'' sample_request) created_repo;
       gone = handle_call (sample_knowledge_env ''x'') (Delete None ''d1'') repo
   in map_option kj_status (case fst (process_job (sample_knowledge_env ''y'') ''j1'' gone) of
        Inr j \<Rightarrow> Some j | Inl _ \<Rightarrow> None) = Some ''failed''"
  by code_simp

end
