(* ===== verification/GitHub.thy ===== *)
theory GitHub
  imports Strings
begin

text \<open>
  GitHub App integration: \<open>backend/integrations/github/permissions.py\<close>, \<open>minting.py\<close>, \<open>drift.py\<close> and
  the handlers of \<open>api.py\<close>. The vault, the GitHub API, PyJWT, the hash of the canonical JSON text and
  the installation repository, which the source declares as a protocol and leaves to the deployment,
  are arguments. A permission document is a dictionary with distinct keys. Log lines and the metric
  lines of \<open>metrics.py\<close> are left out.
\<close>

section \<open>Permissions\<close>

datatype GitHubPermission =
  CONTENTS_READ | CONTENTS_WRITE | PULL_REQUESTS_WRITE | CHECKS_WRITE | METADATA_READ | STATUSES_READ |
  ADMINISTRATION_READ

fun GitHubPermission_value :: "GitHubPermission \<Rightarrow> str" where
  "GitHubPermission_value CONTENTS_READ = ''contents:read''"
| "GitHubPermission_value CONTENTS_WRITE = ''contents:write''"
| "GitHubPermission_value PULL_REQUESTS_WRITE = ''pull_requests:write''"
| "GitHubPermission_value CHECKS_WRITE = ''checks:write''"
| "GitHubPermission_value METADATA_READ = ''metadata:read''"
| "GitHubPermission_value STATUSES_READ = ''statuses:read''"
| "GitHubPermission_value ADMINISTRATION_READ = ''administration:read''"

definition all_permissions :: "GitHubPermission list" where
  "all_permissions = [CONTENTS_READ, CONTENTS_WRITE, PULL_REQUESTS_WRITE, CHECKS_WRITE, METADATA_READ,
     STATUSES_READ, ADMINISTRATION_READ]"

definition OPERATION_PERMISSIONS :: "(str \<times> GitHubPermission list) list" where
  "OPERATION_PERMISSIONS =
     [(''create_pull_request'', [CONTENTS_READ, PULL_REQUESTS_WRITE, METADATA_READ]),
      (''push_branch'', [CONTENTS_WRITE, METADATA_READ]),
      (''get_branch_protection'', [ADMINISTRATION_READ, METADATA_READ]),
      (''create_check_run'', [CHECKS_WRITE, METADATA_READ]),
      (''get_commit_status'', [STATUSES_READ, METADATA_READ])]"

definition MINIMUM_REQUIRED_PERMISSIONS :: "GitHubPermission list" where
  "MINIMUM_REQUIRED_PERMISSIONS =
     [CONTENTS_READ, PULL_REQUESTS_WRITE, METADATA_READ, ADMINISTRATION_READ, CONTENTS_WRITE]"

record PermissionCheckResult =
  pk_allowed :: bool
  pk_operation :: str
  pk_missing :: "str list"
  pk_reason :: "str option"

definition granted_set :: "(str \<times> str) list \<Rightarrow> GitHubPermission list" where
  "granted_set granted_permissions =
     filter (\<lambda>p. GitHubPermission_value p \<in> set (map (\<lambda>(k, v). k @ '':'' @ v) granted_permissions))
       all_permissions"

definition check_operation_permission :: "str \<Rightarrow> (str \<times> str) list \<Rightarrow> PermissionCheckResult" where
  "check_operation_permission operation granted_permissions =
     (case dict_get OPERATION_PERMISSIONS operation of
        None \<Rightarrow> \<lparr>pk_allowed = False, pk_operation = operation, pk_missing = [],
                 pk_reason = Some ''unknown_operation''\<rparr>
      | Some required \<Rightarrow>
          let missing = sort (map GitHubPermission_value
                (filter (\<lambda>p. p \<notin> set (granted_set granted_permissions)) required))
          in if missing \<noteq> []
             then \<lparr>pk_allowed = False, pk_operation = operation, pk_missing = missing,
                   pk_reason = Some ''missing_permissions''\<rparr>
             else \<lparr>pk_allowed = True, pk_operation = operation, pk_missing = [], pk_reason = None\<rparr>)"

definition parse_github_permissions :: "(str \<times> str) list \<Rightarrow> (str \<times> str) list" where
  "parse_github_permissions raw = filter (\<lambda>(k, v). v \<noteq> ''none'') raw"

text \<open>\<open>digest\<close> hashes the JSON text of the items in the order of their keys.\<close>

definition hash_permissions :: "((str \<times> str) list \<Rightarrow> str) \<Rightarrow> (str \<times> str) list \<Rightarrow> str" where
  "hash_permissions digest permissions = digest (sort_key fst permissions)"

section \<open>Minting installation tokens\<close>

definition TOKEN_TTL_SECONDS :: int where "TOKEN_TTL_SECONDS = 3600"

record InstallationToken =
  it_token :: str
  it_expires_at_epoch :: int
  it_installation_id :: str
  it_tenant_id :: str
  it_team_id :: str

record InstallationRecord =
  ir_installation_id :: str
  ir_tenant_id :: str
  ir_team_id :: str
  ir_github_installation_id :: int
  ir_github_base_url :: str
  ir_permissions_hash :: str
  ir_drift_acknowledged :: bool

text \<open>The three services a minter talks to, and its clock in seconds.\<close>

record MintServices =
  ms_read_secret :: "str \<Rightarrow> str result"
  ms_encode_jwt :: "str \<Rightarrow> (str \<times> str) list \<Rightarrow> str result"
  ms_create_installation_token :: "int \<Rightarrow> str \<Rightarrow> str \<Rightarrow> (str \<times> str) list result"
  ms_now :: int
  ms_app_id :: str
  ms_vault_private_key_path :: str

definition MintingError :: "str \<Rightarrow> exn" where
  "MintingError reason = OtherError reason"

definition build_app_jwt :: "MintServices \<Rightarrow> str \<Rightarrow> str result" where
  "build_app_jwt sv private_key_pem =
     ms_encode_jwt sv private_key_pem
       [(''iat'', str_of_int (ms_now sv - 60)), (''exp'', str_of_int (ms_now sv + 540)),
        (''iss'', ms_app_id sv)]"

definition mint :: "MintServices \<Rightarrow> InstallationRecord \<Rightarrow> InstallationToken result" where
  "mint sv r =
     (if \<not> ir_drift_acknowledged r then Inl (MintingError ''permission_drift_unacknowledged'')
      else bind_result (ms_read_secret sv (ms_vault_private_key_path sv)) (\<lambda>pem.
           bind_result (build_app_jwt sv pem) (\<lambda>jwt.
           bind_result (ms_create_installation_token sv (ir_github_installation_id r) jwt (ir_github_base_url r))
             (\<lambda>response.
                let token = dict_getd response ''token'' []
                in if token = [] then Inl (MintingError ''empty_token_from_github'')
                   else Inr \<lparr>it_token = token, it_expires_at_epoch = ms_now sv + TOKEN_TTL_SECONDS,
                             it_installation_id = ir_installation_id r, it_tenant_id = ir_tenant_id r,
                             it_team_id = ir_team_id r\<rparr>))))"

section \<open>Scanning for permission drift\<close>

record DriftEvent =
  de_installation_id :: str
  de_tenant_id :: str
  de_team_id :: str
  de_previous_hash :: str
  de_current_hash :: str
  de_current_permissions :: "(str \<times> str) list"

text \<open>The scanner's collaborators; the repository keeps its state in \<open>'s\<close>.\<close>

record 's DriftServices =
  ds_list_active :: "'s \<Rightarrow> InstallationRecord list"
  ds_mark_drift :: "str \<Rightarrow> ('s, unit) operation"
  ds_get_jwt :: "InstallationRecord \<Rightarrow> str result"
  ds_get_permissions :: "int \<Rightarrow> str \<Rightarrow> str \<Rightarrow> (str \<times> str) list result"
  ds_digest :: "(str \<times> str) list \<Rightarrow> str"

text \<open>What GitHub says of an installation now: the permissions it grants.\<close>

definition current_permissions :: "'s DriftServices \<Rightarrow> InstallationRecord \<Rightarrow> (str \<times> str) list result" where
  "current_permissions sv r =
     bind_result (ds_get_jwt sv r) (\<lambda>jwt.
     bind_result (ds_get_permissions sv (ir_github_installation_id r) (ir_github_base_url r) jwt) (\<lambda>raw.
     Inr (parse_github_permissions raw)))"

text \<open>Any exception of one installation is logged and the scan goes on.\<close>

definition scan_one :: "'s DriftServices \<Rightarrow> InstallationRecord \<Rightarrow> 's \<Rightarrow> DriftEvent option \<times> 's" where
  "scan_one sv r s =
     (case current_permissions sv r of
        Inl _ \<Rightarrow> (None, s)
      | Inr parsed \<Rightarrow>
          let current_hash = hash_permissions (ds_digest sv) parsed
          in if current_hash = ir_permissions_hash r then (None, s)
             else (case ds_mark_drift sv (ir_installation_id r) s of
                 (Inl _, s') \<Rightarrow> (None, s')
               | (Inr _, s') \<Rightarrow>
                   (Some \<lparr>de_installation_id = ir_installation_id r, de_tenant_id = ir_tenant_id r,
                          de_team_id = ir_team_id r, de_previous_hash = ir_permissions_hash r,
                          de_current_hash = current_hash, de_current_permissions = parsed\<rparr>, s')))"

fun scan_each :: "'s DriftServices \<Rightarrow> InstallationRecord list \<Rightarrow> 's \<Rightarrow> DriftEvent list \<times> 's" where
  "scan_each sv [] s = ([], s)"
| "scan_each sv (r # rs) s =
     (case scan_one sv r s of (event, s1) \<Rightarrow>
      case scan_each sv rs s1 of (events, s2) \<Rightarrow>
        ((case event of None \<Rightarrow> events | Some e \<Rightarrow> e # events), s2))"

definition scan_all :: "'s DriftServices \<Rightarrow> 's \<Rightarrow> DriftEvent list \<times> 's" where
  "scan_all sv s = scan_each sv (ds_list_active sv s) s"

section \<open>The administration handlers\<close>

text \<open>Each handler of \<open>build_github_router\<close> answers from its request alone: none of them reads or
  writes a store. The result pairs the answer with the installations, which stay as they are.\<close>

record InstallationWizardRequest =
  iw_tenant_id :: str
  iw_team_id :: str
  iw_account_login :: str
  iw_github_installation_id :: int
  iw_permissions :: "(str \<times> str) list"
  iw_github_base_url :: str

record InstallationWizardResponse =
  iz_installation_id :: str
  iz_tenant_id :: str
  iz_team_id :: str
  iz_account_login :: str
  iz_permissions_hash :: str

definition register_installation ::
  "((str \<times> str) list \<Rightarrow> str) \<Rightarrow> str \<Rightarrow> InstallationWizardRequest \<Rightarrow>
     (InstallationRecord list, InstallationWizardResponse) operation" where
  "register_installation digest uuid body st =
     (Inr \<lparr>iz_installation_id = uuid, iz_tenant_id = iw_tenant_id body, iz_team_id = iw_team_id body,
           iz_account_login = iw_account_login body,
           iz_permissions_hash = hash_permissions digest (parse_github_permissions (iw_permissions body))\<rparr>, st)"

definition revoke_installation :: "str \<Rightarrow> (InstallationRecord list, unit) operation" where
  "revoke_installation installation_id st = (Inr (), st)"

record PATOptInRequest =
  po_tenant_id :: str
  po_team_id :: str
  po_rationale :: str
  po_allowed_scopes :: "str list"
  po_expires_at :: datetime

record PATOptInResponse =
  pr_opt_in_id :: str
  pr_opt_tenant_id :: str
  pr_opt_team_id :: str
  pr_opt_expires_at :: datetime
  pr_pat_mode_active :: bool

definition create_pat_opt_in ::
  "datetime \<Rightarrow> str \<Rightarrow> str \<Rightarrow> PATOptInRequest \<Rightarrow> PATOptInResponse result" where
  "create_pat_opt_in now uuid x_role body =
     (if x_role \<noteq> ''super_admin'' then Inl (HTTPException 403 ''pat_opt_in_requires_super_admin'')
      else if po_expires_at body \<le> now then Inl (HTTPException 422 ''expires_at_must_be_in_future'')
      else Inr \<lparr>pr_opt_in_id = uuid, pr_opt_tenant_id = po_tenant_id body, pr_opt_team_id = po_team_id body,
                pr_opt_expires_at = po_expires_at body, pr_pat_mode_active = True\<rparr>)"

record PATModeStatus =
  pm_tenant_id :: str
  pm_team_id :: str
  pm_pat_mode_active :: bool
  pm_expires_at :: "datetime option"
  pm_allowed_scopes :: "str list"

definition get_pat_mode_status :: "str \<Rightarrow> str \<Rightarrow> PATModeStatus" where
  "get_pat_mode_status tenant_id team_id =
     \<lparr>pm_tenant_id = tenant_id, pm_team_id = team_id, pm_pat_mode_active = False, pm_expires_at = None,
      pm_allowed_scopes = []\<rparr>"

definition acknowledge_drift ::
  "str \<Rightarrow> str \<Rightarrow> (InstallationRecord list, (str \<times> str) list) operation" where
  "acknowledge_drift x_role installation_id st =
     (if x_role \<noteq> ''super_admin''
      then (Inl (HTTPException 403 ''drift_acknowledgement_requires_super_admin''), st)
      else (Inr [(''status'', ''acknowledged''), (''installation_id'', installation_id)], st))"

end
