(* ===== verification/GitHubCorrect.thy ===== *)
theory GitHubCorrect
  imports GitHub
begin

text \<open>
  Properties of the GitHub integration: the permission check is exact, a scan marks exactly the
  installations whose permissions changed and goes on after a failure, and a marked installation
  mints no token. The last section shows which permission sets cannot exist and what the
  administration handlers do not do.
\<close>

section \<open>The permission check\<close>

definition grants :: "(str \<times> str) list \<Rightarrow> str set" where
  "grants granted = (\<lambda>(k, v). k @ '':'' @ v) ` set granted"

lemma granted_set_iff: "p \<in> set (granted_set granted) \<longleftrightarrow> GitHubPermission_value p \<in> grants granted"
  by (cases p) (auto simp: granted_set_def all_permissions_def grants_def)

lemma check_known:
  assumes "dict_get OPERATION_PERMISSIONS operation = Some required"
  shows "pk_allowed (check_operation_permission operation granted) \<longleftrightarrow>
      GitHubPermission_value ` set required \<subseteq> grants granted"
    and "set (pk_missing (check_operation_permission operation granted)) =
      GitHubPermission_value ` set required - grants granted"
    and "sorted (pk_missing (check_operation_permission operation granted))"
proof -
  define missing where "missing = sort (map GitHubPermission_value
    (filter (\<lambda>p. p \<notin> set (granted_set granted)) required))"
  have set_missing: "set missing = GitHubPermission_value ` set required - grants granted"
    by (auto simp: missing_def granted_set_iff)
  have "missing = [] \<longleftrightarrow> set missing = {}" by simp
  also have "\<dots> \<longleftrightarrow> GitHubPermission_value ` set required \<subseteq> grants granted"
    unfolding set_missing by blast
  finally have empty: "missing = [] \<longleftrightarrow> GitHubPermission_value ` set required \<subseteq> grants granted" .
  have result: "check_operation_permission operation granted =
      (if missing \<noteq> [] then \<lparr>pk_allowed = False, pk_operation = operation, pk_missing = missing,
          pk_reason = Some ''missing_permissions''\<rparr>
       else \<lparr>pk_allowed = True, pk_operation = operation, pk_missing = [], pk_reason = None\<rparr>)"
    using assms by (simp add: check_operation_permission_def missing_def)
  have "sorted missing" by (simp add: missing_def)
  then show "pk_allowed (check_operation_permission operation granted) \<longleftrightarrow>
      GitHubPermission_value ` set required \<subseteq> grants granted"
    "set (pk_missing (check_operation_permission operation granted)) =
      GitHubPermission_value ` set required - grants granted"
    "sorted (pk_missing (check_operation_permission operation granted))"
    using set_missing empty by (simp_all add: result)
qed

text \<open>The permission check is exact. An operation is allowed exactly when it is documented and
  each of its permissions is granted; what is reported missing is, in order, exactly what is
  required and not granted, and an unknown operation is refused with nothing reported.\<close>

theorem operation_permission_exact:
  "(case dict_get OPERATION_PERMISSIONS operation of
      None \<Rightarrow> \<not> pk_allowed (check_operation_permission operation granted) \<and>
        pk_missing (check_operation_permission operation granted) = []
    | Some required \<Rightarrow>
        (pk_allowed (check_operation_permission operation granted) \<longleftrightarrow>
           GitHubPermission_value ` set required \<subseteq> grants granted) \<and>
        set (pk_missing (check_operation_permission operation granted)) =
          GitHubPermission_value ` set required - grants granted \<and>
        sorted (pk_missing (check_operation_permission operation granted)))"
proof (cases "dict_get OPERATION_PERMISSIONS operation")
  case None
  then show ?thesis by (simp add: check_operation_permission_def)
next
  case (Some required)
  then show ?thesis by (simp add: check_known)
qed

section \<open>Drift\<close>

text \<open>What the protocol of the repository documents: marking sets \<open>drift_acknowledged\<close> of the
  installation to false, and the active installations are listed.\<close>

definition unacknowledged :: "InstallationRecord \<Rightarrow> InstallationRecord" where
  "unacknowledged r = r\<lparr>ir_drift_acknowledged := False\<rparr>"

definition marks :: "str set \<Rightarrow> InstallationRecord list \<Rightarrow> InstallationRecord list" where
  "marks ids rs = map (\<lambda>r. if ir_installation_id r \<in> ids then unacknowledged r else r) rs"

lemma marks_empty [simp]: "marks {} rs = rs"
  by (simp add: marks_def)

lemma marks_marks [simp]: "marks A (marks B rs) = marks (A \<union> B) rs"
  by (auto simp: marks_def unacknowledged_def)

definition drifted :: "'s DriftServices \<Rightarrow> InstallationRecord \<Rightarrow> bool" where
  "drifted sv r \<longleftrightarrow> (case current_permissions sv r of
     Inl _ \<Rightarrow> False | Inr parsed \<Rightarrow> hash_permissions (ds_digest sv) parsed \<noteq> ir_permissions_hash r)"

lemma scan_each_marks:
  fixes sv :: "InstallationRecord list DriftServices"
  assumes mark: "\<And>i s. ds_mark_drift sv i s = (Inr (), marks {i} s)"
  shows "map de_installation_id (fst (scan_each sv rs s)) = map ir_installation_id (filter (drifted sv) rs) \<and>
    snd (scan_each sv rs s) = marks (ir_installation_id ` set (filter (drifted sv) rs)) s"
proof (induction rs arbitrary: s)
  case Nil
  then show ?case by simp
next
  case (Cons r rs)
  show ?case
  proof (cases "drifted sv r")
    case True
    then obtain parsed where "current_permissions sv r = Inr parsed"
      "hash_permissions (ds_digest sv) parsed \<noteq> ir_permissions_hash r"
      by (auto simp: drifted_def split: sum.splits)
    then show ?thesis
      using Cons[of "marks {ir_installation_id r} s"] True
      by (cases "scan_each sv rs (marks {ir_installation_id r} s)") (simp add: scan_one_def mark insert_commute)
  next
    case False
    then have "scan_one sv r s = (None, s)"
      by (auto simp: scan_one_def drifted_def split: sum.splits)
    with Cons[of s] False show ?thesis by (cases "scan_each sv rs s") simp
  qed
qed

text \<open>Drift blocks minting. With a repository that marks as its protocol says, and distinct
  installation identifiers, a scan reports and marks exactly the installations whose permissions
  GitHub now answers with another hash: an installation whose check fails is skipped and the others
  are still scanned. Whatever the vault and GitHub answer, a marked installation mints no token, and
  the others are left as they were.\<close>

theorem drift_blocks_minting:
  fixes sv :: "InstallationRecord list DriftServices"
  assumes "\<And>i s. ds_mark_drift sv i s = (Inr (), marks {i} s)"
    and "\<And>s. ds_list_active sv s = s"
    and "distinct (map ir_installation_id installations)"
  shows "map de_installation_id (fst (scan_all sv installations)) =
      map ir_installation_id (filter (drifted sv) installations) \<and>
    snd (scan_all sv installations) =
      map (\<lambda>r. if drifted sv r then unacknowledged r else r) installations \<and>
    (\<forall>r services. drifted sv r \<longrightarrow>
       mint services (unacknowledged r) = Inl (MintingError ''permission_drift_unacknowledged''))"
proof -
  let ?ids = "ir_installation_id ` set (filter (drifted sv) installations)"
  have "ir_installation_id r \<in> ?ids \<longleftrightarrow> drifted sv r" if "r \<in> set installations" for r
    using that assms(3) by (auto simp: distinct_map dest: inj_onD)
  then have "marks ?ids installations = map (\<lambda>r. if drifted sv r then unacknowledged r else r) installations"
    unfolding marks_def by (intro map_cong) simp_all
  with scan_each_marks[OF assms(1), of installations installations] show ?thesis
    by (simp add: scan_all_def assms(2) mint_def unacknowledged_def)
qed

definition sample_installation :: "str \<Rightarrow> str \<Rightarrow> InstallationRecord" where
  "sample_installation i h =
     \<lparr>ir_installation_id = i, ir_tenant_id = ''acme'', ir_team_id = ''core'', ir_github_installation_id = 7,
      ir_github_base_url = ''url'', ir_permissions_hash = h, ir_drift_acknowledged = True\<rparr>"

definition sample_drift_services :: "InstallationRecord list DriftServices" where
  "sample_drift_services =
     \<lparr>ds_list_active = (\<lambda>s. s), ds_mark_drift = (\<lambda>i s. (Inr (), marks {i} s)),
      ds_get_jwt = (\<lambda>r. if ir_installation_id r = ''bad'' then Inl (OtherError ''vault'') else Inr ''jwt''),
      ds_get_permissions = (\<lambda>_ _ _. Inr [(''contents'', ''read''), (''issues'', ''none'')]),
      ds_digest = (\<lambda>ps. concat (map (\<lambda>(k, v). k @ v) ps))\<rparr>"

theorem drift_blocks_minting_witness:
  "map de_installation_id (fst (scan_all sample_drift_services
     [sample_installation ''bad'' ''x'', sample_installation ''old'' ''x'', sample_installation ''ok'' ''contentsread''])) =
   [''old'']"
proof -
  let ?rs = "[sample_installation ''bad'' ''x'', sample_installation ''old'' ''x'',
    sample_installation ''ok'' ''contentsread'']"
  have "map ir_installation_id (filter (drifted sample_drift_services) ?rs) = [''old'']" by code_simp
  moreover have "map de_installation_id (fst (scan_all sample_drift_services ?rs)) =
      map ir_installation_id (filter (drifted sample_drift_services) ?rs)"
    using drift_blocks_minting[of sample_drift_services ?rs]
    by (simp add: sample_drift_services_def sample_installation_def)
  ultimately show ?thesis by simp
qed

text \<open>A minted token belongs to the installation it was asked for and lives an hour from the call.\<close>

theorem minted_token:
  assumes "mint services r = Inr token"
  shows "ir_drift_acknowledged r \<and> it_token token \<noteq> [] \<and> it_installation_id token = ir_installation_id r \<and>
    it_tenant_id token = ir_tenant_id r \<and> it_team_id token = ir_team_id r \<and>
    it_expires_at_epoch token = ms_now services + 3600"
  using assms by (auto simp: mint_def Let_def TOKEN_TTL_SECONDS_def split: if_splits)

section \<open>Permission sets that cannot exist\<close>

lemma colon_split:
  "CHR '':'' \<notin> set a \<Longrightarrow> CHR '':'' \<notin> set b \<Longrightarrow> k @ '':'' @ v = a @ '':'' @ b \<longleftrightarrow> k = a \<and> v = b"
proof (induction k arbitrary: a)
  case Nil
  then show ?case by (cases a) auto
next
  case (Cons x k)
  then show ?case by (cases a) auto
qed

lemma grants_iff:
  assumes "CHR '':'' \<notin> set a" "CHR '':'' \<notin> set b"
  shows "a @ '':'' @ b \<in> grants granted \<longleftrightarrow> (a, b) \<in> set granted"
proof -
  have "a @ '':'' @ b = k @ '':'' @ v \<longleftrightarrow> (a, b) = (k, v)" for k v
    using colon_split[OF assms, of k v] by auto
  then show ?thesis unfolding grants_def image_iff by (metis (mono_tags, lifting) case_prod_conv surj_pair)
qed

text \<open>GitHub grants one level per permission, and the check takes \<open>write\<close> not to include \<open>read\<close>. An
  operation of the least-privilege table that needs to read contents and one that needs to write
  them are therefore never both allowed: an installation that can push a branch cannot open the pull
  request, and no installation has the minimum the source requires.\<close>

theorem push_excludes_pull_request:
  assumes "distinct (map fst granted)"
  shows "\<not> (pk_allowed (check_operation_permission ''push_branch'' granted) \<and>
            pk_allowed (check_operation_permission ''create_pull_request'' granted)) \<and>
         \<not> set MINIMUM_REQUIRED_PERMISSIONS \<subseteq> set (granted_set granted)"
proof -
  have may_read: "''contents:read'' \<in> grants granted \<longleftrightarrow> (''contents'', ''read'') \<in> set granted"
    and may_write: "''contents:write'' \<in> grants granted \<longleftrightarrow> (''contents'', ''write'') \<in> set granted"
    using grants_iff[of "''contents''" "''read''" granted] grants_iff[of "''contents''" "''write''" granted]
    by simp_all
  have "\<not> (''contents:read'' \<in> grants granted \<and> ''contents:write'' \<in> grants granted)"
    unfolding may_read may_write using assms eq_key_imp_eq_value[of granted "''contents''" "''read''" "''write''"] by auto
  moreover have "pk_allowed (check_operation_permission ''push_branch'' granted) \<Longrightarrow> ''contents:write'' \<in> grants granted"
    "pk_allowed (check_operation_permission ''create_pull_request'' granted) \<Longrightarrow> ''contents:read'' \<in> grants granted"
    by (simp_all add: check_known OPERATION_PERMISSIONS_def)
  ultimately show ?thesis
    by (auto simp: MINIMUM_REQUIRED_PERMISSIONS_def granted_set_iff)
qed

theorem push_excludes_pull_request_witness:
  "\<not> pk_allowed (check_operation_permission ''create_pull_request''
        [(''contents'', ''write''), (''pull_requests'', ''write''), (''metadata'', ''read'')]) \<and>
   pk_allowed (check_operation_permission ''push_branch''
        [(''contents'', ''write''), (''pull_requests'', ''write''), (''metadata'', ''read'')])"
proof -
  have "pk_allowed (check_operation_permission ''push_branch''
        [(''contents'', ''write''), (''pull_requests'', ''write''), (''metadata'', ''read'')])" by code_simp
  with push_excludes_pull_request[of "[(''contents'', ''write''), (''pull_requests'', ''write''), (''metadata'', ''read'')]"]
  show ?thesis by simp
qed

text \<open>Acknowledging a drift answers that it was acknowledged and changes no installation, so a marked
  installation stays blocked; a fresh opt-in to access tokens is not remembered either.\<close>

theorem acknowledgement_is_lost:
  "snd (acknowledge_drift ''super_admin'' (ir_installation_id r) [unacknowledged r]) = [unacknowledged r] \<and>
   mint services (unacknowledged r) = Inl (MintingError ''permission_drift_unacknowledged'') \<and>
   \<not> pm_pat_mode_active (get_pat_mode_status tenant_id team_id)"
  by (simp add: acknowledge_drift_def mint_def unacknowledged_def get_pat_mode_status_def)

end
