(* ===== verification/Telemetry.thy ===== *)
theory Telemetry
  imports ProviderHealth Strings
begin

text \<open>
  Metrics, health probes and the public status page: \<open>backend/persistence/telemetry.py\<close>, \<open>health.py\<close>,
  \<open>migrations.py\<close> (the decision of \<open>ensure_current\<close>) and \<open>backend/operations/status_page.py\<close>. How a
  float is printed and read back belongs to the language and is a pair of arguments; sums are exact.
  The lock and the time of a page are left out.
\<close>

section \<open>Metrics\<close>

type_synonym labels = "(str \<times> str) list"
type_synonym metric_key = "str \<times> labels"

record PersistenceTelemetry =
  te_gauges :: "(metric_key \<times> rat) list"
  te_counters :: "(metric_key \<times> rat) list"
  te_histograms :: "(metric_key \<times> rat list) list"

definition label_key :: "labels \<Rightarrow> labels" where
  "label_key ls = sort ls"

definition set_gauge :: "str \<Rightarrow> rat \<Rightarrow> labels \<Rightarrow> PersistenceTelemetry \<Rightarrow> PersistenceTelemetry" where
  "set_gauge name v ls t = t\<lparr>te_gauges := dict_set (name, label_key ls) v (te_gauges t)\<rparr>"

definition increment :: "str \<Rightarrow> rat \<Rightarrow> labels \<Rightarrow> PersistenceTelemetry \<Rightarrow> PersistenceTelemetry" where
  "increment name amount ls t =
     t\<lparr>te_counters := dict_set (name, label_key ls)
         (dict_getd (te_counters t) (name, label_key ls) 0 + amount) (te_counters t)\<rparr>"

definition observe :: "str \<Rightarrow> rat \<Rightarrow> labels \<Rightarrow> PersistenceTelemetry \<Rightarrow> PersistenceTelemetry" where
  "observe name v ls t =
     t\<lparr>te_histograms := dict_set (name, label_key ls)
         (dict_getd (te_histograms t) (name, label_key ls) [] @ [v]) (te_histograms t)\<rparr>"

definition render_metric :: "(rat \<Rightarrow> str) \<Rightarrow> str \<Rightarrow> rat \<Rightarrow> labels \<Rightarrow> str" where
  "render_metric float_str name v ls =
     name @ (if ls = [] then []
             else ''{'' @ str_join '','' (map (\<lambda>(k, x). k @ ''='' @ [CHR 0x22] @ x @ [CHR 0x22]) ls) @ ''}'') @
     '' '' @ float_str v"

definition render_lines :: "(rat \<Rightarrow> str) \<Rightarrow> PersistenceTelemetry \<Rightarrow> str list" where
  "render_lines float_str t =
     map (\<lambda>((name, ls), v). render_metric float_str name v ls) (sort_key fst (te_gauges t)) @
     map (\<lambda>((name, ls), v). render_metric float_str name v ls) (sort_key fst (te_counters t)) @
     concat (map (\<lambda>((name, ls), vs).
       [render_metric float_str (name @ ''_count'') (of_nat (length vs)) ls,
        render_metric float_str (name @ ''_sum'') (sum_list vs) ls]) (sort_key fst (te_histograms t)))"

definition render_prometheus :: "(rat \<Rightarrow> str) \<Rightarrow> PersistenceTelemetry \<Rightarrow> str" where
  "render_prometheus float_str t =
     (let lines = render_lines float_str t
      in str_join [CHR 0x0A] lines @ (if lines = [] then [] else [CHR 0x0A]))"

definition bootstrap_telemetry :: "str option \<Rightarrow> rat \<Rightarrow> rat \<Rightarrow> PersistenceTelemetry" where
  "bootstrap_telemetry migration_version pool_utilisation pool_wait_p95 =
     set_gauge ''devsquad_persistence_migration_info'' 1
       [(''revision'', case migration_version of None \<Rightarrow> ''unknown'' | Some v \<Rightarrow> if v = [] then ''unknown'' else v)]
     (set_gauge ''devsquad_encryption_rotation_due_total'' 0 []
     (set_gauge ''devsquad_encryption_rotation_sla_ratio'' 1 []
     (increment ''devsquad_budget_reservation_denials_total'' 0 []
     (increment ''devsquad_webhook_dedupe_hits_total'' 0 []
     (set_gauge ''devsquad_dlq_depth'' 0 []
     (set_gauge ''devsquad_provider_circuit_breaker_state'' 0 [(''provider_id'', ''bootstrap'')]
     (set_gauge ''devsquad_redis_command_p95_seconds'' 0 []
     (set_gauge ''devsquad_database_pool_wait_p95_seconds'' pool_wait_p95 []
     (set_gauge ''devsquad_database_pool_utilisation_ratio'' pool_utilisation []
       \<lparr>te_gauges = [], te_counters = [], te_histograms = []\<rparr>)))))))))"

text \<open>The gauge the Redis health store writes when a request asks its breaker, and when the state
  of a provider is read.\<close>

definition allow_request_gauge :: "str \<Rightarrow> bool \<Rightarrow> PersistenceTelemetry \<Rightarrow> PersistenceTelemetry" where
  "allow_request_gauge provider_id allowed =
     set_gauge ''devsquad_provider_circuit_breaker_state'' (if allowed then 1 else 0) [(''provider_id'', provider_id)]"

definition snapshot_gauge :: "str \<Rightarrow> ProviderHealthState \<Rightarrow> PersistenceTelemetry \<Rightarrow> PersistenceTelemetry" where
  "snapshot_gauge provider_id state =
     set_gauge ''devsquad_provider_circuit_breaker_state'' (if state = CLOSED then 1 else 0)
       [(''provider_id'', provider_id)]"

section \<open>Health\<close>

record MigrationStatus =
  mg_state :: str
  mg_expected_revision :: "str option"
  mg_current_revision :: "str option"
  mg_reason :: "str option"

text \<open>\<open>ensure_current\<close>: \<open>current\<close> reads the revision of the database, \<open>upgraded\<close> is what it reads after
  alembic has upgraded to the head.\<close>

definition ensure_current ::
  "bool \<Rightarrow> bool \<Rightarrow> str option \<Rightarrow> str option result \<Rightarrow> str option result \<Rightarrow> MigrationStatus result" where
  "ensure_current configured air_gapped_skip_migrations expected current upgraded =
     (if \<not> configured
      then Inr \<lparr>mg_state = ''not_configured'', mg_expected_revision = expected, mg_current_revision = None,
                mg_reason = Some ''database_url_missing''\<rparr>
      else bind_result current (\<lambda>revision.
        if air_gapped_skip_migrations
        then Inr \<lparr>mg_state = ''skipped'', mg_expected_revision = expected, mg_current_revision = revision,
                  mg_reason = Some ''air_gapped_preseeded_database''\<rparr>
        else if revision = expected
        then Inr \<lparr>mg_state = ''up_to_date'', mg_expected_revision = expected, mg_current_revision = revision,
                  mg_reason = None\<rparr>
        else bind_result upgraded (\<lambda>revision'.
             Inr \<lparr>mg_state = ''upgraded'', mg_expected_revision = expected, mg_current_revision = revision',
                  mg_reason = None\<rparr>)))"

record PersistenceHealthService =
  hs_database_ready :: bool
  hs_redis_ready :: bool
  hs_encryption_ready :: bool
  hs_migration_status :: "MigrationStatus option"
  hs_active_snapshot_id :: "str option"
  hs_capability_reasons :: "(str \<times> str) list"

record AdapterReadiness =
  ad_name :: str
  ad_configured :: bool
  ad_healthy :: bool

record PersistenceHealthSnapshot =
  hp_database :: AdapterReadiness
  hp_redis :: AdapterReadiness
  hp_encryption :: AdapterReadiness
  hp_migration :: "MigrationStatus option"
  hp_active_snapshot_id :: "str option"
  hp_migration_revision :: "str option"
  hp_capability_reasons :: "str list"

definition health_snapshot :: "PersistenceHealthService \<Rightarrow> PersistenceHealthSnapshot" where
  "health_snapshot h =
     (let adapter = (\<lambda>name ready. \<lparr>ad_name = name, ad_configured = ready, ad_healthy = ready\<rparr>)
      in \<lparr>hp_database = adapter ''database'' (hs_database_ready h),
          hp_redis = adapter ''redis'' (hs_redis_ready h),
          hp_encryption = adapter ''encryption'' (hs_encryption_ready h),
          hp_migration = hs_migration_status h,
          hp_active_snapshot_id = hs_active_snapshot_id h,
          hp_migration_revision = (case hs_migration_status h of None \<Rightarrow> None | Some m \<Rightarrow> mg_current_revision m),
          hp_capability_reasons = sort (map snd (hs_capability_reasons h))\<rparr>)"

definition update_migration_status :: "MigrationStatus \<Rightarrow> PersistenceHealthService \<Rightarrow> PersistenceHealthService" where
  "update_migration_status m h =
     h\<lparr>hs_migration_status := Some m,
       hs_database_ready := (if mg_current_revision m \<noteq> None then True else hs_database_ready h)\<rparr>"

definition update_active_snapshot_id :: "str option \<Rightarrow> PersistenceHealthService \<Rightarrow> PersistenceHealthService" where
  "update_active_snapshot_id snapshot_id h = h\<lparr>hs_active_snapshot_id := snapshot_id\<rparr>"

definition update_capability_probe ::
  "str \<Rightarrow> bool \<Rightarrow> str option \<Rightarrow> PersistenceHealthService \<Rightarrow> PersistenceHealthService" where
  "update_capability_probe name ready reason h =
     (if ready then h\<lparr>hs_capability_reasons := dict_pop name (hs_capability_reasons h)\<rparr>
      else h\<lparr>hs_capability_reasons := dict_set name
               (case reason of None \<Rightarrow> name @ ''_not_ready'' | Some r \<Rightarrow> if r = [] then name @ ''_not_ready'' else r)
               (hs_capability_reasons h)\<rparr>)"

record ProbeResult =
  pb_status :: str
  pb_reasons :: "str list"

definition migration_configured :: "PersistenceHealthService \<Rightarrow> bool" where
  "migration_configured h \<longleftrightarrow>
     (case hs_migration_status h of None \<Rightarrow> False | Some m \<Rightarrow> mg_state m \<noteq> ''not_configured'')"

definition liveness :: "PersistenceHealthService \<Rightarrow> ProbeResult" where
  "liveness h =
     (let reasons = (if migration_configured h \<and> \<not> hs_database_ready h then [''database_unhealthy''] else []) @
                    (if migration_configured h \<and> \<not> hs_redis_ready h then [''redis_unhealthy''] else [])
      in \<lparr>pb_status = (if reasons = [] then ''ok'' else ''degraded''), pb_reasons = reasons\<rparr>)"

definition readiness :: "PersistenceHealthService \<Rightarrow> ProbeResult" where
  "readiness h =
     (let reasons =
        (if migration_configured h \<and> \<not> hs_database_ready h then [''database_unhealthy''] else []) @
        (case hs_migration_status h of
           None \<Rightarrow> []
         | Some m \<Rightarrow> if mg_state m \<noteq> ''not_configured'' \<and> mg_current_revision m \<noteq> mg_expected_revision m
                     then [''migration_drift''] else []) @
        (if hs_database_ready h \<and> hs_active_snapshot_id h \<in> {None, Some []}
         then [''active_snapshot_missing''] else []) @
        sort (map snd (hs_capability_reasons h))
      in \<lparr>pb_status = (if reasons = [] then ''ok'' else ''not_ready''), pb_reasons = reasons\<rparr>)"

section \<open>The public status page\<close>

datatype PublicComponentStatus = OPERATIONAL | DEGRADED | PARTIAL_OUTAGE | MAJOR_OUTAGE

fun status_order :: "PublicComponentStatus \<Rightarrow> nat" where
  "status_order OPERATIONAL = 0"
| "status_order DEGRADED = 1"
| "status_order PARTIAL_OUTAGE = 2"
| "status_order MAJOR_OUTAGE = 3"

record PublicStatusComponent =
  pc_component :: str
  pc_status :: PublicComponentStatus
  pc_message :: str

record PublicStatusPage =
  pp_schema_version :: str
  pp_status :: PublicComponentStatus
  pp_components :: "PublicStatusComponent list"

definition component_of :: "str \<Rightarrow> PublicComponentStatus \<Rightarrow> str \<Rightarrow> PublicStatusComponent" where
  "component_of component status message =
     \<lparr>pc_component = component, pc_status = status, pc_message = message\<rparr>"

definition adapter_component :: "str \<Rightarrow> bool \<Rightarrow> bool \<Rightarrow> PublicStatusComponent" where
  "adapter_component component configured healthy =
     (if healthy then component_of component OPERATIONAL (component @ '' adapter is healthy.'')
      else if configured
      then component_of component MAJOR_OUTAGE (component @ '' adapter is configured but unhealthy.'')
      else component_of component DEGRADED (component @ '' adapter is not configured in this profile.''))"

definition worker_component :: "(str \<times> rat) list \<Rightarrow> PublicStatusComponent" where
  "worker_component metrics =
     (let dlq_depth = dict_getd metrics ''devsquad_dlq_depth'' 0
      in if dlq_depth \<ge> 100
         then component_of ''workers'' PARTIAL_OUTAGE ''Worker dead-letter queue growth indicates failed processing.''
         else if dlq_depth > 0
         then component_of ''workers'' DEGRADED ''Worker dead-letter queue has pending failures.''
         else component_of ''workers'' OPERATIONAL ''Worker queue signals are within public status thresholds.'')"

definition provider_routing_component :: "(str \<times> rat) list \<Rightarrow> PublicStatusComponent" where
  "provider_routing_component metrics =
     (let circuit_state = dict_getd metrics ''devsquad_provider_circuit_breaker_state'' 0
      in if circuit_state \<ge> 2
         then component_of ''provider_routing'' PARTIAL_OUTAGE ''Provider routing circuit breaker is open.''
         else if circuit_state > 0
         then component_of ''provider_routing'' DEGRADED ''Provider routing circuit breaker is probing recovery.''
         else component_of ''provider_routing'' OPERATIONAL ''Provider routing is within public status thresholds.'')"

text \<open>\<open>max(statuses, key=...)\<close>; the page always has components.\<close>

fun aggregate_status :: "PublicComponentStatus list \<Rightarrow> PublicComponentStatus" where
  "aggregate_status [] = OPERATIONAL"
| "aggregate_status [s] = s"
| "aggregate_status (s # t # ss) = aggregate_status ((if status_order s < status_order t then t else s) # ss)"

text \<open>One line of the metrics text: the name before the labels, and the value after the first space.\<close>

definition parse_line :: "(str \<Rightarrow> rat option) \<Rightarrow> str \<Rightarrow> (str \<times> rat) option" where
  "parse_line read_float line =
     (if line = [] \<or> startswith line ''#'' then None
      else let head = takeWhile (\<lambda>c. c \<noteq> CHR '' '') line;
               raw_value = drop (Suc (length head)) line
           in if raw_value = [] then None
              else case read_float raw_value of
                  None \<Rightarrow> None
                | Some v \<Rightarrow> Some (takeWhile (\<lambda>c. c \<noteq> CHR ''{'') head, v))"

definition note_metric :: "(str \<times> rat) option \<Rightarrow> (str \<times> rat) list \<Rightarrow> (str \<times> rat) list" where
  "note_metric parsed metrics =
     (case parsed of None \<Rightarrow> metrics
      | Some (name, v) \<Rightarrow> dict_set name (max (dict_getd metrics name v) v) metrics)"

definition parse_prometheus_metrics :: "(str \<Rightarrow> rat option) \<Rightarrow> str \<Rightarrow> (str \<times> rat) list" where
  "parse_prometheus_metrics read_float payload =
     fold note_metric (map (parse_line read_float) (str_split (CHR 0x0A) payload)) []"

definition status_page ::
  "(rat \<Rightarrow> str) \<Rightarrow> (str \<Rightarrow> rat option) \<Rightarrow> PersistenceHealthService \<Rightarrow> PersistenceTelemetry \<Rightarrow> PublicStatusPage" where
  "status_page float_str read_float h t =
     (let metrics = parse_prometheus_metrics read_float (render_prometheus float_str t);
          snapshot = health_snapshot h;
          live = pb_status (liveness h) = ''ok''; ready = pb_status (readiness h) = ''ok'';
          components =
            [component_of ''api'' (if live \<and> ready then OPERATIONAL else if live then DEGRADED else MAJOR_OUTAGE)
               ''API health and readiness probes are available.'',
             worker_component metrics,
             adapter_component ''database'' (ad_configured (hp_database snapshot)) (ad_healthy (hp_database snapshot)),
             adapter_component ''redis'' (ad_configured (hp_redis snapshot)) (ad_healthy (hp_redis snapshot)),
             provider_routing_component metrics,
             component_of ''sandbox_runtime'' OPERATIONAL ''Sandbox runtime has no active public incident signal.'',
             component_of ''persistence_backbone'' (if ready then OPERATIONAL else DEGRADED)
               ''Persistence readiness is reported through health probes.'']
      in \<lparr>pp_schema_version = ''public-status.v1'', pp_status = aggregate_status (map pc_status components),
          pp_components = components\<rparr>)"

section \<open>Spans\<close>

record TelemetrySpan =
  ts_name :: str
  ts_attributes :: "(str \<times> str) list"
  ts_duration_seconds :: rat

definition cleaned_attributes :: "(str \<times> str option) list \<Rightarrow> (str \<times> str) list" where
  "cleaned_attributes attributes = concat (map (\<lambda>(k, v). if v \<in> {None, Some []} then [] else [(k, the v)]) attributes)"

text \<open>What \<open>trace\<close> does when the traced block is left, by a value or by an exception: \<open>duration\<close> is the
  time the block took.\<close>

definition trace ::
  "rat \<Rightarrow> str \<Rightarrow> (str \<times> str option) list \<Rightarrow> (PersistenceTelemetry \<times> TelemetrySpan list, 'a) operation \<Rightarrow>
   (PersistenceTelemetry \<times> TelemetrySpan list, 'a) operation" where
  "trace duration name attributes block st =
     (case block st of
        (r, (telemetry, spans)) \<Rightarrow>
          (let cleaned = cleaned_attributes attributes
           in (r, (observe ''devsquad_persistence_operation_seconds'' duration
                     [(''subsystem'', dict_getd cleaned ''subsystem'' ''unknown''),
                      (''operation'', dict_getd cleaned ''operation'' name)] telemetry,
                   spans @ [\<lparr>ts_name = name, ts_attributes = cleaned, ts_duration_seconds = duration\<rparr>]))))"

end
