(* ===== verification/TelemetryCorrect.thy ===== *)
theory TelemetryCorrect
  imports Telemetry
begin

text \<open>
  Properties of metrics, probes and the status page: the parser of the page reads back what the
  renderer wrote, and what the page therefore says of workers, adapters and provider routing.
\<close>

section \<open>Rendering and parsing\<close>

lemma split_line: "c \<notin> set l \<Longrightarrow> str_split c (l @ c # rest) = l # str_split c rest"
proof (induction l)
  case Nil
  then show ?case by (cases "str_split c rest") auto
next
  case (Cons x l)
  then have "x \<noteq> c" by auto
  with Cons show ?case by simp
qed

lemma join_lines: "ls \<noteq> [] \<Longrightarrow> str_join [c] ls @ [c] = concat (map (\<lambda>l. l @ [c]) ls)"
  by (induction "[c]" ls rule: str_join.induct) auto

lemma split_joined:
  assumes "\<forall>l \<in> set ls. c \<notin> set l"
  shows "str_split c (concat (map (\<lambda>l. l @ [c]) ls)) = ls @ [[]]"
  using assms by (induction ls) (simp_all add: split_line)

text \<open>What the renderer writes, one sample per line.\<close>

definition samples_of :: "PersistenceTelemetry \<Rightarrow> (metric_key \<times> rat) list" where
  "samples_of t = sort_key fst (te_gauges t) @ sort_key fst (te_counters t) @
     concat (map (\<lambda>((name, ls), vs). [((name @ ''_count'', ls), of_nat (length vs)), ((name @ ''_sum'', ls), sum_list vs)])
       (sort_key fst (te_histograms t)))"

lemma render_lines_samples:
  "render_lines float_str t = map (\<lambda>((name, ls), v). render_metric float_str name v ls) (samples_of t)"
  by (simp add: render_lines_def samples_of_def map_concat comp_def case_prod_unfold)

text \<open>A sample whose name and labels have no space or line end, and whose value the language prints
  and reads back.\<close>

definition clean_text :: "str \<Rightarrow> bool" where
  "clean_text s \<longleftrightarrow> CHR '' '' \<notin> set s \<and> CHR 0x0A \<notin> set s"

definition float_ok :: "(rat \<Rightarrow> str) \<Rightarrow> (str \<Rightarrow> rat option) \<Rightarrow> rat \<Rightarrow> bool" where
  "float_ok float_str read_float v \<longleftrightarrow>
     read_float (float_str v) = Some v \<and> float_str v \<noteq> [] \<and> CHR 0x0A \<notin> set (float_str v)"

definition clean_sample :: "(rat \<Rightarrow> str) \<Rightarrow> (str \<Rightarrow> rat option) \<Rightarrow> metric_key \<times> rat \<Rightarrow> bool" where
  "clean_sample float_str read_float s = (case s of ((name, ls), v) \<Rightarrow>
     clean_text name \<and> CHR ''{'' \<notin> set name \<and> CHR ''#'' \<notin> set name \<and>
     list_all (\<lambda>(k, x). clean_text k \<and> clean_text x) ls \<and> float_ok float_str read_float v)"

definition label_text :: "labels \<Rightarrow> str" where
  "label_text ls =
     (if ls = [] then []
      else ''{'' @ str_join '','' (map (\<lambda>(k, x). k @ ''='' @ [CHR 0x22] @ x @ [CHR 0x22]) ls) @ ''}'')"

lemma set_str_join: "set (str_join sep ss) \<subseteq> set sep \<union> (\<Union>s \<in> set ss. set s)"
  by (induction sep ss rule: str_join.induct) auto

lemma clean_label_text: "list_all (\<lambda>(k, x). clean_text k \<and> clean_text x) ls \<Longrightarrow> clean_text (label_text ls)"
  using set_str_join[of "'',''" "map (\<lambda>(k, x). k @ ''='' @ [CHR 0x22] @ x @ [CHR 0x22]) ls"]
  by (auto simp: label_text_def clean_text_def list_all_iff)

lemma parse_rendered:
  assumes "clean_sample float_str read_float ((name, ls), v)"
  shows "parse_line read_float (render_metric float_str name v ls) = Some (name, v)"
    and "CHR 0x0A \<notin> set (render_metric float_str name v ls)"
proof -
  from assms have name: "clean_text name" "CHR ''{'' \<notin> set name" "CHR ''#'' \<notin> set name"
    and labels: "clean_text (label_text ls)" and v: "float_ok float_str read_float v"
    using clean_label_text by (auto simp: clean_sample_def)
  have line: "render_metric float_str name v ls = (name @ label_text ls) @ CHR '' '' # float_str v"
    by (simp add: render_metric_def label_text_def)
  have head: "takeWhile (\<lambda>c. c \<noteq> CHR '' '') (render_metric float_str name v ls) = name @ label_text ls"
    unfolding line using name(1) labels by (subst takeWhile_append2) (auto simp: clean_text_def)
  have "takeWhile (\<lambda>c. c \<noteq> CHR ''{'') (name @ label_text ls) = name"
    using name(2) by (subst takeWhile_append2) (auto simp: label_text_def)
  moreover have "drop (Suc (length (name @ label_text ls))) (render_metric float_str name v ls) = float_str v"
    unfolding line by simp
  moreover have "\<not> startswith (render_metric float_str name v ls) ''#''"
    unfolding line using name(3) by (cases name) (auto simp: startswith_def label_text_def)
  moreover have "render_metric float_str name v ls \<noteq> []" by (simp add: line)
  ultimately show "parse_line read_float (render_metric float_str name v ls) = Some (name, v)"
    using v by (simp add: parse_line_def Let_def head float_ok_def del: drop_eq_Nil drop_eq_Nil2)
  show "CHR 0x0A \<notin> set (render_metric float_str name v ls)"
    unfolding line using name labels v by (auto simp: clean_text_def float_ok_def)
qed

lemma parse_render:
  assumes "\<forall>s \<in> set (samples_of t). clean_sample float_str read_float s"
  shows "parse_prometheus_metrics read_float (render_prometheus float_str t) =
    fold note_metric (map (\<lambda>((name, ls), v). Some (name, v)) (samples_of t)) []"
proof -
  let ?lines = "render_lines float_str t"
  have clean: "\<forall>l \<in> set ?lines. CHR 0x0A \<notin> set l"
    using assms parse_rendered(2) by (fastforce simp: render_lines_samples)
  have "render_prometheus float_str t = concat (map (\<lambda>l. l @ [CHR 0x0A]) ?lines)"
    using join_lines[of ?lines] by (simp add: render_prometheus_def Let_def)
  then have "str_split (CHR 0x0A) (render_prometheus float_str t) = ?lines @ [[]]"
    using split_joined[OF clean] by simp
  moreover have "parse_line read_float [] = None" by (simp add: parse_line_def)
  moreover have "map (parse_line read_float) ?lines = map (\<lambda>((name, ls), v). Some (name, v)) (samples_of t)"
    using assms parse_rendered(1) by (fastforce simp: render_lines_samples)
  ultimately show ?thesis by (simp add: parse_prometheus_metrics_def note_metric_def)
qed

lemma note_metric_reaches:
  assumes "\<And>x y. P x \<Longrightarrow> x \<le> y \<Longrightarrow> P y" and "\<not> P 0"
  shows "P (dict_getd (fold note_metric (map (\<lambda>((name, ls), v). Some (name, v)) ss) m) n (0 :: rat)) \<longleftrightarrow>
    P (dict_getd m n 0) \<or> (\<exists>ls v. ((n, ls), v) \<in> set ss \<and> P v)"
proof (induction ss arbitrary: m)
  case Nil
  then show ?case by simp
next
  case (Cons s ss)
  obtain k ls v where s: "s = ((k, ls), v)" by (metis surj_pair)
  have step: "P (dict_getd (note_metric (Some (k, v)) m) n 0) \<longleftrightarrow> P (dict_getd m n 0) \<or> (k = n \<and> P v)"
    using assms by (auto simp: note_metric_def dict_getd_def max_def split: option.splits)
  show ?case unfolding s by (auto simp: Cons.IH step)
qed

section \<open>Breakers on the page\<close>

definition circuit_metric :: str where
  "circuit_metric = ''devsquad_provider_circuit_breaker_state''"

definition breaker_key :: "str \<Rightarrow> metric_key" where
  "breaker_key p = (circuit_metric, [(''provider_id'', p)])"

lemma breaker_key_eq [simp]: "breaker_key p = breaker_key q \<longleftrightarrow> p = q"
  by (simp add: breaker_key_def)

text \<open>The gauges after a history of verdicts: which provider was asked, and whether it was admitted.\<close>

definition after_requests :: "(str \<times> bool) list \<Rightarrow> PersistenceTelemetry \<Rightarrow> PersistenceTelemetry" where
  "after_requests history t = fold (\<lambda>(p, allowed). allow_request_gauge p allowed) history t"

lemma after_requests_simps [simp]:
  "after_requests [] t = t"
  "te_gauges (after_requests (history @ [(p, a)]) t) =
     dict_set (breaker_key p) (if a then 1 else 0) (te_gauges (after_requests history t))"
  "te_counters (after_requests history t) = te_counters t"
  "te_histograms (after_requests history t) = te_histograms t"
proof -
  show "te_gauges (after_requests (history @ [(p, a)]) t) =
      dict_set (breaker_key p) (if a then 1 else 0) (te_gauges (after_requests history t))"
    by (simp add: after_requests_def allow_request_gauge_def set_gauge_def label_key_def breaker_key_def
        circuit_metric_def)
  show "te_counters (after_requests history t) = te_counters t"
    "te_histograms (after_requests history t) = te_histograms t"
    by (induction history rule: rev_induct)
      (auto simp: after_requests_def allow_request_gauge_def set_gauge_def)
qed (simp add: after_requests_def)

definition last_verdict :: "(str \<times> bool) list \<Rightarrow> str \<Rightarrow> bool option" where
  "last_verdict history p = dict_get (dict_of history) p"

lemma last_verdict_snoc [simp]:
  "last_verdict [] p = None"
  "last_verdict (history @ [(q, a)]) p = (if p = q then Some a else last_verdict history p)"
  by (simp_all add: last_verdict_def dict_of_def)

lemma distinct_mem_dict: "distinct (map fst d) \<Longrightarrow> (k, v) \<in> set d \<longleftrightarrow> dict_get d k = Some v"
proof (induction d)
  case Nil
  then show ?case by simp
next
  case (Cons q d)
  then show ?case by (cases q) (auto dest: dict_get_SomeD simp: rev_image_eqI)
qed

lemma gauges_after:
  assumes "distinct (map fst (te_gauges t))"
  shows "distinct (map fst (te_gauges (after_requests history t))) \<and>
    dict_get (te_gauges (after_requests history t)) (breaker_key p) =
      (case last_verdict history p of Some a \<Rightarrow> Some (if a then 1 else 0)
       | None \<Rightarrow> dict_get (te_gauges t) (breaker_key p))"
  using assms by (induction history rule: rev_induct) auto

lemma set_dict_set_subset: "set (dict_set k v d) \<subseteq> insert (k, v) (set d)"
  by (induction d) (auto split: if_splits)

lemma gauges_after_cases:
  "g \<in> set (te_gauges (after_requests history t)) \<Longrightarrow>
     g \<in> set (te_gauges t) \<or> (\<exists>q v. g = (breaker_key q, v) \<and> q \<in> fst ` set history \<and> v \<in> {0, 1})"
proof (induction history rule: rev_induct)
  case Nil
  then show ?case by simp
next
  case (snoc x history)
  obtain q a where x: "x = (q, a)" by (cases x)
  from snoc.prems have "g \<in> insert (breaker_key q, if a then 1 else 0) (set (te_gauges (after_requests history t)))"
    unfolding x after_requests_simps by (rule subsetD[OF set_dict_set_subset])
  then show ?case
  proof
    assume "g = (breaker_key q, if a then 1 else 0)"
    then show ?thesis by (simp add: x)
  next
    assume "g \<in> set (te_gauges (after_requests history t))"
    from snoc.IH[OF this] show ?thesis by auto
  qed
qed

lemma bootstrap_samples:
  "te_gauges (bootstrap_telemetry revision u w) =
    [((''devsquad_database_pool_utilisation_ratio'', []), u),
     ((''devsquad_database_pool_wait_p95_seconds'', []), w),
     ((''devsquad_redis_command_p95_seconds'', []), 0),
     (breaker_key ''bootstrap'', 0), ((''devsquad_dlq_depth'', []), 0),
     ((''devsquad_encryption_rotation_sla_ratio'', []), 1),
     ((''devsquad_encryption_rotation_due_total'', []), 0),
     ((''devsquad_persistence_migration_info'',
       [(''revision'', case revision of None \<Rightarrow> ''unknown'' | Some v \<Rightarrow> if v = [] then ''unknown'' else v)]), 1)]"
  "te_counters (bootstrap_telemetry revision u w) =
    [((''devsquad_webhook_dedupe_hits_total'', []), 0), ((''devsquad_budget_reservation_denials_total'', []), 0)]"
  "te_histograms (bootstrap_telemetry revision u w) = []"
  by (simp_all add: bootstrap_telemetry_def set_gauge_def increment_def label_key_def dict_getd_def
      breaker_key_def circuit_metric_def)

lemma samples_after_bootstrap:
  "set (samples_of (after_requests history (bootstrap_telemetry revision u w))) =
     set (te_gauges (after_requests history (bootstrap_telemetry revision u w))) \<union>
     {((''devsquad_webhook_dedupe_hits_total'', []), 0), ((''devsquad_budget_reservation_denials_total'', []), 0)}"
  by (simp add: samples_of_def bootstrap_samples insert_commute)

lemma circuit_samples:
  "(\<exists>ls v. ((circuit_metric, ls), v) \<in> set (samples_of (after_requests history (bootstrap_telemetry revision u w))) \<and>
     P v) \<longleftrightarrow>
   (\<exists>p v. dict_get (te_gauges (after_requests history (bootstrap_telemetry revision u w))) (breaker_key p) = Some v \<and> P v)"
proof -
  let ?t = "after_requests history (bootstrap_telemetry revision u w)"
  have distinct: "distinct (map fst (te_gauges ?t))"
    using gauges_after[of "bootstrap_telemetry revision u w" history]
    by (simp add: bootstrap_samples breaker_key_def circuit_metric_def)
  have only: "\<exists>p. ls = [(''provider_id'', p)]" if "((circuit_metric, ls), v) \<in> set (te_gauges ?t)" for ls v
    using gauges_after_cases[OF that]
    by (auto simp: bootstrap_samples breaker_key_def circuit_metric_def)
  have "((circuit_metric, ls), v) \<in> set (samples_of ?t) \<longleftrightarrow> ((circuit_metric, ls), v) \<in> set (te_gauges ?t)" for ls v
    by (simp add: samples_after_bootstrap circuit_metric_def)
  then show ?thesis
    using only distinct_mem_dict[OF distinct] by (metis breaker_key_def)
qed

lemma clean_after_bootstrap:
  assumes "\<And>v. v \<in> {0, 1, u, w} \<Longrightarrow> float_ok float_str read_float v"
    and "\<forall>p \<in> fst ` set history. clean_text p"
    and "case revision of None \<Rightarrow> True | Some r \<Rightarrow> clean_text r"
    and s: "s \<in> set (samples_of (after_requests history (bootstrap_telemetry revision u w)))"
  shows "clean_sample float_str read_float s"
proof -
  have breaker: "clean_sample float_str read_float (breaker_key p, v)"
    if "clean_text p" "v \<in> {0, 1}" for p v
    using that assms(1) by (auto simp: clean_sample_def breaker_key_def circuit_metric_def clean_text_def)
  have info: "clean_text (case revision of None \<Rightarrow> ''unknown'' | Some v \<Rightarrow> if v = [] then ''unknown'' else v)"
    using assms(3) by (auto simp: clean_text_def split: option.splits)
  have floats: "float_ok float_str read_float 0" "float_ok float_str read_float 1"
      "float_ok float_str read_float u" "float_ok float_str read_float w"
    by (simp_all add: assms(1))
  have "list_all (clean_sample float_str read_float) (te_gauges (bootstrap_telemetry revision u w))"
    unfolding bootstrap_samples using floats info breaker[of "''bootstrap''" 0]
    by (simp add: clean_sample_def clean_text_def)
  then have boot: "s \<in> set (te_gauges (bootstrap_telemetry revision u w)) \<Longrightarrow> clean_sample float_str read_float s"
    by (simp add: list_all_iff)
  from s consider "s \<in> set (te_gauges (after_requests history (bootstrap_telemetry revision u w)))"
    | "s \<in> {((''devsquad_webhook_dedupe_hits_total'', []), 0), ((''devsquad_budget_reservation_denials_total'', []), 0)}"
    unfolding samples_after_bootstrap Un_iff by (elim disjE) assumption+
  then show ?thesis
  proof cases
    case 1
    from gauges_after_cases[OF this] show ?thesis
    proof (elim disjE exE conjE)
      fix q v assume "s = (breaker_key q, v)" "q \<in> fst ` set history" "v \<in> {0, 1}"
      with breaker[of q v] assms(2) show ?thesis by simp
    qed (rule boot)
  next
    case 2
    with floats show ?thesis by (auto simp: clean_sample_def clean_text_def)
  qed
qed

text \<open>The status page inverts the breakers. The health store writes 1 for a provider whose
  request is admitted and 0 for one whose circuit is open, while the page reads 0 as healthy, 1 as
  probing and 2 as open. After any history of requests the page therefore reports provider routing as
  degraded exactly while the last request of some provider was admitted, as operational when all
  circuits are open, and never as an outage.\<close>

theorem status_page_inverts_breakers:
  fixes h :: PersistenceHealthService
  assumes "\<And>v. v \<in> {0, 1, u, w} \<Longrightarrow> float_ok float_str read_float v"
    and "\<forall>p \<in> fst ` set history. clean_text p"
    and "case revision of None \<Rightarrow> True | Some r \<Rightarrow> clean_text r"
  defines "page \<equiv> status_page float_str read_float h (after_requests history (bootstrap_telemetry revision u w))"
  shows "map pc_status (filter (\<lambda>c. pc_component c = ''provider_routing'') (pp_components page)) =
    [if \<exists>p. last_verdict history p = Some True then DEGRADED else OPERATIONAL]"
proof -
  let ?t = "after_requests history (bootstrap_telemetry revision u w)"
  define metrics where "metrics = parse_prometheus_metrics read_float (render_prometheus float_str ?t)"
  have reaches: "P (dict_getd metrics circuit_metric 0) \<longleftrightarrow> (\<exists>p. last_verdict history p = Some True \<and> P 1)"
    if mono: "\<And>x y. P x \<Longrightarrow> x \<le> y \<Longrightarrow> P y" and zero: "\<not> P 0" for P :: "rat \<Rightarrow> bool"
  proof -
    have "P (dict_getd metrics circuit_metric 0) \<longleftrightarrow>
        (\<exists>ls v. ((circuit_metric, ls), v) \<in> set (samples_of ?t) \<and> P v)"
      unfolding metrics_def
      by (subst parse_render, use clean_after_bootstrap[OF assms(1-3)] in blast,
          subst note_metric_reaches[where P = P, OF mono zero]) (auto simp: dict_getd_def zero)
    also have "\<dots> \<longleftrightarrow> (\<exists>p v. dict_get (te_gauges ?t) (breaker_key p) = Some v \<and> P v)"
      by (rule circuit_samples)
    also have "\<dots> \<longleftrightarrow> (\<exists>p. last_verdict history p = Some True \<and> P 1)"
    proof -
      have initial: "dict_get (te_gauges (bootstrap_telemetry revision u w)) (breaker_key p) \<in> {None, Some 0}" for p
        by (auto simp: bootstrap_samples breaker_key_def circuit_metric_def)
      have "distinct (map fst (te_gauges (bootstrap_telemetry revision u w)))"
        by (simp add: bootstrap_samples breaker_key_def circuit_metric_def)
      note final = gauges_after[OF this, of history, THEN conjunct2]
      have "(\<exists>v. dict_get (te_gauges ?t) (breaker_key p) = Some v \<and> P v) \<longleftrightarrow>
          last_verdict history p = Some True \<and> P 1" for p
        using initial[of p] zero by (cases "last_verdict history p") (auto simp: final)
      then show ?thesis by blast
    qed
    finally show ?thesis .
  qed
  have "provider_routing_component metrics = component_of ''provider_routing''
      (if \<exists>p. last_verdict history p = Some True then DEGRADED else OPERATIONAL)
      (if \<exists>p. last_verdict history p = Some True then ''Provider routing circuit breaker is probing recovery.''
       else ''Provider routing is within public status thresholds.'')"
    using reaches[of "\<lambda>x. x \<ge> 2"] reaches[of "\<lambda>x. x > 0"]
    by (auto simp: provider_routing_component_def Let_def circuit_metric_def[symmetric])
  then show ?thesis
    by (simp add: page_def status_page_def Let_def metrics_def[symmetric] component_of_def
        worker_component_def adapter_component_def)
qed

definition sample_float_str :: "rat \<Rightarrow> str" where
  "sample_float_str x = (if x = 0 then ''0.0'' else ''1.0'')"

definition sample_read_float :: "str \<Rightarrow> rat option" where
  "sample_read_float s = (if s = ''0.0'' then Some 0 else if s = ''1.0'' then Some 1 else None)"

definition sample_health :: PersistenceHealthService where
  "sample_health =
     \<lparr>hs_database_ready = True, hs_redis_ready = True, hs_encryption_ready = True, hs_migration_status = None,
      hs_active_snapshot_id = Some ''s1'', hs_capability_reasons = []\<rparr>"

theorem status_page_inverts_breakers_witness:
  "map pc_status (filter (\<lambda>c. pc_component c = ''provider_routing'')
     (pp_components (status_page sample_float_str sample_read_float sample_health
        (after_requests [(''openai'', False)] (bootstrap_telemetry None 0 0))))) = [OPERATIONAL]"
proof -
  have "float_ok sample_float_str sample_read_float v" if "v \<in> {0, 1, 0, 0}" for v
    using that by (auto simp: float_ok_def sample_float_str_def sample_read_float_def)
  moreover have "\<forall>p \<in> fst ` set [(''openai'', False)]. clean_text p" by (simp add: clean_text_def)
  moreover have "last_verdict [(''openai'', False)] p \<noteq> Some True" for p
    by (simp add: last_verdict_def dict_of_def)
  ultimately show ?thesis
    using status_page_inverts_breakers[where u = 0 and w = 0 and history = "[(''openai'', False)]" and h = sample_health
        and revision = None and float_str = sample_float_str and read_float = sample_read_float]
    by simp
qed

section \<open>Adapters and probes\<close>

text \<open>The health service passes one flag as configured and as healthy, so an adapter that fails is
  shown as not configured and the page never reports its outage.\<close>

theorem adapter_outage_never_shown:
  "\<forall>c \<in> set (pp_components (status_page float_str read_float h t)).
     pc_component c \<in> {''database'', ''redis''} \<longrightarrow> pc_status c \<in> {OPERATIONAL, DEGRADED}"
  by (auto simp: status_page_def Let_def health_snapshot_def adapter_component_def component_of_def
      worker_component_def provider_routing_component_def)

lemma aggregate_status_max:
  "ss \<noteq> [] \<Longrightarrow> aggregate_status ss \<in> set ss \<and> (\<forall>s \<in> set ss. status_order s \<le> status_order (aggregate_status ss))"
  by (induction ss rule: aggregate_status.induct) auto

text \<open>A backend whose migrations are current, whose database is up, whose snapshot is active and whose
  capability probes are all clear is ready, and no other is.\<close>

theorem ready_iff:
  "pb_status (readiness h) = ''ok'' \<longleftrightarrow>
     (migration_configured h \<longrightarrow> hs_database_ready h \<and>
        map_option mg_current_revision (hs_migration_status h) = map_option mg_expected_revision (hs_migration_status h)) \<and>
     (hs_database_ready h \<longrightarrow> hs_active_snapshot_id h \<notin> {None, Some []}) \<and>
     hs_capability_reasons h = []"
proof -
  have "sort xs = [] \<longleftrightarrow> xs = []" for xs :: "str list" by (metis length_0_conv length_sort)
  then show ?thesis
    by (auto simp: readiness_def Let_def migration_configured_def split: option.splits if_splits)
qed

text \<open>Tracing neither changes what a block returns nor loses a block that raises: there is one more span,
  and one more observation under the labels of the block.\<close>

theorem trace_records_every_block:
  assumes "block st = (r, (telemetry, spans))"
  shows "\<exists>telemetry' span. trace duration name attributes block st = (r, (telemetry', spans @ [span])) \<and>
     ts_name span = name \<and> ts_duration_seconds span = duration \<and> te_gauges telemetry' = te_gauges telemetry \<and>
     te_counters telemetry' = te_counters telemetry \<and>
     (\<exists>ls. dict_getd (te_histograms telemetry') (''devsquad_persistence_operation_seconds'', ls) [] =
           dict_getd (te_histograms telemetry) (''devsquad_persistence_operation_seconds'', ls) [] @ [duration])"
  using assms by (auto simp: trace_def observe_def Let_def dict_getd_def)

end
