(* ===== verification/Operations.thy ===== *)
theory Operations
  imports Strings
begin

text \<open>
  Operations: \<open>backend/operations/feature_flags.py\<close>, \<open>feature_flag_service.py\<close>, \<open>slo.py\<close>, \<open>release.py\<close>,
  \<open>retention.py\<close>, \<open>resilience.py\<close>, \<open>quality.py\<close> and \<open>observability.py\<close>. All of it computes on its
  arguments, except the audit log of the flag service, the incident catalog, and the clock, which is
  an argument. Flag contexts are not modelled, as no evaluation reads them.
\<close>

section \<open>Feature flags\<close>

datatype FlagProvider = UNLEASH | LAUNCHDARKLY | POSTGRES_MIRROR

definition MANDATORY_KILL_SWITCHES :: "(str \<times> str \<times> str) list" where
  "MANDATORY_KILL_SWITCHES =
     [(''llm_provider_anthropic'', ''llm-governance'', ''Kill switch for Anthropic provider routing''),
      (''llm_provider_openai'', ''llm-governance'', ''Kill switch for OpenAI provider routing''),
      (''pr_creation'', ''runtime-pipeline'', ''Kill switch for PR creation node''),
      (''graph_activation'', ''runtime-pipeline'', ''Kill switch for graph execution activation''),
      (''sandbox_runtime_gvisor'', ''sandbox-execution'', ''Kill switch for gVisor sandbox runtime''),
      (''ticket_processing'', ''runtime-pipeline'', ''Global kill switch for ticket processing'')]"

record KillSwitchState =
  ks_flag_key :: str
  ks_enabled :: bool
  ks_owner :: str
  ks_description :: str
  ks_last_modified :: datetime
  ks_modified_by :: str

text \<open>The two provider evaluations and the mirror are stubs in the source: they answer true, true and
  false.\<close>

definition evaluate_unleash :: "str \<Rightarrow> bool result" where "evaluate_unleash flag_key = Inr True"
definition evaluate_launchdarkly :: "str \<Rightarrow> bool result" where "evaluate_launchdarkly flag_key = Inr True"
definition evaluate_mirror :: "str \<Rightarrow> bool result" where "evaluate_mirror flag_key = Inr False"

definition evaluate_primary :: "FlagProvider \<Rightarrow> str \<Rightarrow> bool result" where
  "evaluate_primary provider flag_key =
     (case provider of
        UNLEASH \<Rightarrow> evaluate_unleash flag_key
      | LAUNCHDARKLY \<Rightarrow> evaluate_launchdarkly flag_key
      | POSTGRES_MIRROR \<Rightarrow> Inl (ValueError ''Unsupported primary provider''))"

definition is_enabled :: "FlagProvider \<Rightarrow> str \<Rightarrow> bool result" where
  "is_enabled provider flag_key =
     (case evaluate_primary provider flag_key of Inr b \<Rightarrow> Inr b | Inl _ \<Rightarrow> evaluate_mirror flag_key)"

definition get_kill_switch_state :: "FlagProvider \<Rightarrow> datetime \<Rightarrow> str \<Rightarrow> KillSwitchState result" where
  "get_kill_switch_state provider now flag_key =
     (case dict_get MANDATORY_KILL_SWITCHES flag_key of
        None \<Rightarrow> Inl (ValueError (''Unknown kill switch: '' @ flag_key))
      | Some (owner, description) \<Rightarrow>
          Inr \<lparr>ks_flag_key = flag_key,
               ks_enabled = (case is_enabled provider flag_key of Inr b \<Rightarrow> b | Inl _ \<Rightarrow> False),
               ks_owner = owner, ks_description = description, ks_last_modified = now,
               ks_modified_by = ''system''\<rparr>)"

record FlagToggleRecord =
  ft_flag_key :: str
  ft_previous_enabled :: bool
  ft_new_enabled :: bool
  ft_changed_by :: str
  ft_reason :: "str option"
  ft_changed_at :: datetime

record StaleFlagAlert =
  sf_flag_key :: str
  sf_owner :: str
  sf_days_since_modified :: int
  sf_stale_threshold_days :: int

record FeatureFlagService =
  fs_provider :: FlagProvider
  fs_stale_threshold_days :: int
  fs_audit_log :: "FlagToggleRecord list"

definition are_all_kill_switches_healthy ::
  "datetime \<Rightarrow> FeatureFlagService \<Rightarrow> (str \<times> KillSwitchState result) list" where
  "are_all_kill_switches_healthy now sv =
     map (\<lambda>(flag_key, _). (flag_key, get_kill_switch_state (fs_provider sv) now flag_key)) MANDATORY_KILL_SWITCHES"

definition toggle_flag ::
  "datetime \<Rightarrow> str \<Rightarrow> bool \<Rightarrow> str \<Rightarrow> str option \<Rightarrow> (FeatureFlagService, FlagToggleRecord) operation" where
  "toggle_flag now flag_key enabled changed_by reason sv =
     (case is_enabled (fs_provider sv) flag_key of
        Inl e \<Rightarrow> (Inl e, sv)
      | Inr previous \<Rightarrow>
          let r = \<lparr>ft_flag_key = flag_key, ft_previous_enabled = previous, ft_new_enabled = enabled,
                   ft_changed_by = changed_by, ft_reason = reason, ft_changed_at = now\<rparr>
          in (Inr r, sv\<lparr>fs_audit_log := fs_audit_log sv @ [r]\<rparr>))"

definition get_audit_log :: "str option \<Rightarrow> FeatureFlagService \<Rightarrow> FlagToggleRecord list" where
  "get_audit_log flag_key sv =
     (case flag_key of
        None \<Rightarrow> fs_audit_log sv
      | Some k \<Rightarrow> if k = [] then fs_audit_log sv else filter (\<lambda>r. ft_flag_key r = k) (fs_audit_log sv))"

text \<open>A flag as the caller passes it: key, owner and time of its last change, the last two optional.\<close>

definition detect_stale_flags ::
  "datetime \<Rightarrow> (str \<times> str option \<times> datetime option) list \<Rightarrow> FeatureFlagService \<Rightarrow> StaleFlagAlert list" where
  "detect_stale_flags now flags sv =
     concat (map (\<lambda>(flag_key, owner, last_modified).
       case last_modified of
         None \<Rightarrow> []
       | Some t \<Rightarrow>
           let days_since = (now - t) div day_us
           in if days_since \<ge> fs_stale_threshold_days sv
              then [\<lparr>sf_flag_key = flag_key,
                     sf_owner = (case owner of None \<Rightarrow> ''unknown'' | Some o' \<Rightarrow> o'),
                     sf_days_since_modified = days_since,
                     sf_stale_threshold_days = fs_stale_threshold_days sv\<rparr>]
              else []) flags)"

section \<open>Service levels\<close>

record SliDefinition =
  sl_sli_id :: str
  sl_objective_percent :: decimal
  sl_measurement_window :: str
  sl_numerator_query :: str
  sl_denominator_query :: str
  sl_exclusion_query :: "str option"

record SliObservation =
  so_total_events :: int
  so_successful_events :: int
  so_excluded_events :: int

record SliEvaluation =
  se_effective_total :: int
  se_effective_success :: int
  se_availability_percent :: decimal
  se_objective_percent :: decimal
  se_error_budget_remaining_percent :: decimal

text \<open>\<open>quantize(Decimal("0.01"))\<close> in the default context: to the nearest hundredth, ties to even.\<close>

definition round_half_even :: "decimal \<Rightarrow> int" where
  "round_half_even x =
     (let n = \<lfloor>x\<rfloor>; r = x - of_int n
      in if r < 1 / 2 then n else if r > 1 / 2 then n + 1 else if even n then n else n + 1)"

definition quantize2 :: "decimal \<Rightarrow> decimal" where
  "quantize2 x = of_int (round_half_even (x * 100)) / 100"

definition evaluate_sli :: "SliDefinition \<Rightarrow> SliObservation \<Rightarrow> SliEvaluation" where
  "evaluate_sli d obs =
     (let total = max (so_total_events obs - so_excluded_events obs) 0;
          success = min (so_successful_events obs) total;
          availability = (if total \<noteq> 0 then of_int success / of_int total * 100 else 100);
          allowed_failure_rate = 100 - sl_objective_percent d;
          actual_failure_rate = 100 - availability;
          remaining = (if allowed_failure_rate \<le> 0 then 0
                       else max 0 (100 - actual_failure_rate / allowed_failure_rate * 100))
      in \<lparr>se_effective_total = total, se_effective_success = success,
          se_availability_percent = quantize2 availability,
          se_objective_percent = sl_objective_percent d,
          se_error_budget_remaining_percent = quantize2 remaining\<rparr>)"

record BurnRateAlertPolicy =
  br_sli_id :: str
  br_short_window :: str
  br_long_window :: str
  br_warning_burn_rate :: decimal
  br_critical_burn_rate :: decimal

record BurnRateDecision =
  bd_triggered :: bool
  bd_severity :: str

definition evaluate_burn_rate :: "BurnRateAlertPolicy \<Rightarrow> decimal \<Rightarrow> BurnRateDecision" where
  "evaluate_burn_rate policy current_burn_rate =
     (if current_burn_rate \<ge> br_critical_burn_rate policy then \<lparr>bd_triggered = True, bd_severity = ''critical''\<rparr>
      else if current_burn_rate \<ge> br_warning_burn_rate policy
      then \<lparr>bd_triggered = True, bd_severity = ''warning''\<rparr>
      else \<lparr>bd_triggered = False, bd_severity = ''none''\<rparr>)"

datatype ErrorBudgetState = HEALTHY | LOW | EXHAUSTED

record ErrorBudgetReport =
  eb_sli_id :: str
  eb_state :: ErrorBudgetState
  eb_remaining_percent :: decimal
  eb_release_blocked :: bool

definition error_budget_report :: "SliDefinition \<Rightarrow> SliEvaluation \<Rightarrow> ErrorBudgetReport" where
  "error_budget_report d e =
     (let remaining = se_error_budget_remaining_percent e;
          state = (if remaining \<le> 0 then EXHAUSTED else if remaining \<le> 50 then LOW else HEALTHY)
      in \<lparr>eb_sli_id = sl_sli_id d, eb_state = state, eb_remaining_percent = remaining,
          eb_release_blocked = (state = EXHAUSTED)\<rparr>)"

section \<open>Releases\<close>

record PipelineStage =
  ps_stage_name :: str
  ps_required_gates :: "str list"

record StageEvaluationResult =
  sr_passed :: bool
  sr_missing_gates :: "str list"

record RolloutAnalysis =
  ra_error_budget_burn_rate :: decimal
  ra_health_regressed :: bool
  ra_kill_switch_engaged :: bool

record RolloutDecision =
  rd_proceed :: bool
  rd_rollback :: bool
  rd_reasons :: "str list"

record MigrationPlan =
  mp_change_id :: str
  mp_expand_first :: bool
  mp_rollback_tested :: bool

definition evaluate_stage :: "PipelineStage list \<Rightarrow> str \<Rightarrow> (str \<times> bool) list \<Rightarrow> StageEvaluationResult result" where
  "evaluate_stage stages stage_name gate_results =
     (case dict_get (dict_of (map (\<lambda>s. (ps_stage_name s, s)) stages)) stage_name of
        None \<Rightarrow> Inl (KeyError stage_name)
      | Some stage \<Rightarrow>
          let missing = filter (\<lambda>gate. \<not> dict_getd gate_results gate False) (ps_required_gates stage)
          in Inr \<lparr>sr_passed = (missing = []), sr_missing_gates = missing\<rparr>)"

definition evaluate_rollout :: "RolloutAnalysis \<Rightarrow> RolloutDecision" where
  "evaluate_rollout a =
     (let reasons = (if ra_health_regressed a then [''health_regressed''] else []) @
                    (if ra_error_budget_burn_rate a > 2 then [''burn_rate_threshold_exceeded''] else []) @
                    (if ra_kill_switch_engaged a then [''kill_switch_engaged''] else [])
      in \<lparr>rd_proceed = (reasons = []), rd_rollback = (reasons \<noteq> []), rd_reasons = reasons\<rparr>)"

definition validate_migration :: "MigrationPlan \<Rightarrow> StageEvaluationResult" where
  "validate_migration p =
     (let missing = (if mp_expand_first p then [] else [''expand_first'']) @
                    (if mp_rollback_tested p then [] else [''rollback_tested''])
      in \<lparr>sr_passed = (missing = []), sr_missing_gates = missing\<rparr>)"

section \<open>Retention\<close>

datatype DataCategory = CHECKPOINTS | MEMORY | METERING | AUDIT | DLQ

record RetentionPolicy =
  rt_category :: DataCategory
  rt_retention_days :: int
  rt_protect_while_snapshot_pinned :: bool
  rt_protect_while_incident_open :: bool

record StoredRecord =
  st_record_id :: str
  st_category :: DataCategory
  st_tenant_id :: str
  st_created_at :: datetime
  st_snapshot_pinned :: bool
  st_incident_open :: bool

record ComplianceEvidence =
  ce_action_id :: str
  ce_tenant_id :: str
  ce_deleted_record_ids :: "str list"
  ce_retained_reasons :: "(str \<times> str) list"

definition should_delete :: "RetentionPolicy \<Rightarrow> datetime \<Rightarrow> StoredRecord \<Rightarrow> bool \<times> str option" where
  "should_delete policy now r =
     (if rt_protect_while_snapshot_pinned policy \<and> st_snapshot_pinned r then (False, Some ''snapshot_pinned'')
      else if rt_protect_while_incident_open policy \<and> st_incident_open r then (False, Some ''incident_open'')
      else if now \<ge> st_created_at r + rt_retention_days policy * day_us then (True, None)
      else (False, Some ''within_retention''))"

fun cleanup_records ::
  "str \<Rightarrow> (DataCategory \<times> RetentionPolicy) list \<Rightarrow> datetime \<Rightarrow> StoredRecord list \<Rightarrow> ComplianceEvidence \<Rightarrow>
     ComplianceEvidence result" where
  "cleanup_records tenant_id policies now [] e = Inr e"
| "cleanup_records tenant_id policies now (r # rs) e =
     (if st_tenant_id r \<noteq> tenant_id then cleanup_records tenant_id policies now rs e
      else case dict_get policies (st_category r) of
          None \<Rightarrow> Inl (KeyError ''category'')
        | Some policy \<Rightarrow>
            cleanup_records tenant_id policies now rs
              (case should_delete policy now r of
                 (True, _) \<Rightarrow> e\<lparr>ce_deleted_record_ids := ce_deleted_record_ids e @ [st_record_id r]\<rparr>
               | (False, Some reason) \<Rightarrow>
                   e\<lparr>ce_retained_reasons := dict_set (st_record_id r) reason (ce_retained_reasons e)\<rparr>
               | (False, None) \<Rightarrow> e))"

definition execute_cleanup ::
  "str \<Rightarrow> StoredRecord list \<Rightarrow> (DataCategory \<times> RetentionPolicy) list \<Rightarrow> datetime \<Rightarrow> ComplianceEvidence result" where
  "execute_cleanup tenant_id records policies now =
     cleanup_records tenant_id policies now records
       \<lparr>ce_action_id = ''cleanup'', ce_tenant_id = tenant_id, ce_deleted_record_ids = [], ce_retained_reasons = []\<rparr>"

record DeletionActionPlan =
  dp_tenant_id :: str
  dp_cascade_order :: "DataCategory list"

definition plan_tenant_deletion :: "str \<Rightarrow> DeletionActionPlan" where
  "plan_tenant_deletion tenant_id =
     \<lparr>dp_tenant_id = tenant_id, dp_cascade_order = [DLQ, CHECKPOINTS, MEMORY, METERING, AUDIT]\<rparr>"

section \<open>Resilience\<close>

record RecoveryObjective =
  ro_rpo_minutes :: int
  ro_rto_minutes :: int

record BackupRecord =
  bk_backup_id :: str
  bk_created_at :: datetime
  bk_verified :: bool
  bk_table_names :: "str list"
  bk_wal_archived :: bool

record RestoreDrillResult =
  rs_drill_id :: str
  rs_restored :: bool
  rs_recovery_point_minutes :: int
  rs_recovery_time_minutes :: int

record RollbackDrillResult =
  rb_drill_id :: str
  rb_success :: bool
  rb_rollback_time_minutes :: int

record ReplicaStrategy =
  rg_primary_count :: int
  rg_replica_count :: int
  rg_anti_affinity :: bool
  rg_pod_disruption_budget :: bool
  rg_pooled_connections :: bool
  rg_safe_read_paths_defined :: bool

record ResilienceAssessment =
  rz_meets_rpo :: bool
  rz_meets_rto :: bool
  rz_continuity_controls_ready :: bool
  rz_reasons :: "str list"

text \<open>\<open>int(seconds // 60)\<close> of the age of a backup.\<close>

definition age_minutes :: "datetime \<Rightarrow> datetime \<Rightarrow> int" where
  "age_minutes now created_at = (now - created_at) div 60000000"

definition validate_backup_coverage ::
  "BackupRecord \<Rightarrow> str list \<Rightarrow> int \<Rightarrow> datetime \<Rightarrow> ResilienceAssessment" where
  "validate_backup_coverage b required_tables max_backup_age_minutes now =
     (let missing = sort (remdups (filter (\<lambda>t. t \<notin> set (bk_table_names b)) required_tables));
          age = age_minutes now (bk_created_at b);
          reasons = (if missing \<noteq> [] then [''missing_tables:'' @ str_join '','' missing] else []) @
                    (if bk_verified b then [] else [''backup_unverified'']) @
                    (if bk_wal_archived b then [] else [''wal_archiving_disabled'']) @
                    (if age > max_backup_age_minutes then [''backup_stale''] else [])
      in \<lparr>rz_meets_rpo = (age \<le> max_backup_age_minutes \<and> bk_wal_archived b),
          rz_meets_rto = bk_verified b,
          rz_continuity_controls_ready = (reasons = []), rz_reasons = reasons\<rparr>)"

definition assess_dr ::
  "RecoveryObjective \<Rightarrow> RestoreDrillResult \<Rightarrow> RollbackDrillResult \<Rightarrow> ResilienceAssessment" where
  "assess_dr objective restore_drill rollback_drill =
     (let meets_rpo = rs_restored restore_drill \<and>
            rs_recovery_point_minutes restore_drill \<le> ro_rpo_minutes objective;
          meets_rto = rs_restored restore_drill \<and>
            rs_recovery_time_minutes restore_drill \<le> ro_rto_minutes objective;
          reasons = (if meets_rpo then [] else [''rpo_missed'']) @
                    (if meets_rto then [] else [''rto_missed'']) @
                    (if rb_success rollback_drill then [] else [''rollback_drill_failed''])
      in \<lparr>rz_meets_rpo = meets_rpo, rz_meets_rto = meets_rto,
          rz_continuity_controls_ready = (reasons = []), rz_reasons = reasons\<rparr>)"

definition validate_replica_strategy :: "ReplicaStrategy \<Rightarrow> ResilienceAssessment" where
  "validate_replica_strategy s =
     (let reasons = (if rg_primary_count s < 1 then [''missing_primary''] else []) @
                    (if rg_replica_count s < 1 then [''missing_replica''] else []) @
                    (if rg_anti_affinity s then [] else [''anti_affinity_missing'']) @
                    (if rg_pod_disruption_budget s then [] else [''pod_disruption_budget_missing'']) @
                    (if rg_pooled_connections s then [] else [''connection_pooling_missing'']) @
                    (if rg_safe_read_paths_defined s then [] else [''read_strategy_missing''])
      in \<lparr>rz_meets_rpo = True, rz_meets_rto = True,
          rz_continuity_controls_ready = (reasons = []), rz_reasons = reasons\<rparr>)"

section \<open>Quality gates\<close>

record QualitySuiteDefinition =
  qs_suite_id :: str
  qs_layer :: str
  qs_required_on_pr :: bool
  qs_required_on_release :: bool

record CoveragePolicy =
  cv_unit_floor_percent :: decimal
  cv_integration_floor_percent :: decimal

record CoverageWaiver =
  cw_waiver_id :: str
  cw_layer :: str
  cw_approved_by :: str
  cw_rationale :: str

record CoverageDecision =
  cd_allowed :: bool
  cd_reasons :: "str list"
  cd_waiver_used :: "str option"

definition REQUIRED_LAYERS :: "str list" where
  "REQUIRED_LAYERS = [''unit'', ''integration'', ''e2e'', ''chaos'', ''fuzz'', ''prompt_regression'']"

definition validate_quality_program :: "QualitySuiteDefinition list \<Rightarrow> CoverageDecision" where
  "validate_quality_program suites =
     (let missing = sort (filter (\<lambda>l. l \<notin> set (map qs_layer suites)) REQUIRED_LAYERS)
      in \<lparr>cd_allowed = (missing = []), cd_reasons = map (\<lambda>l. ''missing_layer:'' @ l) missing,
          cd_waiver_used = None\<rparr>)"

definition evaluate_coverage ::
  "CoveragePolicy \<Rightarrow> decimal \<Rightarrow> decimal \<Rightarrow> CoverageWaiver option \<Rightarrow> CoverageDecision" where
  "evaluate_coverage policy unit_coverage integration_coverage waiver =
     (let reasons = (if unit_coverage < cv_unit_floor_percent policy then [''unit_coverage_below_floor''] else []) @
                    (if integration_coverage < cv_integration_floor_percent policy
                     then [''integration_coverage_below_floor''] else [])
      in if reasons = [] then \<lparr>cd_allowed = True, cd_reasons = [], cd_waiver_used = None\<rparr>
         else case waiver of
             Some w \<Rightarrow> \<lparr>cd_allowed = True, cd_reasons = reasons, cd_waiver_used = Some (cw_waiver_id w)\<rparr>
           | None \<Rightarrow> \<lparr>cd_allowed = False, cd_reasons = reasons, cd_waiver_used = None\<rparr>)"

definition evaluate_static_gates :: "(str \<times> bool) list \<Rightarrow> CoverageDecision" where
  "evaluate_static_gates gate_results =
     (let failing = map fst (filter (\<lambda>g. \<not> snd g) gate_results)
      in \<lparr>cd_allowed = (failing = []), cd_reasons = map (\<lambda>g. ''gate_failed:'' @ g) failing,
          cd_waiver_used = None\<rparr>)"

section \<open>Incidents\<close>

datatype IncidentSeverity = SEV1 | SEV2 | SEV3 | SEV4

record StatusUpdate =
  su_component :: str
  su_status :: str
  su_message :: str
  su_public :: bool

record IncidentRecord =
  in_incident_id :: str
  in_severity :: IncidentSeverity
  in_component :: str
  in_summary :: str
  in_runbook_id :: "str option"
  in_public_updates :: "StatusUpdate list"

text \<open>The incidents of the observability catalog.\<close>

type_synonym incidents = "(str \<times> IncidentRecord) list"

definition record_incident :: "IncidentRecord \<Rightarrow> (incidents, unit) operation" where
  "record_incident i st =
     (if in_severity i \<in> {SEV1, SEV2} \<and> in_runbook_id i = None
      then (Inl (ValueError ''Pager-worthy incidents must reference a runbook.''), st)
      else (Inr (), dict_set (in_incident_id i) i st))"

definition publish_status_update :: "str \<Rightarrow> StatusUpdate \<Rightarrow> (incidents, unit) operation" where
  "publish_status_update incident_id update st =
     (case dict_get st incident_id of
        None \<Rightarrow> (Inl (KeyError incident_id), st)
      | Some i \<Rightarrow> (Inr (), dict_set incident_id (i\<lparr>in_public_updates := in_public_updates i @ [update]\<rparr>) st))"

section \<open>The catalog of observability\<close>

record LogEvent =
  lg_timestamp :: datetime
  lg_level :: str
  lg_service :: str
  lg_component :: str
  lg_tenant_id :: "str option"
  lg_team_id :: "str option"
  lg_run_id :: "str option"
  lg_trace_id :: "str option"
  lg_event_type :: str
  lg_message :: str

record DashboardDefinition =
  dd_dashboard_id :: str
  dd_title :: str
  dd_panels :: "str list"

record RunbookReference =
  rf_alert_name :: str
  rf_runbook_id :: str
  rf_pager_worthy :: bool

record ObservabilityCatalog =
  oc_logs :: "LogEvent list"
  oc_dashboards :: "(str \<times> DashboardDefinition) list"
  oc_runbooks :: "(str \<times> RunbookReference) list"
  oc_incidents :: incidents

definition emit_log :: "LogEvent \<Rightarrow> ObservabilityCatalog \<Rightarrow> ObservabilityCatalog" where
  "emit_log event c = c\<lparr>oc_logs := oc_logs c @ [event]\<rparr>"

definition register_dashboard :: "DashboardDefinition \<Rightarrow> ObservabilityCatalog \<Rightarrow> ObservabilityCatalog" where
  "register_dashboard dashboard c = c\<lparr>oc_dashboards := dict_set (dd_dashboard_id dashboard) dashboard (oc_dashboards c)\<rparr>"

definition register_runbook :: "RunbookReference \<Rightarrow> ObservabilityCatalog \<Rightarrow> ObservabilityCatalog" where
  "register_runbook runbook c = c\<lparr>oc_runbooks := dict_set (rf_alert_name runbook) runbook (oc_runbooks c)\<rparr>"

text \<open>The calls of a catalog, incidents included.\<close>

datatype CatalogCall =
    EmitLog LogEvent | RegisterDashboard DashboardDefinition | RegisterRunbook RunbookReference
  | RecordIncident IncidentRecord | PublishUpdate str StatusUpdate

fun catalog_call :: "CatalogCall \<Rightarrow> (ObservabilityCatalog, unit) operation" where
  "catalog_call (EmitLog event) c = (Inr (), emit_log event c)"
| "catalog_call (RegisterDashboard d) c = (Inr (), register_dashboard d c)"
| "catalog_call (RegisterRunbook r) c = (Inr (), register_runbook r c)"
| "catalog_call (RecordIncident i) c =
     (case record_incident i (oc_incidents c) of (r, is') \<Rightarrow> (r, c\<lparr>oc_incidents := is'\<rparr>))"
| "catalog_call (PublishUpdate incident_id update) c =
     (case publish_status_update incident_id update (oc_incidents c) of (r, is') \<Rightarrow> (r, c\<lparr>oc_incidents := is'\<rparr>))"

section \<open>Environments and flags of a release policy\<close>

record FeatureFlagDefinition =
  ff_flag_id :: str
  ff_flag_type :: str
  ff_default_enabled :: bool
  ff_auditable :: bool

record EnvironmentProfile =
  ep_environment_name :: str
  ep_purpose :: str
  ep_production_mirror :: bool

definition find_environment :: "EnvironmentProfile list \<Rightarrow> str \<Rightarrow> EnvironmentProfile result" where
  "find_environment environments environment_name =
     (case dict_get (dict_of (map (\<lambda>e. (ep_environment_name e, e)) environments)) environment_name of
        None \<Rightarrow> Inl (KeyError environment_name) | Some e \<Rightarrow> Inr e)"

definition find_feature_flag :: "FeatureFlagDefinition list \<Rightarrow> str \<Rightarrow> FeatureFlagDefinition result" where
  "find_feature_flag feature_flags flag_id =
     (case dict_get (dict_of (map (\<lambda>f. (ff_flag_id f, f)) feature_flags)) flag_id of
        None \<Rightarrow> Inl (KeyError flag_id) | Some f \<Rightarrow> Inr f)"

end
