(* ===== verification/OperationsCorrect.thy ===== *)
theory OperationsCorrect
  imports Operations
begin

text \<open>
  Properties of the operations services: a retention run deletes exactly the expired and unprotected
  records of its tenant and accounts for every other one, the error budget stays between 0 and 100
  and blocks releases exactly when it is used up, and no toggle ever turns a kill switch off.
\<close>

section \<open>Retention\<close>

definition expired :: "(DataCategory \<times> RetentionPolicy) list \<Rightarrow> datetime \<Rightarrow> StoredRecord \<Rightarrow> bool" where
  "expired policies now r \<longleftrightarrow> (case dict_get policies (st_category r) of
     None \<Rightarrow> False | Some policy \<Rightarrow> fst (should_delete policy now r))"

definition retained_because :: "(DataCategory \<times> RetentionPolicy) list \<Rightarrow> datetime \<Rightarrow> StoredRecord \<Rightarrow> str option" where
  "retained_because policies now r = (case dict_get policies (st_category r) of
     None \<Rightarrow> None | Some policy \<Rightarrow> snd (should_delete policy now r))"

lemma should_delete_cases:
  "should_delete policy now r = (True, None) \<or> (\<exists>reason. should_delete policy now r = (False, Some reason))"
  by (simp add: should_delete_def)

lemma cleanup_records_Inr:
  "cleanup_records tenant_id policies now rs e = Inr e' \<Longrightarrow>
     (\<forall>r \<in> set rs. st_tenant_id r = tenant_id \<longrightarrow> dict_has policies (st_category r)) \<and>
     ce_deleted_record_ids e' = ce_deleted_record_ids e @
       map st_record_id (filter (\<lambda>r. st_tenant_id r = tenant_id \<and> expired policies now r) rs) \<and>
     (\<forall>i. dict_has (ce_retained_reasons e') i \<longleftrightarrow> dict_has (ce_retained_reasons e) i \<or>
        i \<in> st_record_id ` set (filter (\<lambda>r. st_tenant_id r = tenant_id \<and> \<not> expired policies now r) rs))"
proof (induction rs arbitrary: e)
  case Nil
  then show ?case by simp
next
  case (Cons r rs)
  show ?case
  proof (cases "st_tenant_id r = tenant_id")
    case False
    with Cons.IH[of e] Cons.prems show ?thesis by auto
  next
    case own: True
    with Cons.prems obtain policy where policy: "dict_get policies (st_category r) = Some policy"
      by (auto split: option.splits)
    show ?thesis
    proof (rule disjE[OF should_delete_cases[of policy now r]])
      assume d: "should_delete policy now r = (True, None)"
      then have "expired policies now r" by (simp add: expired_def policy)
      with d Cons.prems own policy
        Cons.IH[of "e\<lparr>ce_deleted_record_ids := ce_deleted_record_ids e @ [st_record_id r]\<rparr>"]
      show ?thesis by (simp add: dict_has_def)
    next
      assume "\<exists>reason. should_delete policy now r = (False, Some reason)"
      then obtain reason where d: "should_delete policy now r = (False, Some reason)" ..
      then have "\<not> expired policies now r" by (simp add: expired_def policy)
      with d Cons.prems own policy
        Cons.IH[of "e\<lparr>ce_retained_reasons := dict_set (st_record_id r) reason (ce_retained_reasons e)\<rparr>"]
      show ?thesis by (auto simp: dict_has_def)
    qed
  qed
qed

text \<open>A retention run deletes exactly what has expired. A run that returns had a policy for every
  record of its tenant; it lists for deletion exactly the records of that tenant whose retention has
  run out and that neither a pinned snapshot nor an open incident protects, in their order, and gives
  a reason for every other record of the tenant; with distinct identifiers no record is both.\<close>

theorem retention_exact:
  assumes "execute_cleanup tenant_id records policies now = Inr evidence"
    and "distinct (map st_record_id records)"
  shows "ce_deleted_record_ids evidence =
      map st_record_id (filter (\<lambda>r. st_tenant_id r = tenant_id \<and> expired policies now r) records) \<and>
    (\<forall>r \<in> set records. dict_has (ce_retained_reasons evidence) (st_record_id r) \<longleftrightarrow>
       st_tenant_id r = tenant_id \<and> \<not> expired policies now r)"
proof -
  note run = cleanup_records_Inr[OF assms(1)[unfolded execute_cleanup_def]]
  have "st_record_id r \<in> st_record_id ` set (filter P records) \<longleftrightarrow> P r" if "r \<in> set records" for r P
    using that assms(2) by (auto simp: distinct_map dest: inj_onD)
  with run show ?thesis by (simp add: dict_has_def)
qed

definition sample_policy :: RetentionPolicy where
  "sample_policy = \<lparr>rt_category = DLQ, rt_retention_days = 1, rt_protect_while_snapshot_pinned = True,
     rt_protect_while_incident_open = False\<rparr>"

definition sample_record :: "str \<Rightarrow> datetime \<Rightarrow> bool \<Rightarrow> StoredRecord" where
  "sample_record i t pinned = \<lparr>st_record_id = i, st_category = DLQ, st_tenant_id = ''acme'', st_created_at = t,
     st_snapshot_pinned = pinned, st_incident_open = False\<rparr>"

theorem retention_exact_witness:
  "\<exists>evidence. execute_cleanup ''acme'' [sample_record ''a'' 0 False, sample_record ''b'' 0 True,
       sample_record ''c'' 5 False] [(DLQ, sample_policy)] day_us = Inr evidence \<and>
     ce_deleted_record_ids evidence = [''a'']"
proof -
  let ?rs = "[sample_record ''a'' 0 False, sample_record ''b'' 0 True, sample_record ''c'' 5 False]"
  obtain evidence where run: "execute_cleanup ''acme'' ?rs [(DLQ, sample_policy)] day_us = Inr evidence"
    by (simp add: execute_cleanup_def sample_record_def sample_policy_def should_delete_def)
  have "map st_record_id (filter (\<lambda>r. st_tenant_id r = ''acme'' \<and> expired [(DLQ, sample_policy)] day_us r) ?rs) = [''a'']"
    by code_simp
  with retention_exact[OF run] run show ?thesis by (simp add: sample_record_def)
qed

section \<open>Error budgets\<close>

lemma round_half_even_of_int [simp]: "round_half_even (of_int n) = n"
  by (simp add: round_half_even_def)

lemma round_half_even_mono: "x \<le> y \<Longrightarrow> round_half_even x \<le> round_half_even y"
proof -
  assume le: "x \<le> y"
  show ?thesis
  proof (cases "\<lfloor>x\<rfloor> = \<lfloor>y\<rfloor>")
    case True
    with le show ?thesis by (auto simp: round_half_even_def Let_def)
  next
    case False
    with le have "\<lfloor>x\<rfloor> + 1 \<le> \<lfloor>y\<rfloor>" using floor_mono[of x y] by linarith
    moreover have "round_half_even x \<le> \<lfloor>x\<rfloor> + 1" "\<lfloor>y\<rfloor> \<le> round_half_even y"
      by (auto simp: round_half_even_def Let_def)
    ultimately show ?thesis by linarith
  qed
qed

lemma round_half_even_zero: "0 \<le> x \<Longrightarrow> round_half_even x \<le> 0 \<longleftrightarrow> x \<le> 1 / 2"
proof -
  assume "0 \<le> x"
  show ?thesis
  proof (cases "x < 1")
    case True
    with \<open>0 \<le> x\<close> have "\<lfloor>x\<rfloor> = 0" by (simp add: floor_eq_iff)
    then show ?thesis by (auto simp: round_half_even_def)
  next
    case False
    then have "1 \<le> \<lfloor>x\<rfloor>" by simp
    moreover have "\<lfloor>x\<rfloor> \<le> round_half_even x" by (auto simp: round_half_even_def Let_def)
    ultimately show ?thesis using False by linarith
  qed
qed

text \<open>The exact budget left, before it is rounded to hundredths.\<close>

definition budget_left :: "SliDefinition \<Rightarrow> SliObservation \<Rightarrow> decimal" where
  "budget_left d obs =
     (let total = max (so_total_events obs - so_excluded_events obs) 0;
          success = min (so_successful_events obs) total;
          failed = (if total = 0 then 0 else 100 - of_int success / of_int total * 100)
      in if sl_objective_percent d \<ge> 100 then 0
         else max 0 (100 - failed / (100 - sl_objective_percent d) * 100))"

text \<open>Error budgets. With a non-negative count of successes the remaining error budget lies
  between 0 and 100 percent, and a release is blocked exactly when no more than half a hundredth of a
  percent is left. An objective of 100 percent has no budget, so it blocks every release, also when
  no event has failed.\<close>

theorem error_budget_blocks:
  fixes d :: SliDefinition
  assumes "0 \<le> so_successful_events obs"
  defines "e \<equiv> evaluate_sli d obs"
  shows "0 \<le> se_error_budget_remaining_percent e \<and> se_error_budget_remaining_percent e \<le> 100 \<and>
    (eb_release_blocked (error_budget_report d e) \<longleftrightarrow> budget_left d obs \<le> 1 / 200) \<and>
    (sl_objective_percent d \<ge> 100 \<longrightarrow> eb_release_blocked (error_budget_report d e))"
proof -
  define total where "total = max (so_total_events obs - so_excluded_events obs) 0"
  define success where "success = min (so_successful_events obs) total"
  have remaining: "se_error_budget_remaining_percent e = quantize2 (budget_left d obs)"
    by (simp add: e_def evaluate_sli_def budget_left_def Let_def)
  have ratio: "of_int success / of_int total \<le> (1 :: rat)" "0 \<le> success" if "total \<noteq> 0"
    using that assms(1) by (auto simp: total_def success_def divide_le_eq_1)
  have bounds: "0 \<le> budget_left d obs \<and> budget_left d obs \<le> 100"
    using ratio by (auto simp: budget_left_def Let_def total_def[symmetric] success_def[symmetric]
        intro!: divide_nonneg_nonneg)
  then have "round_half_even 0 \<le> round_half_even (budget_left d obs * 100)"
    "round_half_even (budget_left d obs * 100) \<le> round_half_even 10000"
    by (auto intro!: round_half_even_mono)
  then have "0 \<le> round_half_even (budget_left d obs * 100)" "round_half_even (budget_left d obs * 100) \<le> 10000"
    using round_half_even_of_int[of 0] round_half_even_of_int[of 10000] by simp_all
  then have "0 \<le> quantize2 (budget_left d obs)" "quantize2 (budget_left d obs) \<le> 100"
    by (simp_all add: quantize2_def)
  moreover have blocked: "eb_release_blocked (error_budget_report d e) \<longleftrightarrow> budget_left d obs \<le> 1 / 200"
    using round_half_even_zero[of "budget_left d obs * 100"] bounds
    by (simp add: remaining error_budget_report_def Let_def quantize2_def divide_le_0_iff mult.commute)
  moreover have "sl_objective_percent d \<ge> 100 \<Longrightarrow> budget_left d obs = 0"
    by (simp add: budget_left_def)
  ultimately show ?thesis by (simp add: remaining)
qed

definition sample_sli :: SliDefinition where
  "sample_sli = \<lparr>sl_sli_id = ''api'', sl_objective_percent = 99, sl_measurement_window = ''30d'',
     sl_numerator_query = ''n'', sl_denominator_query = ''d'', sl_exclusion_query = None\<rparr>"

theorem error_budget_blocks_witness:
  "eb_release_blocked (error_budget_report sample_sli (evaluate_sli sample_sli
     \<lparr>so_total_events = 1000, so_successful_events = 990, so_excluded_events = 0\<rparr>))"
proof -
  let ?obs = "\<lparr>so_total_events = 1000, so_successful_events = 990, so_excluded_events = 0\<rparr>"
  have "budget_left sample_sli ?obs \<le> 1 / 200" by (simp add: budget_left_def sample_sli_def)
  with error_budget_blocks[where obs = ?obs and d = sample_sli] show ?thesis by simp
qed

section \<open>Kill switches\<close>

text \<open>A kill switch cannot be turned off. Whatever toggles an operator records, every mandatory
  switch still reports itself enabled under both providers: a toggle writes the audit log only and
  no evaluation reads what was toggled.\<close>

theorem kill_switch_never_off:
  assumes "dict_has MANDATORY_KILL_SWITCHES flag_key"
    and "fs_provider sv \<in> {UNLEASH, LAUNCHDARKLY}"
  shows "\<exists>state. get_kill_switch_state
      (fs_provider (fold (\<lambda>(key, enabled, actor). snd \<circ> toggle_flag now key enabled actor None) toggles sv))
      now flag_key = Inr state \<and> ks_enabled state"
proof -
  have step: "fs_provider (snd (toggle_flag now key enabled actor None sv)) = fs_provider sv"
    for key enabled actor sv
    by (auto simp: toggle_flag_def Let_def split: sum.splits)
  have "fs_provider (fold (\<lambda>(key, enabled, actor). snd \<circ> toggle_flag now key enabled actor None) toggles sv) =
      fs_provider sv" for sv
    by (induction toggles arbitrary: sv) (auto simp: step)
  with assms show ?thesis
    by (auto simp: get_kill_switch_state_def dict_has_def is_enabled_def evaluate_primary_def
        evaluate_unleash_def evaluate_launchdarkly_def split: option.splits)
qed

theorem kill_switch_never_off_witness:
  "\<exists>state. get_kill_switch_state (fs_provider (fold (\<lambda>(key, enabled, actor). snd \<circ> toggle_flag 5 key enabled actor None)
      [(''pr_creation'', False, ''ops'')]
      \<lparr>fs_provider = UNLEASH, fs_stale_threshold_days = 90, fs_audit_log = []\<rparr>)) 5 ''pr_creation'' = Inr state \<and>
    ks_enabled state"
  by (rule kill_switch_never_off) (code_simp, simp)

section \<open>Gates\<close>

text \<open>A rollout goes on exactly without a regression, within the burn rate and with no switch engaged,
  and rolls back otherwise; a coverage waiver lets any shortfall through, also one of the other layer.\<close>

theorem rollout_exact:
  "rd_proceed (evaluate_rollout a) \<longleftrightarrow>
     \<not> ra_health_regressed a \<and> ra_error_budget_burn_rate a \<le> 2 \<and> \<not> ra_kill_switch_engaged a"
  "rd_rollback (evaluate_rollout a) \<longleftrightarrow> \<not> rd_proceed (evaluate_rollout a)"
  by (auto simp: evaluate_rollout_def Let_def)

theorem waiver_covers_other_layer:
  "cw_layer w = ''unit'' \<Longrightarrow> cd_allowed (evaluate_coverage p u v (Some w))"
  by (simp add: evaluate_coverage_def Let_def)

text \<open>Over every history of calls, each pager-worthy incident of the catalog names a runbook. That this
  runbook is registered is not asked.\<close>

theorem paging_incidents_name_runbooks:
  "list_all (\<lambda>(_, i). in_severity i \<in> {SEV1, SEV2} \<longrightarrow> in_runbook_id i \<noteq> None)
     (oc_incidents (fold (\<lambda>call c. snd (catalog_call call c)) calls
        \<lparr>oc_logs = [], oc_dashboards = [], oc_runbooks = [], oc_incidents = []\<rparr>))"
proof -
  let ?ok = "\<lambda>c. list_all (\<lambda>(_, i). in_severity i \<in> {SEV1, SEV2} \<longrightarrow> in_runbook_id i \<noteq> None) (oc_incidents c)"
  have "?ok (snd (catalog_call call c))" if ok: "?ok c" for call c
  proof -
    have set: "list_all P (dict_set k v d)" if "list_all P d" "P (k, v)" for P k v and d :: incidents
      using that by (induction d) auto
    have got: "in_severity i \<in> {SEV1, SEV2} \<longrightarrow> in_runbook_id i \<noteq> None" if "dict_get (oc_incidents c) k = Some i" for k i
      using ok that dict_get_SomeD by (fastforce simp: list_all_iff)
    show ?thesis
      using ok got by (cases call)
        (auto simp: emit_log_def register_dashboard_def register_runbook_def record_incident_def
          publish_status_update_def split: option.splits intro!: set)
  qed
  then have "?ok (fold (\<lambda>call c. snd (catalog_call call c)) calls c)" if "?ok c" for c
    using that by (induction calls arbitrary: c) auto
  from this[of "\<lparr>oc_logs = [], oc_dashboards = [], oc_runbooks = [], oc_incidents = []\<rparr>"] show ?thesis by simp
qed

end
