(* ===== verification/ApiVersioning.thy ===== *)
theory ApiVersioning
  imports Telemetry
begin

text \<open>
  API versioning: \<open>backend/api_versioning.py\<close> and \<open>backend/api_deprecations.py\<close>. The middleware sees a
  request's path, method and headers; the application behind it is an argument that returns the path
  of the route it took and its response headers. The OpenAPI document is restricted to one version.
\<close>

section \<open>Deprecations\<close>

record ApiDeprecation =
  dp_deprecation_id :: str
  dp_route :: str
  dp_method :: str
  dp_version :: str
  dp_deprecated_at :: datetime
  dp_sunset_at :: datetime
  dp_rationale :: str
  dp_replacement_route :: "str option"
  dp_active :: bool

definition find_api_deprecation :: "ApiDeprecation list \<Rightarrow> str \<Rightarrow> str \<Rightarrow> str \<Rightarrow> ApiDeprecation option" where
  "find_api_deprecation deprecations route method_name version =
     find (\<lambda>d. dp_active d \<and> dp_route d = route \<and> str_upper (dp_method d) = str_upper method_name \<and>
               dp_version d = version) deprecations"

section \<open>Configuration and requests\<close>

definition CURRENT_API_MAJOR :: nat where "CURRENT_API_MAJOR = 1"
definition SUPPORTED_API_MAJORS :: "nat list" where "SUPPORTED_API_MAJORS = [CURRENT_API_MAJOR]"

definition PUBLIC_UNVERSIONED_PREFIXES :: "str list" where
  "PUBLIC_UNVERSIONED_PREFIXES =
     [''/admin'', ''/auth'', ''/metering'', ''/runtime'', ''/runs'', ''/streams'', ''/webhooks'']"

record ApiVersioningConfig =
  vc_current_major :: nat
  vc_supported_majors :: "nat list"
  vc_redirect_unversioned_paths :: bool
  vc_deprecations :: "ApiDeprecation list"

definition default_versioning :: ApiVersioningConfig where
  "default_versioning =
     \<lparr>vc_current_major = CURRENT_API_MAJOR, vc_supported_majors = SUPPORTED_API_MAJORS,
      vc_redirect_unversioned_paths = True, vc_deprecations = []\<rparr>"

record Request =
  rq_path :: str
  rq_method :: str
  rq_headers :: "(str \<times> str) list"

datatype VersionedResponse =
    Redirect nat str
  | NotAcceptable nat str
  | Answered nat "(str \<times> str) list"

definition version_prefix :: "nat \<Rightarrow> str" where
  "version_prefix major = ''/api/v'' @ str_of_nat major"

definition redirect_unversioned_request :: "ApiVersioningConfig \<Rightarrow> Request \<Rightarrow> str option" where
  "redirect_unversioned_request config request =
     (let path = rq_path request
      in if startswith path ''/api/'' then None
         else if \<not> list_ex (\<lambda>prefix. path = prefix \<or> startswith path (prefix @ ''/'')) PUBLIC_UNVERSIONED_PREFIXES
         then None
         else if \<not> vc_redirect_unversioned_paths config then None
         else Some (version_prefix (vc_current_major config) @ path))"

text \<open>Header values are Latin-1. \<open>str.isdigit\<close> is also true of the superscripts one, two and three, which
  \<open>int\<close> does not read; nor does it read more than 4300 digits.\<close>

definition decimal_digit :: "char \<Rightarrow> bool" where
  "decimal_digit c \<longleftrightarrow> 48 \<le> (of_char c :: nat) \<and> (of_char c :: nat) \<le> 57"

definition superscript_digit :: "char \<Rightarrow> bool" where
  "superscript_digit c \<longleftrightarrow> (of_char c :: nat) \<in> {178, 179, 185}"

definition isdigit :: "str \<Rightarrow> bool" where
  "isdigit s \<longleftrightarrow> s \<noteq> [] \<and> list_all (\<lambda>c. decimal_digit c \<or> superscript_digit c) s"

definition MAX_STR_DIGITS :: nat where "MAX_STR_DIGITS = 4300"

definition int_of_digits :: "str \<Rightarrow> nat result" where
  "int_of_digits s =
     (if list_all decimal_digit s \<and> length s \<le> MAX_STR_DIGITS then Inr (nat_of_str s)
      else Inl (ValueError ''invalid literal for int()''))"

definition version_token :: "str \<Rightarrow> str" where
  "version_token text =
     (let token = str_lower (str_strip text) in if startswith token ''v'' then drop 1 token else token)"

definition parse_major :: "str \<Rightarrow> nat option result" where
  "parse_major text =
     (let token = version_token text
      in if \<not> isdigit token then Inr None
         else (case int_of_digits token of Inl e \<Rightarrow> Inl e | Inr n \<Rightarrow> Inr (Some n)))"

definition negotiate_accept_version :: "ApiVersioningConfig \<Rightarrow> Request \<Rightarrow> (nat + str) result" where
  "negotiate_accept_version config request =
     (case dict_get (rq_headers request) ''Accept-Version'' of
        None \<Rightarrow> Inr (Inl (vc_current_major config))
      | Some v \<Rightarrow>
          if v = [] then Inr (Inl (vc_current_major config))
          else let supported = str_join '', '' (map (\<lambda>m. ''v'' @ str_of_nat m) (sort (remdups (vc_supported_majors config))))
               in case parse_major v of
                    Inl e \<Rightarrow> Inl e
                  | Inr (Some m) \<Rightarrow> if m \<in> set (vc_supported_majors config) then Inr (Inl m) else Inr (Inr supported)
                  | Inr None \<Rightarrow> Inr (Inr supported))"

definition apply_deprecation_headers ::
  "ApiVersioningConfig \<Rightarrow> Request \<Rightarrow> str \<Rightarrow> nat \<Rightarrow> (str \<times> str) list \<Rightarrow> (str \<times> str) list" where
  "apply_deprecation_headers config request route_path negotiated_major headers =
     (case find_api_deprecation (vc_deprecations config) route_path (rq_method request)
             (''v'' @ str_of_nat negotiated_major) of
        None \<Rightarrow> headers
      | Some d \<Rightarrow>
          dict_set ''Link'' (''<'' @ (case dp_replacement_route d of None \<Rightarrow> route_path
                                       | Some r \<Rightarrow> if r = [] then route_path else r) @
                             ''>; rel='' @ [CHR 0x22] @ ''successor-version'' @ [CHR 0x22])
          (dict_set ''Sunset'' (date_isoformat (dp_sunset_at d))
          (dict_set ''Deprecation'' ''true'' headers)))"

definition set_default :: "str \<Rightarrow> str \<Rightarrow> (str \<times> str) list \<Rightarrow> (str \<times> str) list" where
  "set_default k v headers = (if dict_has headers k then headers else dict_set k v headers)"

text \<open>\<open>api_version_middleware\<close> around an application.\<close>

definition api_version_middleware ::
  "ApiVersioningConfig \<Rightarrow> (nat \<Rightarrow> Request \<Rightarrow> str \<times> (str \<times> str) list) \<Rightarrow> Request \<Rightarrow> VersionedResponse result" where
  "api_version_middleware config call_next request =
     (case redirect_unversioned_request config request of
        Some url \<Rightarrow> Inr (Redirect 307 url)
      | None \<Rightarrow>
          (case negotiate_accept_version config request of
             Inl e \<Rightarrow> Inl e
           | Inr (Inr supported) \<Rightarrow> Inr (NotAcceptable 406 supported)
           | Inr (Inl negotiated) \<Rightarrow>
               (case call_next negotiated request of (route_path, headers) \<Rightarrow>
                  Inr (Answered negotiated
                    (if startswith (rq_path request) ''/api/''
                     then apply_deprecation_headers config request route_path negotiated
                            (set_default ''X-API-Version'' (''v'' @ str_of_nat negotiated) headers)
                     else headers)))))"

definition build_versioned_openapi :: "nat \<Rightarrow> (str \<times> 'p) list \<Rightarrow> (str \<times> 'p) list" where
  "build_versioned_openapi major paths = filter (\<lambda>(path, _). startswith path (version_prefix major)) paths"

definition record_deprecation_sunset_gauges ::
  "datetime \<Rightarrow> ApiVersioningConfig \<Rightarrow> PersistenceTelemetry \<Rightarrow> PersistenceTelemetry" where
  "record_deprecation_sunset_gauges now config t =
     fold (\<lambda>d. set_gauge ''devsquad_api_deprecation_sunset_days''
                 (of_int (max ((dp_sunset_at d - now) div day_us) 0))
                 [(''route'', dp_route d), (''version'', dp_version d)])
       (filter dp_active (vc_deprecations config)) t"

section \<open>Properties\<close>

text \<open>The version of a request: the one it asks for, or none when the text is no number.\<close>

lemma parse_major_cases:
  "(case parse_major text of
      Inl e \<Rightarrow> isdigit (version_token text) \<and>
        (\<not> list_all decimal_digit (version_token text) \<or> MAX_STR_DIGITS < length (version_token text))
    | Inr None \<Rightarrow> \<not> isdigit (version_token text)
    | Inr (Some m) \<Rightarrow> isdigit (version_token text) \<and> list_all decimal_digit (version_token text) \<and>
        m = nat_of_str (version_token text))"
  by (auto simp: parse_major_def int_of_digits_def Let_def)

lemma negotiate_cases:
  assumes "vc_current_major config \<in> set (vc_supported_majors config)"
  shows "(case negotiate_accept_version config request of
      Inl e \<Rightarrow> (\<exists>v. dict_get (rq_headers request) ''Accept-Version'' = Some v \<and> parse_major v = Inl e)
    | Inr (Inl m) \<Rightarrow> m \<in> set (vc_supported_majors config) \<and>
        (case dict_get (rq_headers request) ''Accept-Version'' of
           None \<Rightarrow> m = vc_current_major config
         | Some v \<Rightarrow> if v = [] then m = vc_current_major config else parse_major v = Inr (Some m))
    | Inr (Inr supported) \<Rightarrow> (\<exists>v. dict_get (rq_headers request) ''Accept-Version'' = Some v \<and>
        (parse_major v = Inr None \<or> (\<exists>m. parse_major v = Inr (Some m) \<and> m \<notin> set (vc_supported_majors config)))))"
  using assms
  by (auto simp: negotiate_accept_version_def Let_def split: option.splits sum.splits)

lemma deprecation_keeps_version:
  "dict_has (apply_deprecation_headers config request route major (set_default ''X-API-Version'' v headers))
      ''X-API-Version''"
  by (auto simp: apply_deprecation_headers_def set_default_def split: option.splits)



text \<open>A header with a superscript digit is answered with an exception, not with the list of supported
  versions.\<close>

theorem superscript_version_raises:
  "\<exists>e. api_version_middleware default_versioning call_next
     \<lparr>rq_path = ''/api/v1/runs'', rq_method = ''GET'', rq_headers = [(''Accept-Version'', [CHR 0xB2])]\<rparr> = Inl e"
proof -
  have "negotiate_accept_version default_versioning
     \<lparr>rq_path = ''/api/v1/runs'', rq_method = ''GET'', rq_headers = [(''Accept-Version'', [CHR 0xB2])]\<rparr> =
     Inl (ValueError ''invalid literal for int()'')" by code_simp
  moreover have "redirect_unversioned_request default_versioning
     \<lparr>rq_path = ''/api/v1/runs'', rq_method = ''GET'', rq_headers = [(''Accept-Version'', [CHR 0xB2])]\<rparr> = None"
    by code_simp
  ultimately show ?thesis by (simp add: api_version_middleware_def)
qed

text \<open>A deprecation that is found is active and matches route, method in any case, and version; none
  is found exactly when no active one matches.\<close>

theorem deprecation_found:
  "(case find_api_deprecation deprecations route method_name version of
      Some d \<Rightarrow> d \<in> set deprecations \<and> dp_active d \<and> dp_route d = route \<and> dp_version d = version \<and>
        str_upper (dp_method d) = str_upper method_name
    | None \<Rightarrow> \<not> list_ex (\<lambda>d. dp_active d \<and> dp_route d = route \<and>
        str_upper (dp_method d) = str_upper method_name \<and> dp_version d = version) deprecations)"
  by (auto simp: find_api_deprecation_def find_None_list_ex list_ex_iff find_None_iff dest: find_SomeD
      split: option.splits)

end
