(* ===== verification/DualControl.thy ===== *)
theory DualControl
  imports Prelude
begin

text \<open>
  The two-person rule that \<open>backend/compliance/admin.py\<close> (tenant deletion) and
  \<open>backend/credentials/admin.py\<close> (break-glass grants) both write out, as an interface: whoever keeps
  the approvals by this rule has, after any history, only approvals that two different names gave.
  Also the date arithmetic the two share, with the range of a \<open>datetime\<close>.
\<close>

section \<open>Approvals\<close>

type_synonym approvers = "str option \<times> str option"

definition next_approvers :: "str \<Rightarrow> approvers \<Rightarrow> approvers result" where
  "next_approvers actor p =
     (case fst p of
        None \<Rightarrow> Inr (Some actor, None)
      | Some first \<Rightarrow>
          if first = actor then Inl (HTTPException 400 ''same_approver_cannot_approve_twice'')
          else Inr (Some first, Some actor))"

text \<open>The approvals are among those given, and a second one is another person's.\<close>

definition approved_within :: "str set \<Rightarrow> approvers \<Rightarrow> bool" where
  "approved_within given p \<longleftrightarrow>
     (\<forall>a. fst p = Some a \<longrightarrow> a \<in> given) \<and>
     (\<forall>b. snd p = Some b \<longrightarrow> b \<in> given \<and> (\<exists>a. fst p = Some a \<and> a \<noteq> b))"

lemma approved_within_none [simp, intro]: "approved_within given (None, None)"
  by (simp add: approved_within_def)

lemma approved_within_mono: "approved_within given p \<Longrightarrow> given \<subseteq> given' \<Longrightarrow> approved_within given' p"
  unfolding approved_within_def by blast

lemma approved_within_next:
  "approved_within given q \<Longrightarrow> next_approvers actor q = Inr p \<Longrightarrow> approved_within (insert actor given) p"
  by (cases "fst q") (auto simp: approved_within_def next_approvers_def split: if_splits)

lemma approved_within_both:
  "approved_within given p \<Longrightarrow> snd p \<noteq> None \<Longrightarrow>
     \<exists>a b. p = (Some a, Some b) \<and> a \<noteq> b \<and> a \<in> given \<and> b \<in> given"
  by (cases p) (auto simp: approved_within_def)

text \<open>
  A store of approvals by request: \<open>approves\<close> is the request and the name of a call that approves
  one, and a step adds unapproved requests and applies the rule for the name of its call only.
\<close>

locale dual_control =
  fixes approvals :: "'s \<Rightarrow> (str \<times> approvers) list"
    and step :: "'c \<Rightarrow> 's \<Rightarrow> 's"
    and approves :: "'c \<Rightarrow> (str \<times> str) option"
  assumes approvals_step:
    "(i, p) \<in> set (approvals (step c s)) \<Longrightarrow>
       p = (None, None) \<or> (i, p) \<in> set (approvals s) \<or>
       (\<exists>actor q. approves c = Some (i, actor) \<and> (i, q) \<in> set (approvals s) \<and> next_approvers actor q = Inr p)"
begin

definition given :: "'c list \<Rightarrow> str \<Rightarrow> str set" where
  "given calls i = {actor. \<exists>c \<in> set calls. approves c = Some (i, actor)}"

lemma step_within:
  assumes old: "\<And>p. (i, p) \<in> set (approvals s) \<Longrightarrow> approved_within G p"
    and new: "(i, p) \<in> set (approvals (step c s))"
  shows "approved_within (G \<union> given [c] i) p"
proof -
  from approvals_step[OF new] consider "p = (None, None)" | "(i, p) \<in> set (approvals s)"
    | actor q where "approves c = Some (i, actor)" "(i, q) \<in> set (approvals s)" "next_approvers actor q = Inr p"
    by blast
  then show ?thesis
  proof cases
    case 1
    then show ?thesis by simp
  next
    case 2
    from old[OF this] show ?thesis by (rule approved_within_mono) simp
  next
    case 3
    from approved_within_next[OF old[OF 3(2)] 3(3)] 3(1) show ?thesis
      by (auto simp: given_def elim!: approved_within_mono)
  qed
qed

lemma history_within:
  assumes "\<And>p. (i, p) \<in> set (approvals s) \<Longrightarrow> approved_within G p"
    and "(i, p) \<in> set (approvals (fold step calls s))"
  shows "approved_within (G \<union> given calls i) p"
  using assms
proof (induction calls arbitrary: s G)
  case Nil
  from Nil.prems(1)[of p] Nil.prems(2) show ?case by (simp add: given_def)
next
  case (Cons c calls)
  have "approved_within ((G \<union> given [c] i) \<union> given calls i) p"
  proof (rule Cons.IH)
    show "(i, p) \<in> set (approvals (fold step calls (step c s)))" using Cons.prems(2) by simp
    show "\<And>p. (i, p) \<in> set (approvals (step c s)) \<Longrightarrow> approved_within (G \<union> given [c] i) p"
      using step_within[of i s G] Cons.prems(1) by blast
  qed
  moreover have "(G \<union> given [c] i) \<union> given calls i = G \<union> given (c # calls) i" by (auto simp: given_def)
  ultimately show ?case by simp
qed

text \<open>From a store without requests: whatever is approved twice, two names approved in the history.\<close>

lemma two_names:
  assumes "approvals s = []" and "(i, p) \<in> set (approvals (fold step calls s))" and "snd p \<noteq> None"
  shows "\<exists>a b. p = (Some a, Some b) \<and> a \<noteq> b \<and>
    (\<exists>c \<in> set calls. approves c = Some (i, a)) \<and> (\<exists>c \<in> set calls. approves c = Some (i, b))"
proof -
  have "approved_within ({} \<union> given calls i) p"
    by (rule history_within[OF _ assms(2)]) (simp add: assms(1))
  from approved_within_both[OF this assms(3)] show ?thesis by (simp add: given_def)
qed

end

section \<open>Dates\<close>

text \<open>\<open>datetime + timedelta\<close>: a sum outside of the years 1 to 9999 overflows; so does the difference
  itself beyond a billion days, which no datetime survives either.\<close>

definition MIN_DATETIME :: datetime where "MIN_DATETIME = - 62135596800000000"
definition MAX_DATETIME :: datetime where "MAX_DATETIME = 253402300799999999"

definition hour_us :: int where "hour_us = 3600000000"

definition overflow_error :: exn where "overflow_error = OtherError ''OverflowError''"

definition add_time :: "datetime \<Rightarrow> int \<Rightarrow> datetime result" where
  "add_time t delta =
     (if MIN_DATETIME \<le> t + delta \<and> t + delta \<le> MAX_DATETIME then Inr (t + delta) else Inl overflow_error)"

lemma add_time_Inr [simp]:
  "add_time t delta = Inr s \<longleftrightarrow> s = t + delta \<and> MIN_DATETIME \<le> s \<and> s \<le> MAX_DATETIME"
  by (auto simp: add_time_def)

end
