(* ===== verification/Credentials.thy ===== *)
theory Credentials
  imports DualControl Security Telemetry
begin

text \<open>
  Credential administration, \<open>backend/credentials/admin.py\<close>: the rotation schedule, break-glass
  grants and the versions of the key encryption key. One definition per handler, on the three tables
  the router opens (no tenant scope: they have no row level security); all but one are called behind
  the role dependency \<open>as_admin\<close>. The clock, the random ids and the answers' date texts are arguments or
  left out, as are log lines; a grant's \<open>scope\<close> and a key's \<open>metadata\<close> are only stored.
\<close>

section \<open>Tables\<close>

record RotationSchedule =
  ss_schedule_id :: str
  ss_tenant_id :: str
  ss_team_id :: str
  ss_credential_kind :: str
  ss_credential_id :: str
  ss_rotated_at :: datetime
  ss_next_rotation_due :: datetime
  ss_rotation_sla_days :: int
  ss_overdue :: bool
  ss_updated_at :: datetime

record BreakGlassGrant =
  gg_grant_id :: str
  gg_tenant_id :: str
  gg_team_id :: str
  gg_requested_by :: str
  gg_reason :: str
  gg_approved_by_first :: "str option"
  gg_approved_by_second :: "str option"
  gg_granted_at :: "datetime option"
  gg_expires_at :: datetime
  gg_revoked_at :: "datetime option"
  gg_revoked_by :: "str option"
  gg_revoke_reason :: "str option"
  gg_created_at :: datetime

record KekVersion =
  ek_kek_id :: str
  ek_kms_ref :: str
  ek_introduced_at :: datetime
  ek_retired_at :: "datetime option"
  ek_is_default :: bool
  ek_introduced_by :: str

record Credentials =
  ca_schedule :: "RotationSchedule list"
  ca_grants :: "BreakGlassGrant list"
  ca_keks :: "KekVersion list"

definition empty_credentials :: Credentials where
  "empty_credentials = \<lparr>ca_schedule = [], ca_grants = [], ca_keks = []\<rparr>"

section \<open>Rotation schedule\<close>

text \<open>\<open>ORDER BY ... ASC\<close>; rows with equal keys in some order.\<close>

definition list_rotation_schedule :: "str option \<Rightarrow> bool \<Rightarrow> Credentials \<Rightarrow> RotationSchedule list" where
  "list_rotation_schedule tenant_id overdue_only st =
     sort_key ss_next_rotation_due
       (filter (\<lambda>r. (case tenant_id of None \<Rightarrow> True | Some t \<Rightarrow> t = [] \<or> ss_tenant_id r = t) \<and>
                    (overdue_only \<longrightarrow> ss_overdue r)) (ca_schedule st))"

text \<open>\<open>uq_credential_rotation_scope\<close> and the primary key refuse a second row.\<close>

definition same_scope :: "RotationSchedule \<Rightarrow> RotationSchedule \<Rightarrow> bool" where
  "same_scope a b \<longleftrightarrow> ss_tenant_id a = ss_tenant_id b \<and> ss_team_id a = ss_team_id b \<and>
     ss_credential_kind a = ss_credential_kind b \<and> ss_credential_id a = ss_credential_id b"

definition insert_schedule :: "RotationSchedule \<Rightarrow> (Credentials, unit) operation" where
  "insert_schedule row st =
     (if list_ex (\<lambda>r. same_scope r row \<or> ss_schedule_id r = ss_schedule_id row) (ca_schedule st)
      then (Inl (IntegrityError ''uq_credential_rotation_scope''), st)
      else (Inr (), st\<lparr>ca_schedule := ca_schedule st @ [row]\<rparr>))"

definition upsert_rotation_schedule ::
  "datetime \<Rightarrow> str \<Rightarrow> str \<Rightarrow> str \<Rightarrow> str \<Rightarrow> str \<Rightarrow> int \<Rightarrow> (Credentials, datetime) operation" where
  "upsert_rotation_schedule now schedule_id tenant_id team_id credential_kind credential_id rotation_sla_days st =
     (case add_time now (rotation_sla_days * day_us) of
        Inl e \<Rightarrow> (Inl e, st)
      | Inr next_due \<Rightarrow>
          op_bind (insert_schedule
            \<lparr>ss_schedule_id = schedule_id, ss_tenant_id = tenant_id, ss_team_id = team_id,
             ss_credential_kind = credential_kind, ss_credential_id = credential_id, ss_rotated_at = now,
             ss_next_rotation_due = next_due, ss_rotation_sla_days = rotation_sla_days,
             ss_overdue = False, ss_updated_at = now\<rparr>) (\<lambda>_ st. (Inr next_due, st)) st)"

text \<open>\<open>(next_due - now).days\<close> and the two tests on it.\<close>

definition days_until_due :: "datetime \<Rightarrow> RotationSchedule \<Rightarrow> int" where
  "days_until_due now r = (ss_next_rotation_due r - now) div day_us"

definition is_overdue :: "datetime \<Rightarrow> RotationSchedule \<Rightarrow> bool" where
  "is_overdue now r \<longleftrightarrow> days_until_due now r < 0"

definition is_warning :: "datetime \<Rightarrow> RotationSchedule \<Rightarrow> bool" where
  "is_warning now r \<longleftrightarrow> 0 \<le> days_until_due now r \<and> days_until_due now r \<le> 14"

record EvaluationSummary =
  ea_warning_count :: nat
  ea_overdue_count :: nat

text \<open>One turn of the loop over the rows that the transaction read.\<close>

definition evaluate_row ::
  "datetime \<Rightarrow> RotationSchedule \<Rightarrow> EvaluationSummary \<times> RotationSchedule list \<Rightarrow>
   EvaluationSummary \<times> RotationSchedule list" where
  "evaluate_row now row acc =
     (case acc of (tally, rows) \<Rightarrow>
        if is_overdue now row \<or> is_warning now row
        then (if is_overdue now row then tally\<lparr>ea_overdue_count := Suc (ea_overdue_count tally)\<rparr>
              else tally\<lparr>ea_warning_count := Suc (ea_warning_count tally)\<rparr>,
              map (\<lambda>r. if ss_schedule_id r = ss_schedule_id row
                       then r\<lparr>ss_overdue := is_overdue now row, ss_updated_at := now\<rparr> else r) rows)
        else acc)"

definition evaluate_rotation_schedule :: "datetime \<Rightarrow> Credentials \<Rightarrow> EvaluationSummary \<times> Credentials" where
  "evaluate_rotation_schedule now st =
     (case fold (evaluate_row now) (ca_schedule st) (\<lparr>ea_warning_count = 0, ea_overdue_count = 0\<rparr>, ca_schedule st) of
        (tally, rows) \<Rightarrow> (tally, st\<lparr>ca_schedule := rows\<rparr>))"

text \<open>The metrics of an evaluation: \<open>increment(name, count=n)\<close> passes the number as a label and adds
  one.\<close>

definition evaluation_metrics :: "EvaluationSummary \<Rightarrow> PersistenceTelemetry \<Rightarrow> PersistenceTelemetry" where
  "evaluation_metrics tally t =
     (let t = set_gauge ''devsquad_credential_rotation_warning_count'' (of_nat (ea_warning_count tally)) []
                (set_gauge ''devsquad_credential_rotation_overdue_count'' (of_nat (ea_overdue_count tally)) [] t)
      in if 0 < ea_overdue_count tally
         then increment ''devsquad_credential_rotation_overdue_alerts_total'' 1
                [(''count'', str_of_nat (ea_overdue_count tally))] t
         else t)"

definition overdue_credentials :: "str \<Rightarrow> str \<Rightarrow> Credentials \<Rightarrow> RotationSchedule list" where
  "overdue_credentials tenant_id team_id st =
     filter (\<lambda>r. ss_tenant_id r = tenant_id \<and> ss_team_id r = team_id \<and> ss_overdue r) (ca_schedule st)"

definition check_blocking_status :: "str \<Rightarrow> str \<Rightarrow> Credentials \<Rightarrow> bool \<times> RotationSchedule list" where
  "check_blocking_status tenant_id team_id st =
     (overdue_credentials tenant_id team_id st \<noteq> [], overdue_credentials tenant_id team_id st)"

definition count_overdue :: "Credentials \<Rightarrow> nat" where
  "count_overdue st = length (filter ss_overdue (ca_schedule st))"

section \<open>Break-glass grants\<close>

record BreakGlassRequest =
  bq_tenant_id :: str
  bq_team_id :: str
  bq_reason :: str
  bq_duration_hours :: int

definition request_break_glass ::
  "datetime \<Rightarrow> str \<Rightarrow> BreakGlassRequest \<Rightarrow> str \<Rightarrow> (Credentials, datetime) operation" where
  "request_break_glass now grant_id request x_actor st =
     (case add_time now (bq_duration_hours request * hour_us) of
        Inl e \<Rightarrow> (Inl e, st)
      | Inr expires_at \<Rightarrow>
          if list_ex (\<lambda>g. gg_grant_id g = grant_id) (ca_grants st)
          then (Inl (IntegrityError ''break_glass_grants_pkey''), st)
          else (Inr expires_at, st\<lparr>ca_grants := ca_grants st @
            [\<lparr>gg_grant_id = grant_id, gg_tenant_id = bq_tenant_id request, gg_team_id = bq_team_id request,
              gg_requested_by = x_actor, gg_reason = bq_reason request, gg_approved_by_first = None,
              gg_approved_by_second = None, gg_granted_at = None, gg_expires_at = expires_at,
              gg_revoked_at = None, gg_revoked_by = None, gg_revoke_reason = None,
              gg_created_at = now\<rparr>]\<rparr>))"

record ApprovalAnswer =
  aa_status :: str
  aa_approved_by_first :: "str option"
  aa_approved_by_second :: "str option"
  aa_granted_at :: "datetime option"

definition approve_break_glass :: "datetime \<Rightarrow> str \<Rightarrow> str \<Rightarrow> (Credentials, ApprovalAnswer) operation" where
  "approve_break_glass now grant_id x_actor st =
     (case find (\<lambda>g. gg_grant_id g = grant_id) (ca_grants st) of
        None \<Rightarrow> (Inl (HTTPException 404 ''grant_not_found''), st)
      | Some row \<Rightarrow>
          if gg_revoked_at row \<noteq> None then (Inl (HTTPException 400 ''grant_revoked''), st)
          else (case next_approvers x_actor (gg_approved_by_first row, gg_approved_by_second row) of
              Inl e \<Rightarrow> (Inl e, st)
            | Inr (first, second) \<Rightarrow>
                (let granted_at = (if second = None then None else Some now)
                 in (Inr \<lparr>aa_status = (if second = None then ''pending_second_approval'' else ''granted''),
                          aa_approved_by_first = first, aa_approved_by_second = second,
                          aa_granted_at = granted_at\<rparr>,
                     st\<lparr>ca_grants := map (\<lambda>g. if gg_grant_id g = grant_id
                          then g\<lparr>gg_approved_by_first := first, gg_approved_by_second := second,
                                 gg_granted_at := granted_at\<rparr> else g) (ca_grants st)\<rparr>))))"

definition revoke_break_glass :: "datetime \<Rightarrow> str \<Rightarrow> str \<Rightarrow> str \<Rightarrow> (Credentials, unit) operation" where
  "revoke_break_glass now grant_id reason x_actor st =
     (if list_ex (\<lambda>g. gg_grant_id g = grant_id) (ca_grants st)
      then (Inr (), st\<lparr>ca_grants := map (\<lambda>g. if gg_grant_id g = grant_id
              then g\<lparr>gg_revoked_at := Some now, gg_revoked_by := Some x_actor, gg_revoke_reason := Some reason\<rparr>
              else g) (ca_grants st)\<rparr>)
      else (Inl (HTTPException 404 ''grant_not_found''), st))"

definition grant_status :: "datetime \<Rightarrow> BreakGlassGrant \<Rightarrow> str" where
  "grant_status now g =
     (let granted = gg_granted_at g \<noteq> None \<and> gg_approved_by_second g \<noteq> None;
          expired = gg_expires_at g < now;
          revoked = gg_revoked_at g \<noteq> None
      in if granted \<and> \<not> expired \<and> \<not> revoked then ''active''
         else if revoked then ''revoked''
         else if expired then ''expired''
         else if granted then ''pending_second_approval''
         else ''pending_first_approval'')"

definition list_break_glass_grants ::
  "datetime \<Rightarrow> str option \<Rightarrow> bool \<Rightarrow> Credentials \<Rightarrow> (BreakGlassGrant \<times> str) list" where
  "list_break_glass_grants now tenant_id active_only st =
     (let rows = rev (sort_key gg_created_at
            (filter (\<lambda>g. case tenant_id of None \<Rightarrow> True | Some t \<Rightarrow> t = [] \<or> gg_tenant_id g = t) (ca_grants st)));
          results = map (\<lambda>g. (g, grant_status now g)) rows
      in if active_only then filter (\<lambda>r. snd r = ''active'') results else results)"

section \<open>Key encryption keys\<close>

definition introduce_kek :: "datetime \<Rightarrow> str \<Rightarrow> str \<Rightarrow> str \<Rightarrow> (Credentials, unit) operation" where
  "introduce_kek now kek_id kms_ref introduced_by st =
     (if list_ex (\<lambda>k. ek_kek_id k = kek_id) (ca_keks st)
      then (Inl (IntegrityError ''kek_versions_pkey''), st)
      else (Inr (), st\<lparr>ca_keks := ca_keks st @
        [\<lparr>ek_kek_id = kek_id, ek_kms_ref = kms_ref, ek_introduced_at = now, ek_retired_at = None,
          ek_is_default = False, ek_introduced_by = introduced_by\<rparr>]\<rparr>))"

definition rotate_kek_default :: "str \<Rightarrow> (Credentials, unit) operation" where
  "rotate_kek_default new_kek_id st =
     (if \<not> list_ex (\<lambda>k. ek_kek_id k = new_kek_id) (ca_keks st)
      then (Inl (HTTPException 404 ''kek_not_found''), st)
      else (let cleared = map (\<lambda>k. if ek_is_default k then k\<lparr>ek_is_default := False\<rparr> else k) (ca_keks st)
            in (Inr (), st\<lparr>ca_keks :=
                 map (\<lambda>k. if ek_kek_id k = new_kek_id then k\<lparr>ek_is_default := True\<rparr> else k) cleared\<rparr>)))"

definition retire_kek :: "datetime \<Rightarrow> str \<Rightarrow> (Credentials, unit) operation" where
  "retire_kek now kek_id st =
     (if list_ex (\<lambda>k. ek_kek_id k = kek_id \<and> \<not> ek_is_default k) (ca_keks st)
      then (Inr (), st\<lparr>ca_keks := map (\<lambda>k. if ek_kek_id k = kek_id \<and> \<not> ek_is_default k
              then k\<lparr>ek_retired_at := Some now\<rparr> else k) (ca_keks st)\<rparr>)
      else (Inl (HTTPException 400 ''cannot_retire_default_or_missing_kek''), st))"

text \<open>This handler alone has no role dependency.\<close>

definition list_kek_versions :: "Credentials \<Rightarrow> KekVersion list" where
  "list_kek_versions st = rev (sort_key ek_introduced_at (ca_keks st))"

section \<open>Histories\<close>

text \<open>The calls that change the tables, each with its clock and the id it would draw.\<close>

datatype CredentialCall =
    UpsertRotation datetime str str str str str int
  | EvaluateRotation datetime
  | RequestGrant datetime str BreakGlassRequest str
  | ApproveGrant datetime str str
  | RevokeGrant datetime str str str
  | IntroduceKek datetime str str str
  | RotateKek str
  | RetireKek datetime str

fun credential_step :: "CredentialCall \<Rightarrow> Credentials \<Rightarrow> Credentials" where
  "credential_step (UpsertRotation now i t m k c days) st = snd (upsert_rotation_schedule now i t m k c days st)"
| "credential_step (EvaluateRotation now) st = snd (evaluate_rotation_schedule now st)"
| "credential_step (RequestGrant now i request actor) st = snd (request_break_glass now i request actor st)"
| "credential_step (ApproveGrant now i actor) st = snd (approve_break_glass now i actor st)"
| "credential_step (RevokeGrant now i reason actor) st = snd (revoke_break_glass now i reason actor st)"
| "credential_step (IntroduceKek now i ref by) st = snd (introduce_kek now i ref by st)"
| "credential_step (RotateKek i) st = snd (rotate_kek_default i st)"
| "credential_step (RetireKek now i) st = snd (retire_kek now i st)"

end
