(* ===== verification/CredentialsCorrect.thy ===== *)
theory CredentialsCorrect
  imports Credentials
begin

text \<open>
  Correctness of credential administration: the tables refine a small specification of grants and key
  versions over every history of calls, a grant is active only after two names approved it, an
  evaluation counts what is overdue; and what the code does not do: an overdue credential never
  leaves that state, a retired key can become the default.
\<close>

section \<open>The invariant of the tables\<close>

lemma schedule_calls_keep [simp]:
  "ca_grants (snd (upsert_rotation_schedule now i t m k c days st)) = ca_grants st"
  "ca_keks (snd (upsert_rotation_schedule now i t m k c days st)) = ca_keks st"
  "ca_grants (snd (evaluate_rotation_schedule now st)) = ca_grants st"
  "ca_keks (snd (evaluate_rotation_schedule now st)) = ca_keks st"
  by (auto simp: upsert_rotation_schedule_def insert_schedule_def op_bind_def evaluate_rotation_schedule_def
      split: sum.splits prod.splits)

lemma grant_calls_keep [simp]:
  "ca_schedule (snd (request_break_glass now i request actor st)) = ca_schedule st"
  "ca_schedule (snd (approve_break_glass now i actor st)) = ca_schedule st"
  "ca_schedule (snd (revoke_break_glass now i reason actor st)) = ca_schedule st"
  by (auto simp: request_break_glass_def approve_break_glass_def revoke_break_glass_def Let_def
      split: sum.splits option.splits)

lemma key_calls_keep [simp]:
  "ca_schedule (snd (introduce_kek now i kms introduced_by st)) = ca_schedule st"
  "ca_schedule (snd (rotate_kek_default i st)) = ca_schedule st"
  "ca_schedule (snd (retire_kek now i st)) = ca_schedule st"
  "ca_grants (snd (introduce_kek now i kms introduced_by st)) = ca_grants st"
  "ca_grants (snd (rotate_kek_default i st)) = ca_grants st"
  "ca_grants (snd (retire_kek now i st)) = ca_grants st"
  by (simp_all add: introduce_kek_def rotate_kek_default_def retire_kek_def Let_def)

text \<open>Keys are unique, at most one key version is the default, and a grant has its time exactly when it
  has its second approval, which comes after a first.\<close>

definition grant_ok :: "BreakGlassGrant \<Rightarrow> bool" where
  "grant_ok g \<longleftrightarrow> (gg_granted_at g = None \<longleftrightarrow> gg_approved_by_second g = None) \<and>
     (gg_approved_by_first g = None \<longrightarrow> gg_approved_by_second g = None)"

definition one_default :: "KekVersion list \<Rightarrow> bool" where
  "one_default ks \<longleftrightarrow> (\<exists>i. \<forall>k \<in> set ks. ek_is_default k \<longrightarrow> ek_kek_id k = i)"

lemma one_defaultD:
  "one_default ks \<Longrightarrow> k \<in> set ks \<Longrightarrow> k' \<in> set ks \<Longrightarrow> ek_is_default k \<Longrightarrow> ek_is_default k' \<Longrightarrow>
     ek_kek_id k = ek_kek_id k'"
  by (auto simp: one_default_def)

lemma one_default_cong:
  assumes "one_default ks"
    and "\<And>k. k \<in> set ks' \<Longrightarrow> ek_is_default k \<Longrightarrow> \<exists>k' \<in> set ks. ek_is_default k' \<and> ek_kek_id k' = ek_kek_id k"
  shows "one_default ks'"
proof -
  from assms(1) obtain i where "\<forall>k \<in> set ks. ek_is_default k \<longrightarrow> ek_kek_id k = i" by (auto simp: one_default_def)
  with assms(2) have "\<forall>k \<in> set ks'. ek_is_default k \<longrightarrow> ek_kek_id k = i" by force
  then show ?thesis by (auto simp: one_default_def)
qed

definition credentials_ok :: "Credentials \<Rightarrow> bool" where
  "credentials_ok st \<longleftrightarrow>
     distinct (map ss_schedule_id (ca_schedule st)) \<and> distinct (map gg_grant_id (ca_grants st)) \<and>
     distinct (map ek_kek_id (ca_keks st)) \<and> (\<forall>g \<in> set (ca_grants st). grant_ok g) \<and>
     one_default (ca_keks st)"

lemma credentials_ok_empty: "credentials_ok empty_credentials"
  by (simp add: credentials_ok_def empty_credentials_def one_default_def)

text \<open>The loop of an evaluation touches the rows it was read from: each is rewritten as its own date
  says.\<close>

definition evaluated :: "datetime \<Rightarrow> RotationSchedule \<Rightarrow> RotationSchedule" where
  "evaluated now r =
     (if is_overdue now r \<or> is_warning now r then r\<lparr>ss_overdue := is_overdue now r, ss_updated_at := now\<rparr> else r)"

lemma evaluated_same [simp]:
  "ss_schedule_id (evaluated now r) = ss_schedule_id r" "ss_tenant_id (evaluated now r) = ss_tenant_id r"
  "ss_team_id (evaluated now r) = ss_team_id r" "ss_next_rotation_due (evaluated now r) = ss_next_rotation_due r"
  "ss_credential_kind (evaluated now r) = ss_credential_kind r" "ss_credential_id (evaluated now r) = ss_credential_id r"
  "is_overdue t (evaluated now r) = is_overdue t r" "is_warning t (evaluated now r) = is_warning t r"
  by (simp_all add: evaluated_def is_overdue_def is_warning_def days_until_due_def)

lemma evaluate_rows:
  assumes "distinct (map ss_schedule_id (done_rows @ rows))"
  shows "fold (evaluate_row now) rows (tally, map (evaluated now) done_rows @ rows) =
    (tally\<lparr>ea_warning_count := ea_warning_count tally + length (filter (\<lambda>r. is_warning now r \<and> \<not> is_overdue now r) rows),
           ea_overdue_count := ea_overdue_count tally + length (filter (is_overdue now) rows)\<rparr>,
     map (evaluated now) (done_rows @ rows))"
  using assms
proof (induction rows arbitrary: done_rows tally)
  case Nil
  then show ?case by simp
next
  case (Cons row rows)
  let ?f = "\<lambda>r. if ss_schedule_id r = ss_schedule_id row
      then r\<lparr>ss_overdue := is_overdue now row, ss_updated_at := now\<rparr> else r"
  have others: "map ?f (map (evaluated now) done_rows) = map (evaluated now) done_rows" "map ?f rows = rows"
    using Cons.prems by (auto intro!: map_idI simp: image_iff)
  have "distinct (map ss_schedule_id ((done_rows @ [row]) @ rows))" using Cons.prems by simp
  note IH = Cons.IH[OF this]
  have "evaluate_row now row (tally, map (evaluated now) done_rows @ row # rows) =
      (tally\<lparr>ea_warning_count := ea_warning_count tally + (if is_warning now row \<and> \<not> is_overdue now row then 1 else 0),
             ea_overdue_count := ea_overdue_count tally + (if is_overdue now row then 1 else 0)\<rparr>,
       map (evaluated now) (done_rows @ [row]) @ rows)" (is "_ = (?tally, _)")
  proof (cases "is_overdue now row \<or> is_warning now row")
    case True
    then have "map ?f (map (evaluated now) done_rows @ row # rows) = map (evaluated now) (done_rows @ [row]) @ rows"
      using others by (simp add: evaluated_def)
    with True show ?thesis by (auto simp: evaluate_row_def)
  next
    case False
    then show ?thesis by (simp add: evaluate_row_def evaluated_def)
  qed
  with IH[of ?tally] show ?case by simp
qed

lemma evaluate_exact:
  assumes "distinct (map ss_schedule_id (ca_schedule st))"
  shows "evaluate_rotation_schedule now st =
    (\<lparr>ea_warning_count = length (filter (is_warning now) (ca_schedule st)),
      ea_overdue_count = length (filter (is_overdue now) (ca_schedule st))\<rparr>,
     st\<lparr>ca_schedule := map (evaluated now) (ca_schedule st)\<rparr>)"
proof -
  have "filter (\<lambda>r. is_warning now r \<and> \<not> is_overdue now r) rows = filter (is_warning now) rows" for rows
    by (rule filter_cong) (auto simp: is_warning_def is_overdue_def)
  with evaluate_rows[of "[]" "ca_schedule st" now "\<lparr>ea_warning_count = 0, ea_overdue_count = 0\<rparr>"] assms
  show ?thesis by (simp add: evaluate_rotation_schedule_def)
qed

lemma grant_ok_next:
  assumes "grant_ok g" and "next_approvers actor (gg_approved_by_first g, gg_approved_by_second g) = Inr (first, second)"
  shows "grant_ok (g\<lparr>gg_approved_by_first := first, gg_approved_by_second := second,
    gg_granted_at := (if second = None then None else Some now)\<rparr>)"
  using assms by (auto simp: grant_ok_def next_approvers_def split: option.splits if_splits)

lemma find_grant_unique:
  assumes "distinct (map gg_grant_id gs)" "find (\<lambda>g. gg_grant_id g = i) gs = Some row" "g \<in> set gs" "gg_grant_id g = i"
  shows "g = row"
  using find_keyed_distinct[OF assms(1,3)] assms(2,4) by simp

text \<open>The two updates of a rotation make the new key the only default.\<close>

lemma rotate_keks:
  "snd (rotate_kek_default i st) =
     (if i \<in> ek_kek_id ` set (ca_keks st)
      then st\<lparr>ca_keks := map (\<lambda>k. k\<lparr>ek_is_default := ek_kek_id k = i\<rparr>) (ca_keks st)\<rparr> else st)"
proof -
  have "(if ek_kek_id k' = i then k'\<lparr>ek_is_default := True\<rparr> else k') = k\<lparr>ek_is_default := ek_kek_id k = i\<rparr>"
    if "k' = (if ek_is_default k then k\<lparr>ek_is_default := False\<rparr> else k)" for k k' :: KekVersion
    using that by (cases k) simp
  then show ?thesis by (simp add: rotate_kek_default_def list_ex_keyed comp_def)
qed

lemma credentials_ok_step:
  assumes ok: "credentials_ok st"
  shows "credentials_ok (credential_step c st)"
proof (cases c)
  case (UpsertRotation now i t m k cr days)
  with ok show ?thesis
    by (auto simp: credentials_ok_def upsert_rotation_schedule_def insert_schedule_def op_bind_def list_ex_iff
        split: sum.splits)
next
  case (EvaluateRotation now)
  have "map ss_schedule_id (map (evaluated now) rows) = map ss_schedule_id rows" for rows by simp
  with EvaluateRotation ok evaluate_exact[of st now] show ?thesis by (simp add: credentials_ok_def comp_def)
next
  case (RequestGrant now i request actor)
  with ok show ?thesis
    by (auto simp: credentials_ok_def request_break_glass_def grant_ok_def list_ex_keyed split: sum.splits)
next
  case (ApproveGrant now i actor)
  show ?thesis
  proof (cases "credential_step c st = st")
    case True
    with ok show ?thesis by simp
  next
    case False
    then obtain row first second where row: "find (\<lambda>g. gg_grant_id g = i) (ca_grants st) = Some row"
      and next_row: "next_approvers actor (gg_approved_by_first row, gg_approved_by_second row) = Inr (first, second)"
      and new: "credential_step c st = st\<lparr>ca_grants := map (\<lambda>g. if gg_grant_id g = i
          then g\<lparr>gg_approved_by_first := first, gg_approved_by_second := second,
                 gg_granted_at := (if second = None then None else Some now)\<rparr> else g) (ca_grants st)\<rparr>"
      unfolding ApproveGrant by (auto simp: approve_break_glass_def Let_def split: option.splits if_splits sum.splits)
    have "grant_ok g'" if "g' \<in> set (ca_grants (credential_step c st))" for g'
    proof -
      from that obtain g where "g \<in> set (ca_grants st)" and g': "g' = (if gg_grant_id g = i
          then g\<lparr>gg_approved_by_first := first, gg_approved_by_second := second,
                 gg_granted_at := (if second = None then None else Some now)\<rparr> else g)"
        unfolding new by auto
      with ok have "grant_ok g" by (simp add: credentials_ok_def)
      show ?thesis
      proof (cases "gg_grant_id g = i")
        case True
        then have "g = row" using ok row \<open>g \<in> set _\<close> by (intro find_grant_unique) (auto simp: credentials_ok_def)
        with grant_ok_next[OF \<open>grant_ok g\<close>] next_row g' True show ?thesis by simp
      next
        case False
        with g' \<open>grant_ok g\<close> show ?thesis by simp
      qed
    qed
    with ok show ?thesis unfolding new by (simp add: credentials_ok_def)
  qed
next
  case (RevokeGrant now i reason actor)
  with ok show ?thesis
    by (auto simp: credentials_ok_def revoke_break_glass_def grant_ok_def)
next
  case (IntroduceKek now i kms introduced_by)
  have "one_default (ca_keks (credential_step c st))"
    by (rule one_default_cong[of "ca_keks st"]) (use ok[unfolded credentials_ok_def] in \<open>auto simp: IntroduceKek introduce_kek_def split: if_splits\<close>)
  with ok IntroduceKek show ?thesis
    by (auto simp: credentials_ok_def introduce_kek_def list_ex_keyed)
next
  case (RotateKek i)
  have ids: "map (ek_kek_id \<circ> (\<lambda>k. k\<lparr>ek_is_default := ek_kek_id k = i\<rparr>)) ks = map ek_kek_id ks" for ks by simp
  have "one_default (map (\<lambda>k. k\<lparr>ek_is_default := ek_kek_id k = i\<rparr>) (ca_keks st))"
    by (auto simp: one_default_def)
  with ok show ?thesis by (simp add: RotateKek credentials_ok_def rotate_keks ids)
next
  case (RetireKek now i)
  have "one_default (ca_keks (credential_step c st))"
    by (rule one_default_cong[of "ca_keks st"])
       (use ok[unfolded credentials_ok_def] in \<open>auto simp: RetireKek retire_kek_def split: if_splits\<close>)
  with ok RetireKek show ?thesis
    by (simp add: credentials_ok_def retire_kek_def)
qed

lemma credentials_ok_history: "credentials_ok st \<Longrightarrow> credentials_ok (fold credential_step calls st)"
  by (induction calls arbitrary: st) (simp_all add: credentials_ok_step)

section \<open>Refinement of a specification\<close>

text \<open>What the tables stand for: the phase of each grant, and the known, retired and default keys.\<close>

datatype Phase = Pending | Once str | Both str str | Revoked

record CredentialSpec =
  sp_grants :: "str \<Rightarrow> Phase option"
  sp_keys :: "str set"
  sp_retired :: "str set"
  sp_default :: "str option"

fun approve_phase :: "str \<Rightarrow> Phase \<Rightarrow> Phase" where
  "approve_phase actor Pending = Once actor"
| "approve_phase actor (Once a) = (if actor = a then Once a else Both a actor)"
| "approve_phase actor (Both a b) = (if actor = a then Both a b else Both a actor)"
| "approve_phase actor Revoked = Revoked"

definition in_range :: "datetime \<Rightarrow> bool" where
  "in_range t \<longleftrightarrow> MIN_DATETIME \<le> t \<and> t \<le> MAX_DATETIME"

fun spec_step :: "CredentialCall \<Rightarrow> CredentialSpec \<Rightarrow> CredentialSpec" where
  "spec_step (RequestGrant now i request actor) s =
     (if i \<notin> dom (sp_grants s) \<and> in_range (now + bq_duration_hours request * hour_us)
      then s\<lparr>sp_grants := (sp_grants s)(i \<mapsto> Pending)\<rparr> else s)"
| "spec_step (ApproveGrant now i actor) s =
     s\<lparr>sp_grants := (sp_grants s)(i := map_option (approve_phase actor) (sp_grants s i))\<rparr>"
| "spec_step (RevokeGrant now i reason actor) s =
     s\<lparr>sp_grants := (sp_grants s)(i := map_option (\<lambda>_. Revoked) (sp_grants s i))\<rparr>"
| "spec_step (IntroduceKek now i kms introduced_by) s = s\<lparr>sp_keys := insert i (sp_keys s)\<rparr>"
| "spec_step (RotateKek i) s = (if i \<in> sp_keys s then s\<lparr>sp_default := Some i\<rparr> else s)"
| "spec_step (RetireKek now i) s =
     (if i \<in> sp_keys s \<and> sp_default s \<noteq> Some i then s\<lparr>sp_retired := insert i (sp_retired s)\<rparr> else s)"
| "spec_step _ s = s"

fun phase_of_approvers :: "approvers \<Rightarrow> Phase" where
  "phase_of_approvers (None, _) = Pending"
| "phase_of_approvers (Some a, None) = Once a"
| "phase_of_approvers (Some a, Some b) = Both a b"

definition phase_of :: "BreakGlassGrant \<Rightarrow> Phase" where
  "phase_of g =
     (if gg_revoked_at g \<noteq> None then Revoked
      else phase_of_approvers (gg_approved_by_first g, gg_approved_by_second g))"

definition credential_abs :: "Credentials \<Rightarrow> CredentialSpec" where
  "credential_abs st =
     \<lparr>sp_grants = (\<lambda>i. map_option phase_of (find (\<lambda>g. gg_grant_id g = i) (ca_grants st))),
      sp_keys = ek_kek_id ` set (ca_keks st),
      sp_retired = ek_kek_id ` {k \<in> set (ca_keks st). ek_retired_at k \<noteq> None},
      sp_default = map_option ek_kek_id (find ek_is_default (ca_keks st))\<rparr>"

definition empty_spec :: CredentialSpec where
  "empty_spec = \<lparr>sp_grants = Map.empty, sp_keys = {}, sp_retired = {}, sp_default = None\<rparr>"

text \<open>One lemma per call on the grants.\<close>

lemma phase_of_next:
  "(case next_approvers actor p of
      Inl e \<Rightarrow> approve_phase actor (phase_of_approvers p) = phase_of_approvers p
    | Inr q \<Rightarrow> phase_of_approvers q = approve_phase actor (phase_of_approvers p))"
  by (cases p rule: phase_of_approvers.cases) (auto simp: next_approvers_def)

lemma phase_of_approved:
  assumes "gg_revoked_at g = None"
    and "next_approvers actor (gg_approved_by_first g, gg_approved_by_second g) = Inr (first, second)"
  shows "phase_of (g\<lparr>gg_approved_by_first := first, gg_approved_by_second := second, gg_granted_at := t\<rparr>) =
    approve_phase actor (phase_of g)"
  using assms phase_of_next[of actor "(gg_approved_by_first g, gg_approved_by_second g)"] by (simp add: phase_of_def)

lemma phase_of_refused:
  assumes "next_approvers actor (gg_approved_by_first g, gg_approved_by_second g) = Inl e"
  shows "approve_phase actor (phase_of g) = phase_of g"
  using assms phase_of_next[of actor "(gg_approved_by_first g, gg_approved_by_second g)"] by (simp add: phase_of_def)

lemma approve_refines:
  "credential_abs (snd (approve_break_glass now i actor st)) = spec_step (ApproveGrant now i actor) (credential_abs st)"
proof (cases "find (\<lambda>g. gg_grant_id g = i) (ca_grants st)")
  case None
  then show ?thesis by (auto simp: approve_break_glass_def credential_abs_def fun_eq_iff)
next
  case (Some g)
  consider "gg_revoked_at g \<noteq> None"
    | e where "gg_revoked_at g = None" "next_approvers actor (gg_approved_by_first g, gg_approved_by_second g) = Inl e"
    | first second where "gg_revoked_at g = None"
        "next_approvers actor (gg_approved_by_first g, gg_approved_by_second g) = Inr (first, second)"
    by (cases "next_approvers actor (gg_approved_by_first g, gg_approved_by_second g)") auto
  then show ?thesis
  proof cases
    case 1
    then have "phase_of g = Revoked" by (simp add: phase_of_def)
    with 1 Some show ?thesis by (auto simp: approve_break_glass_def credential_abs_def fun_eq_iff)
  next
    case 2
    with Some phase_of_refused[OF 2(2)] show ?thesis
      by (auto simp: approve_break_glass_def credential_abs_def fun_eq_iff)
  next
    case 3
    define t where "t = (if second = None then None else Some now)"
    let ?f = "\<lambda>g. g\<lparr>gg_approved_by_first := first, gg_approved_by_second := second, gg_granted_at := t\<rparr>"
    have "snd (approve_break_glass now i actor st) =
        st\<lparr>ca_grants := map (\<lambda>g. if gg_grant_id g = i then ?f g else g) (ca_grants st)\<rparr>"
      using 3 Some by (simp add: approve_break_glass_def Let_def t_def)
    with Some phase_of_approved[OF 3] show ?thesis
      by (simp add: credential_abs_def fun_eq_iff find_update)
  qed
qed

lemma revoke_refines:
  "credential_abs (snd (revoke_break_glass now i reason actor st)) =
    spec_step (RevokeGrant now i reason actor) (credential_abs st)"
proof (cases "i \<in> gg_grant_id ` set (ca_grants st)")
  case True
  have "phase_of (g\<lparr>gg_revoked_at := Some now, gg_revoked_by := Some actor, gg_revoke_reason := Some reason\<rparr>) = Revoked"
    for g :: BreakGlassGrant by (simp add: phase_of_def)
  with True show ?thesis
    by (simp add: revoke_break_glass_def list_ex_keyed credential_abs_def fun_eq_iff find_update option.map_comp comp_def)
next
  case False
  then have "find (\<lambda>g. gg_grant_id g = i) (ca_grants st) = None" by (simp add: find_keyed_None)
  with False show ?thesis
    by (auto simp: revoke_break_glass_def list_ex_keyed credential_abs_def fun_eq_iff)
qed

lemma request_refines:
  "credential_abs (snd (request_break_glass now i request actor st)) =
    spec_step (RequestGrant now i request actor) (credential_abs st)"
proof (cases "i \<in> gg_grant_id ` set (ca_grants st)")
  case True
  then have "find (\<lambda>g. gg_grant_id g = i) (ca_grants st) \<noteq> None" by (subst find_keyed_None) simp
  with True show ?thesis
    by (auto simp: request_break_glass_def list_ex_keyed credential_abs_def dom_def split: sum.splits)
next
  case False
  then have "find (\<lambda>g. gg_grant_id g = i) (ca_grants st) = None" by (simp add: find_keyed_None)
  with False show ?thesis
    by (auto simp: request_break_glass_def list_ex_keyed credential_abs_def add_time_def in_range_def
        fun_eq_iff find_append phase_of_def split: option.splits)
qed

text \<open>One lemma per call on the keys.\<close>

lemma find_default:
  assumes "credentials_ok st" "k \<in> set (ca_keks st)" "ek_is_default k"
  shows "map_option ek_kek_id (find ek_is_default (ca_keks st)) = Some (ek_kek_id k)"
proof (cases "find ek_is_default (ca_keks st)")
  case None
  with assms show ?thesis by (simp add: find_None_iff)
next
  case (Some k')
  with find_SomeD[OF Some] assms show ?thesis
    using one_defaultD[of "ca_keks st" k' k] by (simp add: credentials_ok_def)
qed

lemma rotate_refines:
  assumes "credentials_ok st"
  shows "credential_abs (snd (rotate_kek_default i st)) = spec_step (RotateKek i) (credential_abs st)"
proof (cases "i \<in> ek_kek_id ` set (ca_keks st)")
  case True
  have "credentials_ok (snd (rotate_kek_default i st))"
    using credentials_ok_step[OF assms, of "RotateKek i"] by simp
  moreover from True obtain k where "k \<in> set (ca_keks st)" "ek_kek_id k = i" by auto
  then have "k\<lparr>ek_is_default := True\<rparr> \<in> set (ca_keks (snd (rotate_kek_default i st)))"
    using True by (auto simp: rotate_keks image_iff intro: bexI[of _ k])
  ultimately have "map_option ek_kek_id (find ek_is_default (ca_keks (snd (rotate_kek_default i st)))) = Some i"
    using find_default[of "snd (rotate_kek_default i st)" "k\<lparr>ek_is_default := True\<rparr>"] \<open>ek_kek_id k = i\<close> by simp
  moreover have "ek_kek_id ` {k' \<in> set (ca_keks (snd (rotate_kek_default i st))). ek_retired_at k' \<noteq> None} =
      ek_kek_id ` {k' \<in> set (ca_keks st). ek_retired_at k' \<noteq> None}"
    using True by (simp add: rotate_keks Compr_image_eq image_image)
  ultimately show ?thesis
    using True by (simp add: credential_abs_def rotate_keks image_image)
next
  case False
  then show ?thesis by (simp add: credential_abs_def rotate_keks)
qed

lemma introduce_refines:
  "credential_abs (snd (introduce_kek now i kms introduced_by st)) =
    spec_step (IntroduceKek now i kms introduced_by) (credential_abs st)"
proof (cases "i \<in> ek_kek_id ` set (ca_keks st)")
  case True
  then show ?thesis by (simp add: introduce_kek_def list_ex_keyed credential_abs_def insert_absorb)
next
  case False
  then show ?thesis
    by (auto simp: introduce_kek_def list_ex_keyed credential_abs_def find_append image_iff split: option.splits)
qed

definition retire_row :: "datetime \<Rightarrow> str \<Rightarrow> KekVersion \<Rightarrow> KekVersion" where
  "retire_row now i k = (if ek_kek_id k = i \<and> \<not> ek_is_default k then k\<lparr>ek_retired_at := Some now\<rparr> else k)"

lemma retire_row_same [simp]:
  "ek_kek_id (retire_row now i k) = ek_kek_id k" "ek_is_default (retire_row now i k) = ek_is_default k"
  by (simp_all add: retire_row_def)

lemma find_default_retire_row:
  "map_option ek_kek_id (find ek_is_default (map (retire_row now i) ks)) = map_option ek_kek_id (find ek_is_default ks)"
  by (induction ks) simp_all

lemma retired_ids:
  assumes k: "k \<in> set ks" "ek_kek_id k = i" "\<not> ek_is_default k"
    and only: "\<And>k'. k' \<in> set ks \<Longrightarrow> ek_kek_id k' = i \<Longrightarrow> k' = k"
  shows "ek_kek_id ` {x \<in> set (map (retire_row now i) ks). ek_retired_at x \<noteq> None} =
      insert i (ek_kek_id ` {x \<in> set ks. ek_retired_at x \<noteq> None})"
proof -
  have "ek_retired_at (retire_row now i x) \<noteq> None \<longleftrightarrow> x = k \<or> ek_retired_at x \<noteq> None" if x: "x \<in> set ks" for x
  proof (cases "x = k")
    case True
    with k show ?thesis by (simp add: retire_row_def)
  next
    case False
    with only[OF x] have "ek_kek_id x \<noteq> i" by blast
    with False show ?thesis by (simp add: retire_row_def)
  qed
  with k(1) have "{x \<in> set ks. ek_retired_at (retire_row now i x) \<noteq> None} =
      insert k {x \<in> set ks. ek_retired_at x \<noteq> None}" by blast
  then show ?thesis
    by (simp only: set_map Compr_image_eq image_image retire_row_same image_insert k(2))
qed

lemma retire_refines:
  assumes ok: "credentials_ok st"
  shows "credential_abs (snd (retire_kek now i st)) = spec_step (RetireKek now i) (credential_abs st)"
proof (cases "list_ex (\<lambda>k. ek_kek_id k = i \<and> \<not> ek_is_default k) (ca_keks st)")
  case True
  then obtain k where k: "k \<in> set (ca_keks st)" "ek_kek_id k = i" "\<not> ek_is_default k" by (auto simp: list_ex_iff)
  have only: "k' = k" if "k' \<in> set (ca_keks st)" "ek_kek_id k' = i" for k'
    using inj_onD[of ek_kek_id "set (ca_keks st)" k' k] ok that k by (simp add: credentials_ok_def distinct_map)
  have "map_option ek_kek_id (find ek_is_default (ca_keks st)) \<noteq> Some i"
    using only k(3) by (cases "find ek_is_default (ca_keks st)") (auto dest: find_SomeD)
  moreover have "snd (retire_kek now i st) = st\<lparr>ca_keks := map (retire_row now i) (ca_keks st)\<rparr>"
    using True by (simp add: retire_kek_def retire_row_def[abs_def])
  moreover have "i \<in> ek_kek_id ` set (ca_keks st)" using k by auto
  moreover have "ek_kek_id ` set (map (retire_row now i) (ca_keks st)) = ek_kek_id ` set (ca_keks st)"
    by (simp only: set_map image_image retire_row_same)
  ultimately show ?thesis
    by (simp add: credential_abs_def find_default_retire_row retired_ids[OF k only] del: not_None_eq set_map)
next
  case False
  have "map_option ek_kek_id (find ek_is_default (ca_keks st)) = Some i" if "i \<in> ek_kek_id ` set (ca_keks st)"
  proof -
    from that obtain k where "k \<in> set (ca_keks st)" "ek_kek_id k = i" by auto
    with False have "ek_is_default k" by (auto simp: list_ex_iff)
    with find_default[OF ok \<open>k \<in> _\<close>] \<open>ek_kek_id k = i\<close> show ?thesis by simp
  qed
  with False show ?thesis by (auto simp: retire_kek_def credential_abs_def)
qed

lemma credential_step_refines:
  assumes "credentials_ok st"
  shows "credential_abs (credential_step c st) = spec_step c (credential_abs st)"
proof (cases c)
  case (UpsertRotation now i t m k cr days)
  then show ?thesis by (simp add: credential_abs_def)
next
  case (EvaluateRotation now)
  then show ?thesis by (simp add: credential_abs_def)
qed (use assms in \<open>simp_all add: request_refines approve_refines revoke_refines introduce_refines
      rotate_refines retire_refines del: spec_step.simps\<close>)

text \<open>C29 (the tables refine the specification). After every history of calls, the tables of grants and
  keys stand for the state of the specification, in which a grant goes from pending over one name to
  two different names and is final once revoked, and the default key is the one last made it.\<close>

theorem credentials_refine_spec:
  "credential_abs (fold credential_step calls empty_credentials) = fold spec_step calls empty_spec"
proof -
  have "credential_abs (fold credential_step calls st) = fold spec_step calls (credential_abs st)"
    if "credentials_ok st" for st
    using that by (induction calls arbitrary: st) (simp_all add: credential_step_refines credentials_ok_step)
  from this[OF credentials_ok_empty] show ?thesis
    by (simp add: credential_abs_def empty_credentials_def empty_spec_def)
qed

section \<open>Two names\<close>

definition grant_approvals :: "Credentials \<Rightarrow> (str \<times> approvers) list" where
  "grant_approvals st = map (\<lambda>g. (gg_grant_id g, gg_approved_by_first g, gg_approved_by_second g)) (ca_grants st)"

fun approves_grant :: "CredentialCall \<Rightarrow> (str \<times> str) option" where
  "approves_grant (ApproveGrant now i actor) = Some (i, actor)"
| "approves_grant _ = None"

lemma approve_break_glass_approvals:
  assumes "(j, p) \<in> set (grant_approvals (snd (approve_break_glass now i actor st)))"
  shows "(j, p) \<in> set (grant_approvals st) \<or>
    (j = i \<and> (\<exists>q. (i, q) \<in> set (grant_approvals st) \<and> next_approvers actor q = Inr p))"
proof (cases "find (\<lambda>g. gg_grant_id g = i) (ca_grants st)")
  case None
  with assms show ?thesis by (simp add: approve_break_glass_def)
next
  case (Some g)
  from find_keyed_SomeD[OF Some] have
    "(i, gg_approved_by_first g, gg_approved_by_second g) \<in> set (grant_approvals st)"
    by (auto simp: grant_approvals_def)
  moreover have "(j, p) \<in> set (grant_approvals st) \<or> (j = i \<and> p = (first, second))"
    if "next_approvers actor (gg_approved_by_first g, gg_approved_by_second g) = Inr (first, second)" for first second
    using assms Some that by (auto simp: approve_break_glass_def Let_def grant_approvals_def split: if_splits)
  moreover have "(j, p) \<in> set (grant_approvals st)"
    if "next_approvers actor (gg_approved_by_first g, gg_approved_by_second g) = Inl e" for e
    using assms Some that by (auto simp: approve_break_glass_def split: if_splits)
  ultimately show ?thesis
    by (cases "next_approvers actor (gg_approved_by_first g, gg_approved_by_second g)") fastforce+
qed

interpretation grants: dual_control grant_approvals credential_step approves_grant
proof
  fix i p c st
  assume new: "(i, p) \<in> set (grant_approvals (credential_step c st))"
  show "p = (None, None) \<or> (i, p) \<in> set (grant_approvals st) \<or>
    (\<exists>actor q. approves_grant c = Some (i, actor) \<and> (i, q) \<in> set (grant_approvals st) \<and> next_approvers actor q = Inr p)"
  proof (cases c)
    case (ApproveGrant now j actor)
    with new approve_break_glass_approvals[of i p now j actor st] show ?thesis by auto
  next
    case (RequestGrant now j request actor)
    with new show ?thesis
      by (auto simp: request_break_glass_def grant_approvals_def split: sum.splits if_splits)
  next
    case (RevokeGrant now j reason actor)
    with new show ?thesis
      by (auto simp: revoke_break_glass_def grant_approvals_def split: if_splits)
  qed (use new in \<open>simp_all add: grant_approvals_def\<close>)
qed

text \<open>What the list says of a grant.\<close>

lemma grant_status_active:
  "grant_status now g = ''active'' \<longleftrightarrow>
     gg_granted_at g \<noteq> None \<and> gg_approved_by_second g \<noteq> None \<and> gg_revoked_at g = None \<and> now \<le> gg_expires_at g"
  by (auto simp: grant_status_def Let_def)

lemma listed_grant: "(g, status) \<in> set (list_break_glass_grants now t active_only st) \<Longrightarrow>
    g \<in> set (ca_grants st) \<and> status = grant_status now g"
  by (auto simp: list_break_glass_grants_def Let_def split: if_splits)

text \<open>C30 (a grant is active only after two names approved it). Whatever the history, a grant that the list
  shows as active was approved in that history by two calls with different names, is not revoked and
  has not expired.\<close>

theorem active_grant_two_names:
  assumes "(g, ''active'') \<in> set (list_break_glass_grants now tenant_id active_only
    (fold credential_step calls empty_credentials))"
  shows "\<exists>a b t1 t2. a \<noteq> b \<and> ApproveGrant t1 (gg_grant_id g) a \<in> set calls \<and>
      ApproveGrant t2 (gg_grant_id g) b \<in> set calls \<and>
      gg_approved_by_first g = Some a \<and> gg_approved_by_second g = Some b \<and>
      gg_revoked_at g = None \<and> now \<le> gg_expires_at g"
proof -
  let ?st = "fold credential_step calls empty_credentials"
  from listed_grant[OF assms] have g: "g \<in> set (ca_grants ?st)" and "grant_status now g = ''active''" by simp_all
  then have active: "gg_approved_by_second g \<noteq> None" "gg_revoked_at g = None" "now \<le> gg_expires_at g"
    by (simp_all add: grant_status_active)
  have "(gg_grant_id g, gg_approved_by_first g, gg_approved_by_second g) \<in> set (grant_approvals ?st)"
    using g by (auto simp: grant_approvals_def)
  moreover have "grant_approvals empty_credentials = []" by (simp add: grant_approvals_def empty_credentials_def)
  moreover have trace: "\<exists>t. c = ApproveGrant t i a" if "approves_grant c = Some (i, a)" for c i a
    using that by (cases c) simp_all
  ultimately obtain a b c d where "(gg_approved_by_first g, gg_approved_by_second g) = (Some a, Some b)" "a \<noteq> b"
      "c \<in> set calls" "approves_grant c = Some (gg_grant_id g, a)"
      "d \<in> set calls" "approves_grant d = Some (gg_grant_id g, b)"
    using grants.two_names[of empty_credentials "gg_grant_id g" "(gg_approved_by_first g, gg_approved_by_second g)" calls]
      active(1) by auto
  moreover from this trace obtain t1 t2 where "c = ApproveGrant t1 (gg_grant_id g) a" "d = ApproveGrant t2 (gg_grant_id g) b"
    by blast
  ultimately show ?thesis using active(2,3) by auto
qed

theorem active_grant_two_names_witness:
  "\<exists>a b t1 t2. a \<noteq> b \<and>
     ApproveGrant t1 ''g1'' a \<in> set [RequestGrant 0 ''g1'' \<lparr>bq_tenant_id = ''t'', bq_team_id = ''m'', bq_reason = ''r'',
         bq_duration_hours = 4\<rparr> ''eve'', ApproveGrant 1 ''g1'' ''ann'', ApproveGrant 2 ''g1'' ''bob''] \<and>
     ApproveGrant t2 ''g1'' b \<in> set [RequestGrant 0 ''g1'' \<lparr>bq_tenant_id = ''t'', bq_team_id = ''m'', bq_reason = ''r'',
         bq_duration_hours = 4\<rparr> ''eve'', ApproveGrant 1 ''g1'' ''ann'', ApproveGrant 2 ''g1'' ''bob'']"
proof -
  let ?calls = "[RequestGrant 0 ''g1'' \<lparr>bq_tenant_id = ''t'', bq_team_id = ''m'', bq_reason = ''r'',
         bq_duration_hours = 4\<rparr> ''eve'', ApproveGrant 1 ''g1'' ''ann'', ApproveGrant 2 ''g1'' ''bob'']"
  have "map (\<lambda>(g, s). (gg_grant_id g, s)) (list_break_glass_grants 3 None True (fold credential_step ?calls empty_credentials)) =
      [(''g1'', ''active'')]"
    by code_simp
  then obtain g where active: "(g, ''active'') \<in> set (list_break_glass_grants 3 None True (fold credential_step ?calls empty_credentials))"
      and id: "gg_grant_id g = ''g1''"
    by auto
  from active_grant_two_names[OF active] show ?thesis unfolding id by blast
qed

text \<open>The list has no state for a grant that waits for its second approval: it is shown as one without any.\<close>

theorem second_approval_never_listed:
  "grant_status now g \<noteq> ''pending_second_approval''"
  by (simp add: grant_status_def Let_def)

text \<open>The name is a header of the request that nothing compares with the authenticated subject: one
  administrator, who may be the one who asked, approves twice under two names.\<close>

definition one_admin :: headers where
  "one_admin = \<lparr>hd_tenant_id = ''t'', hd_team_id = ''m'', hd_role = ''admin'', hd_subject = ''eve'', hd_session = ''s'',
     hd_expires = ''9''\<rparr>"

theorem one_subject_two_names:
  "(let st1 = snd (as_admin (\<lambda>_. None) 0 one_admin (request_break_glass 0 ''g1''
          \<lparr>bq_tenant_id = ''t'', bq_team_id = ''m'', bq_reason = ''r'', bq_duration_hours = 4\<rparr> ''eve'') empty_credentials);
        st2 = snd (as_admin (\<lambda>_. None) 1 one_admin (approve_break_glass 1 ''g1'' ''eve'') st1);
        answer = fst (as_admin (\<lambda>_. None) 2 one_admin (approve_break_glass 2 ''g1'' ''not eve'') st2)
    in map_sum (\<lambda>_. ()) aa_status answer) = Inr ''granted''"
  by code_simp

section \<open>The rotation schedule\<close>

text \<open>What an evaluation finds. After any history, an evaluation counts exactly the credentials past
  their date and those due within fifteen days, marks the former overdue and the latter not, and
  leaves every other row as it was.\<close>

theorem evaluation_exact:
  defines "st calls \<equiv> fold credential_step calls empty_credentials"
  shows "evaluate_rotation_schedule now (st calls) =
    (\<lparr>ea_warning_count = length (filter (\<lambda>r. now \<le> ss_next_rotation_due r \<and>
          ss_next_rotation_due r < now + 15 * day_us) (ca_schedule (st calls))),
      ea_overdue_count = length (filter (\<lambda>r. ss_next_rotation_due r < now) (ca_schedule (st calls)))\<rparr>,
     (st calls)\<lparr>ca_schedule := map (\<lambda>r.
        if ss_next_rotation_due r < now + 15 * day_us
        then r\<lparr>ss_overdue := ss_next_rotation_due r < now, ss_updated_at := now\<rparr> else r) (ca_schedule (st calls))\<rparr>)"
proof -
  have "is_overdue now = (\<lambda>r. ss_next_rotation_due r < now)"
    by (auto simp: is_overdue_def days_until_due_def day_us_def fun_eq_iff)
  moreover have "is_warning now = (\<lambda>r. now \<le> ss_next_rotation_due r \<and> ss_next_rotation_due r < now + 15 * day_us)"
    by (auto simp: is_warning_def days_until_due_def day_us_def fun_eq_iff)
  moreover from this calculation have "evaluated now = (\<lambda>r. if ss_next_rotation_due r < now + 15 * day_us
      then r\<lparr>ss_overdue := ss_next_rotation_due r < now, ss_updated_at := now\<rparr> else r)"
    by (auto simp: evaluated_def day_us_def fun_eq_iff)
  ultimately show ?thesis
    using evaluate_exact[of "st calls" now] credentials_ok_history[OF credentials_ok_empty, of calls]
    by (simp add: credentials_ok_def st_def)
qed

definition evaluates_before :: "datetime \<Rightarrow> CredentialCall \<Rightarrow> bool" where
  "evaluates_before t c \<longleftrightarrow> (case c of EvaluateRotation now \<Rightarrow> now < t | _ \<Rightarrow> False)"

lemma overdue_row_stays:
  assumes "credentials_ok st" "r \<in> set (ca_schedule st)" "ss_overdue r" "is_overdue t r"
    and "\<not> evaluates_before t c"
  shows "\<exists>r' \<in> set (ca_schedule (credential_step c st)).
    ss_tenant_id r' = ss_tenant_id r \<and> ss_team_id r' = ss_team_id r \<and> ss_overdue r' \<and> is_overdue t r'"
proof (cases c)
  case (UpsertRotation now i t m k cr days)
  have "set (ca_schedule st) \<subseteq> set (ca_schedule (snd (upsert_rotation_schedule now i t m k cr days st)))"
    by (auto simp: upsert_rotation_schedule_def insert_schedule_def op_bind_def split: sum.splits)
  with UpsertRotation assms show ?thesis by auto
next
  case (EvaluateRotation now)
  have later: "is_overdue now r"
    using assms(4,5) zdiv_mono1[of "ss_next_rotation_due r - now" "ss_next_rotation_due r - t" day_us]
    by (simp add: EvaluateRotation evaluates_before_def is_overdue_def days_until_due_def day_us_def)
  then have "ss_overdue (evaluated now r)" by (simp add: evaluated_def)
  moreover have "evaluated now r \<in> set (ca_schedule (credential_step c st))"
    using assms(1,2) by (simp add: EvaluateRotation evaluate_exact credentials_ok_def)
  ultimately show ?thesis using assms(4) by (intro bexI[of _ "evaluated now r"]) simp_all
qed (use assms in auto)

lemma overdue_row_history:
  assumes "credentials_ok st" "r \<in> set (ca_schedule st)" "ss_overdue r" "is_overdue t r"
    and "\<forall>c \<in> set calls. \<not> evaluates_before t c"
  shows "\<exists>r' \<in> set (ca_schedule (fold credential_step calls st)).
    ss_tenant_id r' = ss_tenant_id r \<and> ss_team_id r' = ss_team_id r \<and> ss_overdue r' \<and> is_overdue t r'"
  using assms
proof (induction calls arbitrary: st r)
  case Nil
  then show ?case by auto
next
  case (Cons c calls)
  from overdue_row_stays[OF Cons.prems(1-4), of c] Cons.prems(5) obtain r' where
    r': "r' \<in> set (ca_schedule (credential_step c st))" "ss_tenant_id r' = ss_tenant_id r"
      "ss_team_id r' = ss_team_id r" "ss_overdue r'" "is_overdue t r'" by auto
  from Cons.IH[OF credentials_ok_step[OF Cons.prems(1)] r'(1,4,5)] r'(2,3) Cons.prems(5)
  show ?case by auto
qed

text \<open>An overdue credential stays overdue. The call that records a rotation only inserts, and refuses
  a credential that is already in the schedule; no other call moves the date. So a credential once
  found overdue blocks its team after every later history, whatever is rotated.\<close>

theorem overdue_never_clears:
  assumes "r \<in> set (ca_schedule (fold credential_step calls empty_credentials))"
    and "ss_next_rotation_due r < t"
    and "\<forall>c \<in> set later. \<not> evaluates_before t c"
  shows "fst (check_blocking_status (ss_tenant_id r) (ss_team_id r)
    (fold credential_step (calls @ EvaluateRotation t # later) empty_credentials))"
proof -
  let ?st = "fold credential_step calls empty_credentials"
  have ok: "credentials_ok ?st" by (rule credentials_ok_history[OF credentials_ok_empty])
  have due: "is_overdue t r" using assms(2) by (simp add: is_overdue_def days_until_due_def day_us_def)
  have "evaluated t r \<in> set (ca_schedule (credential_step (EvaluateRotation t) ?st))"
    using ok assms(1) by (simp add: evaluate_exact credentials_ok_def)
  moreover have "is_overdue t (evaluated t r)" using due by simp
  moreover have "ss_overdue (evaluated t r)" using due by (simp add: evaluated_def)
  ultimately show ?thesis
    using overdue_row_history[OF credentials_ok_step[OF ok], of "evaluated t r" "EvaluateRotation t" t later] assms(3)
    by (auto simp: check_blocking_status_def overdue_credentials_def filter_empty_conv)
qed

theorem overdue_never_clears_witness:
  "fst (check_blocking_status ''t'' ''m''
    (fold credential_step ([UpsertRotation 0 ''s1'' ''t'' ''m'' ''token'' ''c1'' 1] @ EvaluateRotation (2 * day_us) #
       [UpsertRotation (2 * day_us) ''s2'' ''t'' ''m'' ''token'' ''c1'' 90, EvaluateRotation (3 * day_us)]) empty_credentials))"
proof -
  let ?calls = "[UpsertRotation 0 ''s1'' ''t'' ''m'' ''token'' ''c1'' 1]"
  have "map (\<lambda>r. (ss_tenant_id r, ss_team_id r, ss_next_rotation_due r))
      (ca_schedule (fold credential_step ?calls empty_credentials)) = [(''t'', ''m'', day_us)]"
    by code_simp
  then obtain r where r: "r \<in> set (ca_schedule (fold credential_step ?calls empty_credentials))"
      "ss_tenant_id r = ''t''" "ss_team_id r = ''m''" and "ss_next_rotation_due r = day_us"
    by auto
  then have due: "ss_next_rotation_due r < 2 * day_us" by (simp add: day_us_def)
  have later: "\<forall>c \<in> set [UpsertRotation (2 * day_us) ''s2'' ''t'' ''m'' ''token'' ''c1'' 90, EvaluateRotation (3 * day_us)].
      \<not> evaluates_before (2 * day_us) c"
    by (simp add: evaluates_before_def day_us_def)
  from overdue_never_clears[OF r(1) due later] show ?thesis by (simp only: r(2,3))
qed

text \<open>A retired key can be made the default again.\<close>

theorem retired_kek_becomes_default:
  "let st = fold credential_step [IntroduceKek 0 ''k1'' ''kms'' ''ann'', RetireKek 1 ''k1'', RotateKek ''k1''] empty_credentials
   in map (\<lambda>k. (ek_kek_id k, ek_is_default k, ek_retired_at k)) (ca_keks st) = [(''k1'', True, Some 1)]"
  by code_simp

end
