(* ===== verification/Compliance.thy ===== *)
theory Compliance
  imports DualControl Db Strings
begin

text \<open>
  Data retention, tenant deletion and the data processing agreement:
  \<open>backend/compliance/admin.py\<close> and \<open>backend/compliance/dpa_gate.py\<close>. One definition per handler. The
  tables that retention and deletion work on belong to other components; the handlers read only a
  row's tenant, team and time, so a row here has these, its key and the foreign keys the migrations
  declare. The router's own tables have no row level security; of the others, the migrations 0001 and
  0006 put eight under it, and no handler sets a tenant scope. Clock, random ids, SHA-256 and the text
  of an exception are arguments; metrics, log lines and column widths are left out.
\<close>

section \<open>The tables of the tenants\<close>

record DataRow =
  dt_id :: str
  dt_tenant_id :: str
  dt_team_id :: str
  dt_time :: datetime
  dt_refs :: "(str \<times> str) list"

type_synonym tables = "str \<Rightarrow> DataRow list"

text \<open>Names in the order of the deletion: rows that reference come first.\<close>

definition CASCADE_TABLES :: "str list" where
  "CASCADE_TABLES =
     [''budget_denials'', ''budget_charges'', ''budget_reservations'', ''budget_cap_snapshots'',
      ''metering_hourly_rollups'', ''metering_facts'', ''dead_letter_records'', ''runs'']"

text \<open>The eight tables of the deletion are those under row level security; audit events and the
  bindings of runs to snapshots, which reference runs, are not.\<close>

definition TABLE_NAMES :: "str list" where
  "TABLE_NAMES = CASCADE_TABLES @ [''audit_events'', ''run_bindings'']"

definition seen :: "bool \<Rightarrow> str \<Rightarrow> DataRow \<Rightarrow> bool" where
  "seen bypass table r \<longleftrightarrow> table \<notin> set CASCADE_TABLES \<or> row_visible bypass None (dt_tenant_id r) (dt_team_id r)"

definition referenced :: "tables \<Rightarrow> str \<Rightarrow> DataRow \<Rightarrow> bool" where
  "referenced ts table r \<longleftrightarrow> list_ex (\<lambda>u. list_ex (\<lambda>x. (table, dt_id r) \<in> set (dt_refs x)) (ts u)) TABLE_NAMES"

text \<open>\<open>DELETE FROM table WHERE cond\<close>: the trigger of migration 0002 refuses to delete an audit event, a
  foreign key to delete a row that is still referenced.\<close>

definition delete_rows :: "bool \<Rightarrow> str \<Rightarrow> (DataRow \<Rightarrow> bool) \<Rightarrow> (tables, nat) operation" where
  "delete_rows bypass table cond ts =
     (let victim = (\<lambda>r. seen bypass table r \<and> cond r);
          victims = filter victim (ts table);
          ts' = ts(table := filter (\<lambda>r. \<not> victim r) (ts table))
      in if table = ''audit_events'' \<and> victims \<noteq> []
         then (Inl (OtherError ''audit_events is append-only''), ts)
         else if list_ex (referenced ts' table) victims
         then (Inl (IntegrityError ''foreign_key_violation''), ts)
         else (Inr (length victims), ts'))"

definition count_rows :: "bool \<Rightarrow> str \<Rightarrow> (DataRow \<Rightarrow> bool) \<Rightarrow> tables \<Rightarrow> nat" where
  "count_rows bypass table cond ts = length (filter (\<lambda>r. seen bypass table r \<and> cond r) (ts table))"

section \<open>State\<close>

record RetentionPolicyRow =
  ry_policy_id :: str
  ry_surface :: str
  ry_tenant_id :: str
  ry_retention_days :: int
  ry_enabled :: bool

record RetentionRun =
  ru_run_id :: str
  ru_surface :: str
  ru_tenant_id :: str
  ru_rows_affected :: nat
  ru_duration_ms :: int
  ru_status :: str
  ru_error_message :: "str option"
  ru_mode :: str
  ru_started_at :: datetime
  ru_completed_at :: datetime

record TenantDeleteEvent =
  td_event_id :: str
  td_tenant_id :: str
  td_requested_by :: str
  td_reason :: str
  td_approved_by_first :: "str option"
  td_approved_by_second :: "str option"
  td_approved_at :: "datetime option"
  td_status :: str
  td_deletion_counts :: "(str \<times> nat) list"
  td_completed_at :: "datetime option"
  td_created_at :: datetime

record DpaVersion =
  dv_version :: str
  dv_published_at :: datetime
  dv_content_hash :: str
  dv_summary :: str
  dv_published_by :: str
  dv_grace_period_days :: int

record DpaAcknowledgement =
  da_ack_id :: str
  da_tenant_id :: str
  da_dpa_version :: str
  da_acknowledged_by :: str

record Compliance =
  cx_policies :: "RetentionPolicyRow list"
  cx_runs :: "RetentionRun list"
  cx_delete_events :: "TenantDeleteEvent list"
  cx_dpa_versions :: "DpaVersion list"
  cx_dpa_acks :: "DpaAcknowledgement list"
  cx_tables :: tables

text \<open>An operation on the tables as one on the state.\<close>

definition on_tables :: "(tables, 'a) operation \<Rightarrow> (Compliance, 'a) operation" where
  "on_tables m st = (case m (cx_tables st) of (r, ts) \<Rightarrow> (r, st\<lparr>cx_tables := ts\<rparr>))"

section \<open>Retention\<close>

definition optional_eq :: "str option \<Rightarrow> str \<Rightarrow> bool" where
  "optional_eq wanted x \<longleftrightarrow> (case wanted of None \<Rightarrow> True | Some w \<Rightarrow> w = [] \<or> x = w)"

definition list_retention_policies :: "str option \<Rightarrow> str option \<Rightarrow> Compliance \<Rightarrow> RetentionPolicyRow list" where
  "list_retention_policies tenant_id surface st =
     filter (\<lambda>p. optional_eq tenant_id (ry_tenant_id p) \<and> optional_eq surface (ry_surface p)) (cx_policies st)"

definition create_retention_policy :: "str \<Rightarrow> str \<Rightarrow> str \<Rightarrow> int \<Rightarrow> (Compliance, str) operation" where
  "create_retention_policy policy_id surface tenant_id retention_days st =
     (if list_ex (\<lambda>p. ry_surface p = surface \<and> ry_tenant_id p = tenant_id \<or> ry_policy_id p = policy_id) (cx_policies st)
      then (Inl (IntegrityError ''uq_retention_surface_tenant''), st)
      else (Inr policy_id, st\<lparr>cx_policies := cx_policies st @
        [\<lparr>ry_policy_id = policy_id, ry_surface = surface, ry_tenant_id = tenant_id,
          ry_retention_days = retention_days, ry_enabled = True\<rparr>]\<rparr>))"

definition get_policy :: "str \<Rightarrow> str \<Rightarrow> Compliance \<Rightarrow> RetentionPolicyRow option" where
  "get_policy surface tenant_id st =
     find (\<lambda>p. ry_surface p = surface \<and> ry_tenant_id p = tenant_id \<and> ry_enabled p) (cx_policies st)"

text \<open>\<open>_run_metering_retention\<close>, \<open>_run_dlq_retention\<close> and \<open>_run_audit_retention\<close> differ in their table.\<close>

definition run_table_retention :: "bool \<Rightarrow> str \<Rightarrow> datetime \<Rightarrow> str \<Rightarrow> (tables, nat) operation" where
  "run_table_retention bypass table cutoff mode =
     (if mode = ''enforce'' then transaction (delete_rows bypass table (\<lambda>r. dt_time r < cutoff))
      else (\<lambda>ts. (Inr (count_rows bypass table (\<lambda>r. dt_time r < cutoff) ts), ts)))"

definition run_metering_retention :: "bool \<Rightarrow> datetime \<Rightarrow> str \<Rightarrow> (tables, nat) operation" where
  "run_metering_retention bypass = run_table_retention bypass ''metering_facts''"

definition run_dlq_retention :: "bool \<Rightarrow> datetime \<Rightarrow> str \<Rightarrow> (tables, nat) operation" where
  "run_dlq_retention bypass = run_table_retention bypass ''dead_letter_records''"

definition run_audit_retention :: "bool \<Rightarrow> datetime \<Rightarrow> str \<Rightarrow> (tables, nat) operation" where
  "run_audit_retention bypass = run_table_retention bypass ''audit_events''"

definition run_surface_retention :: "bool \<Rightarrow> str \<Rightarrow> datetime \<Rightarrow> str \<Rightarrow> (tables, nat) operation" where
  "run_surface_retention bypass surface cutoff mode =
     (if surface = ''metering'' then run_metering_retention bypass cutoff mode
      else if surface = ''dlq'' then run_dlq_retention bypass cutoff mode
      else if surface = ''audit'' then run_audit_retention bypass cutoff mode
      else (\<lambda>ts. (Inr 0, ts)))"

record RetentionAnswer =
  rw_rows_affected :: nat
  rw_status :: str

text \<open>The run with its start and end times; the recorded row is the same but for status and message.
  The cutoff is computed outside of the \<open>try\<close>; the end time is read once.\<close>

definition retention_run_row ::
  "str \<Rightarrow> str \<Rightarrow> str \<Rightarrow> str \<Rightarrow> datetime \<Rightarrow> datetime \<Rightarrow> nat \<Rightarrow> str \<Rightarrow> str option \<Rightarrow> RetentionRun" where
  "retention_run_row run_id surface tenant_id mode started_at completed_at rows_affected status error_message =
     \<lparr>ru_run_id = run_id, ru_surface = surface, ru_tenant_id = tenant_id, ru_rows_affected = rows_affected,
      ru_duration_ms = (completed_at - started_at) div 1000, ru_status = status,
      ru_error_message = error_message, ru_mode = mode, ru_started_at = started_at,
      ru_completed_at = completed_at\<rparr>"

definition execute_retention_run ::
  "(exn \<Rightarrow> str) \<Rightarrow> bool \<Rightarrow> datetime \<Rightarrow> datetime \<Rightarrow> str \<Rightarrow> str \<Rightarrow> str \<Rightarrow> str \<Rightarrow> (Compliance, RetentionAnswer) operation" where
  "execute_retention_run exn_text bypass started_at completed_at run_id surface tenant_id mode st =
     (if mode \<notin> {''dry_run'', ''enforce''} then (Inl (HTTPException 422 ''mode''), st)
      else case get_policy surface tenant_id st of
        None \<Rightarrow> (Inr \<lparr>rw_rows_affected = 0, rw_status = ''no_policy''\<rparr>, st)
      | Some policy \<Rightarrow>
          (case add_time started_at (- (ry_retention_days policy * day_us)) of
             Inl e \<Rightarrow> (Inl e, st)
           | Inr cutoff \<Rightarrow>
               (case on_tables (run_surface_retention bypass surface cutoff mode) st of
                  (Inr n, st') \<Rightarrow>
                    (Inr \<lparr>rw_rows_affected = n, rw_status = ''success''\<rparr>,
                     st'\<lparr>cx_runs := cx_runs st' @
                       [retention_run_row run_id surface tenant_id mode started_at completed_at n ''success'' None]\<rparr>)
                | (Inl e, st') \<Rightarrow>
                    (Inl (HTTPException 500 (''retention_run_failed:'' @ exn_text e)),
                     st'\<lparr>cx_runs := cx_runs st' @
                       [retention_run_row run_id surface tenant_id mode started_at completed_at 0 ''failed''
                         (Some (exn_text e))]\<rparr>))))"

text \<open>The framework admits a limit of at most 200; the one \<open>SELECT\<close> filters before it cuts.\<close>

definition list_retention_runs :: "str option \<Rightarrow> str option \<Rightarrow> nat \<Rightarrow> Compliance \<Rightarrow> RetentionRun list" where
  "list_retention_runs surface tenant_id limit st =
     take limit (rev (sort_key ru_started_at
       (filter (\<lambda>r. optional_eq surface (ru_surface r) \<and> optional_eq tenant_id (ru_tenant_id r)) (cx_runs st))))"

section \<open>Tenant deletion\<close>

definition request_tenant_delete :: "datetime \<Rightarrow> str \<Rightarrow> str \<Rightarrow> str \<Rightarrow> str \<Rightarrow> (Compliance, unit) operation" where
  "request_tenant_delete now event_id tenant_id reason x_actor st =
     (if list_ex (\<lambda>e. td_event_id e = event_id) (cx_delete_events st)
      then (Inl (IntegrityError ''tenant_delete_events_pkey''), st)
      else (Inr (), st\<lparr>cx_delete_events := cx_delete_events st @
        [\<lparr>td_event_id = event_id, td_tenant_id = tenant_id, td_requested_by = x_actor, td_reason = reason,
          td_approved_by_first = None, td_approved_by_second = None, td_approved_at = None,
          td_status = ''pending'', td_deletion_counts = [], td_completed_at = None, td_created_at = now\<rparr>]\<rparr>))"

definition update_event ::
  "str \<Rightarrow> (TenantDeleteEvent \<Rightarrow> TenantDeleteEvent) \<Rightarrow> Compliance \<Rightarrow> Compliance" where
  "update_event event_id f st =
     st\<lparr>cx_delete_events := map (\<lambda>e. if td_event_id e = event_id then f e else e) (cx_delete_events st)\<rparr>"

definition find_event :: "str \<Rightarrow> Compliance \<Rightarrow> TenantDeleteEvent option" where
  "find_event event_id st = find (\<lambda>e. td_event_id e = event_id) (cx_delete_events st)"

definition approve_tenant_delete :: "datetime \<Rightarrow> str \<Rightarrow> str \<Rightarrow> (Compliance, str \<times> approvers) operation" where
  "approve_tenant_delete now event_id x_actor st =
     (case find_event event_id st of
        None \<Rightarrow> (Inl (HTTPException 404 ''delete_event_not_found''), st)
      | Some row \<Rightarrow>
          if td_status row = ''completed'' then (Inl (HTTPException 400 ''delete_already_completed''), st)
          else (case next_approvers x_actor (td_approved_by_first row, td_approved_by_second row) of
              Inl e \<Rightarrow> (Inl e, st)
            | Inr (first, second) \<Rightarrow>
                (let new_status = (if second = None then ''pending_second_approval'' else ''approved'')
                 in (Inr (new_status, first, second),
                     update_event event_id (\<lambda>e. e\<lparr>td_approved_by_first := first, td_approved_by_second := second,
                       td_approved_at := (if second = None then None else Some now),
                       td_status := new_status\<rparr>) st))))"

fun delete_from :: "bool \<Rightarrow> str \<Rightarrow> str list \<Rightarrow> (tables, (str \<times> nat) list) operation" where
  "delete_from bypass tenant_id [] ts = (Inr [], ts)"
| "delete_from bypass tenant_id (table # names) ts =
     op_bind (delete_rows bypass table (\<lambda>r. dt_tenant_id r = tenant_id))
       (\<lambda>n. op_bind (delete_from bypass tenant_id names) (\<lambda>counts ts. (Inr ((table, n) # counts), ts))) ts"

definition execute_cascade_delete :: "bool \<Rightarrow> str \<Rightarrow> (tables, (str \<times> nat) list) operation" where
  "execute_cascade_delete bypass tenant_id = transaction (delete_from bypass tenant_id CASCADE_TABLES)"

definition execute_tenant_delete :: "bool \<Rightarrow> datetime \<Rightarrow> str \<Rightarrow> (Compliance, (str \<times> nat) list) operation" where
  "execute_tenant_delete bypass now event_id st =
     (case find_event event_id st of
        None \<Rightarrow> (Inl (HTTPException 404 ''delete_event_not_found''), st)
      | Some row \<Rightarrow>
          if td_status row \<noteq> ''approved'' then (Inl (HTTPException 400 ''delete_not_approved''), st)
          else op_bind (on_tables (execute_cascade_delete bypass (td_tenant_id row)))
                 (\<lambda>deletion_counts st.
                    (Inr deletion_counts,
                     update_event event_id (\<lambda>e. e\<lparr>td_status := ''completed'',
                       td_deletion_counts := deletion_counts, td_completed_at := Some now\<rparr>) st)) st)"

definition list_tenant_delete_events :: "str option \<Rightarrow> str option \<Rightarrow> Compliance \<Rightarrow> TenantDeleteEvent list" where
  "list_tenant_delete_events tenant_id status_filter st =
     rev (sort_key td_created_at
       (filter (\<lambda>e. optional_eq tenant_id (td_tenant_id e) \<and> optional_eq status_filter (td_status e))
         (cx_delete_events st)))"

section \<open>Data processing agreement\<close>

definition publish_dpa_version ::
  "(str \<Rightarrow> str) \<Rightarrow> datetime \<Rightarrow> str \<Rightarrow> str \<Rightarrow> str \<Rightarrow> str \<Rightarrow> int \<Rightarrow> (Compliance, str) operation" where
  "publish_dpa_version sha256 now version summary content published_by grace_period_days st =
     (if list_ex (\<lambda>v. dv_version v = version) (cx_dpa_versions st)
      then (Inl (IntegrityError ''dpa_versions_pkey''), st)
      else (Inr (sha256 content), st\<lparr>cx_dpa_versions := cx_dpa_versions st @
        [\<lparr>dv_version = version, dv_published_at = now, dv_content_hash = sha256 content, dv_summary = summary,
          dv_published_by = published_by, dv_grace_period_days = grace_period_days\<rparr>]\<rparr>))"

definition acknowledge_dpa :: "str \<Rightarrow> str \<Rightarrow> str \<Rightarrow> str \<Rightarrow> (Compliance, str) operation" where
  "acknowledge_dpa ack_id tenant_id dpa_version acknowledged_by st =
     (if \<not> list_ex (\<lambda>v. dv_version v = dpa_version) (cx_dpa_versions st)
      then (Inl (HTTPException 404 ''dpa_version_not_found''), st)
      else if list_ex (\<lambda>a. da_tenant_id a = tenant_id \<and> da_dpa_version a = dpa_version \<or> da_ack_id a = ack_id)
                (cx_dpa_acks st)
      then (Inl (IntegrityError ''uq_dpa_ack_tenant_version''), st)
      else (Inr ack_id, st\<lparr>cx_dpa_acks := cx_dpa_acks st @
        [\<lparr>da_ack_id = ack_id, da_tenant_id = tenant_id, da_dpa_version = dpa_version,
          da_acknowledged_by = acknowledged_by\<rparr>]\<rparr>))"

text \<open>\<open>ORDER BY published_at DESC\<close>, of versions with the same time any may come first.\<close>

definition list_dpa_versions :: "Compliance \<Rightarrow> DpaVersion list" where
  "list_dpa_versions st = rev (sort_key dv_published_at (cx_dpa_versions st))"

definition latest_dpa :: "Compliance \<Rightarrow> DpaVersion option" where
  "latest_dpa st = (case list_dpa_versions st of [] \<Rightarrow> None | v # _ \<Rightarrow> Some v)"

definition acknowledged :: "str \<Rightarrow> str \<Rightarrow> Compliance \<Rightarrow> bool" where
  "acknowledged tenant_id version st \<longleftrightarrow>
     list_ex (\<lambda>a. da_tenant_id a = tenant_id \<and> da_dpa_version a = version) (cx_dpa_acks st)"

datatype DpaStatus =
    NoDpaPublished
  | DpaStatus str bool bool bool

text \<open>Fields: current version, acknowledged, grace period expired, processing blocked.\<close>

definition get_dpa_status :: "datetime \<Rightarrow> str \<Rightarrow> Compliance \<Rightarrow> DpaStatus result" where
  "get_dpa_status now tenant_id st =
     (case latest_dpa st of
        None \<Rightarrow> Inr NoDpaPublished
      | Some v \<Rightarrow>
          (let ack = acknowledged tenant_id (dv_version v) st
           in if ack then Inr (DpaStatus (dv_version v) True False False)
              else (case add_time (dv_published_at v) (dv_grace_period_days v * day_us) of
                  Inl e \<Rightarrow> Inl e
                | Inr grace_cutoff \<Rightarrow>
                    (let grace_expired = now > grace_cutoff
                     in Inr (DpaStatus (dv_version v) False grace_expired grace_expired)))))"

section \<open>The gate in front of the application\<close>

definition EXCLUDED_PATHS :: "str list" where
  "EXCLUDED_PATHS =
     [''/healthz'', ''/readyz'', ''/metrics'', ''/api/v1/status-page'',
      ''/api/v1/admin/data-retention/dpa/status'', ''/api/v1/admin/data-retention/dpa/acknowledge'',
      ''/api/v1/admin/data-retention/dpa'', ''/api/v1/admin/data-retention/dpa/publish'']"

definition is_excluded :: "str list \<Rightarrow> str \<Rightarrow> bool" where
  "is_excluded excluded_paths path \<longleftrightarrow> list_ex (startswith path) excluded_paths"

text \<open>The body as \<open>json.loads\<close> gives it, or none when it is no document.\<close>

definition extract_tenant_id :: "json option \<Rightarrow> json" where
  "extract_tenant_id body =
     (case body of
        None \<Rightarrow> JNull
      | Some payload \<Rightarrow> (case json_get payload ''tenant_id'' JNull of Inl _ \<Rightarrow> JNull | Inr t \<Rightarrow> t))"

text \<open>A tenant id that is not a string reaches the query as the database driver makes it: \<open>adapt\<close>.\<close>

definition query_text :: "(json \<Rightarrow> str result) \<Rightarrow> json \<Rightarrow> str result" where
  "query_text adapt t = (case t of JStr s \<Rightarrow> Inr s | _ \<Rightarrow> adapt t)"

definition is_dpa_acknowledged ::
  "(json \<Rightarrow> str result) \<Rightarrow> datetime \<Rightarrow> json \<Rightarrow> Compliance \<Rightarrow> bool result" where
  "is_dpa_acknowledged adapt now tenant_id st =
     (case latest_dpa st of
        None \<Rightarrow> Inr True
      | Some v \<Rightarrow>
          bind_result (query_text adapt tenant_id) (\<lambda>t.
            if acknowledged t (dv_version v) st then Inr True
            else bind_result (add_time (dv_published_at v) (dv_grace_period_days v * day_us))
                   (\<lambda>grace_cutoff. Inr (now \<le> grace_cutoff))))"

datatype GateDecision = CallNext | DpaNotAcknowledged nat json

definition dpa_gate ::
  "(json \<Rightarrow> str result) \<Rightarrow> str list \<Rightarrow> datetime \<Rightarrow> str \<Rightarrow> str \<Rightarrow> json option \<Rightarrow> Compliance \<Rightarrow> GateDecision result" where
  "dpa_gate adapt excluded_paths now http_method path body st =
     (if is_excluded excluded_paths path then Inr CallNext
      else if http_method = ''POST'' \<and> str_contains ''/webhooks'' path
      then (let tenant_id = extract_tenant_id body
            in if json_truthy tenant_id
               then bind_result (is_dpa_acknowledged adapt now tenant_id st) (\<lambda>ok.
                      Inr (if ok then CallNext else DpaNotAcknowledged 403 tenant_id))
               else Inr CallNext)
      else Inr CallNext)"

section \<open>Histories\<close>

datatype ComplianceCall =
    CreatePolicy str str str int
  | RunRetention datetime datetime str str str str
  | RequestDelete datetime str str str str
  | ApproveDelete datetime str str
  | ExecuteDelete datetime str
  | PublishDpa datetime str str str str int
  | AcknowledgeDpa str str str str

fun compliance_step ::
  "(exn \<Rightarrow> str) \<Rightarrow> (str \<Rightarrow> str) \<Rightarrow> bool \<Rightarrow> ComplianceCall \<Rightarrow> Compliance \<Rightarrow> Compliance" where
  "compliance_step msg sha b (CreatePolicy i surface t days) st = snd (create_retention_policy i surface t days st)"
| "compliance_step msg sha b (RunRetention now fin i surface t mode) st =
     snd (execute_retention_run msg b now fin i surface t mode st)"
| "compliance_step msg sha b (RequestDelete now i t reason actor) st = snd (request_tenant_delete now i t reason actor st)"
| "compliance_step msg sha b (ApproveDelete now i actor) st = snd (approve_tenant_delete now i actor st)"
| "compliance_step msg sha b (ExecuteDelete now i) st = snd (execute_tenant_delete b now i st)"
| "compliance_step msg sha b (PublishDpa now v summary content by days) st =
     snd (publish_dpa_version sha now v summary content by days st)"
| "compliance_step msg sha b (AcknowledgeDpa i t v by) st = snd (acknowledge_dpa i t v by st)"

end
