(* ===== verification/ComplianceCorrect.thy ===== *)
theory ComplianceCorrect
  imports Compliance
begin

text \<open>
  Correctness of retention, tenant deletion and the gate: rows of the tenants disappear only by a
  retention policy or by a deletion that two names approved, a deletion removes exactly the rows of
  its tenant that the session sees, a dry run counts what an enforced run deletes, and the gate blocks
  exactly what the status reports as blocked.
\<close>

section \<open>Deleting rows\<close>

lemma delete_rows_Inr:
  "delete_rows bypass table cond ts = (Inr n, ts') \<Longrightarrow>
     n = length (filter (\<lambda>r. seen bypass table r \<and> cond r) (ts table)) \<and>
     ts' = ts(table := filter (\<lambda>r. \<not> (seen bypass table r \<and> cond r)) (ts table)) \<and>
     (\<forall>r \<in> set (ts table). seen bypass table r \<longrightarrow> cond r \<longrightarrow> \<not> referenced ts' table r)"
  by (auto simp: delete_rows_def Let_def list_ex_iff split: if_splits)

lemma delete_rows_Inl:
  "delete_rows bypass table cond ts = (Inl e, ts') \<Longrightarrow>
     ts' = ts \<and>
     (table = ''audit_events'' \<and> (\<exists>r \<in> set (ts table). seen bypass table r \<and> cond r) \<or>
      e = IntegrityError ''foreign_key_violation'' \<and>
      (\<exists>r \<in> set (ts table). seen bypass table r \<and> cond r \<and>
        referenced (ts(table := filter (\<lambda>r. \<not> (seen bypass table r \<and> cond r)) (ts table))) table r))"
  by (auto simp: delete_rows_def Let_def list_ex_iff filter_empty_conv split: if_splits)

lemma referenced_mono:
  "referenced ts' table r \<Longrightarrow> (\<And>u. set (ts' u) \<subseteq> set (ts u)) \<Longrightarrow> referenced ts table r"
  unfolding referenced_def list_ex_iff by blast

text \<open>The deletion of a tenant from a list of tables: exactly the rows it sees, or nothing.\<close>

definition tenant_rows :: "bool \<Rightarrow> str \<Rightarrow> str \<Rightarrow> DataRow \<Rightarrow> bool" where
  "tenant_rows bypass tenant_id table r \<longleftrightarrow> seen bypass table r \<and> dt_tenant_id r = tenant_id"

definition without_tenant :: "bool \<Rightarrow> str \<Rightarrow> str list \<Rightarrow> tables \<Rightarrow> tables" where
  "without_tenant bypass tenant_id names ts table =
     (if table \<in> set names then filter (\<lambda>r. \<not> tenant_rows bypass tenant_id table r) (ts table) else ts table)"

lemma without_tenant_Cons:
  "table \<notin> set names \<Longrightarrow>
     without_tenant bypass t names (ts(table := filter (\<lambda>r. \<not> tenant_rows bypass t table r) (ts table))) =
     without_tenant bypass t (table # names) ts"
  by (auto simp: without_tenant_def fun_eq_iff)

lemma delete_from_Inr:
  assumes "delete_from bypass t names ts = (Inr counts, ts')" and "distinct names"
  shows "ts' = without_tenant bypass t names ts \<and>
    counts = map (\<lambda>table. (table, length (filter (tenant_rows bypass t table) (ts table)))) names \<and>
    (\<forall>table \<in> set names. \<forall>r \<in> set (ts table). tenant_rows bypass t table r \<longrightarrow>
       (\<forall>u \<in> set TABLE_NAMES - set names. \<forall>x \<in> set (ts u). (table, dt_id r) \<notin> set (dt_refs x)))"
  using assms
proof (induction names arbitrary: ts counts)
  case Nil
  then show ?case by (simp add: without_tenant_def fun_eq_iff)
next
  case (Cons table names)
  from Cons.prems(1) obtain n ts1 rest where
    first: "delete_rows bypass table (\<lambda>r. dt_tenant_id r = t) ts = (Inr n, ts1)"
    and rest: "delete_from bypass t names ts1 = (Inr rest, ts')" and counts: "counts = (table, n) # rest"
    by (auto simp: op_bind_def split: prod.splits sum.splits)
  from delete_rows_Inr[OF first] have n: "n = length (filter (tenant_rows bypass t table) (ts table))"
    and ts1: "ts1 = ts(table := filter (\<lambda>r. \<not> tenant_rows bypass t table r) (ts table))"
    by (simp_all add: tenant_rows_def[abs_def])
  have free: "\<not> referenced ts1 table r" if "r \<in> set (ts table)" "tenant_rows bypass t table r" for r
    using delete_rows_Inr[OF first] that unfolding tenant_rows_def by blast
  from Cons.prems(2) have new: "table \<notin> set names" "distinct names" by simp_all
  have same: "ts1 u = ts u" if "u \<noteq> table" for u using that by (simp add: ts1)
  note IH = Cons.IH[OF rest new(2)]
  have "map (\<lambda>u. (u, length (filter (tenant_rows bypass t u) (ts1 u)))) names =
      map (\<lambda>u. (u, length (filter (tenant_rows bypass t u) (ts u)))) names"
  proof (rule map_cong[OF refl])
    fix u assume "u \<in> set names"
    with new(1) have "u \<noteq> table" by auto
    then show "(u, length (filter (tenant_rows bypass t u) (ts1 u))) = (u, length (filter (tenant_rows bypass t u) (ts u)))"
      by (simp add: same)
  qed
  with IH counts n have "counts = map (\<lambda>u. (u, length (filter (tenant_rows bypass t u) (ts u)))) (table # names)"
    by simp
  moreover have "ts' = without_tenant bypass t (table # names) ts"
    using conjunct1[OF IH] without_tenant_Cons[OF new(1), of bypass t ts] unfolding ts1 by (rule trans)
  moreover have "(u, dt_id r) \<notin> set (dt_refs x)"
    if "u \<in> set (table # names)" "r \<in> set (ts u)" "tenant_rows bypass t u r"
      "v \<in> set TABLE_NAMES - set (table # names)" "x \<in> set (ts v)" for u v r x
  proof (cases "u = table")
    case True
    with free[of r] that same[of v] show ?thesis by (auto simp: referenced_def list_ex_iff)
  next
    case False
    with IH that same[of u] same[of v] show ?thesis by auto
  qed
  ultimately show ?case by blast
qed

lemma delete_from_Inl:
  assumes "delete_from bypass t names ts = (Inl e, ts')" and "''audit_events'' \<notin> set names" and "distinct names"
  shows "e = IntegrityError ''foreign_key_violation'' \<and>
    (\<exists>table \<in> set names. \<exists>r \<in> set (ts table). dt_tenant_id r = t \<and> referenced ts table r)"
  using assms
proof (induction names arbitrary: ts)
  case Nil
  then show ?case by simp
next
  case (Cons table names)
  show ?case
  proof (cases "delete_rows bypass table (\<lambda>r. dt_tenant_id r = t) ts")
    case (Pair res ts1)
    show ?thesis
    proof (cases res)
      case (Inl e')
      with Pair Cons.prems(1) have "e' = e" by (simp add: op_bind_def)
      with delete_rows_Inl[OF Pair[unfolded Inl]] Cons.prems(2) obtain r where
        "e = IntegrityError ''foreign_key_violation''" "r \<in> set (ts table)" "dt_tenant_id r = t"
        "referenced (ts(table := filter (\<lambda>r. \<not> (seen bypass table r \<and> dt_tenant_id r = t)) (ts table))) table r"
        by auto
      moreover from this have "referenced ts table r" by (elim referenced_mono) auto
      ultimately show ?thesis by auto
    next
      case (Inr n)
      from Cons.prems(1) Pair Inr have rest: "delete_from bypass t names ts1 = (Inl e, ts')"
        by (auto simp: op_bind_def split: prod.splits sum.splits)
      from delete_rows_Inr[OF Pair[unfolded Inr]] have less: "set (ts1 u) \<subseteq> set (ts u)" for u by auto
      from Cons.IH[OF rest] Cons.prems(2,3) obtain u r where "e = IntegrityError ''foreign_key_violation''"
        "u \<in> set names" "r \<in> set (ts1 u)" "dt_tenant_id r = t" "referenced ts1 u r" by auto
      moreover from this(3) less have "r \<in> set (ts u)" by blast
      moreover from \<open>referenced ts1 u r\<close> less have "referenced ts u r" by (rule referenced_mono)
      ultimately show ?thesis by auto
    qed
  qed
qed

lemma cascade_names: "distinct CASCADE_TABLES" "''audit_events'' \<notin> set CASCADE_TABLES"
  by (simp_all add: CASCADE_TABLES_def)

lemma not_seen_cascade [simp]: "table \<in> set CASCADE_TABLES \<Longrightarrow> \<not> seen False table r"
  by (simp add: seen_def)

lemma seen_bypass [simp]: "seen True table r"
  by (simp add: seen_def row_visible_def)

section \<open>Erasure of a tenant\<close>

lemma find_update_event:
  "find_event i st = Some e \<Longrightarrow> (\<And>e. td_event_id (f e) = td_event_id e) \<Longrightarrow>
     find_event i (update_event i f st) = Some (f e)"
  by (simp add: find_event_def update_event_def find_update)

lemma update_event_tables [simp]:
  "cx_tables (update_event i f st) = cx_tables st" "cx_policies (update_event i f st) = cx_policies st"
  by (simp_all add: update_event_def)

lemma execute_tenant_delete_approved:
  assumes "find_event i st = Some e" and "td_status e = ''approved''"
  shows "execute_tenant_delete bypass now i st =
    (case delete_from bypass (td_tenant_id e) CASCADE_TABLES (cx_tables st) of
       (Inl x, _) \<Rightarrow> (Inl x, st)
     | (Inr counts, ts) \<Rightarrow> (Inr counts, update_event i (\<lambda>e. e\<lparr>td_status := ''completed'',
         td_deletion_counts := counts, td_completed_at := Some now\<rparr>) (st\<lparr>cx_tables := ts\<rparr>)))"
  using assms
  by (auto simp: execute_tenant_delete_def op_bind_def on_tables_def execute_cascade_delete_def transaction_def
      split: prod.splits sum.splits)

text \<open>C28 (a deletion removes exactly the tenant's rows). Executing an approved deletion either removes
  from the eight tables exactly the rows of the tenant that the session sees, reports their numbers,
  completes the event and leaves every other row; or, when one of the tenant's rows is still
  referenced, raises and changes nothing.\<close>

theorem erasure_exact:
  assumes "find_event i st = Some e" and "td_status e = ''approved''"
  shows "case execute_tenant_delete bypass now i st of
      (Inr counts, st') \<Rightarrow>
        cx_tables st' = without_tenant bypass (td_tenant_id e) CASCADE_TABLES (cx_tables st) \<and>
        counts = map (\<lambda>t. (t, length (filter (tenant_rows bypass (td_tenant_id e) t) (cx_tables st t)))) CASCADE_TABLES \<and>
        map_option (\<lambda>e. (td_status e, td_deletion_counts e)) (find_event i st') = Some (''completed'', counts)
    | (Inl x, st') \<Rightarrow>
        x = IntegrityError ''foreign_key_violation'' \<and> st' = st \<and>
        (\<exists>t \<in> set CASCADE_TABLES. \<exists>r \<in> set (cx_tables st t). dt_tenant_id r = td_tenant_id e \<and>
           referenced (cx_tables st) t r)"
proof (cases "delete_from bypass (td_tenant_id e) CASCADE_TABLES (cx_tables st)")
  case (Pair res ts)
  have event: "find_event i (st\<lparr>cx_tables := ts\<rparr>) = Some e" using assms(1) by (simp add: find_event_def)
  show ?thesis
  proof (cases res)
    case (Inl x)
    with Pair delete_from_Inl[OF Pair[unfolded Inl] cascade_names(2,1)] show ?thesis
      by (simp add: execute_tenant_delete_approved[OF assms])
  next
    case (Inr counts)
    let ?f = "\<lambda>e. e\<lparr>td_status := ''completed'', td_deletion_counts := counts, td_completed_at := Some now\<rparr>"
    have "execute_tenant_delete bypass now i st = (Inr counts, update_event i ?f (st\<lparr>cx_tables := ts\<rparr>))"
      using Pair Inr by (simp add: execute_tenant_delete_approved[OF assms])
    moreover have "find_event i (update_event i ?f (st\<lparr>cx_tables := ts\<rparr>)) = Some (?f e)"
      by (rule find_update_event[OF event]) simp
    ultimately show ?thesis
      using delete_from_Inr[OF Pair[unfolded Inr] cascade_names(1)] by simp
  qed
qed

text \<open>A deletion that deletes nothing. The handler sets no tenant scope, so for a role under row
  level security it sees no row of the eight tables: it deletes nothing, reports zero rows for each
  and completes the event.\<close>

theorem erasure_without_deletion:
  assumes "find_event i st = Some e" and "td_status e = ''approved''"
  shows "fst (execute_tenant_delete False now i st) = Inr (map (\<lambda>t. (t, 0)) CASCADE_TABLES) \<and>
      cx_tables (snd (execute_tenant_delete False now i st)) = cx_tables st \<and>
      map_option td_status (find_event i (snd (execute_tenant_delete False now i st))) = Some ''completed''"
proof -
  let ?r = "execute_tenant_delete False now i st"
  have unseen: "delete_rows False table cond ts = (Inr 0, ts)" if "table \<in> set CASCADE_TABLES" for table cond ts
    using that cascade_names(2) by (auto simp: delete_rows_def fun_upd_idem)
  have "delete_from False t names ts = (Inr (map (\<lambda>n. (n, 0)) names), ts)" if "set names \<subseteq> set CASCADE_TABLES" for t names ts
    using that by (induction names) (simp_all add: unseen op_bind_def)
  then have r: "?r = (Inr (map (\<lambda>t. (t, 0)) CASCADE_TABLES), update_event i (\<lambda>e. e\<lparr>td_status := ''completed'',
         td_deletion_counts := map (\<lambda>t. (t, 0)) CASCADE_TABLES, td_completed_at := Some now\<rparr>) st)"
    by (simp add: execute_tenant_delete_approved[OF assms])
  moreover have "map_option td_status (find_event i (snd ?r)) = Some ''completed''"
    by (simp add: r find_update_event[OF assms(1)])
  ultimately show ?thesis by (simp add: r)
qed

text \<open>A run that is bound to a configuration snapshot cannot be deleted: the deletion of its tenant always
  fails, and the event stays approved.\<close>

theorem pinned_run_blocks_erasure:
  assumes "find_event i st = Some e" and "td_status e = ''approved''"
    and "r \<in> set (cx_tables st ''runs'')" and "dt_tenant_id r = td_tenant_id e"
    and "x \<in> set (cx_tables st ''run_bindings'')" and "(''runs'', dt_id r) \<in> set (dt_refs x)"
  shows "execute_tenant_delete True now i st = (Inl (IntegrityError ''foreign_key_violation''), st)"
proof (cases "delete_from True (td_tenant_id e) CASCADE_TABLES (cx_tables st)")
  case (Pair res ts)
  show ?thesis
  proof (cases res)
    case (Inl y)
    with Pair delete_from_Inl[OF Pair[unfolded Inl] cascade_names(2,1)] show ?thesis
      by (simp add: execute_tenant_delete_approved[OF assms(1,2)])
  next
    case (Inr counts)
    have "''runs'' \<in> set CASCADE_TABLES" "''run_bindings'' \<in> set TABLE_NAMES - set CASCADE_TABLES"
      by (simp_all add: TABLE_NAMES_def CASCADE_TABLES_def)
    moreover have "tenant_rows True (td_tenant_id e) ''runs'' r" using assms(4) by (simp add: tenant_rows_def)
    ultimately show ?thesis
      using delete_from_Inr[OF Pair[unfolded Inr] cascade_names(1)] assms(3,5,6) by blast
  qed
qed

section \<open>Who can make a row disappear\<close>

definition delete_approvals :: "Compliance \<Rightarrow> (str \<times> approvers) list" where
  "delete_approvals st =
     map (\<lambda>e. (td_event_id e, td_approved_by_first e, td_approved_by_second e)) (cx_delete_events st)"

fun approves_delete :: "ComplianceCall \<Rightarrow> (str \<times> str) option" where
  "approves_delete (ApproveDelete now i actor) = Some (i, actor)"
| "approves_delete _ = None"

text \<open>What the calls that do not approve leave of the events.\<close>

lemma create_policy_keeps [simp]:
  "cx_delete_events (snd (create_retention_policy i surface t days st)) = cx_delete_events st"
  "cx_tables (snd (create_retention_policy i surface t days st)) = cx_tables st"
  by (simp_all add: create_retention_policy_def)

text \<open>A retention run either finds no policy, mode or cutoff and changes nothing, or applies its surface.\<close>

lemma execute_retention_run_cases:
  obtains "snd (execute_retention_run msg b now fin i surface t mode st) = st"
  | p cutoff run where "get_policy surface t st = Some p"
      "add_time now (- (ry_retention_days p * day_us)) = Inr cutoff" "mode = ''dry_run'' \<or> mode = ''enforce''"
      "snd (execute_retention_run msg b now fin i surface t mode st) =
         st\<lparr>cx_tables := snd (run_surface_retention b surface cutoff mode (cx_tables st)), cx_runs := cx_runs st @ [run]\<rparr>"
proof (cases "mode \<in> {''dry_run'', ''enforce''}")
  case False
  then show ?thesis using that(1) by (simp add: execute_retention_run_def)
next
  case mode: True
  show ?thesis
  proof (cases "get_policy surface t st")
    case None
    with mode show ?thesis using that(1) by (simp add: execute_retention_run_def)
  next
    case p: (Some p)
    show ?thesis
    proof (cases "add_time now (- (ry_retention_days p * day_us))")
      case (Inl x)
      with mode p show ?thesis using that(1) by (simp add: execute_retention_run_def)
    next
      case (Inr cutoff)
      obtain res ts where r: "run_surface_retention b surface cutoff mode (cx_tables st) = (res, ts)" by fastforce
      with mode p Inr have "\<exists>run. snd (execute_retention_run msg b now fin i surface t mode st) =
          st\<lparr>cx_tables := ts, cx_runs := cx_runs st @ [run]\<rparr>"
        by (cases res) (auto simp: execute_retention_run_def on_tables_def simp del: add_time_Inr)
      with mode p Inr r show ?thesis using that(2) by auto
    qed
  qed
qed

lemma run_retention_keeps [simp]:
  "cx_delete_events (snd (execute_retention_run msg b now fin i surface t mode st)) = cx_delete_events st"
  "cx_policies (snd (execute_retention_run msg b now fin i surface t mode st)) = cx_policies st"
  by (cases rule: execute_retention_run_cases[of msg b now fin i surface t mode st]; simp)
     (cases rule: execute_retention_run_cases[of msg b now fin i surface t mode st]; simp)

lemma other_calls_keep [simp]:
  "cx_delete_events (snd (publish_dpa_version sha now v summary content p days st)) = cx_delete_events st"
  "cx_tables (snd (publish_dpa_version sha now v summary content p days st)) = cx_tables st"
  "cx_policies (snd (publish_dpa_version sha now v summary content p days st)) = cx_policies st"
  "cx_delete_events (snd (acknowledge_dpa i t v a st)) = cx_delete_events st"
  "cx_tables (snd (acknowledge_dpa i t v a st)) = cx_tables st"
  "cx_policies (snd (acknowledge_dpa i t v a st)) = cx_policies st"
  "cx_tables (snd (request_tenant_delete now i t reason actor st)) = cx_tables st"
  "cx_policies (snd (request_tenant_delete now i t reason actor st)) = cx_policies st"
  "cx_tables (snd (approve_tenant_delete now i actor st)) = cx_tables st"
  "cx_policies (snd (approve_tenant_delete now i actor st)) = cx_policies st"
  by (auto simp: publish_dpa_version_def acknowledge_dpa_def request_tenant_delete_def approve_tenant_delete_def
      Let_def split: option.splits sum.splits)

text \<open>Executing a deletion: the event it finds is approved, or nothing happens.\<close>

lemma execute_tenant_delete_cases:
  obtains "snd (execute_tenant_delete bypass now i st) = st"
  | e counts ts where "find_event i st = Some e" "td_status e = ''approved''"
      "delete_from bypass (td_tenant_id e) CASCADE_TABLES (cx_tables st) = (Inr counts, ts)"
      "execute_tenant_delete bypass now i st = (Inr counts, update_event i (\<lambda>e. e\<lparr>td_status := ''completed'',
         td_deletion_counts := counts, td_completed_at := Some now\<rparr>) (st\<lparr>cx_tables := ts\<rparr>))"
proof (cases "\<exists>e. find_event i st = Some e \<and> td_status e = ''approved''")
  case False
  then have "snd (execute_tenant_delete bypass now i st) = st"
    by (cases "find_event i st") (auto simp: execute_tenant_delete_def)
  then show ?thesis by (rule that(1))
next
  case True
  then obtain e where e: "find_event i st = Some e" "td_status e = ''approved''" by blast
  show ?thesis
  proof (cases "delete_from bypass (td_tenant_id e) CASCADE_TABLES (cx_tables st)")
    case (Pair res ts)
    note r = execute_tenant_delete_approved[OF e, of bypass now]
    show ?thesis
    proof (cases res)
      case (Inl x)
      with Pair r have "snd (execute_tenant_delete bypass now i st) = st" by simp
      then show ?thesis by (rule that(1))
    next
      case (Inr counts)
      with Pair r show ?thesis by (intro that(2)[OF e]) simp_all
    qed
  qed
qed

lemma approve_tenant_delete_cases:
  obtains "snd (approve_tenant_delete now i actor st) = st"
  | e first second where "find_event i st = Some e" "td_status e \<noteq> ''completed''"
      "next_approvers actor (td_approved_by_first e, td_approved_by_second e) = Inr (first, second)"
      "snd (approve_tenant_delete now i actor st) =
         update_event i (\<lambda>e. e\<lparr>td_approved_by_first := first, td_approved_by_second := second,
           td_approved_at := (if second = None then None else Some now),
           td_status := (if second = None then ''pending_second_approval'' else ''approved'')\<rparr>) st"
proof (cases "find_event i st")
  case None
  then show ?thesis using that(1) by (simp add: approve_tenant_delete_def)
next
  case (Some e)
  show ?thesis
  proof (cases "td_status e = ''completed''")
    case True
    with Some show ?thesis using that(1) by (simp add: approve_tenant_delete_def)
  next
    case False
    show ?thesis
    proof (cases "next_approvers actor (td_approved_by_first e, td_approved_by_second e)")
      case (Inl x)
      with Some False show ?thesis using that(1) by (simp add: approve_tenant_delete_def)
    next
      case (Inr p)
      with Some False show ?thesis
        by (intro that(2)[of e "fst p" "snd p"]) (simp_all add: approve_tenant_delete_def Let_def split: prod.splits)
    qed
  qed
qed

text \<open>Event ids are unique, and an event that is approved or completed has its second approval.\<close>

definition event_ok :: "TenantDeleteEvent \<Rightarrow> bool" where
  "event_ok e \<longleftrightarrow> (td_status e \<in> {''approved'', ''completed''} \<longrightarrow> td_approved_by_second e \<noteq> None)"

definition events_ok :: "Compliance \<Rightarrow> bool" where
  "events_ok st \<longleftrightarrow> distinct (map td_event_id (cx_delete_events st)) \<and> (\<forall>e \<in> set (cx_delete_events st). event_ok e)"

lemma events_ok_update:
  assumes "events_ok st" and "find_event i st = Some e" and "event_ok (f e)" and "\<And>e. td_event_id (f e) = td_event_id e"
  shows "events_ok (update_event i f st)"
proof -
  have "event_ok (f x)" if "x \<in> set (cx_delete_events st)" "td_event_id x = i" for x
  proof -
    have "find_event i st = Some x"
      using assms(1) that find_keyed_distinct[of td_event_id "cx_delete_events st" x]
      by (simp add: events_ok_def find_event_def)
    with assms(2,3) show ?thesis by simp
  qed
  with assms(1,4) show ?thesis by (auto simp: events_ok_def update_event_def)
qed

lemma events_ok_tables [simp]: "events_ok (st\<lparr>cx_tables := ts\<rparr>) = events_ok st"
  by (simp add: events_ok_def)

lemma events_ok_step:
  assumes ok: "events_ok st"
  shows "events_ok (compliance_step msg sha b c st)"
proof (cases c)
  case (RequestDelete now i t reason actor)
  with ok show ?thesis
    by (auto simp: events_ok_def request_tenant_delete_def list_ex_keyed event_ok_def)
next
  case (ApproveDelete now i actor)
  show ?thesis
  proof (cases rule: approve_tenant_delete_cases[of now i actor st])
    case 1
    with ok ApproveDelete show ?thesis by simp
  next
    case (2 e first second)
    with ok ApproveDelete show ?thesis by (auto simp: event_ok_def intro!: events_ok_update[of _ _ e])
  qed
next
  case (ExecuteDelete now i)
  show ?thesis
  proof (cases rule: execute_tenant_delete_cases[of b now i st])
    case 1
    with ok ExecuteDelete show ?thesis by simp
  next
    case (2 e counts ts)
    have "e \<in> set (cx_delete_events st)" using 2(1) by (auto simp: find_event_def dest: find_SomeD)
    with ok 2(2) have "event_ok e" "td_approved_by_second e \<noteq> None" by (auto simp: events_ok_def event_ok_def)
    moreover have "find_event i (st\<lparr>cx_tables := ts\<rparr>) = Some e" using 2(1) by (simp add: find_event_def)
    ultimately show ?thesis
      using ok ExecuteDelete 2(4) by (simp add: event_ok_def events_ok_update)
  qed
qed (use ok in \<open>simp_all add: events_ok_def\<close>)

interpretation deletes: dual_control delete_approvals "compliance_step msg sha b" approves_delete for msg sha b
proof
  fix i p c st
  assume new: "(i, p) \<in> set (delete_approvals (compliance_step msg sha b c st))"
  show "p = (None, None) \<or> (i, p) \<in> set (delete_approvals st) \<or>
    (\<exists>actor q. approves_delete c = Some (i, actor) \<and> (i, q) \<in> set (delete_approvals st) \<and> next_approvers actor q = Inr p)"
  proof (cases c)
    case (RequestDelete now j t reason actor)
    with new show ?thesis by (auto simp: request_tenant_delete_def delete_approvals_def split: if_splits)
  next
    case (ApproveDelete now j actor)
    show ?thesis
    proof (cases rule: approve_tenant_delete_cases[of now j actor st])
      case 1
      with new ApproveDelete show ?thesis by simp
    next
      case (2 e first second)
      from 2(1) have "(j, td_approved_by_first e, td_approved_by_second e) \<in> set (delete_approvals st)"
        by (auto simp: find_event_def delete_approvals_def dest: find_SomeD)
      moreover have "(i, p) \<in> set (delete_approvals st) \<or> (i = j \<and> p = (first, second))"
        using new 2(4) ApproveDelete by (auto simp: delete_approvals_def update_event_def split: if_splits)
      ultimately show ?thesis using ApproveDelete 2(3) by auto
    qed
  next
    case (ExecuteDelete now j)
    show ?thesis
    proof (cases rule: execute_tenant_delete_cases[of b now j st])
      case 1
      with new ExecuteDelete show ?thesis by simp
    next
      case 2
      with new ExecuteDelete show ?thesis by (auto simp: delete_approvals_def update_event_def split: if_splits)
    qed
  qed (use new in \<open>simp_all add: delete_approvals_def\<close>)
qed

text \<open>Policies and completed events stay.\<close>

lemma policies_stay: "set (cx_policies st) \<subseteq> set (cx_policies (compliance_step msg sha b c st))"
proof (cases c)
  case (CreatePolicy i surface t days)
  then show ?thesis by (auto simp: create_retention_policy_def)
next
  case (ExecuteDelete now i)
  then show ?thesis
    by (cases rule: execute_tenant_delete_cases[of b now i st]) simp_all
qed simp_all

lemma completed_stays:
  assumes ok: "events_ok st" and e: "e \<in> set (cx_delete_events st)" "td_status e = ''completed''"
  shows "e \<in> set (cx_delete_events (compliance_step msg sha b c st))"
proof -
  have found: "find_event (td_event_id e) st = Some e"
    using ok e find_keyed_distinct[of td_event_id "cx_delete_events st" e] by (simp add: events_ok_def find_event_def)
  have other: "e \<in> set (cx_delete_events (update_event i f st'))"
    if "find_event i st = Some x" "td_status x \<noteq> ''completed''" "cx_delete_events st' = cx_delete_events st" for i x f st'
  proof -
    have "td_event_id e \<noteq> i" using that(1,2) found e(2) by auto
    with e(1) that(3) show ?thesis by (auto simp: update_event_def)
  qed
  show ?thesis
  proof (cases c)
    case (RequestDelete now i t reason actor)
    with e show ?thesis by (auto simp: request_tenant_delete_def)
  next
    case (ApproveDelete now i actor)
    show ?thesis
    proof (cases rule: approve_tenant_delete_cases[of now i actor st])
      case 1
      with e ApproveDelete show ?thesis by simp
    next
      case (2 x first second)
      with other[OF 2(1,2)] ApproveDelete show ?thesis by simp
    qed
  next
    case (ExecuteDelete now i)
    show ?thesis
    proof (cases rule: execute_tenant_delete_cases[of b now i st])
      case 1
      with e ExecuteDelete show ?thesis by simp
    next
      case (2 x counts ts)
      with other[OF 2(1)] ExecuteDelete show ?thesis by simp
    qed
  qed (use e in simp_all)
qed

definition surface_table :: "str \<Rightarrow> str option" where
  "surface_table surface =
     dict_get [(''metering'', ''metering_facts''), (''dlq'', ''dead_letter_records''), (''audit'', ''audit_events'')] surface"

lemma run_surface_retention_table:
  "run_surface_retention b surface cutoff mode =
     (case surface_table surface of None \<Rightarrow> (\<lambda>ts. (Inr 0, ts)) | Some table \<Rightarrow> run_table_retention b table cutoff mode)"
  by (simp add: run_surface_retention_def surface_table_def run_metering_retention_def run_dlq_retention_def
      run_audit_retention_def)

lemma run_table_retention_loses:
  assumes "r \<in> set (ts t)" and "r \<notin> set (snd (run_table_retention b table cutoff mode ts) t)"
  shows "mode = ''enforce'' \<and> t = table \<and> dt_time r < cutoff \<and> seen b table r"
proof (cases "delete_rows b table (\<lambda>r. dt_time r < cutoff) ts")
  case (Pair res ts')
  show ?thesis
  proof (cases res)
    case (Inl e)
    with Pair assms show ?thesis by (auto simp: run_table_retention_def transaction_def split: if_splits)
  next
    case (Inr n)
    with Pair assms delete_rows_Inr[OF Pair[unfolded Inr]] show ?thesis
      by (auto simp: run_table_retention_def transaction_def split: if_splits)
  qed
qed

text \<open>A policy that covers a row at some time, and a completed deletion of its tenant.\<close>

definition retention_covers :: "ComplianceCall \<Rightarrow> Compliance \<Rightarrow> str \<Rightarrow> DataRow \<Rightarrow> bool" where
  "retention_covers c st table r \<longleftrightarrow>
     (case c of
        RunRetention now fin i surface tenant_id mode \<Rightarrow>
          mode = ''enforce'' \<and> surface_table surface = Some table \<and>
          (\<exists>p \<in> set (cx_policies st). ry_surface p = surface \<and> ry_tenant_id p = tenant_id \<and>
             dt_time r < now - ry_retention_days p * day_us)
      | _ \<Rightarrow> False)"

definition deletion_covers :: "Compliance \<Rightarrow> str \<Rightarrow> DataRow \<Rightarrow> TenantDeleteEvent \<Rightarrow> bool" where
  "deletion_covers st table r e \<longleftrightarrow>
     e \<in> set (cx_delete_events st) \<and> td_status e = ''completed'' \<and> td_tenant_id e = dt_tenant_id r \<and>
     table \<in> set CASCADE_TABLES"

lemma retention_covers_mono:
  "retention_covers c st table r \<Longrightarrow> set (cx_policies st) \<subseteq> set (cx_policies st') \<Longrightarrow> retention_covers c st' table r"
  unfolding retention_covers_def by (cases c) auto

lemma row_lost_by_step:
  assumes "r \<in> set (cx_tables st t)" and "r \<notin> set (cx_tables (compliance_step msg sha b c st) t)"
  shows "retention_covers c st t r \<or> (\<exists>e. deletion_covers (compliance_step msg sha b c st) t r e)"
proof (cases c)
  case (RunRetention now fin i surface tenant_id mode)
  show ?thesis
  proof (cases rule: execute_retention_run_cases[of msg b now fin i surface tenant_id mode st])
    case 1
    with RunRetention assms show ?thesis by simp
  next
    case (2 p cutoff run)
    from assms RunRetention 2(4) have lost: "r \<notin> set (snd (run_surface_retention b surface cutoff mode (cx_tables st)) t)"
      by simp
    with assms(1) obtain table where table: "surface_table surface = Some table"
      by (cases "surface_table surface") (simp_all add: run_surface_retention_table)
    with lost run_table_retention_loses[of r "cx_tables st" t b table cutoff mode] assms(1)
    have "mode = ''enforce''" "t = table" "dt_time r < cutoff" by (simp_all add: run_surface_retention_table)
    moreover from 2(1) have "p \<in> set (cx_policies st)" "ry_surface p = surface" "ry_tenant_id p = tenant_id"
      by (auto simp: get_policy_def dest: find_SomeD)
    ultimately show ?thesis using table 2(2) RunRetention by (auto simp: retention_covers_def)
  qed
next
  case (ExecuteDelete now i)
  show ?thesis
  proof (cases rule: execute_tenant_delete_cases[of b now i st])
    case 1
    with ExecuteDelete assms show ?thesis by simp
  next
    case (2 e counts ts)
    let ?f = "\<lambda>e. e\<lparr>td_status := ''completed'', td_deletion_counts := counts, td_completed_at := Some now\<rparr>"
    from assms ExecuteDelete 2(4) have "r \<notin> set (ts t)" by simp
    with assms(1) delete_from_Inr[OF 2(3) cascade_names(1)] have "t \<in> set CASCADE_TABLES" "dt_tenant_id r = td_tenant_id e"
      by (auto simp: without_tenant_def tenant_rows_def split: if_splits)
    moreover from 2(1) have "e \<in> set (cx_delete_events st)" "td_event_id e = i"
      by (auto simp: find_event_def dest: find_SomeD)
    then have "?f e \<in> set (cx_delete_events (snd (execute_tenant_delete b now i st)))"
      by (auto simp: 2(4) update_event_def image_iff)
    ultimately have "deletion_covers (compliance_step msg sha b c st) t r (?f e)"
      by (simp add: deletion_covers_def ExecuteDelete)
    then show ?thesis by blast
  qed
qed (use assms in simp_all)

lemma row_lost_in_history:
  assumes "events_ok st" "r \<in> set (cx_tables st t)" "r \<notin> set (cx_tables (fold (compliance_step msg sha b) calls st) t)"
  shows "(\<exists>c \<in> set calls. retention_covers c (fold (compliance_step msg sha b) calls st) t r) \<or>
    (\<exists>e. deletion_covers (fold (compliance_step msg sha b) calls st) t r e)"
  using assms
proof (induction calls arbitrary: st)
  case Nil
  then show ?case by simp
next
  case (Cons c calls)
  let ?st = "compliance_step msg sha b c st"
  have ok: "events_ok ?st" by (rule events_ok_step[OF Cons.prems(1)])
  have kept: "set (cx_policies s) \<subseteq> set (cx_policies (fold (compliance_step msg sha b) calls s))" for s
    by (induction calls arbitrary: s) (auto dest: subsetD[OF policies_stay])
  have completed: "deletion_covers s t r e \<Longrightarrow> deletion_covers (fold (compliance_step msg sha b) calls s) t r e"
    if "events_ok s" for s e
    using that by (induction calls arbitrary: s) (simp_all add: deletion_covers_def completed_stays events_ok_step)
  show ?case
  proof (cases "r \<in> set (cx_tables ?st t)")
    case True
    with Cons.IH[OF ok] Cons.prems(3) show ?thesis by auto
  next
    case False
    from row_lost_by_step[OF Cons.prems(2) False] show ?thesis
    proof
      assume "retention_covers c st t r"
      then have "retention_covers c (fold (compliance_step msg sha b) calls ?st) t r"
        by (rule retention_covers_mono) (use policies_stay kept[of ?st] in blast)
      then show ?thesis by simp
    next
      assume "\<exists>e. deletion_covers ?st t r e"
      with completed[OF ok] show ?thesis by auto
    qed
  qed
qed

text \<open>C27 (a row disappears only with authority). Whatever the history, from a state without deletion
  requests: a row of any table is gone only if an enforced retention run of its table had a policy
  whose period it was past, or if a deletion of its tenant was completed that two calls with different
  names had approved.\<close>

theorem rows_deleted_with_authority:
  assumes "cx_delete_events st = []" and "r \<in> set (cx_tables st t)"
    and "r \<notin> set (cx_tables (fold (compliance_step msg sha b) calls st) t)"
  shows "(\<exists>c \<in> set calls. retention_covers c (fold (compliance_step msg sha b) calls st) t r) \<or>
    (\<exists>e a1 a2 t1 t2. deletion_covers (fold (compliance_step msg sha b) calls st) t r e \<and> a1 \<noteq> a2 \<and>
       ApproveDelete t1 (td_event_id e) a1 \<in> set calls \<and> ApproveDelete t2 (td_event_id e) a2 \<in> set calls)"
proof -
  let ?st = "fold (compliance_step msg sha b) calls st"
  have start: "events_ok st" "delete_approvals st = []" using assms(1) by (simp_all add: events_ok_def delete_approvals_def)
  have "\<exists>a1 a2 t1 t2. a1 \<noteq> a2 \<and> ApproveDelete t1 (td_event_id e) a1 \<in> set calls \<and>
      ApproveDelete t2 (td_event_id e) a2 \<in> set calls" if e: "deletion_covers ?st t r e" for e
  proof -
    have "events_ok ?st" using start(1) by (induction calls arbitrary: st) (simp_all add: events_ok_step)
    with e have "snd (td_approved_by_first e, td_approved_by_second e) \<noteq> None"
      by (auto simp: deletion_covers_def events_ok_def event_ok_def)
    moreover have "(td_event_id e, td_approved_by_first e, td_approved_by_second e) \<in> set (delete_approvals ?st)"
      using e by (auto simp: deletion_covers_def delete_approvals_def)
    ultimately obtain a1 a2 c1 c2 where "a1 \<noteq> a2" "c1 \<in> set calls" "approves_delete c1 = Some (td_event_id e, a1)"
        "c2 \<in> set calls" "approves_delete c2 = Some (td_event_id e, a2)"
      using deletes.two_names[OF start(2)] by blast
    moreover have trace: "\<exists>t. c = ApproveDelete t i a" if "approves_delete c = Some (i, a)" for c i a
      using that by (cases c) simp_all
    moreover from trace calculation obtain t1 t2 where "c1 = ApproveDelete t1 (td_event_id e) a1"
        "c2 = ApproveDelete t2 (td_event_id e) a2" by presburger
    ultimately show ?thesis by auto
  qed
  with row_lost_in_history[OF start(1) assms(2,3)] show ?thesis by blast
qed

text \<open>A deletion from request to execution, on a database with one run.\<close>

definition example_row :: DataRow where
  "example_row = \<lparr>dt_id = ''r1'', dt_tenant_id = ''t'', dt_team_id = ''m'', dt_time = 0, dt_refs = []\<rparr>"

definition example_start :: Compliance where
  "example_start = \<lparr>cx_policies = [], cx_runs = [], cx_delete_events = [], cx_dpa_versions = [], cx_dpa_acks = [],
     cx_tables = (\<lambda>_. [])(''runs'' := [example_row])\<rparr>"

definition example_calls :: "ComplianceCall list" where
  "example_calls = [RequestDelete 0 ''e1'' ''t'' ''art. 17'' ''eve'', ApproveDelete 1 ''e1'' ''ann'',
     ApproveDelete 2 ''e1'' ''bob'', ExecuteDelete 3 ''e1'']"

theorem rows_deleted_with_authority_witness:
  "cx_tables example_start ''runs'' = [example_row] \<and>
   cx_tables (fold (compliance_step (\<lambda>_. []) (\<lambda>s. s) True) example_calls example_start) ''runs'' = [] \<and>
   (\<exists>a1 a2 t1 t2 i. a1 \<noteq> a2 \<and> ApproveDelete t1 i a1 \<in> set example_calls \<and> ApproveDelete t2 i a2 \<in> set example_calls)"
proof -
  let ?final = "fold (compliance_step (\<lambda>_. []) (\<lambda>s. s) True) example_calls example_start"
  have rows: "cx_tables example_start ''runs'' = [example_row]" by (simp add: example_start_def)
  have gone: "cx_tables ?final ''runs'' = []" by code_simp
  have "example_row \<in> set (cx_tables example_start ''runs'')" "example_row \<notin> set (cx_tables ?final ''runs'')"
    by (simp_all only: rows gone) simp_all
  moreover have "cx_delete_events example_start = []" by (simp add: example_start_def)
  moreover have "\<not> retention_covers c ?final ''runs'' example_row" if "c \<in> set example_calls" for c
    using that by (auto simp: example_calls_def retention_covers_def)
  ultimately have "\<exists>e a1 a2 t1 t2. deletion_covers ?final ''runs'' example_row e \<and> a1 \<noteq> a2 \<and>
       ApproveDelete t1 (td_event_id e) a1 \<in> set example_calls \<and> ApproveDelete t2 (td_event_id e) a2 \<in> set example_calls"
    using rows_deleted_with_authority[of example_start example_row "''runs''" "\<lambda>_. []" "\<lambda>s. s" True example_calls]
    by blast
  with rows gone show ?thesis by blast
qed

text \<open>The state after the second approval.\<close>

definition example_approved :: Compliance where
  "example_approved = fold (compliance_step (\<lambda>_. []) (\<lambda>s. s) True) (butlast example_calls) example_start"

lemma example_event:
  obtains e where "find_event ''e1'' example_approved = Some e" "td_status e = ''approved''" "td_tenant_id e = ''t''"
proof -
  have "map_option (\<lambda>e. (td_status e, td_tenant_id e)) (find_event ''e1'' example_approved) = Some (''approved'', ''t'')"
    by code_simp
  then show ?thesis using that by auto
qed

theorem erasure_exact_witness:
  "case execute_tenant_delete True 3 ''e1'' example_approved of
      (Inr counts, st') \<Rightarrow> cx_tables st' ''runs'' = [] \<and> (''runs'', 1) \<in> set counts
    | (Inl x, st') \<Rightarrow> False"
proof -
  obtain e where e: "find_event ''e1'' example_approved = Some e" "td_status e = ''approved''" "td_tenant_id e = ''t''"
    by (rule example_event)
  have rows: "cx_tables example_approved ''runs'' = [example_row]" by code_simp
  have "(case fst (execute_tenant_delete True 3 ''e1'' example_approved) of Inl _ \<Rightarrow> False | Inr _ \<Rightarrow> True)" by code_simp
  moreover have "''runs'' \<in> set CASCADE_TABLES" by (simp add: CASCADE_TABLES_def)
  ultimately show ?thesis
    using erasure_exact[OF e(1,2), of True 3] e(3) rows
    by (auto simp: without_tenant_def tenant_rows_def example_row_def image_iff split: prod.splits sum.splits)
qed

theorem erasure_without_deletion_witness:
  "cx_tables (snd (execute_tenant_delete False 3 ''e1'' example_approved)) ''runs'' = [example_row] \<and>
   map_option td_status (find_event ''e1'' (snd (execute_tenant_delete False 3 ''e1'' example_approved))) = Some ''completed''"
proof -
  obtain e where e: "find_event ''e1'' example_approved = Some e" "td_status e = ''approved''" "td_tenant_id e = ''t''"
    by (rule example_event)
  have "cx_tables example_approved ''runs'' = [example_row]" by code_simp
  with erasure_without_deletion[OF e(1,2), of 3] show ?thesis by simp
qed

section \<open>Retention runs\<close>

definition old_row :: "bool \<Rightarrow> str \<Rightarrow> datetime \<Rightarrow> DataRow \<Rightarrow> bool" where
  "old_row b table cutoff r \<longleftrightarrow> seen b table r \<and> dt_time r < cutoff"

text \<open>A dry run counts what enforcement deletes. With a policy and a cutoff in range, a dry run changes
  no row and answers the number of rows that the session sees of the surface's table, of whatever
  tenant, that are older than the cutoff; an enforced run from the same state deletes exactly these
  and answers the same number, or fails and deletes none: because the table is the append-only audit
  trail and the number is not zero, or because one of the rows is still referenced.\<close>

theorem dry_run_predicts_enforcement:
  fixes st tenant_id surface now fin run_id msg b cutoff table
  defines "run \<equiv> \<lambda>mode. execute_retention_run msg b now fin run_id surface tenant_id mode st"
    and "answer \<equiv> \<lparr>rw_rows_affected = length (filter (old_row b table cutoff) (cx_tables st table)), rw_status = ''success''\<rparr>"
  assumes "get_policy surface tenant_id st = Some p" and "surface_table surface = Some table"
    and "add_time now (- (ry_retention_days p * day_us)) = Inr cutoff"
  shows "(fst (run ''dry_run'') = Inr answer \<and> cx_tables (snd (run ''dry_run'')) = cx_tables st) \<and>
     (case fst (run ''enforce'') of
        Inr answer' \<Rightarrow> answer' = answer \<and>
          cx_tables (snd (run ''enforce'')) =
            (cx_tables st)(table := filter (\<lambda>r. \<not> old_row b table cutoff r) (cx_tables st table)) \<and>
          (table = ''audit_events'' \<longrightarrow> rw_rows_affected answer = 0)
      | Inl e \<Rightarrow> (\<exists>text. e = HTTPException 500 text) \<and> cx_tables (snd (run ''enforce'')) = cx_tables st \<and>
          (table = ''audit_events'' \<and> rw_rows_affected answer > 0 \<or>
           (\<exists>r \<in> set (cx_tables st table). old_row b table cutoff r \<and> referenced (cx_tables st) table r)))"
    (is "?dry \<and> ?enforced")
proof -
  note unfold = execute_retention_run_def run_surface_retention_table run_table_retention_def on_tables_def assms(3,4,5)
  have dry: ?dry
    by (simp add: run_def answer_def unfold count_rows_def old_row_def[abs_def])
  have less: "referenced ((cx_tables st)(table := filter Q (cx_tables st table))) table r \<Longrightarrow> referenced (cx_tables st) table r"
    for Q r by (elim referenced_mono) auto
  have ?enforced
  proof (cases "delete_rows b table (\<lambda>r. dt_time r < cutoff) (cx_tables st)")
    case (Pair res ts)
    show ?enforced
    proof (cases res)
      case (Inl e)
      from delete_rows_Inl[OF Pair[unfolded Inl]] have "table = ''audit_events'' \<and> rw_rows_affected answer > 0 \<or>
          (\<exists>r \<in> set (cx_tables st table). old_row b table cutoff r \<and> referenced (cx_tables st) table r)"
        using less by (auto simp: answer_def old_row_def filter_empty_conv seen_def cascade_names(2))
      with Inl Pair show ?enforced by (auto simp: run_def unfold transaction_def)
    next
      case (Inr n)
      have "n = 0" if "table = ''audit_events''"
        using Pair Inr that by (auto simp: delete_rows_def Let_def split: if_splits)
      with Inr Pair delete_rows_Inr[OF Pair[unfolded Inr]] show ?enforced
        by (simp add: run_def answer_def unfold transaction_def old_row_def[abs_def])
    qed
  qed
  with dry show ?thesis by (rule conjI)
qed

text \<open>A policy of tenant \<open>a\<close> and an old record of tenant \<open>b\<close>, which the policy's runs count and delete.\<close>

definition example_retention :: Compliance where
  "example_retention = example_start\<lparr>
    cx_policies := [\<lparr>ry_policy_id = ''p'', ry_surface = ''dlq'', ry_tenant_id = ''a'', ry_retention_days = 30, ry_enabled = True\<rparr>],
    cx_tables := (\<lambda>_. [])(''dead_letter_records'' := [example_row\<lparr>dt_tenant_id := ''b''\<rparr>])\<rparr>"

theorem dry_run_predicts_enforcement_witness:
  "fst (execute_retention_run (\<lambda>_. []) True (31 * day_us) (31 * day_us) ''run'' ''dlq'' ''a'' ''dry_run'' example_retention) =
     Inr \<lparr>rw_rows_affected = 1, rw_status = ''success''\<rparr> \<and>
   cx_tables example_retention ''dead_letter_records'' = [example_row\<lparr>dt_tenant_id := ''b''\<rparr>]"
proof -
  have policy: "get_policy ''dlq'' ''a'' example_retention = Some \<lparr>ry_policy_id = ''p'', ry_surface = ''dlq'', ry_tenant_id = ''a'',
      ry_retention_days = 30, ry_enabled = True\<rparr>"
    by (simp add: get_policy_def example_retention_def)
  have table: "surface_table ''dlq'' = Some ''dead_letter_records''" by (simp add: surface_table_def)
  have rows: "cx_tables example_retention ''dead_letter_records'' = [example_row\<lparr>dt_tenant_id := ''b''\<rparr>]"
    by (simp add: example_retention_def)
  have "filter (old_row True ''dead_letter_records'' day_us) (cx_tables example_retention ''dead_letter_records'') =
      [example_row\<lparr>dt_tenant_id := ''b''\<rparr>]"
    unfolding rows by (simp add: old_row_def example_row_def day_us_def)
  then show ?thesis
    using dry_run_predicts_enforcement[OF policy table, of "31 * day_us" day_us "\<lambda>_. []" True "31 * day_us" "''run''"] rows
    by (simp add: day_us_def MIN_DATETIME_def MAX_DATETIME_def)
qed

theorem retention_crosses_tenants:
  "cx_tables (snd (execute_retention_run (\<lambda>_. []) True (31 * day_us) (31 * day_us) ''run'' ''dlq'' ''a'' ''enforce''
     example_retention)) ''dead_letter_records'' = []"
  by code_simp

section \<open>The gate and the status\<close>

text \<open>The gate blocks exactly what the status reports. A request whose body names a tenant is refused,
  with 403, exactly when it posts to a path with webhooks that is not excluded and the status of that
  tenant at the same time says that processing is blocked; where the status cannot be computed the
  gate fails with the same error.\<close>

theorem dpa_gate_matches_status:
  assumes "extract_tenant_id body = JStr tenant" and "tenant \<noteq> []"
  shows "dpa_gate adapt excluded now http_method path body st =
     (if is_excluded excluded path \<or> http_method \<noteq> ''POST'' \<or> \<not> str_contains ''/webhooks'' path then Inr CallNext
      else case get_dpa_status now tenant st of
          Inl e \<Rightarrow> Inl e
        | Inr NoDpaPublished \<Rightarrow> Inr CallNext
        | Inr (DpaStatus version ack grace_expired blocked) \<Rightarrow>
            Inr (if blocked then DpaNotAcknowledged 403 (JStr tenant) else CallNext))"
proof (cases "latest_dpa st")
  case None
  with assms show ?thesis by (simp add: dpa_gate_def is_dpa_acknowledged_def get_dpa_status_def)
next
  case (Some v)
  then show ?thesis
    by (cases "add_time (dv_published_at v) (dv_grace_period_days v * day_us)")
       (use assms in \<open>auto simp: dpa_gate_def is_dpa_acknowledged_def get_dpa_status_def query_text_def Let_def
          simp del: add_time_Inr\<close>)
qed

definition example_dpa :: Compliance where
  "example_dpa = snd (publish_dpa_version (\<lambda>s. s) 0 ''v1'' ''s'' ''c'' ''legal'' 30 example_start)"

theorem dpa_gate_matches_status_witness:
  "dpa_gate (\<lambda>_. Inl RedisError) EXCLUDED_PATHS (31 * day_us) ''POST'' ''/api/v1/webhooks/jira''
     (Some (JObj [(''tenant_id'', JStr ''t'')])) example_dpa = Inr (DpaNotAcknowledged 403 (JStr ''t'')) \<and>
   dpa_gate (\<lambda>_. Inl RedisError) EXCLUDED_PATHS (30 * day_us) ''POST'' ''/api/v1/webhooks/jira''
     (Some (JObj [(''tenant_id'', JStr ''t'')])) example_dpa = Inr CallNext"
proof -
  let ?body = "Some (JObj [(''tenant_id'', JStr ''t'')])"
  have body: "extract_tenant_id ?body = JStr ''t''" by code_simp
  have path: "\<not> is_excluded EXCLUDED_PATHS ''/api/v1/webhooks/jira''" "str_contains ''/webhooks'' ''/api/v1/webhooks/jira''"
    by code_simp+
  have "get_dpa_status (31 * day_us) ''t'' example_dpa = Inr (DpaStatus ''v1'' False True True)" by code_simp
  moreover have "get_dpa_status (30 * day_us) ''t'' example_dpa = Inr (DpaStatus ''v1'' False False False)" by code_simp
  ultimately show ?thesis
    using dpa_gate_matches_status[OF body, of _ EXCLUDED_PATHS _ "''POST''" "''/api/v1/webhooks/jira''" example_dpa] path
    by simp
qed

text \<open>After a tenant acknowledged the latest version, the gate lets every
  request of the tenant pass, whatever the time, until a later version is published.\<close>

theorem acknowledged_passes_gate:
  assumes "latest_dpa st = Some v" and "fst (acknowledge_dpa ack_id tenant (dv_version v) person st) = Inr answer"
    and "extract_tenant_id body = JStr tenant"
  shows "dpa_gate adapt excluded now http_method path body (snd (acknowledge_dpa ack_id tenant (dv_version v) person st)) =
    Inr CallNext"
proof -
  let ?st = "snd (acknowledge_dpa ack_id tenant (dv_version v) person st)"
  have "acknowledged tenant (dv_version v) ?st" "latest_dpa ?st = Some v"
    using assms(1,2) by (auto simp: acknowledge_dpa_def acknowledged_def latest_dpa_def list_dpa_versions_def split: if_splits)
  then have "is_dpa_acknowledged adapt now (JStr tenant) ?st = Inr True"
    by (simp add: is_dpa_acknowledged_def query_text_def)
  with assms(3) show ?thesis by (simp add: dpa_gate_def Let_def)
qed

text \<open>A gated request whose body names no tenant always passes.\<close>

theorem gate_without_tenant_passes:
  "\<not> json_truthy (extract_tenant_id body) \<Longrightarrow> dpa_gate adapt excluded now http_method path body st = Inr CallNext"
  by (simp add: dpa_gate_def Let_def)

end
