(* ===== verification/OpenApiGate.thy ===== *)
theory OpenApiGate
  imports Strings
begin

text \<open>
  The contract gate of continuous integration, \<open>scripts/openapi_diff_gate.py\<close>: the comparison of two
  OpenAPI documents, the approved bypass and the exit code of the command. Documents are typed by the
  OpenAPI form that the application generates; what the script never reads of them is kept as JSON. A
  value it only compares is a \<open>scalar\<close>, where a missing key and null are both \<open>None\<close> and a boolean is
  the number it equals in Python. The effects of the command are the list of what it writes, in order.
\<close>

section \<open>Documents\<close>

datatype scalar = SNull | SNum rat | SStr str

datatype schema = Schema
  (sc_ref: "str option") (sc_any_of: "schema list option") (sc_one_of: "schema list option")
  (sc_type: "str option") (sc_enum: "scalar list option")
  (sc_properties: "(str \<times> schema) list") (sc_required: "str list") (sc_other: "(str \<times> json) list")

text \<open>A path item maps methods, and a few other keys, to what describes them.\<close>

record document =
  dc_paths :: "(str \<times> (str \<times> json) list) list"
  dc_schemas :: "(str \<times> schema) list"

record BreakingChange =
  bc_code :: str
  bc_location :: str
  bc_detail :: str

definition as_dict :: "BreakingChange \<Rightarrow> (str \<times> str) list" where
  "as_dict c = [(''code'', bc_code c), (''location'', bc_location c), (''detail'', bc_detail c)]"

definition HTTP_METHODS :: "str list" where
  "HTTP_METHODS = [''get'', ''put'', ''post'', ''delete'', ''patch'', ''head'', ''options'', ''trace'']"

definition BYPASS_LABEL :: str where "BYPASS_LABEL = ''breaking-change-approved''"

section \<open>Text\<close>

definition hex_digit :: "nat \<Rightarrow> char" where
  "hex_digit n = (if n < 10 then char_of (48 + n) else char_of (87 + n))"

text \<open>\<open>repr\<close> of a text of Latin-1 characters.\<close>

definition repr_char :: "char \<Rightarrow> char \<Rightarrow> str" where
  "repr_char quote c =
     (let n = of_char c :: nat in
      if c = quote \<or> c = CHR 0x5C then [CHR 0x5C, c]
      else if n = 9 then [CHR 0x5C, CHR ''t'']
      else if n = 10 then [CHR 0x5C, CHR ''n'']
      else if n = 13 then [CHR 0x5C, CHR ''r'']
      else if n < 32 \<or> (127 \<le> n \<and> n \<le> 160) \<or> n = 173 then
        [CHR 0x5C, CHR ''x'', hex_digit (n div 16), hex_digit (n mod 16)]
      else [c])"

definition py_repr :: "str \<Rightarrow> str" where
  "py_repr s =
     (let quote = (if CHR 0x27 \<in> set s \<and> CHR 0x22 \<notin> set s then CHR 0x22 else CHR 0x27) in
      [quote] @ concat (map (repr_char quote) s) @ [quote])"

text \<open>\<open>s.splitlines()\<close>: a line ends at any of the line boundaries, where a carriage return and the
  newline after it are one; no empty line follows the last boundary.\<close>

definition line_boundary :: "char \<Rightarrow> bool" where
  "line_boundary c \<longleftrightarrow> (let n = of_char c :: nat in (10 \<le> n \<and> n \<le> 13) \<or> (28 \<le> n \<and> n \<le> 30) \<or> n = 133)"

fun splitlines_from :: "str \<Rightarrow> str \<Rightarrow> str list" where
  "splitlines_from line [] = (if line = [] then [] else [line])"
| "splitlines_from line (c # s) =
     (if line_boundary c then
        line # (case s of
                  d # rest \<Rightarrow> if c = CHR 0x0D \<and> d = CHR 0x0A then splitlines_from [] rest else splitlines_from [] s
                | [] \<Rightarrow> [])
      else splitlines_from (line @ [c]) s)"

definition splitlines :: "str \<Rightarrow> str list" where
  "splitlines = splitlines_from []"

section \<open>Comparison\<close>

definition compare_path :: "document \<Rightarrow> str \<times> (str \<times> json) list \<Rightarrow> BreakingChange list" where
  "compare_path head_doc p =
     (case p of (path, operations) \<Rightarrow>
      case dict_get (dc_paths head_doc) path of
        None \<Rightarrow> [\<lparr>bc_code = ''removed_path'', bc_location = path,
                 bc_detail = ''Path was removed from the public OpenAPI contract.''\<rparr>]
      | Some head_operations \<Rightarrow>
          map (\<lambda>method_name. \<lparr>bc_code = ''removed_operation'', bc_location = str_upper method_name @ '' '' @ path,
                 bc_detail = ''Operation was removed from the public OpenAPI contract.''\<rparr>)
            (filter (\<lambda>method_name. method_name \<in> set HTTP_METHODS \<and> \<not> dict_has head_operations method_name)
              (map fst operations)))"

definition compare_operations :: "document \<Rightarrow> document \<Rightarrow> BreakingChange list" where
  "compare_operations base head_doc = concat (map (compare_path head_doc) (dc_paths base))"

fun schema_type :: "schema \<Rightarrow> str" where
  "schema_type (Schema (Some target) any_of one_of ty enum properties required other) = target"
| "schema_type (Schema None (Some options) one_of ty enum properties required other) =
     str_join ''|'' (sort (map schema_type options))"
| "schema_type (Schema None None (Some options) ty enum properties required other) =
     str_join ''|'' (sort (map schema_type options))"
| "schema_type (Schema None None None ty enum properties required other) =
     (case ty of None \<Rightarrow> ''unknown'' | Some t \<Rightarrow> t)"

definition enum_was_narrowed :: "schema \<Rightarrow> schema \<Rightarrow> bool" where
  "enum_was_narrowed base_property head_property =
     (case (sc_enum base_property, sc_enum head_property) of
        (Some base_enum, Some head_enum) \<Rightarrow> set head_enum \<subset> set base_enum
      | _ \<Rightarrow> False)"

definition compare_property :: "str \<Rightarrow> schema \<Rightarrow> str \<times> schema \<Rightarrow> BreakingChange list" where
  "compare_property name head_schema p =
     (case p of (property_name, base_property) \<Rightarrow>
      let location = ''components.schemas.'' @ name @ ''.properties.'' @ property_name in
      case dict_get (sc_properties head_schema) property_name of
        None \<Rightarrow> [\<lparr>bc_code = ''removed_property'', bc_location = location, bc_detail = ''Schema property was removed.''\<rparr>]
      | Some head_property \<Rightarrow>
          (if schema_type base_property \<noteq> schema_type head_property then
             [\<lparr>bc_code = ''changed_property_type'', bc_location = location,
               bc_detail = ''Type changed from '' @ py_repr (schema_type base_property) @ '' to '' @
                 py_repr (schema_type head_property) @ ''.''\<rparr>] else []) @
          (if enum_was_narrowed base_property head_property then
             [\<lparr>bc_code = ''narrowed_enum'', bc_location = location,
               bc_detail = ''Allowed enum values were narrowed.''\<rparr>] else []))"

definition compare_schema :: "str \<Rightarrow> schema \<Rightarrow> schema \<Rightarrow> BreakingChange list" where
  "compare_schema name base_schema head_schema =
     concat (map (compare_property name head_schema) (sc_properties base_schema)) @
     map (\<lambda>property_name. \<lparr>bc_code = ''added_required_property'',
            bc_location = ''components.schemas.'' @ name @ ''.required.'' @ property_name,
            bc_detail = ''A newly required property may break existing clients.''\<rparr>)
       (sort (remdups (filter (\<lambda>p. p \<notin> set (sc_required base_schema)) (sc_required head_schema))))"

definition compare_component :: "document \<Rightarrow> str \<times> schema \<Rightarrow> BreakingChange list" where
  "compare_component head_doc p =
     (case p of (name, base_schema) \<Rightarrow>
      case dict_get (dc_schemas head_doc) name of
        None \<Rightarrow> [\<lparr>bc_code = ''removed_schema'', bc_location = ''components.schemas.'' @ name,
                 bc_detail = ''Component schema was removed.''\<rparr>]
      | Some head_schema \<Rightarrow> compare_schema name base_schema head_schema)"

definition compare_component_schemas :: "document \<Rightarrow> document \<Rightarrow> BreakingChange list" where
  "compare_component_schemas base head_doc = concat (map (compare_component head_doc) (dc_schemas base))"

definition compare_openapi :: "document \<Rightarrow> document \<Rightarrow> BreakingChange list" where
  "compare_openapi base head_doc = compare_operations base head_doc @ compare_component_schemas base head_doc"

section \<open>The approved bypass\<close>

fun scalar_truthy :: "scalar \<Rightarrow> bool" where
  "scalar_truthy SNull = False"
| "scalar_truthy (SNum r) = (r \<noteq> 0)"
| "scalar_truthy (SStr s) = (s \<noteq> [])"

text \<open>\<open>str(x or "").strip()\<close> is not empty; the text of a number is never blank.\<close>

fun scalar_not_blank :: "scalar \<Rightarrow> bool" where
  "scalar_not_blank SNull = False"
| "scalar_not_blank (SNum r) = (r \<noteq> 0)"
| "scalar_not_blank (SStr s) = (str_strip s \<noteq> [])"

text \<open>The fields that the script reads of the event of a pull request (the names of its labels) and of
  the entries of the approval registry.\<close>

record PullRequest =
  pl_number :: scalar
  pl_head_sha :: scalar
  pl_labels :: "scalar list"

record GithubEvent =
  ge_pull_request :: "PullRequest option"
  ge_number :: scalar
  ge_login :: "scalar option"

record Approval =
  ap_label :: scalar
  ap_pr_number :: scalar
  ap_head_sha :: scalar
  ap_issued_by_role :: scalar
  ap_rationale :: scalar

definition event_number :: "GithubEvent \<Rightarrow> scalar" where
  "event_number event =
     (case ge_pull_request event of
        Some pr \<Rightarrow> if scalar_truthy (pl_number pr) then pl_number pr else ge_number event
      | None \<Rightarrow> ge_number event)"

definition event_head_sha :: "GithubEvent \<Rightarrow> scalar" where
  "event_head_sha event = (case ge_pull_request event of Some pr \<Rightarrow> pl_head_sha pr | None \<Rightarrow> SNull)"

definition event_labels :: "GithubEvent \<Rightarrow> scalar list" where
  "event_labels event = (case ge_pull_request event of Some pr \<Rightarrow> pl_labels pr | None \<Rightarrow> [])"

definition entry_approves :: "GithubEvent \<Rightarrow> Approval \<Rightarrow> bool" where
  "entry_approves event entry \<longleftrightarrow>
     (if ap_label entry \<noteq> SStr BYPASS_LABEL then False
      else if ap_pr_number entry \<noteq> event_number event then False
      else if ap_head_sha entry \<noteq> event_head_sha event then False
      else if ap_issued_by_role entry \<noteq> SStr ''super_admin'' then False
      else scalar_not_blank (ap_rationale entry))"

definition bypass_is_approved :: "GithubEvent \<Rightarrow> Approval list \<Rightarrow> bool" where
  "bypass_is_approved event registry_entries \<longleftrightarrow>
     (if SStr BYPASS_LABEL \<notin> set (event_labels event) then False
      else list_ex (entry_approves event) registry_entries)"

record BypassAuditEvent =
  ae_event_type :: str
  ae_approved :: bool
  ae_reason :: str
  ae_label :: str
  ae_actor :: scalar
  ae_pr_number :: scalar
  ae_head_sha :: scalar
  ae_created_at :: datetime

definition bypass_audit :: "datetime \<Rightarrow> GithubEvent \<Rightarrow> bool \<Rightarrow> str \<Rightarrow> BypassAuditEvent" where
  "bypass_audit now event approved reason =
     \<lparr>ae_event_type = ''openapi_breaking_change_bypass'', ae_approved = approved, ae_reason = reason,
      ae_label = BYPASS_LABEL, ae_actor = (case ge_login event of Some login \<Rightarrow> login | None \<Rightarrow> SStr ''unknown''),
      ae_pr_number = event_number event, ae_head_sha = event_head_sha event, ae_created_at = now\<rparr>"

text \<open>\<open>load_jsonl\<close>: no file is an empty registry; \<open>loads\<close> parses one line.\<close>

fun parse_lines :: "(str \<Rightarrow> 'a result) \<Rightarrow> str list \<Rightarrow> 'a list result" where
  "parse_lines loads [] = Inr []"
| "parse_lines loads (line # rest) =
     (if str_strip line = [] then parse_lines loads rest
      else bind_result (loads line) (\<lambda>entry. bind_result (parse_lines loads rest) (\<lambda>entries. Inr (entry # entries))))"

definition load_jsonl :: "(str \<Rightarrow> 'a result) \<Rightarrow> str option \<Rightarrow> 'a list result" where
  "load_jsonl loads content = (case content of None \<Rightarrow> Inr [] | Some text \<Rightarrow> parse_lines loads (splitlines text))"

section \<open>The command\<close>

datatype effect =
    Report "(str \<times> str) list list"
  | PrintedReport "(str \<times> str) list list"
  | Printed str
  | BypassAudit BypassAuditEvent

text \<open>The arguments, with what reading each given file answers; of the registry its text, if it exists.\<close>

record DiffArgs =
  da_base :: "document result"
  da_head :: "document result"
  da_report :: bool
  da_mode :: str
  da_github_event :: "GithubEvent result option"
  da_approval_registry :: "str option option"
  da_audit_output :: bool

definition write_report :: "BreakingChange list \<Rightarrow> bool \<Rightarrow> effect" where
  "write_report changes to_file = (if to_file then Report (map as_dict changes) else PrintedReport (map as_dict changes))"

definition changes_found :: "BreakingChange list \<Rightarrow> str" where
  "changes_found changes = ''OpenAPI diff detected '' @ str_of_nat (length changes) @ '' breaking change(s)''"

definition refuse_changes :: "BreakingChange list \<Rightarrow> effect list \<Rightarrow> int result \<times> effect list" where
  "refuse_changes changes written = (Inr 1, written @ [Printed (changes_found changes @ ''.'')])"

definition try_bypass ::
    "(str \<Rightarrow> Approval result) \<Rightarrow> datetime \<Rightarrow> GithubEvent result \<Rightarrow> str option \<Rightarrow> BreakingChange list \<Rightarrow>
     effect list \<Rightarrow> int result \<times> effect list" where
  "try_bypass loads now github_event registry changes written =
     (case bind_result github_event (\<lambda>event. bind_result (load_jsonl loads registry) (\<lambda>entries. Inr (event, entries))) of
        Inl e \<Rightarrow> (Inl e, written)
      | Inr (event, entries) \<Rightarrow>
          let approved = bypass_is_approved event entries;
              audited = written @ [BypassAudit (bypass_audit now event approved
                (if approved then ''approved_super_admin_label'' else ''missing_super_admin_label_approval''))] in
          if approved then
            (Inr 0, audited @ [Printed ''OpenAPI breaking changes accepted with audited super_admin bypass.''])
          else refuse_changes changes audited)"

definition cmd_diff :: "(str \<Rightarrow> Approval result) \<Rightarrow> datetime \<Rightarrow> DiffArgs \<Rightarrow> int result \<times> effect list" where
  "cmd_diff loads now args =
     (case bind_result (da_base args) (\<lambda>base. bind_result (da_head args) (\<lambda>head_doc. Inr (compare_openapi base head_doc))) of
        Inl e \<Rightarrow> (Inl e, [])
      | Inr changes \<Rightarrow>
          let written = [write_report changes (da_report args)] in
          if changes = [] then (Inr 0, written)
          else if da_mode args = ''warn'' then
            (Inr 0, written @ [Printed (''::warning::'' @ changes_found changes @ ''; warn mode is active.'')])
          else case (da_github_event args, da_approval_registry args, da_audit_output args) of
            (Some github_event, Some registry, True) \<Rightarrow> try_bypass loads now github_event registry changes written
          | _ \<Rightarrow> refuse_changes changes written)"

end
