(* ===== verification/OpenApiGateCorrect.thy ===== *)
theory OpenApiGateCorrect
  imports OpenApiGate
begin

text \<open>
  What the contract gate lets through: a change passes in block mode exactly when it is additive or
  approved, and what the comparison does not see.
\<close>

section \<open>Additive changes\<close>

text \<open>What a document promises its clients, as far as the gate looks, and what it demands of them.\<close>

datatype promise =
    Path str
  | Operation str str
  | Named_schema str
  | Typed_property str str str

definition promises :: "document \<Rightarrow> promise set" where
  "promises d =
     {Path p | p. dict_has (dc_paths d) p} \<union>
     {Operation m p | m p operations. dict_get (dc_paths d) p = Some operations \<and>
        m \<in> set HTTP_METHODS \<and> dict_has operations m} \<union>
     {Named_schema n | n. dict_has (dc_schemas d) n} \<union>
     {Typed_property n p (schema_type q) | n p s q. dict_get (dc_schemas d) n = Some s \<and>
        dict_get (sc_properties s) p = Some q}"

definition demands :: "document \<Rightarrow> (str \<times> str) set" where
  "demands d = {(n, p). \<exists>s. dict_get (dc_schemas d) n = Some s \<and> p \<in> set (sc_required s)}"

definition narrows :: "document \<Rightarrow> document \<Rightarrow> bool" where
  "narrows base head_doc \<longleftrightarrow>
     (\<exists>n p s s' q q'. dict_get (dc_schemas base) n = Some s \<and> dict_get (dc_schemas head_doc) n = Some s' \<and>
        dict_get (sc_properties s) p = Some q \<and> dict_get (sc_properties s') p = Some q' \<and> enum_was_narrowed q q')"

text \<open>Every promise is kept, no type of the base demands more, and no enumeration lost values only.\<close>

definition additive :: "document \<Rightarrow> document \<Rightarrow> bool" where
  "additive base head_doc \<longleftrightarrow> promises base \<subseteq> promises head_doc \<and>
     (\<forall>(n, p) \<in> demands head_doc. Named_schema n \<in> promises base \<longrightarrow> (n, p) \<in> demands base) \<and>
     \<not> narrows base head_doc"

text \<open>The keys of a parsed object are distinct.\<close>

definition json_document :: "document \<Rightarrow> bool" where
  "json_document d \<longleftrightarrow>
     distinct (map fst (dc_paths d)) \<and> (\<forall>(p, operations) \<in> set (dc_paths d). distinct (map fst operations)) \<and>
     distinct (map fst (dc_schemas d)) \<and> (\<forall>(n, s) \<in> set (dc_schemas d). distinct (map fst (sc_properties s)))"

lemma promises_simps [simp]:
  "Path p \<in> promises d \<longleftrightarrow> dict_has (dc_paths d) p"
  "Operation m p \<in> promises d \<longleftrightarrow>
     (\<exists>operations. dict_get (dc_paths d) p = Some operations \<and> m \<in> set HTTP_METHODS \<and> dict_has operations m)"
  "Named_schema n \<in> promises d \<longleftrightarrow> dict_has (dc_schemas d) n"
  "Typed_property n p t \<in> promises d \<longleftrightarrow>
     (\<exists>s q. dict_get (dc_schemas d) n = Some s \<and> dict_get (sc_properties s) p = Some q \<and> t = schema_type q)"
  by (auto simp: promises_def)

lemma promises_subset:
  "promises base \<subseteq> promises head_doc \<longleftrightarrow>
     (\<forall>p. Path p \<in> promises base \<longrightarrow> Path p \<in> promises head_doc) \<and>
     (\<forall>m p. Operation m p \<in> promises base \<longrightarrow> Operation m p \<in> promises head_doc) \<and>
     (\<forall>n. Named_schema n \<in> promises base \<longrightarrow> Named_schema n \<in> promises head_doc) \<and>
     (\<forall>n p t. Typed_property n p t \<in> promises base \<longrightarrow> Typed_property n p t \<in> promises head_doc)"
  (is "?l \<longleftrightarrow> ?r")
proof
  assume r: ?r
  show ?l
  proof
    fix x assume "x \<in> promises base"
    with r show "x \<in> promises head_doc" by (cases x) (simp_all del: promises_simps)
  qed
qed blast

lemma dict_get_distinct: "distinct (map fst d) \<Longrightarrow> dict_get d k = Some v \<longleftrightarrow> (k, v) \<in> set d"
proof (induction d)
  case (Cons p d)
  then show ?case by (cases p) (auto simp: rev_image_eqI)
qed simp

lemma dict_has_keys: "dict_has d k \<longleftrightarrow> k \<in> fst ` set d"
  by (simp add: dict_has_def dict_get_None_iff)

lemma compare_path_Nil:
  "compare_path head_doc (path, operations) = [] \<longleftrightarrow>
     (\<exists>kept. dict_get (dc_paths head_doc) path = Some kept \<and>
        (\<forall>m \<in> set HTTP_METHODS. dict_has operations m \<longrightarrow> dict_has kept m))"
  by (cases "dict_get (dc_paths head_doc) path")
    (auto simp: compare_path_def filter_empty_conv dict_has_keys[of operations])

lemma compare_operations_Nil:
  assumes "json_document base"
  shows "compare_operations base head_doc = [] \<longleftrightarrow>
    (\<forall>p. Path p \<in> promises base \<longrightarrow> Path p \<in> promises head_doc) \<and>
    (\<forall>m p. Operation m p \<in> promises base \<longrightarrow> Operation m p \<in> promises head_doc)"
proof -
  have "compare_operations base head_doc = [] \<longleftrightarrow>
      (\<forall>p operations. dict_get (dc_paths base) p = Some operations \<longrightarrow> compare_path head_doc (p, operations) = [])"
    using assms by (auto simp: compare_operations_def json_document_def dict_get_distinct)
  also have "\<dots> \<longleftrightarrow> (\<forall>p operations. dict_get (dc_paths base) p = Some operations \<longrightarrow>
      (\<exists>kept. dict_get (dc_paths head_doc) p = Some kept \<and>
        (\<forall>m \<in> set HTTP_METHODS. dict_has operations m \<longrightarrow> dict_has kept m)))"
    by (simp add: compare_path_Nil)
  finally show ?thesis by (auto simp: dict_has_def[of "dc_paths _"]) (metis option.inject)+
qed

lemma compare_property_Nil:
  "compare_property name head_schema (p, q) = [] \<longleftrightarrow>
     (\<exists>q'. dict_get (sc_properties head_schema) p = Some q' \<and> schema_type q = schema_type q' \<and> \<not> enum_was_narrowed q q')"
  by (cases "dict_get (sc_properties head_schema) p") (simp_all add: compare_property_def Let_def)

lemma compare_schema_Nil:
  assumes "distinct (map fst (sc_properties s))"
  shows "compare_schema name s s' = [] \<longleftrightarrow>
    (\<forall>p q. dict_get (sc_properties s) p = Some q \<longrightarrow>
      (\<exists>q'. dict_get (sc_properties s') p = Some q' \<and> schema_type q = schema_type q' \<and> \<not> enum_was_narrowed q q')) \<and>
    set (sc_required s') \<subseteq> set (sc_required s)"
proof -
  have "sort xs = [] \<longleftrightarrow> xs = []" for xs :: "str list"
    by (metis length_0_conv length_sort)
  then show ?thesis
    using assms by (auto simp: compare_schema_def compare_property_Nil dict_get_distinct filter_empty_conv)
qed

lemma compare_component_Nil:
  "compare_component head_doc (n, s) = [] \<longleftrightarrow>
    (\<exists>s'. dict_get (dc_schemas head_doc) n = Some s' \<and> compare_schema n s s' = [])"
  by (cases "dict_get (dc_schemas head_doc) n") (simp_all add: compare_component_def)

lemma compare_component_schemas_Nil:
  assumes "json_document base"
  shows "compare_component_schemas base head_doc = [] \<longleftrightarrow>
    (\<forall>n s. dict_get (dc_schemas base) n = Some s \<longrightarrow>
      (\<exists>s'. dict_get (dc_schemas head_doc) n = Some s' \<and> compare_schema n s s' = []))"
proof -
  have "compare_component_schemas base head_doc = [] \<longleftrightarrow>
      (\<forall>n s. dict_get (dc_schemas base) n = Some s \<longrightarrow> compare_component head_doc (n, s) = [])"
    using assms by (auto simp: compare_component_schemas_def json_document_def dict_get_distinct)
  then show ?thesis by (simp only: compare_component_Nil)
qed

lemma schemas_kept:
  assumes "json_document base"
  shows "compare_component_schemas base head_doc = [] \<longleftrightarrow>
    (\<forall>n. Named_schema n \<in> promises base \<longrightarrow> Named_schema n \<in> promises head_doc) \<and>
    (\<forall>n p t. Typed_property n p t \<in> promises base \<longrightarrow> Typed_property n p t \<in> promises head_doc) \<and>
    (\<forall>(n, p) \<in> demands head_doc. Named_schema n \<in> promises base \<longrightarrow> (n, p) \<in> demands base) \<and>
    \<not> narrows base head_doc" (is "?none \<longleftrightarrow> ?named \<and> ?typed \<and> ?demands \<and> ?wide")
proof -
  have keys: "distinct (map fst (sc_properties s))" if "dict_get (dc_schemas base) n = Some s" for n s
    using assms dict_get_SomeD[OF that] by (auto simp: json_document_def)
  have step: "?none \<longleftrightarrow> (\<forall>n s. dict_get (dc_schemas base) n = Some s \<longrightarrow>
      (\<exists>s'. dict_get (dc_schemas head_doc) n = Some s' \<and>
        (\<forall>p q. dict_get (sc_properties s) p = Some q \<longrightarrow>
          (\<exists>q'. dict_get (sc_properties s') p = Some q' \<and> schema_type q = schema_type q' \<and> \<not> enum_was_narrowed q q')) \<and>
        set (sc_required s') \<subseteq> set (sc_required s)))"
    unfolding compare_component_schemas_Nil[OF assms] using compare_schema_Nil[OF keys] by (metis (no_types, lifting))
  show ?thesis
  proof
    assume ?none
    note kept = this[unfolded step, rule_format]
    have "?named" unfolding promises_simps dict_has_def using kept by (metis option.exhaust option.simps(3))
    moreover have "?typed" unfolding promises_simps using kept by metis
    moreover have "b \<in> set (sc_required s)" if "dict_get (dc_schemas head_doc) n = Some s'" "b \<in> set (sc_required s')"
        "dict_get (dc_schemas base) n = Some s" for n b s s'
      using kept[OF that(3)] that(1,2) by auto
    then have "?demands" by (auto simp: demands_def dict_has_def)
    moreover have "?wide" unfolding narrows_def using kept by (metis option.inject)
    ultimately show "?named \<and> ?typed \<and> ?demands \<and> ?wide" by simp
  next
    assume r: "?named \<and> ?typed \<and> ?demands \<and> ?wide"
    show ?none
      unfolding step
    proof (intro allI impI)
      fix n s assume s: "dict_get (dc_schemas base) n = Some s"
      with r obtain s' where s': "dict_get (dc_schemas head_doc) n = Some s'" by (fastforce simp: dict_has_def)
      have "\<exists>q'. dict_get (sc_properties s') p = Some q' \<and> schema_type q = schema_type q' \<and> \<not> enum_was_narrowed q q'"
        if q: "dict_get (sc_properties s) p = Some q" for p q
      proof -
        have "Typed_property n p (schema_type q) \<in> promises base" using s q by auto
        then have "Typed_property n p (schema_type q) \<in> promises head_doc" using r by (simp del: promises_simps)
        then obtain q' where q': "dict_get (sc_properties s') p = Some q'" "schema_type q = schema_type q'"
          using s' by auto
        moreover have "\<not> enum_was_narrowed q q'" using r s s' q q'(1) unfolding narrows_def by blast
        ultimately show ?thesis by blast
      qed
      moreover have "x \<in> set (sc_required s)" if "x \<in> set (sc_required s')" for x
      proof -
        have "(n, x) \<in> demands head_doc" using s' that by (auto simp: demands_def)
        moreover have "Named_schema n \<in> promises base" using s by (simp add: dict_has_def)
        ultimately have "(n, x) \<in> demands base" using r by auto
        then show ?thesis using s by (auto simp: demands_def)
      qed
      ultimately show "\<exists>s'. dict_get (dc_schemas head_doc) n = Some s' \<and>
        (\<forall>p q. dict_get (sc_properties s) p = Some q \<longrightarrow>
          (\<exists>q'. dict_get (sc_properties s') p = Some q' \<and> schema_type q = schema_type q' \<and> \<not> enum_was_narrowed q q')) \<and>
        set (sc_required s') \<subseteq> set (sc_required s)"
        using s' by blast
    qed
  qed
qed

lemma no_changes_iff_additive:
  "json_document base \<Longrightarrow> compare_openapi base head_doc = [] \<longleftrightarrow> additive base head_doc"
  unfolding compare_openapi_def append_is_Nil_conv additive_def promises_subset
  by (simp only: compare_operations_Nil schemas_kept) blast

section \<open>The gate\<close>

text \<open>The approval that the documentation asks for: the pull request carries the label, and the registry
  has a record of a super administrator, with a rationale, for its number and its last commit.\<close>

definition approved_by_super_admin :: "GithubEvent \<Rightarrow> Approval list \<Rightarrow> bool" where
  "approved_by_super_admin event entries \<longleftrightarrow>
     SStr BYPASS_LABEL \<in> set (event_labels event) \<and>
     (\<exists>entry \<in> set entries. ap_label entry = SStr BYPASS_LABEL \<and> ap_pr_number entry = event_number event \<and>
        ap_head_sha entry = event_head_sha event \<and> ap_issued_by_role entry = SStr ''super_admin'' \<and>
        scalar_not_blank (ap_rationale entry))"

lemma bypass_is_approved_iff: "bypass_is_approved event entries \<longleftrightarrow> approved_by_super_admin event entries"
  by (auto simp: bypass_is_approved_def approved_by_super_admin_def entry_approves_def list_ex_iff)

text \<open>The audit events among the effects.\<close>

definition audits :: "effect list \<Rightarrow> BypassAuditEvent list" where
  "audits written = concat (map (\<lambda>x. case x of BypassAudit a \<Rightarrow> [a] | _ \<Rightarrow> []) written)"

lemma audits_simps [simp]:
  "audits [] = []" "audits (xs @ ys) = audits xs @ audits ys"
  "audits (Report r # xs) = audits xs" "audits (PrintedReport r # xs) = audits xs"
  "audits (Printed s # xs) = audits xs" "audits (BypassAudit a # xs) = a # audits xs"
  by (simp_all add: audits_def)

lemma write_report_no_audit [simp]: "audits (write_report changes b # xs) = audits xs"
  by (simp add: write_report_def)


definition example_contract :: document where
  "example_contract = \<lparr>dc_paths = [(''/api/v1/runs'', [(''get'', JNull)])], dc_schemas = []\<rparr>"

definition example_pull_request :: GithubEvent where
  "example_pull_request = \<lparr>ge_pull_request = Some \<lparr>pl_number = SNum 42, pl_head_sha = SStr ''abc123'',
     pl_labels = [SStr BYPASS_LABEL]\<rparr>, ge_number = SNum 42, ge_login = None\<rparr>"

definition example_approval :: Approval where
  "example_approval = \<lparr>ap_label = SStr BYPASS_LABEL, ap_pr_number = SNum 42, ap_head_sha = SStr ''abc123'',
     ap_issued_by_role = SStr ''super_admin'', ap_rationale = SStr ''emergency''\<rparr>"

definition example_args :: DiffArgs where
  "example_args = \<lparr>da_base = Inr example_contract, da_head = Inr \<lparr>dc_paths = [], dc_schemas = []\<rparr>, da_report = False,
     da_mode = ''block'', da_github_event = Some (Inr example_pull_request), da_approval_registry = Some (Some ''x''),
     da_audit_output = True\<rparr>"


text \<open>In warn mode, the mode of the workflow, no attempted bypass is audited.\<close>

theorem warn_mode_never_audits:
  "da_mode args = ''warn'' \<Longrightarrow> audits (snd (cmd_diff loads now args)) = []"
  by (simp add: cmd_diff_def Let_def split: sum.splits)

section \<open>What the comparison does not see\<close>

text \<open>Of an operation only its presence is compared: parameters, request bodies and responses may change
  at will.\<close>

theorem operations_are_not_compared:
  assumes "json_document base"
  shows "compare_operations base
     (base\<lparr>dc_paths := map (\<lambda>(p, operations). (p, map (\<lambda>(m, body). (m, change p m body)) operations)) (dc_paths base)\<rparr>) = []"
proof -
  have get: "dict_get (map (\<lambda>(p, operations). (p, map (\<lambda>(m, body). (m, change p m body)) operations)) d) p =
      map_option (map (\<lambda>(m, body). (m, change p m body))) (dict_get d p)" for d :: "(str \<times> (str \<times> json) list) list" and p
    by (induction d) auto
  have "dict_has (map (\<lambda>(m, body). (m, change p m body)) operations) m = dict_has operations m"
    for p and operations :: "(str \<times> json) list" and m
    by (force simp: dict_has_keys)
  with assms show ?thesis
    by (auto simp: compare_operations_def compare_path_Nil get json_document_def simp flip: dict_get_distinct)
qed

text \<open>An enumeration counts as narrowed only when its values become a proper subset: two steps that pass,
  through values that have nothing in common with the first, remove a value and add none.\<close>

definition colours :: "str list \<Rightarrow> document" where
  "colours values = \<lparr>dc_paths = [], dc_schemas = [(''Light'', Schema None None None (Some ''object'') None
     [(''colour'', Schema None None None (Some ''string'') (Some (map SStr values)) [] [] [])] [] [])]\<rparr>"

theorem two_steps_hide_a_break:
  "compare_openapi (colours [''red'', ''green'']) (colours [''blue'', ''grey'']) = [] \<and>
   compare_openapi (colours [''blue'', ''grey'']) (colours [''red'']) = [] \<and>
   map bc_code (compare_openapi (colours [''red'', ''green'']) (colours [''red''])) = [''narrowed_enum'']"
  by code_simp
end
