(* ===== verification/Wiring.thy ===== *)
theory Wiring
  imports Webhook Encryption ProviderHealth Catalog Budget Metering ControlPlane Telemetry
begin

text \<open>
  The wiring of the stores: the settings that each module of \<open>backend/persistence\<close> reads from the
  environment, its factory, and \<open>build_persistence_adapters\<close> of \<open>persistence/factory.py\<close> that composes
  them. An adapter is what distinguishes it from others of its class: in memory, or durable with the
  arguments of its constructor. The process environment is a dictionary; number parsing, SQLAlchemy's
  URLs and engines, the Redis client and the reading of the rotation table are arguments.
\<close>

section \<open>The environment\<close>

type_synonym environ = "(str \<times> str) list"

record 'u Outside =
  ou_int :: "str \<Rightarrow> int result"
  ou_float :: "str \<Rightarrow> rat result"
  ou_make_url :: "str \<Rightarrow> 'u result"
  ou_drivername :: "'u \<Rightarrow> str"
  ou_with_drivername :: "str \<Rightarrow> 'u \<Rightarrow> str"
  ou_create_engine :: "str \<Rightarrow> unit result"
  ou_redis_from_url :: "str \<Rightarrow> unit result"
  ou_graph_store :: bool
  ou_rotations :: "RotationRow list result"
  ou_wall :: datetime

text \<open>\<open>_first_env\<close>, \<open>_env_flag\<close> and \<open>_int_env\<close>; an empty variable counts as set only for the last.\<close>

fun first_env :: "environ \<Rightarrow> str list \<Rightarrow> str \<Rightarrow> str" where
  "first_env env [] absent = absent"
| "first_env env (key # keys) absent =
     (if getenv env key [] \<noteq> [] then getenv env key [] else first_env env keys absent)"

definition env_flag :: "environ \<Rightarrow> str list \<Rightarrow> bool" where
  "env_flag env keys \<longleftrightarrow>
     list_ex (\<lambda>key. str_lower (str_strip (getenv env key [])) \<in> set [''1'', ''true'', ''yes'', ''on'']) keys"

definition int_env :: "'u Outside \<Rightarrow> environ \<Rightarrow> str \<Rightarrow> int \<Rightarrow> int result" where
  "int_env os env key absent =
     (case dict_get env key of None \<Rightarrow> Inr absent | Some value \<Rightarrow> ou_int os value)"

section \<open>Database and Redis\<close>

definition DEFAULT_DATABASE_URL :: str where "DEFAULT_DATABASE_URL = ''postgresql://not-configured''"

definition DEFAULT_REDIS_URL :: str where "DEFAULT_REDIS_URL = ''redis://not-configured''"

record DatabaseSettings =
  db_url :: str
  db_pool_size :: int
  db_statement_timeout_ms :: int
  db_air_gapped_skip_migrations :: bool

definition database_configured :: "DatabaseSettings \<Rightarrow> bool" where
  "database_configured s \<longleftrightarrow> db_url s \<noteq> DEFAULT_DATABASE_URL"

definition database_from_env :: "environ \<Rightarrow> DatabaseSettings" where
  "database_from_env env =
     \<lparr>db_url = first_env env [''BACKEND_DATABASE_URL'', ''DATABASE_URL''] DEFAULT_DATABASE_URL,
      db_pool_size = 10, db_statement_timeout_ms = 5000,
      db_air_gapped_skip_migrations =
        env_flag env [''BACKEND_AIR_GAPPED_SKIP_MIGRATIONS'', ''BACKEND_SKIP_STARTUP_MIGRATIONS'']\<rparr>"

definition make_sync_database_url :: "'u Outside \<Rightarrow> str \<Rightarrow> str result" where
  "make_sync_database_url os url =
     (if url = DEFAULT_DATABASE_URL then Inr url
      else bind_result (ou_make_url os url) (\<lambda>parsed.
        if ou_drivername os parsed \<in> set [''postgres'', ''postgresql'', ''postgresql+psycopg'']
        then Inr (ou_with_drivername os ''postgresql+psycopg'' parsed)
        else if ou_drivername os parsed = ''postgresql+asyncpg''
        then Inr (ou_with_drivername os ''postgresql+psycopg'' parsed)
        else Inr url))"

record RedisSettings =
  re_url :: str
  re_max_connections :: int
  re_cluster_mode :: bool
  re_tls_enabled :: bool

definition redis_configured :: "RedisSettings \<Rightarrow> bool" where
  "redis_configured s \<longleftrightarrow> re_url s \<noteq> DEFAULT_REDIS_URL"

definition redis_from_env :: "environ \<Rightarrow> RedisSettings" where
  "redis_from_env env =
     \<lparr>re_url = first_env env [''BACKEND_REDIS_URL'', ''REDIS_URL''] DEFAULT_REDIS_URL,
      re_max_connections = 20, re_cluster_mode = False, re_tls_enabled = False\<rparr>"

section \<open>Settings of the stores\<close>

text \<open>A mode is \<open>legacy\<close> or the one other value \<open>durable\<close> that the module knows.\<close>

definition quoted :: "str \<Rightarrow> str" where
  "quoted s = [CHR 0x27] @ s @ [CHR 0x27]"

definition mode_from_env :: "environ \<Rightarrow> str \<Rightarrow> str \<Rightarrow> store_mode result" where
  "mode_from_env env key durable =
     (let value = getenv env key ''legacy'' in
      if value = ''legacy'' then Inr Legacy
      else if value = durable then Inr Postgres
      else Inl (ValueError (key @ '' must be 'legacy' or '' @ quoted durable @ '', got '' @ quoted value)))"

definition run_repository_settings :: "environ \<Rightarrow> store_mode result" where
  "run_repository_settings env = mode_from_env env ''BACKEND_RUN_REPOSITORY_MODE'' ''postgres''"

definition control_plane_settings :: "'u Outside \<Rightarrow> environ \<Rightarrow> (store_mode \<times> rat) result" where
  "control_plane_settings os env =
     bind_result (mode_from_env env ''BACKEND_CONTROL_PLANE_STORE_MODE'' ''postgres'') (\<lambda>mode.
     bind_result (ou_float os (getenv env ''BACKEND_HANDLER_REGISTRY_CACHE_TTL_SECONDS'' ''5'')) (\<lambda>ttl.
     Inr (mode, ttl)))"

record WorkerControllerSettings =
  ws_mode :: store_mode
  ws_queue_name :: str
  ws_arq_function_name :: str
  ws_drain_lease_ttl_seconds :: int
  ws_per_tenant_concurrency :: int
  ws_starvation_threshold_seconds :: int

definition worker_settings :: "'u Outside \<Rightarrow> environ \<Rightarrow> WorkerControllerSettings result" where
  "worker_settings os env =
     bind_result (mode_from_env env ''BACKEND_WORKER_CONTROLLER_MODE'' ''redis'') (\<lambda>mode.
     bind_result (ou_int os (getenv env ''BACKEND_WORKER_DRAIN_LEASE_TTL_SECONDS'' ''300'')) (\<lambda>ttl.
     bind_result (ou_int os (getenv env ''BACKEND_WORKER_PER_TENANT_CONCURRENCY'' ''2'')) (\<lambda>concurrency.
     bind_result (ou_int os (getenv env ''BACKEND_WORKER_STARVATION_THRESHOLD_SECONDS'' ''300'')) (\<lambda>threshold.
     Inr \<lparr>ws_mode = mode, ws_queue_name = getenv env ''BACKEND_WORKER_QUEUE_NAME'' ''ticket-runs'',
       ws_arq_function_name = getenv env ''BACKEND_WORKER_ARQ_FUNCTION'' ''process_ticket_run'',
       ws_drain_lease_ttl_seconds = ttl, ws_per_tenant_concurrency = concurrency,
       ws_starvation_threshold_seconds = threshold\<rparr>))))"

definition budget_ledger_settings :: "environ \<Rightarrow> store_mode result" where
  "budget_ledger_settings env = mode_from_env env ''BACKEND_BUDGET_LEDGER_MODE'' ''postgres''"

definition metering_ledger_settings :: "environ \<Rightarrow> store_mode result" where
  "metering_ledger_settings env = mode_from_env env ''BACKEND_METERING_LEDGER_MODE'' ''postgres''"

definition deployment_profile_from_env :: "environ \<Rightarrow> DeploymentProfile result" where
  "deployment_profile_from_env env =
     (let value = getenv env ''BACKEND_DEPLOYMENT_PROFILE'' ''connected'' in
      if value = ''connected'' then Inr Connected
      else if value = ''air_gapped'' then Inr Air_gapped
      else Inl (ValueError (''BACKEND_DEPLOYMENT_PROFILE must be 'connected' or 'air_gapped', got '' @ quoted value)))"

definition VENDOR_LLM_API_KEY_ENV_KEYS :: "str list" where
  "VENDOR_LLM_API_KEY_ENV_KEYS =
     [''BACKEND_OPENAI_API_KEY'', ''BACKEND_ANTHROPIC_API_KEY'', ''OPENAI_API_KEY'', ''ANTHROPIC_API_KEY'']"

record ModelCatalogSettings =
  mc_mode :: store_mode
  mc_deployment_profile :: DeploymentProfile
  mc_bundle_path :: "str option"

definition vendor_keys_absent :: "environ \<Rightarrow> unit result" where
  "vendor_keys_absent env =
     (case find (\<lambda>key. getenv env key [] \<noteq> []) VENDOR_LLM_API_KEY_ENV_KEYS of
        Some key \<Rightarrow> Inl (ValueError (key @ '' is connected-only and cannot be set when BACKEND_DEPLOYMENT_PROFILE=air_gapped''))
      | None \<Rightarrow>
          if getenv env ''BACKEND_PROVIDER_OPENCODE_GO_ENDPOINT'' [] = []
          then Inl (ValueError ''BACKEND_PROVIDER_OPENCODE_GO_ENDPOINT is required when BACKEND_DEPLOYMENT_PROFILE=air_gapped'')
          else Inr ())"

definition model_catalog_settings :: "environ \<Rightarrow> ModelCatalogSettings result" where
  "model_catalog_settings env =
     bind_result (mode_from_env env ''BACKEND_MODEL_CATALOG_MODE'' ''postgres'') (\<lambda>mode.
     bind_result (deployment_profile_from_env env) (\<lambda>profile.
     bind_result (if profile = Air_gapped then vendor_keys_absent env else Inr ()) (\<lambda>_.
     Inr \<lparr>mc_mode = mode, mc_deployment_profile = profile,
       mc_bundle_path = dict_get env ''BACKEND_MODEL_CATALOG_BUNDLE_PATH''\<rparr>)))"

definition provider_health_settings :: "'u Outside \<Rightarrow> environ \<Rightarrow> (store_mode \<times> ProviderHealthSettings) result" where
  "provider_health_settings os env =
     bind_result (mode_from_env env ''BACKEND_PROVIDER_HEALTH_STORE_MODE'' ''redis'') (\<lambda>mode.
     bind_result (deployment_profile_from_env env) (\<lambda>profile.
     bind_result (ou_int os (getenv env ''BACKEND_PROVIDER_FAILURE_THRESHOLD'' ''2'')) (\<lambda>threshold.
     bind_result (ou_int os (getenv env ''BACKEND_PROVIDER_RECOVERY_PROBE_LIMIT'' ''1'')) (\<lambda>probes.
     Inr (mode, \<lparr>ps_deployment_air_gapped = (profile = Air_gapped), ps_failure_threshold = threshold,
       ps_recovery_probe_limit = probes\<rparr>)))))"

record WebhookGuardSettings =
  wt_mode :: str
  wt_secret :: str
  wt_freshness_window_seconds :: int
  wt_per_minute_limit :: int
  wt_per_ticket_flood_limit :: int
  wt_rotation_overlap_hours :: int
  wt_ip_allowlist :: "str list"

definition webhook_settings :: "'u Outside \<Rightarrow> environ \<Rightarrow> WebhookGuardSettings result" where
  "webhook_settings os env =
     bind_result (int_env os env ''BACKEND_WEBHOOK_FRESHNESS_WINDOW_SECONDS'' 300) (\<lambda>freshness.
     bind_result (int_env os env ''BACKEND_WEBHOOK_PER_MINUTE_LIMIT'' 3) (\<lambda>per_minute.
     bind_result (int_env os env ''BACKEND_WEBHOOK_PER_TICKET_FLOOD_LIMIT'' 20) (\<lambda>flood.
     bind_result (int_env os env ''BACKEND_WEBHOOK_ROTATION_OVERLAP_HOURS'' 24) (\<lambda>overlap.
       let mode = getenv env ''BACKEND_WEBHOOK_GUARD_MODE'' ''legacy'' in
       if mode \<notin> set [''legacy'', ''shadow'', ''postgres_redis''] then Inl (ValueError ''WebhookGuardSettings.mode'')
       else Inr \<lparr>wt_mode = mode,
         wt_secret = first_env env [''BACKEND_WEBHOOK_SHARED_SECRET'', ''BACKEND_WEBHOOK_SECRET''] [],
         wt_freshness_window_seconds = freshness, wt_per_minute_limit = per_minute,
         wt_per_ticket_flood_limit = flood, wt_rotation_overlap_hours = overlap, wt_ip_allowlist = []\<rparr>))))"

definition validate_secret :: "WebhookGuardSettings \<Rightarrow> unit result" where
  "validate_secret s =
     (if wt_secret s = []
      then Inl (RuntimeError ''Webhook shared secret is not configured. Set BACKEND_WEBHOOK_SHARED_SECRET or BACKEND_WEBHOOK_SECRET environment variable.'')
      else Inr ())"

section \<open>Adapters\<close>

datatype ('m, 'd) adapter = In_memory 'm | Durable 'd

datatype webhook_adapter =
    In_memory_guard MemGuard
  | Durable_guard WebhookGuard
  | Shadow_guard MemGuard WebhookGuard

text \<open>The common shape of the factories: the legacy mode answers the given object, the other needs a
  database URL, some also Redis, and then constructs; \<open>name\<close> is what the messages call the store.\<close>

definition build_adapter ::
    "str \<Rightarrow> str \<Rightarrow> store_mode \<Rightarrow> 'a option \<Rightarrow> str option \<Rightarrow> bool \<Rightarrow> bool \<Rightarrow> 'a result \<Rightarrow> 'a result" where
  "build_adapter legacy_error setting mode legacy database_url needs_redis redis_ready constructed =
     (case mode of
        Legacy \<Rightarrow> (case legacy of None \<Rightarrow> Inl (RuntimeError legacy_error) | Some a \<Rightarrow> Inr a)
      | Postgres \<Rightarrow>
          if database_url = None \<or> database_url = Some []
          then Inl (RuntimeError (setting @ '' requires a configured database URL''))
          else if needs_redis \<and> \<not> redis_ready
          then Inl (RuntimeError (setting @ '' requires a configured Redis URL''))
          else constructed)"

definition construct :: "'u Outside \<Rightarrow> str \<Rightarrow> RedisSettings option \<Rightarrow> 'a \<Rightarrow> 'a result" where
  "construct os url redis a =
     bind_result (ou_create_engine os url) (\<lambda>_.
     case redis of None \<Rightarrow> Inr a | Some r \<Rightarrow> bind_result (ou_redis_from_url os (re_url r)) (\<lambda>_. Inr a))"

type_synonym run_repository_adapter = "(unit, str \<times> str option) adapter"
type_synonym worker_adapter = "(unit, str \<times> str \<times> WorkerControllerSettings) adapter"
type_synonym health_adapter = "(unit, str \<times> str \<times> ProviderHealthSettings) adapter"
type_synonym catalog_adapter = "(catalog_state, str \<times> str option) adapter"

definition build_run_repository ::
    "'u Outside \<Rightarrow> str \<Rightarrow> run_repository_adapter option \<Rightarrow> store_mode \<Rightarrow> str option \<Rightarrow> run_repository_adapter result" where
  "build_run_repository os url legacy mode checkpoint_saver =
     build_adapter ''Legacy run repository mode requires an in-memory test double.''
       ''BACKEND_RUN_REPOSITORY_MODE=postgres'' mode legacy (Some url) False True
       (construct os url None (Durable (url, checkpoint_saver)))"

text \<open>The worker controller makes its Redis client before the engine.\<close>

definition build_worker_controller ::
    "'u Outside \<Rightarrow> str \<Rightarrow> RedisSettings \<Rightarrow> worker_adapter option \<Rightarrow> WorkerControllerSettings \<Rightarrow> worker_adapter result" where
  "build_worker_controller os url redis legacy settings =
     build_adapter ''Legacy worker-controller mode requires an in-memory test double.''
       ''BACKEND_WORKER_CONTROLLER_MODE=redis'' (ws_mode settings) legacy (Some url) True (redis_configured redis)
       (bind_result (ou_redis_from_url os (re_url redis)) (\<lambda>_.
        construct os url None (Durable (url, re_url redis, settings))))"

definition build_model_catalog ::
    "'u Outside \<Rightarrow> str \<Rightarrow> catalog_adapter option \<Rightarrow> ModelCatalogSettings \<Rightarrow> catalog_adapter result" where
  "build_model_catalog os url legacy settings =
     build_adapter ''Legacy model-catalog mode requires an in-memory test double.''
       ''BACKEND_MODEL_CATALOG_MODE=postgres'' (mc_mode settings) legacy (Some url) False True
       (construct os url None (Durable (url, mc_bundle_path settings)))"

definition build_provider_health_store ::
    "'u Outside \<Rightarrow> str \<Rightarrow> RedisSettings \<Rightarrow> health_adapter option \<Rightarrow> store_mode \<times> ProviderHealthSettings \<Rightarrow>
     health_adapter result" where
  "build_provider_health_store os url redis legacy settings =
     build_adapter ''Legacy provider-health mode requires an in-memory test double.''
       ''BACKEND_PROVIDER_HEALTH_STORE_MODE=redis'' (fst settings) legacy (Some url) True (redis_configured redis)
       (construct os url (Some redis) (Durable (url, re_url redis, snd settings)))"

definition build_checkpoint_saver_handle :: "environ \<Rightarrow> str \<Rightarrow> str option" where
  "build_checkpoint_saver_handle env url =
     (let override = getenv env ''BACKEND_RUN_CHECKPOINT_DATABASE_URL'' [];
          resolved_url = (if override \<noteq> [] then override else url)
      in if resolved_url = [] then None else Some resolved_url)"

text \<open>An in-memory guard starts empty; a durable one starts with the tables and keys it shares with its
  predecessors, \<open>shared\<close>, and with empty request windows.\<close>

definition new_memory_guard :: "str \<Rightarrow> int \<Rightarrow> int \<Rightarrow> MemGuard" where
  "new_memory_guard secret freshness per_minute =
     \<lparr>mg_secret = secret, mg_freshness_window_seconds = freshness, mg_per_minute_limit = per_minute,
      mg_per_ticket_flood_limit = 20, mg_ip_allowlist = [], mg_seen_events = [], mg_request_windows = [],
      mg_ticket_windows = []\<rparr>"

definition new_durable_guard :: "'u Outside \<Rightarrow> WebhookGuard \<Rightarrow> WebhookGuardSettings \<Rightarrow> WebhookGuard" where
  "new_durable_guard os shared s =
     with_rotation (ou_wall os) (case ou_rotations os of Inl _ \<Rightarrow> [] | Inr rows \<Rightarrow> rows)
       (shared\<lparr>gd_secret := wt_secret s, gd_freshness_window_seconds := wt_freshness_window_seconds s,
          gd_per_minute_limit := wt_per_minute_limit s, gd_per_ticket_flood_limit := wt_per_ticket_flood_limit s,
          gd_ip_allowlist := wt_ip_allowlist s, gd_request_windows := []\<rparr>)"

definition build_webhook_guard ::
    "'u Outside \<Rightarrow> WebhookGuard \<Rightarrow> MemGuard option \<Rightarrow> str \<Rightarrow> RedisSettings \<Rightarrow> WebhookGuardSettings \<Rightarrow>
     webhook_adapter result" where
  "build_webhook_guard os shared legacy_guard url redis s =
     (if wt_mode s = ''legacy''
      then (case legacy_guard of
              None \<Rightarrow> Inl (RuntimeError ''Legacy webhook mode requires an in-memory test double.'')
            | Some g \<Rightarrow> Inr (In_memory_guard g))
      else if url = []
      then Inl (RuntimeError ''BACKEND_WEBHOOK_GUARD_MODE requires a configured PostgreSQL database URL'')
      else if \<not> redis_configured redis
      then Inl (RuntimeError ''BACKEND_WEBHOOK_GUARD_MODE requires a configured Redis URL'')
      else bind_result (construct os url (Some redis) (new_durable_guard os shared s)) (\<lambda>candidate.
        if wt_mode s = ''shadow''
        then (case legacy_guard of
                None \<Rightarrow> Inl (RuntimeError ''Shadow webhook mode requires an in-memory baseline guard.'')
              | Some g \<Rightarrow> Inr (Shadow_guard g candidate))
        else Inr (Durable_guard candidate)))"

record PersistenceAdapters =
  pa_run_repository :: run_repository_adapter
  pa_control_plane_store :: "(unit, str \<times> str option) adapter"
  pa_handler_registry :: "(str list, str \<times> str option \<times> rat) adapter"
  pa_worker_controller :: worker_adapter
  pa_budget_ledger :: "(unit, str \<times> str) adapter"
  pa_metering_ledger :: "(unit, str) adapter"
  pa_model_catalog :: catalog_adapter
  pa_provider_health_store :: health_adapter
  pa_webhook_guard :: webhook_adapter
  pa_database :: DatabaseSettings
  pa_redis :: RedisSettings
  pa_encryption :: EnvelopeCipher
  pa_health :: PersistenceHealthService
  pa_checkpoint_saver :: "str option"
  pa_graph_store :: "str option"

section \<open>The defaults of the in-memory catalog\<close>

definition default_model_catalog_entries :: "ModelCatalogEntry list" where
  "default_model_catalog_entries =
     [\<lparr>me_model_id = ''gpt-4.1'', me_provider_id = ''openai'', me_deployment_profile = Connected,
       me_max_input_tokens = 128000, me_max_output_tokens = 16000, me_default_price_card_id = ''card-openai-v1'',
       me_supports_tools = True, me_supports_json_mode = True, me_supports_streaming = True,
       me_allowed_fallback_targets = [''llama3.1'']\<rparr>,
      \<lparr>me_model_id = ''llama3.1'', me_provider_id = ''ollama'', me_deployment_profile = Connected,
       me_max_input_tokens = 32000, me_max_output_tokens = 8000, me_default_price_card_id = ''card-ollama-v1'',
       me_supports_tools = True, me_supports_json_mode = True, me_supports_streaming = False,
       me_allowed_fallback_targets = []\<rparr>,
      \<lparr>me_model_id = ''opencode-go/kimi-k2.5'', me_provider_id = ''opencode-go'', me_deployment_profile = Air_gapped,
       me_max_input_tokens = 16000, me_max_output_tokens = 4000, me_default_price_card_id = ''card-airgap-v1'',
       me_supports_tools = True, me_supports_json_mode = True, me_supports_streaming = False,
       me_allowed_fallback_targets = [''opencode-go/minimax-m2.7'']\<rparr>,
      \<lparr>me_model_id = ''opencode-go/minimax-m2.7'', me_provider_id = ''opencode-go'', me_deployment_profile = Air_gapped,
       me_max_input_tokens = 16000, me_max_output_tokens = 4000, me_default_price_card_id = ''card-airgap-v1'',
       me_supports_tools = True, me_supports_json_mode = True, me_supports_streaming = False,
       me_allowed_fallback_targets = []\<rparr>]"

definition default_role_token_policies :: "RoleTokenPolicy list" where
  "default_role_token_policies =
     [\<lparr>tp_role = Role_planner, tp_max_input_tokens = 8000, tp_max_output_tokens = 2000\<rparr>,
      \<lparr>tp_role = Role_coder, tp_max_input_tokens = 12000, tp_max_output_tokens = 4000\<rparr>,
      \<lparr>tp_role = Role_tester, tp_max_input_tokens = 12000, tp_max_output_tokens = 4000\<rparr>,
      \<lparr>tp_role = Role_reviewer, tp_max_input_tokens = 10000, tp_max_output_tokens = 3000\<rparr>,
      \<lparr>tp_role = Role_pr_creator, tp_max_input_tokens = 6000, tp_max_output_tokens = 2000\<rparr>]"

section \<open>The factory\<close>

definition require_webhook_secret :: "'u Outside \<Rightarrow> environ \<Rightarrow> str result" where
  "require_webhook_secret os env =
     bind_result (webhook_settings os env) (\<lambda>settings.
     bind_result (validate_secret settings) (\<lambda>_. Inr (wt_secret settings)))"

definition validate_encryption_configured :: "EnvelopeCipher \<Rightarrow> unit result" where
  "validate_encryption_configured encryption =
     (if \<not> ec_configured encryption
      then Inl (RuntimeError ''Encryption is not configured. Set BACKEND_ENCRYPTION_ACTIVE_KEY_ID and BACKEND_ENCRYPTION_ACTIVE_WRAPPING_KEY environment variables.'')
      else Inr ())"

definition new_health :: "DatabaseSettings \<Rightarrow> RedisSettings \<Rightarrow> EnvelopeCipher \<Rightarrow> PersistenceHealthService" where
  "new_health database redis encryption =
     \<lparr>hs_database_ready = database_configured database, hs_redis_ready = redis_configured redis,
      hs_encryption_ready = ec_configured encryption, hs_migration_status = None, hs_active_snapshot_id = None,
      hs_capability_reasons = []\<rparr>"

definition build_in_memory_persistence :: "'u Outside \<Rightarrow> environ \<Rightarrow> PersistenceAdapters result" where
  "build_in_memory_persistence os env =
     (let database = database_from_env env; redis = redis_from_env env in
      bind_result (cipher_from_env (ou_int os) env) (\<lambda>encryption.
      bind_result (require_webhook_secret os env) (\<lambda>secret.
      Inr \<lparr>pa_run_repository = In_memory (), pa_control_plane_store = In_memory (),
        pa_handler_registry = In_memory [], pa_worker_controller = In_memory (), pa_budget_ledger = In_memory (),
        pa_metering_ledger = In_memory (),
        pa_model_catalog = In_memory (in_memory_catalog default_model_catalog_entries default_role_token_policies),
        pa_provider_health_store = In_memory (), pa_webhook_guard = In_memory_guard (new_memory_guard secret 300 3),
        pa_database = database, pa_redis = redis, pa_encryption = encryption,
        pa_health = new_health database redis encryption, pa_checkpoint_saver = None, pa_graph_store = None\<rparr>)))"

definition air_gapped_ready :: "environ \<Rightarrow> DatabaseSettings \<Rightarrow> RedisSettings \<Rightarrow> EnvelopeCipher \<Rightarrow> unit result" where
  "air_gapped_ready env database redis encryption =
     (if dict_get env ''BACKEND_DEPLOYMENT_PROFILE'' \<noteq> Some ''air_gapped'' then Inr ()
      else if \<not> database_configured database
      then Inl (RuntimeError ''air_gapped deployment requires PostgreSQL; in-memory dev fallback is disabled'')
      else if \<not> redis_configured redis
      then Inl (RuntimeError ''air_gapped deployment requires Redis; in-memory dev fallback is disabled'')
      else if \<not> ec_configured encryption
      then Inl (RuntimeError ''air_gapped deployment requires Vault-backed encryption; dev fallback is disabled'')
      else Inr ())"

text \<open>The settings of all stores, read in the order of the code.\<close>

record StoreSettings =
  st_webhook :: WebhookGuardSettings
  st_control_plane :: "store_mode \<times> rat"
  st_worker :: WorkerControllerSettings
  st_budget :: store_mode
  st_metering :: store_mode
  st_catalog :: ModelCatalogSettings
  st_health :: "store_mode \<times> ProviderHealthSettings"

definition settings_from_env :: "'u Outside \<Rightarrow> environ \<Rightarrow> StoreSettings result" where
  "settings_from_env os env =
     bind_result (webhook_settings os env) (\<lambda>webhook.
     bind_result (control_plane_settings os env) (\<lambda>control_plane.
     bind_result (worker_settings os env) (\<lambda>worker.
     bind_result (budget_ledger_settings env) (\<lambda>budget.
     bind_result (metering_ledger_settings env) (\<lambda>metering.
     bind_result (model_catalog_settings env) (\<lambda>catalog.
     bind_result (provider_health_settings os env) (\<lambda>health.
     Inr \<lparr>st_webhook = webhook, st_control_plane = control_plane, st_worker = worker, st_budget = budget,
       st_metering = metering, st_catalog = catalog, st_health = health\<rparr>)))))))"

text \<open>What the environment says is overruled by what is configured: a database makes four stores use
  it, with Redis four more, and the webhook guard unless it is in shadow mode.\<close>

definition with_database :: "StoreSettings \<Rightarrow> StoreSettings" where
  "with_database s =
     s\<lparr>st_control_plane := (Postgres, snd (st_control_plane s)), st_metering := Postgres,
       st_catalog := (st_catalog s)\<lparr>mc_mode := Postgres\<rparr>\<rparr>"

definition with_redis :: "StoreSettings \<Rightarrow> StoreSettings" where
  "with_redis s =
     s\<lparr>st_worker := (st_worker s)\<lparr>ws_mode := Postgres\<rparr>, st_budget := Postgres,
       st_health := (Postgres, snd (st_health s)),
       st_webhook := (if wt_mode (st_webhook s) = ''legacy'' then (st_webhook s)\<lparr>wt_mode := ''postgres_redis''\<rparr>
                      else st_webhook s)\<rparr>"

definition legacy_webhook_guard :: "WebhookGuardSettings \<Rightarrow> MemGuard option" where
  "legacy_webhook_guard s =
     (if wt_mode s \<in> set [''legacy'', ''shadow'']
      then Some (new_memory_guard (wt_secret s) (wt_freshness_window_seconds s) (wt_per_minute_limit s)) else None)"

definition snapshot_broadcaster :: "'u Outside \<Rightarrow> store_mode \<Rightarrow> RedisSettings \<Rightarrow> str option result" where
  "snapshot_broadcaster os mode redis =
     (case mode of
        Legacy \<Rightarrow> Inr None
      | Postgres \<Rightarrow>
          if \<not> redis_configured redis
          then Inl (RuntimeError ''BACKEND_CONTROL_PLANE_STORE_MODE=postgres requires a configured Redis URL'')
          else bind_result (ou_redis_from_url os (re_url redis)) (\<lambda>_. Inr (Some (re_url redis))))"

definition build_configured ::
    "'u Outside \<Rightarrow> WebhookGuard \<Rightarrow> environ \<Rightarrow> DatabaseSettings \<Rightarrow> RedisSettings \<Rightarrow> EnvelopeCipher \<Rightarrow> store_mode \<Rightarrow>
     str \<Rightarrow> StoreSettings \<Rightarrow> PersistenceAdapters result" where
  "build_configured os shared env database redis encryption run_mode url s =
     (let mode = fst (st_control_plane s); checkpoint_saver = build_checkpoint_saver_handle env url in
      bind_result (snapshot_broadcaster os mode redis) (\<lambda>broadcaster.
      bind_result (build_run_repository os url None run_mode checkpoint_saver) (\<lambda>runs.
      bind_result (bind_result (build_store (Inr mode) (Some url) None
          (\<lambda>u. construct os u None (Durable (u, broadcaster)))
          ''Legacy control-plane mode requires an in-memory test double.'') (\<lambda>a. a)) (\<lambda>control_plane.
      bind_result (bind_result (build_store (Inr mode) (Some url) None
          (\<lambda>u. construct os u None (Durable (u, broadcaster, snd (st_control_plane s))))
          ''Legacy handler-registry mode requires an in-memory test double.'') (\<lambda>a. a)) (\<lambda>registry.
      bind_result (build_worker_controller os url redis None (st_worker s)) (\<lambda>worker.
      bind_result (bind_result (build_budget_ledger (st_budget s = Legacy) (Some url) (redis_configured redis) None
          (construct os url (Some redis) (Durable (url, re_url redis)))) (\<lambda>a. a)) (\<lambda>budget.
      bind_result (bind_result (build_metering_ledger (st_metering s = Legacy) (Some url) None
          (\<lambda>u. construct os u None (Durable u))) (\<lambda>a. a)) (\<lambda>metering.
      bind_result (build_model_catalog os url None (st_catalog s)) (\<lambda>catalog.
      bind_result (build_provider_health_store os url redis None (st_health s)) (\<lambda>health.
      bind_result (build_webhook_guard os shared (legacy_webhook_guard (st_webhook s)) url redis (st_webhook s)) (\<lambda>guard.
      Inr \<lparr>pa_run_repository = runs, pa_control_plane_store = control_plane, pa_handler_registry = registry,
        pa_worker_controller = worker, pa_budget_ledger = budget, pa_metering_ledger = metering,
        pa_model_catalog = catalog, pa_provider_health_store = health, pa_webhook_guard = guard,
        pa_database = database, pa_redis = redis, pa_encryption = encryption,
        pa_health = new_health database redis encryption, pa_checkpoint_saver = checkpoint_saver,
        pa_graph_store = (if ou_graph_store os then Some url else None)\<rparr>)))))))))))"

definition build_persistence_adapters ::
    "'u Outside \<Rightarrow> WebhookGuard \<Rightarrow> environ \<Rightarrow> PersistenceAdapters result" where
  "build_persistence_adapters os shared env =
     (let database = database_from_env env; redis = redis_from_env env in
      bind_result (cipher_from_env (ou_int os) env) (\<lambda>encryption.
      bind_result (validate_encryption_configured encryption) (\<lambda>_.
      bind_result (air_gapped_ready env database redis encryption) (\<lambda>_.
      if \<not> database_configured database then build_in_memory_persistence os env
      else
        bind_result (make_sync_database_url os (db_url database)) (\<lambda>url.
        bind_result (settings_from_env os env) (\<lambda>settings.
        bind_result (if database_configured database then Inr Postgres else run_repository_settings env) (\<lambda>run_mode.
        build_configured os shared env database redis encryption run_mode url
          (let s = (if database_configured database then with_database settings else settings)
           in if database_configured database \<and> redis_configured redis then with_redis s else s))))))))"

end
