(* ===== verification/WiringCorrect.thy ===== *)
theory WiringCorrect
  imports Wiring WebhookCorrect
begin

text \<open>
  What the wiring guarantees: never a mixture of durable and in-memory stores, never a process without
  encryption, no fallback in an air-gapped deployment; and the secret it forgets to ask for.
\<close>

section \<open>Durable or in memory\<close>

text \<open>Every store is the durable one, over one database and one Redis; only the answers of a webhook guard
  in shadow mode come from memory.\<close>

definition durable :: "str \<Rightarrow> str \<Rightarrow> bool \<Rightarrow> PersistenceAdapters \<Rightarrow> bool" where
  "durable url redis shadow a \<longleftrightarrow>
     (\<exists>saver. pa_run_repository a = Durable (url, saver)) \<and>
     pa_control_plane_store a = Durable (url, Some redis) \<and>
     (\<exists>ttl. pa_handler_registry a = Durable (url, Some redis, ttl)) \<and>
     (\<exists>settings. pa_worker_controller a = Durable (url, redis, settings)) \<and>
     pa_budget_ledger a = Durable (url, redis) \<and>
     pa_metering_ledger a = Durable url \<and>
     (\<exists>bundle. pa_model_catalog a = Durable (url, bundle)) \<and>
     (\<exists>settings. pa_provider_health_store a = Durable (url, redis, settings)) \<and>
     (case pa_webhook_guard a of
        In_memory_guard _ \<Rightarrow> False | Durable_guard _ \<Rightarrow> \<not> shadow | Shadow_guard _ _ \<Rightarrow> shadow)"

definition in_memory :: "str \<Rightarrow> PersistenceAdapters \<Rightarrow> bool" where
  "in_memory secret a \<longleftrightarrow>
     pa_run_repository a = In_memory () \<and> pa_control_plane_store a = In_memory () \<and>
     pa_handler_registry a = In_memory [] \<and> pa_worker_controller a = In_memory () \<and>
     pa_budget_ledger a = In_memory () \<and> pa_metering_ledger a = In_memory () \<and>
     (\<exists>catalog. pa_model_catalog a = In_memory catalog) \<and> pa_provider_health_store a = In_memory () \<and>
     pa_webhook_guard a = In_memory_guard (new_memory_guard secret 300 3)"

lemma build_adapter_Postgres [simp]:
  "build_adapter legacy_error setting Postgres legacy (Some url) needs_redis redis_ready constructed = Inr a \<longleftrightarrow>
     url \<noteq> [] \<and> (needs_redis \<longrightarrow> redis_ready) \<and> constructed = Inr a"
  by (simp add: build_adapter_def)

lemma construct_Inr [simp]:
  "construct os url redis x = Inr a \<longleftrightarrow> ou_create_engine os url = Inr () \<and>
     (case redis of None \<Rightarrow> True | Some r \<Rightarrow> ou_redis_from_url os (re_url r) = Inr ()) \<and> a = x"
  by (auto simp: construct_def bind_result_Inr_iff split: option.splits)

lemma build_store_Postgres [simp]:
  "build_store (Inr Postgres) (Some url) None f legacy_error = Inr a \<longleftrightarrow> url \<noteq> [] \<and> a = f url"
  by (auto simp: build_store_def)

lemma broadcaster_Postgres [simp]:
  "snapshot_broadcaster os Postgres redis = Inr b \<longleftrightarrow>
     redis_configured redis \<and> ou_redis_from_url os (re_url redis) = Inr () \<and> b = Some (re_url redis)"
  by (auto simp: snapshot_broadcaster_def bind_result_Inr_iff)

lemma webhook_guard_kind:
  assumes "build_webhook_guard os shared (legacy_webhook_guard s) url redis s = Inr guard" and "wt_mode s \<noteq> ''legacy''"
  shows "case guard of In_memory_guard _ \<Rightarrow> False | Durable_guard g \<Rightarrow> wt_mode s \<noteq> ''shadow'' \<and> g = new_durable_guard os shared s
    | Shadow_guard _ _ \<Rightarrow> wt_mode s = ''shadow''"
  using assms by (auto simp: build_webhook_guard_def bind_result_Inr_iff split: if_splits option.splits)

lemma configured_durable:
  assumes "build_configured os shared env database redis encryption Postgres url s = Inr a"
    and "fst (st_control_plane s) = Postgres" "ws_mode (st_worker s) = Postgres" "st_budget s = Postgres"
      "st_metering s = Postgres" "mc_mode (st_catalog s) = Postgres" "fst (st_health s) = Postgres"
    and "wt_mode (st_webhook s) \<noteq> ''legacy''"
  shows "redis_configured redis \<and> durable url (re_url redis) (wt_mode (st_webhook s) = ''shadow'') a \<and>
    pa_database a = database \<and> pa_redis a = redis \<and> pa_encryption a = encryption \<and>
    (\<forall>g. pa_webhook_guard a = Durable_guard g \<longrightarrow> g = new_durable_guard os shared (st_webhook s))"
proof -
  from assms(1)[unfolded build_configured_def Let_def bind_result_Inr_iff] assms(2-7)
  obtain guard where guard: "build_webhook_guard os shared (legacy_webhook_guard (st_webhook s)) url redis (st_webhook s) = Inr guard"
    and a: "redis_configured redis" "pa_run_repository a = Durable (url, build_checkpoint_saver_handle env url)"
      "pa_control_plane_store a = Durable (url, Some (re_url redis))"
      "pa_handler_registry a = Durable (url, Some (re_url redis), snd (st_control_plane s))"
      "pa_worker_controller a = Durable (url, re_url redis, st_worker s)" "pa_budget_ledger a = Durable (url, re_url redis)"
      "pa_metering_ledger a = Durable url" "pa_model_catalog a = Durable (url, mc_bundle_path (st_catalog s))"
      "pa_provider_health_store a = Durable (url, re_url redis, snd (st_health s))" "pa_webhook_guard a = guard"
      "pa_database a = database" "pa_redis a = redis" "pa_encryption a = encryption"
    by (auto simp: build_run_repository_def build_worker_controller_def build_budget_ledger_def
      build_metering_ledger_def build_model_catalog_def build_provider_health_store_def
      eq_commute[of "Inr _" "construct _ _ _ _"])
  from webhook_guard_kind[OF guard assms(8)] show ?thesis
    by (auto simp: durable_def a split: webhook_adapter.splits)
qed

lemma webhook_settings_Inr:
  "webhook_settings os env = Inr w \<Longrightarrow>
     wt_mode w = getenv env ''BACKEND_WEBHOOK_GUARD_MODE'' ''legacy'' \<and>
     wt_secret w = first_env env [''BACKEND_WEBHOOK_SHARED_SECRET'', ''BACKEND_WEBHOOK_SECRET''] [] \<and> wt_ip_allowlist w = []"
  by (auto simp: webhook_settings_def Let_def split: if_splits)

lemma settings_from_env_Inr:
  assumes "settings_from_env os env = Inr s"
  shows "webhook_settings os env = Inr (st_webhook s)" and "model_catalog_settings env = Inr (st_catalog s)"
  using assms by (auto simp: settings_from_env_def)

lemma air_gapped_settings:
  assumes "model_catalog_settings env = Inr c" and "dict_get env ''BACKEND_DEPLOYMENT_PROFILE'' = Some ''air_gapped''"
  shows "vendor_keys_absent env = Inr ()"
  using assms by (auto simp: model_catalog_settings_def deployment_profile_from_env_def getenv_def dict_getd_def Let_def)

lemma no_redis_no_adapters:
  "\<not> redis_configured redis \<Longrightarrow>
     build_configured os shared env database redis encryption run_mode url (with_database s) \<noteq> Inr a"
  by (auto simp: build_configured_def with_database_def Let_def)

lemma cipher_ready: "validate_encryption_configured c = Inr () \<longleftrightarrow> ec_configured c"
  by (simp add: validate_encryption_configured_def)

lemma in_memory_wiring:
  assumes "build_in_memory_persistence os env = Inr a" and "cipher_from_env (ou_int os) env = Inr c"
  shows "pa_encryption a = c \<and> (\<exists>secret. secret \<noteq> [] \<and> in_memory secret a)"
  using assms
  by (auto simp: build_in_memory_persistence_def require_webhook_secret_def validate_secret_def in_memory_def Let_def split: if_splits)

lemma configured_wiring:
  assumes "build_persistence_adapters os shared env = Inr a" and "database_configured (database_from_env env)"
  obtains url s c where "settings_from_env os env = Inr s" "cipher_from_env (ou_int os) env = Inr c" "ec_configured c"
    "make_sync_database_url os (db_url (database_from_env env)) = Inr url" "redis_configured (redis_from_env env)"
    "build_configured os shared env (database_from_env env) (redis_from_env env) c Postgres url (with_redis (with_database s)) = Inr a"
  using assms
  by (cases "redis_configured (redis_from_env env)")
    (auto simp: build_persistence_adapters_def cipher_ready no_redis_no_adapters Let_def)

lemma configured_wiring_durable:
  assumes "build_persistence_adapters os shared env = Inr a" and "database_configured (database_from_env env)"
  obtains url s c where "settings_from_env os env = Inr s" "ec_configured c" "pa_encryption a = c"
    "make_sync_database_url os (db_url (database_from_env env)) = Inr url" "redis_configured (redis_from_env env)"
    "durable url (re_url (redis_from_env env)) (wt_mode (st_webhook s) = ''shadow'') a"
    "\<forall>g. pa_webhook_guard a = Durable_guard g \<longrightarrow> g = new_durable_guard os shared (st_webhook s)"
proof -
  from configured_wiring[OF assms] obtain url s c where w: "settings_from_env os env = Inr s" "ec_configured c"
    "make_sync_database_url os (db_url (database_from_env env)) = Inr url" "redis_configured (redis_from_env env)"
    and b: "build_configured os shared env (database_from_env env) (redis_from_env env) c Postgres url
      (with_redis (with_database s)) = Inr a" by metis
  let ?w = "st_webhook (with_redis (with_database s))"
  have "wt_mode ?w = ''shadow'' \<longleftrightarrow> wt_mode (st_webhook s) = ''shadow''"
    and "new_durable_guard os shared ?w = new_durable_guard os shared (st_webhook s)"
    by (simp_all add: with_redis_def with_database_def new_durable_guard_def)
  moreover have "wt_mode ?w \<noteq> ''legacy''" by (simp add: with_redis_def with_database_def)
  note configured_durable[OF b _ _ _ _ _ _ this]
  ultimately show thesis
    using w by (intro that[of s c url]) (auto simp: with_redis_def with_database_def)
qed


text \<open>A process with both URLs and an encryption key, and nothing else.\<close>

definition sample_outside :: "str Outside" where
  "sample_outside = \<lparr>ou_int = (\<lambda>s. Inr (int (nat_of_str s))), ou_float = (\<lambda>_. Inr 5), ou_make_url = Inr,
     ou_drivername = (\<lambda>_. ''postgresql''), ou_with_drivername = (\<lambda>_ u. u), ou_create_engine = (\<lambda>_. Inr ()),
     ou_redis_from_url = (\<lambda>_. Inr ()), ou_graph_store = True, ou_rotations = Inr [], ou_wall = 0\<rparr>"

definition sample_shared :: WebhookGuard where
  "sample_shared = \<lparr>gd_secret = [], gd_previous_secret = None, gd_rotation_overlap_until = None,
     gd_freshness_window_seconds = 300, gd_per_minute_limit = 3, gd_per_ticket_flood_limit = 20, gd_ip_allowlist = [],
     gd_bypass = True, gd_redis_up = True, gd_deliveries = [], gd_rejections = [], gd_cache = [], gd_flood_windows = [],
     gd_request_windows = []\<rparr>"

definition sample_environ :: environ where
  "sample_environ = [(''BACKEND_DATABASE_URL'', ''postgresql://db''), (''BACKEND_REDIS_URL'', ''redis://cache''),
     (''BACKEND_ENCRYPTION_ACTIVE_KEY_ID'', ''kek-1''), (''BACKEND_ENCRYPTION_ACTIVE_WRAPPING_KEY'', ''key'')]"

text \<open>Whether the factory returns, by computation.\<close>

definition returns :: "'a result \<Rightarrow> bool" where
  "returns r = (case r of Inl _ \<Rightarrow> False | Inr _ \<Rightarrow> True)"

lemma sample_returns:
  obtains a where "build_persistence_adapters sample_outside sample_shared sample_environ = Inr a"
proof -
  have "returns (build_persistence_adapters sample_outside sample_shared sample_environ)" by code_simp
  then show thesis using that by (auto simp: returns_def split: sum.splits)
qed


section \<open>The forgotten secret\<close>

text \<open>The README lists the webhook secret among the variables without which the process exits. Only the
  in-memory branch asks for it: with a database and Redis the guard is built over the empty secret, and
  whoever signs with the empty key is accepted.\<close>

theorem unset_secret_accepts_forgeries:
  assumes "build_persistence_adapters os shared env = Inr a" and "database_configured (database_from_env env)"
    and "first_env env [''BACKEND_WEBHOOK_SHARED_SECRET'', ''BACKEND_WEBHOOK_SECRET''] [] = []"
    and "pa_webhook_guard a = Durable_guard g"
    and "wr_signature request = ''sha256='' @ cr_hmac cr [] (signed_payload (wr_body request) (wr_timestamp request))"
    and "now - wr_timestamp request \<le> gd_freshness_window_seconds g"
    and "\<not> fst (check_ticket_flood request now g)" and "\<not> fst (rate_limited request now g)"
    and "verify_webhook cr wall request now g = (Inr result, g')"
  shows "wg_accepted result"
proof -
  from configured_wiring_durable[OF assms(1,2)] assms(4) obtain s where "settings_from_env os env = Inr s"
      and g: "g = new_durable_guard os shared (st_webhook s)" by metis
  from webhook_settings_Inr[OF settings_from_env_Inr(1)[OF this(1)]] assms(3)
  have "wt_secret (st_webhook s) = []" "wt_ip_allowlist (st_webhook s) = []" by simp_all
  then have "gd_secret g = []" "gd_ip_allowlist g = []"
    by (simp_all add: g new_durable_guard_def with_rotation_def split: option.splits)
  then have "authentic cr wall request g" "ip_permitted cr request g"
    using assms(5) by (simp_all add: authentic_def ip_permitted_def normalise_signature_def startswith_def removeprefix_def Let_def)
  with assms(6-9) show ?thesis
    by (cases rule: verify_cases[of cr wall request now g]) (auto dest: record_delivery_accepts)
qed

definition toy_crypto :: crypto where
  "toy_crypto = \<lparr>cr_hmac = (\<lambda>key text. key @ text), cr_sha256 = (\<lambda>s. s), cr_ip_in = (\<lambda>_ _. False)\<rparr>"

definition forged_request :: WebhookRequest where
  "forged_request = \<lparr>wr_body = ''{}'', wr_signature = ''sha256='' @ ''0.{}'', wr_timestamp = 0, wr_event_id = ''e'',
     wr_tenant_id = ''t'', wr_team_id = ''m'', wr_remote_addr = ''1.2.3.4'', wr_source = ''jira'', wr_endpoint = ''/'',
     wr_ticket_key = ''T-1''\<rparr>"

definition forgery_accepted :: bool where
  "forgery_accepted =
     (case build_persistence_adapters sample_outside sample_shared sample_environ of
        Inl _ \<Rightarrow> False
      | Inr a \<Rightarrow> (case pa_webhook_guard a of
            Durable_guard g \<Rightarrow> (case fst (verify_webhook toy_crypto 0 forged_request 0 g) of
                Inl _ \<Rightarrow> False | Inr result \<Rightarrow> wg_accepted result)
          | _ \<Rightarrow> False))"

theorem a_forgery_is_accepted: forgery_accepted
  by code_simp

text \<open>Without a database the same environment ends the process.\<close>

theorem in_memory_asks_for_the_secret:
  assumes "\<not> database_configured (database_from_env env)"
    and "first_env env [''BACKEND_WEBHOOK_SHARED_SECRET'', ''BACKEND_WEBHOOK_SECRET''] [] = []"
  shows "build_persistence_adapters os shared env \<noteq> Inr a"
  using assms webhook_settings_Inr[of os env]
  by (auto simp: build_persistence_adapters_def build_in_memory_persistence_def require_webhook_secret_def validate_secret_def Let_def)

section \<open>What the settings leave out\<close>

text \<open>A database without Redis never starts, though each store alone could.\<close>

theorem database_needs_redis:
  assumes "database_configured (database_from_env env)" and "\<not> redis_configured (redis_from_env env)"
  shows "build_persistence_adapters os shared env \<noteq> Inr a"
  using assms by (auto simp: build_persistence_adapters_def no_redis_no_adapters Let_def)

text \<open>No variable sets the address allowlist of a guard that the factory builds.\<close>

theorem allowlist_always_empty:
  assumes "build_persistence_adapters os shared env = Inr a" and "pa_webhook_guard a = Durable_guard g"
    and "database_configured (database_from_env env)"
  shows "gd_ip_allowlist g = []"
proof -
  from configured_wiring_durable[OF assms(1,3)] assms(2) obtain s where "settings_from_env os env = Inr s"
      and g: "g = new_durable_guard os shared (st_webhook s)" by metis
  from webhook_settings_Inr[OF settings_from_env_Inr(1)[OF this(1)]] have "wt_ip_allowlist (st_webhook s) = []" by simp
  then show ?thesis by (simp add: g new_durable_guard_def with_rotation_def split: option.splits)
qed

section \<open>URLs and defaults\<close>

text \<open>A URL is made synchronous once: with a parser that reads back what it rendered, nothing changes
  the second time.\<close>

lemma sync_url_idempotent:
  assumes "make_sync_database_url os url = Inr url'"
    and "\<And>u. ou_make_url os (ou_with_drivername os ''postgresql+psycopg'' u) = Inr (parsed u) \<and>
      ou_drivername os (parsed u) = ''postgresql+psycopg'' \<and>
      ou_with_drivername os ''postgresql+psycopg'' (parsed u) = ou_with_drivername os ''postgresql+psycopg'' u"
  shows "make_sync_database_url os url' = Inr url'"
  using assms by (auto simp: make_sync_database_url_def split: if_splits)

text \<open>Every fallback that the default catalog allows is a model of the same profile, and every role has a
  token policy.\<close>

theorem default_catalog_closed:
  assumes "e \<in> set default_model_catalog_entries" and "m \<in> set (me_allowed_fallback_targets e)"
  shows "validate_fallback (in_memory_catalog default_model_catalog_entries default_role_token_policies)
      (me_model_id e) m (me_deployment_profile e) = Inr ()"
proof -
  let ?v = "\<lambda>e m. validate_fallback (in_memory_catalog default_model_catalog_entries default_role_token_policies)
      (me_model_id e) m (me_deployment_profile e)"
  have "list_all (\<lambda>e. list_all (\<lambda>m. returns (?v e m)) (me_allowed_fallback_targets e)) default_model_catalog_entries"
    by code_simp
  then have "returns (?v e m)" using assms unfolding list_all_iff by blast
  then show ?thesis by (cases "?v e m") (simp_all add: returns_def)
qed

end
