(* ===== verification/Ddl.thy ===== *)
theory Ddl
  imports Prelude
begin

text \<open>
  The data definition language of the migrations and of \<open>persistence/schema.py\<close>: columns and
  constraints as the code declares them, the statements of \<open>alembic\<close>'s \<open>op\<close> and of \<open>op.execute\<close>,
  and what PostgreSQL does with them. A statement is refused, and with it the transaction of the
  migrations, when a name is taken or missing or when something still depends on what it drops. Names
  the server picks for itself (primary keys, indexes of partitions) are left out.
\<close>

section \<open>Declarations\<close>

datatype sql_type =
    VarChar nat | Text | Integer | BigInteger | Boolean | Numeric nat nat | DateTime | JSONB
  | LargeBinary | Vector nat

text \<open>A default is SQL text, or a string that becomes a literal.\<close>

datatype server_default = SqlText str | Literal str

datatype column_option =
    PrimaryKey | Nullable bool | Unique | ServerDefault server_default | Autoincrement
  | ForeignKey str str

datatype column = Column str sql_type "column_option list"

datatype table_arg =
    Col column
  | UniqueConstraint "str list" "str option"
  | PrimaryKeyConstraint "str list"
  | ForeignKeyConstraint "str list" str "str list"

fun column_name :: "column \<Rightarrow> str" where
  "column_name (Column c ty opts) = c"

fun column_type :: "column \<Rightarrow> sql_type" where
  "column_type (Column c ty opts) = ty"

fun column_options :: "column \<Rightarrow> column_option list" where
  "column_options (Column c ty opts) = opts"

text \<open>A column is nullable unless declared otherwise or part of the primary key.\<close>

definition column_nullable :: "column \<Rightarrow> bool" where
  "column_nullable c \<longleftrightarrow>
     Nullable False \<notin> set (column_options c) \<and> PrimaryKey \<notin> set (column_options c)"

fun default_of :: "column_option list \<Rightarrow> server_default option" where
  "default_of [] = None"
| "default_of (ServerDefault d # opts) = Some d"
| "default_of (opt # opts) = default_of opts"

definition quoted :: "str \<Rightarrow> str" where
  "quoted s = [CHR 0x27] @ s @ [CHR 0x27]"

definition default_text :: "server_default \<Rightarrow> str" where
  "default_text d = (case d of SqlText s \<Rightarrow> s | Literal s \<Rightarrow> quoted s)"

section \<open>The database\<close>

datatype sql_value = Null | Value str | Evaluated str

text \<open>What a function of the schema \<open>app\<close> does. The two bodies of \<open>tenant_visible\<close> are those of
  migrations 0001 and 0007.\<close>

datatype function_body =
    CurrentSetting str | TenantEquality | TenantWildcard | RaiseException str

type_synonym function_name = "str \<times> str"
type_synonym sql_row = "sql_value list"

record policy =
  po_name :: str
  po_using :: function_name
  po_arguments :: "str list"

record sql_table =
  tb_name :: str
  tb_columns :: "(str \<times> sql_type \<times> bool \<times> str option) list"
  tb_primary_key :: "str list"
  tb_uniques :: "(str option \<times> str list) list"
  tb_foreign_keys :: "(str list \<times> str \<times> str list) list"
  tb_indexes :: "(str \<times> str list) list"
  tb_partition_of :: "str option"
  tb_row_security :: bool
  tb_force_row_security :: bool
  tb_policies :: "policy list"
  tb_triggers :: "(str \<times> function_name) list"
  tb_rows :: "sql_row list"

record database =
  db_available_extensions :: "str list"
  db_extensions :: "str list"
  db_schemas :: "str list"
  db_functions :: "(function_name \<times> function_body) list"
  db_tables :: "sql_table list"

definition find_table :: "str \<Rightarrow> database \<Rightarrow> sql_table option" where
  "find_table n d = find (\<lambda>t. tb_name t = n) (db_tables d)"

definition column_names :: "sql_table \<Rightarrow> str list" where
  "column_names t = map fst (tb_columns t)"

section \<open>Tables as declared\<close>

definition stored_column :: "column \<Rightarrow> str \<times> sql_type \<times> bool \<times> str option" where
  "stored_column c =
     (column_name c, column_type c, column_nullable c, map_option default_text (default_of (column_options c)))"

definition arg_columns :: "table_arg list \<Rightarrow> column list" where
  "arg_columns args = concat (map (\<lambda>a. case a of Col c \<Rightarrow> [c] | _ \<Rightarrow> []) args)"

definition underscored :: "str list \<Rightarrow> str" where
  "underscored xs = (case xs of [] \<Rightarrow> [] | x # ys \<Rightarrow> x @ concat (map (\<lambda>y. ''_'' @ y) ys))"

text \<open>\<open>NAMING_CONVENTION\<close> names a unique column; it reaches the migrations through the target metadata.\<close>

definition uq_convention :: "str \<Rightarrow> str list \<Rightarrow> str" where
  "uq_convention table_name columns = ''uq_'' @ table_name @ ''_'' @ underscored columns"

definition table_of :: "str \<Rightarrow> table_arg list \<Rightarrow> sql_table" where
  "table_of n args =
     (let columns = arg_columns args;
          marked = map column_name (filter (\<lambda>c. PrimaryKey \<in> set (column_options c)) columns);
          named = concat (map (\<lambda>a. case a of PrimaryKeyConstraint cs \<Rightarrow> cs | _ \<Rightarrow> []) args)
      in \<lparr>tb_name = n, tb_columns = map stored_column columns, tb_primary_key = marked @ named,
          tb_uniques =
            map (\<lambda>c. (Some (uq_convention n [column_name c]), [column_name c]))
                (filter (\<lambda>c. Unique \<in> set (column_options c)) columns) @
            concat (map (\<lambda>a. case a of UniqueConstraint cs name \<Rightarrow> [(name, cs)] | _ \<Rightarrow> []) args),
          tb_foreign_keys =
            concat (map (\<lambda>c. concat (map (\<lambda>opt. case opt of
                      ForeignKey target key \<Rightarrow> [([column_name c], target, [key])] | _ \<Rightarrow> []) (column_options c))) columns) @
            concat (map (\<lambda>a. case a of ForeignKeyConstraint cs target keys \<Rightarrow> [(cs, target, keys)] | _ \<Rightarrow> []) args),
          tb_indexes = [], tb_partition_of = None, tb_row_security = False, tb_force_row_security = False,
          tb_policies = [], tb_triggers = [], tb_rows = []\<rparr>)"

definition is_key :: "sql_table \<Rightarrow> str list \<Rightarrow> bool" where
  "is_key t cs \<longleftrightarrow> cs \<noteq> [] \<and> (set cs = set (tb_primary_key t) \<or> list_ex (\<lambda>(n, us). set us = set cs) (tb_uniques t))"

section \<open>Statements\<close>

datatype ddl =
    CreateSchema str
  | CreateFunction function_name function_body
  | CreateExtension str
  | CreateTable str "table_arg list"
  | CreatePartition str str
  | CreateIndex str str "str list"
  | CreateIndexHnsw str str str
  | AddColumn str column
  | CreateUnique str str "str list"
  | EnableRls str
  | ForceRls str
  | CreatePolicy str str function_name "str list"
  | CreateTrigger str str function_name
  | Insert str "str list" "sql_value list list"
  | DropSchema str
  | DropFunction function_name
  | DropTable str
  | DropTableIfExists str
  | DropIndex str str
  | DropIndexIfExists str
  | DropColumn str str
  | DropConstraint str str
  | DisableRls str
  | DropPolicy str str
  | DropTrigger str str

definition relation_names :: "database \<Rightarrow> str list" where
  "relation_names d =
     concat (map (\<lambda>t. tb_name t # map fst (tb_indexes t) @
                    concat (map (\<lambda>(n, cs). case n of None \<Rightarrow> [] | Some u \<Rightarrow> [u]) (tb_uniques t))) (db_tables d))"

definition with_table :: "str \<Rightarrow> database \<Rightarrow> (sql_table \<Rightarrow> bool) \<Rightarrow> bool" where
  "with_table n d p \<longleftrightarrow> (case find_table n d of None \<Rightarrow> False | Some t \<Rightarrow> p t)"

text \<open>A unique key counts the rows whose values are all known and not \<open>NULL\<close>.\<close>

definition value_at :: "sql_table \<Rightarrow> sql_row \<Rightarrow> str \<Rightarrow> sql_value" where
  "value_at t r c = (case map_of (zip (column_names t) r) c of None \<Rightarrow> Null | Some v \<Rightarrow> v)"

definition is_value :: "sql_value \<Rightarrow> bool" where
  "is_value v = (case v of Value s \<Rightarrow> True | _ \<Rightarrow> False)"

definition unique_on :: "sql_table \<Rightarrow> str list \<Rightarrow> sql_row list \<Rightarrow> bool" where
  "unique_on t cs rs \<longleftrightarrow>
     distinct (filter (\<lambda>k. list_all is_value k) (map (\<lambda>r. map (value_at t r) cs) rs))"

text \<open>The row an \<open>INSERT\<close> stores: the values given, else the column's default, else \<open>NULL\<close>.\<close>

definition inserted_row :: "sql_table \<Rightarrow> str list \<Rightarrow> sql_value list \<Rightarrow> sql_row" where
  "inserted_row t cs vs =
     map (\<lambda>(c, ty, nullable, dflt).
       case map_of (zip cs vs) c of Some v \<Rightarrow> v
       | None \<Rightarrow> (case dflt of None \<Rightarrow> Null | Some e \<Rightarrow> Evaluated e)) (tb_columns t)"

definition row_complete :: "sql_table \<Rightarrow> sql_row \<Rightarrow> bool" where
  "row_complete t r \<longleftrightarrow>
     list_all (\<lambda>((c, ty, nullable, dflt), v). nullable \<or> v \<noteq> Null) (zip (tb_columns t) r)"

definition added_value :: "column \<Rightarrow> sql_value" where
  "added_value c = (case default_of (column_options c) of None \<Rightarrow> Null | Some e \<Rightarrow> Evaluated (default_text e))"

text \<open>\<open>alter\<close> is the effect of a statement on one table; partitions follow the columns of their parent.\<close>

definition belongs :: "str \<Rightarrow> sql_table \<Rightarrow> bool" where
  "belongs n t \<longleftrightarrow> tb_name t = n \<or> tb_partition_of t = Some n"

definition drop_position :: "str \<Rightarrow> str list \<Rightarrow> 'a list \<Rightarrow> 'a list" where
  "drop_position c names xs = map snd (filter (\<lambda>(n, x). n \<noteq> c) (zip names xs))"

fun alter :: "ddl \<Rightarrow> sql_table \<Rightarrow> sql_table" where
  "alter (CreateIndex n tn cs) t = (if tb_name t = tn then t\<lparr>tb_indexes := tb_indexes t @ [(n, cs)]\<rparr> else t)"
| "alter (CreateIndexHnsw n tn c) t = (if tb_name t = tn then t\<lparr>tb_indexes := tb_indexes t @ [(n, [c])]\<rparr> else t)"
| "alter (AddColumn tn c) t =
     (if belongs tn t
      then t\<lparr>tb_columns := tb_columns t @ [stored_column c], tb_rows := map (\<lambda>r. r @ [added_value c]) (tb_rows t)\<rparr>
      else t)"
| "alter (CreateUnique n tn cs) t = (if tb_name t = tn then t\<lparr>tb_uniques := tb_uniques t @ [(Some n, cs)]\<rparr> else t)"
| "alter (EnableRls tn) t = (if tb_name t = tn then t\<lparr>tb_row_security := True\<rparr> else t)"
| "alter (ForceRls tn) t = (if tb_name t = tn then t\<lparr>tb_force_row_security := True\<rparr> else t)"
| "alter (CreatePolicy n tn f args) t =
     (if tb_name t = tn
      then t\<lparr>tb_policies := tb_policies t @ [\<lparr>po_name = n, po_using = f, po_arguments = args\<rparr>]\<rparr> else t)"
| "alter (CreateTrigger n tn f) t = (if tb_name t = tn then t\<lparr>tb_triggers := tb_triggers t @ [(n, f)]\<rparr> else t)"
| "alter (Insert tn cs vss) t =
     (if tb_name t = tn then t\<lparr>tb_rows := tb_rows t @ map (inserted_row t cs) vss\<rparr> else t)"
| "alter (DropIndex n tn) t =
     (if tb_name t = tn then t\<lparr>tb_indexes := filter (\<lambda>i. fst i \<noteq> n) (tb_indexes t)\<rparr> else t)"
| "alter (DropIndexIfExists n) t = t\<lparr>tb_indexes := filter (\<lambda>i. fst i \<noteq> n) (tb_indexes t)\<rparr>"
| "alter (DropColumn tn c) t =
     (if belongs tn t
      then t\<lparr>tb_columns := filter (\<lambda>k. fst k \<noteq> c) (tb_columns t),
            tb_rows := map (drop_position c (column_names t)) (tb_rows t),
            tb_primary_key := (if c \<in> set (tb_primary_key t) then [] else tb_primary_key t),
            tb_uniques := filter (\<lambda>u. c \<notin> set (snd u)) (tb_uniques t),
            tb_foreign_keys := filter (\<lambda>k. c \<notin> set (fst k)) (tb_foreign_keys t),
            tb_indexes := filter (\<lambda>i. c \<notin> set (snd i)) (tb_indexes t)\<rparr>
      else t)"
| "alter (DropConstraint n tn) t =
     (if tb_name t = tn then t\<lparr>tb_uniques := filter (\<lambda>u. fst u \<noteq> Some n) (tb_uniques t)\<rparr> else t)"
| "alter (DisableRls tn) t = (if tb_name t = tn then t\<lparr>tb_row_security := False\<rparr> else t)"
| "alter (DropPolicy n tn) t =
     (if tb_name t = tn then t\<lparr>tb_policies := filter (\<lambda>p. po_name p \<noteq> n) (tb_policies t)\<rparr> else t)"
| "alter (DropTrigger n tn) t =
     (if tb_name t = tn then t\<lparr>tb_triggers := filter (\<lambda>g. fst g \<noteq> n) (tb_triggers t)\<rparr> else t)"
| "alter op t = t"

section \<open>What PostgreSQL refuses\<close>

definition references_ok :: "database \<Rightarrow> sql_table \<Rightarrow> bool" where
  "references_ok d t \<longleftrightarrow>
     list_all (\<lambda>(cs, target, keys). set cs \<subseteq> set (column_names t) \<and>
       (if target = tb_name t then is_key t keys else with_table target d (\<lambda>u. is_key u keys))) (tb_foreign_keys t)"

definition new_table_ok :: "database \<Rightarrow> sql_table \<Rightarrow> bool" where
  "new_table_ok d t \<longleftrightarrow>
     (let names = tb_name t # concat (map (\<lambda>(n, cs). case n of None \<Rightarrow> [] | Some u \<Rightarrow> [u]) (tb_uniques t))
      in distinct names \<and> list_all (\<lambda>n. n \<notin> set (relation_names d)) names \<and> distinct (column_names t) \<and>
         set (tb_primary_key t) \<subseteq> set (column_names t) \<and>
         list_all (\<lambda>(n, cs). set cs \<subseteq> set (column_names t)) (tb_uniques t) \<and> references_ok d t)"

definition referenced :: "str \<Rightarrow> database \<Rightarrow> bool" where
  "referenced n d \<longleftrightarrow>
     list_ex (\<lambda>t. tb_name t \<noteq> n \<and> list_ex (\<lambda>(cs, target, keys). target = n) (tb_foreign_keys t)) (db_tables d)"

definition function_used :: "function_name \<Rightarrow> database \<Rightarrow> bool" where
  "function_used f d \<longleftrightarrow>
     list_ex (\<lambda>t. list_ex (\<lambda>p. po_using p = f) (tb_policies t) \<or> list_ex (\<lambda>g. snd g = f) (tb_triggers t)) (db_tables d)"

fun applicable :: "ddl \<Rightarrow> database \<Rightarrow> bool" where
  "applicable (CreateFunction f b) d \<longleftrightarrow> fst f \<in> set (db_schemas d)"
| "applicable (CreateExtension n) d \<longleftrightarrow> n \<in> set (db_available_extensions d)"
| "applicable (CreateTable n args) d \<longleftrightarrow> new_table_ok d (table_of n args)"
| "applicable (CreatePartition n parent) d \<longleftrightarrow> n \<notin> set (relation_names d) \<and> find_table parent d \<noteq> None"
| "applicable (CreateIndex n tn cs) d \<longleftrightarrow>
     n \<notin> set (relation_names d) \<and> with_table tn d (\<lambda>t. set cs \<subseteq> set (column_names t))"
| "applicable (CreateIndexHnsw n tn c) d \<longleftrightarrow>
     n \<notin> set (relation_names d) \<and> ''vector'' \<in> set (db_extensions d) \<and>
     with_table tn d (\<lambda>t. c \<in> set (column_names t))"
| "applicable (AddColumn tn c) d \<longleftrightarrow>
     with_table tn d (\<lambda>t. column_nullable c \<or> default_of (column_options c) \<noteq> None \<or> tb_rows t = []) \<and>
     list_all (\<lambda>t. belongs tn t \<longrightarrow> column_name c \<notin> set (column_names t)) (db_tables d)"
| "applicable (CreateUnique n tn cs) d \<longleftrightarrow>
     n \<notin> set (relation_names d) \<and>
     with_table tn d (\<lambda>t. set cs \<subseteq> set (column_names t) \<and> unique_on t cs (tb_rows t))"
| "applicable (EnableRls tn) d \<longleftrightarrow> find_table tn d \<noteq> None"
| "applicable (ForceRls tn) d \<longleftrightarrow> find_table tn d \<noteq> None"
| "applicable (CreatePolicy n tn f args) d \<longleftrightarrow>
     f \<in> set (map fst (db_functions d)) \<and>
     with_table tn d (\<lambda>t. n \<notin> set (map po_name (tb_policies t)) \<and> set args \<subseteq> set (column_names t))"
| "applicable (CreateTrigger n tn f) d \<longleftrightarrow>
     f \<in> set (map fst (db_functions d)) \<and> with_table tn d (\<lambda>t. n \<notin> set (map fst (tb_triggers t)))"
| "applicable (Insert tn cs vss) d \<longleftrightarrow>
     with_table tn d (\<lambda>t. set cs \<subseteq> set (column_names t) \<and> list_all (\<lambda>vs. length vs = length cs) vss \<and>
       list_all (row_complete t) (map (inserted_row t cs) vss) \<and>
       list_all (\<lambda>k. unique_on t k (tb_rows t @ map (inserted_row t cs) vss)) (tb_primary_key t # map snd (tb_uniques t)))"
| "applicable (DropSchema s) d \<longleftrightarrow> list_all (\<lambda>f. fst (fst f) \<noteq> s) (db_functions d)"
| "applicable (DropFunction f) d \<longleftrightarrow> \<not> function_used f d"
| "applicable (DropTable n) d \<longleftrightarrow> find_table n d \<noteq> None \<and> \<not> referenced n d"
| "applicable (DropTableIfExists n) d \<longleftrightarrow> \<not> referenced n d"
| "applicable (DropIndex n tn) d \<longleftrightarrow> with_table tn d (\<lambda>t. n \<in> set (map fst (tb_indexes t)))"
| "applicable (DropColumn tn c) d \<longleftrightarrow>
     with_table tn d (\<lambda>t. c \<in> set (column_names t)) \<and>
     list_all (\<lambda>t. list_all (\<lambda>(cs, target, keys). \<not> (target = tn \<and> c \<in> set keys)) (tb_foreign_keys t)) (db_tables d)"
| "applicable (DropConstraint n tn) d \<longleftrightarrow> with_table tn d (\<lambda>t. Some n \<in> set (map fst (tb_uniques t)))"
| "applicable op d \<longleftrightarrow> True"

definition partition_of :: "str \<Rightarrow> sql_table \<Rightarrow> sql_table" where
  "partition_of n t =
     t\<lparr>tb_name := n, tb_partition_of := Some (tb_name t), tb_indexes := [], tb_uniques := [],
       tb_row_security := False, tb_force_row_security := False, tb_policies := [], tb_triggers := [], tb_rows := []\<rparr>"

text \<open>A dropped parent takes its partitions with it.\<close>

fun perform :: "ddl \<Rightarrow> database \<Rightarrow> database" where
  "perform (CreateSchema s) d = d\<lparr>db_schemas := List.insert s (db_schemas d)\<rparr>"
| "perform (CreateFunction f b) d = d\<lparr>db_functions := dict_set f b (db_functions d)\<rparr>"
| "perform (CreateExtension n) d = d\<lparr>db_extensions := List.insert n (db_extensions d)\<rparr>"
| "perform (CreateTable n args) d = d\<lparr>db_tables := db_tables d @ [table_of n args]\<rparr>"
| "perform (CreatePartition n parent) d =
     d\<lparr>db_tables := db_tables d @
        (case find_table parent d of None \<Rightarrow> [] | Some t \<Rightarrow> [partition_of n t])\<rparr>"
| "perform (DropSchema s) d = d\<lparr>db_schemas := filter (\<lambda>x. x \<noteq> s) (db_schemas d)\<rparr>"
| "perform (DropFunction f) d = d\<lparr>db_functions := filter (\<lambda>x. fst x \<noteq> f) (db_functions d)\<rparr>"
| "perform (DropTable n) d = d\<lparr>db_tables := filter (\<lambda>t. \<not> belongs n t) (db_tables d)\<rparr>"
| "perform (DropTableIfExists n) d = d\<lparr>db_tables := filter (\<lambda>t. \<not> belongs n t) (db_tables d)\<rparr>"
| "perform op d = d\<lparr>db_tables := map (alter op) (db_tables d)\<rparr>"

definition ProgrammingError :: exn where
  "ProgrammingError = OtherError ''ProgrammingError''"

definition execute_ddl :: "ddl \<Rightarrow> database \<Rightarrow> database result" where
  "execute_ddl op d = (if applicable op d then Inr (perform op d) else Inl ProgrammingError)"

fun execute_all :: "ddl list \<Rightarrow> database \<Rightarrow> database result" where
  "execute_all [] d = Inr d"
| "execute_all (op # ops) d = bind_result (execute_ddl op d) (execute_all ops)"

end
