(* ===== verification/Migrations.thy ===== *)
theory Migrations
  imports Ddl
begin

text \<open>
  The seventeen revisions under \<open>src/backend/alembic/versions\<close>, statement by statement, and how
  alembic moves a database along their chain. The text of an \<open>op.execute\<close> is the statement it
  denotes; comments and \<open>autoincrement\<close> sequences carry no behaviour here.
\<close>

section \<open>Create baseline persistence tables and tenant-scoping helpers\<close>

definition upgrade_0001 :: "ddl list" where
  "upgrade_0001 =
    [CreateSchema ''app'',
     CreateFunction (''app'', ''current_tenant_id'') (CurrentSetting ''app.tenant_id''),
     CreateFunction (''app'', ''current_team_id'') (CurrentSetting ''app.team_id''),
     CreateFunction (''app'', ''tenant_visible'') TenantEquality,
     CreateTable ''runs''
         [Col (Column ''run_id'' (VarChar 64) [PrimaryKey]),
          Col (Column ''thread_id'' (VarChar 255) [Nullable False, Unique]),
          Col (Column ''tenant_id'' (VarChar 128) [Nullable False]),
          Col (Column ''team_id'' (VarChar 128) [Nullable False]),
          Col (Column ''repo_id'' (VarChar 255) [Nullable False]),
          Col (Column ''ticket_key'' (VarChar 128) [Nullable False]),
          Col (Column ''status'' (VarChar 32) [Nullable False]),
          Col (Column ''current_node'' (VarChar 64) [Nullable False]),
          Col (Column ''paused_at_node'' (VarChar 64) [Nullable True]),
          Col (Column ''escalation_reason'' (VarChar 128) [Nullable True]),
          Col (Column ''escalation_sink'' Text [Nullable True]),
          Col (Column ''config_snapshot_id'' (VarChar 255) [Nullable False]),
          Col (Column ''graph_profile_id'' (VarChar 255) [Nullable False]),
          Col (Column ''catalog_version'' (VarChar 255) [Nullable False]),
          Col (Column ''state_schema_version'' (VarChar 32) [Nullable False, ServerDefault (SqlText (quoted ''1''))]),
          Col (Column ''artifact_hashes'' JSONB [Nullable False, ServerDefault (SqlText (quoted ''{}'' @ ''::jsonb''))]),
          Col (Column ''run_payload'' JSONB [Nullable False, ServerDefault (SqlText (quoted ''{}'' @ ''::jsonb''))]),
          Col (Column ''created_at'' DateTime [Nullable False, ServerDefault (SqlText ''now()'')]),
          Col (Column ''updated_at'' DateTime [Nullable False, ServerDefault (SqlText ''now()'')])],
     CreateIndex ''ix_runs_tenant_team_status'' ''runs'' [''tenant_id'', ''team_id'', ''status''],
     CreateTable ''webhook_idempotency_records''
         [Col (Column ''id'' BigInteger [PrimaryKey, Autoincrement]),
          Col (Column ''source'' (VarChar 64) [Nullable False]),
          Col (Column ''delivery_id'' (VarChar 255) [Nullable False]),
          Col (Column ''tenant_id'' (VarChar 128) [Nullable False]),
          Col (Column ''team_id'' (VarChar 128) [Nullable False]),
          Col (Column ''endpoint'' (VarChar 255) [Nullable False]),
          Col (Column ''hmac_digest'' (VarChar 128) [Nullable False]),
          Col (Column ''disposition_status'' (VarChar 32) [Nullable False]),
          Col (Column ''received_at'' DateTime [Nullable False, ServerDefault (SqlText ''now()'')]),
          UniqueConstraint [''source'', ''delivery_id''] (Some ''uq_webhook_idempotency_source_delivery'')],
     CreateIndex ''ix_webhook_idempotency_tenant_team_received'' ''webhook_idempotency_records'' [''tenant_id'', ''team_id'', ''received_at''],
     EnableRls ''runs'',
     ForceRls ''runs'',
     CreatePolicy ''runs_tenant_scope'' ''runs'' (''app'', ''tenant_visible'') [''tenant_id'', ''team_id''],
     EnableRls ''webhook_idempotency_records'',
     ForceRls ''webhook_idempotency_records'',
     CreatePolicy ''webhook_idempotency_records_tenant_scope'' ''webhook_idempotency_records'' (''app'', ''tenant_visible'') [''tenant_id'', ''team_id'']]"

definition downgrade_0001 :: "ddl list" where
  "downgrade_0001 =
    [DropPolicy ''webhook_idempotency_records_tenant_scope'' ''webhook_idempotency_records'',
     DisableRls ''webhook_idempotency_records'',
     DropPolicy ''runs_tenant_scope'' ''runs'',
     DisableRls ''runs'',
     DropIndex ''ix_webhook_idempotency_tenant_team_received'' ''webhook_idempotency_records'',
     DropTable ''webhook_idempotency_records'',
     DropIndex ''ix_runs_tenant_team_status'' ''runs'',
     DropTable ''runs'',
     DropFunction (''app'', ''tenant_visible''),
     DropFunction (''app'', ''current_team_id''),
     DropFunction (''app'', ''current_tenant_id''),
     DropSchema ''app'']"

section \<open>Add durable control-plane persistence tables\<close>

definition upgrade_0002 :: "ddl list" where
  "upgrade_0002 =
    [CreateTable ''graph_versions''
         [Col (Column ''record_id'' (VarChar 64) [PrimaryKey]),
          Col (Column ''version_number'' Integer [Nullable False]),
          Col (Column ''created_by'' (VarChar 255) [Nullable False]),
          Col (Column ''rationale'' Text [Nullable False]),
          Col (Column ''payload'' JSONB [Nullable False]),
          Col (Column ''created_at'' DateTime [Nullable False, ServerDefault (SqlText ''now()'')]),
          UniqueConstraint [''version_number''] (Some ''uq_graph_versions_version_number'')],
     CreateTable ''agent_versions''
         [Col (Column ''record_id'' (VarChar 64) [PrimaryKey]),
          Col (Column ''version_number'' Integer [Nullable False]),
          Col (Column ''created_by'' (VarChar 255) [Nullable False]),
          Col (Column ''rationale'' Text [Nullable False]),
          Col (Column ''payload'' JSONB [Nullable False]),
          Col (Column ''created_at'' DateTime [Nullable False, ServerDefault (SqlText ''now()'')]),
          UniqueConstraint [''version_number''] (Some ''uq_agent_versions_version_number'')],
     CreateTable ''shadow_reports''
         [Col (Column ''report_id'' (VarChar 64) [PrimaryKey]),
          Col (Column ''candidate_version_id'' (VarChar 64) [Nullable False]),
          Col (Column ''active_version_id'' (VarChar 64) [Nullable True]),
          Col (Column ''success_rate_delta'' (Numeric 8 4) [Nullable False]),
          Col (Column ''cost_delta_usd'' (Numeric 12 4) [Nullable False]),
          Col (Column ''safety_regressions'' JSONB [Nullable False, ServerDefault (SqlText (quoted ''[]'' @ ''::jsonb''))]),
          Col (Column ''blocked'' Boolean [Nullable False]),
          Col (Column ''blocking_reasons'' JSONB [Nullable False, ServerDefault (SqlText (quoted ''[]'' @ ''::jsonb''))]),
          Col (Column ''report_payload'' JSONB [Nullable False]),
          Col (Column ''created_at'' DateTime [Nullable False, ServerDefault (SqlText ''now()'')])],
     CreateTable ''snapshots''
         [Col (Column ''snapshot_id'' (VarChar 64) [PrimaryKey]),
          Col (Column ''graph_version_id'' (VarChar 64) [Nullable False]),
          Col (Column ''agent_version_ids'' JSONB [Nullable False]),
          Col (Column ''shadow_report_id'' (VarChar 64) [Nullable True]),
          Col (Column ''supersedes_snapshot_id'' (VarChar 64) [Nullable True]),
          Col (Column ''created_by'' (VarChar 255) [Nullable False]),
          Col (Column ''evidence_summary'' Text [Nullable False]),
          Col (Column ''created_at'' DateTime [Nullable False, ServerDefault (SqlText ''now()'')]),
          ForeignKeyConstraint [''graph_version_id''] ''graph_versions'' [''record_id''],
          ForeignKeyConstraint [''shadow_report_id''] ''shadow_reports'' [''report_id''],
          ForeignKeyConstraint [''supersedes_snapshot_id''] ''snapshots'' [''snapshot_id'']],
     CreateIndex ''ix_snapshots_graph_version_created'' ''snapshots'' [''graph_version_id'', ''created_at''],
     CreateTable ''control_plane_state''
         [Col (Column ''state_key'' (VarChar 32) [PrimaryKey]),
          Col (Column ''active_snapshot_id'' (VarChar 64) [Nullable True]),
          Col (Column ''revision'' Integer [Nullable False, ServerDefault (SqlText ''0'')]),
          Col (Column ''updated_at'' DateTime [Nullable False, ServerDefault (SqlText ''now()'')]),
          ForeignKeyConstraint [''active_snapshot_id''] ''snapshots'' [''snapshot_id'']],
     Insert ''control_plane_state'' [''state_key'', ''active_snapshot_id'', ''revision'']
         [[Value ''global'', Null, Value ''0'']],
     CreateTable ''run_snapshot_bindings''
         [Col (Column ''run_id'' (VarChar 64) [PrimaryKey]),
          Col (Column ''snapshot_id'' (VarChar 64) [Nullable False]),
          Col (Column ''status'' (VarChar 32) [Nullable False]),
          Col (Column ''created_at'' DateTime [Nullable False, ServerDefault (SqlText ''now()'')]),
          Col (Column ''updated_at'' DateTime [Nullable False, ServerDefault (SqlText ''now()'')]),
          ForeignKeyConstraint [''run_id''] ''runs'' [''run_id''],
          ForeignKeyConstraint [''snapshot_id''] ''snapshots'' [''snapshot_id'']],
     CreateIndex ''ix_run_snapshot_bindings_snapshot_status'' ''run_snapshot_bindings'' [''snapshot_id'', ''status''],
     CreateTable ''audit_events''
         [Col (Column ''event_id'' (VarChar 64) [PrimaryKey]),
          Col (Column ''action'' (VarChar 32) [Nullable False]),
          Col (Column ''actor'' (VarChar 255) [Nullable False]),
          Col (Column ''rationale'' Text [Nullable False]),
          Col (Column ''target_id'' (VarChar 64) [Nullable False]),
          Col (Column ''evidence_summary'' Text [Nullable True]),
          Col (Column ''created_at'' DateTime [Nullable False, ServerDefault (SqlText ''now()'')])],
     CreateIndex ''ix_audit_events_target_created_at'' ''audit_events'' [''target_id'', ''created_at''],
     CreateFunction (''app'', ''reject_audit_event_mutation'') (RaiseException ''audit_events is append-only''),
     CreateTrigger ''audit_events_append_only'' ''audit_events'' (''app'', ''reject_audit_event_mutation'')]"

definition downgrade_0002 :: "ddl list" where
  "downgrade_0002 =
    [DropTrigger ''audit_events_append_only'' ''audit_events'',
     DropFunction (''app'', ''reject_audit_event_mutation''),
     DropIndex ''ix_audit_events_target_created_at'' ''audit_events'',
     DropTable ''audit_events'',
     DropIndex ''ix_run_snapshot_bindings_snapshot_status'' ''run_snapshot_bindings'',
     DropTable ''run_snapshot_bindings'',
     DropTable ''control_plane_state'',
     DropIndex ''ix_snapshots_graph_version_created'' ''snapshots'',
     DropTable ''snapshots'',
     DropTable ''shadow_reports'',
     DropTable ''agent_versions'',
     DropTable ''graph_versions'']"

section \<open>Add durable dead-letter queue storage\<close>

definition upgrade_0003 :: "ddl list" where
  "upgrade_0003 =
    [CreateTable ''dead_letter_records''
         [Col (Column ''id'' BigInteger [PrimaryKey, Autoincrement]),
          Col (Column ''job_id'' (VarChar 64) [Nullable False]),
          Col (Column ''tenant_id'' (VarChar 128) [Nullable False]),
          Col (Column ''team_id'' (VarChar 128) [Nullable False]),
          Col (Column ''run_id'' (VarChar 64) [Nullable False]),
          Col (Column ''queue_name'' (VarChar 255) [Nullable False]),
          Col (Column ''worker_id'' (VarChar 255) [Nullable True]),
          Col (Column ''failure_reason'' Text [Nullable False]),
          Col (Column ''checkpoint_ref'' Text [Nullable True]),
          Col (Column ''created_at'' DateTime [Nullable False, ServerDefault (SqlText ''now()'')])],
     CreateIndex ''ix_dead_letter_records_tenant_team_created_at'' ''dead_letter_records'' [''tenant_id'', ''team_id'', ''created_at'']]"

definition downgrade_0003 :: "ddl list" where
  "downgrade_0003 =
    [DropIndex ''ix_dead_letter_records_tenant_team_created_at'' ''dead_letter_records'',
     DropTable ''dead_letter_records'']"

section \<open>Add durable budget ledger tables\<close>

definition upgrade_0004 :: "ddl list" where
  "upgrade_0004 =
    [CreateTable ''budget_cap_snapshots''
         [Col (Column ''id'' BigInteger [PrimaryKey, Autoincrement]),
          Col (Column ''tenant_id'' (VarChar 128) [Nullable False]),
          Col (Column ''team_id'' (VarChar 128) [Nullable False]),
          Col (Column ''run_id'' (VarChar 64) [Nullable False]),
          Col (Column ''ticket_key'' (VarChar 128) [Nullable False]),
          Col (Column ''role'' (VarChar 64) [Nullable False]),
          Col (Column ''ticket_cap_usd'' (Numeric 14 6) [Nullable False]),
          Col (Column ''daily_team_cap_usd'' (Numeric 14 6) [Nullable False]),
          Col (Column ''monthly_team_cap_usd'' (Numeric 14 6) [Nullable False]),
          Col (Column ''created_at'' DateTime [Nullable False, ServerDefault (SqlText ''now()'')]),
          Col (Column ''updated_at'' DateTime [Nullable False, ServerDefault (SqlText ''now()'')]),
          UniqueConstraint [''run_id''] (Some ''uq_budget_cap_snapshots_run_id'')],
     CreateIndex ''ix_budget_cap_snapshots_tenant_team_updated_at'' ''budget_cap_snapshots'' [''tenant_id'', ''team_id'', ''updated_at''],
     CreateTable ''budget_reservations''
         [Col (Column ''reservation_id'' (VarChar 64) [PrimaryKey]),
          Col (Column ''tenant_id'' (VarChar 128) [Nullable False]),
          Col (Column ''team_id'' (VarChar 128) [Nullable False]),
          Col (Column ''run_id'' (VarChar 64) [Nullable False]),
          Col (Column ''ticket_key'' (VarChar 128) [Nullable False]),
          Col (Column ''role'' (VarChar 64) [Nullable False]),
          Col (Column ''reserved_amount_usd'' (Numeric 14 6) [Nullable False]),
          Col (Column ''ticket_cap_usd'' (Numeric 14 6) [Nullable False]),
          Col (Column ''daily_team_cap_usd'' (Numeric 14 6) [Nullable False]),
          Col (Column ''monthly_team_cap_usd'' (Numeric 14 6) [Nullable False]),
          Col (Column ''ticket_cap_remaining_usd'' (Numeric 14 6) [Nullable False]),
          Col (Column ''daily_team_cap_remaining_usd'' (Numeric 14 6) [Nullable False]),
          Col (Column ''monthly_team_cap_remaining_usd'' (Numeric 14 6) [Nullable False]),
          Col (Column ''status'' (VarChar 32) [Nullable False]),
          Col (Column ''release_reason'' Text [Nullable True]),
          Col (Column ''released_amount_usd'' (Numeric 14 6) [Nullable True]),
          Col (Column ''created_at'' DateTime [Nullable False, ServerDefault (SqlText ''now()'')]),
          Col (Column ''updated_at'' DateTime [Nullable False, ServerDefault (SqlText ''now()'')])],
     CreateIndex ''ix_budget_reservations_tenant_team_created_at'' ''budget_reservations'' [''tenant_id'', ''team_id'', ''created_at''],
     CreateIndex ''ix_budget_reservations_run_id_status'' ''budget_reservations'' [''run_id'', ''status''],
     CreateTable ''budget_charges''
         [Col (Column ''id'' BigInteger [PrimaryKey, Autoincrement]),
          Col (Column ''reservation_id'' (VarChar 64) [Nullable False]),
          Col (Column ''tenant_id'' (VarChar 128) [Nullable False]),
          Col (Column ''team_id'' (VarChar 128) [Nullable False]),
          Col (Column ''run_id'' (VarChar 64) [Nullable False]),
          Col (Column ''estimated_cost_usd'' (Numeric 14 6) [Nullable False]),
          Col (Column ''actual_cost_usd'' (Numeric 14 6) [Nullable False]),
          Col (Column ''refunded_amount_usd'' (Numeric 14 6) [Nullable False]),
          Col (Column ''created_at'' DateTime [Nullable False, ServerDefault (SqlText ''now()'')]),
          ForeignKeyConstraint [''reservation_id''] ''budget_reservations'' [''reservation_id''],
          UniqueConstraint [''reservation_id''] (Some ''uq_budget_charges_reservation_id'')],
     CreateIndex ''ix_budget_charges_tenant_team_created_at'' ''budget_charges'' [''tenant_id'', ''team_id'', ''created_at''],
     CreateTable ''budget_denials''
         [Col (Column ''id'' BigInteger [PrimaryKey, Autoincrement]),
          Col (Column ''tenant_id'' (VarChar 128) [Nullable False]),
          Col (Column ''team_id'' (VarChar 128) [Nullable False]),
          Col (Column ''run_id'' (VarChar 64) [Nullable False]),
          Col (Column ''ticket_key'' (VarChar 128) [Nullable False]),
          Col (Column ''role'' (VarChar 64) [Nullable False]),
          Col (Column ''requested_amount_usd'' (Numeric 14 6) [Nullable False]),
          Col (Column ''ticket_cap_usd'' (Numeric 14 6) [Nullable False]),
          Col (Column ''daily_team_cap_usd'' (Numeric 14 6) [Nullable False]),
          Col (Column ''monthly_team_cap_usd'' (Numeric 14 6) [Nullable False]),
          Col (Column ''denial_reason'' (VarChar 64) [Nullable False]),
          Col (Column ''evidence_summary'' Text [Nullable False]),
          Col (Column ''created_at'' DateTime [Nullable False, ServerDefault (SqlText ''now()'')])],
     CreateIndex ''ix_budget_denials_tenant_team_created_at'' ''budget_denials'' [''tenant_id'', ''team_id'', ''created_at'']]"

definition downgrade_0004 :: "ddl list" where
  "downgrade_0004 =
    [DropIndex ''ix_budget_denials_tenant_team_created_at'' ''budget_denials'',
     DropTable ''budget_denials'',
     DropIndex ''ix_budget_charges_tenant_team_created_at'' ''budget_charges'',
     DropTable ''budget_charges'',
     DropIndex ''ix_budget_reservations_run_id_status'' ''budget_reservations'',
     DropIndex ''ix_budget_reservations_tenant_team_created_at'' ''budget_reservations'',
     DropTable ''budget_reservations'',
     DropIndex ''ix_budget_cap_snapshots_tenant_team_updated_at'' ''budget_cap_snapshots'',
     DropTable ''budget_cap_snapshots'']"

section \<open>Add durable metering facts and hourly rollups\<close>

definition upgrade_0005 :: "ddl list" where
  "upgrade_0005 =
    [CreateTable ''metering_facts''
         [Col (Column ''usage_id'' Text [Nullable False]),
          Col (Column ''tenant_id'' Text [Nullable False]),
          Col (Column ''team_id'' Text [Nullable False]),
          Col (Column ''run_id'' Text [Nullable False]),
          Col (Column ''ticket_key'' Text [Nullable False]),
          Col (Column ''role'' Text [Nullable False]),
          Col (Column ''provider_id'' Text [Nullable False]),
          Col (Column ''model_id'' Text [Nullable False]),
          Col (Column ''deployment_profile'' Text [Nullable False]),
          Col (Column ''fallback_used'' Boolean [Nullable False, ServerDefault (SqlText ''false'')]),
          Col (Column ''input_tokens'' Integer [Nullable False]),
          Col (Column ''output_tokens'' Integer [Nullable False]),
          Col (Column ''cached_tokens'' Integer [Nullable False, ServerDefault (SqlText ''0'')]),
          Col (Column ''latency_ms'' Integer [Nullable False]),
          Col (Column ''request_count'' Integer [Nullable False, ServerDefault (SqlText ''1'')]),
          Col (Column ''reservation_id'' Text []),
          Col (Column ''estimated_cost_usd'' (Numeric 14 6) [Nullable False]),
          Col (Column ''actual_cost_usd'' (Numeric 14 6) [Nullable False]),
          Col (Column ''rate_card_id'' Text [Nullable False]),
          Col (Column ''trace_id'' Text [Nullable False]),
          Col (Column ''span_id'' Text [Nullable False]),
          Col (Column ''started_at'' DateTime [Nullable False]),
          Col (Column ''completed_at'' DateTime [Nullable False]),
          Col (Column ''status'' Text [Nullable False]),
          PrimaryKeyConstraint [''usage_id'', ''completed_at'']],
     CreatePartition ''metering_facts_default'' ''metering_facts'',
     CreateIndex ''ix_metering_facts_default_tenant_team_completed_at'' ''metering_facts_default'' [''tenant_id'', ''team_id'', ''completed_at''],
     CreateIndex ''ix_metering_facts_default_run_id_completed_at'' ''metering_facts_default'' [''run_id'', ''completed_at''],
     CreateTable ''metering_hourly_rollups''
         [Col (Column ''rollup_id'' (VarChar 255) [PrimaryKey]),
          Col (Column ''bucket_start'' DateTime [Nullable False]),
          Col (Column ''tenant_id'' (VarChar 128) [Nullable False]),
          Col (Column ''team_id'' (VarChar 128) [Nullable False]),
          Col (Column ''role'' (VarChar 64) [Nullable False]),
          Col (Column ''provider_id'' (VarChar 128) [Nullable False]),
          Col (Column ''model_id'' (VarChar 255) [Nullable False]),
          Col (Column ''rate_card_id'' (VarChar 255) [Nullable False]),
          Col (Column ''request_count'' Integer [Nullable False]),
          Col (Column ''total_input_tokens'' Integer [Nullable False]),
          Col (Column ''total_output_tokens'' Integer [Nullable False]),
          Col (Column ''total_actual_cost_usd'' (Numeric 14 6) [Nullable False]),
          Col (Column ''usage_ids'' JSONB [Nullable False, ServerDefault (SqlText (quoted ''[]'' @ ''::jsonb''))]),
          Col (Column ''sealed'' Boolean [Nullable False, ServerDefault (SqlText ''false'')]),
          Col (Column ''created_at'' DateTime [Nullable False, ServerDefault (SqlText ''now()'')]),
          Col (Column ''updated_at'' DateTime [Nullable False, ServerDefault (SqlText ''now()'')])],
     CreateIndex ''ix_metering_hourly_rollups_tenant_team_bucket_start'' ''metering_hourly_rollups'' [''tenant_id'', ''team_id'', ''bucket_start'']]"

definition downgrade_0005 :: "ddl list" where
  "downgrade_0005 =
    [DropIndex ''ix_metering_hourly_rollups_tenant_team_bucket_start'' ''metering_hourly_rollups'',
     DropTable ''metering_hourly_rollups'',
     DropIndexIfExists ''ix_metering_facts_default_run_id_completed_at'',
     DropIndexIfExists ''ix_metering_facts_default_tenant_team_completed_at'',
     DropTableIfExists ''metering_facts_default'',
     DropTableIfExists ''metering_facts'']"

section \<open>Add model catalog, provider health audit, and broaden tenant RLS coverage\<close>

definition upgrade_0006 :: "ddl list" where
  "upgrade_0006 =
    [CreateTable ''model_catalog_entries''
         [Col (Column ''model_id'' (VarChar 255) [Nullable False]),
          Col (Column ''provider_id'' (VarChar 128) [Nullable False]),
          Col (Column ''deployment_profile'' (VarChar 64) [Nullable False]),
          Col (Column ''max_input_tokens'' Integer [Nullable False]),
          Col (Column ''max_output_tokens'' Integer [Nullable False]),
          Col (Column ''default_price_card_id'' (VarChar 255) [Nullable False]),
          Col (Column ''supports_tools'' Boolean [Nullable False, ServerDefault (SqlText ''false'')]),
          Col (Column ''supports_json_mode'' Boolean [Nullable False, ServerDefault (SqlText ''false'')]),
          Col (Column ''supports_streaming'' Boolean [Nullable False, ServerDefault (SqlText ''false'')]),
          Col (Column ''allowed_fallback_targets'' JSONB [Nullable False, ServerDefault (SqlText (quoted ''[]'' @ ''::jsonb''))]),
          Col (Column ''created_at'' DateTime [Nullable False, ServerDefault (SqlText ''now()'')]),
          Col (Column ''updated_at'' DateTime [Nullable False, ServerDefault (SqlText ''now()'')]),
          PrimaryKeyConstraint [''model_id'', ''deployment_profile'']],
     CreateTable ''role_token_policies''
         [Col (Column ''role'' (VarChar 64) [PrimaryKey]),
          Col (Column ''max_input_tokens'' Integer [Nullable False]),
          Col (Column ''max_output_tokens'' Integer [Nullable False]),
          Col (Column ''created_at'' DateTime [Nullable False, ServerDefault (SqlText ''now()'')]),
          Col (Column ''updated_at'' DateTime [Nullable False, ServerDefault (SqlText ''now()'')])],
     CreateTable ''provider_health_events''
         [Col (Column ''id'' BigInteger [PrimaryKey, Autoincrement]),
          Col (Column ''provider_id'' (VarChar 128) [Nullable False]),
          Col (Column ''event_kind'' (VarChar 64) [Nullable False]),
          Col (Column ''state'' (VarChar 32) [Nullable False]),
          Col (Column ''consecutive_failures'' Integer [Nullable False, ServerDefault (SqlText ''0'')]),
          Col (Column ''remaining_probe_attempts'' Integer [Nullable False, ServerDefault (SqlText ''0'')]),
          Col (Column ''evidence_summary'' Text [Nullable False]),
          Col (Column ''created_at'' DateTime [Nullable False, ServerDefault (SqlText ''now()'')])]] @
     concat (map (\<lambda>table_name.
       [EnableRls table_name,
        ForceRls table_name,
        CreatePolicy (table_name @ ''_tenant_scope'') table_name (''app'', ''tenant_visible'') [''tenant_id'', ''team_id'']])
     [''dead_letter_records'',
      ''budget_cap_snapshots'',
      ''budget_reservations'',
      ''budget_charges'',
      ''budget_denials'',
      ''metering_facts'',
      ''metering_facts_default'',
      ''metering_hourly_rollups''])"

definition downgrade_0006 :: "ddl list" where
  "downgrade_0006 =
    concat (map (\<lambda>table_name.
       [DropPolicy (table_name @ ''_tenant_scope'') table_name,
        DisableRls table_name])
     [''metering_hourly_rollups'',
      ''metering_facts_default'',
      ''metering_facts'',
      ''budget_denials'',
      ''budget_charges'',
      ''budget_reservations'',
      ''budget_cap_snapshots'',
      ''dead_letter_records'']) @
     [DropTable ''provider_health_events'',
     DropTable ''role_token_policies'',
     DropTable ''model_catalog_entries'']"

section \<open>Allow admin-scoped tenant GUC wildcards for tenant-partitioned tables\<close>

definition upgrade_0007 :: "ddl list" where
  "upgrade_0007 =
    [CreateFunction (''app'', ''tenant_visible'') TenantWildcard]"

definition downgrade_0007 :: "ddl list" where
  "downgrade_0007 =
    [CreateFunction (''app'', ''tenant_visible'') TenantEquality]"

section \<open>Add GitHub App and PAT integration tables\<close>

definition upgrade_0008 :: "ddl list" where
  "upgrade_0008 =
    [CreateTable ''github_app_installations''
         [Col (Column ''installation_id'' (VarChar 64) [PrimaryKey]),
          Col (Column ''tenant_id'' (VarChar 128) [Nullable False]),
          Col (Column ''team_id'' (VarChar 128) [Nullable False]),
          Col (Column ''account_login'' (VarChar 255) [Nullable False]),
          Col (Column ''github_installation_id'' BigInteger [Nullable False]),
          Col (Column ''permissions_hash'' (VarChar 128) [Nullable False]),
          Col (Column ''github_base_url'' (VarChar 512) [Nullable False, ServerDefault (Literal ''https://api.github.com'')]),
          Col (Column ''drift_acknowledged'' Boolean [Nullable False, ServerDefault (SqlText ''true'')]),
          Col (Column ''granted_at'' DateTime [Nullable False, ServerDefault (SqlText ''now()'')]),
          Col (Column ''revoked_at'' DateTime [Nullable True]),
          Col (Column ''created_at'' DateTime [Nullable False, ServerDefault (SqlText ''now()'')]),
          Col (Column ''updated_at'' DateTime [Nullable False, ServerDefault (SqlText ''now()'')]),
          UniqueConstraint [''tenant_id'', ''team_id''] (Some ''uq_github_app_installations_tenant_team'')],
     CreateTable ''github_integration_credentials''
         [Col (Column ''credential_id'' (VarChar 64) [PrimaryKey]),
          Col (Column ''tenant_id'' (VarChar 128) [Nullable False]),
          Col (Column ''team_id'' (VarChar 128) [Nullable False]),
          Col (Column ''credential_type'' (VarChar 32) [Nullable False]),
          Col (Column ''encrypted_payload'' Text [Nullable False]),
          Col (Column ''kek_id'' (VarChar 255) [Nullable False]),
          Col (Column ''rotated_at'' DateTime [Nullable False, ServerDefault (SqlText ''now()'')]),
          Col (Column ''rotation_window_days'' Integer [Nullable False, ServerDefault (SqlText ''90'')]),
          Col (Column ''created_at'' DateTime [Nullable False, ServerDefault (SqlText ''now()'')]),
          Col (Column ''updated_at'' DateTime [Nullable False, ServerDefault (SqlText ''now()'')]),
          UniqueConstraint [''tenant_id'', ''team_id'', ''credential_type''] (Some ''uq_github_integration_credentials_tenant_team_type'')],
     CreateTable ''pat_opt_ins''
         [Col (Column ''opt_in_id'' (VarChar 64) [PrimaryKey]),
          Col (Column ''tenant_id'' (VarChar 128) [Nullable False]),
          Col (Column ''approver_actor'' (VarChar 255) [Nullable False]),
          Col (Column ''team_id'' (VarChar 128) [Nullable False]),
          Col (Column ''rationale'' Text [Nullable False]),
          Col (Column ''allowed_scopes'' JSONB [Nullable False, ServerDefault (SqlText (quoted ''[]'' @ ''::jsonb''))]),
          Col (Column ''expires_at'' DateTime [Nullable False]),
          Col (Column ''revoked_at'' DateTime [Nullable True]),
          Col (Column ''created_at'' DateTime [Nullable False, ServerDefault (SqlText ''now()'')])],
     CreateTable ''branch_protection_verifications''
         [Col (Column ''verification_id'' (VarChar 64) [PrimaryKey]),
          Col (Column ''run_id'' (VarChar 64) [Nullable False]),
          Col (Column ''tenant_id'' (VarChar 128) [Nullable False]),
          Col (Column ''team_id'' (VarChar 128) [Nullable False]),
          Col (Column ''repo_full_name'' (VarChar 512) [Nullable False]),
          Col (Column ''branch'' (VarChar 255) [Nullable False]),
          Col (Column ''shadow_mode'' Boolean [Nullable False, ServerDefault (SqlText ''true'')]),
          Col (Column ''passed'' Boolean [Nullable False]),
          Col (Column ''missing_protections'' JSONB [Nullable False, ServerDefault (SqlText (quoted ''[]'' @ ''::jsonb''))]),
          Col (Column ''evidence_summary'' Text [Nullable False]),
          Col (Column ''verified_at'' DateTime [Nullable False, ServerDefault (SqlText ''now()'')])],
     CreateIndex ''ix_github_app_installations_tenant_team'' ''github_app_installations'' [''tenant_id'', ''team_id''],
     CreateIndex ''ix_github_integration_credentials_tenant_team'' ''github_integration_credentials'' [''tenant_id'', ''team_id''],
     CreateIndex ''ix_pat_opt_ins_tenant_team'' ''pat_opt_ins'' [''tenant_id'', ''team_id''],
     CreateIndex ''ix_branch_protection_verifications_run_id'' ''branch_protection_verifications'' [''run_id'']]"

definition downgrade_0008 :: "ddl list" where
  "downgrade_0008 =
    [DropIndex ''ix_branch_protection_verifications_run_id'' ''branch_protection_verifications'',
     DropIndex ''ix_pat_opt_ins_tenant_team'' ''pat_opt_ins'',
     DropIndex ''ix_github_integration_credentials_tenant_team'' ''github_integration_credentials'',
     DropIndex ''ix_github_app_installations_tenant_team'' ''github_app_installations'',
     DropTable ''branch_protection_verifications'',
     DropTable ''pat_opt_ins'',
     DropTable ''github_integration_credentials'',
     DropTable ''github_app_installations'']"

section \<open>Add optional internal RAG pgvector tables\<close>

definition upgrade_0009 :: "bool \<Rightarrow> ddl list" where
  "upgrade_0009 pgvector_available =
    (let embedding_column =
       (if pgvector_available then Column ''embedding'' (Vector 1536) [Nullable False]
        else Column ''embedding'' JSONB [Nullable False, ServerDefault (SqlText (quoted ''[]'' @ ''::jsonb''))])
     in (if pgvector_available then [CreateExtension ''vector''] else []) @
     [CreateTable ''knowledge_documents''
         [Col (Column ''document_id'' (VarChar 64) [PrimaryKey]),
          Col (Column ''tenant_id'' (VarChar 128) [Nullable False]),
          Col (Column ''team_id'' (VarChar 128) [Nullable False]),
          Col (Column ''repo_id'' (VarChar 255) [Nullable True]),
          Col (Column ''title'' (VarChar 512) [Nullable False]),
          Col (Column ''source_type'' (VarChar 64) [Nullable False]),
          Col (Column ''source_uri'' Text [Nullable False]),
          Col (Column ''source_version'' (VarChar 255) [Nullable True]),
          Col (Column ''content_sha256'' (VarChar 64) [Nullable False]),
          Col (Column ''metadata'' JSONB [Nullable False, ServerDefault (SqlText (quoted ''{}'' @ ''::jsonb''))]),
          Col (Column ''active'' Boolean [Nullable False, ServerDefault (SqlText ''true'')]),
          Col (Column ''created_by'' (VarChar 255) [Nullable False]),
          Col (Column ''created_at'' DateTime [Nullable False, ServerDefault (SqlText ''now()'')]),
          Col (Column ''updated_at'' DateTime [Nullable False, ServerDefault (SqlText ''now()'')]),
          UniqueConstraint [''tenant_id'', ''source_uri'', ''content_sha256''] (Some ''uq_knowledge_documents_source_hash'')],
     CreateTable ''knowledge_ingestion_jobs''
         [Col (Column ''job_id'' (VarChar 64) [PrimaryKey]),
          Col (Column ''tenant_id'' (VarChar 128) [Nullable False]),
          Col (Column ''team_id'' (VarChar 128) [Nullable False]),
          Col (Column ''document_id'' (VarChar 64) [Nullable True]),
          Col (Column ''source_uri'' Text [Nullable False]),
          Col (Column ''status'' (VarChar 32) [Nullable False]),
          Col (Column ''embedding_model'' (VarChar 255) [Nullable False]),
          Col (Column ''embedding_dims'' Integer [Nullable False, ServerDefault (SqlText ''1536'')]),
          Col (Column ''total_chunks'' Integer [Nullable False, ServerDefault (SqlText ''0'')]),
          Col (Column ''processed_chunks'' Integer [Nullable False, ServerDefault (SqlText ''0'')]),
          Col (Column ''error_message'' Text [Nullable True]),
          Col (Column ''created_by'' (VarChar 255) [Nullable False]),
          Col (Column ''created_at'' DateTime [Nullable False, ServerDefault (SqlText ''now()'')]),
          Col (Column ''started_at'' DateTime [Nullable True]),
          Col (Column ''completed_at'' DateTime [Nullable True]),
          ForeignKeyConstraint [''document_id''] ''knowledge_documents'' [''document_id'']],
     CreateTable ''knowledge_chunks''
         [Col (Column ''chunk_id'' (VarChar 64) [PrimaryKey]),
          Col (Column ''tenant_id'' (VarChar 128) [Nullable False]),
          Col (Column ''team_id'' (VarChar 128) [Nullable False]),
          Col (Column ''document_id'' (VarChar 64) [Nullable False, ForeignKey ''knowledge_documents'' ''document_id'']),
          Col (Column ''chunk_index'' Integer [Nullable False]),
          Col (Column ''source_type'' (VarChar 64) [Nullable False]),
          Col (Column ''content'' Text [Nullable False]),
          Col (Column ''content_sha256'' (VarChar 64) [Nullable False]),
          Col (Column ''embedding_model'' (VarChar 255) [Nullable False]),
          Col (Column ''embedding_dims'' Integer [Nullable False, ServerDefault (SqlText ''1536'')]),
          Col embedding_column,
          Col (Column ''metadata'' JSONB [Nullable False, ServerDefault (SqlText (quoted ''{}'' @ ''::jsonb''))]),
          Col (Column ''created_at'' DateTime [Nullable False, ServerDefault (SqlText ''now()'')]),
          UniqueConstraint [''tenant_id'', ''document_id'', ''chunk_index''] None],
     CreateIndex ''ix_knowledge_documents_tenant_team'' ''knowledge_documents'' [''tenant_id'', ''team_id''],
     CreateIndex ''ix_knowledge_documents_repo'' ''knowledge_documents'' [''tenant_id'', ''repo_id''],
     CreateIndex ''ix_knowledge_ingestion_jobs_tenant_status'' ''knowledge_ingestion_jobs'' [''tenant_id'', ''status''],
     CreateIndex ''ix_knowledge_chunks_tenant_document'' ''knowledge_chunks'' [''tenant_id'', ''document_id''],
     CreateIndex ''ix_knowledge_chunks_lookup'' ''knowledge_chunks'' [''tenant_id'', ''embedding_model'', ''source_type'']] @
     (if pgvector_available then [CreateIndexHnsw ''ix_knowledge_chunks_embedding_hnsw'' ''knowledge_chunks'' ''embedding''] else []) @
     concat (map (\<lambda>table_name.
       [EnableRls table_name,
        ForceRls table_name,
        CreatePolicy (table_name @ ''_tenant_scope'') table_name (''app'', ''tenant_visible'') [''tenant_id'', ''team_id'']])
     [''knowledge_documents'',
      ''knowledge_ingestion_jobs'',
      ''knowledge_chunks'']))"

definition downgrade_0009 :: "ddl list" where
  "downgrade_0009 =
    concat (map (\<lambda>table_name.
       [DropPolicy (table_name @ ''_tenant_scope'') table_name,
        DisableRls table_name])
     [''knowledge_chunks'',
      ''knowledge_ingestion_jobs'',
      ''knowledge_documents'']) @
     [DropIndexIfExists ''ix_knowledge_chunks_embedding_hnsw'',
     DropIndex ''ix_knowledge_chunks_lookup'' ''knowledge_chunks'',
     DropIndex ''ix_knowledge_chunks_tenant_document'' ''knowledge_chunks'',
     DropIndex ''ix_knowledge_ingestion_jobs_tenant_status'' ''knowledge_ingestion_jobs'',
     DropIndex ''ix_knowledge_documents_repo'' ''knowledge_documents'',
     DropIndex ''ix_knowledge_documents_tenant_team'' ''knowledge_documents'',
     DropTable ''knowledge_chunks'',
     DropTable ''knowledge_ingestion_jobs'',
     DropTable ''knowledge_documents'']"

section \<open>Add API deprecations catalog\<close>

definition upgrade_0010 :: "ddl list" where
  "upgrade_0010 =
    [CreateTable ''api_deprecations''
         [Col (Column ''deprecation_id'' (VarChar 64) [PrimaryKey]),
          Col (Column ''route'' (VarChar 255) [Nullable False]),
          Col (Column ''method'' (VarChar 16) [Nullable False]),
          Col (Column ''version'' (VarChar 32) [Nullable False]),
          Col (Column ''deprecated_at'' DateTime [Nullable False]),
          Col (Column ''sunset_at'' DateTime [Nullable False]),
          Col (Column ''rationale'' Text [Nullable False]),
          Col (Column ''replacement_route'' (VarChar 255) [Nullable True]),
          Col (Column ''active'' Boolean [Nullable False, ServerDefault (SqlText ''true'')]),
          Col (Column ''created_at'' DateTime [Nullable False, ServerDefault (SqlText ''now()'')]),
          UniqueConstraint [''route'', ''method'', ''version''] (Some ''uq_api_deprecations_route_method_version'')],
     CreateIndex ''ix_api_deprecations_sunset_at'' ''api_deprecations'' [''sunset_at'']]"

definition downgrade_0010 :: "ddl list" where
  "downgrade_0010 =
    [DropIndex ''ix_api_deprecations_sunset_at'' ''api_deprecations'',
     DropTable ''api_deprecations'']"

section \<open>Add admission_exceptions table for supply-chain policy exceptions\<close>

definition upgrade_0011 :: "ddl list" where
  "upgrade_0011 =
    [CreateTable ''admission_exceptions''
         [Col (Column ''exception_id'' (VarChar 64) [PrimaryKey]),
          Col (Column ''tenant_id'' (VarChar 128) [Nullable False]),
          Col (Column ''team_id'' (VarChar 128) [Nullable False]),
          Col (Column ''policy_name'' (VarChar 255) [Nullable False]),
          Col (Column ''image_reference'' (VarChar 512) [Nullable False]),
          Col (Column ''rationale'' Text [Nullable False]),
          Col (Column ''approved_by'' (VarChar 255) [Nullable False]),
          Col (Column ''second_approver'' (VarChar 255) [Nullable False]),
          Col (Column ''expires_at'' DateTime [Nullable False]),
          Col (Column ''revoked_at'' DateTime [Nullable True]),
          Col (Column ''revoked_by'' (VarChar 255) [Nullable True]),
          Col (Column ''revoke_reason'' Text [Nullable True]),
          Col (Column ''metadata'' JSONB [Nullable False, ServerDefault (SqlText (quoted ''{}'' @ ''::jsonb''))]),
          Col (Column ''created_at'' DateTime [Nullable False, ServerDefault (SqlText ''now()'')]),
          Col (Column ''updated_at'' DateTime [Nullable False, ServerDefault (SqlText ''now()'')])],
     CreateIndex ''ix_admission_exceptions_tenant_team'' ''admission_exceptions'' [''tenant_id'', ''team_id''],
     CreateIndex ''ix_admission_exceptions_policy'' ''admission_exceptions'' [''policy_name''],
     CreateIndex ''ix_admission_exceptions_expires_at'' ''admission_exceptions'' [''expires_at'']]"

definition downgrade_0011 :: "ddl list" where
  "downgrade_0011 =
    [DropIndex ''ix_admission_exceptions_expires_at'' ''admission_exceptions'',
     DropIndex ''ix_admission_exceptions_policy'' ''admission_exceptions'',
     DropIndex ''ix_admission_exceptions_tenant_team'' ''admission_exceptions'',
     DropTable ''admission_exceptions'']"

section \<open>Add billing rate-card and reconciliation tables\<close>

definition upgrade_0012 :: "ddl list" where
  "upgrade_0012 =
    [CreateTable ''price_rate_cards''
         [Col (Column ''rate_card_id'' (VarChar 64) [PrimaryKey]),
          Col (Column ''provider'' (VarChar 128) [Nullable False]),
          Col (Column ''model'' (VarChar 255) [Nullable False]),
          Col (Column ''unit'' (VarChar 32) [Nullable False, ServerDefault (Literal ''per_1k_tokens'')]),
          Col (Column ''rate_usd'' (Numeric 14 6) [Nullable False]),
          Col (Column ''effective_from'' DateTime [Nullable False]),
          Col (Column ''effective_to'' DateTime [Nullable True]),
          Col (Column ''version'' Integer [Nullable False, ServerDefault (Literal ''1'')]),
          Col (Column ''status'' (VarChar 32) [Nullable False, ServerDefault (Literal ''draft'')]),
          Col (Column ''created_by'' (VarChar 255) [Nullable False]),
          Col (Column ''activated_by'' (VarChar 255) [Nullable True]),
          Col (Column ''activated_at'' DateTime [Nullable True]),
          Col (Column ''metadata'' JSONB [Nullable False, ServerDefault (SqlText (quoted ''{}'' @ ''::jsonb''))]),
          Col (Column ''created_at'' DateTime [Nullable False, ServerDefault (SqlText ''now()'')]),
          Col (Column ''updated_at'' DateTime [Nullable False, ServerDefault (SqlText ''now()'')])],
     CreateIndex ''ix_price_rate_cards_provider_model'' ''price_rate_cards'' [''provider'', ''model''],
     CreateIndex ''ix_price_rate_cards_effective_from'' ''price_rate_cards'' [''effective_from''],
     CreateIndex ''ix_price_rate_cards_status'' ''price_rate_cards'' [''status''],
     CreateTable ''reconciliation_reports''
         [Col (Column ''report_id'' (VarChar 64) [PrimaryKey]),
          Col (Column ''tenant_id'' (VarChar 128) [Nullable False]),
          Col (Column ''period_start'' DateTime [Nullable False]),
          Col (Column ''period_end'' DateTime [Nullable False]),
          Col (Column ''provider'' (VarChar 128) [Nullable False]),
          Col (Column ''metered_total_usd'' (Numeric 14 6) [Nullable False]),
          Col (Column ''provider_reported_total_usd'' (Numeric 14 6) [Nullable False]),
          Col (Column ''drift_amount_usd'' (Numeric 14 6) [Nullable False]),
          Col (Column ''drift_percentage'' (Numeric 8 4) [Nullable False]),
          Col (Column ''missing_provider_request_ids'' Integer [Nullable False, ServerDefault (Literal ''0'')]),
          Col (Column ''matched_usage_count'' Integer [Nullable False, ServerDefault (Literal ''0'')]),
          Col (Column ''unmatched_usage_count'' Integer [Nullable False, ServerDefault (Literal ''0'')]),
          Col (Column ''mode'' (VarChar 32) [Nullable False, ServerDefault (Literal ''dry_run'')]),
          Col (Column ''usage_ids'' JSONB [Nullable False, ServerDefault (SqlText (quoted ''[]'' @ ''::jsonb''))]),
          Col (Column ''rollup_ids'' JSONB [Nullable False, ServerDefault (SqlText (quoted ''[]'' @ ''::jsonb''))]),
          Col (Column ''created_at'' DateTime [Nullable False, ServerDefault (SqlText ''now()'')])],
     CreateIndex ''ix_reconciliation_reports_tenant_period'' ''reconciliation_reports'' [''tenant_id'', ''period_start'', ''period_end''],
     CreateIndex ''ix_reconciliation_reports_provider'' ''reconciliation_reports'' [''provider''],
     AddColumn ''metering_facts'' (Column ''provider_request_id'' (VarChar 255) [Nullable True]),
     CreateIndex ''ix_metering_facts_provider_request_id'' ''metering_facts'' [''provider_request_id'']]"

definition downgrade_0012 :: "ddl list" where
  "downgrade_0012 =
    [DropIndex ''ix_metering_facts_provider_request_id'' ''metering_facts'',
     DropColumn ''metering_facts'' ''provider_request_id'',
     DropIndex ''ix_reconciliation_reports_provider'' ''reconciliation_reports'',
     DropIndex ''ix_reconciliation_reports_tenant_period'' ''reconciliation_reports'',
     DropTable ''reconciliation_reports'',
     DropIndex ''ix_price_rate_cards_status'' ''price_rate_cards'',
     DropIndex ''ix_price_rate_cards_effective_from'' ''price_rate_cards'',
     DropIndex ''ix_price_rate_cards_provider_model'' ''price_rate_cards'',
     DropTable ''price_rate_cards'']"

section \<open>Add webhook secret rotation, rate-limit rejections, and signature_hash\<close>

definition upgrade_0013 :: "ddl list" where
  "upgrade_0013 =
    [AddColumn ''webhook_idempotency_records'' (Column ''signature_hash'' (VarChar 64) [Nullable True]),
     CreateIndex ''ix_webhook_idempotency_signature_hash'' ''webhook_idempotency_records'' [''signature_hash''],
     CreateUnique ''uq_webhook_idempotency_source_delivery_sighash'' ''webhook_idempotency_records'' [''source'', ''delivery_id'', ''signature_hash''],
     CreateTable ''webhook_secret_rotations''
         [Col (Column ''rotation_id'' (VarChar 64) [PrimaryKey]),
          Col (Column ''tenant_id'' (VarChar 128) [Nullable False]),
          Col (Column ''team_id'' (VarChar 128) [Nullable False]),
          Col (Column ''previous_secret_hash'' (VarChar 128) [Nullable True]),
          Col (Column ''rotation_overlap_until'' DateTime [Nullable True]),
          Col (Column ''rotated_by'' (VarChar 255) [Nullable False]),
          Col (Column ''metadata'' JSONB [Nullable False, ServerDefault (SqlText (quoted ''{}'' @ ''::jsonb''))]),
          Col (Column ''created_at'' DateTime [Nullable False, ServerDefault (SqlText ''now()'')])],
     CreateIndex ''ix_webhook_secret_rotations_tenant_team'' ''webhook_secret_rotations'' [''tenant_id'', ''team_id''],
     CreateTable ''webhook_rate_limit_rejections''
         [Col (Column ''rejection_id'' (VarChar 64) [PrimaryKey]),
          Col (Column ''tenant_id'' (VarChar 128) [Nullable False]),
          Col (Column ''team_id'' (VarChar 128) [Nullable False]),
          Col (Column ''ticket_key'' (VarChar 128) [Nullable False]),
          Col (Column ''source'' (VarChar 64) [Nullable False]),
          Col (Column ''delivery_id'' (VarChar 255) [Nullable False]),
          Col (Column ''remote_addr'' (VarChar 64) [Nullable False]),
          Col (Column ''rejected_at'' DateTime [Nullable False, ServerDefault (SqlText ''now()'')])],
     CreateIndex ''ix_webhook_rate_limit_rejections_tenant_ticket'' ''webhook_rate_limit_rejections'' [''tenant_id'', ''ticket_key''],
     CreateIndex ''ix_webhook_rate_limit_rejections_rejected_at'' ''webhook_rate_limit_rejections'' [''rejected_at'']]"

definition downgrade_0013 :: "ddl list" where
  "downgrade_0013 =
    [DropIndex ''ix_webhook_rate_limit_rejections_rejected_at'' ''webhook_rate_limit_rejections'',
     DropIndex ''ix_webhook_rate_limit_rejections_tenant_ticket'' ''webhook_rate_limit_rejections'',
     DropTable ''webhook_rate_limit_rejections'',
     DropIndex ''ix_webhook_secret_rotations_tenant_team'' ''webhook_secret_rotations'',
     DropTable ''webhook_secret_rotations'',
     DropConstraint ''uq_webhook_idempotency_source_delivery_sighash'' ''webhook_idempotency_records'',
     DropIndex ''ix_webhook_idempotency_signature_hash'' ''webhook_idempotency_records'',
     DropColumn ''webhook_idempotency_records'' ''signature_hash'']"

section \<open>Add credential rotation, break-glass, and KEK version tables\<close>

definition upgrade_0014 :: "ddl list" where
  "upgrade_0014 =
    [CreateTable ''credential_rotation_schedule''
         [Col (Column ''schedule_id'' (VarChar 64) [PrimaryKey]),
          Col (Column ''tenant_id'' (VarChar 128) [Nullable False]),
          Col (Column ''team_id'' (VarChar 128) [Nullable False]),
          Col (Column ''credential_kind'' (VarChar 64) [Nullable False]),
          Col (Column ''credential_id'' (VarChar 255) [Nullable False]),
          Col (Column ''rotated_at'' DateTime [Nullable False]),
          Col (Column ''next_rotation_due'' DateTime [Nullable False]),
          Col (Column ''rotation_sla_days'' Integer [Nullable False, ServerDefault (SqlText ''90'')]),
          Col (Column ''overdue'' Boolean [Nullable False, ServerDefault (SqlText ''false'')]),
          Col (Column ''created_at'' DateTime [Nullable False, ServerDefault (SqlText ''now()'')]),
          Col (Column ''updated_at'' DateTime [Nullable False, ServerDefault (SqlText ''now()'')]),
          UniqueConstraint [''tenant_id'', ''team_id'', ''credential_kind'', ''credential_id''] (Some ''uq_credential_rotation_scope'')],
     CreateIndex ''ix_credential_rotation_schedule_tenant_team'' ''credential_rotation_schedule'' [''tenant_id'', ''team_id''],
     CreateIndex ''ix_credential_rotation_schedule_next_rotation_due'' ''credential_rotation_schedule'' [''next_rotation_due''],
     CreateIndex ''ix_credential_rotation_schedule_overdue'' ''credential_rotation_schedule'' [''overdue''],
     CreateTable ''break_glass_grants''
         [Col (Column ''grant_id'' (VarChar 64) [PrimaryKey]),
          Col (Column ''tenant_id'' (VarChar 128) [Nullable False]),
          Col (Column ''team_id'' (VarChar 128) [Nullable False]),
          Col (Column ''requested_by'' (VarChar 255) [Nullable False]),
          Col (Column ''reason'' Text [Nullable False]),
          Col (Column ''scope'' JSONB [Nullable False, ServerDefault (SqlText (quoted ''{}'' @ ''::jsonb''))]),
          Col (Column ''approved_by_first'' (VarChar 255) [Nullable True]),
          Col (Column ''approved_by_second'' (VarChar 255) [Nullable True]),
          Col (Column ''granted_at'' DateTime [Nullable True]),
          Col (Column ''expires_at'' DateTime [Nullable False]),
          Col (Column ''revoked_at'' DateTime [Nullable True]),
          Col (Column ''revoked_by'' (VarChar 255) [Nullable True]),
          Col (Column ''revoke_reason'' Text [Nullable True]),
          Col (Column ''created_at'' DateTime [Nullable False, ServerDefault (SqlText ''now()'')])],
     CreateIndex ''ix_break_glass_grants_tenant_team'' ''break_glass_grants'' [''tenant_id'', ''team_id''],
     CreateIndex ''ix_break_glass_grants_expires_at'' ''break_glass_grants'' [''expires_at''],
     CreateIndex ''ix_break_glass_grants_granted_at'' ''break_glass_grants'' [''granted_at''],
     CreateTable ''kek_versions''
         [Col (Column ''kek_id'' (VarChar 64) [PrimaryKey]),
          Col (Column ''kms_ref'' (VarChar 512) [Nullable False]),
          Col (Column ''introduced_at'' DateTime [Nullable False]),
          Col (Column ''retired_at'' DateTime [Nullable True]),
          Col (Column ''is_default'' Boolean [Nullable False, ServerDefault (SqlText ''false'')]),
          Col (Column ''introduced_by'' (VarChar 255) [Nullable False]),
          Col (Column ''metadata'' JSONB [Nullable False, ServerDefault (SqlText (quoted ''{}'' @ ''::jsonb''))]),
          Col (Column ''created_at'' DateTime [Nullable False, ServerDefault (SqlText ''now()'')])],
     CreateIndex ''ix_kek_versions_is_default'' ''kek_versions'' [''is_default''],
     CreateIndex ''ix_kek_versions_introduced_at'' ''kek_versions'' [''introduced_at'']]"

definition downgrade_0014 :: "ddl list" where
  "downgrade_0014 =
    [DropIndex ''ix_kek_versions_introduced_at'' ''kek_versions'',
     DropIndex ''ix_kek_versions_is_default'' ''kek_versions'',
     DropTable ''kek_versions'',
     DropIndex ''ix_break_glass_grants_granted_at'' ''break_glass_grants'',
     DropIndex ''ix_break_glass_grants_expires_at'' ''break_glass_grants'',
     DropIndex ''ix_break_glass_grants_tenant_team'' ''break_glass_grants'',
     DropTable ''break_glass_grants'',
     DropIndex ''ix_credential_rotation_schedule_overdue'' ''credential_rotation_schedule'',
     DropIndex ''ix_credential_rotation_schedule_next_rotation_due'' ''credential_rotation_schedule'',
     DropIndex ''ix_credential_rotation_schedule_tenant_team'' ''credential_rotation_schedule'',
     DropTable ''credential_rotation_schedule'']"

section \<open>Add data retention, tenant deletion, and DPA compliance tables\<close>

definition upgrade_0015 :: "ddl list" where
  "upgrade_0015 =
    [CreateTable ''tenant_delete_events''
         [Col (Column ''event_id'' (VarChar 64) [PrimaryKey]),
          Col (Column ''tenant_id'' (VarChar 128) [Nullable False]),
          Col (Column ''requested_by'' (VarChar 255) [Nullable False]),
          Col (Column ''reason'' Text [Nullable False]),
          Col (Column ''approved_by_first'' (VarChar 255) [Nullable True]),
          Col (Column ''approved_by_second'' (VarChar 255) [Nullable True]),
          Col (Column ''approved_at'' DateTime [Nullable True]),
          Col (Column ''status'' (VarChar 32) [Nullable False, ServerDefault (SqlText (quoted ''pending''))]),
          Col (Column ''deletion_counts'' JSONB [Nullable False, ServerDefault (SqlText (quoted ''{}'' @ ''::jsonb''))]),
          Col (Column ''completed_at'' DateTime [Nullable True]),
          Col (Column ''created_at'' DateTime [Nullable False, ServerDefault (SqlText ''now()'')])],
     CreateIndex ''ix_tenant_delete_events_tenant'' ''tenant_delete_events'' [''tenant_id''],
     CreateIndex ''ix_tenant_delete_events_status'' ''tenant_delete_events'' [''status''],
     CreateTable ''dpa_versions''
         [Col (Column ''version'' (VarChar 32) [PrimaryKey]),
          Col (Column ''published_at'' DateTime [Nullable False]),
          Col (Column ''content_hash'' (VarChar 64) [Nullable False]),
          Col (Column ''summary'' Text [Nullable False]),
          Col (Column ''published_by'' (VarChar 255) [Nullable False]),
          Col (Column ''grace_period_days'' Integer [Nullable False, ServerDefault (SqlText ''30'')]),
          Col (Column ''created_at'' DateTime [Nullable False, ServerDefault (SqlText ''now()'')])],
     CreateTable ''dpa_acknowledgements''
         [Col (Column ''ack_id'' (VarChar 64) [PrimaryKey]),
          Col (Column ''tenant_id'' (VarChar 128) [Nullable False]),
          Col (Column ''dpa_version'' (VarChar 32) [Nullable False]),
          Col (Column ''acknowledged_by'' (VarChar 255) [Nullable False]),
          Col (Column ''acknowledged_at'' DateTime [Nullable False, ServerDefault (SqlText ''now()'')]),
          UniqueConstraint [''tenant_id'', ''dpa_version''] (Some ''uq_dpa_ack_tenant_version'')],
     CreateIndex ''ix_dpa_acknowledgements_tenant'' ''dpa_acknowledgements'' [''tenant_id''],
     CreateTable ''retention_policies''
         [Col (Column ''policy_id'' (VarChar 64) [PrimaryKey]),
          Col (Column ''surface'' (VarChar 64) [Nullable False]),
          Col (Column ''tenant_id'' (VarChar 128) [Nullable False]),
          Col (Column ''retention_days'' Integer [Nullable False]),
          Col (Column ''enabled'' Boolean [Nullable False, ServerDefault (SqlText ''true'')]),
          Col (Column ''created_at'' DateTime [Nullable False, ServerDefault (SqlText ''now()'')]),
          Col (Column ''updated_at'' DateTime [Nullable False, ServerDefault (SqlText ''now()'')]),
          UniqueConstraint [''surface'', ''tenant_id''] (Some ''uq_retention_surface_tenant'')],
     CreateIndex ''ix_retention_policies_surface_tenant'' ''retention_policies'' [''surface'', ''tenant_id''],
     CreateTable ''retention_runs''
         [Col (Column ''run_id'' (VarChar 64) [PrimaryKey]),
          Col (Column ''surface'' (VarChar 64) [Nullable False]),
          Col (Column ''tenant_id'' (VarChar 128) [Nullable False]),
          Col (Column ''rows_affected'' Integer [Nullable False, ServerDefault (SqlText ''0'')]),
          Col (Column ''partitions_dropped'' Integer [Nullable False, ServerDefault (SqlText ''0'')]),
          Col (Column ''duration_ms'' Integer [Nullable False, ServerDefault (SqlText ''0'')]),
          Col (Column ''status'' (VarChar 32) [Nullable False, ServerDefault (SqlText (quoted ''success''))]),
          Col (Column ''error_message'' Text [Nullable True]),
          Col (Column ''mode'' (VarChar 32) [Nullable False, ServerDefault (SqlText (quoted ''enforce''))]),
          Col (Column ''started_at'' DateTime [Nullable False, ServerDefault (SqlText ''now()'')]),
          Col (Column ''completed_at'' DateTime [Nullable True])],
     CreateIndex ''ix_retention_runs_surface_tenant'' ''retention_runs'' [''surface'', ''tenant_id''],
     CreateIndex ''ix_retention_runs_started_at'' ''retention_runs'' [''started_at'']]"

definition downgrade_0015 :: "ddl list" where
  "downgrade_0015 =
    [DropIndex ''ix_retention_runs_started_at'' ''retention_runs'',
     DropIndex ''ix_retention_runs_surface_tenant'' ''retention_runs'',
     DropTable ''retention_runs'',
     DropIndex ''ix_retention_policies_surface_tenant'' ''retention_policies'',
     DropTable ''retention_policies'',
     DropIndex ''ix_dpa_acknowledgements_tenant'' ''dpa_acknowledgements'',
     DropTable ''dpa_acknowledgements'',
     DropTable ''dpa_versions'',
     DropIndex ''ix_tenant_delete_events_status'' ''tenant_delete_events'',
     DropIndex ''ix_tenant_delete_events_tenant'' ''tenant_delete_events'',
     DropTable ''tenant_delete_events'']"

section \<open>Add feature flag state mirror and audit tables\<close>

definition upgrade_0016 :: "ddl list" where
  "upgrade_0016 =
    [CreateTable ''feature_flag_state''
         [Col (Column ''flag_key'' (VarChar 128) [PrimaryKey]),
          Col (Column ''enabled'' Boolean [Nullable False, ServerDefault (SqlText ''false'')]),
          Col (Column ''variant'' (VarChar 64) [Nullable True]),
          Col (Column ''targeting_rules'' JSONB [Nullable False, ServerDefault (SqlText (quoted ''{}'' @ ''::jsonb''))]),
          Col (Column ''owner'' (VarChar 128) [Nullable False]),
          Col (Column ''description'' Text [Nullable False]),
          Col (Column ''is_kill_switch'' Boolean [Nullable False, ServerDefault (SqlText ''false'')]),
          Col (Column ''stale_flag_days'' Integer [Nullable False, ServerDefault (SqlText ''90'')]),
          Col (Column ''updated_at'' DateTime [Nullable False, ServerDefault (SqlText ''now()'')]),
          Col (Column ''mirror_synced_at'' DateTime [Nullable False, ServerDefault (SqlText ''now()'')]),
          Col (Column ''created_at'' DateTime [Nullable False, ServerDefault (SqlText ''now()'')])],
     CreateIndex ''ix_feature_flag_state_owner'' ''feature_flag_state'' [''owner''],
     CreateIndex ''ix_feature_flag_state_is_kill_switch'' ''feature_flag_state'' [''is_kill_switch''],
     CreateIndex ''ix_feature_flag_state_mirror_synced_at'' ''feature_flag_state'' [''mirror_synced_at''],
     CreateTable ''feature_flag_audit''
         [Col (Column ''audit_id'' (VarChar 64) [PrimaryKey]),
          Col (Column ''flag_key'' (VarChar 128) [Nullable False]),
          Col (Column ''action'' (VarChar 32) [Nullable False]),
          Col (Column ''previous_value'' JSONB [Nullable True]),
          Col (Column ''new_value'' JSONB [Nullable True]),
          Col (Column ''changed_by'' (VarChar 255) [Nullable False]),
          Col (Column ''reason'' Text [Nullable True]),
          Col (Column ''changed_at'' DateTime [Nullable False, ServerDefault (SqlText ''now()'')])],
     CreateIndex ''ix_feature_flag_audit_flag_key'' ''feature_flag_audit'' [''flag_key''],
     CreateIndex ''ix_feature_flag_audit_changed_at'' ''feature_flag_audit'' [''changed_at''],
     CreateTable ''feature_flag_registry''
         [Col (Column ''flag_key'' (VarChar 128) [PrimaryKey]),
          Col (Column ''owner'' (VarChar 128) [Nullable False]),
          Col (Column ''description'' Text [Nullable False]),
          Col (Column ''flag_type'' (VarChar 32) [Nullable False, ServerDefault (SqlText (quoted ''release''))]),
          Col (Column ''retirement_intent'' (VarChar 64) [Nullable True]),
          Col (Column ''created_at'' DateTime [Nullable False, ServerDefault (SqlText ''now()'')]),
          Col (Column ''last_modified_at'' DateTime [Nullable False, ServerDefault (SqlText ''now()'')])],
     CreateIndex ''ix_feature_flag_registry_owner'' ''feature_flag_registry'' [''owner'']]"

definition downgrade_0016 :: "ddl list" where
  "downgrade_0016 =
    [DropTable ''feature_flag_registry'',
     DropTable ''feature_flag_audit'',
     DropTable ''feature_flag_state'']"

section \<open>Add LangGraph checkpoint tables\<close>

definition upgrade_0017 :: "ddl list" where
  "upgrade_0017 =
    [CreateTable ''checkpoint_migrations''
         [Col (Column ''v'' Integer [PrimaryKey])],
     CreateTable ''checkpoints''
         [Col (Column ''thread_id'' Text [Nullable False]),
          Col (Column ''checkpoint_ns'' Text [Nullable False, ServerDefault (Literal '''')]),
          Col (Column ''checkpoint_id'' Text [Nullable False]),
          Col (Column ''parent_checkpoint_id'' Text [Nullable True]),
          Col (Column ''type'' Text [Nullable True]),
          Col (Column ''checkpoint'' JSONB [Nullable False]),
          Col (Column ''metadata'' JSONB [Nullable False, ServerDefault (SqlText (quoted ''{}'' @ ''::jsonb''))]),
          PrimaryKeyConstraint [''thread_id'', ''checkpoint_ns'', ''checkpoint_id'']],
     CreateTable ''checkpoint_blobs''
         [Col (Column ''thread_id'' Text [Nullable False]),
          Col (Column ''checkpoint_ns'' Text [Nullable False, ServerDefault (Literal '''')]),
          Col (Column ''channel'' Text [Nullable False]),
          Col (Column ''version'' Text [Nullable False]),
          Col (Column ''type'' Text [Nullable False]),
          Col (Column ''blob'' LargeBinary [Nullable True]),
          PrimaryKeyConstraint [''thread_id'', ''checkpoint_ns'', ''channel'', ''version'']],
     CreateTable ''checkpoint_writes''
         [Col (Column ''thread_id'' Text [Nullable False]),
          Col (Column ''checkpoint_ns'' Text [Nullable False, ServerDefault (Literal '''')]),
          Col (Column ''checkpoint_id'' Text [Nullable False]),
          Col (Column ''task_id'' Text [Nullable False]),
          Col (Column ''idx'' Integer [Nullable False]),
          Col (Column ''channel'' Text [Nullable False]),
          Col (Column ''type'' Text [Nullable True]),
          Col (Column ''blob'' LargeBinary [Nullable False]),
          Col (Column ''task_path'' Text [Nullable False, ServerDefault (Literal '''')]),
          PrimaryKeyConstraint [''thread_id'', ''checkpoint_ns'', ''checkpoint_id'', ''task_id'', ''idx'']],
     Insert ''checkpoint_migrations'' [''v'']
         [[Value ''0''], [Value ''1''], [Value ''2''], [Value ''3''], [Value ''4''], [Value ''5''], [Value ''6''], [Value ''7''], [Value ''8'']],
     CreateIndex ''ix_checkpoints_thread_id'' ''checkpoints'' [''thread_id''],
     CreateIndex ''ix_checkpoint_blobs_thread_id'' ''checkpoint_blobs'' [''thread_id''],
     CreateIndex ''ix_checkpoint_writes_thread_id'' ''checkpoint_writes'' [''thread_id'']]"

definition downgrade_0017 :: "ddl list" where
  "downgrade_0017 =
    [DropIndex ''ix_checkpoint_writes_thread_id'' ''checkpoint_writes'',
     DropIndex ''ix_checkpoint_blobs_thread_id'' ''checkpoint_blobs'',
     DropIndex ''ix_checkpoints_thread_id'' ''checkpoints'',
     DropTable ''checkpoint_writes'',
     DropTable ''checkpoint_blobs'',
     DropTable ''checkpoints'',
     DropTable ''checkpoint_migrations'']"

section \<open>The chain\<close>

record migration =
  rv_revision :: str
  rv_down_revision :: "str option"
  rv_upgrade :: "database \<Rightarrow> ddl list"
  rv_downgrade :: "ddl list"

text \<open>Revision 0009 asks the server whether the extension can be installed.\<close>

definition pgvector_available :: "database \<Rightarrow> bool" where
  "pgvector_available d \<longleftrightarrow> ''vector'' \<in> set (db_available_extensions d)"

definition versions :: "migration list" where
  "versions =
    [\<lparr>rv_revision = ''20260418_0001'', rv_down_revision = None,
      rv_upgrade = (\<lambda>d. upgrade_0001), rv_downgrade = downgrade_0001\<rparr>,
     \<lparr>rv_revision = ''20260418_0002'', rv_down_revision = Some ''20260418_0001'',
      rv_upgrade = (\<lambda>d. upgrade_0002), rv_downgrade = downgrade_0002\<rparr>,
     \<lparr>rv_revision = ''20260418_0003'', rv_down_revision = Some ''20260418_0002'',
      rv_upgrade = (\<lambda>d. upgrade_0003), rv_downgrade = downgrade_0003\<rparr>,
     \<lparr>rv_revision = ''20260418_0004'', rv_down_revision = Some ''20260418_0003'',
      rv_upgrade = (\<lambda>d. upgrade_0004), rv_downgrade = downgrade_0004\<rparr>,
     \<lparr>rv_revision = ''20260418_0005'', rv_down_revision = Some ''20260418_0004'',
      rv_upgrade = (\<lambda>d. upgrade_0005), rv_downgrade = downgrade_0005\<rparr>,
     \<lparr>rv_revision = ''20260418_0006'', rv_down_revision = Some ''20260418_0005'',
      rv_upgrade = (\<lambda>d. upgrade_0006), rv_downgrade = downgrade_0006\<rparr>,
     \<lparr>rv_revision = ''20260422_0007'', rv_down_revision = Some ''20260418_0006'',
      rv_upgrade = (\<lambda>d. upgrade_0007), rv_downgrade = downgrade_0007\<rparr>,
     \<lparr>rv_revision = ''20260422_0008'', rv_down_revision = Some ''20260422_0007'',
      rv_upgrade = (\<lambda>d. upgrade_0008), rv_downgrade = downgrade_0008\<rparr>,
     \<lparr>rv_revision = ''20260424_0009'', rv_down_revision = Some ''20260422_0008'',
      rv_upgrade = (\<lambda>d. upgrade_0009 (pgvector_available d)), rv_downgrade = downgrade_0009\<rparr>,
     \<lparr>rv_revision = ''20260426_0010'', rv_down_revision = Some ''20260424_0009'',
      rv_upgrade = (\<lambda>d. upgrade_0010), rv_downgrade = downgrade_0010\<rparr>,
     \<lparr>rv_revision = ''20260426_0011'', rv_down_revision = Some ''20260426_0010'',
      rv_upgrade = (\<lambda>d. upgrade_0011), rv_downgrade = downgrade_0011\<rparr>,
     \<lparr>rv_revision = ''20260426_0012'', rv_down_revision = Some ''20260426_0011'',
      rv_upgrade = (\<lambda>d. upgrade_0012), rv_downgrade = downgrade_0012\<rparr>,
     \<lparr>rv_revision = ''20260426_0013'', rv_down_revision = Some ''20260426_0012'',
      rv_upgrade = (\<lambda>d. upgrade_0013), rv_downgrade = downgrade_0013\<rparr>,
     \<lparr>rv_revision = ''20260426_0014'', rv_down_revision = Some ''20260426_0013'',
      rv_upgrade = (\<lambda>d. upgrade_0014), rv_downgrade = downgrade_0014\<rparr>,
     \<lparr>rv_revision = ''20260426_0015'', rv_down_revision = Some ''20260426_0014'',
      rv_upgrade = (\<lambda>d. upgrade_0015), rv_downgrade = downgrade_0015\<rparr>,
     \<lparr>rv_revision = ''20260426_0016'', rv_down_revision = Some ''20260426_0015'',
      rv_upgrade = (\<lambda>d. upgrade_0016), rv_downgrade = downgrade_0016\<rparr>,
     \<lparr>rv_revision = ''20260427_0017'', rv_down_revision = Some ''20260426_0016'',
      rv_upgrade = (\<lambda>d. upgrade_0017), rv_downgrade = downgrade_0017\<rparr>]"

text \<open>\<open>ScriptDirectory.get_current_head\<close>: the one revision nothing builds on.\<close>

definition get_head_revision :: "migration list \<Rightarrow> str option result" where
  "get_head_revision rs =
     (case filter (\<lambda>r. Some (rv_revision r) \<notin> set (map rv_down_revision rs)) rs of
        [] \<Rightarrow> Inr None
      | [r] \<Rightarrow> Inr (Some (rv_revision r))
      | _ \<Rightarrow> Inl (OtherError ''MultipleHeads''))"

function pending :: "migration list \<Rightarrow> str option \<Rightarrow> migration list" where
  "pending rs current =
     (case find (\<lambda>r. rv_down_revision r = current) rs of
        None \<Rightarrow> []
      | Some r \<Rightarrow> r # pending (filter (\<lambda>x. rv_revision x \<noteq> rv_revision r) rs) (Some (rv_revision r)))"
  by pat_completeness auto
termination
  by (relation "measure (\<lambda>(rs, current). length rs)")
    (auto simp: find_Some_iff intro!: length_filter_less)

declare pending.simps [simp del]

fun run_upgrades :: "migration list \<Rightarrow> database \<Rightarrow> database result" where
  "run_upgrades [] d = Inr d"
| "run_upgrades (r # rs) d = bind_result (execute_all (rv_upgrade r d) d) (run_upgrades rs)"

text \<open>\<open>alembic upgrade head\<close> runs in one transaction: what it returns is committed, an exception leaves
  the database as it was.\<close>

definition upgrade_head :: "migration list \<Rightarrow> str option \<times> database \<Rightarrow> (str option \<times> database) result" where
  "upgrade_head rs = (\<lambda>(current, d).
     if current \<noteq> None \<and> current \<notin> set (map (\<lambda>r. Some (rv_revision r)) rs)
     then Inl (OtherError ''CommandError'')
     else bind_result (get_head_revision rs) (\<lambda>target.
          bind_result (run_upgrades (pending rs current) d) (\<lambda>d'. Inr (target, d'))))"

text \<open>\<open>alembic downgrade -1\<close>.\<close>

definition downgrade_one :: "migration list \<Rightarrow> str option \<times> database \<Rightarrow> (str option \<times> database) result" where
  "downgrade_one rs = (\<lambda>(current, d).
     case find (\<lambda>r. Some (rv_revision r) = current) rs of
       None \<Rightarrow> Inl (OtherError ''CommandError'')
     | Some r \<Rightarrow> bind_result (execute_all (rv_downgrade r) d) (\<lambda>d'. Inr (rv_down_revision r, d')))"

section \<open>The configuration of alembic\<close>

text \<open>\<open>url.replace("%", "%%")\<close>, and how configparser reads a value back: a doubled percent sign is one, a
  single one is the start of an interpolation.\<close>

definition escape_percent :: "str \<Rightarrow> str" where
  "escape_percent url = concat (map (\<lambda>c. if c = CHR 0x25 then [c, c] else [c]) url)"

fun interpolated :: "str \<Rightarrow> str result" where
  "interpolated [] = Inr []"
| "interpolated (c # s) =
     (if c \<noteq> CHR 0x25 then bind_result (interpolated s) (\<lambda>t. Inr (c # t))
      else case s of
             d # rest \<Rightarrow> if d = CHR 0x25 then bind_result (interpolated rest) (\<lambda>t. Inr (c # t))
                         else Inl (OtherError ''InterpolationSyntaxError'')
           | [] \<Rightarrow> Inl (OtherError ''InterpolationSyntaxError''))"

definition set_alembic_url :: "str \<Rightarrow> (str \<times> str) list \<Rightarrow> (str \<times> str) list" where
  "set_alembic_url database_url config = dict_set ''sqlalchemy.url'' (escape_percent database_url) config"

text \<open>The first of the candidates that is a file; \<open>cwd\<close> and \<open>package_root\<close> end in no slash.\<close>

definition resolve_alembic_ini_path :: "str option \<Rightarrow> str \<Rightarrow> str \<Rightarrow> (str \<Rightarrow> bool) \<Rightarrow> str result" where
  "resolve_alembic_ini_path env_path cwd package_root is_file =
     (let candidates = (case env_path of None \<Rightarrow> [] | Some p \<Rightarrow> if p = [] then [] else [p]) @
            [cwd @ ''/alembic.ini'', cwd @ ''/backend/alembic.ini'', package_root @ ''/alembic.ini'']
      in case find is_file candidates of
           Some p \<Rightarrow> Inr p
         | None \<Rightarrow> Inl (OtherError ''Unable to locate alembic.ini for backend migrations.''))"

text \<open>Whatever the URL holds, alembic reads the URL that was set.\<close>

theorem alembic_reads_the_url:
  "bind_result (case dict_get (set_alembic_url url config) ''sqlalchemy.url'' of None \<Rightarrow> Inl (KeyError []) | Some v \<Rightarrow> Inr v)
     interpolated = Inr url"
proof -
  have "interpolated (escape_percent s) = Inr s" for s
    by (induction s) (simp_all add: escape_percent_def)
  then show ?thesis by (simp add: set_alembic_url_def)
qed

end
