(* ===== verification/DdlFrame.thy ===== *)
theory DdlFrame
  imports Migrations
begin

text \<open>What the statements of a revision touch. \<open>mentions\<close> lists the relations a statement names; a
  table \<open>reaches\<close> its own name, those of its indexes and constraints, its parent and the tables its foreign
  keys point to. A script splits along any family of disjoint sets of names.\<close>

named_theorems ddl_simps \<open>tables and their names\<close>

definition unique_names :: "sql_table \<Rightarrow> str list" where
  "unique_names t = concat (map (\<lambda>(n, cs). case n of None \<Rightarrow> [] | Some u \<Rightarrow> [u]) (tb_uniques t))"

definition targets :: "sql_table \<Rightarrow> str list" where
  "targets t = map (\<lambda>k. fst (snd k)) (tb_foreign_keys t)"

definition reaches :: "sql_table \<Rightarrow> str set" where
  "reaches t =
     insert (tb_name t) (set (map fst (tb_indexes t)) \<union> set (unique_names t) \<union>
       set (targets t) \<union> set_option (tb_partition_of t))"

fun mentions :: "ddl \<Rightarrow> str list" where
  "mentions (CreateTable n args) =
     n # unique_names (table_of n args) @ targets (table_of n args)"
| "mentions (CreatePartition n parent) = [n, parent]"
| "mentions (CreateIndex n tn cs) = [n, tn]"
| "mentions (CreateIndexHnsw n tn c) = [n, tn]"
| "mentions (AddColumn tn c) = [tn]"
| "mentions (CreateUnique n tn cs) = [n, tn]"
| "mentions (EnableRls tn) = [tn]"
| "mentions (ForceRls tn) = [tn]"
| "mentions (CreatePolicy n tn f args) = [tn]"
| "mentions (CreateTrigger n tn f) = [tn]"
| "mentions (Insert tn cs vss) = [tn]"
| "mentions (DropTable n) = [n]"
| "mentions (DropTableIfExists n) = [n]"
| "mentions (DropIndex n tn) = [n, tn]"
| "mentions (DropIndexIfExists n) = [n]"
| "mentions (DropColumn tn c) = [tn]"
| "mentions (DropConstraint n tn) = [n, tn]"
| "mentions (DisableRls tn) = [tn]"
| "mentions (DropPolicy n tn) = [tn]"
| "mentions (DropTrigger n tn) = [tn]"
| "mentions op = []"

definition focus :: "str set \<Rightarrow> database \<Rightarrow> database" where
  "focus C d = d\<lparr>db_tables := filter (\<lambda>t. tb_name t \<in> C) (db_tables d)\<rparr>"

definition separated :: "str set \<Rightarrow> database \<Rightarrow> bool" where
  "separated C d \<longleftrightarrow> (\<forall>t \<in> set (db_tables d). reaches t \<subseteq> C \<or> reaches t \<inter> C = {})"

lemma focus_sel [ddl_simps]:
  "db_tables (focus C d) = filter (\<lambda>t. tb_name t \<in> C) (db_tables d)"
  "db_functions (focus C d) = db_functions d" "db_schemas (focus C d) = db_schemas d"
  "db_extensions (focus C d) = db_extensions d" "db_available_extensions (focus C d) = db_available_extensions d"
  by (simp_all add: focus_def)

lemma tb_name_alter [simp]: "tb_name (alter op t) = tb_name t"
  by (induction op t rule: alter.induct) auto

lemma partition_of_alter [simp]: "tb_partition_of (alter op t) = tb_partition_of t"
  by (induction op t rule: alter.induct) auto

lemma tb_name_table_of [simp]: "tb_name (table_of n args) = n"
  by (simp add: table_of_def Let_def)

lemma name_in_reaches [simp]: "tb_name t \<in> reaches t"
  by (simp add: reaches_def)

lemma set_unique_names: "u \<in> set (unique_names t) \<longleftrightarrow> (\<exists>cs. (Some u, cs) \<in> set (tb_uniques t))"
  by (force simp: unique_names_def split: option.splits)

lemma set_targets: "n \<in> set (targets t) \<longleftrightarrow> (\<exists>cs keys. (cs, n, keys) \<in> set (tb_foreign_keys t))"
  by (force simp: targets_def)

lemma reaches_iff:
  "n \<in> reaches t \<longleftrightarrow>
     n = tb_name t \<or> (\<exists>cs. (n, cs) \<in> set (tb_indexes t)) \<or> (\<exists>cs. (Some n, cs) \<in> set (tb_uniques t)) \<or>
     (\<exists>cs keys. (cs, n, keys) \<in> set (tb_foreign_keys t)) \<or> tb_partition_of t = Some n"
  by (auto simp: reaches_def set_unique_names set_targets) force

lemma reaches_alter: "reaches (alter op t) \<subseteq> reaches t \<union> set (mentions op)"
  by (induction op t rule: alter.induct) (auto simp: reaches_iff)

lemma reaches_table_of: "reaches (table_of n args) = set (mentions (CreateTable n args))"
  by (simp add: reaches_def table_of_def Let_def)

lemma belongs_reaches: "belongs n t \<Longrightarrow> n \<in> reaches t"
  by (auto simp: belongs_def reaches_iff)

lemma alter_untouched:
  assumes "mentions op \<noteq> []" "reaches t \<inter> set (mentions op) = {}"
  shows "alter op t = t"
proof -
  have free: "\<forall>n \<in> set (mentions op). tb_name t \<noteq> n \<and> \<not> belongs n t"
    using assms(2) belongs_reaches name_in_reaches by blast
  show ?thesis
  proof (cases op)
    case (DropIndexIfExists n)
    have "fst i \<noteq> n" if "i \<in> set (tb_indexes t)" for i
      using assms(2) that by (cases i) (auto simp: DropIndexIfExists reaches_iff)
    then have "filter (\<lambda>i. fst i \<noteq> n) (tb_indexes t) = tb_indexes t" by (simp add: filter_id_conv)
    then show ?thesis by (simp add: DropIndexIfExists)
  qed (use free in simp_all)
qed

lemma relation_names_reaches: "set (relation_names d) \<subseteq> (\<Union>t \<in> set (db_tables d). reaches t)"
  by (fastforce simp: relation_names_def reaches_iff split: option.splits)

section \<open>Focus\<close>

lemma find_table_focus [ddl_simps]: "n \<in> C \<Longrightarrow> find_table n (focus C d) = find_table n d"
proof -
  assume n: "n \<in> C"
  have "find (\<lambda>t. tb_name t = n) (filter (\<lambda>t. tb_name t \<in> C) ts) = find (\<lambda>t. tb_name t = n) ts" for ts
    by (induction ts) (use n in auto)
  then show ?thesis by (simp add: find_table_def focus_sel)
qed

lemma with_table_focus [ddl_simps]: "n \<in> C \<Longrightarrow> with_table n (focus C d) p = with_table n d p"
  by (simp add: with_table_def find_table_focus)

lemma separatedD:
  assumes "separated C d" "t \<in> set (db_tables d)" "n \<in> reaches t" "n \<in> C"
  shows "tb_name t \<in> C" "reaches t \<subseteq> C"
proof -
  show "reaches t \<subseteq> C" using assms unfolding separated_def by blast
  then show "tb_name t \<in> C" using name_in_reaches by blast
qed

lemma list_ex_focus:
  assumes "\<And>t. t \<in> set (db_tables d) \<Longrightarrow> p t \<Longrightarrow> tb_name t \<in> C"
  shows "list_ex p (filter (\<lambda>t. tb_name t \<in> C) (db_tables d)) = list_ex p (db_tables d)"
  using assms by (auto simp: list_ex_iff)

lemma list_all_focus:
  assumes "\<And>t. t \<in> set (db_tables d) \<Longrightarrow> \<not> p t \<Longrightarrow> tb_name t \<in> C"
  shows "list_all p (filter (\<lambda>t. tb_name t \<in> C) (db_tables d)) = list_all p (db_tables d)"
  using assms by (auto simp: list_all_iff)

lemma relation_names_focus:
  assumes "separated C d" "n \<in> C"
  shows "n \<in> set (relation_names (focus C d)) \<longleftrightarrow> n \<in> set (relation_names d)"
proof
  assume "n \<in> set (relation_names (focus C d))"
  then show "n \<in> set (relation_names d)" by (auto simp: relation_names_def ddl_simps)
next
  assume n: "n \<in> set (relation_names d)"
  then obtain t where t: "t \<in> set (db_tables d)" "n \<in> set (relation_names (d\<lparr>db_tables := [t]\<rparr>))"
    by (auto simp: relation_names_def)
  have "n \<in> reaches t" using t(2) relation_names_reaches[of "d\<lparr>db_tables := [t]\<rparr>"] by auto
  then have "tb_name t \<in> C" using separatedD(1) assms t(1) by blast
  then show "n \<in> set (relation_names (focus C d))"
    using t by (auto simp: relation_names_def ddl_simps)
qed

lemma referenced_focus:
  assumes "separated C d" "n \<in> C"
  shows "referenced n (focus C d) = referenced n d"
proof -
  have "tb_name t \<in> C"
    if "t \<in> set (db_tables d)" "tb_name t \<noteq> n \<and> list_ex (\<lambda>(cs, target, keys). target = n) (tb_foreign_keys t)" for t
  proof -
    from that(2) have "n \<in> reaches t" by (auto simp: list_ex_iff reaches_iff)
    then show ?thesis using separatedD(1) assms that(1) by blast
  qed
  then show ?thesis unfolding referenced_def focus_sel by (intro list_ex_focus)
qed

lemma new_table_ok_focus:
  assumes sep: "separated C d" and names: "set (mentions (CreateTable n args)) \<subseteq> C"
  shows "new_table_ok (focus C d) (table_of n args) = new_table_ok d (table_of n args)"
proof -
  let ?t = "table_of n args"
  let ?names = "tb_name ?t # unique_names ?t"
  have "list_all (\<lambda>n. n \<notin> set (relation_names (focus C d))) ?names =
      list_all (\<lambda>n. n \<notin> set (relation_names d)) ?names"
    using names relation_names_focus[OF sep] by (auto simp: list_all_iff)
  moreover have "references_ok (focus C d) ?t = references_ok d ?t"
  proof -
    have "target \<in> C" if "(cs, target, keys) \<in> set (tb_foreign_keys ?t)" for cs target keys
      using that names set_targets[of target ?t] by auto
    then show ?thesis
      unfolding references_ok_def by (auto simp: list_all_iff with_table_focus)
  qed
  ultimately show ?thesis
    by (simp add: new_table_ok_def Let_def unique_names_def)
qed

lemma column_free_focus:
  assumes "separated C d" "tn \<in> C"
  shows "list_all (\<lambda>t. belongs tn t \<longrightarrow> c \<notin> set (column_names t)) (db_tables (focus C d)) =
    list_all (\<lambda>t. belongs tn t \<longrightarrow> c \<notin> set (column_names t)) (db_tables d)"
  unfolding focus_sel
proof (rule list_all_focus)
  fix t assume t: "t \<in> set (db_tables d)" "\<not> (belongs tn t \<longrightarrow> c \<notin> set (column_names t))"
  then have "tn \<in> reaches t" by (auto simp: belongs_def reaches_iff)
  then show "tb_name t \<in> C" using separatedD(1) assms t(1) by blast
qed

definition unreferenced_column :: "str \<Rightarrow> str \<Rightarrow> sql_table \<Rightarrow> bool" where
  "unreferenced_column tn c t \<longleftrightarrow>
     list_all (\<lambda>(cs, target, keys). \<not> (target = tn \<and> c \<in> set keys)) (tb_foreign_keys t)"

lemma unreferenced_focus:
  assumes "separated C d" "tn \<in> C"
  shows "list_all (unreferenced_column tn c) (db_tables (focus C d)) =
    list_all (unreferenced_column tn c) (db_tables d)"
  unfolding focus_sel
proof (rule list_all_focus)
  fix t assume t: "t \<in> set (db_tables d)" "\<not> unreferenced_column tn c t"
  then have "tn \<in> reaches t" by (auto simp: unreferenced_column_def list_all_iff reaches_iff)
  then show "tb_name t \<in> C" using separatedD(1) assms t(1) by blast
qed

lemma applicable_focus:
  assumes "separated C d" "mentions op \<noteq> []" "set (mentions op) \<subseteq> C"
  shows "applicable op (focus C d) = applicable op d"
proof (cases op)
  case (CreateTable n args)
  then show ?thesis using assms new_table_ok_focus[of C d n args] by simp
next
  case (AddColumn tn c)
  then show ?thesis using assms column_free_focus[of C d tn "column_name c"] by (simp add: with_table_focus)
next
  case (DropColumn tn c)
  then show ?thesis
    using assms unreferenced_focus[of C d tn c]
    by (simp add: with_table_focus unreferenced_column_def[abs_def])
qed (use assms in \<open>simp_all add: ddl_simps relation_names_focus referenced_focus\<close>)

section \<open>Statements inside, outside and beside a set of names\<close>

text \<open>\<open>reshaped op d\<close> is the list of tables after a statement that names relations.\<close>

fun created :: "ddl \<Rightarrow> database \<Rightarrow> sql_table list" where
  "created (CreateTable n args) d = [table_of n args]"
| "created (CreatePartition n parent) d =
     (case find_table parent d of None \<Rightarrow> [] | Some t \<Rightarrow> [partition_of n t])"
| "created op d = []"

fun survives :: "ddl \<Rightarrow> sql_table \<Rightarrow> bool" where
  "survives (DropTable n) t \<longleftrightarrow> \<not> belongs n t"
| "survives (DropTableIfExists n) t \<longleftrightarrow> \<not> belongs n t"
| "survives op t \<longleftrightarrow> True"

lemma perform_tables:
  assumes "mentions op \<noteq> []"
  shows "perform op d = d\<lparr>db_tables := map (alter op) (filter (survives op) (db_tables d)) @ created op d\<rparr>"
proof -
  have "db_tables (perform op d) = map (alter op) (filter (survives op) (db_tables d)) @ created op d"
  proof (cases op)
    case (CreateTable n args)
    then show ?thesis by (simp add: map_idI)
  next
    case (CreatePartition n parent)
    then show ?thesis by (simp add: map_idI)
  next
    case (DropTable n)
    then show ?thesis by (auto simp: map_idI intro: filter_cong)
  next
    case (DropTableIfExists n)
    then show ?thesis by (auto simp: map_idI intro: filter_cong)
  qed (use assms in simp_all)
  moreover have "perform op d = d\<lparr>db_tables := db_tables (perform op d)\<rparr>"
    using assms by (cases op) simp_all
  ultimately show ?thesis by simp
qed

lemma perform_global:
  assumes "mentions op = []"
  shows "db_tables (perform op d) = db_tables d" "focus C (perform op d) = perform op (focus C d)"
    "separated C (perform op d) = separated C d"
proof -
  show t: "db_tables (perform op d) = db_tables d" using assms by (cases op) simp_all
  show "focus C (perform op d) = perform op (focus C d)" using assms by (cases op) (simp_all add: focus_def)
  show "separated C (perform op d) = separated C d" by (simp add: separated_def t)
qed

lemma find_table_in: "find_table n d = Some t \<Longrightarrow> t \<in> set (db_tables d) \<and> tb_name t = n"
  by (auto simp: find_table_def find_Some_iff)

lemma created_reaches:
  assumes "t \<in> set (created op d)"
  shows "tb_name t \<in> set (mentions op) \<and>
    (reaches t \<subseteq> set (mentions op) \<or>
     (\<exists>p \<in> set (db_tables d). tb_name p \<in> set (mentions op) \<and> reaches t \<subseteq> set (mentions op) \<union> reaches p))"
proof (cases op)
  case (CreateTable n args)
  then show ?thesis using assms reaches_table_of[of n args] by simp
next
  case (CreatePartition n parent)
  then obtain p where p: "find_table parent d = Some p" "t = partition_of n p"
    using assms by (cases "find_table parent d") (auto)
  have "reaches t \<subseteq> {n, parent} \<union> reaches p"
    using p find_table_in[of parent d p] by (auto simp: reaches_iff partition_of_def)
  with p CreatePartition find_table_in[of parent d p] show ?thesis by (auto simp: partition_of_def)
qed (use assms in simp_all)

lemma perform_inside:
  assumes sep: "separated C d" and op: "mentions op \<noteq> []" "set (mentions op) \<subseteq> C"
  shows "focus C (perform op d) = perform op (focus C d)" "separated C (perform op d)"
proof -
  have new: "created op (focus C d) = created op d"
    using op by (cases op) (simp_all add: find_table_focus)
  have created: "reaches t \<subseteq> C" if "t \<in> set (created op d)" for t
    using created_reaches[OF that] op sep unfolding separated_def using name_in_reaches by blast
  then have names: "tb_name t \<in> C" if "t \<in> set (created op d)" for t
    using that name_in_reaches by blast
  have "filter (\<lambda>t. tb_name t \<in> C) (created op d) = created op d"
    using names by (simp add: filter_id_conv)
  then show "focus C (perform op d) = perform op (focus C d)"
    using op new by (simp add: perform_tables focus_def filter_map comp_def conj_commute)
  have "reaches (alter op t) \<subseteq> C \<or> reaches (alter op t) \<inter> C = {}" if t: "t \<in> set (db_tables d)" for t
  proof (cases "reaches t \<subseteq> C")
    case True
    then show ?thesis using reaches_alter[of op t] op by blast
  next
    case False
    then have "reaches t \<inter> C = {}" using sep t unfolding separated_def by blast
    then show ?thesis using alter_untouched[of op t] op by fastforce
  qed
  then show "separated C (perform op d)"
    using created op unfolding separated_def by (auto simp: perform_tables)
qed

lemma perform_outside:
  assumes sep: "separated C d" and op: "mentions op \<noteq> []" "set (mentions op) \<inter> C = {}"
  shows "focus C (perform op d) = focus C d" "separated C (perform op d)"
proof -
  have created: "reaches t \<inter> C = {}" if new: "t \<in> set (created op d)" for t
  proof -
    consider "reaches t \<subseteq> set (mentions op)"
      | p where "p \<in> set (db_tables d)" "tb_name p \<in> set (mentions op)" "reaches t \<subseteq> set (mentions op) \<union> reaches p"
      using created_reaches[OF new] by blast
    then show ?thesis
    proof cases
      case 1
      then show ?thesis using op by blast
    next
      case 2
      then have "\<not> reaches p \<subseteq> C" using op name_in_reaches by blast
      then have "reaches p \<inter> C = {}" using sep 2 unfolding separated_def by blast
      then show ?thesis using 2 op by blast
    qed
  qed
  have kept: "alter op t = t \<and> survives op t" if t: "t \<in> set (db_tables d)" "tb_name t \<in> C" for t
  proof -
    have "reaches t \<subseteq> C" using sep t name_in_reaches unfolding separated_def by blast
    then have disj: "reaches t \<inter> set (mentions op) = {}" using op by blast
    then have "alter op t = t" using alter_untouched op by blast
    moreover have "survives op t" using disj belongs_reaches[of _ t] by (cases op) auto
    ultimately show ?thesis by simp
  qed
  have "filter (\<lambda>t. tb_name t \<in> C) (created op d) = []"
    unfolding filter_empty_conv using created name_in_reaches by blast
  moreover have "filter (\<lambda>t. tb_name t \<in> C) (map (alter op) (filter (survives op) ts)) = filter (\<lambda>t. tb_name t \<in> C) ts"
    if "set ts \<subseteq> set (db_tables d)" for ts
    using that by (induction ts) (use kept in auto)
  ultimately show "focus C (perform op d) = focus C d"
    using op by (simp add: perform_tables focus_def)
  have "reaches (alter op t) \<subseteq> C \<or> reaches (alter op t) \<inter> C = {}" if t: "t \<in> set (db_tables d)" for t
  proof (cases "tb_name t \<in> C")
    case True
    then show ?thesis using kept[OF t] sep t unfolding separated_def by simp
  next
    case False
    then have "reaches t \<inter> C = {}" using sep t name_in_reaches unfolding separated_def by blast
    then show ?thesis using reaches_alter[of op t] op by blast
  qed
  then show "separated C (perform op d)"
    using created op unfolding separated_def by (auto simp: perform_tables)
qed

section \<open>A script splits\<close>

text \<open>Each statement carries the index of the names it works on; the script an index sees are its own
  statements and those that name no relation.\<close>

type_synonym script = "(nat \<times> ddl) list"

definition own_part :: "nat \<Rightarrow> script \<Rightarrow> ddl list" where
  "own_part j sc = map snd (filter (\<lambda>(i, op). i = j \<or> mentions op = []) sc)"

definition well_tagged :: "(nat \<Rightarrow> str set) \<Rightarrow> nat set \<Rightarrow> script \<Rightarrow> bool" where
  "well_tagged K J sc \<longleftrightarrow>
     (\<forall>(i, op) \<in> set sc. mentions op \<noteq> [] \<longrightarrow> i \<in> J \<and> set (mentions op) \<subseteq> K i)"

definition split_along :: "(nat \<Rightarrow> str set) \<Rightarrow> nat set \<Rightarrow> database \<Rightarrow> bool" where
  "split_along K J d \<longleftrightarrow>
     (\<forall>j \<in> J. separated (K j) d) \<and> (\<forall>t \<in> set (db_tables d). \<exists>j \<in> J. tb_name t \<in> K j)"

lemma own_part_append [simp]: "own_part j (xs @ ys) = own_part j xs @ own_part j ys"
  by (simp add: own_part_def)

lemma function_used_focus:
  assumes "split_along K J d" "\<forall>j \<in> J. \<not> function_used f (focus (K j) d)"
  shows "\<not> function_used f d"
  using assms unfolding function_used_def list_ex_iff split_along_def focus_sel by fastforce

lemma applicable_global:
  assumes "split_along K J d" "mentions op = []" "J \<noteq> {}" "\<forall>j \<in> J. applicable op (focus (K j) d)"
  shows "applicable op d"
  using assms(2-4) function_used_focus[OF assms(1)] by (cases op) (auto simp: focus_sel)

text \<open>One statement, seen by every index.\<close>

lemma split_step:
  assumes K: "\<forall>i \<in> J. \<forall>j \<in> J. i \<noteq> j \<longrightarrow> K i \<inter> K j = {}" and J: "J \<noteq> {}"
    and tag: "well_tagged K J [(i, op)]" and d: "split_along K J d"
    and runs: "\<forall>j \<in> J. i = j \<or> mentions op = [] \<longrightarrow> applicable op (focus (K j) d)"
  shows "applicable op d" "split_along K J (perform op d)"
    "\<forall>j \<in> J. focus (K j) (perform op d) =
       (if i = j \<or> mentions op = [] then perform op (focus (K j) d) else focus (K j) d)"
proof -
  have sep: "separated (K j) d" if "j \<in> J" for j using d that by (simp add: split_along_def)
  have cover: "\<exists>j \<in> J. tb_name t \<in> K j" if "t \<in> set (db_tables d)" for t
    using d that by (simp add: split_along_def)
  have three: "applicable op d \<and> split_along K J (perform op d) \<and>
    (\<forall>j \<in> J. focus (K j) (perform op d) =
       (if i = j \<or> mentions op = [] then perform op (focus (K j) d) else focus (K j) d))"
  proof (cases "mentions op = []")
    case True
    then have "applicable op d" using applicable_global[OF d True J] runs by simp
    then show ?thesis using True sep cover perform_global[OF True] by (simp add: split_along_def)
  next
    case False
    then have i: "i \<in> J" "set (mentions op) \<subseteq> K i" using tag by (auto simp: well_tagged_def)
    have out: "set (mentions op) \<inter> K j = {}" if "j \<in> J" "j \<noteq> i" for j using K i that by blast
    have appl: "applicable op d" using applicable_focus[OF sep[OF i(1)] False i(2)] runs i(1) by simp
    have "\<exists>j \<in> J. tb_name t \<in> K j" if "t \<in> set (db_tables (perform op d))" for t
      using that cover created_reaches[of t op d] i False by (auto simp: perform_tables)
    moreover have "separated (K j) (perform op d)" if "j \<in> J" for j
      using perform_inside(2)[OF sep[OF i(1)] False i(2)] perform_outside(2)[OF sep[OF that] False] out[OF that]
      by (cases "j = i") auto
    moreover have "focus (K j) (perform op d) = (if i = j then perform op (focus (K j) d) else focus (K j) d)"
      if "j \<in> J" for j
      using perform_inside(1)[OF sep[OF i(1)] False i(2)] perform_outside(1)[OF sep[OF that] False] out[OF that]
      by (cases "j = i") auto
    ultimately show ?thesis using appl False by (simp add: split_along_def)
  qed
  then show "applicable op d" "split_along K J (perform op d)"
    "\<forall>j \<in> J. focus (K j) (perform op d) =
       (if i = j \<or> mentions op = [] then perform op (focus (K j) d) else focus (K j) d)" by simp_all
qed

lemma split_script:
  assumes K: "\<forall>i \<in> J. \<forall>j \<in> J. i \<noteq> j \<longrightarrow> K i \<inter> K j = {}" and J: "J \<noteq> {}"
    and tag: "well_tagged K J sc" and d: "split_along K J d"
    and runs: "\<forall>j \<in> J. execute_all (own_part j sc) (focus (K j) d) = Inr (e j)"
  shows "\<exists>d'. execute_all (map snd sc) d = Inr d' \<and> split_along K J d' \<and> (\<forall>j \<in> J. focus (K j) d' = e j)"
  using tag d runs
proof (induction sc arbitrary: d)
  case Nil
  then show ?case by (auto simp: own_part_def)
next
  case (Cons a sc)
  obtain i op where a: "a = (i, op)" by force
  have tag1: "well_tagged K J [(i, op)]" and tag': "well_tagged K J sc"
    using Cons.prems(1) by (auto simp: well_tagged_def a)
  have runs1: "\<forall>j \<in> J. i = j \<or> mentions op = [] \<longrightarrow> applicable op (focus (K j) d)"
  proof (intro ballI impI)
    fix j assume j: "j \<in> J" "i = j \<or> mentions op = []"
    then have "execute_all (op # own_part j sc) (focus (K j) d) = Inr (e j)"
      using Cons.prems(3) by (auto simp: own_part_def a)
    then show "applicable op (focus (K j) d)" by (auto simp: execute_ddl_def split: if_splits)
  qed
  note step = split_step[OF K J tag1 Cons.prems(2) runs1]
  have runs': "\<forall>j \<in> J. execute_all (own_part j sc) (focus (K j) (perform op d)) = Inr (e j)"
  proof
    fix j assume j: "j \<in> J"
    show "execute_all (own_part j sc) (focus (K j) (perform op d)) = Inr (e j)"
      using Cons.prems(3) j step(3) runs1
      by (cases "i = j \<or> mentions op = []") (auto simp: own_part_def a execute_ddl_def)
  qed
  from Cons.IH[OF tag' step(2) runs'] step(1) show ?case by (simp add: a execute_ddl_def)
qed

end
