(* ===== verification/SchemaTables.thy ===== *)
theory SchemaTables
  imports Ddl
begin

text \<open>
  The tables \<open>persistence/schema.py\<close> declares, which every statement of the stores is built from: one
  definition per \<open>Table\<close>, in the order of the file, and \<open>metadata\<close>, their collection.
\<close>

definition runs_table :: "str \<times> table_arg list" where
  "runs_table =
    (''runs'',
     [Col (Column ''run_id'' (VarChar 64) [PrimaryKey]),
      Col (Column ''thread_id'' (VarChar 255) [Nullable False, Unique]),
      Col (Column ''tenant_id'' (VarChar 128) [Nullable False]),
      Col (Column ''team_id'' (VarChar 128) [Nullable False]),
      Col (Column ''repo_id'' (VarChar 255) [Nullable False]),
      Col (Column ''ticket_key'' (VarChar 128) [Nullable False]),
      Col (Column ''status'' (VarChar 32) [Nullable False]),
      Col (Column ''current_node'' (VarChar 64) [Nullable False]),
      Col (Column ''paused_at_node'' (VarChar 64) [Nullable True]),
      Col (Column ''escalation_reason'' (VarChar 128) [Nullable True]),
      Col (Column ''escalation_sink'' Text [Nullable True]),
      Col (Column ''config_snapshot_id'' (VarChar 255) [Nullable False]),
      Col (Column ''graph_profile_id'' (VarChar 255) [Nullable False]),
      Col (Column ''catalog_version'' (VarChar 255) [Nullable False]),
      Col (Column ''state_schema_version'' (VarChar 32) [Nullable False, ServerDefault (SqlText (quoted ''1''))]),
      Col (Column ''artifact_hashes'' JSONB [Nullable False, ServerDefault (SqlText (quoted ''{}'' @ ''::jsonb''))]),
      Col (Column ''run_payload'' JSONB [Nullable False, ServerDefault (SqlText (quoted ''{}'' @ ''::jsonb''))]),
      Col (Column ''created_at'' DateTime [Nullable False, ServerDefault (SqlText ''now()'')]),
      Col (Column ''updated_at'' DateTime [Nullable False, ServerDefault (SqlText ''now()'')])])"

definition webhook_idempotency_records_table :: "str \<times> table_arg list" where
  "webhook_idempotency_records_table =
    (''webhook_idempotency_records'',
     [Col (Column ''id'' BigInteger [PrimaryKey, Autoincrement]),
      Col (Column ''source'' (VarChar 64) [Nullable False]),
      Col (Column ''delivery_id'' (VarChar 255) [Nullable False]),
      Col (Column ''tenant_id'' (VarChar 128) [Nullable False]),
      Col (Column ''team_id'' (VarChar 128) [Nullable False]),
      Col (Column ''endpoint'' (VarChar 255) [Nullable False]),
      Col (Column ''hmac_digest'' (VarChar 128) [Nullable False]),
      Col (Column ''signature_hash'' (VarChar 64) [Nullable True]),
      Col (Column ''disposition_status'' (VarChar 32) [Nullable False]),
      Col (Column ''received_at'' DateTime [Nullable False, ServerDefault (SqlText ''now()'')]),
      UniqueConstraint [''source'', ''delivery_id''] (Some ''uq_webhook_idempotency_source_delivery''),
      UniqueConstraint [''source'', ''delivery_id'', ''signature_hash''] (Some ''uq_webhook_idempotency_source_delivery_sighash'')])"

definition webhook_secret_rotations_table :: "str \<times> table_arg list" where
  "webhook_secret_rotations_table =
    (''webhook_secret_rotations'',
     [Col (Column ''rotation_id'' (VarChar 64) [PrimaryKey]),
      Col (Column ''tenant_id'' (VarChar 128) [Nullable False]),
      Col (Column ''team_id'' (VarChar 128) [Nullable False]),
      Col (Column ''previous_secret_hash'' (VarChar 128) [Nullable True]),
      Col (Column ''rotation_overlap_until'' DateTime [Nullable True]),
      Col (Column ''rotated_by'' (VarChar 255) [Nullable False]),
      Col (Column ''metadata'' JSONB [Nullable False, ServerDefault (SqlText (quoted ''{}'' @ ''::jsonb''))]),
      Col (Column ''created_at'' DateTime [Nullable False, ServerDefault (SqlText ''now()'')])])"

definition webhook_rate_limit_rejections_table :: "str \<times> table_arg list" where
  "webhook_rate_limit_rejections_table =
    (''webhook_rate_limit_rejections'',
     [Col (Column ''rejection_id'' (VarChar 64) [PrimaryKey]),
      Col (Column ''tenant_id'' (VarChar 128) [Nullable False]),
      Col (Column ''team_id'' (VarChar 128) [Nullable False]),
      Col (Column ''ticket_key'' (VarChar 128) [Nullable False]),
      Col (Column ''source'' (VarChar 64) [Nullable False]),
      Col (Column ''delivery_id'' (VarChar 255) [Nullable False]),
      Col (Column ''remote_addr'' (VarChar 64) [Nullable False]),
      Col (Column ''created_at'' DateTime [Nullable False, ServerDefault (SqlText ''now()'')])])"

definition credential_rotation_schedule_table :: "str \<times> table_arg list" where
  "credential_rotation_schedule_table =
    (''credential_rotation_schedule'',
     [Col (Column ''schedule_id'' (VarChar 64) [PrimaryKey]),
      Col (Column ''tenant_id'' (VarChar 128) [Nullable False]),
      Col (Column ''team_id'' (VarChar 128) [Nullable False]),
      Col (Column ''credential_kind'' (VarChar 64) [Nullable False]),
      Col (Column ''credential_id'' (VarChar 255) [Nullable False]),
      Col (Column ''rotated_at'' DateTime [Nullable False]),
      Col (Column ''next_rotation_due'' DateTime [Nullable False]),
      Col (Column ''rotation_sla_days'' Integer [Nullable False, ServerDefault (SqlText ''90'')]),
      Col (Column ''overdue'' Boolean [Nullable False, ServerDefault (SqlText ''false'')]),
      Col (Column ''created_at'' DateTime [Nullable False, ServerDefault (SqlText ''now()'')]),
      Col (Column ''updated_at'' DateTime [Nullable False, ServerDefault (SqlText ''now()'')]),
      UniqueConstraint [''tenant_id'', ''team_id'', ''credential_kind'', ''credential_id''] (Some ''uq_credential_rotation_scope'')])"

definition break_glass_grants_table :: "str \<times> table_arg list" where
  "break_glass_grants_table =
    (''break_glass_grants'',
     [Col (Column ''grant_id'' (VarChar 64) [PrimaryKey]),
      Col (Column ''tenant_id'' (VarChar 128) [Nullable False]),
      Col (Column ''team_id'' (VarChar 128) [Nullable False]),
      Col (Column ''requested_by'' (VarChar 255) [Nullable False]),
      Col (Column ''reason'' Text [Nullable False]),
      Col (Column ''scope'' JSONB [Nullable False, ServerDefault (SqlText (quoted ''{}'' @ ''::jsonb''))]),
      Col (Column ''approved_by_first'' (VarChar 255) [Nullable True]),
      Col (Column ''approved_by_second'' (VarChar 255) [Nullable True]),
      Col (Column ''granted_at'' DateTime [Nullable True]),
      Col (Column ''expires_at'' DateTime [Nullable False]),
      Col (Column ''revoked_at'' DateTime [Nullable True]),
      Col (Column ''revoked_by'' (VarChar 255) [Nullable True]),
      Col (Column ''revoke_reason'' Text [Nullable True]),
      Col (Column ''created_at'' DateTime [Nullable False, ServerDefault (SqlText ''now()'')])])"

definition kek_versions_table :: "str \<times> table_arg list" where
  "kek_versions_table =
    (''kek_versions'',
     [Col (Column ''kek_id'' (VarChar 64) [PrimaryKey]),
      Col (Column ''kms_ref'' (VarChar 512) [Nullable False]),
      Col (Column ''introduced_at'' DateTime [Nullable False]),
      Col (Column ''retired_at'' DateTime [Nullable True]),
      Col (Column ''is_default'' Boolean [Nullable False, ServerDefault (SqlText ''false'')]),
      Col (Column ''introduced_by'' (VarChar 255) [Nullable False]),
      Col (Column ''metadata'' JSONB [Nullable False, ServerDefault (SqlText (quoted ''{}'' @ ''::jsonb''))]),
      Col (Column ''created_at'' DateTime [Nullable False, ServerDefault (SqlText ''now()'')])])"

definition dead_letter_records_table :: "str \<times> table_arg list" where
  "dead_letter_records_table =
    (''dead_letter_records'',
     [Col (Column ''id'' BigInteger [PrimaryKey, Autoincrement]),
      Col (Column ''job_id'' (VarChar 64) [Nullable False]),
      Col (Column ''tenant_id'' (VarChar 128) [Nullable False]),
      Col (Column ''team_id'' (VarChar 128) [Nullable False]),
      Col (Column ''run_id'' (VarChar 64) [Nullable False]),
      Col (Column ''queue_name'' (VarChar 255) [Nullable False]),
      Col (Column ''worker_id'' (VarChar 255) [Nullable True]),
      Col (Column ''failure_reason'' Text [Nullable False]),
      Col (Column ''checkpoint_ref'' Text [Nullable True]),
      Col (Column ''created_at'' DateTime [Nullable False, ServerDefault (SqlText ''now()'')])])"

definition budget_cap_snapshots_table :: "str \<times> table_arg list" where
  "budget_cap_snapshots_table =
    (''budget_cap_snapshots'',
     [Col (Column ''id'' BigInteger [PrimaryKey, Autoincrement]),
      Col (Column ''tenant_id'' (VarChar 128) [Nullable False]),
      Col (Column ''team_id'' (VarChar 128) [Nullable False]),
      Col (Column ''run_id'' (VarChar 64) [Nullable False, Unique]),
      Col (Column ''ticket_key'' (VarChar 128) [Nullable False]),
      Col (Column ''role'' (VarChar 64) [Nullable False]),
      Col (Column ''ticket_cap_usd'' (Numeric 14 6) [Nullable False]),
      Col (Column ''daily_team_cap_usd'' (Numeric 14 6) [Nullable False]),
      Col (Column ''monthly_team_cap_usd'' (Numeric 14 6) [Nullable False]),
      Col (Column ''created_at'' DateTime [Nullable False, ServerDefault (SqlText ''now()'')]),
      Col (Column ''updated_at'' DateTime [Nullable False, ServerDefault (SqlText ''now()'')])])"

definition budget_reservations_table :: "str \<times> table_arg list" where
  "budget_reservations_table =
    (''budget_reservations'',
     [Col (Column ''reservation_id'' (VarChar 64) [PrimaryKey]),
      Col (Column ''tenant_id'' (VarChar 128) [Nullable False]),
      Col (Column ''team_id'' (VarChar 128) [Nullable False]),
      Col (Column ''run_id'' (VarChar 64) [Nullable False]),
      Col (Column ''ticket_key'' (VarChar 128) [Nullable False]),
      Col (Column ''role'' (VarChar 64) [Nullable False]),
      Col (Column ''reserved_amount_usd'' (Numeric 14 6) [Nullable False]),
      Col (Column ''ticket_cap_usd'' (Numeric 14 6) [Nullable False]),
      Col (Column ''daily_team_cap_usd'' (Numeric 14 6) [Nullable False]),
      Col (Column ''monthly_team_cap_usd'' (Numeric 14 6) [Nullable False]),
      Col (Column ''ticket_cap_remaining_usd'' (Numeric 14 6) [Nullable False]),
      Col (Column ''daily_team_cap_remaining_usd'' (Numeric 14 6) [Nullable False]),
      Col (Column ''monthly_team_cap_remaining_usd'' (Numeric 14 6) [Nullable False]),
      Col (Column ''status'' (VarChar 32) [Nullable False]),
      Col (Column ''release_reason'' Text [Nullable True]),
      Col (Column ''released_amount_usd'' (Numeric 14 6) [Nullable True]),
      Col (Column ''created_at'' DateTime [Nullable False, ServerDefault (SqlText ''now()'')]),
      Col (Column ''updated_at'' DateTime [Nullable False, ServerDefault (SqlText ''now()'')])])"

definition budget_charges_table :: "str \<times> table_arg list" where
  "budget_charges_table =
    (''budget_charges'',
     [Col (Column ''id'' BigInteger [PrimaryKey, Autoincrement]),
      Col (Column ''reservation_id'' (VarChar 64) [Nullable False, Unique]),
      Col (Column ''tenant_id'' (VarChar 128) [Nullable False]),
      Col (Column ''team_id'' (VarChar 128) [Nullable False]),
      Col (Column ''run_id'' (VarChar 64) [Nullable False]),
      Col (Column ''estimated_cost_usd'' (Numeric 14 6) [Nullable False]),
      Col (Column ''actual_cost_usd'' (Numeric 14 6) [Nullable False]),
      Col (Column ''refunded_amount_usd'' (Numeric 14 6) [Nullable False]),
      Col (Column ''created_at'' DateTime [Nullable False, ServerDefault (SqlText ''now()'')])])"

definition budget_denials_table :: "str \<times> table_arg list" where
  "budget_denials_table =
    (''budget_denials'',
     [Col (Column ''id'' BigInteger [PrimaryKey, Autoincrement]),
      Col (Column ''tenant_id'' (VarChar 128) [Nullable False]),
      Col (Column ''team_id'' (VarChar 128) [Nullable False]),
      Col (Column ''run_id'' (VarChar 64) [Nullable False]),
      Col (Column ''ticket_key'' (VarChar 128) [Nullable False]),
      Col (Column ''role'' (VarChar 64) [Nullable False]),
      Col (Column ''requested_amount_usd'' (Numeric 14 6) [Nullable False]),
      Col (Column ''ticket_cap_usd'' (Numeric 14 6) [Nullable False]),
      Col (Column ''daily_team_cap_usd'' (Numeric 14 6) [Nullable False]),
      Col (Column ''monthly_team_cap_usd'' (Numeric 14 6) [Nullable False]),
      Col (Column ''denial_reason'' (VarChar 64) [Nullable False]),
      Col (Column ''evidence_summary'' Text [Nullable False]),
      Col (Column ''created_at'' DateTime [Nullable False, ServerDefault (SqlText ''now()'')])])"

definition metering_facts_table :: "str \<times> table_arg list" where
  "metering_facts_table =
    (''metering_facts'',
     [Col (Column ''usage_id'' (VarChar 64) [PrimaryKey]),
      Col (Column ''tenant_id'' (VarChar 128) [Nullable False]),
      Col (Column ''team_id'' (VarChar 128) [Nullable False]),
      Col (Column ''run_id'' (VarChar 64) [Nullable False]),
      Col (Column ''ticket_key'' (VarChar 128) [Nullable False]),
      Col (Column ''role'' (VarChar 64) [Nullable False]),
      Col (Column ''provider_id'' (VarChar 128) [Nullable False]),
      Col (Column ''model_id'' (VarChar 255) [Nullable False]),
      Col (Column ''deployment_profile'' (VarChar 64) [Nullable False]),
      Col (Column ''fallback_used'' Boolean [Nullable False, ServerDefault (SqlText ''false'')]),
      Col (Column ''input_tokens'' Integer [Nullable False]),
      Col (Column ''output_tokens'' Integer [Nullable False]),
      Col (Column ''cached_tokens'' Integer [Nullable False, ServerDefault (SqlText ''0'')]),
      Col (Column ''latency_ms'' Integer [Nullable False]),
      Col (Column ''request_count'' Integer [Nullable False, ServerDefault (SqlText ''1'')]),
      Col (Column ''reservation_id'' (VarChar 64) [Nullable True]),
      Col (Column ''estimated_cost_usd'' (Numeric 14 6) [Nullable False]),
      Col (Column ''actual_cost_usd'' (Numeric 14 6) [Nullable False]),
      Col (Column ''rate_card_id'' (VarChar 255) [Nullable False]),
      Col (Column ''provider_request_id'' (VarChar 255) [Nullable True]),
      Col (Column ''trace_id'' (VarChar 255) [Nullable False]),
      Col (Column ''span_id'' (VarChar 255) [Nullable False]),
      Col (Column ''started_at'' DateTime [Nullable False]),
      Col (Column ''completed_at'' DateTime [Nullable False]),
      Col (Column ''status'' (VarChar 64) [Nullable False])])"

definition metering_hourly_rollups_table :: "str \<times> table_arg list" where
  "metering_hourly_rollups_table =
    (''metering_hourly_rollups'',
     [Col (Column ''rollup_id'' (VarChar 255) [PrimaryKey]),
      Col (Column ''bucket_start'' DateTime [Nullable False]),
      Col (Column ''tenant_id'' (VarChar 128) [Nullable False]),
      Col (Column ''team_id'' (VarChar 128) [Nullable False]),
      Col (Column ''role'' (VarChar 64) [Nullable False]),
      Col (Column ''provider_id'' (VarChar 128) [Nullable False]),
      Col (Column ''model_id'' (VarChar 255) [Nullable False]),
      Col (Column ''rate_card_id'' (VarChar 255) [Nullable False]),
      Col (Column ''request_count'' Integer [Nullable False]),
      Col (Column ''total_input_tokens'' Integer [Nullable False]),
      Col (Column ''total_output_tokens'' Integer [Nullable False]),
      Col (Column ''total_actual_cost_usd'' (Numeric 14 6) [Nullable False]),
      Col (Column ''usage_ids'' JSONB [Nullable False, ServerDefault (SqlText (quoted ''[]'' @ ''::jsonb''))]),
      Col (Column ''sealed'' Boolean [Nullable False, ServerDefault (SqlText ''false'')]),
      Col (Column ''created_at'' DateTime [Nullable False, ServerDefault (SqlText ''now()'')]),
      Col (Column ''updated_at'' DateTime [Nullable False, ServerDefault (SqlText ''now()'')])])"

definition model_catalog_entries_table :: "str \<times> table_arg list" where
  "model_catalog_entries_table =
    (''model_catalog_entries'',
     [Col (Column ''model_id'' (VarChar 255) [PrimaryKey]),
      Col (Column ''provider_id'' (VarChar 128) [Nullable False]),
      Col (Column ''deployment_profile'' (VarChar 64) [PrimaryKey]),
      Col (Column ''max_input_tokens'' Integer [Nullable False]),
      Col (Column ''max_output_tokens'' Integer [Nullable False]),
      Col (Column ''default_price_card_id'' (VarChar 255) [Nullable False]),
      Col (Column ''supports_tools'' Boolean [Nullable False, ServerDefault (SqlText ''false'')]),
      Col (Column ''supports_json_mode'' Boolean [Nullable False, ServerDefault (SqlText ''false'')]),
      Col (Column ''supports_streaming'' Boolean [Nullable False, ServerDefault (SqlText ''false'')]),
      Col (Column ''allowed_fallback_targets'' JSONB [Nullable False, ServerDefault (SqlText (quoted ''[]'' @ ''::jsonb''))]),
      Col (Column ''created_at'' DateTime [Nullable False, ServerDefault (SqlText ''now()'')]),
      Col (Column ''updated_at'' DateTime [Nullable False, ServerDefault (SqlText ''now()'')])])"

definition role_token_policies_table :: "str \<times> table_arg list" where
  "role_token_policies_table =
    (''role_token_policies'',
     [Col (Column ''role'' (VarChar 64) [PrimaryKey]),
      Col (Column ''max_input_tokens'' Integer [Nullable False]),
      Col (Column ''max_output_tokens'' Integer [Nullable False]),
      Col (Column ''created_at'' DateTime [Nullable False, ServerDefault (SqlText ''now()'')]),
      Col (Column ''updated_at'' DateTime [Nullable False, ServerDefault (SqlText ''now()'')])])"

definition provider_health_events_table :: "str \<times> table_arg list" where
  "provider_health_events_table =
    (''provider_health_events'',
     [Col (Column ''id'' BigInteger [PrimaryKey, Autoincrement]),
      Col (Column ''provider_id'' (VarChar 128) [Nullable False]),
      Col (Column ''event_kind'' (VarChar 64) [Nullable False]),
      Col (Column ''state'' (VarChar 32) [Nullable False]),
      Col (Column ''consecutive_failures'' Integer [Nullable False, ServerDefault (SqlText ''0'')]),
      Col (Column ''remaining_probe_attempts'' Integer [Nullable False, ServerDefault (SqlText ''0'')]),
      Col (Column ''evidence_summary'' Text [Nullable False]),
      Col (Column ''created_at'' DateTime [Nullable False, ServerDefault (SqlText ''now()'')])])"

definition graph_versions_table :: "str \<times> table_arg list" where
  "graph_versions_table =
    (''graph_versions'',
     [Col (Column ''record_id'' (VarChar 64) [PrimaryKey]),
      Col (Column ''version_number'' Integer [Nullable False, Unique]),
      Col (Column ''created_by'' (VarChar 255) [Nullable False]),
      Col (Column ''rationale'' Text [Nullable False]),
      Col (Column ''payload'' JSONB [Nullable False]),
      Col (Column ''created_at'' DateTime [Nullable False, ServerDefault (SqlText ''now()'')])])"

definition agent_versions_table :: "str \<times> table_arg list" where
  "agent_versions_table =
    (''agent_versions'',
     [Col (Column ''record_id'' (VarChar 64) [PrimaryKey]),
      Col (Column ''version_number'' Integer [Nullable False, Unique]),
      Col (Column ''created_by'' (VarChar 255) [Nullable False]),
      Col (Column ''rationale'' Text [Nullable False]),
      Col (Column ''payload'' JSONB [Nullable False]),
      Col (Column ''created_at'' DateTime [Nullable False, ServerDefault (SqlText ''now()'')])])"

definition shadow_reports_table :: "str \<times> table_arg list" where
  "shadow_reports_table =
    (''shadow_reports'',
     [Col (Column ''report_id'' (VarChar 64) [PrimaryKey]),
      Col (Column ''candidate_version_id'' (VarChar 64) [Nullable False]),
      Col (Column ''active_version_id'' (VarChar 64) [Nullable True]),
      Col (Column ''success_rate_delta'' (Numeric 8 4) [Nullable False]),
      Col (Column ''cost_delta_usd'' (Numeric 12 4) [Nullable False]),
      Col (Column ''safety_regressions'' JSONB [Nullable False, ServerDefault (SqlText (quoted ''[]'' @ ''::jsonb''))]),
      Col (Column ''blocked'' Boolean [Nullable False]),
      Col (Column ''blocking_reasons'' JSONB [Nullable False, ServerDefault (SqlText (quoted ''[]'' @ ''::jsonb''))]),
      Col (Column ''report_payload'' JSONB [Nullable False]),
      Col (Column ''created_at'' DateTime [Nullable False, ServerDefault (SqlText ''now()'')])])"

definition snapshots_table :: "str \<times> table_arg list" where
  "snapshots_table =
    (''snapshots'',
     [Col (Column ''snapshot_id'' (VarChar 64) [PrimaryKey]),
      Col (Column ''graph_version_id'' (VarChar 64) [Nullable False]),
      Col (Column ''agent_version_ids'' JSONB [Nullable False]),
      Col (Column ''shadow_report_id'' (VarChar 64) [Nullable True]),
      Col (Column ''supersedes_snapshot_id'' (VarChar 64) [Nullable True]),
      Col (Column ''created_by'' (VarChar 255) [Nullable False]),
      Col (Column ''evidence_summary'' Text [Nullable False]),
      Col (Column ''created_at'' DateTime [Nullable False, ServerDefault (SqlText ''now()'')])])"

definition control_plane_state_table :: "str \<times> table_arg list" where
  "control_plane_state_table =
    (''control_plane_state'',
     [Col (Column ''state_key'' (VarChar 32) [PrimaryKey]),
      Col (Column ''active_snapshot_id'' (VarChar 64) [Nullable True]),
      Col (Column ''revision'' Integer [Nullable False, ServerDefault (SqlText ''0'')]),
      Col (Column ''updated_at'' DateTime [Nullable False, ServerDefault (SqlText ''now()'')])])"

definition run_snapshot_bindings_table :: "str \<times> table_arg list" where
  "run_snapshot_bindings_table =
    (''run_snapshot_bindings'',
     [Col (Column ''run_id'' (VarChar 64) [PrimaryKey]),
      Col (Column ''snapshot_id'' (VarChar 64) [Nullable False]),
      Col (Column ''status'' (VarChar 32) [Nullable False]),
      Col (Column ''created_at'' DateTime [Nullable False, ServerDefault (SqlText ''now()'')]),
      Col (Column ''updated_at'' DateTime [Nullable False, ServerDefault (SqlText ''now()'')])])"

definition audit_events_table :: "str \<times> table_arg list" where
  "audit_events_table =
    (''audit_events'',
     [Col (Column ''event_id'' (VarChar 64) [PrimaryKey]),
      Col (Column ''action'' (VarChar 32) [Nullable False]),
      Col (Column ''actor'' (VarChar 255) [Nullable False]),
      Col (Column ''rationale'' Text [Nullable False]),
      Col (Column ''target_id'' (VarChar 64) [Nullable False]),
      Col (Column ''evidence_summary'' Text [Nullable True]),
      Col (Column ''created_at'' DateTime [Nullable False, ServerDefault (SqlText ''now()'')])])"

definition api_deprecations_table :: "str \<times> table_arg list" where
  "api_deprecations_table =
    (''api_deprecations'',
     [Col (Column ''deprecation_id'' (VarChar 64) [PrimaryKey]),
      Col (Column ''route'' (VarChar 255) [Nullable False]),
      Col (Column ''method'' (VarChar 16) [Nullable False]),
      Col (Column ''version'' (VarChar 32) [Nullable False]),
      Col (Column ''deprecated_at'' DateTime [Nullable False]),
      Col (Column ''sunset_at'' DateTime [Nullable False]),
      Col (Column ''rationale'' Text [Nullable False]),
      Col (Column ''replacement_route'' (VarChar 255) [Nullable True]),
      Col (Column ''active'' Boolean [Nullable False, ServerDefault (SqlText ''true'')]),
      Col (Column ''created_at'' DateTime [Nullable False, ServerDefault (SqlText ''now()'')]),
      UniqueConstraint [''route'', ''method'', ''version''] (Some ''uq_api_deprecations_route_method_version'')])"

definition github_app_installations_table :: "str \<times> table_arg list" where
  "github_app_installations_table =
    (''github_app_installations'',
     [Col (Column ''installation_id'' (VarChar 64) [PrimaryKey]),
      Col (Column ''tenant_id'' (VarChar 128) [Nullable False]),
      Col (Column ''team_id'' (VarChar 128) [Nullable False]),
      Col (Column ''account_login'' (VarChar 255) [Nullable False]),
      Col (Column ''github_installation_id'' BigInteger [Nullable False]),
      Col (Column ''permissions_hash'' (VarChar 128) [Nullable False]),
      Col (Column ''github_base_url'' (VarChar 512) [Nullable False, ServerDefault (SqlText (quoted ''https://api.github.com''))]),
      Col (Column ''drift_acknowledged'' Boolean [Nullable False, ServerDefault (SqlText ''true'')]),
      Col (Column ''granted_at'' DateTime [Nullable False, ServerDefault (SqlText ''now()'')]),
      Col (Column ''revoked_at'' DateTime [Nullable True]),
      Col (Column ''created_at'' DateTime [Nullable False, ServerDefault (SqlText ''now()'')]),
      Col (Column ''updated_at'' DateTime [Nullable False, ServerDefault (SqlText ''now()'')]),
      UniqueConstraint [''tenant_id'', ''team_id''] (Some ''uq_github_app_installations_tenant_team'')])"

definition github_integration_credentials_table :: "str \<times> table_arg list" where
  "github_integration_credentials_table =
    (''github_integration_credentials'',
     [Col (Column ''credential_id'' (VarChar 64) [PrimaryKey]),
      Col (Column ''tenant_id'' (VarChar 128) [Nullable False]),
      Col (Column ''team_id'' (VarChar 128) [Nullable False]),
      Col (Column ''credential_type'' (VarChar 32) [Nullable False]),
      Col (Column ''encrypted_payload'' Text [Nullable False]),
      Col (Column ''kek_id'' (VarChar 255) [Nullable False]),
      Col (Column ''rotated_at'' DateTime [Nullable False, ServerDefault (SqlText ''now()'')]),
      Col (Column ''rotation_window_days'' Integer [Nullable False, ServerDefault (SqlText ''90'')]),
      Col (Column ''created_at'' DateTime [Nullable False, ServerDefault (SqlText ''now()'')]),
      Col (Column ''updated_at'' DateTime [Nullable False, ServerDefault (SqlText ''now()'')]),
      UniqueConstraint [''tenant_id'', ''team_id'', ''credential_type''] (Some ''uq_github_integration_credentials_tenant_team_type'')])"

definition pat_opt_ins_table :: "str \<times> table_arg list" where
  "pat_opt_ins_table =
    (''pat_opt_ins'',
     [Col (Column ''opt_in_id'' (VarChar 64) [PrimaryKey]),
      Col (Column ''tenant_id'' (VarChar 128) [Nullable False]),
      Col (Column ''team_id'' (VarChar 128) [Nullable False]),
      Col (Column ''approver_actor'' (VarChar 255) [Nullable False]),
      Col (Column ''rationale'' Text [Nullable False]),
      Col (Column ''allowed_scopes'' JSONB [Nullable False, ServerDefault (SqlText (quoted ''[]'' @ ''::jsonb''))]),
      Col (Column ''expires_at'' DateTime [Nullable False]),
      Col (Column ''revoked_at'' DateTime [Nullable True]),
      Col (Column ''created_at'' DateTime [Nullable False, ServerDefault (SqlText ''now()'')])])"

definition branch_protection_verifications_table :: "str \<times> table_arg list" where
  "branch_protection_verifications_table =
    (''branch_protection_verifications'',
     [Col (Column ''verification_id'' (VarChar 64) [PrimaryKey]),
      Col (Column ''run_id'' (VarChar 64) [Nullable False]),
      Col (Column ''tenant_id'' (VarChar 128) [Nullable False]),
      Col (Column ''team_id'' (VarChar 128) [Nullable False]),
      Col (Column ''repo_full_name'' (VarChar 512) [Nullable False]),
      Col (Column ''branch'' (VarChar 255) [Nullable False]),
      Col (Column ''shadow_mode'' Boolean [Nullable False, ServerDefault (SqlText ''true'')]),
      Col (Column ''passed'' Boolean [Nullable False]),
      Col (Column ''missing_protections'' JSONB [Nullable False, ServerDefault (SqlText (quoted ''[]'' @ ''::jsonb''))]),
      Col (Column ''evidence_summary'' Text [Nullable False]),
      Col (Column ''verified_at'' DateTime [Nullable False, ServerDefault (SqlText ''now()'')])])"

definition knowledge_documents_table :: "str \<times> table_arg list" where
  "knowledge_documents_table =
    (''knowledge_documents'',
     [Col (Column ''document_id'' (VarChar 64) [PrimaryKey]),
      Col (Column ''tenant_id'' (VarChar 128) [Nullable False]),
      Col (Column ''team_id'' (VarChar 128) [Nullable False]),
      Col (Column ''repo_id'' (VarChar 255) [Nullable True]),
      Col (Column ''title'' (VarChar 512) [Nullable False]),
      Col (Column ''source_type'' (VarChar 64) [Nullable False]),
      Col (Column ''source_uri'' Text [Nullable False]),
      Col (Column ''source_version'' (VarChar 255) [Nullable True]),
      Col (Column ''content_sha256'' (VarChar 64) [Nullable False]),
      Col (Column ''metadata'' JSONB [Nullable False, ServerDefault (SqlText (quoted ''{}'' @ ''::jsonb''))]),
      Col (Column ''active'' Boolean [Nullable False, ServerDefault (SqlText ''true'')]),
      Col (Column ''created_by'' (VarChar 255) [Nullable False]),
      Col (Column ''created_at'' DateTime [Nullable False, ServerDefault (SqlText ''now()'')]),
      Col (Column ''updated_at'' DateTime [Nullable False, ServerDefault (SqlText ''now()'')]),
      UniqueConstraint [''tenant_id'', ''source_uri'', ''content_sha256''] (Some ''uq_knowledge_documents_source_hash'')])"

definition knowledge_ingestion_jobs_table :: "str \<times> table_arg list" where
  "knowledge_ingestion_jobs_table =
    (''knowledge_ingestion_jobs'',
     [Col (Column ''job_id'' (VarChar 64) [PrimaryKey]),
      Col (Column ''tenant_id'' (VarChar 128) [Nullable False]),
      Col (Column ''team_id'' (VarChar 128) [Nullable False]),
      Col (Column ''document_id'' (VarChar 64) [ForeignKey ''knowledge_documents'' ''document_id'', Nullable True]),
      Col (Column ''source_uri'' Text [Nullable False]),
      Col (Column ''status'' (VarChar 32) [Nullable False]),
      Col (Column ''embedding_model'' (VarChar 255) [Nullable False]),
      Col (Column ''embedding_dims'' Integer [Nullable False, ServerDefault (SqlText ''1536'')]),
      Col (Column ''total_chunks'' Integer [Nullable False, ServerDefault (SqlText ''0'')]),
      Col (Column ''processed_chunks'' Integer [Nullable False, ServerDefault (SqlText ''0'')]),
      Col (Column ''error_message'' Text [Nullable True]),
      Col (Column ''created_by'' (VarChar 255) [Nullable False]),
      Col (Column ''created_at'' DateTime [Nullable False, ServerDefault (SqlText ''now()'')]),
      Col (Column ''started_at'' DateTime [Nullable True]),
      Col (Column ''completed_at'' DateTime [Nullable True])])"

definition knowledge_chunks_table :: "str \<times> table_arg list" where
  "knowledge_chunks_table =
    (''knowledge_chunks'',
     [Col (Column ''chunk_id'' (VarChar 64) [PrimaryKey]),
      Col (Column ''tenant_id'' (VarChar 128) [Nullable False]),
      Col (Column ''team_id'' (VarChar 128) [Nullable False]),
      Col (Column ''document_id'' (VarChar 64) [ForeignKey ''knowledge_documents'' ''document_id'', Nullable False]),
      Col (Column ''chunk_index'' Integer [Nullable False]),
      Col (Column ''source_type'' (VarChar 64) [Nullable False]),
      Col (Column ''content'' Text [Nullable False]),
      Col (Column ''content_sha256'' (VarChar 64) [Nullable False]),
      Col (Column ''embedding_model'' (VarChar 255) [Nullable False]),
      Col (Column ''embedding_dims'' Integer [Nullable False, ServerDefault (SqlText ''1536'')]),
      Col (Column ''embedding'' (Vector 1536) [Nullable False]),
      Col (Column ''metadata'' JSONB [Nullable False, ServerDefault (SqlText (quoted ''{}'' @ ''::jsonb''))]),
      Col (Column ''created_at'' DateTime [Nullable False, ServerDefault (SqlText ''now()'')]),
      UniqueConstraint [''tenant_id'', ''document_id'', ''chunk_index''] (Some ''uq_knowledge_chunks_tenant_document_index'')])"

definition admission_exceptions_table :: "str \<times> table_arg list" where
  "admission_exceptions_table =
    (''admission_exceptions'',
     [Col (Column ''exception_id'' (VarChar 64) [PrimaryKey]),
      Col (Column ''tenant_id'' (VarChar 128) [Nullable False]),
      Col (Column ''team_id'' (VarChar 128) [Nullable False]),
      Col (Column ''policy_name'' (VarChar 255) [Nullable False]),
      Col (Column ''image_reference'' (VarChar 512) [Nullable False]),
      Col (Column ''rationale'' Text [Nullable False]),
      Col (Column ''approved_by'' (VarChar 255) [Nullable False]),
      Col (Column ''second_approver'' (VarChar 255) [Nullable False]),
      Col (Column ''expires_at'' DateTime [Nullable False]),
      Col (Column ''revoked_at'' DateTime [Nullable True]),
      Col (Column ''revoked_by'' (VarChar 255) [Nullable True]),
      Col (Column ''revoke_reason'' Text [Nullable True]),
      Col (Column ''metadata'' JSONB [Nullable False, ServerDefault (SqlText (quoted ''{}'' @ ''::jsonb''))]),
      Col (Column ''created_at'' DateTime [Nullable False, ServerDefault (SqlText ''now()'')]),
      Col (Column ''updated_at'' DateTime [Nullable False, ServerDefault (SqlText ''now()'')])])"

definition price_rate_cards_table :: "str \<times> table_arg list" where
  "price_rate_cards_table =
    (''price_rate_cards'',
     [Col (Column ''rate_card_id'' (VarChar 64) [PrimaryKey]),
      Col (Column ''provider'' (VarChar 128) [Nullable False]),
      Col (Column ''model'' (VarChar 255) [Nullable False]),
      Col (Column ''unit'' (VarChar 32) [Nullable False, ServerDefault (SqlText (quoted ''per_1k_tokens''))]),
      Col (Column ''rate_usd'' (Numeric 14 6) [Nullable False]),
      Col (Column ''effective_from'' DateTime [Nullable False]),
      Col (Column ''effective_to'' DateTime [Nullable True]),
      Col (Column ''version'' Integer [Nullable False, ServerDefault (SqlText ''1'')]),
      Col (Column ''status'' (VarChar 32) [Nullable False, ServerDefault (SqlText (quoted ''draft''))]),
      Col (Column ''created_by'' (VarChar 255) [Nullable False]),
      Col (Column ''activated_by'' (VarChar 255) [Nullable True]),
      Col (Column ''activated_at'' DateTime [Nullable True]),
      Col (Column ''metadata'' JSONB [Nullable False, ServerDefault (SqlText (quoted ''{}'' @ ''::jsonb''))]),
      Col (Column ''created_at'' DateTime [Nullable False, ServerDefault (SqlText ''now()'')]),
      Col (Column ''updated_at'' DateTime [Nullable False, ServerDefault (SqlText ''now()'')])])"

definition reconciliation_reports_table :: "str \<times> table_arg list" where
  "reconciliation_reports_table =
    (''reconciliation_reports'',
     [Col (Column ''report_id'' (VarChar 64) [PrimaryKey]),
      Col (Column ''tenant_id'' (VarChar 128) [Nullable False]),
      Col (Column ''period_start'' DateTime [Nullable False]),
      Col (Column ''period_end'' DateTime [Nullable False]),
      Col (Column ''provider'' (VarChar 128) [Nullable False]),
      Col (Column ''metered_total_usd'' (Numeric 14 6) [Nullable False]),
      Col (Column ''provider_reported_total_usd'' (Numeric 14 6) [Nullable False]),
      Col (Column ''drift_amount_usd'' (Numeric 14 6) [Nullable False]),
      Col (Column ''drift_percentage'' (Numeric 8 4) [Nullable False]),
      Col (Column ''missing_provider_request_ids'' Integer [Nullable False, ServerDefault (SqlText ''0'')]),
      Col (Column ''matched_usage_count'' Integer [Nullable False, ServerDefault (SqlText ''0'')]),
      Col (Column ''unmatched_usage_count'' Integer [Nullable False, ServerDefault (SqlText ''0'')]),
      Col (Column ''mode'' (VarChar 32) [Nullable False, ServerDefault (SqlText (quoted ''dry_run''))]),
      Col (Column ''usage_ids'' JSONB [Nullable False, ServerDefault (SqlText (quoted ''[]'' @ ''::jsonb''))]),
      Col (Column ''rollup_ids'' JSONB [Nullable False, ServerDefault (SqlText (quoted ''[]'' @ ''::jsonb''))]),
      Col (Column ''created_at'' DateTime [Nullable False, ServerDefault (SqlText ''now()'')])])"

definition tenant_delete_events_table :: "str \<times> table_arg list" where
  "tenant_delete_events_table =
    (''tenant_delete_events'',
     [Col (Column ''event_id'' (VarChar 64) [PrimaryKey]),
      Col (Column ''tenant_id'' (VarChar 128) [Nullable False]),
      Col (Column ''requested_by'' (VarChar 255) [Nullable False]),
      Col (Column ''reason'' Text [Nullable False]),
      Col (Column ''approved_by_first'' (VarChar 255) [Nullable True]),
      Col (Column ''approved_by_second'' (VarChar 255) [Nullable True]),
      Col (Column ''approved_at'' DateTime [Nullable True]),
      Col (Column ''status'' (VarChar 32) [Nullable False, ServerDefault (SqlText (quoted ''pending''))]),
      Col (Column ''deletion_counts'' JSONB [Nullable False, ServerDefault (SqlText (quoted ''{}'' @ ''::jsonb''))]),
      Col (Column ''completed_at'' DateTime [Nullable True]),
      Col (Column ''created_at'' DateTime [Nullable False, ServerDefault (SqlText ''now()'')])])"

definition dpa_versions_table :: "str \<times> table_arg list" where
  "dpa_versions_table =
    (''dpa_versions'',
     [Col (Column ''version'' (VarChar 32) [PrimaryKey]),
      Col (Column ''published_at'' DateTime [Nullable False]),
      Col (Column ''content_hash'' (VarChar 64) [Nullable False]),
      Col (Column ''summary'' Text [Nullable False]),
      Col (Column ''published_by'' (VarChar 255) [Nullable False]),
      Col (Column ''grace_period_days'' Integer [Nullable False, ServerDefault (SqlText ''30'')]),
      Col (Column ''created_at'' DateTime [Nullable False, ServerDefault (SqlText ''now()'')])])"

definition dpa_acknowledgements_table :: "str \<times> table_arg list" where
  "dpa_acknowledgements_table =
    (''dpa_acknowledgements'',
     [Col (Column ''ack_id'' (VarChar 64) [PrimaryKey]),
      Col (Column ''tenant_id'' (VarChar 128) [Nullable False]),
      Col (Column ''dpa_version'' (VarChar 32) [Nullable False]),
      Col (Column ''acknowledged_by'' (VarChar 255) [Nullable False]),
      Col (Column ''acknowledged_at'' DateTime [Nullable False, ServerDefault (SqlText ''now()'')]),
      UniqueConstraint [''tenant_id'', ''dpa_version''] (Some ''uq_dpa_ack_tenant_version'')])"

definition retention_policies_table :: "str \<times> table_arg list" where
  "retention_policies_table =
    (''retention_policies'',
     [Col (Column ''policy_id'' (VarChar 64) [PrimaryKey]),
      Col (Column ''surface'' (VarChar 64) [Nullable False]),
      Col (Column ''tenant_id'' (VarChar 128) [Nullable False]),
      Col (Column ''retention_days'' Integer [Nullable False]),
      Col (Column ''enabled'' Boolean [Nullable False, ServerDefault (SqlText ''true'')]),
      Col (Column ''created_at'' DateTime [Nullable False, ServerDefault (SqlText ''now()'')]),
      Col (Column ''updated_at'' DateTime [Nullable False, ServerDefault (SqlText ''now()'')]),
      UniqueConstraint [''surface'', ''tenant_id''] (Some ''uq_retention_surface_tenant'')])"

definition retention_runs_table :: "str \<times> table_arg list" where
  "retention_runs_table =
    (''retention_runs'',
     [Col (Column ''run_id'' (VarChar 64) [PrimaryKey]),
      Col (Column ''surface'' (VarChar 64) [Nullable False]),
      Col (Column ''tenant_id'' (VarChar 128) [Nullable False]),
      Col (Column ''rows_affected'' Integer [Nullable False, ServerDefault (SqlText ''0'')]),
      Col (Column ''partitions_dropped'' Integer [Nullable False, ServerDefault (SqlText ''0'')]),
      Col (Column ''duration_ms'' Integer [Nullable False, ServerDefault (SqlText ''0'')]),
      Col (Column ''status'' (VarChar 32) [Nullable False, ServerDefault (SqlText (quoted ''success''))]),
      Col (Column ''error_message'' Text [Nullable True]),
      Col (Column ''mode'' (VarChar 32) [Nullable False, ServerDefault (SqlText (quoted ''enforce''))]),
      Col (Column ''started_at'' DateTime [Nullable False, ServerDefault (SqlText ''now()'')]),
      Col (Column ''completed_at'' DateTime [Nullable True])])"

definition metadata_tables :: "(str \<times> table_arg list) list" where
  "metadata_tables =
    [runs_table,
     webhook_idempotency_records_table,
     webhook_secret_rotations_table,
     webhook_rate_limit_rejections_table,
     credential_rotation_schedule_table,
     break_glass_grants_table,
     kek_versions_table,
     dead_letter_records_table,
     budget_cap_snapshots_table,
     budget_reservations_table,
     budget_charges_table,
     budget_denials_table,
     metering_facts_table,
     metering_hourly_rollups_table,
     model_catalog_entries_table,
     role_token_policies_table,
     provider_health_events_table,
     graph_versions_table,
     agent_versions_table,
     shadow_reports_table,
     snapshots_table,
     control_plane_state_table,
     run_snapshot_bindings_table,
     audit_events_table,
     api_deprecations_table,
     github_app_installations_table,
     github_integration_credentials_table,
     pat_opt_ins_table,
     branch_protection_verifications_table,
     knowledge_documents_table,
     knowledge_ingestion_jobs_table,
     knowledge_chunks_table,
     admission_exceptions_table,
     price_rate_cards_table,
     reconciliation_reports_table,
     tenant_delete_events_table,
     dpa_versions_table,
     dpa_acknowledgements_table,
     retention_policies_table,
     retention_runs_table]"

lemma table_names [simp]:
  "fst runs_table = ''runs''"
  "fst webhook_idempotency_records_table = ''webhook_idempotency_records''"
  "fst webhook_secret_rotations_table = ''webhook_secret_rotations''"
  "fst webhook_rate_limit_rejections_table = ''webhook_rate_limit_rejections''"
  "fst credential_rotation_schedule_table = ''credential_rotation_schedule''"
  "fst break_glass_grants_table = ''break_glass_grants''"
  "fst kek_versions_table = ''kek_versions''"
  "fst dead_letter_records_table = ''dead_letter_records''"
  "fst budget_cap_snapshots_table = ''budget_cap_snapshots''"
  "fst budget_reservations_table = ''budget_reservations''"
  "fst budget_charges_table = ''budget_charges''"
  "fst budget_denials_table = ''budget_denials''"
  "fst metering_facts_table = ''metering_facts''"
  "fst metering_hourly_rollups_table = ''metering_hourly_rollups''"
  "fst model_catalog_entries_table = ''model_catalog_entries''"
  "fst role_token_policies_table = ''role_token_policies''"
  "fst provider_health_events_table = ''provider_health_events''"
  "fst graph_versions_table = ''graph_versions''"
  "fst agent_versions_table = ''agent_versions''"
  "fst shadow_reports_table = ''shadow_reports''"
  "fst snapshots_table = ''snapshots''"
  "fst control_plane_state_table = ''control_plane_state''"
  "fst run_snapshot_bindings_table = ''run_snapshot_bindings''"
  "fst audit_events_table = ''audit_events''"
  "fst api_deprecations_table = ''api_deprecations''"
  "fst github_app_installations_table = ''github_app_installations''"
  "fst github_integration_credentials_table = ''github_integration_credentials''"
  "fst pat_opt_ins_table = ''pat_opt_ins''"
  "fst branch_protection_verifications_table = ''branch_protection_verifications''"
  "fst knowledge_documents_table = ''knowledge_documents''"
  "fst knowledge_ingestion_jobs_table = ''knowledge_ingestion_jobs''"
  "fst knowledge_chunks_table = ''knowledge_chunks''"
  "fst admission_exceptions_table = ''admission_exceptions''"
  "fst price_rate_cards_table = ''price_rate_cards''"
  "fst reconciliation_reports_table = ''reconciliation_reports''"
  "fst tenant_delete_events_table = ''tenant_delete_events''"
  "fst dpa_versions_table = ''dpa_versions''"
  "fst dpa_acknowledgements_table = ''dpa_acknowledgements''"
  "fst retention_policies_table = ''retention_policies''"
  "fst retention_runs_table = ''retention_runs''"
  by (simp_all add: runs_table_def webhook_idempotency_records_table_def webhook_secret_rotations_table_def webhook_rate_limit_rejections_table_def
      credential_rotation_schedule_table_def break_glass_grants_table_def kek_versions_table_def dead_letter_records_table_def
      budget_cap_snapshots_table_def budget_reservations_table_def budget_charges_table_def budget_denials_table_def
      metering_facts_table_def metering_hourly_rollups_table_def model_catalog_entries_table_def role_token_policies_table_def
      provider_health_events_table_def graph_versions_table_def agent_versions_table_def shadow_reports_table_def
      snapshots_table_def control_plane_state_table_def run_snapshot_bindings_table_def audit_events_table_def
      api_deprecations_table_def github_app_installations_table_def github_integration_credentials_table_def pat_opt_ins_table_def
      branch_protection_verifications_table_def knowledge_documents_table_def knowledge_ingestion_jobs_table_def knowledge_chunks_table_def
      admission_exceptions_table_def price_rate_cards_table_def reconciliation_reports_table_def tenant_delete_events_table_def
      dpa_versions_table_def dpa_acknowledgements_table_def retention_policies_table_def retention_runs_table_def)

end
