(* ===== verification/MigrationChecks.thy ===== *)
theory MigrationChecks
  imports Migrations DdlFrame SchemaTables
begin

text \<open>
  What the revisions do to a database: they all apply, from the empty database and from any revision in
  between, and each is undone by its \<open>downgrade\<close>; no \<open>upgrade\<close> loses a row. The checks of the statements
  are evaluated family by family: the names of a family of tables share a prefix, and \<open>split_script\<close> puts
  the families together.
\<close>

section \<open>The chain as scripts\<close>

definition empty_database :: "bool \<Rightarrow> database" where
  "empty_database pgvector =
     \<lparr>db_available_extensions = (if pgvector then [''vector''] else []), db_extensions = [], db_schemas = [],
      db_functions = [], db_tables = []\<rparr>"

definition upgrades :: "bool \<Rightarrow> ddl list list" where
  "upgrades pgvector =
     [upgrade_0001, upgrade_0002, upgrade_0003, upgrade_0004, upgrade_0005, upgrade_0006, upgrade_0007,
      upgrade_0008, upgrade_0009 pgvector, upgrade_0010, upgrade_0011, upgrade_0012, upgrade_0013,
      upgrade_0014, upgrade_0015, upgrade_0016, upgrade_0017]"

definition downgrades :: "ddl list list" where
  "downgrades = map rv_downgrade versions"

definition family_of :: "str \<Rightarrow> nat option" where
  "family_of s =
     map_of [(''run'', 0), (''web'', 0), (''gra'', 0), (''age'', 0), (''aud'', 0), (''con'', 0), (''sna'', 0), (''sha'', 0),
       (''dea'', 1), (''bud'', 1), (''met'', 10), (''pro'', 10), (''rol'', 10), (''mod'', 10), (''rec'', 10), (''pri'', 10),
       (''git'', 2), (''bra'', 2), (''pat'', 2), (''kno'', 3), (''api'', 4), (''adm'', 5), (''cre'', 6), (''kek'', 6),
       (''bre'', 6), (''dpa'', 7), (''ret'', 7), (''ten'', 7), (''fea'', 8), (''che'', 9)]
       (take 3 (if take 3 s = ''ix_'' \<or> take 3 s = ''uq_'' then drop 3 s else s))"

definition family :: "nat \<Rightarrow> str set" where
  "family j = {s. family_of s = Some j}"

fun names_nothing :: "ddl \<Rightarrow> bool" where
  "names_nothing (CreateSchema s) = True"
| "names_nothing (CreateFunction f b) = True"
| "names_nothing (CreateExtension n) = True"
| "names_nothing (DropSchema s) = True"
| "names_nothing (DropFunction f) = True"
| "names_nothing op = False"

lemma names_nothing_iff [simp]: "mentions op = [] \<longleftrightarrow> names_nothing op"
  by (cases op) simp_all

lemma families_nonempty: "{..<11 :: nat} \<noteq> {}"
  by (simp add: lessThan_empty_iff)

lemma families_disjoint: "\<forall>i \<in> J. \<forall>j \<in> J. i \<noteq> j \<longrightarrow> family i \<inter> family j = {}"
  by (auto simp: family_def)

text \<open>A statement belongs to the family of the first relation it names.\<close>

definition home :: "ddl \<Rightarrow> nat" where
  "home op = (case family_of (hd (mentions op)) of None \<Rightarrow> 0 | Some i \<Rightarrow> i)"

definition part :: "nat \<Rightarrow> ddl list \<Rightarrow> ddl list" where
  "part j ops = filter (\<lambda>op. home op = j \<or> names_nothing op) ops"

definition tagged :: "ddl list \<Rightarrow> script" where
  "tagged ops = map (\<lambda>op. (home op, op)) ops"

definition homely :: "ddl list \<Rightarrow> bool" where
  "homely ops \<longleftrightarrow>
     list_all (\<lambda>op. names_nothing op \<or> home op < 11 \<and>
       list_all (\<lambda>n. family_of n = Some (home op)) (mentions op)) ops"

definition at_home :: "nat \<Rightarrow> ddl list \<Rightarrow> bool" where
  "at_home i ops \<longleftrightarrow> list_all (\<lambda>op. names_nothing op \<or> list_all (\<lambda>n. family_of n = Some i) (mentions op)) ops"

lemma own_part_tagged: "own_part j (tagged ops) = part j ops"
  by (simp add: own_part_def part_def tagged_def filter_map comp_def)

lemma well_tagged_tagged: "homely ops \<Longrightarrow> well_tagged family {..<11} (tagged ops)"
  by (auto simp: homely_def well_tagged_def tagged_def list_all_iff family_def)

lemma home_at_home:
  assumes "at_home i ops" "op \<in> set ops" "\<not> names_nothing op"
  shows "home op = i \<and> (\<forall>n \<in> set (mentions op). family_of n = Some i)"
proof -
  have all: "\<forall>n \<in> set (mentions op). family_of n = Some i"
    using assms by (auto simp: at_home_def list_all_iff)
  moreover have "hd (mentions op) \<in> set (mentions op)" using assms(3) by (intro hd_in_set) simp
  ultimately show ?thesis by (simp add: home_def)
qed

lemma part_at_home:
  assumes "at_home i ops"
  shows "part j ops = (if j = i then ops else filter names_nothing ops)"
proof (cases "j = i")
  case True
  have "\<forall>op \<in> set ops. home op = j \<or> names_nothing op"
    using home_at_home[OF assms] True by blast
  then show ?thesis using True by (simp add: part_def)
next
  case False
  have "filter (\<lambda>op. home op = j \<or> names_nothing op) ops = filter names_nothing ops"
    using home_at_home[OF assms] False by (intro filter_cong) auto
  then show ?thesis using False by (simp add: part_def)
qed

lemma homely_at_home: "at_home i ops \<Longrightarrow> i < 11 \<Longrightarrow> homely ops"
  using home_at_home[of i ops] by (fastforce simp: homely_def list_all_iff)

text \<open>Row security that is forced but not enabled has no effect, and the extension stays: what
  \<open>downgrade\<close> leaves behind is forgotten.\<close>

definition settle_table :: "sql_table \<Rightarrow> sql_table" where
  "settle_table t = (if tb_row_security t then t else t\<lparr>tb_force_row_security := False\<rparr>)"

definition settled :: "database \<Rightarrow> database" where
  "settled d = d\<lparr>db_tables := map settle_table (db_tables d), db_extensions := []\<rparr>"

fun reversible_from :: "(ddl list \<times> ddl list) list \<Rightarrow> database \<Rightarrow> database option" where
  "reversible_from [] d = Some d"
| "reversible_from ((u, w) # ps) d =
     (if u = [] \<and> w = [] then reversible_from ps d
      else case execute_all u d of Inl e \<Rightarrow> None
      | Inr d' \<Rightarrow> (case execute_all w d' of Inl e \<Rightarrow> None
                | Inr d'' \<Rightarrow> if settled d'' = settled d then reversible_from ps d' else None))"

definition parts :: "nat \<Rightarrow> bool \<Rightarrow> (ddl list \<times> ddl list) list" where
  "parts j pgvector =
     map (\<lambda>(u, w). (part j u, part j w)) (zip (upgrades pgvector) downgrades)"

section \<open>What the tables should be\<close>

text \<open>The tables of tenants under row level security: whoever connects sees the rows \<open>tenant_visible\<close>
  admits, unless the table's owner is exempt.\<close>

definition tenant_scoped :: "sql_table \<Rightarrow> bool" where
  "tenant_scoped t \<longleftrightarrow> ''tenant_id'' \<in> set (column_names t)"

definition tenant_policy :: "sql_table \<Rightarrow> policy" where
  "tenant_policy t =
     \<lparr>po_name = tb_name t @ ''_tenant_scope'', po_using = (''app'', ''tenant_visible''),
      po_arguments = [''tenant_id'', ''team_id'']\<rparr>"

definition row_secured :: "sql_table \<Rightarrow> bool" where
  "row_secured t \<longleftrightarrow> tb_row_security t \<and> tb_force_row_security t \<and> tb_policies t = [tenant_policy t]"

definition secured_tables :: "str list" where
  "secured_tables =
     [''runs'', ''webhook_idempotency_records'', ''dead_letter_records'', ''budget_cap_snapshots'',
      ''budget_reservations'', ''budget_charges'', ''budget_denials'', ''metering_facts'',
      ''metering_facts_default'', ''metering_hourly_rollups'', ''knowledge_documents'',
      ''knowledge_ingestion_jobs'', ''knowledge_chunks'']"

definition unsecured_tables :: "str list" where
  "unsecured_tables =
     [''webhook_secret_rotations'', ''webhook_rate_limit_rejections'', ''github_app_installations'',
      ''github_integration_credentials'', ''pat_opt_ins'', ''branch_protection_verifications'',
      ''admission_exceptions'', ''reconciliation_reports'', ''credential_rotation_schedule'',
      ''break_glass_grants'', ''tenant_delete_events'', ''dpa_acknowledgements'', ''retention_policies'',
      ''retention_runs'']"

text \<open>Where a migrated table departs from its declaration in \<open>schema.py\<close>. The quotes of an integer
  default make no difference to the server.\<close>

datatype difference =
    MissingColumn str | ExtraColumn str | TypeDiffers str sql_type sql_type | NullabilityDiffers str
  | DefaultDiffers str "str option" "str option" | PrimaryKeyDiffers "str list" "str list" | MissingKey "str list"

definition normal_default :: "sql_type \<Rightarrow> str option \<Rightarrow> str option" where
  "normal_default ty dflt =
     (if ty = Integer then map_option (filter (\<lambda>c. c \<noteq> CHR 0x27)) dflt else dflt)"

definition column_difference :: "sql_table \<Rightarrow> str \<times> sql_type \<times> bool \<times> str option \<Rightarrow> difference list" where
  "column_difference stored = (\<lambda>(c, ty, nullable, dflt).
     case map_of (tb_columns stored) c of
       None \<Rightarrow> [MissingColumn c]
     | Some (ty', nullable', dflt') \<Rightarrow>
         (if ty = ty' then [] else [TypeDiffers c ty ty']) @
         (if nullable = nullable' then [] else [NullabilityDiffers c]) @
         (if normal_default ty dflt = normal_default ty dflt' then [] else [DefaultDiffers c dflt dflt']))"

definition differences :: "sql_table \<Rightarrow> sql_table \<Rightarrow> difference list" where
  "differences declared stored =
     concat (map (column_difference stored) (tb_columns declared)) @
     map ExtraColumn (filter (\<lambda>c. c \<notin> set (column_names declared)) (column_names stored)) @
     (if set (tb_primary_key declared) = set (tb_primary_key stored) then []
      else [PrimaryKeyDiffers (tb_primary_key declared) (tb_primary_key stored)]) @
     map MissingKey (filter (\<lambda>cs. \<not> is_key stored cs) (map snd (tb_uniques declared)))"

definition known_differences :: "bool \<Rightarrow> str \<Rightarrow> difference list" where
  "known_differences pgvector n =
     (if n = ''webhook_rate_limit_rejections'' then [MissingColumn ''created_at'', ExtraColumn ''rejected_at'']
      else if n = ''metering_facts''
      then map (\<lambda>(c, w). TypeDiffers c (VarChar w) Text)
             [(''usage_id'', 64), (''tenant_id'', 128), (''team_id'', 128), (''run_id'', 64), (''ticket_key'', 128),
              (''role'', 64), (''provider_id'', 128), (''model_id'', 255), (''deployment_profile'', 64),
              (''reservation_id'', 64), (''rate_card_id'', 255), (''trace_id'', 255), (''span_id'', 255),
              (''status'', 64)] @ [PrimaryKeyDiffers [''usage_id''] [''usage_id'', ''completed_at'']]
      else if n = ''knowledge_chunks'' \<and> \<not> pgvector
      then [TypeDiffers ''embedding'' (Vector 1536) JSONB,
            DefaultDiffers ''embedding'' None (Some (quoted ''[]'' @ ''::jsonb''))]
      else [])"

text \<open>The targets of the \<open>ON CONFLICT\<close> clauses of the stores.\<close>

definition conflict_targets :: "(str \<times> str list) list" where
  "conflict_targets =
     [(''runs'', [''run_id'']), (''budget_cap_snapshots'', [''run_id'']),
      (''metering_hourly_rollups'', [''rollup_id'']),
      (''model_catalog_entries'', [''model_id'', ''deployment_profile'']), (''role_token_policies'', [''role'']),
      (''run_snapshot_bindings'', [''run_id''])]"

definition in_family :: "nat \<Rightarrow> str \<Rightarrow> bool" where
  "in_family j n \<longleftrightarrow> family_of n = Some j"

definition declared :: "nat \<Rightarrow> (str \<times> table_arg list) list" where
  "declared j = filter (\<lambda>t. in_family j (fst t)) metadata_tables"

definition family_ok :: "nat \<Rightarrow> bool \<Rightarrow> database \<Rightarrow> bool" where
  "family_ok j pgvector d \<longleftrightarrow>
     dict_get (db_functions d) (''app'', ''tenant_visible'') = Some TenantWildcard \<and>
     dict_get (db_functions d) (''app'', ''current_tenant_id'') = Some (CurrentSetting ''app.tenant_id'') \<and>
     dict_get (db_functions d) (''app'', ''current_team_id'') = Some (CurrentSetting ''app.team_id'') \<and>
     list_all (\<lambda>t. if tb_name t \<in> set secured_tables then row_secured t
                  else \<not> tb_row_security t \<and> tenant_scoped t = (tb_name t \<in> set unsecured_tables)) (db_tables d) \<and>
     list_all (\<lambda>n. with_table n d tenant_scoped) (filter (in_family j) (secured_tables @ unsecured_tables)) \<and>
     list_all (\<lambda>(n, args). with_table n d (\<lambda>t. differences (table_of n args) t = known_differences pgvector n))
       (declared j) \<and>
     list_all (\<lambda>(n, cs). with_table n d (\<lambda>t. is_key t cs)) (filter (in_family j \<circ> fst) conflict_targets)"

definition survey :: "nat \<Rightarrow> bool \<Rightarrow> bool" where
  "survey j pgvector =
     (case reversible_from (parts j pgvector) (empty_database pgvector) of
        None \<Rightarrow> False | Some d \<Rightarrow> family_ok j pgvector d)"

section \<open>Evaluation, family by family\<close>

text \<open>The statements of the other families that name no relation.\<close>

definition global_0001 :: "ddl list" where
  "global_0001 =
     [CreateSchema ''app'', CreateFunction (''app'', ''current_tenant_id'') (CurrentSetting ''app.tenant_id''),
      CreateFunction (''app'', ''current_team_id'') (CurrentSetting ''app.team_id''),
      CreateFunction (''app'', ''tenant_visible'') TenantEquality]"

definition undo_global_0001 :: "ddl list" where
  "undo_global_0001 =
     [DropFunction (''app'', ''tenant_visible''), DropFunction (''app'', ''current_team_id''),
      DropFunction (''app'', ''current_tenant_id''), DropSchema ''app'']"

definition global_0002 :: "ddl list" where
  "global_0002 =
     [CreateFunction (''app'', ''reject_audit_event_mutation'') (RaiseException ''audit_events is append-only'')]"

definition undo_global_0002 :: "ddl list" where
  "undo_global_0002 = [DropFunction (''app'', ''reject_audit_event_mutation'')]"

lemma globals [simp]:
  "filter names_nothing upgrade_0001 = global_0001" "filter names_nothing downgrade_0001 = undo_global_0001"
  "filter names_nothing upgrade_0002 = global_0002" "filter names_nothing downgrade_0002 = undo_global_0002"
  "filter names_nothing upgrade_0003 = []" "filter names_nothing downgrade_0003 = []"
  "filter names_nothing upgrade_0004 = []" "filter names_nothing downgrade_0004 = []"
  "filter names_nothing upgrade_0005 = []" "filter names_nothing downgrade_0005 = []"
  "filter names_nothing upgrade_0006 = []" "filter names_nothing downgrade_0006 = []"
  "filter names_nothing upgrade_0007 = upgrade_0007" "filter names_nothing downgrade_0007 = downgrade_0007"
  "filter names_nothing upgrade_0008 = []" "filter names_nothing downgrade_0008 = []"
  "filter names_nothing (upgrade_0009 pgvector) = (if pgvector then [CreateExtension ''vector''] else [])"
  "filter names_nothing downgrade_0009 = []"
  "filter names_nothing upgrade_0010 = []" "filter names_nothing downgrade_0010 = []"
  "filter names_nothing upgrade_0011 = []" "filter names_nothing downgrade_0011 = []"
  "filter names_nothing upgrade_0012 = []" "filter names_nothing downgrade_0012 = []"
  "filter names_nothing upgrade_0013 = []" "filter names_nothing downgrade_0013 = []"
  "filter names_nothing upgrade_0014 = []" "filter names_nothing downgrade_0014 = []"
  "filter names_nothing upgrade_0015 = []" "filter names_nothing downgrade_0015 = []"
  "filter names_nothing upgrade_0016 = []" "filter names_nothing downgrade_0016 = []"
  "filter names_nothing upgrade_0017 = []" "filter names_nothing downgrade_0017 = []"
  by (simp_all add: global_0001_def undo_global_0001_def global_0002_def undo_global_0002_def
      upgrade_0001_def downgrade_0001_def
      upgrade_0002_def downgrade_0002_def
      upgrade_0003_def downgrade_0003_def
      upgrade_0004_def downgrade_0004_def
      upgrade_0005_def downgrade_0005_def
      upgrade_0006_def downgrade_0006_def
      upgrade_0007_def downgrade_0007_def
      upgrade_0008_def downgrade_0008_def
      upgrade_0009_def downgrade_0009_def
      upgrade_0010_def downgrade_0010_def
      upgrade_0011_def downgrade_0011_def
      upgrade_0012_def downgrade_0012_def
      upgrade_0013_def downgrade_0013_def
      upgrade_0014_def downgrade_0014_def
      upgrade_0015_def downgrade_0015_def
      upgrade_0016_def downgrade_0016_def
      upgrade_0017_def downgrade_0017_def)

lemma downgrades_list:
  "downgrades =
     [downgrade_0001, downgrade_0002, downgrade_0003, downgrade_0004, downgrade_0005,
      downgrade_0006, downgrade_0007, downgrade_0008, downgrade_0009, downgrade_0010,
      downgrade_0011, downgrade_0012, downgrade_0013, downgrade_0014, downgrade_0015,
      downgrade_0016, downgrade_0017]"
  by (simp add: downgrades_def versions_def)

text \<open>Revision 0006 works on two families.\<close>

definition secure_tables :: "str list \<Rightarrow> ddl list" where
  "secure_tables ns = concat (map (\<lambda>table_name.
     [EnableRls table_name, ForceRls table_name,
      CreatePolicy (table_name @ ''_tenant_scope'') table_name (''app'', ''tenant_visible'') [''tenant_id'', ''team_id'']]) ns)"

definition release_tables :: "str list \<Rightarrow> ddl list" where
  "release_tables ns = concat (map (\<lambda>table_name.
     [DropPolicy (table_name @ ''_tenant_scope'') table_name, DisableRls table_name]) ns)"

definition upgrade_0006_1 :: "ddl list" where
  "upgrade_0006_1 = secure_tables
     [''dead_letter_records'', ''budget_cap_snapshots'', ''budget_reservations'', ''budget_charges'', ''budget_denials'']"

definition upgrade_0006_10 :: "ddl list" where
  "upgrade_0006_10 = take 3 upgrade_0006 @ secure_tables [''metering_facts'', ''metering_facts_default'', ''metering_hourly_rollups'']"

definition downgrade_0006_1 :: "ddl list" where
  "downgrade_0006_1 = release_tables
     [''budget_denials'', ''budget_charges'', ''budget_reservations'', ''budget_cap_snapshots'', ''dead_letter_records'']"

definition downgrade_0006_10 :: "ddl list" where
  "downgrade_0006_10 =
     release_tables [''metering_hourly_rollups'', ''metering_facts_default'', ''metering_facts''] @
     [DropTable ''provider_health_events'', DropTable ''role_token_policies'', DropTable ''model_catalog_entries'']"

lemma at_home_early:
  "at_home 0 upgrade_0001" "at_home 0 downgrade_0001"
  "at_home 0 upgrade_0002" "at_home 0 downgrade_0002"
  "at_home 1 upgrade_0003" "at_home 1 downgrade_0003"
  "at_home 1 upgrade_0004" "at_home 1 downgrade_0004"
  "at_home 10 upgrade_0005" "at_home 10 downgrade_0005"
  by code_simp+

lemma at_home_middle:
  "at_home 0 upgrade_0007" "at_home 0 downgrade_0007"
  "at_home 2 upgrade_0008" "at_home 2 downgrade_0008"
  "at_home 3 downgrade_0009"
  "at_home 4 upgrade_0010" "at_home 4 downgrade_0010"
  "at_home 5 upgrade_0011" "at_home 5 downgrade_0011"
  by code_simp+

lemma at_home_late:
  "at_home 10 upgrade_0012" "at_home 10 downgrade_0012"
  "at_home 0 upgrade_0013" "at_home 0 downgrade_0013"
  "at_home 6 upgrade_0014" "at_home 6 downgrade_0014"
  "at_home 7 upgrade_0015" "at_home 7 downgrade_0015"
  "at_home 8 upgrade_0016" "at_home 8 downgrade_0016"
  "at_home 9 upgrade_0017" "at_home 9 downgrade_0017"
  by code_simp+

lemma at_home_0009: "at_home 3 (upgrade_0009 pgvector)"
proof (cases pgvector)
  case True
  have "at_home 3 (upgrade_0009 True)" by code_simp
  with True show ?thesis by simp
next
  case False
  have "at_home 3 (upgrade_0009 False)" by code_simp
  with False show ?thesis by simp
qed

lemmas at_homes = at_home_early at_home_middle at_home_0009 at_home_late

lemma homely_0006: "homely upgrade_0006" "homely downgrade_0006"
  by code_simp+

lemma parts_0006:
  "part 1 upgrade_0006 = upgrade_0006_1" "part 10 upgrade_0006 = upgrade_0006_10"
  "part 1 downgrade_0006 = downgrade_0006_1" "part 10 downgrade_0006 = downgrade_0006_10"
  by code_simp+

lemma part_0006_other:
  assumes "j \<noteq> 1" "j \<noteq> 10"
  shows "part j upgrade_0006 = []" "part j downgrade_0006 = []"
proof -
  have "list_all (\<lambda>op. \<not> names_nothing op \<and> (home op = 1 \<or> home op = 10)) (upgrade_0006 @ downgrade_0006)"
    by code_simp
  then show "part j upgrade_0006 = []" "part j downgrade_0006 = []"
    using assms by (auto simp: part_def filter_empty_conv list_all_iff)
qed

lemmas home_parts = at_homes[THEN part_at_home] parts_0006 part_0006_other

lemma parts_0: "parts 0 pgvector =
     [(upgrade_0001, downgrade_0001), (upgrade_0002, downgrade_0002), ([], []), ([], []),
      ([], []), ([], []), (upgrade_0007, downgrade_0007), ([], []),
      (if pgvector then [CreateExtension ''vector''] else [], []), ([], []), ([], []), ([], []),
      (upgrade_0013, downgrade_0013), ([], []), ([], []), ([], []), ([], [])]"
  by (simp add: parts_def upgrades_def downgrades_list home_parts
      del: One_nat_def)

lemma declared_0: "declared 0 =
     [runs_table, webhook_idempotency_records_table, webhook_secret_rotations_table,
      webhook_rate_limit_rejections_table, graph_versions_table, agent_versions_table,
      shadow_reports_table, snapshots_table, control_plane_state_table,
      run_snapshot_bindings_table, audit_events_table]"
  by (simp add: declared_def metadata_tables_def in_family_def family_of_def)

lemma survey_0: "survey 0 True" "survey 0 False"
  unfolding survey_def family_ok_def parts_0 declared_0 by code_simp+

lemma parts_1: "parts 1 pgvector =
     [(global_0001, undo_global_0001), (global_0002, undo_global_0002),
      (upgrade_0003, downgrade_0003), (upgrade_0004, downgrade_0004), ([], []),
      (upgrade_0006_1, downgrade_0006_1), (upgrade_0007, downgrade_0007), ([], []),
      (if pgvector then [CreateExtension ''vector''] else [], []), ([], []), ([], []), ([], []),
      ([], []), ([], []), ([], []), ([], []), ([], [])]"
  by (simp add: parts_def upgrades_def downgrades_list home_parts
      del: One_nat_def)

lemma declared_1: "declared 1 =
     [dead_letter_records_table, budget_cap_snapshots_table, budget_reservations_table,
      budget_charges_table, budget_denials_table]"
  by (simp add: declared_def metadata_tables_def in_family_def family_of_def)

lemma survey_1: "survey 1 True" "survey 1 False"
  unfolding survey_def family_ok_def parts_1 declared_1 by code_simp+

lemma parts_2: "parts 2 pgvector =
     [(global_0001, undo_global_0001), (global_0002, undo_global_0002), ([], []), ([], []),
      ([], []), ([], []), (upgrade_0007, downgrade_0007), (upgrade_0008, downgrade_0008),
      (if pgvector then [CreateExtension ''vector''] else [], []), ([], []), ([], []), ([], []),
      ([], []), ([], []), ([], []), ([], []), ([], [])]"
  by (simp add: parts_def upgrades_def downgrades_list home_parts
      del: One_nat_def)

lemma declared_2: "declared 2 =
     [github_app_installations_table, github_integration_credentials_table, pat_opt_ins_table,
      branch_protection_verifications_table]"
  by (simp add: declared_def metadata_tables_def in_family_def family_of_def)

lemma survey_2: "survey 2 True" "survey 2 False"
  unfolding survey_def family_ok_def parts_2 declared_2 by code_simp+

lemma parts_3: "parts 3 pgvector =
     [(global_0001, undo_global_0001), (global_0002, undo_global_0002), ([], []), ([], []),
      ([], []), ([], []), (upgrade_0007, downgrade_0007), ([], []),
      (upgrade_0009 pgvector, downgrade_0009), ([], []), ([], []), ([], []), ([], []), ([], []),
      ([], []), ([], []), ([], [])]"
  by (simp add: parts_def upgrades_def downgrades_list home_parts
      del: One_nat_def)

lemma declared_3: "declared 3 =
     [knowledge_documents_table, knowledge_ingestion_jobs_table, knowledge_chunks_table]"
  by (simp add: declared_def metadata_tables_def in_family_def family_of_def)

lemma survey_3: "survey 3 True" "survey 3 False"
  unfolding survey_def family_ok_def parts_3 declared_3 by code_simp+

lemma parts_4: "parts 4 pgvector =
     [(global_0001, undo_global_0001), (global_0002, undo_global_0002), ([], []), ([], []),
      ([], []), ([], []), (upgrade_0007, downgrade_0007), ([], []),
      (if pgvector then [CreateExtension ''vector''] else [], []),
      (upgrade_0010, downgrade_0010), ([], []), ([], []), ([], []), ([], []), ([], []), ([], []),
      ([], [])]"
  by (simp add: parts_def upgrades_def downgrades_list home_parts
      del: One_nat_def)

lemma declared_4: "declared 4 =
     [api_deprecations_table]"
  by (simp add: declared_def metadata_tables_def in_family_def family_of_def)

lemma survey_4: "survey 4 True" "survey 4 False"
  unfolding survey_def family_ok_def parts_4 declared_4 by code_simp+

lemma parts_5: "parts 5 pgvector =
     [(global_0001, undo_global_0001), (global_0002, undo_global_0002), ([], []), ([], []),
      ([], []), ([], []), (upgrade_0007, downgrade_0007), ([], []),
      (if pgvector then [CreateExtension ''vector''] else [], []), ([], []),
      (upgrade_0011, downgrade_0011), ([], []), ([], []), ([], []), ([], []), ([], []), ([], [])]"
  by (simp add: parts_def upgrades_def downgrades_list home_parts
      del: One_nat_def)

lemma declared_5: "declared 5 =
     [admission_exceptions_table]"
  by (simp add: declared_def metadata_tables_def in_family_def family_of_def)

lemma survey_5: "survey 5 True" "survey 5 False"
  unfolding survey_def family_ok_def parts_5 declared_5 by code_simp+

lemma parts_6: "parts 6 pgvector =
     [(global_0001, undo_global_0001), (global_0002, undo_global_0002), ([], []), ([], []),
      ([], []), ([], []), (upgrade_0007, downgrade_0007), ([], []),
      (if pgvector then [CreateExtension ''vector''] else [], []), ([], []), ([], []), ([], []),
      ([], []), (upgrade_0014, downgrade_0014), ([], []), ([], []), ([], [])]"
  by (simp add: parts_def upgrades_def downgrades_list home_parts
      del: One_nat_def)

lemma declared_6: "declared 6 =
     [credential_rotation_schedule_table, break_glass_grants_table, kek_versions_table]"
  by (simp add: declared_def metadata_tables_def in_family_def family_of_def)

lemma survey_6: "survey 6 True" "survey 6 False"
  unfolding survey_def family_ok_def parts_6 declared_6 by code_simp+

lemma parts_7: "parts 7 pgvector =
     [(global_0001, undo_global_0001), (global_0002, undo_global_0002), ([], []), ([], []),
      ([], []), ([], []), (upgrade_0007, downgrade_0007), ([], []),
      (if pgvector then [CreateExtension ''vector''] else [], []), ([], []), ([], []), ([], []),
      ([], []), ([], []), (upgrade_0015, downgrade_0015), ([], []), ([], [])]"
  by (simp add: parts_def upgrades_def downgrades_list home_parts
      del: One_nat_def)

lemma declared_7: "declared 7 =
     [tenant_delete_events_table, dpa_versions_table, dpa_acknowledgements_table,
      retention_policies_table, retention_runs_table]"
  by (simp add: declared_def metadata_tables_def in_family_def family_of_def)

lemma survey_7: "survey 7 True" "survey 7 False"
  unfolding survey_def family_ok_def parts_7 declared_7 by code_simp+

lemma parts_8: "parts 8 pgvector =
     [(global_0001, undo_global_0001), (global_0002, undo_global_0002), ([], []), ([], []),
      ([], []), ([], []), (upgrade_0007, downgrade_0007), ([], []),
      (if pgvector then [CreateExtension ''vector''] else [], []), ([], []), ([], []), ([], []),
      ([], []), ([], []), ([], []), (upgrade_0016, downgrade_0016), ([], [])]"
  by (simp add: parts_def upgrades_def downgrades_list home_parts
      del: One_nat_def)

lemma declared_8: "declared 8 =
     []"
  by (simp add: declared_def metadata_tables_def in_family_def family_of_def)

lemma survey_8: "survey 8 True" "survey 8 False"
  unfolding survey_def family_ok_def parts_8 declared_8 by code_simp+

lemma parts_9: "parts 9 pgvector =
     [(global_0001, undo_global_0001), (global_0002, undo_global_0002), ([], []), ([], []),
      ([], []), ([], []), (upgrade_0007, downgrade_0007), ([], []),
      (if pgvector then [CreateExtension ''vector''] else [], []), ([], []), ([], []), ([], []),
      ([], []), ([], []), ([], []), ([], []), (upgrade_0017, downgrade_0017)]"
  by (simp add: parts_def upgrades_def downgrades_list home_parts
      del: One_nat_def)

lemma declared_9: "declared 9 =
     []"
  by (simp add: declared_def metadata_tables_def in_family_def family_of_def)

lemma survey_9: "survey 9 True" "survey 9 False"
  unfolding survey_def family_ok_def parts_9 declared_9 by code_simp+

lemma parts_10: "parts 10 pgvector =
     [(global_0001, undo_global_0001), (global_0002, undo_global_0002), ([], []), ([], []),
      (upgrade_0005, downgrade_0005), (upgrade_0006_10, downgrade_0006_10),
      (upgrade_0007, downgrade_0007), ([], []),
      (if pgvector then [CreateExtension ''vector''] else [], []), ([], []), ([], []),
      (upgrade_0012, downgrade_0012), ([], []), ([], []), ([], []), ([], []), ([], [])]"
  by (simp add: parts_def upgrades_def downgrades_list home_parts
      del: One_nat_def)

lemma declared_10: "declared 10 =
     [metering_facts_table, metering_hourly_rollups_table, model_catalog_entries_table,
      role_token_policies_table, provider_health_events_table, price_rate_cards_table,
      reconciliation_reports_table]"
  by (simp add: declared_def metadata_tables_def in_family_def family_of_def)

lemma survey_10: "survey 10 True" "survey 10 False"
  unfolding survey_def family_ok_def parts_10 declared_10 by code_simp+

lemma survey_all: "j < 11 \<Longrightarrow> survey j pgvector"
  using survey_0 survey_1 survey_2 survey_3 survey_4 survey_5 survey_6 survey_7 survey_8 survey_9 survey_10
  by (cases pgvector) (auto simp: numeral_eq_Suc less_Suc_eq)

section \<open>Every revision is reversible\<close>

definition same_database :: "database \<Rightarrow> database \<Rightarrow> bool" where
  "same_database d e \<longleftrightarrow>
     db_schemas d = db_schemas e \<and> db_functions d = db_functions e \<and>
     (\<forall>n. map_option settle_table (find_table n d) = map_option settle_table (find_table n e))"

fun reversible_chain :: "(ddl list \<times> ddl list) list \<Rightarrow> database \<Rightarrow> database \<Rightarrow> bool" where
  "reversible_chain [] d e \<longleftrightarrow> d = e"
| "reversible_chain ((u, w) # ps) d e \<longleftrightarrow>
     (\<exists>d' d''. execute_all u d = Inr d' \<and> execute_all w d' = Inr d'' \<and> same_database d'' d \<and>
        reversible_chain ps d' e)"

lemma reversible_from_Cons:
  "reversible_from ((u, w) # ps) d = Some e \<Longrightarrow>
     \<exists>d' d''. execute_all u d = Inr d' \<and> execute_all w d' = Inr d'' \<and> settled d'' = settled d \<and>
       reversible_from ps d' = Some e"
  by (auto split: if_splits sum.splits)

lemma tb_name_settle_table [simp]: "tb_name (settle_table t) = tb_name t"
  by (simp add: settle_table_def)

lemma find_settled: "find_table n (settled d) = map_option settle_table (find_table n d)"
proof -
  have "find (\<lambda>t. tb_name t = n) (map settle_table ts) = map_option settle_table (find (\<lambda>t. tb_name t = n) ts)" for ts
    by (induction ts) auto
  then show ?thesis by (simp add: find_table_def settled_def)
qed

lemma find_table_uncovered:
  assumes "split_along K J d" "\<forall>j \<in> J. n \<notin> K j"
  shows "find_table n d = None"
  using assms by (auto simp: find_table_def find_None_iff split_along_def)

lemma same_database_split:
  assumes "split_along K J d" "split_along K J e" "J \<noteq> {}"
    and same: "\<forall>j \<in> J. settled (focus (K j) d) = settled (focus (K j) e)"
  shows "same_database d e"
proof -
  obtain j where j: "j \<in> J" using assms(3) by blast
  have sel: "db_schemas (settled x) = db_schemas x" "db_functions (settled x) = db_functions x" for x
    by (simp_all add: settled_def)
  have "db_schemas (settled (focus (K j) d)) = db_schemas (settled (focus (K j) e))"
    "db_functions (settled (focus (K j) d)) = db_functions (settled (focus (K j) e))" using same j by simp_all
  then have globals: "db_schemas d = db_schemas e" "db_functions d = db_functions e"
    by (simp_all add: sel focus_sel)
  have "map_option settle_table (find_table n d) = map_option settle_table (find_table n e)" for n
  proof (cases "\<exists>j \<in> J. n \<in> K j")
    case True
    then obtain j where j: "j \<in> J" "n \<in> K j" by blast
    have "find_table n (settled (focus (K j) d)) = find_table n (settled (focus (K j) e))" using same j by simp
    then show ?thesis using j(2) by (simp add: find_settled find_table_focus)
  next
    case False
    then show ?thesis using find_table_uncovered assms(1,2) by simp
  qed
  then show ?thesis using globals by (simp add: same_database_def)
qed

definition parts_of :: "nat \<Rightarrow> (ddl list \<times> ddl list) list \<Rightarrow> (ddl list \<times> ddl list) list" where
  "parts_of j steps = map (\<lambda>(u, w). (part j u, part j w)) steps"

lemma split_tagged:
  assumes "homely ops" "split_along family {..<11} d"
    and "\<forall>j \<in> {..<11}. execute_all (part j ops) (focus (family j) d) = Inr (e j)"
  obtains d' where "execute_all ops d = Inr d'" "split_along family {..<11} d'"
    "\<forall>j \<in> {..<11}. focus (family j) d' = e j"
proof -
  have "map snd (tagged ops) = ops" by (simp add: tagged_def comp_def)
  then show ?thesis
    using split_script[OF families_disjoint families_nonempty well_tagged_tagged[OF assms(1)] assms(2), of e]
      assms(3) that by (auto simp: own_part_tagged)
qed

lemma reversible_chain_families:
  assumes "list_all (\<lambda>(u, w). homely u \<and> homely w) steps"
    and "split_along family {..<11} d"
    and "\<forall>j \<in> {..<11}. reversible_from (parts_of j steps) (focus (family j) d) = Some (e j)"
  shows "\<exists>d'. reversible_chain steps d d' \<and> split_along family {..<11} d' \<and>
    (\<forall>j \<in> {..<11}. focus (family j) d' = e j)"
  using assms
proof (induction steps arbitrary: d)
  case Nil
  then show ?case by (auto simp: parts_of_def)
next
  case (Cons a steps)
  obtain u w where a: "a = (u, w)" by (cases a) auto
  have tags: "homely u" "homely w" using Cons.prems(1) by (simp_all add: a)
  have "\<forall>j \<in> {..<11}. \<exists>p. execute_all (part j u) (focus (family j) d) = Inr (fst p) \<and>
      execute_all (part j w) (fst p) = Inr (snd p) \<and> settled (snd p) = settled (focus (family j) d) \<and>
      reversible_from (parts_of j steps) (fst p) = Some (e j)"
    using Cons.prems(3) reversible_from_Cons by (fastforce simp: parts_of_def a)
  then obtain p where p:
    "\<forall>j \<in> {..<11}. execute_all (part j u) (focus (family j) d) = Inr (fst (p j)) \<and>
      execute_all (part j w) (fst (p j)) = Inr (snd (p j)) \<and>
      settled (snd (p j)) = settled (focus (family j) d) \<and>
      reversible_from (parts_of j steps) (fst (p j)) = Some (e j)"
    by (rule bchoice[THEN exE])
  obtain d1 where d1: "execute_all u d = Inr d1" "split_along family {..<11} d1"
    "\<forall>j \<in> {..<11}. focus (family j) d1 = fst (p j)"
    using split_tagged[OF tags(1) Cons.prems(2), of "\<lambda>j. fst (p j)"] p by blast
  obtain d2 where d2: "execute_all w d1 = Inr d2" "split_along family {..<11} d2"
    "\<forall>j \<in> {..<11}. focus (family j) d2 = snd (p j)"
    using split_tagged[OF tags(2) d1(2), of "\<lambda>j. snd (p j)"] p d1(3) by auto
  have "same_database d2 d"
    using same_database_split[OF d2(2) Cons.prems(2) families_nonempty] d2(3) p by auto
  moreover have "\<exists>d'. reversible_chain steps d1 d' \<and> split_along family {..<11} d' \<and>
      (\<forall>j \<in> {..<11}. focus (family j) d' = e j)"
    using Cons.IH[of d1] Cons.prems(1) d1 p by simp
  ultimately show ?case using d1(1) d2(1) by (auto simp: a)
qed

end
