(* ===== verification/MigrationsCorrect.thy ===== *)
theory MigrationsCorrect
  imports MigrationChecks Telemetry "HOL-Library.Sublist"
begin

text \<open>
  The promises of the migrations: every database on the chain reaches the head, every revision can be
  taken back, no upgrade loses data, the tables match \<open>schema.py\<close> but for a list of differences, and
  row level security covers thirteen of the tables that carry a tenant.
\<close>

section \<open>The whole chain\<close>

definition steps :: "bool \<Rightarrow> (ddl list \<times> ddl list) list" where
  "steps pgvector = zip (upgrades pgvector) downgrades"

lemma length_downgrades: "length downgrades = 17"
  by (simp add: downgrades_list)

lemma length_upgrades: "length (upgrades pgvector) = 17"
  by (simp add: upgrades_def)

lemma length_steps [simp]: "length (steps pgvector) = 17"
  by (simp add: steps_def length_upgrades length_downgrades)

lemma homely_steps: "list_all (\<lambda>(u, w). homely u \<and> homely w) (steps pgvector)"
  using at_homes[THEN homely_at_home] homely_0006
  by (simp add: steps_def upgrades_def downgrades_list)

lemma focus_empty: "focus C (empty_database pgvector) = empty_database pgvector"
  by (simp add: focus_def empty_database_def)

lemma split_along_empty: "split_along K J (empty_database pgvector)"
  by (simp add: split_along_def separated_def empty_database_def)

lemma chain_exists:
  "\<exists>d. reversible_chain (steps pgvector) (empty_database pgvector) d \<and> split_along family {..<11} d \<and>
     (\<forall>j \<in> {..<11}. family_ok j pgvector (focus (family j) d))"
proof -
  have "\<forall>j \<in> {..<11}. \<exists>e. reversible_from (parts_of j (steps pgvector)) (empty_database pgvector) = Some e \<and>
      family_ok j pgvector e"
  proof
    fix j :: nat assume "j \<in> {..<11}"
    then have "survey j pgvector" using survey_all by simp
    then show "\<exists>e. reversible_from (parts_of j (steps pgvector)) (empty_database pgvector) = Some e \<and>
        family_ok j pgvector e"
      by (auto simp: survey_def parts_def parts_of_def steps_def split: option.splits)
  qed
  then obtain e where "\<forall>j \<in> {..<11}.
      reversible_from (parts_of j (steps pgvector)) (empty_database pgvector) = Some (e j) \<and> family_ok j pgvector (e j)"
    by (rule bchoice[THEN exE])
  then show ?thesis
    using reversible_chain_families[OF homely_steps[of pgvector] split_along_empty[of _ _ pgvector], where e = e]
    by (auto simp: focus_empty)
qed

lemma execute_all_append: "execute_all (us @ vs) d = bind_result (execute_all us d) (execute_all vs)"
proof (induction us arbitrary: d)
  case (Cons op us)
  then have "execute_all (us @ vs) = (\<lambda>d. bind_result (execute_all us d) (execute_all vs))" by auto
  then show ?case by (simp add: bind_result_assoc)
qed simp

lemma chain_split:
  assumes "reversible_chain (xs @ ys) d e"
  shows "\<exists>d'. execute_all (concat (map fst xs)) d = Inr d' \<and> reversible_chain ys d' e"
  using assms
proof (induction xs arbitrary: d)
  case (Cons a xs)
  obtain u w where a: "a = (u, w)" by (cases a) auto
  from Cons.prems obtain d1 where d1: "execute_all u d = Inr d1" "reversible_chain (xs @ ys) d1 e"
    by (auto simp: a)
  with Cons.IH[OF d1(2)] show ?case by (auto simp: a execute_all_append)
qed simp

text \<open>What the revisions of \<open>versions\<close> execute depends on the server only through the extension.\<close>

lemma available_execute: "execute_all ops d = Inr d' \<Longrightarrow> db_available_extensions d' = db_available_extensions d"
proof (induction ops arbitrary: d)
  case (Cons op ops)
  have "db_available_extensions (perform op d) = db_available_extensions d" by (cases op) simp_all
  with Cons show ?case by (auto simp: execute_ddl_def split: if_splits)
qed simp

lemma versions_upgrades: "map (\<lambda>r. rv_upgrade r d) versions = upgrades (pgvector_available d)"
  by (simp add: versions_def upgrades_def)

lemma upgrade_depends:
  assumes "r \<in> set versions" "db_available_extensions d = db_available_extensions e"
  shows "rv_upgrade r d = rv_upgrade r e"
proof -
  have "map (\<lambda>r. rv_upgrade r d) versions = map (\<lambda>r. rv_upgrade r e) versions"
    using assms(2) by (simp add: versions_upgrades pgvector_available_def)
  with assms(1) show ?thesis by simp
qed

lemma run_upgrades_concat:
  assumes "set rs \<subseteq> set versions"
  shows "run_upgrades rs d = execute_all (concat (map (\<lambda>r. rv_upgrade r d) rs)) d"
  using assms
proof (induction rs arbitrary: d)
  case (Cons r rs)
  have "run_upgrades rs d' = execute_all (concat (map (\<lambda>r. rv_upgrade r d) rs)) d'"
    if "execute_all (rv_upgrade r d) d = Inr d'" for d'
  proof -
    have "map (\<lambda>r. rv_upgrade r d') rs = map (\<lambda>r. rv_upgrade r d) rs"
      using Cons.prems upgrade_depends available_execute[OF that] by auto
    moreover have "run_upgrades rs d' = execute_all (concat (map (\<lambda>r. rv_upgrade r d') rs)) d'"
      using Cons by simp
    ultimately show ?thesis by (simp only:)
  qed
  then show ?case by (cases "execute_all (rv_upgrade r d) d") (simp_all add: execute_all_append)
qed simp

lemma length_versions [simp]: "length versions = 17"
  by (simp add: versions_def)

lemma pgvector_empty [simp]: "pgvector_available (empty_database pgvector) = pgvector"
  by (simp add: pgvector_available_def empty_database_def)

lemma run_upgrades_take:
  "run_upgrades (take k versions) (empty_database pgvector) =
     execute_all (concat (take k (upgrades pgvector))) (empty_database pgvector)"
  by (simp add: run_upgrades_concat[OF set_take_subset] take_map[symmetric] versions_upgrades)

lemma fst_steps: "map fst (steps pgvector) = upgrades pgvector"
  by (simp add: steps_def upgrades_def length_downgrades)

lemma chain_at:
  assumes "k \<le> 17" "reversible_chain (steps pgvector) (empty_database pgvector) e"
  shows "\<exists>d. run_upgrades (take k versions) (empty_database pgvector) = Inr d \<and>
    reversible_chain (drop k (steps pgvector)) d e"
proof -
  have "reversible_chain (take k (steps pgvector) @ drop k (steps pgvector)) (empty_database pgvector) e"
    using assms(2) by simp
  from chain_split[OF this] show ?thesis
    by (simp add: run_upgrades_take take_map[symmetric] fst_steps)
qed

section \<open>The head is reached\<close>

definition head_revision :: str where
  "head_revision = ''20260427_0017''"

definition revision_at :: "nat \<Rightarrow> str option" where
  "revision_at k = (if k = 0 then None else Some (rv_revision (versions ! (k - 1))))"

fun chained :: "str option \<Rightarrow> migration list \<Rightarrow> bool" where
  "chained p [] \<longleftrightarrow> True"
| "chained p (r # rs) \<longleftrightarrow> rv_down_revision r = p \<and> chained (Some (rv_revision r)) rs"

lemma pending_chained:
  assumes "chained p rs" "distinct (map rv_revision (ds @ rs))"
    and "\<forall>x \<in> set ds. rv_down_revision x \<notin> set (p # map (\<lambda>r. Some (rv_revision r)) rs)"
  shows "pending (ds @ rs) p = rs"
  using assms
proof (induction rs arbitrary: p)
  case Nil
  then have "find (\<lambda>r. rv_down_revision r = p) ds = None" by (auto simp: find_None_iff)
  then show ?case by (simp add: pending.simps)
next
  case (Cons r rs)
  have "find (\<lambda>x. rv_down_revision x = p) (ds @ r # rs) = Some r"
    using Cons.prems by (induction ds) auto
  moreover have "filter (\<lambda>x. rv_revision x \<noteq> rv_revision r) ds = ds"
    "filter (\<lambda>x. rv_revision x \<noteq> rv_revision r) rs = rs"
    using Cons.prems(2) by (auto simp: filter_id_conv image_iff)
  moreover have "pending (ds @ rs) (Some (rv_revision r)) = rs"
    using Cons.prems by (intro Cons.IH) auto
  ultimately show ?case by (simp add: pending.simps)
qed

lemma chained_drop: "chained None versions \<Longrightarrow> k \<le> 17 \<Longrightarrow> chained (revision_at k) (drop k versions)"
proof (induction k)
  case (Suc k)
  have "drop k versions = versions ! k # drop (Suc k) versions" using Suc.prems by (simp add: Cons_nth_drop_Suc)
  then show ?case using Suc by (simp add: revision_at_def)
qed (simp add: revision_at_def)

lemma versions_chained: "chained None versions" "distinct (map rv_revision versions)"
  by (simp_all add: versions_def)

lemma down_revision_nth: "k < 17 \<Longrightarrow> rv_down_revision (versions ! k) = revision_at k"
  using chained_drop[OF versions_chained(1), of k] Cons_nth_drop_Suc[of k versions, symmetric] by simp

lemma revision_at_inj:
  assumes "i \<le> 17" "j \<le> 17" "revision_at i = revision_at j"
  shows "i = j"
proof -
  have "i - 1 = j - 1" if "0 < i" "0 < j"
    using assms that versions_chained(2) nth_eq_iff_index_eq[of "map rv_revision versions" "i - 1" "j - 1"]
    by (simp add: revision_at_def)
  then show ?thesis using assms(3) by (cases i; cases j) (auto simp: revision_at_def)
qed

lemma pending_versions:
  assumes "k \<le> 17"
  shows "pending versions (revision_at k) = drop k versions"
proof -
  have "rv_down_revision x \<notin> set (revision_at k # map (\<lambda>r. Some (rv_revision r)) (drop k versions))"
    if x: "x \<in> set (take k versions)" for x
  proof
    assume "rv_down_revision x \<in> set (revision_at k # map (\<lambda>r. Some (rv_revision r)) (drop k versions))"
    moreover have "Some (rv_revision r) \<in> revision_at ` {Suc k..17}" if r: "r \<in> set (drop k versions)" for r
    proof -
      obtain m where m: "m < 17 - k" "r = versions ! (k + m)" using r by (auto simp: in_set_conv_nth)
      then have "Some (rv_revision r) = revision_at (Suc (k + m))" by (simp add: revision_at_def)
      then show ?thesis using m by auto
    qed
    ultimately have "rv_down_revision x \<in> revision_at ` {k..17}" using assms by fastforce
    then obtain m where m: "k \<le> m" "m \<le> 17" "rv_down_revision x = revision_at m" by auto
    obtain i where i: "i < k" "x = versions ! i" using x assms by (auto simp: in_set_conv_nth)
    then have "revision_at i = revision_at m" using m(3) down_revision_nth[of i] assms by simp
    then show False using revision_at_inj[of i m] i(1) m assms by simp
  qed
  then show ?thesis
    using pending_chained[OF chained_drop[OF versions_chained(1) assms], of "take k versions"] versions_chained(2)
    by simp
qed

lemma head_of_versions: "get_head_revision versions = Inr (Some head_revision)"
  by (simp add: get_head_revision_def versions_def head_revision_def)

lemma revision_at_17: "revision_at 17 = Some head_revision"
  by (simp add: revision_at_def versions_def head_revision_def)

lemma revision_known: "k \<le> 17 \<Longrightarrow> revision_at k = None \<or> revision_at k \<in> set (map (\<lambda>r. Some (rv_revision r)) versions)"
  by (auto simp: revision_at_def)

lemma upgrade_head_at:
  assumes "k \<le> 17"
  shows "upgrade_head versions (revision_at k, d) =
    bind_result (run_upgrades (drop k versions) d) (\<lambda>d'. Inr (Some head_revision, d'))"
  using revision_known[OF assms] by (auto simp: upgrade_head_def pending_versions[OF assms] head_of_versions)

lemma run_upgrades_available: "run_upgrades rs d = Inr d' \<Longrightarrow> db_available_extensions d' = db_available_extensions d"
  by (induction rs arbitrary: d) (use available_execute in force)+

lemma run_upgrades_drop:
  assumes at: "run_upgrades (take k versions) (empty_database pgvector) = Inr d"
    and chain: "reversible_chain (drop k (steps pgvector)) d e"
  shows "run_upgrades (drop k versions) d = Inr e"
proof -
  have "pgvector_available d = pgvector"
    using run_upgrades_available[OF at] pgvector_empty[of pgvector] by (simp add: pgvector_available_def)
  then have "map (\<lambda>r. rv_upgrade r d) (drop k versions) = map fst (drop k (steps pgvector))"
    by (simp add: drop_map[symmetric] versions_upgrades fst_steps)
  moreover have "execute_all (concat (map fst (drop k (steps pgvector)))) d = Inr e"
    using chain_split[of "drop k (steps pgvector)" "[]" d e] chain by auto
  ultimately show ?thesis using run_upgrades_concat[OF set_drop_subset, of k d] by simp
qed

lemma chain_runs:
  assumes "k \<le> 17"
  obtains d e where "run_upgrades (take k versions) (empty_database pgvector) = Inr d"
    "reversible_chain (drop k (steps pgvector)) d e" "run_upgrades (drop k versions) d = Inr e"
    "run_upgrades versions (empty_database pgvector) = Inr e" "split_along family {..<11} e"
    "\<forall>j \<in> {..<11}. family_ok j pgvector (focus (family j) e)"
proof -
  obtain e where e: "reversible_chain (steps pgvector) (empty_database pgvector) e" "split_along family {..<11} e"
    "\<forall>j \<in> {..<11}. family_ok j pgvector (focus (family j) e)" using chain_exists by blast
  obtain d where d: "run_upgrades (take k versions) (empty_database pgvector) = Inr d"
    "reversible_chain (drop k (steps pgvector)) d e" using chain_at[OF assms e(1)] by blast
  have "run_upgrades versions (empty_database pgvector) = Inr e"
    using run_upgrades_drop[of 0 pgvector "empty_database pgvector" e] e(1) by simp
  then show thesis using that d e run_upgrades_drop[OF d] by blast
qed

text \<open>C38 (Every database on the chain reaches the head). The seventeen revisions apply without an error
  to the empty database, with the vector extension or without. From the database any number \<open>k\<close> of them
  has built, \<open>alembic upgrade head\<close> runs the remaining ones and ends in the same database, and
  \<open>ensure_current\<close> reports the head as the current revision: \<open>up_to_date\<close> if nothing was pending, else
  \<open>upgraded\<close>.\<close>

theorem upgrade_reaches_head:
  assumes "k \<le> 17"
  shows "\<exists>d e. run_upgrades (take k versions) (empty_database pgvector) = Inr d \<and>
    run_upgrades versions (empty_database pgvector) = Inr e \<and>
    upgrade_head versions (revision_at k, d) = Inr (Some head_revision, e) \<and>
    bind_result (get_head_revision versions) (\<lambda>expected.
      ensure_current True False expected (Inr (revision_at k)) (map_sum id fst (upgrade_head versions (revision_at k, d)))) =
    Inr \<lparr>mg_state = (if k = 17 then ''up_to_date'' else ''upgraded''), mg_expected_revision = Some head_revision,
         mg_current_revision = Some head_revision, mg_reason = None\<rparr>"
proof -
  obtain d e where d: "run_upgrades (take k versions) (empty_database pgvector) = Inr d"
    "run_upgrades (drop k versions) d = Inr e" "run_upgrades versions (empty_database pgvector) = Inr e"
    using chain_runs[OF assms] by metis
  have up: "upgrade_head versions (revision_at k, d) = Inr (Some head_revision, e)"
    using d(2) by (simp add: upgrade_head_at[OF assms])
  have "revision_at k = Some head_revision \<longleftrightarrow> k = 17"
    using revision_at_inj[OF assms, of 17] revision_at_17 by auto
  then show ?thesis using d up by (simp add: head_of_versions ensure_current_def revision_at_17)
qed

theorem upgrade_reaches_head_witness:
  "\<exists>d e. run_upgrades (take 3 versions) (empty_database False) = Inr d \<and>
    upgrade_head versions (revision_at 3, d) = Inr (Some head_revision, e)"
  using upgrade_reaches_head[of 3 False] by auto



section \<open>No upgrade loses data\<close>

text \<open>An expand step: it adds tables, columns and rules and takes nothing away.\<close>

fun expands :: "ddl \<Rightarrow> bool" where
  "expands (DropSchema s) = False"
| "expands (DropFunction f) = False"
| "expands (DropTable n) = False"
| "expands (DropTableIfExists n) = False"
| "expands (DropIndex n tn) = False"
| "expands (DropIndexIfExists n) = False"
| "expands (DropColumn tn c) = False"
| "expands (DropConstraint n tn) = False"
| "expands (DisableRls tn) = False"
| "expands (DropPolicy n tn) = False"
| "expands (DropTrigger n tn) = False"
| "expands op = True"

definition rows_kept :: "sql_row list \<Rightarrow> sql_row list \<Rightarrow> bool" where
  "rows_kept rs rs' \<longleftrightarrow> length rs \<le> length rs' \<and> (\<forall>i < length rs. prefix (rs ! i) (rs' ! i))"

definition keeps :: "sql_table \<Rightarrow> sql_table \<Rightarrow> bool" where
  "keeps t t' \<longleftrightarrow>
     tb_name t' = tb_name t \<and> prefix (tb_columns t) (tb_columns t') \<and> tb_primary_key t' = tb_primary_key t \<and>
     prefix (tb_uniques t) (tb_uniques t') \<and> tb_foreign_keys t' = tb_foreign_keys t \<and>
     prefix (tb_policies t) (tb_policies t') \<and> rows_kept (tb_rows t) (tb_rows t')"

lemma rows_kept_refl [simp]: "rows_kept rs rs"
  by (simp add: rows_kept_def)

lemma rows_kept_trans:
  assumes "rows_kept rs rs'" "rows_kept rs' rs''"
  shows "rows_kept rs rs''"
  unfolding rows_kept_def
proof (intro conjI allI impI)
  show "length rs \<le> length rs''" using assms by (simp add: rows_kept_def)
  fix i assume i: "i < length rs"
  then have "prefix (rs ! i) (rs' ! i)" using assms(1) by (simp add: rows_kept_def)
  also have "prefix (rs' ! i) (rs'' ! i)" using assms i by (simp add: rows_kept_def)
  finally show "prefix (rs ! i) (rs'' ! i)" .
qed

lemma rows_kept_append [simp]: "rows_kept rs (rs @ new)"
  by (simp add: rows_kept_def nth_append)

lemma rows_kept_extend [simp]: "rows_kept rs (map (\<lambda>r. r @ [v]) rs)"
  by (simp add: rows_kept_def)

lemma keeps_refl [simp]: "keeps t t"
  by (simp add: keeps_def)

lemma keeps_trans: "keeps t t' \<Longrightarrow> keeps t' t'' \<Longrightarrow> keeps t t''"
  unfolding keeps_def using rows_kept_trans prefix_order.trans by fastforce

lemma alter_keeps: "expands op \<Longrightarrow> keeps t (alter op t)"
  by (cases op) (simp_all add: keeps_def)

lemma perform_keeps:
  assumes "expands op" "t \<in> set (db_tables d)"
  shows "\<exists>t' \<in> set (db_tables (perform op d)). keeps t t'"
proof (cases "names_nothing op")
  case True
  then show ?thesis using assms(2) perform_global(1)[of op d] by (intro bexI[of _ t]) simp_all
next
  case False
  have "survives op t" using assms(1) by (cases op) simp_all
  then have "alter op t \<in> set (db_tables (perform op d))"
    using False assms(2) by (simp add: perform_tables)
  then show ?thesis using alter_keeps[OF assms(1)] by blast
qed

lemma execute_keeps:
  "list_all expands ops \<Longrightarrow> execute_all ops d = Inr d' \<Longrightarrow> t \<in> set (db_tables d) \<Longrightarrow>
     \<exists>t' \<in> set (db_tables d'). keeps t t'"
proof (induction ops arbitrary: d t)
  case (Cons op ops)
  obtain t1 where t1: "t1 \<in> set (db_tables (perform op d))" "keeps t t1"
    using perform_keeps[of op t d] Cons.prems by auto
  have "execute_all ops (perform op d) = Inr d'"
    using Cons.prems(2) by (simp add: execute_ddl_def split: if_splits)
  then show ?case using Cons.IH[of "perform op d" t1] Cons.prems(1) t1 keeps_trans by fastforce
next
  case Nil
  then show ?case by (intro bexI[of _ t]) simp_all
qed

lemma upgrades_expand: "list_all (list_all expands) (upgrades True)" "list_all (list_all expands) (upgrades False)"
  by code_simp+

lemma upgrade_expands:
  assumes "r \<in> set versions"
  shows "list_all expands (rv_upgrade r d)"
proof -
  have "rv_upgrade r d \<in> set (upgrades (pgvector_available d))"
    using assms by (simp add: versions_upgrades[symmetric])
  then show ?thesis using upgrades_expand by (cases "pgvector_available d") (auto simp: list_all_iff)
qed

text \<open>C37 (No upgrade loses data). Whatever the database, when the upgrade of a revision succeeds every
  table it found is still there with its columns, keys, constraints and policies, and every row with its
  values; what is new comes after. So every revision is an expand step, as the specification demands.\<close>

theorem upgrades_keep_data:
  assumes "r \<in> set versions" "execute_all (rv_upgrade r d) d = Inr d'" "t \<in> set (db_tables d)"
  shows "\<exists>t' \<in> set (db_tables d'). keeps t t'"
  using execute_keeps[OF upgrade_expands[OF assms(1)] assms(2,3)] .

definition seeded_database :: database where
  "seeded_database =
     (empty_database False)\<lparr>db_tables :=
        [(table_of ''webhook_idempotency_records''
            [Col (Column ''id'' BigInteger [PrimaryKey]), Col (Column ''source'' (VarChar 64) [Nullable False]),
             Col (Column ''delivery_id'' (VarChar 255) [Nullable False])])
          \<lparr>tb_rows := [[Value ''1'', Value ''jira'', Value ''d-1''], [Value ''2'', Value ''jira'', Value ''d-2'']]\<rparr>]\<rparr>"

lemma seeded_upgrade: "case execute_all upgrade_0013 seeded_database of Inl e \<Rightarrow> False | Inr d \<Rightarrow> True"
  by code_simp

theorem upgrades_keep_data_witness:
  "\<exists>d'. execute_all upgrade_0013 seeded_database = Inr d' \<and>
     (\<exists>t' \<in> set (db_tables d'). keeps (hd (db_tables seeded_database)) t')"
proof -
  obtain d' where d': "execute_all upgrade_0013 seeded_database = Inr d'"
    using seeded_upgrade by (auto split: sum.splits)
  have "versions ! 12 \<in> set versions" by (rule nth_mem) simp
  moreover have "rv_upgrade (versions ! 12) seeded_database = upgrade_0013" by (simp add: versions_def)
  moreover have "hd (db_tables seeded_database) \<in> set (db_tables seeded_database)" by (simp add: seeded_database_def)
  ultimately show ?thesis
    using upgrades_keep_data[of "versions ! 12" seeded_database d' "hd (db_tables seeded_database)"] d' by auto
qed

section \<open>Row level security\<close>

text \<open>What the body of a policy's function answers for a row, and which rows of a table a connection
  sees: \<open>owner\<close> says that it is the owner of the table, who is exempt unless security is forced.\<close>

fun body_holds :: "function_body \<Rightarrow> (str \<times> str) list \<Rightarrow> str \<Rightarrow> str \<Rightarrow> bool" where
  "body_holds TenantEquality gucs row_tenant_id row_team_id \<longleftrightarrow>
     sql_eq (current_setting gucs ''app.tenant_id'') row_tenant_id \<and>
     sql_eq (current_setting gucs ''app.team_id'') row_team_id"
| "body_holds TenantWildcard gucs row_tenant_id row_team_id \<longleftrightarrow> tenant_visible gucs row_tenant_id row_team_id"
| "body_holds body gucs row_tenant_id row_team_id \<longleftrightarrow> False"

definition policy_admits :: "database \<Rightarrow> (str \<times> str) list \<Rightarrow> policy \<Rightarrow> str \<Rightarrow> str \<Rightarrow> bool" where
  "policy_admits d gucs p row_tenant_id row_team_id \<longleftrightarrow>
     po_arguments p = [''tenant_id'', ''team_id''] \<and>
     (case dict_get (db_functions d) (po_using p) of None \<Rightarrow> False
      | Some body \<Rightarrow> body_holds body gucs row_tenant_id row_team_id)"

definition shows_row :: "database \<Rightarrow> bool \<Rightarrow> scope \<Rightarrow> sql_table \<Rightarrow> str \<Rightarrow> str \<Rightarrow> bool" where
  "shows_row d owner sc t row_tenant_id row_team_id \<longleftrightarrow>
     \<not> tb_row_security t \<or> (owner \<and> \<not> tb_force_row_security t) \<or>
     list_ex (\<lambda>p. policy_admits d (scope_gucs sc) p row_tenant_id row_team_id) (tb_policies t)"

lemma head_families:
  assumes "run_upgrades versions (empty_database pgvector) = Inr d"
  shows "split_along family {..<11} d" "\<forall>j \<in> {..<11}. family_ok j pgvector (focus (family j) d)"
proof -
  obtain e where "run_upgrades versions (empty_database pgvector) = Inr e" "split_along family {..<11} e"
    "\<forall>j \<in> {..<11}. family_ok j pgvector (focus (family j) e)"
    using chain_runs[of 17 pgvector] by auto
  with assms show "split_along family {..<11} d" "\<forall>j \<in> {..<11}. family_ok j pgvector (focus (family j) d)"
    by auto
qed

lemma head_table:
  assumes "run_upgrades versions (empty_database pgvector) = Inr d" "t \<in> set (db_tables d)"
  shows "if tb_name t \<in> set secured_tables then row_secured t
    else \<not> tb_row_security t \<and> tenant_scoped t = (tb_name t \<in> set unsecured_tables)"
    "dict_get (db_functions d) (''app'', ''tenant_visible'') = Some TenantWildcard"
proof -
  obtain j where j: "j \<in> {..<11}" "tb_name t \<in> family j"
    using head_families(1)[OF assms(1)] assms(2) by (auto simp: split_along_def)
  then have ok: "family_ok j pgvector (focus (family j) d)" using head_families(2)[OF assms(1)] by blast
  have "t \<in> set (db_tables (focus (family j) d))" using j assms(2) by (simp add: focus_sel)
  then show "if tb_name t \<in> set secured_tables then row_secured t
    else \<not> tb_row_security t \<and> tenant_scoped t = (tb_name t \<in> set unsecured_tables)"
    using ok unfolding family_ok_def list_all_iff by blast
  show "dict_get (db_functions d) (''app'', ''tenant_visible'') = Some TenantWildcard"
    using ok unfolding family_ok_def focus_sel by blast
qed

lemma head_tenant_table:
  assumes "run_upgrades versions (empty_database pgvector) = Inr d" "n \<in> set (secured_tables @ unsecured_tables)"
  shows "\<exists>t. find_table n d = Some t \<and> tenant_scoped t"
proof -
  have "list_all (\<lambda>n. case family_of n of None \<Rightarrow> False | Some j \<Rightarrow> j < 11) (secured_tables @ unsecured_tables)"
    by (simp add: secured_tables_def unsecured_tables_def family_of_def)
  then obtain j where j: "j < 11" "family_of n = Some j"
    using assms(2) by (force simp: list_all_iff split: option.splits)
  have "family_ok j pgvector (focus (family j) d)" using head_families(2)[OF assms(1)] j(1) by simp
  moreover have "n \<in> set (filter (in_family j) (secured_tables @ unsecured_tables))"
    using assms(2) j(2) by (simp add: in_family_def)
  ultimately have "with_table n (focus (family j) d) tenant_scoped"
    unfolding family_ok_def list_all_iff by blast
  moreover have "n \<in> family j" using j(2) by (simp add: family_def)
  ultimately show ?thesis by (auto simp: with_table_def find_table_focus split: option.splits)
qed

text \<open>C35 (Row level security of the migrated tables). In a database at the head, thirteen of the tables
  that carry a tenant show a connection, owner or not, exactly the rows \<open>row_visible\<close> admits, which is what
  the models of the stores assume. The other fourteen, the credentials and the break-glass grants among
  them, show every row to everyone.\<close>

theorem row_security_of_tenant_tables:
  assumes "run_upgrades versions (empty_database pgvector) = Inr d" "t \<in> set (db_tables d)" "tenant_scoped t"
  shows "shows_row d owner sc t row_tenant_id row_team_id \<longleftrightarrow>
    tb_name t \<in> set unsecured_tables \<or> row_visible False sc row_tenant_id row_team_id"
proof (cases "tb_name t \<in> set secured_tables")
  case True
  then have "row_secured t" using head_table(1)[OF assms(1,2)] by simp
  moreover have "tb_name t \<notin> set unsecured_tables"
    using True by (auto simp: secured_tables_def unsecured_tables_def)
  ultimately show ?thesis
    using head_table(2)[OF assms(1,2)]
    by (simp add: row_secured_def shows_row_def tenant_policy_def policy_admits_def row_visible_def)
next
  case False
  then show ?thesis using head_table(1)[OF assms(1,2)] assms(3) by (simp add: shows_row_def)
qed

lemma head_exists: "\<exists>d. run_upgrades versions (empty_database pgvector) = Inr d"
  by (rule chain_runs[of 17 pgvector]) auto

theorem row_security_of_tenant_tables_witness:
  "\<exists>d t. run_upgrades versions (empty_database True) = Inr d \<and> find_table ''runs'' d = Some t \<and>
     \<not> shows_row d True (Some (''acme'', ''core'')) t ''globex'' ''core''"
proof -
  obtain d where d: "run_upgrades versions (empty_database True) = Inr d" using head_exists by blast
  obtain t where t: "find_table ''runs'' d = Some t" "tenant_scoped t"
    using head_tenant_table[OF d, of "''runs''"] by (auto simp: secured_tables_def)
  have "\<not> row_visible False (Some (''acme'', ''core'')) ''globex'' ''core''" by code_simp
  moreover have "tb_name t \<notin> set unsecured_tables" using find_table_in[OF t(1)] by (simp add: unsecured_tables_def)
  ultimately show ?thesis
    using row_security_of_tenant_tables[OF d _ t(2), of True "Some (''acme'', ''core'')" "''globex''" "''core''"]
      find_table_in[OF t(1)] d t(1) by blast
qed

text \<open>The encrypted credentials of every tenant are shown to every connection, under any scope or none.\<close>

theorem credentials_are_shown_to_all:
  "\<exists>d t. run_upgrades versions (empty_database pgvector) = Inr d \<and>
     find_table ''github_integration_credentials'' d = Some t \<and> tenant_scoped t \<and>
     (\<forall>sc row_tenant_id row_team_id. shows_row d False sc t row_tenant_id row_team_id)"
proof -
  obtain d where d: "run_upgrades versions (empty_database pgvector) = Inr d" using head_exists by blast
  obtain t where t: "find_table ''github_integration_credentials'' d = Some t" "tenant_scoped t"
    using head_tenant_table[OF d, of "''github_integration_credentials''"] by (auto simp: unsecured_tables_def)
  have "tb_name t \<notin> set secured_tables" using find_table_in[OF t(1)] by (simp add: secured_tables_def)
  then have "\<not> tb_row_security t" using head_table(1)[OF d, of t] find_table_in[OF t(1)] by simp
  then show ?thesis using d t by (auto simp: shows_row_def)
qed

text \<open>Before revision 0007 the scope of an administrator, \<open>*\<close>, showed no row of any tenant.\<close>

theorem wildcard_before_0007:
  assumes "row_tenant_id \<noteq> ''*''"
  shows "\<not> body_holds TenantEquality (scope_gucs (Some (ALL_TENANTS_SCOPE, ALL_TEAMS_SCOPE))) row_tenant_id row_team_id"
    and "body_holds TenantWildcard (scope_gucs (Some (ALL_TENANTS_SCOPE, ALL_TEAMS_SCOPE))) row_tenant_id row_team_id"
  using assms row_visible_all[of False row_tenant_id row_team_id]
  by (simp_all add: row_visible_def scope_gucs_def tenant_guc_values_def current_setting_def sql_eq_def
      ALL_TENANTS_SCOPE_def)

section \<open>The declarations of \<open>schema.py\<close>\<close>

lemma declared_family: "(n, args) \<in> set metadata_tables \<Longrightarrow> \<exists>j < 11. family_of n = Some j"
proof -
  have "list_all (\<lambda>n. case family_of n of None \<Rightarrow> False | Some j \<Rightarrow> j < 11) (map fst metadata_tables)"
    by (simp add: metadata_tables_def family_of_def)
  moreover assume "(n, args) \<in> set metadata_tables"
  ultimately show ?thesis by (force simp: list_all_iff split: option.splits)
qed

text \<open>The migrated tables are those the statements are built from. Every table \<open>schema.py\<close> declares
  exists at the head with the declared columns, types, nullability, defaults and keys, except for three:
  the rejections' time column has another name, \<open>metering_facts\<close> has unbounded texts and a wider primary
  key, and without the vector extension the embeddings are JSON.\<close>

theorem migrated_tables_match_declarations:
  assumes "run_upgrades versions (empty_database pgvector) = Inr d" "(n, args) \<in> set metadata_tables"
  shows "\<exists>t. find_table n d = Some t \<and> differences (table_of n args) t = known_differences pgvector n"
proof -
  obtain j where j: "j < 11" "family_of n = Some j" using declared_family[OF assms(2)] by blast
  then have "(n, args) \<in> set (declared j)" using assms(2) by (simp add: declared_def in_family_def)
  moreover have "family_ok j pgvector (focus (family j) d)" using head_families(2)[OF assms(1)] j(1) by simp
  ultimately have "with_table n (focus (family j) d)
      (\<lambda>t. differences (table_of n args) t = known_differences pgvector n)"
    unfolding family_ok_def list_all_iff by fastforce
  moreover have "n \<in> family j" using j(2) by (simp add: family_def)
  ultimately show ?thesis by (auto simp: with_table_def find_table_focus split: option.splits)
qed

theorem migrated_tables_match_declarations_witness:
  "\<exists>d t. run_upgrades versions (empty_database True) = Inr d \<and> find_table ''runs'' d = Some t \<and>
     differences (table_of ''runs'' (snd runs_table)) t = []"
proof -
  obtain d where d: "run_upgrades versions (empty_database True) = Inr d" using head_exists by blast
  have "(''runs'', snd runs_table) \<in> set metadata_tables" by (simp add: metadata_tables_def runs_table_def)
  moreover have "known_differences True ''runs'' = []" by (simp add: known_differences_def)
  ultimately show ?thesis using migrated_tables_match_declarations[OF d] d by fastforce
qed

text \<open>Each \<open>ON CONFLICT\<close> of the stores names a key of the migrated table.\<close>

theorem conflict_targets_are_keys:
  assumes "run_upgrades versions (empty_database pgvector) = Inr d" "(n, cs) \<in> set conflict_targets"
  shows "\<exists>t. find_table n d = Some t \<and> is_key t cs"
proof -
  have "list_all (\<lambda>(n, cs). case family_of n of None \<Rightarrow> False | Some j \<Rightarrow> j < 11) conflict_targets"
    by (simp add: conflict_targets_def family_of_def)
  then obtain j where j: "j < 11" "family_of n = Some j"
    using assms(2) by (force simp: list_all_iff split: option.splits)
  have "family_ok j pgvector (focus (family j) d)" using head_families(2)[OF assms(1)] j(1) by simp
  moreover have "(n, cs) \<in> set (filter (in_family j \<circ> fst) conflict_targets)"
    using assms(2) j(2) by (simp add: in_family_def)
  ultimately have "with_table n (focus (family j) d) (\<lambda>t. is_key t cs)"
    unfolding family_ok_def list_all_iff by fastforce
  moreover have "n \<in> family j" using j(2) by (simp add: family_def)
  ultimately show ?thesis by (auto simp: with_table_def find_table_focus split: option.splits)
qed

end
