(* ===== verification/Platform.thy ===== *)
theory Platform
  imports RunService Wiring Workers SchemaTables ApiVersioning Knowledge
    Security "HOL-Library.Product_Lexorder"
begin

text \<open>
  The handlers that \<open>backend/app.py\<close>, \<open>backend/platform/api.py\<close>, \<open>backend/webhook/admin.py\<close> and
  \<open>backend/supply_chain/admission.py\<close> add to those of the components: probes, metrics and the start of
  the process, the simulated run, the administrator's profile, the exports of the metering ledger, the
  administration of webhooks. A moment in an answer stands for its ISO text.
\<close>

section \<open>Start and probes\<close>

text \<open>\<open>lifespan\<close>: \<open>status\<close> is what \<open>ensure_current\<close> gives, \<open>active\<close> the id of the active snapshot or the
  exception its store raises.\<close>

definition lifespan ::
  "MigrationStatus result \<Rightarrow> str result \<Rightarrow> InternalRagProbeResult \<Rightarrow>
   (PersistenceHealthService \<times> PersistenceTelemetry, unit) operation" where
  "lifespan status active rag_probe = (\<lambda>(health, telemetry).
     (case status of
        Inl e \<Rightarrow> (Inl e, (health, telemetry))
      | Inr current \<Rightarrow>
          (let revision = (case mg_current_revision current of None \<Rightarrow> ''none''
                           | Some r \<Rightarrow> if r = [] then ''none'' else r);
               telemetry = set_gauge ''devsquad_persistence_migration_info'' 1 [(''revision'', revision)] telemetry;
               health = update_migration_status current health;
               health = update_active_snapshot_id (case active of Inl _ \<Rightarrow> None | Inr i \<Rightarrow> Some i) health;
               health = update_capability_probe ''internal_rag'' (ip_ready rag_probe) (ip_reason rag_probe) health
           in (Inr (), (health, telemetry)))))"

record HealthAnswer =
  hz_status_code :: nat
  hz_status :: str
  hz_reasons :: "str list"
  hz_persistence :: PersistenceHealthSnapshot

definition probe_answer :: "ProbeResult \<Rightarrow> PersistenceHealthService \<Rightarrow> HealthAnswer" where
  "probe_answer p health =
     \<lparr>hz_status_code = (if pb_status p = ''ok'' then 200 else 503), hz_status = pb_status p,
      hz_reasons = pb_reasons p, hz_persistence = health_snapshot health\<rparr>"

definition healthz :: "PersistenceHealthService \<Rightarrow> HealthAnswer" where
  "healthz health = probe_answer (liveness health) health"

definition readyz :: "PersistenceHealthService \<Rightarrow> HealthAnswer" where
  "readyz health = probe_answer (readiness health) health"

definition metrics_answer :: "(rat \<Rightarrow> str) \<Rightarrow> PersistenceTelemetry \<Rightarrow> str \<times> str" where
  "metrics_answer float_str telemetry = (render_prometheus float_str telemetry, ''text/plain; version=0.0.4'')"

section \<open>Simulated runs\<close>

text \<open>\<open>run\<close> is the \<open>execute\<close> of the process's \<open>RuntimeWorkflow\<close>.\<close>

record RuntimeSimulationRequest =
  rs_planning :: PlanningRequest
  rs_execution :: ExecutionRequest
  rs_escalation_sinks :: "(str \<times> str) list option"

definition simulate_run ::
  "(PlanningRequest \<Rightarrow> ExecutionRequest option \<Rightarrow> (str \<times> str) list option \<Rightarrow> 'db \<Rightarrow> ('db \<times> TicketRunState) result) \<Rightarrow>
   RuntimeSimulationRequest \<Rightarrow> 'db \<Rightarrow> ('db \<times> TicketRunState) result" where
  "simulate_run run request db =
     (case run (rs_planning request) (Some (rs_execution request)) (rs_escalation_sinks request) db of
        Inl (ValueError detail) \<Rightarrow> Inl (HTTPException 400 detail)
      | r \<Rightarrow> r)"

section \<open>The platform's routers\<close>

definition inventory_entry :: "str \<Rightarrow> str \<Rightarrow> str \<Rightarrow> (str \<times> str) list" where
  "inventory_entry path verb category = [(''path'', path), (''method'', verb), (''category'', category)]"

definition route_inventory :: "(str \<times> str) list list" where
  "route_inventory =
     [inventory_entry ''/api/v1/webhooks/jira'' ''POST'' ''webhooks'',
      inventory_entry ''/api/v1/runs/{run_id}'' ''GET'' ''runs'',
      inventory_entry ''/api/v1/streams/runs'' ''GET'' ''streams'',
      inventory_entry ''/api/v1/auth/callback'' ''GET'' ''auth'',
      inventory_entry ''/api/v1/admin/profile'' ''GET'' ''admin'',
      inventory_entry ''/api/v1/metering/exports'' ''GET'' ''metering'',
      inventory_entry ''/api/v1/metering/exports/v1'' ''GET'' ''metering'',
      inventory_entry ''/api/v1/metering/exports/v2'' ''GET'' ''metering'']"

text \<open>\<open>dumps\<close> is \<open>json.dumps\<close>.\<close>

definition event_stream :: "(json \<Rightarrow> str) \<Rightarrow> str list" where
  "event_stream dumps =
     [''event: schema_version'' @ [CHR 0x0A] @ ''data: '' @ dumps (JObj [(''version'', JStr ''v1'')]) @ [CHR 0x0A, CHR 0x0A],
      ''event: ping'' @ [CHR 0x0A] @ ''data: {'' @ [CHR 0x22] @ ''status'' @ [CHR 0x22] @ '':'' @ [CHR 0x22] @ ''ok'' @
        [CHR 0x22] @ ''}'' @ [CHR 0x0A, CHR 0x0A]]"

text \<open>What \<open>build_platform_routers\<close> works on. It builds a set of adapters of its own in any case, and takes
  the health service of that set.\<close>

record PlatformParts =
  pp_controller :: worker_adapter
  pp_guard :: webhook_adapter
  pp_ledger :: "(unit, str) adapter"
  pp_health :: PersistenceHealthService

definition build_platform_parts ::
  "worker_adapter option \<Rightarrow> webhook_adapter option \<Rightarrow> (unit, str) adapter option \<Rightarrow> PersistenceAdapters result \<Rightarrow>
   PlatformParts result" where
  "build_platform_parts worker_controller webhook_guard metering_ledger fresh =
     bind_result fresh (\<lambda>adapters.
       Inr \<lparr>pp_controller = (case worker_controller of Some c \<Rightarrow> c | None \<Rightarrow> pa_worker_controller adapters),
            pp_guard = (case webhook_guard of Some g \<Rightarrow> g | None \<Rightarrow> pa_webhook_guard adapters),
            pp_ledger = (case metering_ledger of Some l \<Rightarrow> l | None \<Rightarrow> pa_metering_ledger adapters),
            pp_health = pa_health adapters\<rparr>)"

definition get_run :: "str \<Rightarrow> (str \<times> str) list" where
  "get_run run_id = [(''run_id'', run_id), (''status'', ''planned'')]"

definition auth_callback :: "str option \<Rightarrow> (str \<times> str) list" where
  "auth_callback code = [(''status'', ''accepted''), (''code'', (case code of None \<Rightarrow> [] | Some c \<Rightarrow> c))]"

record AdminProfile =
  ap_route_inventory :: "(str \<times> str) list list"
  ap_draining_workers :: "str list"
  ap_persistence_status :: PersistenceHealthSnapshot
  ap_primary_sandbox :: SandboxJobTemplate
  ap_shadow_sandbox :: SandboxJobTemplate

text \<open>\<open>draining\<close> is the controller's \<open>draining_workers\<close>; 900 seconds are the default of the sandbox builder.\<close>

definition admin_profile :: "str list \<Rightarrow> PersistenceHealthService \<Rightarrow> AdminProfile" where
  "admin_profile draining health =
     \<lparr>ap_route_inventory = route_inventory, ap_draining_workers = sort draining,
      ap_persistence_status = health_snapshot health,
      ap_primary_sandbox = build_sandbox 900 ''tenant-alpha'' ''team-core'' ''sample-run'' Primary,
      ap_shadow_sandbox = build_sandbox 900 ''tenant-alpha'' ''team-core'' ''sample-run'' Shadow\<rparr>"

definition list_api_deprecations :: "ApiDeprecation list \<Rightarrow> ApiDeprecation list" where
  "list_api_deprecations deprecations = sort_key (\<lambda>d. (dp_sunset_at d, dp_route d)) deprecations"

definition metering_export_versions :: "(str \<times> str) list list" where
  "metering_export_versions =
     [[(''schema_version'', ''v1''), (''path'', ''/api/v1/metering/exports/v1''), (''minimum_parallel_support'', ''P12M'')],
      [(''schema_version'', ''v2''), (''path'', ''/api/v1/metering/exports/v2''), (''minimum_parallel_support'', ''P12M'')]]"

definition list_metering_exports :: "(str \<times> (str \<times> str) list list) list" where
  "list_metering_exports = [(''exports'', metering_export_versions)]"

record ExportResponse =
  er_content :: str
  er_media_type :: str
  er_headers :: "(str \<times> str) list"

text \<open>\<open>ledger\<close> is the \<open>export\<close> of the metering ledger.\<close>

definition export_metering_version ::
  "(MeteringExportRequest \<Rightarrow> str result) \<Rightarrow> str \<Rightarrow> str \<Rightarrow> datetime \<Rightarrow> datetime \<Rightarrow> str \<Rightarrow> ExportResponse result" where
  "export_metering_version ledger schema_version tenant_id period_start period_end fmt =
     (if fmt \<notin> {''csv'', ''jsonl''} then Inl (HTTPException 400 ''unsupported_metering_export_format'')
      else bind_result (ledger \<lparr>mx_tenant_id = tenant_id, mx_period_start = period_start, mx_period_end = period_end,
                          mx_format = fmt, mx_schema_version = schema_version, mx_sealed_period_only = True\<rparr>)
        (\<lambda>content. Inr \<lparr>er_content = content,
           er_media_type = (if fmt = ''csv'' then ''text/csv'' else ''application/x-ndjson''),
           er_headers = [(''X-Metering-Export-Schema'', schema_version), (''X-Minimum-Parallel-Support'', ''P12M'')]\<rparr>))"

definition export_metering_v1 ::
  "(MeteringExportRequest \<Rightarrow> str result) \<Rightarrow> str \<Rightarrow> datetime \<Rightarrow> datetime \<Rightarrow> str \<Rightarrow> ExportResponse result" where
  "export_metering_v1 ledger = export_metering_version ledger ''v1''"

definition export_metering_v2 ::
  "(MeteringExportRequest \<Rightarrow> str result) \<Rightarrow> str \<Rightarrow> datetime \<Rightarrow> datetime \<Rightarrow> str \<Rightarrow> ExportResponse result" where
  "export_metering_v2 ledger = export_metering_version ledger ''v2''"

section \<open>Administration of webhooks\<close>

record SecretRotationResponse =
  sr_rotation_id :: str
  sr_tenant_id :: str
  sr_team_id :: str
  sr_rotation_overlap_until :: "datetime option"
  sr_rotated_by :: str

definition rotate_secret_answer ::
  "(str \<Rightarrow> str) \<Rightarrow> datetime \<Rightarrow> str \<Rightarrow> str \<Rightarrow> str \<Rightarrow> str \<Rightarrow> int \<Rightarrow> str \<Rightarrow> (RotationRow list, SecretRotationResponse) operation" where
  "rotate_secret_answer sha256 wall rotation_id tenant_id team_id new_secret overlap_hours x_actor rows =
     (Inr \<lparr>sr_rotation_id = rotation_id, sr_tenant_id = tenant_id, sr_team_id = team_id,
           sr_rotation_overlap_until = Some (wall + overlap_hours * 3600000000), sr_rotated_by = x_actor\<rparr>,
      rotate_secret sha256 wall rotation_id tenant_id team_id new_secret overlap_hours x_actor rows)"

record RotationReport =
  rp_rotation_id :: str
  rp_rotated_by :: str
  rp_rotation_overlap_until :: "datetime option"
  rp_overlap_active :: bool
  rp_created_at :: datetime

datatype RotationStatus = NoRotations str str | Rotated str str RotationReport

definition get_rotation_status :: "datetime \<Rightarrow> str \<Rightarrow> str \<Rightarrow> RotationRow list \<Rightarrow> RotationStatus" where
  "get_rotation_status now tenant_id team_id rows =
     (case get_latest_rotation tenant_id team_id rows of
        None \<Rightarrow> NoRotations tenant_id team_id
      | Some rotation \<Rightarrow>
          Rotated tenant_id team_id
            \<lparr>rp_rotation_id = rt_rotation_id rotation, rp_rotated_by = rt_rotated_by rotation,
             rp_rotation_overlap_until = rt_rotation_overlap_until rotation,
             rp_overlap_active = (case rt_rotation_overlap_until rotation of None \<Rightarrow> False | Some t \<Rightarrow> now \<le> t),
             rp_created_at = rt_created_at rotation\<rparr>)"

record Allowlist =
  al_tenant_id :: str
  al_team_id :: str
  al_cidrs :: "str list"

text \<open>\<open>network_error\<close> is the message of \<open>ipaddress.ip_network(cidr, strict=False)\<close>, when it raises.\<close>

definition update_ip_allowlist :: "(str \<Rightarrow> str option) \<Rightarrow> Allowlist \<Rightarrow> ('s, Allowlist) operation" where
  "update_ip_allowlist network_error request st =
     (case find (\<lambda>cidr. network_error cidr \<noteq> None) (al_cidrs request) of
        Some cidr \<Rightarrow> (Inl (HTTPException 400 (''invalid_cidr:'' @ cidr @ '':'' @ the (network_error cidr))), st)
      | None \<Rightarrow> (Inr request, st))"

definition get_ip_allowlist :: "str \<Rightarrow> str \<Rightarrow> ('s, Allowlist) operation" where
  "get_ip_allowlist tenant_id team_id st = (Inr \<lparr>al_tenant_id = tenant_id, al_team_id = team_id, al_cidrs = []\<rparr>, st)"

text \<open>\<open>table.c.name\<close>: a table has the columns of its declaration and no other.\<close>

fun declared_column :: "table_arg list \<Rightarrow> str \<Rightarrow> column result" where
  "declared_column [] name = Inl (AttributeError name)"
| "declared_column (Col c # args) name = (if column_name c = name then Inr c else declared_column args name)"
| "declared_column (_ # args) name = declared_column args name"

text \<open>The rows with the moment of their rejection.\<close>

definition list_rate_limit_rejections ::
  "str \<Rightarrow> str option \<Rightarrow> int \<Rightarrow> (datetime \<times> RejectionRow) list \<Rightarrow> RejectionRow list result" where
  "list_rate_limit_rejections tenant_id ticket_key limit rows =
     (let rl_table = snd webhook_rate_limit_rejections_table in
      bind_result (declared_column rl_table ''tenant_id'') (\<lambda>_.
      bind_result (declared_column rl_table ''rejected_at'') (\<lambda>_.
      bind_result (if ticket_key \<in> {None, Some []} then Inr () else
                     bind_result (declared_column rl_table ''ticket_key'') (\<lambda>_. Inr ())) (\<lambda>_.
      Inr (take (nat limit) (map snd (rev (sort_key fst (filter (\<lambda>(_, r).
             wj_tenant_id r = tenant_id \<and> (ticket_key \<in> {None, Some []} \<or> ticket_key = Some (wj_ticket_key r))) rows))))))))) "

section \<open>Admission exceptions\<close>

record AdmissionExceptionRevoke =
  ar_revoked_by :: str
  ar_revoke_reason :: str

definition revoke_exception :: "str \<Rightarrow> AdmissionExceptionRevoke \<Rightarrow> AdmissionExceptionResponse result" where
  "revoke_exception exception_id request = Inl (HTTPException 404 (''Exception '' @ exception_id @ '' not found''))"

definition delete_exception :: "str \<Rightarrow> unit result" where
  "delete_exception exception_id = Inl (HTTPException 404 (''Exception '' @ exception_id @ '' not found''))"

section \<open>Properties\<close>

lemma insort_key_snoc: "f y \<le> f x \<Longrightarrow> insort_key f y (zs @ [x]) = insort_key f y zs @ [x]"
  by (induction zs) auto

lemma sort_key_snoc: "\<forall>y \<in> set ys. f y \<le> f x \<Longrightarrow> sort_key f (ys @ [x]) = sort_key f ys @ [x]"
  by (induction ys) (auto simp: insort_key_snoc)

text \<open>When the process is ready: once it has started on fresh adapters, \<open>/readyz\<close> answers
  200 exactly when the probe of the knowledge base succeeded and, with a database configured, the
  database stands at the expected revision and a snapshot is active.\<close>

theorem ready_after_start:
  assumes start: "lifespan (ensure_current (database_configured database) skip expected current upgraded) active rag_probe
             (new_health database redis encryption, telemetry) = (Inr (), (health, telemetry'))"
  shows "hz_status_code (readyz health) = 200 \<longleftrightarrow>
     ip_ready rag_probe \<and>
     (database_configured database \<longrightarrow>
        (\<exists>m. hs_migration_status health = Some m \<and> mg_current_revision m = expected) \<and>
        (\<exists>i. active = Inr i \<and> i \<noteq> []))"
proof -
  from start obtain m where m: "ensure_current (database_configured database) skip expected current upgraded = Inr m"
    by (auto simp: lifespan_def split: sum.splits)
  have state: "(mg_state m = ''not_configured'') = (\<not> database_configured database)"
    "\<not> database_configured database \<Longrightarrow> mg_current_revision m = None" "mg_expected_revision m = expected"
    using m by (auto simp: ensure_current_def split: if_splits)
  have health: "health = update_capability_probe ''internal_rag'' (ip_ready rag_probe) (ip_reason rag_probe)
      (update_active_snapshot_id (case active of Inl _ \<Rightarrow> None | Inr i \<Rightarrow> Some i)
        (update_migration_status m (new_health database redis encryption)))"
    using start by (simp add: lifespan_def m Let_def)
  have fields: "hs_migration_status health = Some m"
    "hs_database_ready health = database_configured database"
    "hs_active_snapshot_id health = (case active of Inl _ \<Rightarrow> None | Inr i \<Rightarrow> Some i)"
    "hs_capability_reasons health = [] \<longleftrightarrow> ip_ready rag_probe"
    using state(2) by (cases "database_configured database"; simp add: health update_capability_probe_def
        update_active_snapshot_id_def update_migration_status_def new_health_def dict_pop_def)+
  have "sort (map snd (hs_capability_reasons health)) = [] \<longleftrightarrow> ip_ready rag_probe"
    using fields(4) by (simp flip: set_empty)
  then show ?thesis
    using state by (auto simp: readyz_def probe_answer_def readiness_def migration_configured_def fields Let_def
        split: sum.splits)
qed

theorem ready_after_start_witness:
  "\<forall>redis encryption telemetry. \<exists>health telemetry'.
     lifespan (ensure_current (database_configured (database_from_env [(''DATABASE_URL'', ''postgresql://db'')])) False
         (Some ''0017'') (Inr (Some ''0017'')) (Inr None))
       (Inr ''snap-1'') \<lparr>ip_enabled = False, ip_ready = True, ip_reason = None\<rparr>
       (new_health (database_from_env [(''DATABASE_URL'', ''postgresql://db'')]) redis encryption, telemetry) =
         (Inr (), (health, telemetry')) \<and>
     hz_status_code (readyz health) = 200"
proof (intro allI)
  fix redis encryption telemetry
  let ?db = "database_from_env [(''DATABASE_URL'', ''postgresql://db'')]"
  let ?rag = "\<lparr>ip_enabled = False, ip_ready = True, ip_reason = None\<rparr> :: InternalRagProbeResult"
  let ?status = "ensure_current (database_configured ?db) False (Some ''0017'') (Inr (Some ''0017'')) (Inr None)"
  have "database_configured ?db" by code_simp
  then have "\<exists>m. ?status = Inr m \<and> mg_current_revision m = Some ''0017''" by (simp add: ensure_current_def)
  then obtain m where m: "?status = Inr m" "mg_current_revision m = Some ''0017''" by blast
  then obtain health telemetry' where r: "lifespan ?status (Inr ''snap-1'') ?rag (new_health ?db redis encryption, telemetry) =
      (Inr (), (health, telemetry'))" "hs_migration_status health = Some m"
    by (simp add: lifespan_def Let_def update_capability_probe_def update_active_snapshot_id_def update_migration_status_def)
  with m have "hz_status_code (readyz health) = 200" by (simp add: ready_after_start[OF r(1)])
  with r show "\<exists>health telemetry'. lifespan ?status (Inr ''snap-1'') ?rag (new_health ?db redis encryption, telemetry) =
      (Inr (), (health, telemetry')) \<and> hz_status_code (readyz health) = 200" by blast
qed

text \<open>Two alerts page for ever. The telemetry a process is built with holds a migration gauge for the
  revision \<open>unknown\<close> and a breaker gauge of zero for a provider \<open>bootstrap\<close>; the start writes the gauge of
  the revision it found beside them and takes neither away. \<open>PersistenceMigrationDrift\<close> fires on the
  first and \<open>ProviderCircuitBreakerOpen\<close> on the second (\<open>operations/alerts/persistence-alert-rules.yaml\<close>),
  and a database without a revision, shown as \<open>none\<close>, is not what the first one looks for.\<close>

theorem bootstrap_gauges_stay:
  assumes "lifespan status active rag_probe (health, bootstrap_telemetry None utilisation wait) = (Inr (), (health', telemetry'))"
  shows "dict_get (te_gauges telemetry') (''devsquad_persistence_migration_info'', [(''revision'', ''unknown'')]) = Some 1 \<and>
     dict_get (te_gauges telemetry') (''devsquad_provider_circuit_breaker_state'', [(''provider_id'', ''bootstrap'')]) = Some 0"
  using assms by (auto simp: lifespan_def bootstrap_telemetry_def set_gauge_def increment_def label_key_def Let_def
      split: sum.splits)

text \<open>The profile of the administrator shows the health service of a second set of adapters, which no
  start has updated: it names neither a migration nor a snapshot, whatever state the process is in.\<close>

theorem profile_health_never_updated:
  assumes "build_persistence_adapters os shared env = Inr adapters"
    and "build_platform_parts c g l (Inr adapters) = Inr parts"
  shows "let shown = ap_persistence_status (admin_profile draining (pp_health parts))
         in hp_migration shown = None \<and> hp_active_snapshot_id shown = None \<and> hp_capability_reasons shown = []"
proof -
  have "hs_migration_status (pa_health adapters) = None \<and> hs_active_snapshot_id (pa_health adapters) = None \<and>
      hs_capability_reasons (pa_health adapters) = []"
    using assms(1) unfolding build_persistence_adapters_def build_in_memory_persistence_def build_configured_def
    by (auto simp: Let_def new_health_def split: if_splits)
  with assms(2) show ?thesis
    by (auto simp: build_platform_parts_def admin_profile_def health_snapshot_def new_health_def Let_def)
qed

text \<open>A rotation is what the status shows next, with its overlap until it has passed.\<close>

theorem rotation_is_reported:
  assumes "\<forall>r \<in> set rows. rt_created_at r \<le> wall"
    and "rotate_secret_answer sha256 wall rotation_id tenant_id team_id secret hours actor rows = (Inr answer, rows')"
  shows "get_rotation_status now tenant_id team_id rows' =
     Rotated tenant_id team_id
       \<lparr>rp_rotation_id = sr_rotation_id answer, rp_rotated_by = actor,
        rp_rotation_overlap_until = sr_rotation_overlap_until answer,
        rp_overlap_active = (now \<le> wall + hours * 3600000000), rp_created_at = wall\<rparr>"
proof -
  have "sort_key rt_created_at (filter P rows @ [x]) = sort_key rt_created_at (filter P rows) @ [x]"
    if "rt_created_at x = wall" for P x
    using assms(1) that by (intro sort_key_snoc) simp
  then show ?thesis using assms(2)
    by (auto simp: get_rotation_status_def get_latest_rotation_def rotate_secret_answer_def rotate_secret_def Let_def)
qed

text \<open>The listing of rate limit rejections fails on every request: its table declares no \<open>rejected_at\<close>.\<close>

theorem rejections_cannot_be_listed:
  "list_rate_limit_rejections tenant_id ticket_key limit rows = Inl (AttributeError ''rejected_at'')"
  by (simp add: list_rate_limit_rejections_def webhook_rate_limit_rejections_table_def)

text \<open>An allowlist that was accepted is not kept: the next reading is empty.\<close>

theorem allowlist_is_not_kept:
  assumes "update_ip_allowlist network_error request st = (Inr answer, st')"
  shows "st' = st \<and> answer = request \<and>
     fst (get_ip_allowlist (al_tenant_id request) (al_team_id request) st') = Inr (request\<lparr>al_cidrs := []\<rparr>)"
  using assms by (auto simp: update_ip_allowlist_def get_ip_allowlist_def split: option.splits)

text \<open>An export is refused exactly for a format it does not know, and the ledger is never asked for one:
  its own refusal is not reached.\<close>

theorem export_refused_exactly:
  "(export_metering_version (\<lambda>request. export_usage dump dump_v2 env request st) version tenant_id start finish fmt =
      Inl (HTTPException 400 ''unsupported_metering_export_format'')) = (fmt \<notin> {''csv'', ''jsonl''})"
  by (auto simp: export_metering_version_def export_usage_def Let_def)

end
