(* ===== verification/Application.thy ===== *)
theory Application
  imports Platform Compliance "HOL-Library.Multiset"
begin

text \<open>
  The application of \<open>backend/app.py\<close>: the routes of its routers in the order \<open>create_app\<close> mounts them,
  each with the check that stands before its handler, and the way of a request through the gate on
  data processing agreements, the version middleware, the routes and that check. The handlers are
  those of the components' theories; here they are the argument \<open>wd_endpoint\<close>, called by the function's
  name. The framework's own part is an argument too: how a path is compared with a route's template,
  what it answers when no route takes the request, and when a request lacks what a handler needs.
\<close>

section \<open>Routes\<close>

text \<open>What stands before a handler: nothing, \<open>Depends(require_role(...))\<close>, or the \<open>_require_admin\<close> of the
  knowledge router on a header whose default is the administrator.\<close>

datatype Guard = Anyone | Needs AuthRole | RoleHeader

record Route =
  ro_method :: str
  ro_path :: str
  ro_guard :: Guard
  ro_endpoint :: str

definition route :: "str \<Rightarrow> str \<Rightarrow> str \<Rightarrow> Guard \<Rightarrow> str \<Rightarrow> Route" where
  "route prefix verb path guard endpoint =
     \<lparr>ro_method = verb, ro_path = prefix @ path, ro_guard = guard, ro_endpoint = endpoint\<rparr>"

definition versioned_openapi_route :: "ApiVersioningConfig \<Rightarrow> Route" where
  "versioned_openapi_route config =
     route (version_prefix (vc_current_major config)) ''GET'' ''/openapi.json'' Anyone ''versioned_openapi''"

definition system_routes :: "Route list" where
  "system_routes =
     [route '''' ''GET'' ''/healthz'' Anyone ''healthz'',
      route '''' ''GET'' ''/readyz'' Anyone ''readyz'',
      route '''' ''GET'' ''/metrics'' Anyone ''metrics'']"

definition runtime_routes :: "Route list" where
  "runtime_routes =
     [route ''/api/v1/runtime'' ''POST'' ''/simulate'' Anyone ''simulate_run'']"

definition status_routes :: "Route list" where
  "status_routes =
     [route ''/api/v1'' ''GET'' ''/status-page'' Anyone ''status_page'']"

definition platform_routes :: "Route list" where
  "platform_routes =
     [route ''/api/v1/webhooks'' ''POST'' ''/jira'' Anyone ''receive_jira_webhook'',
      route ''/api/v1/runs'' ''GET'' ''/{run_id}'' Anyone ''get_run'',
      route ''/api/v1/streams'' ''GET'' ''/runs'' Anyone ''stream_runs'',
      route ''/api/v1/auth'' ''GET'' ''/callback'' Anyone ''auth_callback'',
      route ''/api/v1/admin'' ''GET'' ''/profile'' Anyone ''admin_profile'',
      route ''/api/v1/admin'' ''GET'' ''/api-deprecations'' Anyone ''list_api_deprecations'',
      route ''/api/v1/metering'' ''GET'' ''/exports'' Anyone ''list_metering_exports'',
      route ''/api/v1/metering'' ''GET'' ''/exports/v1'' Anyone ''export_metering_v1'',
      route ''/api/v1/metering'' ''GET'' ''/exports/v2'' Anyone ''export_metering_v2'']"

definition knowledge_routes :: "Route list" where
  "knowledge_routes =
     [route ''/api/v1/admin/knowledge'' ''GET'' ''/documents'' RoleHeader ''list_documents'',
      route ''/api/v1/admin/knowledge'' ''POST'' ''/documents'' RoleHeader ''create_document'',
      route ''/api/v1/admin/knowledge'' ''PUT'' ''/documents/{document_id}'' RoleHeader ''update_document'',
      route ''/api/v1/admin/knowledge'' ''DELETE'' ''/documents/{document_id}'' RoleHeader ''delete_document'',
      route ''/api/v1/admin/knowledge'' ''POST'' ''/documents/{document_id}/ingest'' RoleHeader ''ingest_document'',
      route ''/api/v1/admin/knowledge'' ''POST'' ''/documents/{document_id}/ingestion-jobs'' RoleHeader ''enqueue_ingestion_job'',
      route ''/api/v1/admin/knowledge'' ''GET'' ''/ingestion-jobs/{job_id}'' RoleHeader ''get_ingestion_job'',
      route ''/api/v1/admin/knowledge'' ''POST'' ''/search'' RoleHeader ''dry_run_search'',
      route ''/api/v1/admin/knowledge'' ''POST'' ''/ingestion-jobs/{job_id}/run'' RoleHeader ''run_ingestion_job'']"

definition admission_routes :: "Route list" where
  "admission_routes =
     [route ''/api/v1/admin/admission-exceptions'' ''POST'' ''/'' (Needs SUPER_ADMIN) ''create_exception'',
      route ''/api/v1/admin/admission-exceptions'' ''GET'' ''/'' (Needs SUPER_ADMIN) ''list_exceptions'',
      route ''/api/v1/admin/admission-exceptions'' ''GET'' ''/{exception_id}'' (Needs SUPER_ADMIN) ''get_exception'',
      route ''/api/v1/admin/admission-exceptions'' ''POST'' ''/{exception_id}/revoke'' (Needs SUPER_ADMIN) ''revoke_exception'',
      route ''/api/v1/admin/admission-exceptions'' ''DELETE'' ''/{exception_id}'' (Needs SUPER_ADMIN) ''delete_exception'']"

definition billing_routes :: "Route list" where
  "billing_routes =
     [route ''/api/v1/billing'' ''GET'' ''/rate-cards'' Anyone ''list_rate_cards'',
      route ''/api/v1/billing'' ''GET'' ''/rate-cards/{rate_card_id}'' Anyone ''get_rate_card'',
      route ''/api/v1/billing'' ''POST'' ''/rate-cards'' Anyone ''create_rate_card'',
      route ''/api/v1/billing'' ''PATCH'' ''/rate-cards/{rate_card_id}'' Anyone ''update_rate_card'',
      route ''/api/v1/billing'' ''POST'' ''/rate-cards/{rate_card_id}/activate'' Anyone ''activate_rate_card'',
      route ''/api/v1/billing'' ''DELETE'' ''/rate-cards/{rate_card_id}'' Anyone ''delete_rate_card'',
      route ''/api/v1/billing'' ''POST'' ''/reconcile'' Anyone ''run_reconciliation'',
      route ''/api/v1/billing'' ''GET'' ''/reconciliation-reports'' Anyone ''list_reconciliation_reports'',
      route ''/api/v1/billing'' ''GET'' ''/export'' Anyone ''export_billing'']"

definition webhook_admin_routes :: "Route list" where
  "webhook_admin_routes =
     [route ''/api/v1/admin/webhook'' ''POST'' ''/rotate-secret'' (Needs ADMIN) ''rotate_secret'',
      route ''/api/v1/admin/webhook'' ''GET'' ''/secret-rotation-status'' (Needs ADMIN) ''get_rotation_status'',
      route ''/api/v1/admin/webhook'' ''PUT'' ''/ip-allowlist'' (Needs ADMIN) ''update_ip_allowlist'',
      route ''/api/v1/admin/webhook'' ''GET'' ''/ip-allowlist'' (Needs ADMIN) ''get_ip_allowlist'',
      route ''/api/v1/admin/webhook'' ''GET'' ''/rate-limit-rejections'' (Needs ADMIN) ''list_rate_limit_rejections'']"

definition rotation_schedule_routes :: "Route list" where
  "rotation_schedule_routes =
     [route ''/api/v1/admin/credentials'' ''GET'' ''/rotation-schedule'' (Needs ADMIN) ''list_rotation_schedule'',
      route ''/api/v1/admin/credentials'' ''POST'' ''/rotation-schedule'' (Needs ADMIN) ''upsert_rotation_schedule'',
      route ''/api/v1/admin/credentials'' ''POST'' ''/rotation-schedule/evaluate'' (Needs ADMIN) ''evaluate_rotation_schedule'',
      route ''/api/v1/admin/credentials'' ''GET'' ''/rotation-schedule/blocking-status'' (Needs ADMIN) ''check_blocking_status'']"

definition break_glass_routes :: "Route list" where
  "break_glass_routes =
     [route ''/api/v1/admin/credentials'' ''POST'' ''/break-glass/request'' (Needs ADMIN) ''request_break_glass'',
      route ''/api/v1/admin/credentials'' ''POST'' ''/break-glass/approve'' (Needs ADMIN) ''approve_break_glass'',
      route ''/api/v1/admin/credentials'' ''POST'' ''/break-glass/{grant_id}/revoke'' (Needs ADMIN) ''revoke_break_glass'',
      route ''/api/v1/admin/credentials'' ''GET'' ''/break-glass'' (Needs ADMIN) ''list_break_glass_grants'']"

definition kek_routes :: "Route list" where
  "kek_routes =
     [route ''/api/v1/admin/credentials'' ''POST'' ''/kek/introduce'' (Needs ADMIN) ''introduce_kek'',
      route ''/api/v1/admin/credentials'' ''POST'' ''/kek/rotate-default'' (Needs ADMIN) ''rotate_kek_default'',
      route ''/api/v1/admin/credentials'' ''POST'' ''/kek/{kek_id}/retire'' (Needs ADMIN) ''retire_kek'',
      route ''/api/v1/admin/credentials'' ''GET'' ''/kek'' Anyone ''list_kek_versions'']"

definition retention_routes :: "Route list" where
  "retention_routes =
     [route ''/api/v1/admin/data-retention'' ''GET'' ''/policies'' (Needs ADMIN) ''list_retention_policies'',
      route ''/api/v1/admin/data-retention'' ''POST'' ''/policies'' (Needs ADMIN) ''create_retention_policy'',
      route ''/api/v1/admin/data-retention'' ''POST'' ''/run'' (Needs ADMIN) ''execute_retention_run'',
      route ''/api/v1/admin/data-retention'' ''GET'' ''/runs'' (Needs ADMIN) ''list_retention_runs'']"

definition tenant_delete_routes :: "Route list" where
  "tenant_delete_routes =
     [route ''/api/v1/admin/data-retention'' ''POST'' ''/tenant-delete/request'' (Needs ADMIN) ''request_tenant_delete'',
      route ''/api/v1/admin/data-retention'' ''POST'' ''/tenant-delete/approve'' (Needs ADMIN) ''approve_tenant_delete'',
      route ''/api/v1/admin/data-retention'' ''POST'' ''/tenant-delete/{event_id}/execute'' (Needs ADMIN) ''execute_tenant_delete'',
      route ''/api/v1/admin/data-retention'' ''GET'' ''/tenant-delete'' (Needs ADMIN) ''list_tenant_delete_events'']"

definition dpa_routes :: "Route list" where
  "dpa_routes =
     [route ''/api/v1/admin/data-retention'' ''POST'' ''/dpa/publish'' (Needs ADMIN) ''publish_dpa_version'',
      route ''/api/v1/admin/data-retention'' ''POST'' ''/dpa/acknowledge'' (Needs ADMIN) ''acknowledge_dpa'',
      route ''/api/v1/admin/data-retention'' ''GET'' ''/dpa/status'' (Needs ADMIN) ''get_dpa_status'',
      route ''/api/v1/admin/data-retention'' ''GET'' ''/dpa'' (Needs ADMIN) ''list_dpa_versions'']"

section \<open>The application\<close>

record Application =
  aa_routes :: "Route list"
  aa_dpa_gate :: bool
  aa_versioning :: ApiVersioningConfig

definition create_app :: "bool \<Rightarrow> ApiDeprecation list \<Rightarrow> Application" where
  "create_app database_is_configured api_deprecations =
     (let config = default_versioning\<lparr>vc_deprecations := api_deprecations\<rparr>
      in \<lparr>aa_routes = versioned_openapi_route config # system_routes @ runtime_routes @ status_routes @
            platform_routes @ knowledge_routes @ admission_routes @ billing_routes @ webhook_admin_routes @
            (if database_is_configured
             then rotation_schedule_routes @ break_glass_routes @ kek_routes @
                  retention_routes @ tenant_delete_routes @ dpa_routes
             else []),
          aa_dpa_gate = database_is_configured, aa_versioning = config\<rparr>)"

section \<open>The way of a request\<close>

datatype 'b Body = Document 'b | Problem str | DpaBlocked json | SupportedVersions str | NoBody

record 'b Answer =
  an_status :: nat
  an_headers :: "(str \<times> str) list"
  an_body :: "'b Body"

record ('s, 'b) World =
  wd_matches :: "str \<Rightarrow> str \<Rightarrow> bool"
  wd_unrouted :: "Request \<Rightarrow> 'b Answer"
  wd_malformed :: "Request \<Rightarrow> str option"
  wd_invalid :: "Route \<Rightarrow> Request \<Rightarrow> str option"
  wd_parse_int :: "str \<Rightarrow> int option"
  wd_now :: datetime
  wd_adapt :: "json \<Rightarrow> str result"
  wd_body :: "Request \<Rightarrow> json option"
  wd_compliance :: "'s \<Rightarrow> Compliance"
  wd_endpoint :: "str \<Rightarrow> Request \<Rightarrow> ('s, 'b Answer) operation"

definition header_or :: "str \<Rightarrow> str \<Rightarrow> Request \<Rightarrow> str" where
  "header_or name d request = (case dict_get (rq_headers request) name of None \<Rightarrow> d | Some v \<Rightarrow> v)"

definition auth_headers :: "Request \<Rightarrow> headers" where
  "auth_headers request =
     \<lparr>hd_tenant_id = header_or ''X-Tenant-Id'' [] request, hd_team_id = header_or ''X-Team-Id'' [] request,
      hd_role = header_or ''X-Role'' ''viewer'' request, hd_subject = header_or ''X-Subject'' [] request,
      hd_session = header_or ''X-Session'' [] request, hd_expires = header_or ''X-Expires'' [] request\<rparr>"

text \<open>The first route of the method whose template matches the path.\<close>

definition find_route :: "(str \<Rightarrow> str \<Rightarrow> bool) \<Rightarrow> Route list \<Rightarrow> Request \<Rightarrow> Route option" where
  "find_route matches routes request =
     find (\<lambda>r. ro_method r = rq_method request \<and> matches (ro_path r) (rq_path request)) routes"

text \<open>A dependency runs before the parameters are validated, a check inside the handler after it.\<close>

definition serve :: "('s, 'b) World \<Rightarrow> Route \<Rightarrow> Request \<Rightarrow> ('s, 'b Answer) operation" where
  "serve w r request st =
     (case wd_malformed w request of
        Some detail \<Rightarrow> (Inl (HTTPException 422 detail), st)
      | None \<Rightarrow>
          (case (case ro_guard r of
                   Needs minimum_role \<Rightarrow>
                     bind_result (require_role (wd_parse_int w) (wd_now w) minimum_role (auth_headers request)) (\<lambda>_. Inr ())
                 | _ \<Rightarrow> Inr ()) of
             Inl e \<Rightarrow> (Inl e, st)
           | Inr _ \<Rightarrow>
               (case wd_invalid w r request of
                  Some detail \<Rightarrow> (Inl (HTTPException 422 detail), st)
                | None \<Rightarrow>
                    if ro_guard r = RoleHeader \<and>
                       header_or ''X-Role'' ''admin'' request \<notin> {''admin'', ''super_admin'', ''super-admin''}
                    then (Inl (HTTPException 403 ''admin_role_required''), st)
                    else wd_endpoint w (ro_endpoint r) request st)))"

text \<open>The answer with the path of the route that gave it. An \<open>HTTPException\<close> becomes an answer here, any
  other exception leaves the application.\<close>

definition dispatch :: "('s, 'b) World \<Rightarrow> Route list \<Rightarrow> Request \<Rightarrow> ('s, 'b Answer \<times> str) operation" where
  "dispatch w routes request st =
     (case find_route (wd_matches w) routes request of
        None \<Rightarrow> (Inr (wd_unrouted w request, rq_path request), st)
      | Some r \<Rightarrow>
          (case serve w r request st of
             (Inl (HTTPException status detail), st') \<Rightarrow>
               (Inr (\<lparr>an_status = status, an_headers = [], an_body = Problem detail\<rparr>, ro_path r), st')
           | (Inl e, st') \<Rightarrow> (Inl e, st')
           | (Inr answer, st') \<Rightarrow> (Inr (answer, ro_path r), st')))"

definition versioned ::
  "ApiVersioningConfig \<Rightarrow> (Request \<Rightarrow> ('s, 'b Answer \<times> str) operation) \<Rightarrow> Request \<Rightarrow> ('s, 'b Answer) operation" where
  "versioned config call_next request st =
     (case redirect_unversioned_request config request of
        Some url \<Rightarrow> (Inr \<lparr>an_status = 307, an_headers = [(''location'', url)], an_body = NoBody\<rparr>, st)
      | None \<Rightarrow>
          (case negotiate_accept_version config request of
             Inl e \<Rightarrow> (Inl e, st)
           | Inr (Inr supported) \<Rightarrow>
               (Inr \<lparr>an_status = 406, an_headers = [], an_body = SupportedVersions supported\<rparr>, st)
           | Inr (Inl negotiated) \<Rightarrow>
               (case call_next request st of
                  (Inl e, st') \<Rightarrow> (Inl e, st')
                | (Inr (answer, route_path), st') \<Rightarrow>
                    (Inr (if startswith (rq_path request) ''/api/''
                          then answer\<lparr>an_headers := apply_deprecation_headers config request route_path negotiated
                                 (set_default ''X-API-Version'' (''v'' @ str_of_nat negotiated) (an_headers answer))\<rparr>
                          else answer), st'))))"

text \<open>The gate was added last and is the outermost.\<close>

definition handle :: "('s, 'b) World \<Rightarrow> Application \<Rightarrow> Request \<Rightarrow> ('s, 'b Answer) operation" where
  "handle w app request st =
     (case (if aa_dpa_gate app
            then dpa_gate (wd_adapt w) EXCLUDED_PATHS (wd_now w) (rq_method request) (rq_path request)
                   (wd_body w request) (wd_compliance w st)
            else Inr CallNext) of
        Inl e \<Rightarrow> (Inl e, st)
      | Inr (DpaNotAcknowledged status tenant_id) \<Rightarrow>
          (Inr \<lparr>an_status = status, an_headers = [], an_body = DpaBlocked tenant_id\<rparr>, st)
      | Inr CallNext \<Rightarrow> versioned (aa_versioning app) (dispatch w (aa_routes app)) request st)"

section \<open>Templates of paths\<close>

text \<open>A template is compared segment by segment; a parameter in braces takes any segment but the empty one.\<close>

definition is_parameter :: "str \<Rightarrow> bool" where
  "is_parameter segment = startswith segment ''{''"

definition takes :: "str \<Rightarrow> str \<Rightarrow> bool" where
  "takes t p \<longleftrightarrow> (if is_parameter t then p \<noteq> [] else p = t)"

definition segment_match :: "str \<Rightarrow> str \<Rightarrow> bool" where
  "segment_match template path = list_all2 takes (str_split CHR 0x2F template) (str_split CHR 0x2F path)"

text \<open>Two templates of which no path takes both.\<close>

fun segments_apart :: "str list \<Rightarrow> str list \<Rightarrow> bool" where
  "segments_apart (t # ts) (u # us) \<longleftrightarrow>
     (if is_parameter t then \<not> is_parameter u \<and> u = []
      else if is_parameter u then t = [] else t \<noteq> u) \<or> segments_apart ts us"
| "segments_apart [] [] \<longleftrightarrow> False"
| "segments_apart _ _ \<longleftrightarrow> True"

lemma segments_apart_sound:
  "list_all2 takes ts ps \<Longrightarrow> list_all2 takes us ps \<Longrightarrow> \<not> segments_apart ts us"
proof (induction ts us arbitrary: ps rule: segments_apart.induct)
  case (1 t ts u us)
  then show ?case by (cases ps) (auto simp: takes_def split: if_splits)
qed auto

definition routes_apart :: "(str \<times> str list) \<Rightarrow> (str \<times> str list) \<Rightarrow> bool" where
  "routes_apart a b \<longleftrightarrow> fst a \<noteq> fst b \<or> segments_apart (snd a) (snd b)"

fun all_apart :: "(str \<times> str list) list \<Rightarrow> bool" where
  "all_apart [] \<longleftrightarrow> True"
| "all_apart (a # as) \<longleftrightarrow> list_all (routes_apart a) as \<and> all_apart as"

definition route_key :: "Route \<Rightarrow> str \<times> str list" where
  "route_key r = (ro_method r, str_split CHR 0x2F (ro_path r))"

text \<open>Evaluated for each verb on its own.\<close>

lemma routes_of_one_verb_apart:
  "all_apart (map route_key (filter (\<lambda>r. ro_method r = ''GET'') (aa_routes (create_app True []))))"
  "all_apart (map route_key (filter (\<lambda>r. ro_method r = ''POST'') (aa_routes (create_app True []))))"
  "all_apart (map route_key (filter (\<lambda>r. ro_method r \<noteq> ''GET'' \<and> ro_method r \<noteq> ''POST'') (aa_routes (create_app True []))))"
  by code_simp+

lemma all_apart_pairs:
  "all_apart (map route_key rs) \<Longrightarrow> r \<in> set rs \<Longrightarrow> q \<in> set rs \<Longrightarrow> r = q \<or>
     routes_apart (route_key r) (route_key q) \<or> routes_apart (route_key q) (route_key r)"
  by (induction rs) (auto simp: list_all_iff)

lemma create_app_routes:
  "aa_routes (create_app db deprecations) = aa_routes (create_app db [])"
  "set (aa_routes (create_app db deprecations)) \<subseteq> set (aa_routes (create_app True []))"
  by (auto simp: create_app_def Let_def versioned_openapi_route_def)

lemma mounted_routes_apart:
  assumes "r \<in> set (aa_routes (create_app db deprecations))" "q \<in> set (aa_routes (create_app db deprecations))"
    and "ro_method r = ro_method q" "r \<noteq> q"
  shows "\<not> (segment_match (ro_path r) path \<and> segment_match (ro_path q) path)"
proof -
  let ?rs = "aa_routes (create_app True [])"
  have mem: "r \<in> set ?rs" "q \<in> set ?rs" using assms(1,2) create_app_routes(2) by blast+
  have "routes_apart (route_key r) (route_key q) \<or> routes_apart (route_key q) (route_key r)"
  proof (cases "ro_method r = ''GET''")
    case True
    then show ?thesis using all_apart_pairs[OF routes_of_one_verb_apart(1), of r q] mem assms(3,4) by simp
  next
    case other: False
    show ?thesis
    proof (cases "ro_method r = ''POST''")
      case True
      then show ?thesis using all_apart_pairs[OF routes_of_one_verb_apart(2), of r q] mem assms(3,4) by simp
    next
      case False
      then show ?thesis using all_apart_pairs[OF routes_of_one_verb_apart(3), of r q] mem assms(3,4) other by simp
    qed
  qed
  then show ?thesis using assms(3) segments_apart_sound
    by (auto simp: routes_apart_def route_key_def segment_match_def)
qed

section \<open>Properties of the routes\<close>

text \<open>C40 (no route hides another). Of the routes the application mounts at most one takes a request, so
  the route found is the same in whatever order the routers are included, and every route is found
  for the requests its template describes.\<close>

theorem no_route_hidden:
  assumes "mset routes = mset (aa_routes (create_app db deprecations))"
  shows "find_route segment_match routes request = Some r \<longleftrightarrow>
     r \<in> set (aa_routes (create_app db deprecations)) \<and> ro_method r = rq_method request \<and>
     segment_match (ro_path r) (rq_path request)"
proof -
  let ?P = "\<lambda>r. ro_method r = rq_method request \<and> segment_match (ro_path r) (rq_path request)"
  have set: "set routes = set (aa_routes (create_app db deprecations))" using assms by (metis set_mset_mset)
  have one: "a = b" if "a \<in> set routes" "b \<in> set routes" "?P a" "?P b" for a b
    using mounted_routes_apart[of a db deprecations b "rq_path request"] that set by auto
  show ?thesis
  proof
    assume "find_route segment_match routes request = Some r"
    then show "r \<in> set (aa_routes (create_app db deprecations)) \<and> ?P r"
      by (auto simp: find_route_def set find_Some_iff dest: nth_mem)
  next
    assume r: "r \<in> set (aa_routes (create_app db deprecations)) \<and> ?P r"
    then obtain q where q: "find_route segment_match routes request = Some q"
      using set by (cases "find_route segment_match routes request") (auto simp: find_route_def find_None_iff)
    then have "q \<in> set routes \<and> ?P q" by (auto simp: find_route_def find_Some_iff dest: nth_mem)
    with one r set q show "find_route segment_match routes request = Some r" by simp
  qed
qed

theorem no_route_hidden_witness:
  "find_route segment_match (rev (aa_routes (create_app True [])))
     \<lparr>rq_path = ''/api/v1/admin/credentials/kek/introduce'', rq_method = ''POST'', rq_headers = []\<rparr> =
   Some (route ''/api/v1/admin/credentials'' ''POST'' ''/kek/introduce'' (Needs ADMIN) ''introduce_kek'')"
proof (rule no_route_hidden[THEN iffD2])
  show "mset (rev (aa_routes (create_app True []))) = mset (aa_routes (create_app True []))" by simp
next
  have "segment_match (''/api/v1/admin/credentials'' @ ''/kek/introduce'') ''/api/v1/admin/credentials/kek/introduce''"
    by code_simp
  then show "route ''/api/v1/admin/credentials'' ''POST'' ''/kek/introduce'' (Needs ADMIN) ''introduce_kek''
       \<in> set (aa_routes (create_app True [])) \<and>
     ro_method (route ''/api/v1/admin/credentials'' ''POST'' ''/kek/introduce'' (Needs ADMIN) ''introduce_kek'') =
       rq_method \<lparr>rq_path = ''/api/v1/admin/credentials/kek/introduce'', rq_method = ''POST'', rq_headers = []\<rparr> \<and>
     segment_match (ro_path (route ''/api/v1/admin/credentials'' ''POST'' ''/kek/introduce'' (Needs ADMIN) ''introduce_kek''))
       (rq_path \<lparr>rq_path = ''/api/v1/admin/credentials/kek/introduce'', rq_method = ''POST'', rq_headers = []\<rparr>)"
    by (simp add: create_app_def Let_def kek_routes_def route_def)
qed

text \<open>The inventory of the profile names the platform's routes, all but the list of deprecations.\<close>

theorem inventory_of_platform_routes:
  "map (\<lambda>entry. (dict_get entry ''method'', dict_get entry ''path'')) route_inventory =
   map (\<lambda>r. (Some (ro_method r), Some (ro_path r)))
     (filter (\<lambda>r. ro_endpoint r \<noteq> ''list_api_deprecations'') platform_routes)"
  by code_simp

text \<open>The administration of the GitHub integration has a router that no application mounts.\<close>

theorem github_router_not_mounted:
  "\<not> list_ex (\<lambda>r. startswith (ro_path r) ''/api/v1/admin/github'') (aa_routes (create_app db deprecations))"
proof -
  have "\<not> list_ex (\<lambda>r. startswith (ro_path r) ''/api/v1/admin/github'') (aa_routes (create_app True []))"
    by code_simp
  with create_app_routes(2)[of db deprecations] show ?thesis by (auto simp: list_ex_iff)
qed

text \<open>Prices, reconciliations, invoices and the exports of usage are open to anyone.\<close>

theorem money_open_to_anyone:
  "list_all (\<lambda>r. startswith (ro_path r) ''/api/v1/billing/'' \<or> startswith (ro_path r) ''/api/v1/metering/'' \<longrightarrow>
      ro_guard r = Anyone) (aa_routes (create_app db deprecations))"
proof -
  have "list_all (\<lambda>r. startswith (ro_path r) ''/api/v1/billing/'' \<or> startswith (ro_path r) ''/api/v1/metering/'' \<longrightarrow>
      ro_guard r = Anyone) (aa_routes (create_app True []))"
    by code_simp
  with create_app_routes(2)[of db deprecations] show ?thesis by (auto simp: list_all_iff)
qed

section \<open>Properties of the way of a request\<close>

text \<open>The middleware here is the one of \<open>ApiVersioning\<close>, with the application's state behind it.\<close>

lemma versioned_is_middleware:
  assumes "call_next request st = (Inr (answer, route_path), st')"
  shows "fst (versioned config call_next request st) =
    (case api_version_middleware config (\<lambda>_ _. (route_path, an_headers answer)) request of
       Inl e \<Rightarrow> Inl e
     | Inr (Redirect status url) \<Rightarrow>
         Inr \<lparr>an_status = status, an_headers = [(''location'', url)], an_body = NoBody\<rparr>
     | Inr (NotAcceptable status supported) \<Rightarrow>
         Inr \<lparr>an_status = status, an_headers = [], an_body = SupportedVersions supported\<rparr>
     | Inr (Answered _ headers) \<Rightarrow> Inr (answer\<lparr>an_headers := headers\<rparr>))"
  using assms by (auto simp: versioned_def api_version_middleware_def split: option.splits sum.splits)

text \<open>Below the administration: what anyone reaches, and the section that trusts a header.\<close>

definition open_admin_routes :: "(str \<times> str) list" where
  "open_admin_routes =
     [(''GET'', ''/api/v1/admin/profile''), (''GET'', ''/api/v1/admin/api-deprecations''),
      (''GET'', ''/api/v1/admin/credentials/kek'')]"

definition entitled :: "('s, 'b) World \<Rightarrow> Route \<Rightarrow> Request \<Rightarrow> bool" where
  "entitled w r request \<longleftrightarrow>
     (if startswith (ro_path r) ''/api/v1/admin/knowledge/''
      then header_or ''X-Role'' ''admin'' request \<in> {''admin'', ''super_admin'', ''super-admin''}
      else (case require_role (wd_parse_int w) (wd_now w)
                   (if startswith (ro_path r) ''/api/v1/admin/admission-exceptions/'' then SUPER_ADMIN else ADMIN)
                   (auth_headers request) of Inl _ \<Rightarrow> False | Inr _ \<Rightarrow> True))"

lemma admin_guards:
  assumes "r \<in> set (aa_routes (create_app db deprecations))" "startswith (ro_path r) ''/api/v1/admin/''"
    and "(ro_method r, ro_path r) \<notin> set open_admin_routes"
  shows "ro_guard r = (if startswith (ro_path r) ''/api/v1/admin/knowledge/'' then RoleHeader
     else if startswith (ro_path r) ''/api/v1/admin/admission-exceptions/'' then Needs SUPER_ADMIN else Needs ADMIN)"
proof -
  have "list_all (\<lambda>r. startswith (ro_path r) ''/api/v1/admin/'' \<longrightarrow> (ro_method r, ro_path r) \<notin> set open_admin_routes \<longrightarrow>
     ro_guard r = (if startswith (ro_path r) ''/api/v1/admin/knowledge/'' then RoleHeader
       else if startswith (ro_path r) ''/api/v1/admin/admission-exceptions/'' then Needs SUPER_ADMIN else Needs ADMIN))
     (aa_routes (create_app True []))"
    by code_simp
  with assms create_app_routes(2)[of db deprecations] show ?thesis by (auto simp: list_all_iff)
qed

lemma require_role_refuses:
  "require_role parse_int now minimum_role h = Inl e \<Longrightarrow> \<exists>status detail. e = HTTPException status detail \<and> 400 \<le> status"
  by (auto simp: require_role_def get_auth_context_def bind_result_Inl_iff split: if_splits)

lemma serve_refuses:
  assumes "r \<in> set (aa_routes (create_app db deprecations))" "startswith (ro_path r) ''/api/v1/admin/''"
    and "(ro_method r, ro_path r) \<notin> set open_admin_routes" "\<not> entitled w r request"
  shows "\<exists>status detail. 400 \<le> status \<and>
     (\<forall>endpoint. serve (w\<lparr>wd_endpoint := endpoint\<rparr>) r request st = (Inl (HTTPException status detail), st))"
proof (cases "wd_malformed w request")
  case (Some detail)
  then show ?thesis by (intro exI[of _ 422] exI[of _ detail]) (simp add: serve_def)
next
  case None
  note guard = admin_guards[OF assms(1-3)]
  show ?thesis
  proof (cases "startswith (ro_path r) ''/api/v1/admin/knowledge/''")
    case True
    then show ?thesis using None guard assms(4)
      by (cases "wd_invalid w r request") (auto simp: serve_def entitled_def)
  next
    case False
    then obtain minimum_role e where e: "ro_guard r = Needs minimum_role"
        "require_role (wd_parse_int w) (wd_now w) minimum_role (auth_headers request) = Inl e"
      using guard assms(4) by (auto simp: entitled_def split: if_splits sum.splits)
    with require_role_refuses[OF e(2)] None show ?thesis by (auto simp: serve_def)
  qed
qed

lemma dispatch_refused:
  assumes "find_route (wd_matches w) routes request = Some r" "serve w r request st = (Inl (HTTPException status detail), st)"
  shows "dispatch w routes request st = (Inr (\<lparr>an_status = status, an_headers = [], an_body = Problem detail\<rparr>, ro_path r), st)"
  using assms by (simp add: dispatch_def)

lemma versioned_refused:
  assumes "call_next request st = (Inr (answer, route_path), st)" "300 \<le> an_status answer"
  shows "snd (versioned config call_next request st) = st \<and>
     (case fst (versioned config call_next request st) of Inl _ \<Rightarrow> True | Inr answer \<Rightarrow> 300 \<le> an_status answer)"
  using assms by (auto simp: versioned_def split: option.splits sum.splits)

lemma versioned_depends_on_answer:
  "call_next request st = call_next' request st \<Longrightarrow>
     versioned config call_next request st = versioned config call_next' request st"
  by (auto simp: versioned_def split: option.split sum.split)

lemma gate_status:
  "dpa_gate adapt excluded now verb path body st = Inr (DpaNotAcknowledged status tenant_id) \<Longrightarrow> status = 403"
  by (auto simp: dpa_gate_def Let_def split: if_splits)

text \<open>C39 (administration needs a role). A request for a route of the administration, the knowledge base
  apart, that does not carry the role of an administrator gets no success: its answer and the state
  do not depend on what the handlers do. Of the knowledge base only a request that names another role
  is refused. The exceptions are the three routes of \<open>open_admin_routes\<close>.\<close>

theorem administration_needs_role:
  assumes "find_route (wd_matches w) (aa_routes (create_app db deprecations)) request = Some r"
    and "startswith (ro_path r) ''/api/v1/admin/''" "(ro_method r, ro_path r) \<notin> set open_admin_routes"
    and "\<not> entitled w r request"
  shows "snd (handle w (create_app db deprecations) request st) = st \<and>
     handle (w\<lparr>wd_endpoint := endpoint\<rparr>) (create_app db deprecations) request st =
       handle w (create_app db deprecations) request st \<and>
     (case fst (handle w (create_app db deprecations) request st) of Inl _ \<Rightarrow> True | Inr answer \<Rightarrow> 300 \<le> an_status answer)"
proof -
  let ?app = "create_app db deprecations"
  have "r \<in> set (aa_routes ?app)" using assms(1) by (auto simp: find_route_def find_Some_iff dest: nth_mem)
  from serve_refuses[OF this assms(2-4)] obtain status detail where refused: "400 \<le> status"
    "\<And>endpoint. serve (w\<lparr>wd_endpoint := endpoint\<rparr>) r request st = (Inl (HTTPException status detail), st)" by blast
  let ?answer = "(Inr (\<lparr>an_status = status, an_headers = [], an_body = Problem detail\<rparr>, ro_path r), st)"
  have dispatched: "dispatch (w\<lparr>wd_endpoint := endpoint\<rparr>) (aa_routes ?app) request st = ?answer" for endpoint
    using dispatch_refused[of "w\<lparr>wd_endpoint := endpoint\<rparr>", OF _ refused(2)] assms(1) by simp
  from dispatched[of "wd_endpoint w"] have own: "dispatch w (aa_routes ?app) request st = ?answer" by simp
  have same: "versioned config (dispatch (w\<lparr>wd_endpoint := endpoint\<rparr>) (aa_routes ?app)) request st =
      versioned config (dispatch w (aa_routes ?app)) request st" for config
    by (rule versioned_depends_on_answer) (simp add: dispatched own)
  note passed = versioned_refused[where call_next = "dispatch w (aa_routes ?app)", OF own]
  show ?thesis
    using refused(1) passed[of "aa_versioning ?app"] same by (auto simp: handle_def split: sum.splits GateDecision.splits dest: gate_status)
qed

definition sample_world :: "(nat, str) World" where
  "sample_world =
     \<lparr>wd_matches = segment_match, wd_unrouted = (\<lambda>_. \<lparr>an_status = 404, an_headers = [], an_body = NoBody\<rparr>),
      wd_malformed = (\<lambda>_. None), wd_invalid = (\<lambda>_ _. None), wd_parse_int = (\<lambda>_. None), wd_now = 0,
      wd_adapt = (\<lambda>_. Inr []), wd_body = (\<lambda>_. None),
      wd_compliance = (\<lambda>_. \<lparr>cx_policies = [], cx_runs = [], cx_delete_events = [], cx_dpa_versions = [], cx_dpa_acks = [],
        cx_tables = (\<lambda>_. [])\<rparr>),
      wd_endpoint = (\<lambda>name _ st. (Inr \<lparr>an_status = 200, an_headers = [], an_body = Document name\<rparr>, st + 1))\<rparr>"

definition sample_request :: "str \<Rightarrow> str \<Rightarrow> (str \<times> str) list \<Rightarrow> Request" where
  "sample_request verb path hs = \<lparr>rq_path = path, rq_method = verb, rq_headers = hs\<rparr>"

text \<open>An operator introduces a key: refused, whatever the handler.\<close>

theorem administration_needs_role_witness:
  "snd (handle sample_world (create_app True []) (sample_request ''POST'' ''/api/v1/admin/credentials/kek/introduce''
      [(''X-Subject'', ''u''), (''X-Tenant-Id'', ''t''), (''X-Role'', ''operator'')]) 7) = 7"
proof -
  let ?rq = "sample_request ''POST'' ''/api/v1/admin/credentials/kek/introduce''
      [(''X-Subject'', ''u''), (''X-Tenant-Id'', ''t''), (''X-Role'', ''operator'')]"
  let ?r = "route ''/api/v1/admin/credentials'' ''POST'' ''/kek/introduce'' (Needs ADMIN) ''introduce_kek''"
  have "find_route (wd_matches sample_world) (aa_routes (create_app True [])) ?rq = Some ?r" by code_simp
  moreover have "startswith (ro_path ?r) ''/api/v1/admin/''" "(ro_method ?r, ro_path ?r) \<notin> set open_admin_routes"
    "\<not> entitled sample_world ?r ?rq" by code_simp+
  ultimately show ?thesis using administration_needs_role[where w = sample_world] by blast
qed

text \<open>The three open routes answer a request without any header, among them the list of the keys that
  encrypt the tenants' secrets.\<close>

theorem keys_listed_to_anyone:
  "list_all (\<lambda>(verb, path).
      (case handle sample_world (create_app True []) (sample_request verb path []) 7 of
         (Inr answer, st) \<Rightarrow> an_status answer = 200 \<and> st = 8 | _ \<Rightarrow> False)) open_admin_routes"
  by code_simp

text \<open>The knowledge base takes a request without any header for one of an administrator.\<close>

theorem knowledge_open_without_header:
  assumes "r \<in> set knowledge_routes" "dict_get (rq_headers request) ''X-Role'' = None"
  shows "entitled w r request"
  using assms by (auto simp: entitled_def header_or_def knowledge_routes_def route_def startswith_def)

text \<open>A delivery without the agreement goes nowhere: with a database configured, a webhook that
  names a tenant which has not acknowledged the latest agreement, after its days of grace, is answered
  403 with the tenant's id before any version, route or handler is looked at, whether or not its path
  carries the version.\<close>

theorem delivery_without_agreement_blocked:
  assumes "latest_dpa (wd_compliance w st) = Some v" "\<not> acknowledged tenant_id (dv_version v) (wd_compliance w st)"
    and "add_time (dv_published_at v) (dv_grace_period_days v * day_us) = Inr cutoff" "cutoff < wd_now w"
    and "wd_body w request = Some (JObj payload)" "dict_get payload ''tenant_id'' = Some (JStr tenant_id)" "tenant_id \<noteq> []"
    and "rq_method request = ''POST''" "rq_path request \<in> {''/api/v1/webhooks/jira'', ''/webhooks/jira''}"
  shows "handle w (create_app True deprecations) request st =
     (Inr \<lparr>an_status = 403, an_headers = [], an_body = DpaBlocked (JStr tenant_id)\<rparr>, st)"
proof -
  have paths: "\<not> is_excluded EXCLUDED_PATHS path \<and> str_contains ''/webhooks'' path"
    if "path \<in> {''/api/v1/webhooks/jira'', ''/webhooks/jira''}" for path
  proof -
    have "\<not> is_excluded EXCLUDED_PATHS ''/api/v1/webhooks/jira'' \<and> str_contains ''/webhooks'' ''/api/v1/webhooks/jira''"
      "\<not> is_excluded EXCLUDED_PATHS ''/webhooks/jira'' \<and> str_contains ''/webhooks'' ''/webhooks/jira''" by code_simp+
    with that show ?thesis by auto
  qed
  have "dpa_gate (wd_adapt w) EXCLUDED_PATHS (wd_now w) (rq_method request) (rq_path request) (wd_body w request)
      (wd_compliance w st) = Inr (DpaNotAcknowledged 403 (JStr tenant_id))"
    using assms paths[OF assms(9)]
    by (auto simp: dpa_gate_def extract_tenant_id_def dict_getd_def query_text_def is_dpa_acknowledged_def Let_def)
  then show ?thesis by (simp add: handle_def create_app_def Let_def)
qed

end
