(* ===== verification/WorkersMemory.thy ===== *)
theory WorkersMemory
  imports Workers
begin

text \<open>
  The worker controller kept in memory, \<open>backend/persistence/testing/worker.py\<close>, beside the one on Redis,
  and the arq transport of \<open>backend/persistence/worker.py\<close>: how a job is written as the arguments of an
  arq job and read back. The pool of arq itself is outside.
\<close>

section \<open>The controller in memory\<close>

record MemController =
  wm_queue_name :: str
  wm_active_jobs :: "(str \<times> QueuedJob) list"
  wm_draining :: "str list"
  wm_dead_letters :: "DeadLetterRecord list"

definition new_mem_controller :: MemController where
  "new_mem_controller = \<lparr>wm_queue_name = ''ticket-runs'', wm_active_jobs = [], wm_draining = [], wm_dead_letters = []\<rparr>"

definition mem_assign :: "str \<Rightarrow> QueuedJob \<Rightarrow> (MemController, unit) operation" where
  "mem_assign worker_id job m =
     (if worker_id \<in> set (wm_draining m)
      then (Inl (ValueError (''Worker `'' @ worker_id @ ''` is draining and cannot accept new jobs.'')), m)
      else (Inr (), m\<lparr>wm_active_jobs := dict_set worker_id job (wm_active_jobs m)\<rparr>))"

definition mem_begin_drain :: "str \<Rightarrow> (MemController, WorkerDrainLease) operation" where
  "mem_begin_drain worker_id m =
     (Inr \<lparr>dl_worker_id = worker_id, dl_accepting_new_jobs = False,
           dl_active_job_id = map_option qj_job_id (dict_get (wm_active_jobs m) worker_id)\<rparr>,
      m\<lparr>wm_draining := List.insert worker_id (wm_draining m)\<rparr>)"

definition mem_checkpoint_and_release :: "str \<Rightarrow> str \<Rightarrow> (MemController, QueuedJob) operation" where
  "mem_checkpoint_and_release worker_id checkpoint_ref m =
     (case dict_get (wm_active_jobs m) worker_id of
        None \<Rightarrow> (Inl (KeyError worker_id), m)
      | Some job \<Rightarrow> (Inr (job\<lparr>qj_checkpoint_ref := Some checkpoint_ref\<rparr>),
                     m\<lparr>wm_active_jobs := dict_pop worker_id (wm_active_jobs m)\<rparr>))"

definition mem_capture_terminal_failure :: "datetime \<Rightarrow> str \<Rightarrow> str \<Rightarrow> (MemController, DeadLetterRecord) operation" where
  "mem_capture_terminal_failure now worker_id failure_reason m =
     (case dict_get (wm_active_jobs m) worker_id of
        None \<Rightarrow> (Inl (KeyError worker_id), m)
      | Some job \<Rightarrow>
          (let row = \<lparr>dr_record_id = None, dr_job_id = qj_job_id job, dr_tenant_id = qj_tenant_id job,
                 dr_team_id = qj_team_id job, dr_run_id = qj_run_id job, dr_queue_name = qj_queue_name job,
                 dr_failure_reason = failure_reason, dr_worker_id = None,
                 dr_checkpoint_ref = qj_checkpoint_ref job, dr_created_at = now\<rparr>
           in (Inr row, m\<lparr>wm_active_jobs := dict_pop worker_id (wm_active_jobs m),
                          wm_dead_letters := wm_dead_letters m @ [row]\<rparr>)))"

definition count_in_flight :: "QueuedJob list \<Rightarrow> (str \<times> int) list" where
  "count_in_flight jobs = fold (\<lambda>job d. incr_in_flight (qj_tenant_id job) 1 d) jobs []"

text \<open>A dispatcher with its defaults, two jobs of a tenant and five minutes.\<close>

definition mem_select_next_job :: "QueuedJob list \<Rightarrow> int \<Rightarrow> MemController \<Rightarrow> QueuedJob option" where
  "mem_select_next_job jobs now m = dispatch_next 2 300 jobs (count_in_flight (map snd (wm_active_jobs m))) now"

section \<open>The transport\<close>

text \<open>A job of arq: its id, when it has one, the function to call and its arguments.\<close>

record ArqJob =
  aq_function :: str
  aq_job_id :: "str option"
  aq_queue_name :: str
  aq_tenant_id :: str
  aq_team_id :: str
  aq_run_id :: str
  aq_weight :: "int option"
  aq_enqueued_at :: int
  aq_retry_count :: "int option"
  aq_checkpoint_ref :: "str option"

definition arq_enqueue :: "str \<Rightarrow> QueuedJob \<Rightarrow> ArqJob" where
  "arq_enqueue function_name job =
     \<lparr>aq_function = function_name, aq_job_id = Some (qj_job_id job), aq_queue_name = qj_queue_name job,
      aq_tenant_id = qj_tenant_id job, aq_team_id = qj_team_id job, aq_run_id = qj_run_id job,
      aq_weight = Some (qj_weight job), aq_enqueued_at = qj_enqueued_at job,
      aq_retry_count = Some (qj_retry_count job), aq_checkpoint_ref = qj_checkpoint_ref job\<rparr>"

definition arq_queued_jobs :: "str \<Rightarrow> ArqJob list \<Rightarrow> QueuedJob list" where
  "arq_queued_jobs queue_name jobs =
     map (\<lambda>job. \<lparr>qj_job_id = (case aq_job_id job of None \<Rightarrow> [] | Some i \<Rightarrow> i), qj_tenant_id = aq_tenant_id job,
        qj_team_id = aq_team_id job, qj_run_id = aq_run_id job, qj_queue_name = queue_name,
        qj_weight = (case aq_weight job of None \<Rightarrow> 1 | Some n \<Rightarrow> n), qj_enqueued_at = aq_enqueued_at job,
        qj_retry_count = (case aq_retry_count job of None \<Rightarrow> 0 | Some n \<Rightarrow> n),
        qj_checkpoint_ref = aq_checkpoint_ref job\<rparr>)
       (filter (\<lambda>job. aq_job_id job \<noteq> None) jobs)"

section \<open>Properties\<close>

lemma count_in_flight_lookup:
  "dict_getd (count_in_flight jobs) t 0 = int (length (filter (\<lambda>j. qj_tenant_id j = t) jobs))"
proof -
  have "dict_getd (fold (\<lambda>job d. incr_in_flight (qj_tenant_id job) 1 d) jobs d) t 0 =
      dict_getd d t 0 + int (length (filter (\<lambda>j. qj_tenant_id j = t) jobs))" for d
    by (induction jobs arbitrary: d) auto
  from this[of "[]"] show ?thesis by (simp add: count_in_flight_def dict_getd_def)
qed

lemma arg_min_list_cong:
  "xs \<noteq> [] \<Longrightarrow> \<forall>x \<in> set xs. f x = g x \<Longrightarrow> arg_min_list f xs = arg_min_list g xs"
proof (induction f xs rule: arg_min_list.induct)
  case (2 f x y zs)
  then have "f (arg_min_list g (y # zs)) = g (arg_min_list g (y # zs))"
    using arg_min_list_in[of "y # zs" g] by auto
  with 2 show ?case by (auto simp: Let_def)
qed auto

text \<open>The dispatcher reads the counts of the tenants of the waiting jobs and nothing else.\<close>

lemma dispatch_next_cong:
  assumes "\<forall>j \<in> set jobs. dict_getd c (qj_tenant_id j) 0 = dict_getd d (qj_tenant_id j) 0"
  shows "dispatch_next limit threshold jobs c now = dispatch_next limit threshold jobs d now"
proof -
  have eligible: "eligible_jobs limit jobs c = eligible_jobs limit jobs d"
    using assms unfolding eligible_jobs_def by (intro filter_cong) auto
  have "arg_min_list (fairness_key c) (eligible_jobs limit jobs d) = arg_min_list (fairness_key d) (eligible_jobs limit jobs d)"
    if "eligible_jobs limit jobs d \<noteq> []"
  proof -
    have key: "\<forall>j \<in> set (eligible_jobs limit jobs d). fairness_key c j = fairness_key d j"
      using assms by (simp add: eligible_jobs_def fairness_key_def)
    with that show ?thesis by (intro arg_min_list_cong)
  qed
  with eligible show ?thesis by (simp add: dispatch_next_def Let_def)
qed

text \<open>Both controllers pick the same job, as long as Redis answers and its counters count the active jobs.\<close>

theorem controllers_select_alike:
  assumes "wc_redis_up st" "wc_per_tenant_concurrency st = 2" "wc_starvation_threshold_seconds st = 300"
    and "map snd (wm_active_jobs m) = map snd (wc_active_jobs st)"
    and "\<forall>t. dict_getd (wc_in_flight st) t 0 = active_count t st"
  shows "mem_select_next_job jobs now m = select_next_job jobs now st"
proof -
  have "active_count t st = int (length (filter (\<lambda>j. qj_tenant_id j = t) (map snd (wc_active_jobs st))))" for t
    by (simp add: active_count_def filter_map comp_def)
  then have "dict_getd (count_in_flight (map snd (wm_active_jobs m))) t 0 = tenant_in_flight t st" for t
    using assms(1,4,5) by (simp add: count_in_flight_lookup tenant_in_flight_def)
  moreover have "dict_getd (in_flight_by_tenant jobs st) (qj_tenant_id j) 0 = tenant_in_flight (qj_tenant_id j) st"
    if "j \<in> set jobs" for j
    using that by (simp add: dict_getd_def in_flight_by_tenant_get)
  ultimately show ?thesis unfolding mem_select_next_job_def select_next_job_def assms(2,3)
    by (intro dispatch_next_cong) simp
qed

text \<open>The controller in memory never lifts a drain: a worker that was drained and released takes no job
  again, where the one on Redis takes the next.\<close>

theorem drained_worker_stays_drained:
  assumes "mem_begin_drain worker_id m = (Inr lease, m1)" "mem_checkpoint_and_release worker_id ref m1 = (Inr job, m2)"
  shows "fst (mem_assign worker_id next_job m2) =
     Inl (ValueError (''Worker `'' @ worker_id @ ''` is draining and cannot accept new jobs.''))"
  using assms by (auto simp: mem_begin_drain_def mem_checkpoint_and_release_def mem_assign_def split: option.splits)

theorem released_worker_takes_jobs:
  assumes "wc_redis_up st" "checkpoint_and_release worker_id ref st = (Inr job, st')"
    and "tenant_in_flight (qj_tenant_id next_job) st' < wc_per_tenant_concurrency st'"
  shows "fst (assign worker_id next_job st') = Inr ()"
proof -
  have "worker_id \<notin> set (draining_workers st') \<and> \<not> lease_exists worker_id st' \<and> wc_redis_up st'"
    using assms(1,2) by (auto simp: checkpoint_and_release_def get_active_job_def release_worker_def draining_workers_def
        lease_exists_def Let_def split: option.splits if_splits)
  with assms(3) show ?thesis by (simp add: assign_unfold)
qed

text \<open>It does not look at the tenant's limit either: any worker that is not draining takes any job.\<close>

theorem memory_assigns_without_limit:
  "worker_id \<notin> set (wm_draining m) \<Longrightarrow> fst (mem_assign worker_id job m) = Inr ()"
  by (simp add: mem_assign_def)

text \<open>A job read back from the queue is the job that was put there, except that it is always of the
  transport's own queue.\<close>

theorem arq_roundtrip:
  "arq_queued_jobs queue_name (map (arq_enqueue function_name) jobs) = map (qj_queue_name_update (\<lambda>_. queue_name)) jobs"
  by (simp add: arq_queued_jobs_def arq_enqueue_def comp_def)

end
