(* ===== verification/BuildGates.thy ===== *)
theory BuildGates
  imports OpenApiGate
begin

text \<open>
  Two more gates of the build: \<open>src/scripts/check_license_allowlist.py\<close>, which compares the licenses of
  the dependencies with a list, and \<open>src/scripts/lint_alert_runbooks.py\<close>, which looks for the runbook of
  every paging alert. Files, the parsing of JSON and of paths are arguments.
\<close>

section \<open>Licenses\<close>

text \<open>\<open>s.split()\<close>: the maximal runs without white space.\<close>

fun words_from :: "str \<Rightarrow> str \<Rightarrow> str list" where
  "words_from word [] = (if word = [] then [] else [word])"
| "words_from word (c # s) =
     (if whitespace c then (if word = [] then [] else [word]) @ words_from [] s else words_from (word @ [c]) s)"

definition normalize_license :: "str \<Rightarrow> str" where
  "normalize_license name = str_join '' '' (words_from [] (str_strip name))"

definition normalize_json :: "json \<Rightarrow> str result" where
  "normalize_json lic = (case lic of JStr s \<Rightarrow> Inr (normalize_license s) | _ \<Rightarrow> Inl (AttributeError ''strip''))"

text \<open>\<open>d[key]\<close> and iteration over a document.\<close>

definition json_item :: "json \<Rightarrow> str \<Rightarrow> json result" where
  "json_item d key =
     (case d of JObj o' \<Rightarrow> (case dict_get o' key of None \<Rightarrow> Inl (KeyError key) | Some v \<Rightarrow> Inr v)
      | _ \<Rightarrow> Inl (TypeError ''subscript''))"

definition json_iterate :: "json \<Rightarrow> json list result" where
  "json_iterate d =
     (case d of JList l \<Rightarrow> Inr l | JObj o' \<Rightarrow> Inr (map (JStr \<circ> fst) o') | JStr s \<Rightarrow> Inr (map (\<lambda>c. JStr [c]) s)
      | _ \<Rightarrow> Inl (TypeError ''not iterable''))"

fun collect :: "('a \<Rightarrow> 'b result) \<Rightarrow> 'a list \<Rightarrow> 'b list result" where
  "collect f [] = Inr []"
| "collect f (x # xs) = bind_result (f x) (\<lambda>y. bind_result (collect f xs) (\<lambda>ys. Inr (y # ys)))"

definition load_license_report :: "json \<Rightarrow> json list result" where
  "load_license_report data =
     (case data of JList l \<Rightarrow> Inr l | JObj d \<Rightarrow> Inr (map snd d)
      | _ \<Rightarrow> Inl (ValueError ''Unexpected license report format''))"

definition joined_names :: "json \<Rightarrow> json result" where
  "joined_names license_raw =
     (case license_raw of
        JList l \<Rightarrow> bind_result (collect (\<lambda>x. case x of JStr s \<Rightarrow> Inr s | _ \<Rightarrow> Inl (TypeError ''join'')) l)
                     (\<lambda>names. Inr (JStr (str_join '', '' names)))
      | _ \<Rightarrow> Inr license_raw)"

text \<open>One entry of the report; \<open>text_of\<close> is \<open>str\<close> of a value.\<close>

definition check_entry :: "(json \<Rightarrow> str) \<Rightarrow> str list \<Rightarrow> str list \<Rightarrow> json \<Rightarrow> str list result" where
  "check_entry text_of allowed denied entry =
     bind_result (json_get entry ''package'' (JStr ''unknown'')) (\<lambda>package.
     bind_result (json_get entry ''name'' package) (\<lambda>name.
     bind_result (json_get entry ''version'' (JStr ''unknown'')) (\<lambda>version.
     bind_result (json_get entry ''licenses'' (JStr ''UNKNOWN'')) (\<lambda>licenses.
     bind_result (json_get entry ''license'' licenses) (\<lambda>license_raw.
     bind_result (bind_result (joined_names license_raw) normalize_json) (\<lambda>license_name.
       Inr (if license_name \<in> set denied
            then [''VIOLATION: '' @ text_of name @ '' '' @ text_of version @ '' uses denied license: '' @ license_name]
            else if license_name \<notin> set allowed
            then [''WARNING: '' @ text_of name @ '' '' @ text_of version @ '' uses unlisted license: '' @ license_name @
                  '' (not in allowlist; requires review)'']
            else [])))))))"

definition license_names :: "json \<Rightarrow> str \<Rightarrow> str list result" where
  "license_names allowlist key =
     bind_result (bind_result (json_item allowlist key) json_iterate) (collect normalize_json)"

definition check_licenses :: "(json \<Rightarrow> str) \<Rightarrow> json result \<Rightarrow> json result \<Rightarrow> str list result" where
  "check_licenses text_of report_file allowlist_file =
     bind_result allowlist_file (\<lambda>allowlist.
     bind_result (license_names allowlist ''allowed_licenses'') (\<lambda>allowed.
     bind_result (license_names allowlist ''denied_licenses'') (\<lambda>denied.
     bind_result (bind_result report_file load_license_report) (\<lambda>report.
     bind_result (collect (check_entry text_of allowed denied) report) (\<lambda>found. Inr (concat found))))))"

text \<open>The exit code of the command; a report that does not exist is no file, an exception ends in 1.\<close>

definition license_main :: "(json \<Rightarrow> str) \<Rightarrow> nat \<Rightarrow> json result option \<Rightarrow> json result \<Rightarrow> nat" where
  "license_main text_of argument_count report_file allowlist_file =
     (if argument_count \<noteq> 3 then 1
      else case report_file of
             None \<Rightarrow> 0
           | Some report \<Rightarrow>
               (case check_licenses text_of report allowlist_file of
                  Inl _ \<Rightarrow> 1
                | Inr violations \<Rightarrow>
                    if violations \<noteq> [] then (if 0 < length (filter (\<lambda>v. startswith v ''VIOLATION'') violations) then 1 else 0)
                    else 0))"

section \<open>Runbooks of alerts\<close>

record AlertRunbookIssue =
  ai_alert_name :: str
  ai_message :: str

record AlertRunbookReport =
  ar_issues :: "AlertRunbookIssue list"
  ar_warnings :: "str list"

definition report_passed :: "AlertRunbookReport \<Rightarrow> bool" where
  "report_passed report \<longleftrightarrow> ar_issues report = []"

text \<open>\<open>line.split(":", 1)[1]\<close> of a line that has a colon.\<close>

definition after_colon :: "str \<Rightarrow> str" where
  "after_colon line = drop 1 (dropWhile (\<lambda>c. c \<noteq> CHR 0x3A) line)"

definition strip_quotes :: "str \<Rightarrow> str" where
  "strip_quotes s = rev (dropWhile (\<lambda>c. c = CHR 0x22) (rev (dropWhile (\<lambda>c. c = CHR 0x22) s)))"

definition is_alert :: "str \<Rightarrow> bool" where
  "is_alert stripped \<longleftrightarrow> startswith stripped ''- alert:''"

definition alert_name :: "str \<Rightarrow> str" where
  "alert_name stripped = str_strip (after_colon stripped)"

text \<open>The current block runs on from one file into the next.\<close>

fun alert_blocks :: "(str \<times> str list) option \<Rightarrow> str list \<Rightarrow> (str \<times> str list) list" where
  "alert_blocks None [] = []"
| "alert_blocks (Some b) [] = [b]"
| "alert_blocks None (line # lines) =
     (let stripped = str_strip line
      in alert_blocks (if is_alert stripped then Some (alert_name stripped, [stripped]) else None) lines)"
| "alert_blocks (Some (name, block)) (line # lines) =
     (let stripped = str_strip line
      in if is_alert stripped then (name, block) # alert_blocks (Some (alert_name stripped, [stripped])) lines
         else alert_blocks (Some (name, block @ [stripped])) lines)"

definition read_alert_blocks :: "str list \<Rightarrow> (str \<times> str list) list" where
  "read_alert_blocks files = alert_blocks None (concat (map splitlines files))"

definition field_value :: "str list \<Rightarrow> str \<Rightarrow> str option" where
  "field_value block key =
     (case find (\<lambda>line. startswith line (key @ '':'')) block of
        None \<Rightarrow> None | Some line \<Rightarrow> Some (strip_quotes (str_strip (after_colon line))))"

definition has_field :: "str list \<Rightarrow> str \<Rightarrow> str \<Rightarrow> bool" where
  "has_field block key v \<longleftrightarrow> field_value block key = Some v"

text \<open>\<open>parts\<close> are the parts of a path, which decide equality and \<open>relative_to\<close>; \<open>exists\<close> asks the file system.\<close>

definition inside :: "(str \<Rightarrow> str list) \<Rightarrow> str \<Rightarrow> str \<Rightarrow> bool" where
  "inside parts dir path \<longleftrightarrow> take (length (parts dir)) (parts path) = parts dir"

definition lint_block ::
  "(str \<Rightarrow> str list) \<Rightarrow> (str \<Rightarrow> bool) \<Rightarrow> str \<Rightarrow> str \<times> str list \<Rightarrow> AlertRunbookIssue list \<times> str list" where
  "lint_block parts path_exists runbooks_dir b =
     (let issue = (\<lambda>message. ([\<lparr>ai_alert_name = fst b, ai_message = message\<rparr>], []))
      in if \<not> has_field (snd b) ''severity'' ''page'' then ([], [])
         else case field_value (snd b) ''runbook_url'' of
                None \<Rightarrow> issue ''missing runbook_url label''
              | Some url \<Rightarrow>
                  if \<not> path_exists url then issue (''runbook does not exist: '' @ url)
                  else if \<not> inside parts runbooks_dir url
                  then issue (''runbook is outside '' @ runbooks_dir @ '': '' @ url)
                  else ([], [url]))"

definition lint_alert_runbooks ::
  "(str \<Rightarrow> str list) \<Rightarrow> (str \<Rightarrow> bool) \<Rightarrow> str list \<Rightarrow> str \<Rightarrow> str list \<Rightarrow> AlertRunbookReport" where
  "lint_alert_runbooks parts path_exists files runbooks_dir runbooks =
     (let found = map (lint_block parts path_exists runbooks_dir) (read_alert_blocks files);
          referenced = map parts (concat (map snd found))
      in \<lparr>ar_issues = concat (map fst found),
          ar_warnings = map (\<lambda>path. ''orphaned runbook: '' @ path) (filter (\<lambda>path. parts path \<notin> set referenced) runbooks)\<rparr>)"

definition lint_main :: "AlertRunbookReport \<Rightarrow> str list \<times> nat" where
  "lint_main report =
     (map (\<lambda>w. ''warning: '' @ w) (ar_warnings report) @
      map (\<lambda>i. ''error: '' @ ai_alert_name i @ '': '' @ ai_message i) (ar_issues report),
      if report_passed report then 0 else 1)"

section \<open>Properties\<close>

text \<open>A report of entries with the three keys the script reads, and lists of names.\<close>

definition entry_of :: "str \<times> str \<times> str \<Rightarrow> json" where
  "entry_of = (\<lambda>(name, version, lic). JObj [(''name'', JStr name), (''version'', JStr version), (''license'', JStr lic)])"

definition allowlist_of :: "str list \<Rightarrow> str list \<Rightarrow> json" where
  "allowlist_of allowed denied =
     JObj [(''allowed_licenses'', JList (map JStr allowed)), (''denied_licenses'', JList (map JStr denied))]"

lemma allowlist_names:
  "license_names (allowlist_of allowed denied) ''allowed_licenses'' = Inr (map normalize_license allowed)"
  "license_names (allowlist_of allowed denied) ''denied_licenses'' = Inr (map normalize_license denied)"
proof -
  have "collect normalize_json (map JStr names) = Inr (map normalize_license names)" for names
    by (induction names) (simp_all add: normalize_json_def)
  then show "license_names (allowlist_of allowed denied) ''allowed_licenses'' = Inr (map normalize_license allowed)"
    "license_names (allowlist_of allowed denied) ''denied_licenses'' = Inr (map normalize_license denied)"
    by (simp_all add: license_names_def allowlist_of_def json_item_def json_iterate_def)
qed

definition verdict :: "(json \<Rightarrow> str) \<Rightarrow> str list \<Rightarrow> str list \<Rightarrow> str \<Rightarrow> str \<Rightarrow> str \<Rightarrow> str list" where
  "verdict text_of allowed denied name version lic =
     (if normalize_license lic \<in> set denied
      then [''VIOLATION: '' @ text_of (JStr name) @ '' '' @ text_of (JStr version) @ '' uses denied license: '' @ normalize_license lic]
      else if normalize_license lic \<notin> set allowed
      then [''WARNING: '' @ text_of (JStr name) @ '' '' @ text_of (JStr version) @ '' uses unlisted license: '' @ normalize_license lic @
            '' (not in allowlist; requires review)'']
      else [])"

lemma verdict_violation:
  "list_ex (\<lambda>v. startswith v ''VIOLATION'') (verdict text_of allowed denied name version lic) \<longleftrightarrow> normalize_license lic \<in> set denied"
  by (simp add: verdict_def startswith_def)

lemma license_main_verdicts:
  assumes "\<And>dep. dep \<in> set deps \<Longrightarrow>
     check_entry text_of (map normalize_license allowed) (map normalize_license denied) (entry dep) =
       Inr (verdict text_of (map normalize_license allowed) (map normalize_license denied) (name dep) (version dep) (lic dep))"
  shows "license_main text_of 3 (Some (Inr (JList (map entry deps)))) (Inr (allowlist_of allowed denied)) =
     (if \<exists>dep \<in> set deps. normalize_license (lic dep) \<in> normalize_license ` set denied then 1 else 0)"
proof -
  let ?v = "\<lambda>dep. verdict text_of (map normalize_license allowed) (map normalize_license denied) (name dep) (version dep) (lic dep)"
  have "collect (check_entry text_of (map normalize_license allowed) (map normalize_license denied)) (map entry deps) =
      Inr (map ?v deps)"
    using assms by (induction deps) auto
  then have checked: "check_licenses text_of (Inr (JList (map entry deps))) (Inr (allowlist_of allowed denied)) =
      Inr (concat (map ?v deps))"
    by (simp add: check_licenses_def allowlist_names load_license_report_def)
  have "filter (\<lambda>v. startswith v ''VIOLATION'') (concat (map ?v deps)) \<noteq> [] \<longleftrightarrow>
      (\<exists>dep \<in> set deps. list_ex (\<lambda>v. startswith v ''VIOLATION'') (?v dep))"
    by (auto simp: filter_empty_conv list_ex_iff)
  then show ?thesis by (auto simp: license_main_def checked verdict_violation)
qed

text \<open>With such a report the command blocks exactly when a dependency has a denied license: an unlisted
  one is a warning.\<close>

theorem license_gate_exact:
  "license_main text_of 3 (Some (Inr (JList (map entry_of deps)))) (Inr (allowlist_of allowed denied)) =
     (if list_ex (\<lambda>(_, _, lic). normalize_license lic \<in> normalize_license ` set denied) deps then 1 else 0)"
proof -
  have entry: "check_entry text_of as ds (entry_of dep) = Inr (verdict text_of as ds (fst dep) (fst (snd dep)) (snd (snd dep)))"
    for as ds dep
    by (cases dep) (simp add: check_entry_def entry_of_def verdict_def joined_names_def normalize_json_def dict_getd_def)
  show ?thesis
    by (subst license_main_verdicts[OF entry]) (auto simp: list_ex_iff split_beta)
qed

text \<open>The report of pip-licenses names its keys with capitals. To the script every such entry is of an
  unknown license: whatever the dependencies are, the command passes.\<close>

theorem pip_licenses_never_blocked:
  assumes "normalize_license ''UNKNOWN'' \<notin> normalize_license ` set denied"
  shows "license_main text_of 3
     (Some (Inr (JList (map (\<lambda>(name, version, lic). JObj [(''License'', JStr lic), (''Name'', JStr name), (''Version'', JStr version)]) deps))))
     (Inr (allowlist_of allowed denied)) = 0"
proof -
  have "check_entry text_of as ds (JObj [(''License'', JStr l), (''Name'', JStr n), (''Version'', JStr v)]) =
      Inr (verdict text_of as ds ''unknown'' ''unknown'' ''UNKNOWN'')" for as ds l n v
    by (simp add: check_entry_def verdict_def joined_names_def normalize_json_def dict_getd_def)
  then show ?thesis using assms
    by (subst license_main_verdicts[where name = "\<lambda>_. ''unknown''" and version = "\<lambda>_. ''unknown''" and lic = "\<lambda>_. ''UNKNOWN''"])
      (auto simp: split_beta)
qed

text \<open>Without a report there is nothing to object to.\<close>

theorem missing_report_passes: "license_main text_of 3 None allowlist_file = 0"
  by (simp add: license_main_def)

text \<open>The blocks are the lines from the first alert on, each under the alert before it.\<close>

theorem alert_blocks_complete:
  "concat (map snd (read_alert_blocks files)) =
     dropWhile (\<lambda>line. \<not> is_alert line) (map str_strip (concat (map splitlines files))) \<and>
   map fst (read_alert_blocks files) = map alert_name (filter is_alert (map str_strip (concat (map splitlines files))))"
proof -
  have "concat (map snd (alert_blocks cur lines)) =
      (case cur of None \<Rightarrow> dropWhile (\<lambda>line. \<not> is_alert line) (map str_strip lines) | Some b \<Rightarrow> snd b @ map str_strip lines) \<and>
    map fst (alert_blocks cur lines) =
      (case cur of None \<Rightarrow> [] | Some b \<Rightarrow> [fst b]) @ map alert_name (filter is_alert (map str_strip lines))" for cur lines
    by (induction cur lines rule: alert_blocks.induct) (auto simp: Let_def)
  from this[of None] show ?thesis by (simp add: read_alert_blocks_def)
qed

text \<open>The lint passes exactly when every paging alert has a runbook that exists below the directory, and
  it warns of exactly the runbooks that no such alert names.\<close>

definition paging_runbook :: "str \<times> str list \<Rightarrow> str option option" where
  "paging_runbook b = (if has_field (snd b) ''severity'' ''page'' then Some (field_value (snd b) ''runbook_url'') else None)"

theorem lint_exact:
  fixes files runbooks :: "str list" and runbooks_dir :: str and parts :: "str \<Rightarrow> str list" and path_exists :: "str \<Rightarrow> bool"
  defines "alerts \<equiv> read_alert_blocks files"
    and "report \<equiv> lint_alert_runbooks parts path_exists files runbooks_dir runbooks"
    and "good \<equiv> \<lambda>url. path_exists url \<and> inside parts runbooks_dir url"
  shows "(snd (lint_main report) = 0) =
      list_all (\<lambda>b. case paging_runbook b of None \<Rightarrow> True | Some None \<Rightarrow> False | Some (Some url) \<Rightarrow> good url) alerts \<and>
    ar_warnings report = map (\<lambda>path. ''orphaned runbook: '' @ path) (filter (\<lambda>path.
      \<not> list_ex (\<lambda>b. case paging_runbook b of Some (Some url) \<Rightarrow> good url \<and> parts url = parts path | _ \<Rightarrow> False) alerts) runbooks)"
proof -
  have block: "lint_block parts path_exists runbooks_dir b =
      (case paging_runbook b of
         None \<Rightarrow> ([], [])
       | Some None \<Rightarrow> ([\<lparr>ai_alert_name = fst b, ai_message = ''missing runbook_url label''\<rparr>], [])
       | Some (Some url) \<Rightarrow> if good url then ([], [url]) else
           ([\<lparr>ai_alert_name = fst b, ai_message = (if path_exists url then ''runbook is outside '' @ runbooks_dir @ '': '' @ url
               else ''runbook does not exist: '' @ url)\<rparr>], []))" for b
    by (auto simp: lint_block_def paging_runbook_def good_def Let_def split: option.splits)
  have "(fst (lint_block parts path_exists runbooks_dir b) = []) =
      (case paging_runbook b of None \<Rightarrow> True | Some None \<Rightarrow> False | Some (Some url) \<Rightarrow> good url)"
    "(p \<in> parts ` set (snd (lint_block parts path_exists runbooks_dir b))) =
      (case paging_runbook b of Some (Some url) \<Rightarrow> good url \<and> parts url = p | _ \<Rightarrow> False)" for b p
    by (auto simp: block split: option.splits)
  then show ?thesis
    by (simp add: report_def lint_alert_runbooks_def lint_main_def report_passed_def alerts_def list_all_iff list_ex_iff
        Let_def image_Union image_image)
qed

end
