(* ===== verification/Spec2Isabelle.thy ===== *)
theory Spec2Isabelle
  imports RunService Agents GraphConfig BudgetMemory Workers ControlPlaneCorrect WebhookCorrect
    Encryption Security MeteringCorrect KnowledgeCorrect GitHubCorrect TelemetryCorrect OperationsCorrect
    ApiVersioning CredentialsCorrect ComplianceCorrect OpenApiGateCorrect WiringCorrect MigrationsCorrect Application
    WorkersMemory BuildGates
begin

text \<open>
  A verification development of the backend under \<open>src/backend/src/backend\<close>: a service that takes a
  ticket, plans the work, drives it through coding, testing and review with a language model, and
  opens a pull request, for many tenants on one PostgreSQL database and one Redis.

  \<^bold>\<open>How the parts interact.\<close> A webhook brings a ticket in (\<open>Webhook\<close>); the dispatcher picks a job and
  the worker controller gives it to a worker under the tenant's limits (\<open>Workers\<close>); the run is pinned
  to the active configuration snapshot (\<open>ControlPlane\<close>) and executed as a graph of nodes (\<open>Workflow\<close>)
  whose state a run repository keeps (\<open>RunRepo\<close>, \<open>RunService\<close>). A node that calls a model asks the
  router (\<open>Routing\<close>), which reads the catalog (\<open>Catalog\<close>) and the circuit breakers (\<open>ProviderHealth\<close>);
  the budget ledger reserves and settles the cost (\<open>Budget\<close>), the metering ledger records the usage
  (\<open>Metering\<close>), and planner and reviewer may read the knowledge base (\<open>Knowledge\<close>). Every table of a
  tenant lies under row level security (\<open>Db\<close>), which decides what each of these stores can see. Around
  the runs stand the administrators: break-glass credentials (\<open>Credentials\<close>), retention, erasure and
  legal hold (\<open>Compliance\<close>), alerts and drift (\<open>Operations\<close>, \<open>Telemetry\<close>). The application
  (\<open>Application\<close>) puts the gate on agreements, the version gate (\<open>ApiVersioning\<close>) and the check of a
  role before the handlers; the tables come from a chain of migrations (\<open>Migrations\<close>).

  \<^bold>\<open>Which theory models what.\<close> Paths are below \<open>src/backend/src/backend\<close>.

  \<^item> \<open>Prelude\<close>, \<open>Strings\<close>: dictionaries as association lists in insertion order, exceptions as values
    (\<open>exn + 'a\<close>), stateful operations \<open>('s, 'a) operation\<close> that return the state also when they raise,
    rounding, calendar, the string methods and JSON documents the program uses.
  \<^item> \<open>RuntimeModels\<close>, \<open>Planner\<close>, \<open>BranchProtection\<close>, \<open>Workflow\<close>, \<open>WorkflowCorrect\<close>: \<open>runtime/models.py\<close>,
    \<open>planner.py\<close>, \<open>context.py\<close>, \<open>workflow.py\<close> and \<open>integrations/github/branch_protection.py\<close>. One
    definition per node and router; \<open>invoke\<close> follows the edges as the graph engine does.
  \<^item> \<open>Db\<close>, \<open>RunRepo\<close>, \<open>RunService\<close>: \<open>persistence/db.py\<close>, the policies of the migrations,
    \<open>persistence/runs.py\<close>, \<open>persistence/testing/runtime.py\<close>, and \<open>execute\<close> and \<open>resume\<close> over them.
  \<^item> \<open>Catalog\<close>, \<open>ProviderHealth\<close>, \<open>Routing\<close>: \<open>governance/catalog.py\<close>, \<open>governance/routing.py\<close> and their stores
    in \<open>persistence/governance.py\<close> and \<open>persistence/testing/governance.py\<close>, with the Redis scripts.
  \<^item> \<open>Agents\<close>, \<open>GraphConfig\<close>: \<open>control_plane/agents.py\<close> and \<open>graph.py\<close>, the validators.
  \<^item> \<open>Budget\<close>, \<open>BudgetCorrect\<close>: \<open>governance/budget.py\<close> and \<open>PostgresBudgetLedger\<close>; \<open>BudgetMemory\<close>:
    \<open>InMemoryBudgetLedger\<close>, with the journal of its calls as the abstract specification it refines.
  \<^item> \<open>Metering\<close>, \<open>MeteringCorrect\<close>: \<open>governance/metering.py\<close>, both metering ledgers, \<open>billing/api.py\<close> and
    the rollup job of \<open>worker.py\<close>.
  \<^item> \<open>Workers\<close>, \<open>WorkersMemory\<close>: \<open>platform/queue.py\<close>, \<open>platform/sandbox.py\<close>, \<open>persistence/worker.py\<close> and
    the controller of \<open>persistence/testing/worker.py\<close>.
  \<^item> \<open>ControlPlane\<close>, \<open>ControlPlaneCorrect\<close>: \<open>control_plane/shadow.py\<close>, \<open>store.py\<close>,
    \<open>persistence/control_plane.py\<close> and its in-memory counterpart.
  \<^item> \<open>Webhook\<close>, \<open>WebhookCorrect\<close>: \<open>security/webhook.py\<close>, \<open>persistence/webhook.py\<close>, the Jira endpoint of
    \<open>platform/api.py\<close> and the secret rotation of \<open>webhook/admin.py\<close>.
  \<^item> \<open>Encryption\<close>: \<open>persistence/encryption.py\<close> and the rotation job of \<open>worker.py\<close>.
  \<^item> \<open>Security\<close>: \<open>security/auth.py\<close>, \<open>prompt.py\<close>, \<open>repository.py\<close>, \<open>credentials.py\<close> and
    \<open>supply_chain/admission.py\<close>.
  \<^item> \<open>Knowledge\<close>, \<open>KnowledgeCorrect\<close>: the package \<open>knowledge\<close>.
  \<^item> \<open>GitHub\<close>, \<open>GitHubCorrect\<close>: the client and the service of \<open>integrations/github\<close>, over a GitHub whose
    answers are an argument.
  \<^item> \<open>Telemetry\<close>, \<open>TelemetryCorrect\<close>, \<open>Operations\<close>, \<open>OperationsCorrect\<close>: the metric registry and its text
    format, which is split at newlines only (no label the program writes holds another line break), the
    operational endpoints and the alert rules.
  \<^item> \<open>ApiVersioning\<close>: \<open>api/versioning.py\<close>, the middleware as one function from request to response.
  \<^item> \<open>DualControl\<close>: what two administrations share, two distinct approvers of one record, as the
    locale \<open>dual_control\<close>; it is interpreted as \<open>grants\<close> in \<open>Credentials\<close> and as \<open>deletes\<close> in \<open>Compliance\<close>.
  \<^item> \<open>Credentials\<close>, \<open>CredentialsCorrect\<close>: \<open>credentials/admin.py\<close>, with an abstract machine of grants that
    the registry refines.
  \<^item> \<open>Compliance\<close>, \<open>ComplianceCorrect\<close>: \<open>compliance/admin.py\<close>, its deletions over tables of rows, its
    calls as the steps \<open>compliance_step\<close> whose histories the safety results range over.
  \<^item> \<open>Wiring\<close>, \<open>WiringCorrect\<close>: \<open>persistence/factory.py\<close> with the settings and factories of the stores,
    which decide from the environment which implementation of each store a process gets.
  \<^item> \<open>OpenApiGate\<close>, \<open>OpenApiGateCorrect\<close>, \<open>BuildGates\<close>: \<open>src/scripts\<close>, the gates of the build that compare
    two OpenAPI documents, the licenses of the dependencies with a list, and alerts with runbooks.
  \<^item> \<open>Ddl\<close>, \<open>Migrations\<close>, \<open>SchemaTables\<close>: what a statement of the schema language does to a database, the
    seventeen revisions of \<open>src/backend/alembic/versions\<close> as scripts of such statements with the commands
    that run them, and the tables of \<open>persistence/schema.py\<close> as SQLAlchemy declares them. \<open>DdlFrame\<close>
    has what lets a script be evaluated table by table, \<open>MigrationChecks\<close> the evaluations,
    \<open>MigrationsCorrect\<close> the results.
  \<^item> \<open>Platform\<close>, \<open>Application\<close>: the handlers and the start of \<open>app.py\<close>, \<open>platform/api.py\<close> and
    \<open>webhook/admin.py\<close>; the routes of all routers with their guards, and the way of a request.

  A pydantic model or dataclass is a record, its field names prefixed by two letters that keep the
  selectors apart; a \<open>StrEnum\<close> is a datatype with its value function; a table is a list of rows; a
  Lua script is one function on the counters, since Redis runs it atomically. Names follow the source.

  \<^bold>\<open>What is shown.\<close> Runs: an execution returns, reaches exactly the outcome its guards determine,
  creates a pull request only behind every gate, pauses only with a registered sink, keeps its retry
  counters bounded, and is stored where only its tenant sees it. Configuration: an accepted graph has
  no route around a gate, an agent validator accepts exactly what the rules permit, one of two
  concurrent activations wins, and a pinned run keeps its snapshot over every history. Models: a
  selection is permitted by catalog and breaker, and both breaker stores give the same verdicts.
  Money: a ticket cap holds over every history of reservations, counters never go negative, rollups
  account for every fact once and can be rebuilt. Work: the tenant limit holds, the dispatcher is fair,
  failures are captured. Edge: a delivery is accepted exactly when authentic and processed once,
  secrets survive encryption and rotation, retrieval stays within the tenant, a request reaches the
  route of its version or is refused. Administration: break-glass access is active only behind two
  distinct approvers and within its window, erasure removes what belongs to a tenant and no more, rows
  leave the tables only with authority, and a rehearsal of the retention job predicts its run.
  Deployment: the stores of a process are all durable or all in memory, and the contract gate of the
  build blocks exactly the breaking changes nobody approved. Schema: from every revision the upgrades
  reach one and the same head, each is undone by its downgrade, none loses data; at the head thirteen
  tenant tables show exactly the rows the scope of \<open>Db\<close> admits, and the tables are those declared but
  for three differences. Routes: none hides another, in whatever order the routers are included, and a
  request for the administration without its role gets neither a success nor the work of a handler. The in-memory budget ledger refines a
  journal of its calls, from which its caps follow.
  The interfaces the code
  declares as protocols are locales (\<open>model_catalog\<close>, \<open>provider_health\<close>, \<open>run_repository\<close>,
  \<open>snapshot_store\<close>, \<open>metering_ledger\<close>), each interpreted on both of its implementations.

  \<^bold>\<open>Bounds and fuel.\<close> The graph engine stops after \<open>recursion_limit\<close> steps; \<open>steps_needed\<close> bounds the
  steps a run can take from its retry budgets, and the termination results show that a limit of that
  size is never reached. Path enumeration recurses on the nodes not yet visited. No other definition
  carries fuel. The migrations are evaluated for families of tables at a time, whose statements do not
  touch each other's, and the routes for one verb at a time, so that no evaluation grows large. Integer columns are checked against their 32 bits and money columns against
  \<open>NUMERIC(14, 6)\<close>; Python integers are unbounded and decimals exact.

  \<^bold>\<open>Where the code falls short.\<close> Several theorems exhibit a run of the code that breaks what it
  promises, on concrete inputs: sub-cent reservations are never metered, a settlement after midnight
  lifts the daily cap, settlements fail under row level security, two assignments in flight pass the
  limit, a superseded snapshot blocks the clean-up, rotated webhook secrets lose their overlap, a
  delivery id of one tenant shadows another's, expired sessions pass the role check, a period with two
  teams cannot be rolled up, a rebuild of part of an hour truncates it, an unmetered provider raises
  no drift alert, a document switched off is still retrieved, a retention rule of one tenant deletes
  the rows of another, a tenant erased may keep its rows, a gate on acknowledged agreements is passed
  without naming a tenant, a superscript digit in the version path ends in a server error, the second
  approval of a break-glass grant is never listed, one person under two subjects approves twice, a
  retired key becomes the default, a process with a database and no webhook secret accepts forged
  deliveries, the contract gate compares no operations and two harmless steps hide a break, an overrun
  loses its reservation in memory, the daily total is never reset there, fourteen tenant tables carry no
  row security, encryption keys are listed and prices changed by anyone, the profile shows the health of
  another set of stores, an allowlist is validated and forgotten, two paging alerts fire in every
  process, the license gate does not read the report it is given, and a worker drained in memory never
  works again. Each carries its explanation.

  \<^bold>\<open>Not modelled.\<close> What the framework does with a request besides (matching of paths, parsing and
  validation of parameters, the text of an answer), which is an argument; log lines and locks;
  connection pooling and retries; the graph engine, Fernet, HMAC, SHA-256, base64, JSON text, the pool
  of arq and the GitHub and Jira services, which are arguments of the definitions that use them. The
  protocol classes of \<open>persistence/contracts.py\<close> have no behaviour of their own: the locales state what
  their users rely on. \<open>testing/cluster_bootstrap.py\<close> calls command line tools, the threads of the snapshot
  broadcaster only pass messages on, and \<open>integrations/github/metrics.py\<close> writes log lines. TypeScript, Helm
  charts and shell scripts are outside.
\<close>

end
